(* ===== verification/Prelude.thy ===== *)
theory Prelude
  imports Main
begin

text \<open>
  What the components of the development share: the errors the Python code
  raises, the result type that carries them, the sequencing of fallible steps,
  tables of rows as lists, and the sums the code computes over them.

  A service function of the repository runs inside one database transaction
  (\<open>@transaction.atomic\<close>): an exception undoes everything it wrote. The model
  is \<open>err + ('db \<times> 'a)\<close>: an error value carries no state, so the caller keeps
  the state it had, which is what the rollback does.
\<close>

named_theorems result_simps \<open>evaluation of fallible steps\<close>
named_theorems table_simps \<open>sums and lookups over tables of rows\<close>

section \<open>Errors and results\<close>

text \<open>
  The exceptions with a message are the domain exceptions of
  apps/core/exceptions.py and Django's \<open>DoesNotExist\<close>; the others are those of
  Python, of its decimal module and of the database that the code lets escape.
\<close>

datatype err =
    BadRequest string
  | ConflictError string
  | Forbidden string
  | NotFoundError string
  | DoesNotExist string
  | CostingValidationError string
  | ValueError
  | TypeError
  | KeyError string
  | OverflowError
  | InvalidOperation
  | IntegrityError string
  | DataError
  | AttributeError
  | AuditUnavailable

type_synonym 'a result = "err + 'a"

definition bindE :: "'a result \<Rightarrow> ('a \<Rightarrow> 'b result) \<Rightarrow> 'b result" where
  "bindE m f = (case m of Inl e \<Rightarrow> Inl e | Inr x \<Rightarrow> f x)"

text \<open>\<open>if not c: raise e\<close>, as a step of a sequence.\<close>

definition ensure :: "bool \<Rightarrow> err \<Rightarrow> unit result" where
  "ensure c e = (if c then Inr () else Inl e)"

definition of_option :: "err \<Rightarrow> 'a option \<Rightarrow> 'a result" where
  "of_option e v = (case v of None \<Rightarrow> Inl e | Some x \<Rightarrow> Inr x)"

definition is_ok :: "'a result \<Rightarrow> bool" where
  "is_ok r = (case r of Inl _ \<Rightarrow> False | Inr _ \<Rightarrow> True)"

lemma bindE_Inl [simp, result_simps]: "bindE (Inl e) f = Inl e"
  by (simp add: bindE_def)

lemma bindE_Inr [simp, result_simps]: "bindE (Inr x) f = f x"
  by (simp add: bindE_def)

lemma bindE_eq_Inr: "bindE m f = Inr y \<longleftrightarrow> (\<exists>x. m = Inr x \<and> f x = Inr y)"
  by (cases m) auto

lemma bindE_InrE:
  assumes "bindE m f = Inr y"
  obtains x where "m = Inr x" and "f x = Inr y"
  using assms by (auto simp: bindE_eq_Inr)

lemma ensure_eq_Inr [simp]: "ensure c e = Inr u \<longleftrightarrow> c"
  by (simp add: ensure_def)

lemma ensure_True [simp, result_simps]: "ensure True e = Inr ()"
  by (simp add: ensure_def)

lemma ensure_False [simp, result_simps]: "ensure False e = Inl e"
  by (simp add: ensure_def)

lemma of_option_eq_Inr [simp]: "of_option e v = Inr x \<longleftrightarrow> v = Some x"
  by (cases v) (auto simp: of_option_def)

lemma of_option_simps [simp, result_simps]:
  "of_option e None = Inl e" "of_option e (Some x) = Inr x"
  by (simp_all add: of_option_def)

lemma is_ok_simps [simp]: "\<not> is_ok (Inl e)" "is_ok (Inr x)"
  by (simp_all add: is_ok_def)

lemma is_ok_iff: "is_ok r \<longleftrightarrow> (\<exists>x. r = Inr x)"
  by (cases r) auto

lemma bindE_assoc: "bindE (bindE m f) g = bindE m (\<lambda>x. bindE (f x) g)"
  by (cases m) auto

lemmas result_step = bindE_eq_Inr ensure_eq_Inr of_option_eq_Inr

text \<open>A loop that may raise: \<open>[f(x) for x in xs]\<close>, left to right.\<close>

fun mapE :: "('a \<Rightarrow> 'b result) \<Rightarrow> 'a list \<Rightarrow> 'b list result" where
  "mapE f [] = Inr []"
| "mapE f (x # xs) = bindE (f x) (\<lambda>y. bindE (mapE f xs) (\<lambda>ys. Inr (y # ys)))"

lemma mapE_length: "mapE f xs = Inr ys \<Longrightarrow> length ys = length xs"
  by (induction xs arbitrary: ys) (auto simp: bindE_eq_Inr)

lemma mapE_pointwise: "mapE f xs = Inr ys \<Longrightarrow> list_all2 (\<lambda>x y. f x = Inr y) xs ys"
  by (induction xs arbitrary: ys) (auto simp: bindE_eq_Inr)

section \<open>Tables\<close>

text \<open>
  A table is the list of its rows in insertion order. \<open>sum_where\<close> is
  \<open>filter(\<dots>).aggregate(Sum(\<dots>))["total"] or ZERO\<close>, \<open>update_where\<close> is a row's
  \<open>save\<close> and \<open>find\<close> is \<open>filter(\<dots>).first()\<close>.
\<close>

definition sum_where :: "('r \<Rightarrow> bool) \<Rightarrow> ('r \<Rightarrow> int) \<Rightarrow> 'r list \<Rightarrow> int" where
  "sum_where P f rows = sum_list (map f (filter P rows))"

definition update_where :: "('r \<Rightarrow> bool) \<Rightarrow> ('r \<Rightarrow> 'r) \<Rightarrow> 'r list \<Rightarrow> 'r list" where
  "update_where P f rows = map (\<lambda>r. if P r then f r else r) rows"

lemma sum_where_simps [simp, table_simps]:
  "sum_where P f [] = 0"
  "sum_where P f (r # rows) = (if P r then f r else 0) + sum_where P f rows"
  "sum_where P f (xs @ ys) = sum_where P f xs + sum_where P f ys"
  by (simp_all add: sum_where_def)

lemma sum_where_nonneg: "(\<And>r. r \<in> set rows \<Longrightarrow> P r \<Longrightarrow> 0 \<le> f r) \<Longrightarrow> 0 \<le> sum_where P f rows"
  by (induction rows) auto

lemma sum_where_cong [fundef_cong]:
  assumes "rows = rows'" and "\<And>r. r \<in> set rows' \<Longrightarrow> P r = Q r"
    and "\<And>r. r \<in> set rows' \<Longrightarrow> Q r \<Longrightarrow> f r = g r"
  shows "sum_where P f rows = sum_where Q g rows'"
  using assms(2,3) unfolding assms(1) by (induction rows') auto

lemma sum_where_none: "(\<And>r. r \<in> set rows \<Longrightarrow> \<not> P r) \<Longrightarrow> sum_where P f rows = 0"
  by (induction rows) auto

lemma sum_where_mono_pred:
  assumes "\<And>r. r \<in> set rows \<Longrightarrow> P r \<Longrightarrow> Q r"
    and "\<And>r. r \<in> set rows \<Longrightarrow> Q r \<Longrightarrow> 0 \<le> f r"
  shows "sum_where P f rows \<le> sum_where Q f rows"
  using assms by (induction rows) (auto intro: add_mono add_increasing)

lemma sum_where_split:
  "sum_where P f rows = sum_where (\<lambda>r. P r \<and> Q r) f rows + sum_where (\<lambda>r. P r \<and> \<not> Q r) f rows"
  by (induction rows) auto

lemma sum_where_le_member:
  assumes "r \<in> set rows" and "P r" and "\<And>x. x \<in> set rows \<Longrightarrow> P x \<Longrightarrow> 0 \<le> f x"
  shows "f r \<le> sum_where P f rows"
  using assms
proof (induction rows)
  case Nil
  then show ?case by simp
next
  case (Cons x rows)
  have rest: "0 \<le> sum_where P f rows"
    using Cons.prems(3) by (intro sum_where_nonneg) simp
  show ?case
  proof (cases "r = x")
    case True
    with rest Cons.prems(2) show ?thesis by simp
  next
    case False
    with Cons.prems have "f r \<le> sum_where P f rows" by (intro Cons.IH) auto
    moreover have "0 \<le> (if P x then f x else 0)" using Cons.prems(3) by simp
    ultimately show ?thesis by simp
  qed
qed

lemma length_update_where [simp]: "length (update_where P f rows) = length rows"
  by (simp add: update_where_def)

lemma update_where_Nil [simp]: "update_where P f [] = []"
  by (simp add: update_where_def)

lemma update_where_Cons [simp]:
  "update_where P f (r # rows) = (if P r then f r else r) # update_where P f rows"
  by (simp add: update_where_def)

lemma set_update_where: "set (update_where P f rows) = (\<lambda>r. if P r then f r else r) ` set rows"
  by (simp add: update_where_def)

lemma map_update_where:
  assumes "\<And>r. g (f r) = g r"
  shows "map g (update_where P f rows) = map g rows"
  by (simp add: update_where_def assms)

lemma sum_where_update_where:
  assumes "\<And>r. r \<in> set rows \<Longrightarrow> P r \<Longrightarrow> Q (f r) = Q r \<and> g (f r) = g r"
  shows "sum_where Q g (update_where P f rows) = sum_where Q g rows"
  using assms by (induction rows) auto

lemma find_Some_set: "find P rows = Some r \<Longrightarrow> r \<in> set rows \<and> P r"
  by (auto simp: find_Some_iff)

lemma find_update_where:
  assumes "\<And>r. Q (f r) = Q r"
  shows "find Q (update_where P f rows) = map_option (\<lambda>r. if P r then f r else r) (find Q rows)"
  using assms by (induction rows) auto

lemma find_append:
  "find P (xs @ ys) = (case find P xs of None \<Rightarrow> find P ys | Some r \<Rightarrow> Some r)"
  by (induction xs) auto

text \<open>Rows under a unique key \<open>k\<close>: taking one out, changing one, putting a saved row back.\<close>

lemma sum_where_remove:
  assumes "distinct (map k rows)" and "r \<in> set rows" and "P r"
  shows "sum_where (\<lambda>x. P x \<and> k x \<noteq> k r) f rows = sum_where P f rows - f r"
  using assms
proof (induction rows)
  case (Cons x rows)
  show ?case
  proof (cases "x = r")
    case True
    have "sum_where (\<lambda>y. P y \<and> k y \<noteq> k r) f rows = sum_where P f rows"
      using Cons.prems(1) True by (intro sum_where_cong) (auto simp: rev_image_eqI)
    with True Cons.prems(3) show ?thesis by simp
  next
    case False
    with Cons.prems have "r \<in> set rows" and "k x \<noteq> k r" by auto
    with Cons show ?thesis by simp
  qed
qed simp

lemma sum_where_change:
  assumes "distinct (map k rows)" and "r \<in> set rows"
    and "\<And>s. s \<in> set rows \<Longrightarrow> k s \<noteq> k r \<Longrightarrow> g s = f s"
  shows "sum_where P g rows = sum_where P f rows + (if P r then g r - f r else 0)"
  using assms
proof (induction rows)
  case (Cons x rows)
  show ?case
  proof (cases "x = r")
    case True
    have "k s \<noteq> k r" if "s \<in> set rows" for s
      using Cons.prems(1) True that by (auto simp: rev_image_eqI)
    then have "sum_where P g rows = sum_where P f rows"
      using Cons.prems(3) by (intro sum_where_cong) auto
    with True show ?thesis by simp
  next
    case False
    with Cons.prems have "r \<in> set rows" and "k x \<noteq> k r" by auto
    with Cons show ?thesis by simp
  qed
qed simp

lemma map_replace:
  assumes "\<And>x. x \<in> set rows \<Longrightarrow> k x = k b \<Longrightarrow> h x = h b"
  shows "map h (update_where (\<lambda>x. k x = k b) (\<lambda>_. b) rows) = map h rows"
  using assms by (induction rows) auto

lemma set_replace:
  "x \<in> set (update_where (\<lambda>x. k x = k b) (\<lambda>_. b) rows) \<Longrightarrow> x = b \<or> x \<in> set rows"
  by (auto simp: set_update_where split: if_splits)

lemma ball_replace:
  assumes "\<forall>x \<in> set rows. Q x" and "Q b"
  shows "\<forall>x \<in> set (update_where (\<lambda>x. k x = k b) (\<lambda>_. b) rows). Q x"
  using assms by (auto simp: set_update_where)

lemma distinct_key_unique:
  assumes "distinct (map k rows)" and "r \<in> set rows" and "s \<in> set rows" and "k r = k s"
  shows "r = s"
  using assms by (simp add: distinct_map inj_on_def)

section \<open>Contracts shared by several components\<close>

text \<open>
  A table whose rows carry a unique key. The laws are what the code relies on
  when it fetches a row by key: the key of a row never changes under the
  component's writes, and a new row brings a key no other row has.
\<close>

locale keyed_table =
  fixes key :: "'r \<Rightarrow> 'k"
    and rows :: "'db \<Rightarrow> 'r list"
    and wf :: "'db \<Rightarrow> bool"
  assumes distinct_keys: "wf db \<Longrightarrow> distinct (map key (rows db))"
begin

lemma lookup_unique:
  assumes "wf db" and "r \<in> set (rows db)"
  shows "find (\<lambda>x. key x = key r) (rows db) = Some r"
proof -
  have "distinct (map key xs) \<Longrightarrow> r \<in> set xs \<Longrightarrow> find (\<lambda>x. key x = key r) xs = Some r" for xs
    by (induction xs) auto
  with distinct_keys [OF assms(1)] assms(2) show ?thesis by blast
qed

lemma same_key_same_row:
  assumes "wf db" and "r \<in> set (rows db)" and "s \<in> set (rows db)" and "key r = key s"
  shows "r = s"
  using distinct_keys [OF assms(1)] assms(2-4) by (simp add: distinct_map inj_on_def)

end

text \<open>
  An exact split of an integer amount into \<open>n\<close> shares, and what follows for a
  pool of several amounts split share by share.
\<close>

locale exact_split =
  fixes share :: "int \<Rightarrow> nat \<Rightarrow> int list"
  assumes share_length: "length (share amount n) = n"
    and share_sum: "0 < n \<Longrightarrow> sum_list (share amount n) = amount"
    and share_spread: "x \<in> set (share amount n) \<Longrightarrow> y \<in> set (share amount n) \<Longrightarrow> x - y \<le> 1"
begin

lemma share_pool_sum:
  assumes "0 < n"
  shows "(\<Sum>i<n. sum_list (map (\<lambda>v. share v n ! i) pool)) = sum_list pool"
proof (induction pool)
  case Nil
  show ?case by simp
next
  case (Cons v pool)
  have "(\<Sum>i<n. share v n ! i) = v"
    using share_sum [OF assms, of v] share_length [of v n]
    by (metis atLeast0LessThan sum_list_sum_nth)
  with Cons.IH show ?case by (simp add: sum.distrib)
qed

lemma share_bounds:
  assumes "0 < n" and "x \<in> set (share amount n)"
  shows "int n * (x - 1) \<le> amount" and "amount \<le> int n * (x + 1)"
proof -
  have *: "y \<in> set ys \<Longrightarrow> (\<And>z. z \<in> set ys \<Longrightarrow> x - 1 \<le> z \<and> z \<le> x + 1) \<Longrightarrow>
      int (length ys) * (x - 1) \<le> sum_list ys \<and> sum_list ys \<le> int (length ys) * (x + 1)"
    for y and ys :: "int list"
  proof (induction ys arbitrary: y)
    case (Cons w ws)
    then have "x - 1 \<le> w \<and> w \<le> x + 1" by simp
    moreover have "int (length ws) * (x - 1) \<le> sum_list ws \<and> sum_list ws \<le> int (length ws) * (x + 1)"
    proof (cases ws)
      case (Cons u us)
      with Cons.prems show ?thesis by (intro Cons.IH [of u]) auto
    qed simp
    ultimately show ?case by (simp add: algebra_simps)
  qed simp
  have near: "x - 1 \<le> z \<and> z \<le> x + 1" if "z \<in> set (share amount n)" for z
    using share_spread [OF assms(2) that] share_spread [OF that assms(2)] by simp
  from * [OF assms(2) near] show "int n * (x - 1) \<le> amount" "amount \<le> int n * (x + 1)"
    by (simp_all add: share_length share_sum [OF assms(1)])
qed

end

end
