(* ===== verification/PyValues.thy ===== *)
theory PyValues
  imports Prelude "HOL-Library.Char_ord"
begin

text \<open>
  The values a request payload carries and what the code does with them:
  Python's truth values, \<open>str\<close>, \<open>strip\<close>, \<open>int\<close> and the constructor and
  \<open>quantize\<close> of \<open>decimal.Decimal\<close>. Strings are ASCII. A JSON list or object
  inside a payload is a separate argument of the operation that reads it.
\<close>

section \<open>Payload values\<close>

text \<open>
  \<open>JFloat t\<close> is a float with the text \<open>t\<close> that \<open>repr\<close> prints for it; a JSON
  document has no infinity and no NaN.
\<close>

datatype jval = JNone | JBool bool | JInt int | JFloat string | JStr string

type_synonym payload = "string \<rightharpoonup> jval"

definition payload_get :: "payload \<Rightarrow> string \<Rightarrow> jval" where
  "payload_get data k = (case data k of None \<Rightarrow> JNone | Some v \<Rightarrow> v)"

lemma payload_get_simps [simp]:
  "payload_get Map.empty k = JNone"
  "payload_get (data(k \<mapsto> v)) k' = (if k' = k then v else payload_get data k')"
  by (simp_all add: payload_get_def)

section \<open>Characters and text\<close>

definition char_code :: "char \<Rightarrow> nat" where
  "char_code c = of_char c"

definition is_space :: "char \<Rightarrow> bool" where
  "is_space c = (let n = char_code c in (9 \<le> n \<and> n \<le> 13) \<or> (28 \<le> n \<and> n \<le> 32))"

definition is_digit :: "char \<Rightarrow> bool" where
  "is_digit c = (let n = char_code c in 48 \<le> n \<and> n \<le> 57)"

definition digit_val :: "char \<Rightarrow> nat" where
  "digit_val c = char_code c - 48"

definition digit_char :: "nat \<Rightarrow> char" where
  "digit_char d = char_of (48 + d)"

definition lower_char :: "char \<Rightarrow> char" where
  "lower_char c = (let n = char_code c in if 65 \<le> n \<and> n \<le> 90 then char_of (n + 32) else c)"

definition upper_char :: "char \<Rightarrow> char" where
  "upper_char c = (let n = char_code c in if 97 \<le> n \<and> n \<le> 122 then char_of (n - 32) else c)"

definition lower :: "string \<Rightarrow> string" where
  "lower s = map lower_char s"

definition upper :: "string \<Rightarrow> string" where
  "upper s = map upper_char s"

definition strip :: "string \<Rightarrow> string" where
  "strip s = rev (dropWhile is_space (rev (dropWhile is_space s)))"

fun show_nat :: "nat \<Rightarrow> string" where
  "show_nat n = (if n < 10 then [digit_char n] else show_nat (n div 10) @ [digit_char (n mod 10)])"

declare show_nat.simps [simp del]

definition show_int :: "int \<Rightarrow> string" where
  "show_int n = (if n < 0 then CHR ''-'' # show_nat (nat (- n)) else show_nat (nat n))"

definition digits_val :: "string \<Rightarrow> nat" where
  "digits_val s = foldl (\<lambda>a c. 10 * a + digit_val c) 0 s"

lemma strip_no_space: "s \<noteq> [] \<Longrightarrow> \<not> is_space (hd s) \<Longrightarrow> \<not> is_space (last s) \<Longrightarrow> strip s = s"
proof -
  assume a: "s \<noteq> []" "\<not> is_space (hd s)" "\<not> is_space (last s)"
  then have "dropWhile is_space s = s" by (cases s) auto
  moreover have "dropWhile is_space (rev s) = rev s"
    using a(1,3) by (cases "rev s") (auto simp: hd_rev [symmetric])
  ultimately show ?thesis by (simp add: strip_def)
qed

lemma strip_strip [simp]: "strip (strip s) = strip s"
proof (cases "strip s = []")
  case True
  have "strip [] = []" by (simp add: strip_def)
  with True show ?thesis by simp
next
  case False
  let ?t = "dropWhile is_space s"
  have l: "\<not> is_space (last (strip s))"
    using False hd_dropWhile [of is_space "rev ?t"] by (simp add: strip_def last_rev)
  have "?t = [] \<Longrightarrow> strip s = []" by (simp only: strip_def rev.simps dropWhile.simps)
  with False have "?t \<noteq> []" by blast
  then have h: "\<not> is_space (hd ?t)" by (rule hd_dropWhile)
  have "?t = strip s @ rev (takeWhile is_space (rev ?t))"
    by (metis rev_append rev_rev_ident strip_def takeWhile_dropWhile_id)
  with False have "hd (strip s) = hd ?t" by (metis hd_append2)
  with h l False show ?thesis by (intro strip_no_space) auto
qed

lemma char_code_digit: "d < 10 \<Longrightarrow> char_code (digit_char d) = 48 + d"
  by (simp add: char_code_def digit_char_def)

lemma is_digit_digit_char [simp]: "d < 10 \<Longrightarrow> is_digit (digit_char d)"
  by (simp add: is_digit_def Let_def char_code_digit)

lemma digit_val_digit_char [simp]: "d < 10 \<Longrightarrow> digit_val (digit_char d) = d"
  by (simp add: digit_val_def char_code_digit)

lemma show_nat_digits: "\<forall>c \<in> set (show_nat n). is_digit c"
  by (induction n rule: show_nat.induct) (subst show_nat.simps, auto)

lemma show_nat_nonempty: "show_nat n \<noteq> []"
  by (subst show_nat.simps) simp

lemma digits_val_append: "digits_val (s @ [c]) = 10 * digits_val s + digit_val c"
  by (simp add: digits_val_def)

lemma digits_val_show_nat: "digits_val (show_nat n) = n"
proof (induction n rule: show_nat.induct)
  case (1 n)
  show ?case
  proof (cases "n < 10")
    case True
    then show ?thesis by (subst show_nat.simps) (simp add: digits_val_def)
  next
    case False
    with 1 have "digits_val (show_nat (n div 10)) = n div 10" by simp
    with False show ?thesis by (subst show_nat.simps) (simp add: digits_val_append)
  qed
qed

section \<open>Decimal numbers\<close>

text \<open>
  \<open>Finite c e\<close> is the number \<open>c * 10 ^ e\<close>. \<open>ndigits\<close> counts the decimal digits of
  a coefficient; the default context keeps 28.
\<close>

datatype dec = Finite int int | Infinite | NotANumber

fun ndigits :: "nat \<Rightarrow> nat" where
  "ndigits n = (if n < 10 then 1 else Suc (ndigits (n div 10)))"

declare ndigits.simps [simp del]

definition decimal_precision :: nat where
  "decimal_precision = 28"

definition decimal_exponent_ok :: "int \<Rightarrow> int \<Rightarrow> bool" where
  "decimal_exponent_ok c e \<longleftrightarrow>
     e + int (ndigits (nat \<bar>c\<bar>)) - 1 \<le> 999999999999999999 \<and> - 1999999999999999997 \<le> e"

definition mk_finite :: "int \<Rightarrow> int \<Rightarrow> dec option" where
  "mk_finite c e = (if decimal_exponent_ok c e then Some (Finite c e) else None)"

text \<open>
  The grammar of \<open>Decimal(text)\<close>: blanks around it are dropped and underscores
  ignored; then a sign, digits with at most one point and at least one digit, an
  exponent; or an infinity or a NaN.
\<close>

definition split_sign :: "string \<Rightarrow> bool \<times> string" where
  "split_sign s = (case s of [] \<Rightarrow> (False, [])
     | c # cs \<Rightarrow> if c = CHR ''-'' then (True, cs) else if c = CHR ''+'' then (False, cs) else (False, s))"

definition all_digits :: "string \<Rightarrow> bool" where
  "all_digits s \<longleftrightarrow> s \<noteq> [] \<and> list_all is_digit s"

definition parse_exponent :: "string \<Rightarrow> int option" where
  "parse_exponent s = (case s of [] \<Rightarrow> Some 0
     | c # cs \<Rightarrow>
        if c = CHR ''e'' then
          (let (neg, ds) = split_sign cs in
           if all_digits ds then Some (if neg then - int (digits_val ds) else int (digits_val ds))
           else None)
        else None)"

definition parse_number :: "bool \<Rightarrow> string \<Rightarrow> dec option" where
  "parse_number neg s =
     (let ip = takeWhile is_digit s; r = dropWhile is_digit s;
          (fp, r') = (case r of [] \<Rightarrow> ([], [])
             | c # cs \<Rightarrow> if c = CHR ''.'' then (takeWhile is_digit cs, dropWhile is_digit cs)
                        else ([], r));
          ds = ip @ fp
      in if ds = [] then None
         else (case parse_exponent r' of None \<Rightarrow> None
           | Some e \<Rightarrow>
              let c = int (digits_val ds)
              in mk_finite (if neg then - c else c) (e - int (length fp))))"

definition parse_decimal :: "string \<Rightarrow> dec option" where
  "parse_decimal text =
     (let (neg, s) = split_sign (lower (filter (\<lambda>c. c \<noteq> CHR ''_'') (strip text))) in
      if s = ''inf'' \<or> s = ''infinity'' then Some Infinite
      else if take 3 s = ''nan'' \<and> list_all is_digit (drop 3 s) then Some NotANumber
      else if take 4 s = ''snan'' \<and> list_all is_digit (drop 4 s) then Some NotANumber
      else parse_number neg s)"

text \<open>\<open>parsed.quantize(Decimal("0.01"))\<close> in hundredths: half-even, \<open>None\<close> where it raises.\<close>

definition round_half_even :: "int \<Rightarrow> int \<Rightarrow> int" where
  "round_half_even c d =
     (let q = c div d; r = c mod d in
      if 2 * r < d then q else if d < 2 * r then q + 1 else if even q then q else q + 1)"

definition quantize_cents :: "int \<Rightarrow> int \<Rightarrow> int option" where
  "quantize_cents c e =
     (let q = (if - 2 \<le> e then c * 10 ^ nat (e + 2) else round_half_even c (10 ^ nat (- 2 - e)))
      in if ndigits (nat \<bar>q\<bar>) \<le> decimal_precision then Some q else None)"

text \<open>\<open>parsed == parsed.quantize(Decimal("0.01"))\<close>, given the quantized value.\<close>

definition equals_cents :: "int \<Rightarrow> int \<Rightarrow> int \<Rightarrow> bool" where
  "equals_cents c e q = (if - 2 \<le> e then True else q * 10 ^ nat (- 2 - e) = c)"

section \<open>Truth, text and whole numbers of payload values\<close>

definition py_str :: "jval \<Rightarrow> string" where
  "py_str v = (case v of JNone \<Rightarrow> ''None'' | JBool b \<Rightarrow> (if b then ''True'' else ''False'')
     | JInt n \<Rightarrow> show_int n | JFloat t \<Rightarrow> t | JStr s \<Rightarrow> s)"

definition truthy :: "jval \<Rightarrow> bool" where
  "truthy v = (case v of JNone \<Rightarrow> False | JBool b \<Rightarrow> b | JInt n \<Rightarrow> n \<noteq> 0
     | JFloat t \<Rightarrow> (case parse_decimal t of Some (Finite c e) \<Rightarrow> c \<noteq> 0 | _ \<Rightarrow> True)
     | JStr s \<Rightarrow> s \<noteq> [])"

definition py_or :: "jval \<Rightarrow> jval \<Rightarrow> jval" where
  "py_or v d = (if truthy v then v else d)"

fun digit_groups :: "string \<Rightarrow> bool" where
  "digit_groups [] = False"
| "digit_groups [c] = is_digit c"
| "digit_groups (c # d # cs) =
     (is_digit c \<and> (if d = CHR ''_'' then digit_groups cs else digit_groups (d # cs)))"

definition py_int_of_text :: "string \<Rightarrow> int option" where
  "py_int_of_text text =
     (let (neg, s) = split_sign (strip text) in
      if digit_groups s
      then (let n = int (digits_val (filter is_digit s)) in Some (if neg then - n else n))
      else None)"

text \<open>\<open>int(v)\<close>: a float is truncated towards zero.\<close>

definition truncate_decimal :: "int \<Rightarrow> int \<Rightarrow> int" where
  "truncate_decimal c e =
     (if 0 \<le> e then c * 10 ^ nat e else sgn c * (\<bar>c\<bar> div 10 ^ nat (- e)))"

definition py_int :: "jval \<Rightarrow> int result" where
  "py_int v = (case v of JNone \<Rightarrow> Inl TypeError | JBool b \<Rightarrow> Inr (if b then 1 else 0)
     | JInt n \<Rightarrow> Inr n
     | JFloat t \<Rightarrow> (case parse_decimal t of Some (Finite c e) \<Rightarrow> Inr (truncate_decimal c e)
                    | _ \<Rightarrow> Inl ValueError)
     | JStr s \<Rightarrow> of_option ValueError (py_int_of_text s))"

lemma truthy_simps [simp]:
  "\<not> truthy JNone" "truthy (JBool b) = b" "truthy (JInt n) = (n \<noteq> 0)"
  "truthy (JStr s) = (s \<noteq> [])"
  by (simp_all add: truthy_def)

lemma py_int_simps [simp]:
  "py_int JNone = Inl TypeError" "py_int (JInt n) = Inr n"
  "py_int (JBool b) = Inr (if b then 1 else 0)"
  by (simp_all add: py_int_def)

lemma py_str_JStr [simp]: "py_str (JStr s) = s"
  by (simp add: py_str_def)

subsection \<open>The decimal constructor reads back a printed whole number\<close>

lemma digit_not_special:
  assumes "is_digit c"
  shows "\<not> is_space c" "c \<noteq> CHR ''-''" "c \<noteq> CHR ''+''" "c \<noteq> CHR ''_''" "lower_char c = c"
    "c \<noteq> CHR ''n''" "c \<noteq> CHR ''s''" "c \<noteq> CHR ''i''"
  using assms by (auto simp: is_digit_def is_space_def lower_char_def char_code_def Let_def)

lemma lower_digits: "\<forall>c \<in> set s. is_digit c \<Longrightarrow> lower s = s"
  by (induction s) (auto simp: lower_def digit_not_special)

lemma filter_digits: "\<forall>c \<in> set s. is_digit c \<Longrightarrow> filter (\<lambda>c. c \<noteq> CHR ''_'') s = s"
  by (auto simp: filter_id_conv digit_not_special)

lemma takeWhile_digits:
  "\<forall>c \<in> set s. is_digit c \<Longrightarrow> takeWhile is_digit s = s \<and> dropWhile is_digit s = []"
  by (induction s) auto

lemma parse_number_digits:
  assumes "\<forall>c \<in> set s. is_digit c" and "s \<noteq> []"
  shows "parse_number neg s =
    mk_finite (if neg then - int (digits_val s) else int (digits_val s)) 0"
  using assms by (simp add: parse_number_def takeWhile_digits parse_exponent_def)

lemma parse_decimal_digits:
  assumes "\<forall>c \<in> set s. is_digit c" and "s \<noteq> []"
  shows "parse_decimal s = mk_finite (int (digits_val s)) 0"
    and "parse_decimal (CHR ''-'' # s) = mk_finite (- int (digits_val s)) 0"
proof -
  obtain c cs where s: "s = c # cs" using assms(2) by (cases s) auto
  have c: "is_digit c" using assms(1) s by simp
  have words: "s \<noteq> ''inf''" "s \<noteq> ''infinity''" "take 3 s \<noteq> ''nan''" "take 4 s \<noteq> ''snan''"
    using digit_not_special [OF c] s by (auto simp: numeral_eq_Suc)
  have h: "\<not> is_space (last s)" using assms by (simp add: digit_not_special)
  have s1: "strip s = s"
    using h s digit_not_special(1) [OF c] by (intro strip_no_space) auto
  have "\<not> is_space (CHR ''-'')" by (simp add: is_space_def char_code_def)
  with h assms(2) have s2: "strip (CHR ''-'' # s) = CHR ''-'' # s"
    by (intro strip_no_space) auto
  have "lower (CHR ''-'' # s) = CHR ''-'' # s"
    using lower_digits [OF assms(1)] by (simp add: lower_def lower_char_def char_code_def)
  with s2 words show "parse_decimal (CHR ''-'' # s) = mk_finite (- int (digits_val s)) 0"
    by (simp add: parse_decimal_def filter_digits [OF assms(1)] split_sign_def
        parse_number_digits [OF assms])
  have "split_sign s = (False, s)"
    using s digit_not_special [OF c] by (simp add: split_sign_def)
  with s1 words show "parse_decimal s = mk_finite (int (digits_val s)) 0"
    by (simp add: parse_decimal_def filter_digits [OF assms(1)] lower_digits [OF assms(1)]
        parse_number_digits [OF assms])
qed

lemma parse_decimal_show_int: "parse_decimal (show_int n) = mk_finite n 0"
  using parse_decimal_digits [OF show_nat_digits show_nat_nonempty, of "nat n"]
    parse_decimal_digits [OF show_nat_digits show_nat_nonempty, of "nat (- n)"]
  by (simp add: show_int_def digits_val_show_nat)

lemma ndigits_pos: "1 \<le> ndigits n"
  by (subst ndigits.simps) simp

lemma ndigits_bound: "n < 10 ^ k \<Longrightarrow> ndigits n \<le> max 1 k"
proof (induction k arbitrary: n)
  case 0
  then show ?case by (subst ndigits.simps) simp
next
  case (Suc k)
  show ?case
  proof (cases "n < 10")
    case True
    then show ?thesis by (subst ndigits.simps) simp
  next
    case False
    have "n div 10 < 10 ^ k" using Suc.prems by (simp add: less_mult_imp_div_less mult.commute)
    moreover have "k \<noteq> 0" using False Suc.prems by (cases k) auto
    ultimately have "ndigits (n div 10) \<le> k" using Suc.IH [of "n div 10"] by simp
    with False show ?thesis by (subst ndigits.simps) simp
  qed
qed

lemma ndigits_bound_pos: "n < 10 ^ k \<Longrightarrow> 0 < k \<Longrightarrow> ndigits n \<le> k"
  using ndigits_bound [of n k] by simp

end
