(* ===== verification/CalendarDates.thy ===== *)
theory CalendarDates
  imports Prelude
begin

text \<open>
  Python's \<open>datetime.date\<close>: the proleptic Gregorian calendar, its order, its day
  numbers (\<open>toordinal\<close>), the length of a month (\<open>calendar.monthrange\<close>), weekdays
  and the addition of days (\<open>timedelta\<close>).
\<close>

datatype date = Date (year: int) (month: int) (day: int)

definition leap_year :: "int \<Rightarrow> bool" where
  "leap_year y \<longleftrightarrow> y mod 4 = 0 \<and> (y mod 100 \<noteq> 0 \<or> y mod 400 = 0)"

definition days_in_month :: "int \<Rightarrow> int \<Rightarrow> int" where
  "days_in_month y m =
     (if m = 2 then (if leap_year y then 29 else 28)
      else if m = 4 \<or> m = 6 \<or> m = 9 \<or> m = 11 then 30 else 31)"

definition days_before_month :: "int \<Rightarrow> int \<Rightarrow> int" where
  "days_before_month y m = sum_list (map (days_in_month y) [1..m - 1])"

definition days_before_year :: "int \<Rightarrow> int" where
  "days_before_year y = (let p = y - 1 in p * 365 + p div 4 - p div 100 + p div 400)"

definition valid_date :: "date \<Rightarrow> bool" where
  "valid_date d \<longleftrightarrow> 1 \<le> month d \<and> month d \<le> 12 \<and> 1 \<le> day d \<and> day d \<le> days_in_month (year d) (month d)"

definition to_ordinal :: "date \<Rightarrow> int" where
  "to_ordinal d = days_before_year (year d) + days_before_month (year d) (month d) + day d"

text \<open>\<open>date.weekday()\<close>: Monday is 0. Day 1 of the calendar is a Monday.\<close>

definition weekday :: "date \<Rightarrow> int" where
  "weekday d = (to_ordinal d + 6) mod 7"

definition next_day :: "date \<Rightarrow> date" where
  "next_day d =
     (if day d < days_in_month (year d) (month d) then Date (year d) (month d) (day d + 1)
      else if month d < 12 then Date (year d) (month d + 1) 1
      else Date (year d + 1) 1 1)"

definition prev_day :: "date \<Rightarrow> date" where
  "prev_day d =
     (if 1 < day d then Date (year d) (month d) (day d - 1)
      else if 1 < month d then Date (year d) (month d - 1) (days_in_month (year d) (month d - 1))
      else Date (year d - 1) 12 31)"

text \<open>\<open>d + timedelta(days=n)\<close>; Python raises past the year 9999 or before the year 1.\<close>

definition add_days :: "date \<Rightarrow> int \<Rightarrow> date" where
  "add_days d n = (if 0 \<le> n then (next_day ^^ nat n) d else (prev_day ^^ nat (- n)) d)"

definition py_add_days :: "date \<Rightarrow> int \<Rightarrow> date result" where
  "py_add_days d n =
     (let r = add_days d n in if 1 \<le> year r \<and> year r \<le> 9999 then Inr r else Inl OverflowError)"

section \<open>The order of dates\<close>

definition date_le :: "date \<Rightarrow> date \<Rightarrow> bool" where
  "date_le a b \<longleftrightarrow> year a < year b \<or> (year a = year b \<and>
     (month a < month b \<or> (month a = month b \<and> day a \<le> day b)))"

instantiation date :: linorder
begin

definition less_eq_date :: "date \<Rightarrow> date \<Rightarrow> bool" where
  "less_eq_date a b \<longleftrightarrow> date_le a b"

definition less_date :: "date \<Rightarrow> date \<Rightarrow> bool" where
  "less_date a b \<longleftrightarrow> date_le a b \<and> \<not> date_le b a"

instance
proof
  fix a b c :: date
  show "a < b \<longleftrightarrow> a \<le> b \<and> \<not> b \<le> a" by (simp add: less_eq_date_def less_date_def)
  show "a \<le> a" by (simp add: less_eq_date_def date_le_def)
  show "a \<le> b \<Longrightarrow> b \<le> c \<Longrightarrow> a \<le> c" by (auto simp: less_eq_date_def date_le_def)
  show "a \<le> b \<Longrightarrow> b \<le> a \<Longrightarrow> a = b"
    by (cases a; cases b) (auto simp: less_eq_date_def date_le_def)
  show "a \<le> b \<or> b \<le> a" by (auto simp: less_eq_date_def date_le_def)
qed

end

lemma less_eq_Date [simp]:
  "Date y m d \<le> Date y' m' d' \<longleftrightarrow> y < y' \<or> (y = y' \<and> (m < m' \<or> (m = m' \<and> d \<le> d')))"
  by (simp add: less_eq_date_def date_le_def)

lemma less_Date [simp]:
  "Date y m d < Date y' m' d' \<longleftrightarrow> y < y' \<or> (y = y' \<and> (m < m' \<or> (m = m' \<and> d < d')))"
  by (auto simp: less_date_def date_le_def)

section \<open>Day numbers follow the calendar\<close>

lemma days_in_month_bounds: "28 \<le> days_in_month y m" "days_in_month y m \<le> 31"
  by (simp_all add: days_in_month_def)

lemma days_before_month_Suc:
  "1 \<le> m \<Longrightarrow> days_before_month y (m + 1) = days_before_month y m + days_in_month y m"
proof -
  assume "1 \<le> m"
  then have "[1..m] = [1..m - 1] @ [m]" by (metis upto_rec2)
  then show ?thesis by (simp add: days_before_month_def)
qed

lemma days_before_month_1: "days_before_month y 1 = 0"
  by (simp add: days_before_month_def)

lemma upto_1_11: "[1..11::int] = [1,2,3,4,5,6,7,8,9,10,11]"
  by code_simp

lemma days_before_december: "days_before_month y 12 + 31 = (if leap_year y then 366 else 365)"
  by (simp add: days_before_month_def upto_1_11 days_in_month_def)

lemma div_pred:
  fixes y k :: int
  assumes "0 < k"
  shows "y div k = (y - 1) div k + (if y mod k = 0 then 1 else 0)"
proof (cases "y mod k = 0")
  case True
  then have "y - 1 = k * (y div k - 1) + (k - 1)"
    using mult_div_mod_eq [of k y] by (simp add: algebra_simps)
  then have "(y - 1) div k = y div k - 1"
    by (rule int_div_pos_eq) (use assms in simp_all)
  with True show ?thesis by simp
next
  case False
  have "0 \<le> y mod k" "y mod k < k" using assms by simp_all
  with False have r: "0 \<le> y mod k - 1" "y mod k - 1 < k" by linarith+
  have "y - 1 = k * (y div k) + (y mod k - 1)" using mult_div_mod_eq [of k y] by simp
  then have "(y - 1) div k = y div k" by (rule int_div_pos_eq [OF _ r])
  with False show ?thesis by simp
qed

lemma year_length_arith:
  fixes y a b c :: int
  assumes "y4 = a + (if p then 1 else 0)" "y100 = b + (if q then 1 else 0)"
    "y400 = c + (if r then 1 else 0)" and "r \<Longrightarrow> q" and "q \<Longrightarrow> p"
  shows "y * 365 + y4 - y100 + y400
    = (y - 1) * 365 + a - b + c + (if p \<and> (\<not> q \<or> r) then 366 else 365)"
  using assms by (cases p; cases q; cases r) simp_all

lemma days_before_year_Suc:
  "days_before_year (y + 1) = days_before_year y + (if leap_year y then 366 else 365)"
proof -
  have "y mod 400 mod 100 = y mod 100" "y mod 100 mod 4 = y mod 4"
    by (rule mod_mod_cancel; simp)+
  then have d: "y mod 400 = 0 \<Longrightarrow> y mod 100 = 0" "y mod 100 = 0 \<Longrightarrow> y mod 4 = 0" by auto
  have e: "days_before_year (y + 1) = y * 365 + y div 4 - y div 100 + y div 400"
    by (simp add: days_before_year_def)
  have f: "days_before_year y = (y - 1) * 365 + (y - 1) div 4 - (y - 1) div 100 + (y - 1) div 400"
    by (simp add: days_before_year_def Let_def)
  show ?thesis
    unfolding e f leap_year_def by (rule year_length_arith [OF div_pred div_pred div_pred d]) simp_all
qed

lemma next_day_valid: "valid_date d \<Longrightarrow> valid_date (next_day d)"
  using days_in_month_bounds [of "year d" "month d + 1"]
  by (auto simp: valid_date_def next_day_def days_in_month_def)

lemma next_day_ordinal:
  assumes "valid_date d"
  shows "to_ordinal (next_day d) = to_ordinal d + 1"
proof -
  consider "day d < days_in_month (year d) (month d)"
    | "day d = days_in_month (year d) (month d)" "month d < 12"
    | "day d = days_in_month (year d) (month d)" "month d = 12"
    using assms by (force simp: valid_date_def)
  then show ?thesis
  proof cases
    case 1
    then show ?thesis by (simp add: next_day_def to_ordinal_def)
  next
    case 2
    with assms show ?thesis
      by (simp add: next_day_def to_ordinal_def days_before_month_Suc valid_date_def)
  next
    case 3
    have "days_in_month (year d) 12 = 31" by (simp add: days_in_month_def)
    with 3 days_before_december [of "year d"] show ?thesis
      by (simp add: next_day_def to_ordinal_def days_before_year_Suc days_before_month_1)
  qed
qed

lemma next_days_ordinal:
  "valid_date d \<Longrightarrow> valid_date ((next_day ^^ n) d) \<and> to_ordinal ((next_day ^^ n) d) = to_ordinal d + int n"
  by (induction n) (auto simp: next_day_valid next_day_ordinal)

lemma prev_next_day: "valid_date d \<Longrightarrow> prev_day (next_day d) = d"
  by (cases d) (auto simp: next_day_def prev_day_def valid_date_def days_in_month_def split: if_splits)

lemma prev_day_valid: "valid_date d \<Longrightarrow> valid_date (prev_day d)"
  using days_in_month_bounds [of "year d" "month d - 1"]
  by (auto simp: valid_date_def prev_day_def days_in_month_def)

lemma next_prev_day: "valid_date d \<Longrightarrow> next_day (prev_day d) = d"
  by (cases d) (auto simp: next_day_def prev_day_def valid_date_def days_in_month_def split: if_splits)

lemma prev_days_ordinal:
  "valid_date d \<Longrightarrow> valid_date ((prev_day ^^ n) d) \<and> to_ordinal ((prev_day ^^ n) d) = to_ordinal d - int n"
proof (induction n)
  case (Suc n)
  then have v: "valid_date ((prev_day ^^ n) d)" by simp
  from next_day_ordinal [OF prev_day_valid [OF v]] next_prev_day [OF v] prev_day_valid [OF v] Suc
  show ?case by simp
qed simp

lemma add_days_valid: "valid_date d \<Longrightarrow> valid_date (add_days d n)"
  using next_days_ordinal [of d "nat n"] prev_days_ordinal [of d "nat (- n)"] by (simp add: add_days_def)

lemma add_days_ordinal: "valid_date d \<Longrightarrow> to_ordinal (add_days d n) = to_ordinal d + n"
  using next_days_ordinal [of d "nat n"] prev_days_ordinal [of d "nat (- n)"] by (simp add: add_days_def)

lemma days_before_month_mono: "1 \<le> m \<Longrightarrow> days_before_month y m + 28 * int n \<le> days_before_month y (m + int n)"
proof (induction n)
  case (Suc n)
  have "days_before_month y (m + int n) + 28 \<le> days_before_month y (m + int n + 1)"
    using days_before_month_Suc [of "m + int n" y] days_in_month_bounds [of y "m + int n"] Suc.prems by simp
  with Suc show ?case by (simp add: algebra_simps)
qed simp

lemma day_number_in_year:
  assumes "valid_date d"
  shows "1 \<le> days_before_month (year d) (month d) + day d"
    and "days_before_month (year d) (month d) + day d \<le> (if leap_year (year d) then 366 else 365)"
proof -
  let ?y = "year d" and ?m = "month d"
  have v: "1 \<le> ?m" "?m \<le> 12" "1 \<le> day d" "day d \<le> days_in_month ?y ?m"
    using assms by (auto simp: valid_date_def)
  have "0 \<le> days_before_month ?y ?m"
    using days_before_month_mono [of 1 ?y "nat (?m - 1)"] v by (simp add: days_before_month_1)
  with v show "1 \<le> days_before_month ?y ?m + day d" by simp
  show "days_before_month ?y ?m + day d \<le> (if leap_year ?y then 366 else 365)"
  proof (cases "?m = 12")
    case True
    with v days_before_december [of ?y] show ?thesis by (simp add: days_in_month_def)
  next
    case False
    then have "days_before_month ?y (?m + 1) \<le> days_before_month ?y 12"
      using days_before_month_mono [of "?m + 1" ?y "nat (11 - ?m)"] v by simp
    with v days_before_december [of ?y] days_before_month_Suc [of ?m ?y] show ?thesis by simp
  qed
qed

lemma days_before_year_mono: "days_before_year y + 365 * int n \<le> days_before_year (y + int n)"
proof (induction n)
  case (Suc n)
  have "days_before_year (y + int n) + 365 \<le> days_before_year (y + int n + 1)"
    by (simp add: days_before_year_Suc)
  with Suc show ?case by (simp add: algebra_simps)
qed simp

lemma to_ordinal_less:
  assumes "valid_date a" "valid_date b" "a < b"
  shows "to_ordinal a < to_ordinal b"
proof -
  consider "year a < year b" | "year a = year b" "month a < month b"
    | "year a = year b" "month a = month b" "day a < day b"
    using assms(3) by (cases a; cases b) auto
  then show ?thesis
  proof cases
    case 1
    have "days_before_year (year a + 1) \<le> days_before_year (year b)"
      using days_before_year_mono [of "year a + 1" "nat (year b - year a - 1)"] 1 by simp
    with day_number_in_year [OF assms(1)] day_number_in_year [OF assms(2)] show ?thesis
      by (simp add: to_ordinal_def days_before_year_Suc)
  next
    case 2
    have "1 \<le> month a" using assms(1) by (simp add: valid_date_def)
    then have "days_before_month (year a) (month a + 1) \<le> days_before_month (year a) (month b)"
      using days_before_month_mono [of "month a + 1" "year a" "nat (month b - month a - 1)"] 2 by simp
    with 2 assms(1,2) \<open>1 \<le> month a\<close> show ?thesis
      by (simp add: to_ordinal_def days_before_month_Suc valid_date_def)
  next
    case 3
    then show ?thesis by (simp add: to_ordinal_def)
  qed
qed

lemma to_ordinal_le_iff:
  "valid_date a \<Longrightarrow> valid_date b \<Longrightarrow> to_ordinal a \<le> to_ordinal b \<longleftrightarrow> a \<le> b"
  by (metis leD leI order_le_less to_ordinal_less)

lemma to_ordinal_eq_iff:
  "valid_date a \<Longrightarrow> valid_date b \<Longrightarrow> to_ordinal a = to_ordinal b \<longleftrightarrow> a = b"
  by (metis antisym to_ordinal_le_iff order_refl)

end
