(* ===== verification/FiscalYear.thy ===== *)
theory FiscalYear
  imports CalendarDates
begin

text \<open>
  apps/core/fy.py: the fiscal year (1 October to 30 September, labelled by the
  year it ends in), its quarters and months. A label is its number; every range
  is half-open, \<open>[start, end)\<close>, on calendar days, which is what the midnight-UTC
  datetimes of the code stand for. \<open>_as_utc\<close> has already read the instant on its
  calendar day: the argument of a definition here is that day.
\<close>

datatype quarter = Q1 | Q2 | Q3 | Q4

datatype cumulative_period = CumQ1 | CumQ2 | CumMidYear | CumQ3 | CumQ4 | CumFY

definition quarter_start_month :: "quarter \<Rightarrow> int" where
  "quarter_start_month q = (case q of Q1 \<Rightarrow> 10 | Q2 \<Rightarrow> 1 | Q3 \<Rightarrow> 4 | Q4 \<Rightarrow> 7)"

definition get_operational_fy :: "date \<Rightarrow> int" where
  "get_operational_fy at = (if month at \<ge> 10 then year at + 1 else year at)"

definition get_fy_date_range :: "int \<Rightarrow> date \<times> date" where
  "get_fy_date_range fy = (Date (fy - 1) 10 1, Date fy 10 1)"

definition get_quarter_for_date :: "date \<Rightarrow> quarter" where
  "get_quarter_for_date at =
     (if month at \<ge> 10 then Q1 else if month at \<le> 3 then Q2 else if month at \<le> 6 then Q3 else Q4)"

definition get_quarter_date_range :: "int \<Rightarrow> quarter \<Rightarrow> date \<times> date" where
  "get_quarter_date_range fy q =
     (let start_month = quarter_start_month q;
          start_year = (if q = Q1 then fy - 1 else fy);
          end_month = start_month + 3
      in (Date start_year start_month 1,
          if end_month > 12 then Date (start_year + 1) (end_month - 12) 1
          else Date start_year end_month 1))"

definition get_mid_year_range :: "int \<Rightarrow> date \<times> date" where
  "get_mid_year_range fy =
     (fst (get_quarter_date_range fy Q1), snd (get_quarter_date_range fy Q2))"

text \<open>The loop \<open>while start_month > 12: start_month -= 12; start_year += 1\<close>.\<close>

function roll_month :: "int \<Rightarrow> int \<Rightarrow> int \<times> int" where
  "roll_month y m = (if m > 12 then roll_month (y + 1) (m - 12) else (y, m))"
  by pat_completeness auto
termination
  by (relation "measure (\<lambda>(y, m). nat m)") auto

declare roll_month.simps [simp del]

text \<open>
  \<open>datetime(y, m, 1)\<close> raises for a month outside 1..12 (a month of the year below 1
  asked for) or a year outside 1..9999.
\<close>

definition py_first_of_month :: "int \<Rightarrow> int \<Rightarrow> date result" where
  "py_first_of_month y m =
     (if 1 \<le> m \<and> m \<le> 12 \<and> 1 \<le> y \<and> y \<le> 9999 then Inr (Date y m 1) else Inl ValueError)"

definition get_month_date_range :: "int \<Rightarrow> int \<Rightarrow> (date \<times> date) result" where
  "get_month_date_range fy month_of_fy =
     bindE (py_first_of_month (fy - 1) 10) (\<lambda>_. bindE (py_first_of_month fy 10) (\<lambda>_.
     (let (start_year, start_month) = roll_month (fy - 1) (10 + (month_of_fy - 1)) in
      bindE (py_first_of_month start_year start_month) (\<lambda>start.
        (let end_month = start_month + 1 in
         bindE (if end_month > 12 then py_first_of_month (start_year + 1) (end_month - 12)
                else py_first_of_month start_year end_month) (\<lambda>end.
           Inr (start, end)))))))"

definition fy_months :: "int list" where
  "fy_months = [10, 11, 12, 1, 2, 3, 4, 5, 6, 7, 8, 9]"

fun index_of :: "int \<Rightarrow> int list \<Rightarrow> nat" where
  "index_of m [] = 0"
| "index_of m (x # xs) = (if m = x then 0 else Suc (index_of m xs))"

text \<open>
  A month outside 1..12 is not swapped and makes \<open>date(\<dots>)\<close> or \<open>monthrange\<close> raise.
\<close>

definition month_range_to_dates :: "int \<Rightarrow> int \<Rightarrow> int \<Rightarrow> (date \<times> date) result" where
  "month_range_to_dates fy m1 m2 =
     (let (from_month, to_month) =
        (if m1 \<in> set fy_months \<and> m2 \<in> set fy_months \<and> index_of m1 fy_months > index_of m2 fy_months
         then (m2, m1) else (m1, m2));
        start_year = (if from_month \<ge> 10 then fy - 1 else fy);
        end_year = (if to_month \<ge> 10 then fy - 1 else fy)
      in bindE (py_first_of_month start_year from_month) (\<lambda>start.
         bindE (py_first_of_month end_year to_month) (\<lambda>_.
           Inr (start, Date end_year to_month (days_in_month end_year to_month)))))"

definition get_cumulative_target_percentage :: "cumulative_period \<Rightarrow> int" where
  "get_cumulative_target_percentage p =
     (if p = CumQ1 then 25 else if p = CumQ2 \<or> p = CumMidYear then 50
      else if p = CumQ3 then 75 else 100)"

definition fy_options :: "date \<Rightarrow> int list" where
  "fy_options now = (let current = get_operational_fy now; max_fy = max (current + 1) 2027
                     in [2025..max_fy])"

section \<open>A date and its ranges\<close>

lemma valid_date_cases:
  assumes "valid_date d"
  shows "1 \<le> month d" "month d \<le> 12" "1 \<le> day d"
  using assms by (auto simp: valid_date_def)

lemma in_range_Date:
  "Date y m 1 \<le> d \<longleftrightarrow> y < year d \<or> (y = year d \<and> (m < month d \<or> (m = month d \<and> 1 \<le> day d)))"
  "d < Date y m 1 \<longleftrightarrow> year d < y \<or> (year d = y \<and> (month d < m \<or> (month d = m \<and> day d < 1)))"
  by (cases d; simp)+

lemma fy_contains_iff:
  assumes "valid_date d"
  shows "fst (get_fy_date_range fy) \<le> d \<and> d < snd (get_fy_date_range fy) \<longleftrightarrow> get_operational_fy d = fy"
  using valid_date_cases [OF assms]
  by (auto simp: get_fy_date_range_def in_range_Date get_operational_fy_def)

lemma quarter_contains_iff:
  assumes "valid_date d"
  shows "fst (get_quarter_date_range fy q) \<le> d \<and> d < snd (get_quarter_date_range fy q) \<longleftrightarrow>
    get_operational_fy d = fy \<and> get_quarter_for_date d = q"
  using valid_date_cases [OF assms]
  by (cases q) (auto simp: get_quarter_date_range_def quarter_start_month_def in_range_Date
      get_operational_fy_def get_quarter_for_date_def Let_def)

lemma quarters_tile:
  "fst (get_quarter_date_range fy Q1) = fst (get_fy_date_range fy)"
  "fst (get_quarter_date_range fy Q2) = snd (get_quarter_date_range fy Q1)"
  "fst (get_quarter_date_range fy Q3) = snd (get_quarter_date_range fy Q2)"
  "fst (get_quarter_date_range fy Q4) = snd (get_quarter_date_range fy Q3)"
  "snd (get_quarter_date_range fy Q4) = snd (get_fy_date_range fy)"
  by (simp_all add: get_quarter_date_range_def quarter_start_month_def get_fy_date_range_def Let_def)

text \<open>A calendar day lies in the half-open range of exactly one fiscal year and of exactly
  one of its quarters, and those are the ones get_operational_fy and get_quarter_for_date name.\<close>

theorem fy_quarter_unique:
  assumes "valid_date d"
  shows "(fst (get_fy_date_range fy) \<le> d \<and> d < snd (get_fy_date_range fy) \<longleftrightarrow> get_operational_fy d = fy)
    \<and> (fst (get_quarter_date_range fy q) \<le> d \<and> d < snd (get_quarter_date_range fy q) \<longleftrightarrow>
        get_operational_fy d = fy \<and> get_quarter_for_date d = q)"
  using fy_contains_iff [OF assms] quarter_contains_iff [OF assms] by blast

theorem fy_quarter_unique_witness:
  "get_operational_fy (Date 2025 10 1) = 2026 \<and> get_quarter_for_date (Date 2025 10 1) = Q1
    \<and> fst (get_quarter_date_range 2026 Q1) \<le> Date 2025 10 1
    \<and> Date 2025 10 1 < snd (get_quarter_date_range 2026 Q1)
    \<and> \<not> Date 2025 9 30 < snd (get_fy_date_range 2024)"
proof -
  have v: "valid_date (Date 2025 10 1)" "valid_date (Date 2025 9 30)"
    by (simp_all add: valid_date_def days_in_month_def)
  have "get_operational_fy (Date 2025 10 1) = 2026 \<and> get_quarter_for_date (Date 2025 10 1) = Q1"
    by (simp add: get_operational_fy_def get_quarter_for_date_def)
  with fy_quarter_unique [OF v(1), of 2026 Q1] fy_quarter_unique [OF v(2), of 2024 Q1]
  show ?thesis by (auto simp: get_operational_fy_def get_fy_date_range_def)
qed

section \<open>Months of the fiscal year\<close>

lemma roll_month_small: "m \<le> 12 \<Longrightarrow> roll_month y m = (y, m)"
  by (subst roll_month.simps) simp

lemma roll_month_once: "12 < m \<Longrightarrow> m \<le> 24 \<Longrightarrow> roll_month y m = (y + 1, m - 12)"
  by (subst roll_month.simps) (simp add: roll_month_small)

lemma roll_month_invariant: "roll_month y m = (y', m') \<Longrightarrow> 12 * y' + m' = 12 * y + m \<and> m' \<le> 12"
proof (induction y m rule: roll_month.induct)
  case (1 y m)
  show ?case
  proof (cases "12 < m")
    case True
    with 1 show ?thesis by (auto simp: roll_month.simps [of y m])
  next
    case False
    with "1.prems" show ?thesis by (simp add: roll_month_small)
  qed
qed

text \<open>For the months 1 to 12 of a fiscal year, get_month_date_range returns whole calendar
  months that follow one another without gap or overlap, from the year's first day to its last.\<close>

theorem month_ranges_tile:
  assumes "2 \<le> fy" and "fy \<le> 9998" and "1 \<le> k" and "k \<le> 12"
  shows "\<exists>s e. get_month_date_range fy k = Inr (s, e) \<and> s < e \<and> day s = 1 \<and> day e = 1
      \<and> month s = fy_months ! nat (k - 1)
      \<and> (k = 1 \<longrightarrow> s = fst (get_fy_date_range fy))
      \<and> (k = 12 \<longrightarrow> e = snd (get_fy_date_range fy))
      \<and> (k < 12 \<longrightarrow> (\<exists>e'. get_month_date_range fy (k + 1) = Inr (e, e')))"
proof -
  have "k = 1 \<or> k = 2 \<or> k = 3 \<or> k = 4 \<or> k = 5 \<or> k = 6 \<or> k = 7 \<or> k = 8 \<or> k = 9 \<or> k = 10 \<or> k = 11 \<or> k = 12"
    using assms(3,4) by arith
  with assms(1,2) show ?thesis
    by (elim disjE) (simp_all add: get_month_date_range_def roll_month_small roll_month_once
        py_first_of_month_def get_fy_date_range_def fy_months_def)
qed

theorem month_ranges_tile_witness:
  "\<exists>s e. get_month_date_range 2026 4 = Inr (s, e) \<and> s < e \<and> month s = 1"
  using month_ranges_tile [of 2026 4] by (auto simp: fy_months_def)

lemma index_of_inj: "m \<in> set xs \<Longrightarrow> n \<in> set xs \<Longrightarrow> index_of m xs = index_of n xs \<Longrightarrow> m = n"
  by (induction xs) (auto split: if_splits)

lemma fy_month_order:
  fixes fy :: int
  assumes "a \<in> set fy_months" "b \<in> set fy_months" "index_of a fy_months \<le> index_of b fy_months"
  shows "(if a \<ge> 10 then fy - 1 else fy) < (if b \<ge> 10 then fy - 1 else fy)
    \<or> ((if a \<ge> 10 then fy - 1 else fy) = (if b \<ge> 10 then fy - 1 else fy) \<and> a \<le> (b :: int))"
proof -
  have early: "x < 10 \<Longrightarrow> index_of x fy_months = nat (x + 2)" if "x \<in> set fy_months" for x
    using that by (auto simp: fy_months_def)
  have late: "10 \<le> x \<Longrightarrow> index_of x fy_months = nat (x - 10)" if "x \<in> set fy_months" for x
    using that by (auto simp: fy_months_def)
  have pos: "1 \<le> x \<and> x \<le> 12" if "x \<in> set fy_months" for x
    using that by (auto simp: fy_months_def)
  show ?thesis
    using early [OF assms(1)] early [OF assms(2)] late [OF assms(1)] late [OF assms(2)]
      pos [OF assms(1)] pos [OF assms(2)] assms(3)
    by (cases "a < 10"; cases "b < 10") auto
qed

lemma month_range_ordered:
  assumes "2 \<le> fy" and "fy \<le> 9999" and "a \<in> set fy_months" and "b \<in> set fy_months"
    and "index_of a fy_months \<le> index_of b fy_months"
  defines "ya \<equiv> (if a \<ge> 10 then fy - 1 else fy)" and "yb \<equiv> (if b \<ge> 10 then fy - 1 else fy)"
  shows "month_range_to_dates fy a b = Inr (Date ya a 1, Date yb b (days_in_month yb b))"
    and "month_range_to_dates fy b a = Inr (Date ya a 1, Date yb b (days_in_month yb b))"
proof -
  have bounds: "1 \<le> a" "a \<le> 12" "1 \<le> b" "b \<le> 12"
    using assms(3,4) by (auto simp: fy_months_def)
  have i: "\<not> index_of a fy_months < index_of b fy_months \<Longrightarrow> a = b"
    using assms(3-5) by (intro index_of_inj) auto
  show "month_range_to_dates fy a b = Inr (Date ya a 1, Date yb b (days_in_month yb b))"
    using assms(1-5) bounds
    by (simp add: month_range_to_dates_def py_first_of_month_def Let_def ya_def yb_def)
  show "month_range_to_dates fy b a = Inr (Date ya a 1, Date yb b (days_in_month yb b))"
    using assms(1-5) bounds i
    by (cases "index_of a fy_months < index_of b fy_months")
      (simp_all add: month_range_to_dates_def py_first_of_month_def Let_def ya_def yb_def)
qed

text \<open>Month_range_to_dates accepts the two months in either order and always returns a
  range that lies inside the fiscal year and is not empty, ending on a month's last day.\<close>

theorem month_range_within_fy:
  assumes "2 \<le> fy" and "fy \<le> 9999" and "m1 \<in> set fy_months" and "m2 \<in> set fy_months"
  shows "\<exists>s e. month_range_to_dates fy m1 m2 = Inr (s, e) \<and> month_range_to_dates fy m2 m1 = Inr (s, e)
      \<and> s \<le> e \<and> valid_date s \<and> valid_date e
      \<and> get_operational_fy s = fy \<and> get_operational_fy e = fy
      \<and> day (next_day e) = 1"
proof -
  obtain a b where ab: "a \<in> set fy_months" "b \<in> set fy_months"
      "index_of a fy_months \<le> index_of b fy_months" and which: "(m1, m2) = (a, b) \<or> (m1, m2) = (b, a)"
    using assms(3,4) linear [of "index_of m1 fy_months" "index_of m2 fy_months"] by blast
  define ya where "ya = (if a \<ge> 10 then fy - 1 else fy)"
  define yb where "yb = (if b \<ge> 10 then fy - 1 else fy)"
  let ?s = "Date ya a 1" and ?e = "Date yb b (days_in_month yb b)"
  have r: "month_range_to_dates fy m1 m2 = Inr (?s, ?e)" "month_range_to_dates fy m2 m1 = Inr (?s, ?e)"
    using month_range_ordered [OF assms(1,2) ab] which by (auto simp: ya_def yb_def)
  have "ya < yb \<or> (ya = yb \<and> a \<le> b)"
    unfolding ya_def yb_def using ab by (rule fy_month_order)
  then have le: "?s \<le> ?e" using days_in_month_bounds [of yb b] by auto
  have "1 \<le> a" "a \<le> 12" "1 \<le> b" "b \<le> 12" using ab(1,2) by (auto simp: fy_months_def)
  then have "valid_date ?s" "valid_date ?e"
    using days_in_month_bounds [of yb b] days_in_month_bounds [of ya a]
    by (simp_all add: valid_date_def)
  moreover have "get_operational_fy ?s = fy" "get_operational_fy ?e = fy"
    by (simp_all add: get_operational_fy_def ya_def yb_def)
  moreover have "day (next_day ?e) = 1" by (simp add: next_day_def)
  ultimately show ?thesis using r le by blast
qed

theorem month_range_within_fy_witness:
  "\<exists>s e. month_range_to_dates 2026 3 11 = Inr (s, e) \<and> get_operational_fy s = 2026
     \<and> get_operational_fy e = 2026 \<and> s \<le> e"
  using month_range_within_fy [of 2026 3 11] by (auto simp: fy_months_def)

lemma fy_options_contains_current:
  "2025 \<le> get_operational_fy now \<Longrightarrow> get_operational_fy now \<in> set (fy_options now)"
  by (simp add: fy_options_def Let_def)

lemma cumulative_monotone:
  "get_cumulative_target_percentage CumQ1 < get_cumulative_target_percentage CumMidYear"
  "get_cumulative_target_percentage CumMidYear < get_cumulative_target_percentage CumQ3"
  "get_cumulative_target_percentage CumQ3 < get_cumulative_target_percentage CumFY"
  by (simp_all add: get_cumulative_target_percentage_def)

end
