(* ===== verification/ActivityTypes.thy ===== *)
theory ActivityTypes
  imports Complex_Main Prelude
begin

text \<open>
  apps/core/enums.py and apps/core/activity_types.py: the kinds of field work, the
  statuses of an activity, the groups every metric reads them by, the check that
  the groups cover the enumeration, and the bands of an SSA score.
\<close>

datatype activity_type =
    SCHOOL_VISIT | FOLLOW_UP_VISIT | COACHING_VISIT | IN_SCHOOL_SUPPORT | DONOR_VISIT
  | STORY_GATHERING_VISIT | SCHOOL_INVITATION | SOCIAL_VISIT | TRAINING_FOLLOW_UP_VISIT
  | IN_SCHOOL_COACHING_VISIT | TRAINING | IN_SCHOOL_TRAINING | SCHOOL_IMPROVEMENT_TRAINING
  | CLUSTER_MEETING | CLUSTER_TRAINING | SSA_ACTIVITY | PROJECT_ACTIVITY | PARTNER_ACTIVITY
  | CORE_VISIT | CORE_TRAINING | BASELINE_SSA_VISIT | SCHOOL_VISIT_SSA_COLLECTION
  | CLUSTER_TRAINING_SSA_COLLECTION | CLUSTER_MEETING_SSA_REVIEW | PARTNER_SSA_COLLECTION
  | CORE_ASSESSMENT_VISIT | PROGRAMME_EVENT | FIELD_EVENT

definition activity_type_values :: "activity_type list" where
  "activity_type_values =
    [SCHOOL_VISIT, FOLLOW_UP_VISIT, COACHING_VISIT, IN_SCHOOL_SUPPORT, DONOR_VISIT,
     STORY_GATHERING_VISIT, SCHOOL_INVITATION, SOCIAL_VISIT, TRAINING_FOLLOW_UP_VISIT,
     IN_SCHOOL_COACHING_VISIT, TRAINING, IN_SCHOOL_TRAINING, SCHOOL_IMPROVEMENT_TRAINING,
     CLUSTER_MEETING, CLUSTER_TRAINING, SSA_ACTIVITY, PROJECT_ACTIVITY, PARTNER_ACTIVITY,
     CORE_VISIT, CORE_TRAINING, BASELINE_SSA_VISIT, SCHOOL_VISIT_SSA_COLLECTION,
     CLUSTER_TRAINING_SSA_COLLECTION, CLUSTER_MEETING_SSA_REVIEW, PARTNER_SSA_COLLECTION,
     CORE_ASSESSMENT_VISIT, PROGRAMME_EVENT, FIELD_EVENT]"

section \<open>The groups of activity types\<close>

definition VISIT_TYPES :: "activity_type list" where
  "VISIT_TYPES =
    [SCHOOL_VISIT, FOLLOW_UP_VISIT, COACHING_VISIT, IN_SCHOOL_SUPPORT, DONOR_VISIT,
     STORY_GATHERING_VISIT, SCHOOL_INVITATION, SOCIAL_VISIT, TRAINING_FOLLOW_UP_VISIT,
     IN_SCHOOL_COACHING_VISIT, CORE_VISIT, CORE_ASSESSMENT_VISIT, BASELINE_SSA_VISIT,
     SCHOOL_VISIT_SSA_COLLECTION, PARTNER_SSA_COLLECTION]"

definition TRAINING_TYPES :: "activity_type list" where
  "TRAINING_TYPES =
    [TRAINING, IN_SCHOOL_TRAINING, SCHOOL_IMPROVEMENT_TRAINING, CLUSTER_TRAINING, CORE_TRAINING,
     CLUSTER_TRAINING_SSA_COLLECTION]"

definition CLUSTER_MEETING_TYPES :: "activity_type list" where
  "CLUSTER_MEETING_TYPES = [CLUSTER_MEETING, CLUSTER_MEETING_SSA_REVIEW]"

definition SSA_TYPES :: "activity_type list" where
  "SSA_TYPES = [SSA_ACTIVITY]"

definition PROGRAMME_EVENT_TYPES :: "activity_type list" where
  "PROGRAMME_EVENT_TYPES = [PROGRAMME_EVENT]"

definition remaining_types :: "activity_type list" where
  "remaining_types =
     filter (\<lambda>v. v \<notin> set VISIT_TYPES \<union> set TRAINING_TYPES \<union> set CLUSTER_MEETING_TYPES
        \<union> set SSA_TYPES \<union> set PROGRAMME_EVENT_TYPES) activity_type_values"

definition OTHER_TYPES :: "activity_type list" where
  "OTHER_TYPES = remaining_types"

definition type_groups :: "(string \<times> activity_type list) list" where
  "type_groups =
    [(''VISIT_TYPES'', VISIT_TYPES), (''TRAINING_TYPES'', TRAINING_TYPES),
     (''CLUSTER_MEETING_TYPES'', CLUSTER_MEETING_TYPES), (''SSA_TYPES'', SSA_TYPES),
     (''PROGRAMME_EVENT_TYPES'', PROGRAMME_EVENT_TYPES), (''OTHER_TYPES'', OTHER_TYPES)]"

text \<open>
  \<open>check()\<close>: the two nested loops fill \<open>seen\<close> and raise at a value already in it;
  a value of the enumeration left out of it raises after them.
\<close>

fun check_members :: "string \<Rightarrow> activity_type list \<Rightarrow> (activity_type \<rightharpoonup> string) \<Rightarrow>
    (activity_type \<rightharpoonup> string) result" where
  "check_members name [] seen = Inr seen"
| "check_members name (v # vs) seen =
     (if seen v \<noteq> None then Inl ValueError else check_members name vs (seen(v \<mapsto> name)))"

fun check_groups :: "(string \<times> activity_type list) list \<Rightarrow> (activity_type \<rightharpoonup> string) \<Rightarrow>
    (activity_type \<rightharpoonup> string) result" where
  "check_groups [] seen = Inr seen"
| "check_groups ((name, members) # gs) seen = bindE (check_members name members seen) (check_groups gs)"

definition check_classification :: "(string \<times> activity_type list) list \<Rightarrow> unit result" where
  "check_classification gs =
     bindE (check_groups gs Map.empty) (\<lambda>seen.
       ensure (list_all (\<lambda>v. seen v \<noteq> None) activity_type_values) ValueError)"

lemma check_members_ok:
  "check_members name vs seen = Inr seen' \<longleftrightarrow>
     distinct vs \<and> (\<forall>v \<in> set vs. seen v = None) \<and> seen' = (\<lambda>v. if v \<in> set vs then Some name else seen v)"
  by (induction vs arbitrary: seen) (auto simp: fun_eq_iff split: if_splits)

lemma check_groups_ok:
  "check_groups gs seen = Inr seen' \<Longrightarrow>
     distinct (concat (map snd gs)) \<and> (\<forall>v \<in> set (concat (map snd gs)). seen v = None)
     \<and> (\<forall>v. seen' v \<noteq> None \<longleftrightarrow> v \<in> set (concat (map snd gs)) \<or> seen v \<noteq> None)"
proof (induction gs arbitrary: seen)
  case (Cons g gs)
  obtain name members where g: "g = (name, members)" by (cases g)
  from Cons.prems g obtain s1 where s1: "check_members name members seen = Inr s1"
    and rest: "check_groups gs s1 = Inr seen'" by (auto simp: bindE_eq_Inr)
  from s1 have m: "distinct members" "\<forall>v \<in> set members. seen v = None"
    "s1 = (\<lambda>v. if v \<in> set members then Some name else seen v)" by (auto simp: check_members_ok)
  from Cons.IH [OF rest] m show ?case by (fastforce simp: g)
qed simp

lemma check_groups_complete:
  "distinct (concat (map snd gs)) \<Longrightarrow> (\<forall>v \<in> set (concat (map snd gs)). seen v = None) \<Longrightarrow>
     \<exists>seen'. check_groups gs seen = Inr seen'"
proof (induction gs arbitrary: seen)
  case (Cons g gs)
  obtain name members where g: "g = (name, members)" by (cases g)
  let ?s1 = "\<lambda>v. if v \<in> set members then Some name else seen v"
  have "check_members name members seen = Inr ?s1"
    using Cons.prems by (simp add: check_members_ok g)
  moreover have "\<exists>seen'. check_groups gs ?s1 = Inr seen'"
    using Cons.prems by (intro Cons.IH) (auto simp: g)
  ultimately show ?case by (auto simp: g)
qed simp

lemma check_classification_iff:
  "check_classification gs = Inr () \<longleftrightarrow>
     distinct (concat (map snd gs)) \<and> set activity_type_values \<subseteq> set (concat (map snd gs))"
proof
  assume "check_classification gs = Inr ()"
  then obtain seen where s: "check_groups gs Map.empty = Inr seen"
    and all: "list_all (\<lambda>v. seen v \<noteq> None) activity_type_values"
    by (auto simp: check_classification_def bindE_eq_Inr)
  from check_groups_ok [OF s] all
  show "distinct (concat (map snd gs)) \<and> set activity_type_values \<subseteq> set (concat (map snd gs))"
    by (auto simp: list_all_iff)
next
  assume r: "distinct (concat (map snd gs)) \<and> set activity_type_values \<subseteq> set (concat (map snd gs))"
  then obtain seen where s: "check_groups gs Map.empty = Inr seen"
    using check_groups_complete [of gs Map.empty] by auto
  from check_groups_ok [OF s] r have "list_all (\<lambda>v. seen v \<noteq> None) activity_type_values"
    by (simp add: list_all_iff subset_iff)
  with s show "check_classification gs = Inr ()" by (simp add: check_classification_def)
qed

lemma OTHER_TYPES_eval: "OTHER_TYPES = [PROJECT_ACTIVITY, PARTNER_ACTIVITY, FIELD_EVENT]"
  by (simp add: OTHER_TYPES_def remaining_types_def activity_type_values_def VISIT_TYPES_def
      TRAINING_TYPES_def CLUSTER_MEETING_TYPES_def SSA_TYPES_def PROGRAMME_EVENT_TYPES_def)

lemmas type_group_defs = VISIT_TYPES_def TRAINING_TYPES_def CLUSTER_MEETING_TYPES_def
  SSA_TYPES_def PROGRAMME_EVENT_TYPES_def OTHER_TYPES_eval

lemma set_activity_type_values: "set activity_type_values = UNIV"
proof -
  have "t \<in> set activity_type_values" for t by (cases t) (simp_all add: activity_type_values_def)
  then show ?thesis by blast
qed

lemma shipped_groups_partition:
  "distinct (concat (map snd type_groups))" "set (concat (map snd type_groups)) = UNIV"
proof -
  show "distinct (concat (map snd type_groups))" by (simp add: type_groups_def type_group_defs)
  have "t \<in> set (concat (map snd type_groups))" for t
    by (cases t) (simp_all add: type_groups_def type_group_defs)
  then show "set (concat (map snd type_groups)) = UNIV" by blast
qed

text \<open>Check() accepts a grouping exactly when its groups are a partition of the
  enumeration (no value listed twice, within a group or across groups, and none left out), and
  it accepts the groups the module ships.\<close>

theorem type_groups_checked:
  "(check_classification gs = Inr () \<longleftrightarrow>
     distinct (concat (map snd gs)) \<and> set activity_type_values \<subseteq> set (concat (map snd gs)))
   \<and> check_classification type_groups = Inr ()"
  using check_classification_iff [of gs] check_classification_iff [of type_groups]
    shipped_groups_partition by simp

section \<open>Statuses\<close>

datatype activity_status =
    NOT_PLANNED | AWAITING_OWNER_APPROVAL | PLANNED | SCHEDULED | ASSIGNED_TO_PARTNER
  | PARTNER_SCHEDULED | IN_PROGRESS | COMPLETION_STARTED | EVIDENCE_UPLOADED | EVIDENCE_ACCEPTED
  | SALESFORCE_ID_REQUIRED | SUBMITTED_TO_PL | RETURNED_BY_PL | AWAITING_IA_VERIFICATION
  | IA_VERIFIED | ACCOUNTANT_CONFIRMED | COMPLETED | RETURNED | RETURNED_BY_IA | CLOSED
  | REJECTED | RESCHEDULED | CANCELLED | DEFERRED

definition COMPLETED_WORK_STATUSES :: "activity_status list" where
  "COMPLETED_WORK_STATUSES = [IA_VERIFIED, CLOSED, ACCOUNTANT_CONFIRMED, COMPLETED]"

definition NOT_STARTED_ACTIVITY_STATUSES :: "activity_status list" where
  "NOT_STARTED_ACTIVITY_STATUSES =
    [PLANNED, SCHEDULED, RESCHEDULED, PARTNER_SCHEDULED, ASSIGNED_TO_PARTNER]"

definition UNDER_WAY_ACTIVITY_STATUSES :: "activity_status list" where
  "UNDER_WAY_ACTIVITY_STATUSES =
    [IN_PROGRESS, COMPLETION_STARTED, EVIDENCE_UPLOADED, EVIDENCE_ACCEPTED, SALESFORCE_ID_REQUIRED,
     SUBMITTED_TO_PL, RETURNED_BY_PL, AWAITING_IA_VERIFICATION, RETURNED, RETURNED_BY_IA]"

definition NOT_IN_PLAN_ACTIVITY_STATUSES :: "activity_status list" where
  "NOT_IN_PLAN_ACTIVITY_STATUSES = [CANCELLED, REJECTED, DEFERRED, NOT_PLANNED]"

definition NON_FUNDABLE_ACTIVITY_STATUSES :: "activity_status list" where
  "NON_FUNDABLE_ACTIVITY_STATUSES = [CANCELLED, REJECTED, DEFERRED, AWAITING_OWNER_APPROVAL]"

lemmas status_group_defs = COMPLETED_WORK_STATUSES_def NOT_STARTED_ACTIVITY_STATUSES_def
  UNDER_WAY_ACTIVITY_STATUSES_def NOT_IN_PLAN_ACTIVITY_STATUSES_def
  NON_FUNDABLE_ACTIVITY_STATUSES_def

text \<open>Every status but the visit waiting for its owner's approval is in exactly one of
  not started, under way, done and not in the plan; live work (in one of the first three) is
  always fundable, and the waiting visit is in none of the four and is not fundable.\<close>

theorem status_groups_partition:
  "length (filter (\<lambda>g. s \<in> set g)
      [NOT_STARTED_ACTIVITY_STATUSES, UNDER_WAY_ACTIVITY_STATUSES, COMPLETED_WORK_STATUSES,
       NOT_IN_PLAN_ACTIVITY_STATUSES]) = (if s = AWAITING_OWNER_APPROVAL then 0 else 1)
   \<and> (s \<in> set NON_FUNDABLE_ACTIVITY_STATUSES \<longleftrightarrow>
      s = AWAITING_OWNER_APPROVAL \<or> (s \<in> set NOT_IN_PLAN_ACTIVITY_STATUSES \<and> s \<noteq> NOT_PLANNED))"
  by (cases s) (simp_all add: status_group_defs)

section \<open>Bands of an SSA score\<close>

datatype score_label = NoSsa | Strong | Improving | Warning | Critical

datatype score_tone = ToneNeutral | TonePerfect | ToneSuccess | ToneLime | ToneWarning | ToneDanger

definition ssa_score_band :: "rat option \<Rightarrow> score_label \<times> string \<times> score_tone" where
  "ssa_score_band score =
     (case score of None \<Rightarrow> (NoSsa, ''#94a3b8'', ToneNeutral)
      | Some s \<Rightarrow>
        if s \<ge> 10 then (Strong, ''#9333ea'', TonePerfect)
        else if s \<ge> 8 then (Strong, ''#16a34a'', ToneSuccess)
        else if s \<ge> 6 then (Improving, ''#84cc16'', ToneLime)
        else if s \<ge> 5 then (Warning, ''#f59e0b'', ToneWarning)
        else (Critical, ''#dc2626'', ToneDanger))"

definition label_rank :: "score_label \<Rightarrow> nat" where
  "label_rank l = (case l of NoSsa \<Rightarrow> 0 | Critical \<Rightarrow> 1 | Warning \<Rightarrow> 2 | Improving \<Rightarrow> 3 | Strong \<Rightarrow> 4)"

text \<open>A higher SSA score never gets a worse band, a scored school is never labelled as
  having no SSA, and the colour tells the label apart (the same colour, the same label).\<close>

theorem score_band_monotone:
  assumes "s \<le> t"
  shows "label_rank (fst (ssa_score_band (Some s))) \<le> label_rank (fst (ssa_score_band (Some t)))
    \<and> fst (ssa_score_band (Some s)) \<noteq> NoSsa
    \<and> (fst (snd (ssa_score_band (Some s))) = fst (snd (ssa_score_band (Some t))) \<longrightarrow>
        ssa_score_band (Some s) = ssa_score_band (Some t))"
  using assms by (auto simp: ssa_score_band_def label_rank_def)

theorem score_band_monotone_witness:
  "label_rank (fst (ssa_score_band (Some (59 / 10)))) \<le> label_rank (fst (ssa_score_band (Some 6)))
    \<and> fst (ssa_score_band (Some 6)) = Improving"
  using score_band_monotone [of "59 / 10" 6] by (simp add: ssa_score_band_def)

end
