(* ===== verification/RateCard.thy ===== *)
theory RateCard
  imports CalendarDates
begin

text \<open>
  apps/budget/reference.py: the Country Cost Catalogue's canonical rates, the keys
  that were renamed or retired, the alias lookup every pricing goes through, and
  the idempotent seeding of the active catalogue (apps/budget/models.py).
  A rate card maps a rate's key to its unit cost in whole shillings.
\<close>

type_synonym rate_card = "string \<rightharpoonup> int"

type_synonym rate_row = "string \<times> string \<times> int"

section \<open>The canonical rates\<close>

definition ACTIVITY_RATES :: "rate_row list" where
  "ACTIVITY_RATES = [(''onetest'', ''OneTest'', 0)]"

definition PARTNER_RATES :: "rate_row list" where
  "PARTNER_RATES =
    [(''client_partner_visit'', ''Client Partner Visit'', 40000),
     (''core_partner_visit'', ''Core Partner Visit'', 40000),
     (''partner_meetings'', ''Partner Meetings'', 40000)]"

definition GROUP_SESSION_RATES :: "rate_row list" where
  "GROUP_SESSION_RATES =
    [(''tot_trainings'', ''TOT trainings'', 0),
     (''tot_trainings_meals'', ''TOT trainings - Meals'', 5000),
     (''cluster_meetings_trainings_meals'', ''Cluster Meeting - Participant Meals'', 5000),
     (''group_training_meals'', ''Group Training - Participant Meals'', 5000),
     (''student_conference'', ''Student Conference'', 0),
     (''proprietor_conference'', ''Proprietor Conference'', 0),
     (''printing_training_materials'', ''Printing training materials'', 0),
     (''photocopying_training_materials'', ''Photocopying training materials'', 0),
     (''group_training_venue_cost'', ''Venue Fee'', 30000),
     (''group_training_facilitation_fee'', ''Facilitation Fee'', 50000)]"

definition TRAVEL_RATES :: "rate_row list" where
  "TRAVEL_RATES =
    [(''primary_transport_per_day'', ''Transport Primary District'', 50000),
     (''secondary_transport_per_day'', ''Transport Secondary District'', 80000),
     (''lunch_per_day'', ''Lunch'', 12000),
     (''secondary_breakfast_per_day'', ''Breakfast'', 8000),
     (''secondary_overnight_dinner_per_day'', ''Dinner'', 12000),
     (''secondary_accommodation_per_night'', ''Accommodation - CCEO'', 40000),
     (''management_accommodation_per_night'',
      ''Accommodation - PL, CD, IA, Accountant and other staff'', 40000)]"

definition RATE_UNITS :: "(string \<times> string) list" where
  "RATE_UNITS =
    [(''onetest'', ''per activity''), (''client_partner_visit'', ''per visit''),
     (''core_partner_visit'', ''per visit''), (''partner_meetings'', ''per meeting''),
     (''tot_trainings'', ''per training''), (''tot_trainings_meals'', ''per participant per day''),
     (''cluster_meetings_trainings_meals'', ''per participant per day''),
     (''group_training_meals'', ''per participant per day''),
     (''student_conference'', ''per event''), (''proprietor_conference'', ''per event''),
     (''printing_training_materials'', ''per page''),
     (''photocopying_training_materials'', ''per page per copy''),
     (''group_training_venue_cost'', ''per day''), (''group_training_facilitation_fee'', ''per day''),
     (''primary_transport_per_day'', ''per day''), (''secondary_transport_per_day'', ''per day''),
     (''lunch_per_day'', ''per day''), (''secondary_breakfast_per_day'', ''per day away''),
     (''secondary_overnight_dinner_per_day'', ''per day away''),
     (''secondary_accommodation_per_night'', ''per night''),
     (''management_accommodation_per_night'', ''per night'')]"

definition CANONICAL_RATES :: "rate_row list" where
  "CANONICAL_RATES = ACTIVITY_RATES @ PARTNER_RATES @ GROUP_SESSION_RATES @ TRAVEL_RATES"

definition CANONICAL_RATE_KEYS :: "string list" where
  "CANONICAL_RATE_KEYS = map fst CANONICAL_RATES"

definition RATE_LABELS :: "string \<rightharpoonup> string" where
  "RATE_LABELS = map_of (map (\<lambda>(key, label, cost). (key, label)) CANONICAL_RATES)"

definition OPTIONAL_RATE_KEYS :: "string list" where
  "OPTIONAL_RATE_KEYS =
    [''onetest'', ''tot_trainings'', ''cluster_meetings_trainings_meals'', ''group_training_meals'',
     ''student_conference'', ''proprietor_conference'', ''printing_training_materials'',
     ''photocopying_training_materials'']"

definition RATE_ALIASES :: "(string \<times> string list) list" where
  "RATE_ALIASES =
    [(''management_accommodation_per_night'', [''secondary_accommodation_per_night'']),
     (''lunch_per_day'', [''primary_lunch_per_day'', ''secondary_lunch_per_day'']),
     (''client_partner_visit'', [''partner_visit_lump_sum'']),
     (''core_partner_visit'', [''partner_visit_lump_sum'']),
     (''partner_meetings'', [''partner_visit_lump_sum'']),
     (''tot_trainings_meals'', [''group_training_participant_meal_cost_per_head'']),
     (''cluster_meetings_trainings_meals'',
      [''cluster_meeting_participant_meal_cost_per_head'', ''meals_per_participant''])]"

section \<open>Retired keys\<close>

definition RENAMED_COST_SETTING_KEYS :: "string list" where
  "RENAMED_COST_SETTING_KEYS =
    [''primary_lunch_per_day'', ''secondary_lunch_per_day'', ''secondary_incidentals_per_day'',
     ''cluster_meeting_participant_meal_cost_per_head'',
     ''group_training_participant_meal_cost_per_head'', ''partner_visit_lump_sum'',
     ''partner_training_lump_sum'']"

definition LEGACY_VISIT_COST_KEYS :: "string list" where
  "LEGACY_VISIT_COST_KEYS =
    [''staff_visit_transport_primary'', ''staff_visit_transport_secondary'', ''breakfast'', ''lunch'',
     ''dinner'', ''accommodation'']"

definition LEGACY_CLUSTER_ACTIVITY_COST_KEYS :: "string list" where
  "LEGACY_CLUSTER_ACTIVITY_COST_KEYS =
    [''cluster_meeting_cost'', ''meals_per_participant'', ''mobilisation_per_participant'',
     ''training_session_fee'', ''venue'']"

definition DUPLICATE_COST_SETTING_KEYS :: "string list" where
  "DUPLICATE_COST_SETTING_KEYS =
    [''core_school_visit'', ''core_school_training'', ''ssa_visit_rate'', ''project_partner_lump_sum'',
     ''programme_venue_per_day'', ''programme_participant_meal_cost_per_head'',
     ''programme_facilitation_per_day'', ''programme_transport_per_day'',
     ''programme_materials_per_participant'', ''programme_accommodation_per_night'']"

definition RETIRED_VISIT_RATE_KEYS :: "string list" where
  "RETIRED_VISIT_RATE_KEYS = [''client_staff_visit'', ''core_staff_visit'', ''ssa_support'']"

definition RETIRED_SESSION_RATE_KEYS :: "string list" where
  "RETIRED_SESSION_RATE_KEYS = [''cluster_meetings_trainings'', ''cluster_meeting'']"

definition RETIRED_COST_SETTING_KEYS :: "string list" where
  "RETIRED_COST_SETTING_KEYS =
     LEGACY_VISIT_COST_KEYS @ LEGACY_CLUSTER_ACTIVITY_COST_KEYS @ DUPLICATE_COST_SETTING_KEYS
     @ RENAMED_COST_SETTING_KEYS @ RETIRED_VISIT_RATE_KEYS @ RETIRED_SESSION_RATE_KEYS"

lemmas retired_key_defs = RETIRED_COST_SETTING_KEYS_def LEGACY_VISIT_COST_KEYS_def
  LEGACY_CLUSTER_ACTIVITY_COST_KEYS_def DUPLICATE_COST_SETTING_KEYS_def
  RENAMED_COST_SETTING_KEYS_def RETIRED_VISIT_RATE_KEYS_def RETIRED_SESSION_RATE_KEYS_def

lemmas canonical_rate_defs = CANONICAL_RATE_KEYS_def CANONICAL_RATES_def ACTIVITY_RATES_def
  PARTNER_RATES_def GROUP_SESSION_RATES_def TRAVEL_RATES_def

text \<open>The reference data is consistent: every canonical key is listed once, has a unit, and
  none is retired; every optional key and every aliased key is canonical, and no aliased key is
  itself the old name of another.\<close>

theorem rate_reference_consistent:
  "distinct CANONICAL_RATE_KEYS
   \<and> list_all (\<lambda>k. map_of RATE_UNITS k \<noteq> None) CANONICAL_RATE_KEYS
   \<and> list_all (\<lambda>k. k \<notin> set RETIRED_COST_SETTING_KEYS) CANONICAL_RATE_KEYS
   \<and> list_all (\<lambda>k. k \<in> set CANONICAL_RATE_KEYS) OPTIONAL_RATE_KEYS
   \<and> list_all (\<lambda>(k, olds). k \<in> set CANONICAL_RATE_KEYS
        \<and> list_all (\<lambda>(k', olds'). k \<notin> set olds') RATE_ALIASES) RATE_ALIASES"
proof (intro conjI)
  show "distinct CANONICAL_RATE_KEYS" by (simp add: canonical_rate_defs)
  show "list_all (\<lambda>k. map_of RATE_UNITS k \<noteq> None) CANONICAL_RATE_KEYS"
    by (simp add: canonical_rate_defs RATE_UNITS_def)
  show "list_all (\<lambda>k. k \<notin> set RETIRED_COST_SETTING_KEYS) CANONICAL_RATE_KEYS"
    by (simp add: canonical_rate_defs retired_key_defs)
  show "list_all (\<lambda>k. k \<in> set CANONICAL_RATE_KEYS) OPTIONAL_RATE_KEYS"
    by (simp add: canonical_rate_defs OPTIONAL_RATE_KEYS_def)
  show "list_all (\<lambda>(k, olds). k \<in> set CANONICAL_RATE_KEYS
        \<and> list_all (\<lambda>(k', olds'). k \<notin> set olds') RATE_ALIASES) RATE_ALIASES"
    by (simp add: canonical_rate_defs RATE_ALIASES_def)
qed

section \<open>Old names answer for new ones\<close>

definition alias_step :: "rate_card \<Rightarrow> rate_card \<Rightarrow> string \<times> string list \<Rightarrow> rate_card" where
  "alias_step rates resolved entry =
     (case entry of (key, old_keys) \<Rightarrow>
        if resolved key \<noteq> None then resolved
        else (case find (\<lambda>old. rates old \<noteq> None) old_keys of
                None \<Rightarrow> resolved | Some old \<Rightarrow> resolved(key := rates old)))"

definition with_rate_aliases :: "rate_card \<Rightarrow> rate_card" where
  "with_rate_aliases rates = foldl (alias_step rates) rates RATE_ALIASES"

lemma alias_step_pair:
  "alias_step rates acc (key, olds) =
     (if acc key \<noteq> None then acc
      else (case find (\<lambda>old. rates old \<noteq> None) olds of
              None \<Rightarrow> acc | Some old \<Rightarrow> acc(key := rates old)))"
  by (simp add: alias_step_def)

lemma alias_fold_other:
  "k \<notin> fst ` set es \<Longrightarrow> foldl (alias_step rates) acc es k = acc k"
proof (induction es arbitrary: acc)
  case (Cons e es)
  obtain key olds where e: "e = (key, olds)" by (cases e)
  have "alias_step rates acc e k = acc k"
    using Cons.prems by (simp add: alias_step_pair e split: option.splits)
  with Cons.IH [of "alias_step rates acc e"] Cons.prems show ?case by simp
qed simp

lemma alias_fold_keeps: "acc k = Some v \<Longrightarrow> foldl (alias_step rates) acc es k = Some v"
proof (induction es arbitrary: acc)
  case (Cons e es)
  obtain key olds where e: "e = (key, olds)" by (cases e)
  have "alias_step rates acc e k = Some v"
    using Cons.prems by (auto simp: alias_step_pair e split: option.splits)
  with Cons.IH show ?case by simp
qed simp

text \<open>What the alias lookup answers, key by key.\<close>

lemma alias_fold_lookup:
  assumes "distinct (map fst es)" and "map_of es k = Some olds" and "acc k = None"
  shows "foldl (alias_step rates) acc es k =
    (case find (\<lambda>old. rates old \<noteq> None) olds of None \<Rightarrow> None | Some old \<Rightarrow> rates old)"
  using assms
proof (induction es arbitrary: acc)
  case (Cons e es)
  obtain key o1 where e: "e = (key, o1)" by (cases e)
  show ?case
  proof (cases "key = k")
    case True
    with Cons.prems e have o: "o1 = olds" and n: "k \<notin> fst ` set es" by auto
    have "foldl (alias_step rates) acc (e # es) k = alias_step rates acc e k"
      using alias_fold_other [OF n] by simp
    with True o Cons.prems(3) e show ?thesis by (simp add: alias_step_pair split: option.splits)
  next
    case False
    then have "alias_step rates acc e k = None"
      using Cons.prems(3) e by (simp add: alias_step_pair split: option.splits)
    with False Cons.IH Cons.prems e show ?thesis by simp
  qed
qed simp

lemma alias_keys_distinct: "distinct (map fst RATE_ALIASES)"
  by (simp add: RATE_ALIASES_def)

lemma with_rate_aliases_lookup:
  "with_rate_aliases rates k =
     (case rates k of Some v \<Rightarrow> Some v
      | None \<Rightarrow> (case map_of RATE_ALIASES k of None \<Rightarrow> None
         | Some olds \<Rightarrow> (case find (\<lambda>old. rates old \<noteq> None) olds of None \<Rightarrow> None
                         | Some old \<Rightarrow> rates old)))"
proof (cases "rates k")
  case None
  show ?thesis
  proof (cases "map_of RATE_ALIASES k")
    case (Some olds)
    with None alias_fold_lookup [of RATE_ALIASES k olds rates rates, OF alias_keys_distinct] show ?thesis
      by (simp add: with_rate_aliases_def)
  next
    case n: None
    then have "k \<notin> fst ` set RATE_ALIASES" by (simp add: map_of_eq_None_iff)
    with alias_fold_other [OF this, of rates rates] None n show ?thesis
      by (simp add: with_rate_aliases_def)
  qed
qed (simp add: with_rate_aliases_def alias_fold_keeps)

lemma alias_old_names:
  "list_all (\<lambda>e. list_all (\<lambda>old. map_of RATE_ALIASES old = None) (snd e)) RATE_ALIASES"
  by (simp add: RATE_ALIASES_def)

lemma old_names_not_aliased:
  "map_of RATE_ALIASES k = Some olds \<Longrightarrow> old \<in> set olds \<Longrightarrow> map_of RATE_ALIASES old = None"
  using alias_old_names by (force dest: map_of_SomeD simp: list_all_iff)

lemma with_rate_aliases_old_name:
  "map_of RATE_ALIASES k = Some olds \<Longrightarrow> old \<in> set olds \<Longrightarrow> with_rate_aliases rates old = rates old"
  using old_names_not_aliased [of k olds old]
  by (simp add: with_rate_aliases_lookup split: option.splits)

text \<open>With_rate_aliases keeps every rate the card carries, adds a rate only from an old name
  the card still carries, and applying it to its own result changes nothing.\<close>

theorem rate_aliases_conservative:
  "with_rate_aliases (with_rate_aliases rates) = with_rate_aliases rates
   \<and> (rates k = Some v \<longrightarrow> with_rate_aliases rates k = Some v)
   \<and> (with_rate_aliases rates k = Some v \<longrightarrow>
        rates k = Some v \<or> (\<exists>olds old. (k, olds) \<in> set RATE_ALIASES \<and> old \<in> set olds \<and> rates old = Some v))"
proof (intro conjI impI)
  show "with_rate_aliases (with_rate_aliases rates) = with_rate_aliases rates"
  proof
    fix k
    let ?r = "with_rate_aliases rates"
    show "with_rate_aliases ?r k = ?r k"
    proof (cases "?r k")
      case None
      show ?thesis
      proof (cases "map_of RATE_ALIASES k")
        case (Some olds)
        have "find (\<lambda>old. ?r old \<noteq> None) olds = find (\<lambda>old. rates old \<noteq> None) olds"
          by (rule find_cong) (simp_all add: with_rate_aliases_old_name [OF Some])
        moreover have "find (\<lambda>old. rates old \<noteq> None) olds = None"
          using None Some
          by (auto simp: with_rate_aliases_lookup [of rates k] find_Some_iff split: option.splits)
        ultimately show ?thesis using None Some by (simp add: with_rate_aliases_lookup [of ?r k])
      qed (simp add: with_rate_aliases_lookup [of ?r k] None)
    qed (simp add: with_rate_aliases_lookup [of ?r k])
  qed
  show "rates k = Some v \<Longrightarrow> with_rate_aliases rates k = Some v"
    by (simp add: with_rate_aliases_lookup)
  assume "with_rate_aliases rates k = Some v"
  then show "rates k = Some v
      \<or> (\<exists>olds old. (k, olds) \<in> set RATE_ALIASES \<and> old \<in> set olds \<and> rates old = Some v)"
    by (auto simp: with_rate_aliases_lookup find_Some_iff split: option.splits
        dest!: map_of_SomeD intro: nth_mem)
qed

theorem rate_aliases_conservative_witness:
  "with_rate_aliases [''primary_lunch_per_day'' \<mapsto> 9000] ''lunch_per_day'' = Some 9000
   \<and> with_rate_aliases [''lunch_per_day'' \<mapsto> 12000, ''primary_lunch_per_day'' \<mapsto> 9000] ''lunch_per_day''
       = Some 12000"
  using rate_aliases_conservative
    [of "[''lunch_per_day'' \<mapsto> 12000, ''primary_lunch_per_day'' \<mapsto> 9000]" "''lunch_per_day''" 12000]
  by (simp add: with_rate_aliases_lookup RATE_ALIASES_def)

section \<open>Seeding the catalogue\<close>

text \<open>
  Rows of \<open>CostCatalogue\<close> and \<open>CostSetting\<close>, less the columns no decision here
  reads (labels of the card, notes, currency, signatures). A
  fiscal-year label is its number. \<open>new_id\<close> is the primary key the database gives
  the row.
\<close>

datatype rate_card_kind = REFERENCE | OPERATIONAL

datatype rate_card_status = DRAFT | UNDER_REVIEW | PUBLISHED | SUPERSEDED | RETIRED

record cost_catalogue =
  cat_id :: nat
  cat_country :: string
  cat_fy :: int
  cat_kind :: rate_card_kind
  cat_status :: rate_card_status
  cat_version :: int
  cat_active :: bool
  cat_from :: "date option"
  cat_to :: "date option"

record cost_setting =
  cs_catalogue :: nat
  cs_key :: string
  cs_label :: string
  cs_unit_cost :: int
  cs_minimum :: "int option"
  cs_fy :: int
  cs_version :: int
  cs_unit :: string

record card_db =
  catalogues :: "cost_catalogue list"
  cost_settings :: "cost_setting list"

text \<open>\<open>order_by(\<dots>).first()\<close> for a descending order: the first row no other row beats.\<close>

fun first_by :: "('r \<Rightarrow> 'r \<Rightarrow> bool) \<Rightarrow> 'r list \<Rightarrow> 'r option" where
  "first_by better [] = None"
| "first_by better (r # rows) =
     (case first_by better rows of None \<Rightarrow> Some r | Some s \<Rightarrow> if better s r then Some s else Some r)"

lemma first_by_member: "first_by better rows = Some r \<Longrightarrow> r \<in> set rows"
  by (induction rows arbitrary: r) (auto split: option.splits if_splits)

lemma first_by_None: "first_by better rows = None \<longleftrightarrow> rows = []"
  by (cases rows) (auto split: option.splits)

definition is_published :: "string \<Rightarrow> cost_catalogue \<Rightarrow> bool" where
  "is_published country c \<longleftrightarrow>
     cat_country c = country \<and> cat_kind c = OPERATIONAL \<and> cat_status c = PUBLISHED \<and> cat_active c"

definition newer_version :: "cost_catalogue \<Rightarrow> cost_catalogue \<Rightarrow> bool" where
  "newer_version a b \<longleftrightarrow> cat_version b < cat_version a"

definition newer_card :: "cost_catalogue \<Rightarrow> cost_catalogue \<Rightarrow> bool" where
  "newer_card a b \<longleftrightarrow> cat_fy b < cat_fy a \<or> (cat_fy a = cat_fy b \<and> cat_version b < cat_version a)"

text \<open>\<open>active_catalogue\<close> of apps/budget/costing_service.py: the universal live card.\<close>

definition effective_on :: "date option \<Rightarrow> cost_catalogue \<Rightarrow> bool" where
  "effective_on on_date c =
     (case on_date of None \<Rightarrow> True
      | Some d \<Rightarrow> (case cat_from c of None \<Rightarrow> True | Some a \<Rightarrow> a \<le> d)
                 \<and> (case cat_to c of None \<Rightarrow> True | Some b \<Rightarrow> d \<le> b))"

definition active_catalogue :: "string \<Rightarrow> date option \<Rightarrow> card_db \<Rightarrow> cost_catalogue option" where
  "active_catalogue country on_date db =
     first_by newer_card (filter (\<lambda>c. is_published country c \<and> effective_on on_date c) (catalogues db))"

definition catalogue_conflict :: "cost_catalogue \<Rightarrow> cost_catalogue \<Rightarrow> bool" where
  "catalogue_conflict c d \<longleftrightarrow>
     cat_id c = cat_id d \<or>
     (cat_country c = cat_country d \<and> cat_fy c = cat_fy d \<and> cat_kind c = cat_kind d \<and>
       (cat_version c = cat_version d \<or> (cat_active c \<and> cat_active d)))"

definition insert_catalogue :: "cost_catalogue \<Rightarrow> card_db \<Rightarrow> card_db result" where
  "insert_catalogue c db =
     (if list_ex (catalogue_conflict c) (catalogues db)
      then Inl (IntegrityError ''cost_catalogue'')
      else Inr (db\<lparr>catalogues := catalogues db @ [c]\<rparr>))"

definition ensure_active_catalogue ::
    "string \<Rightarrow> int \<Rightarrow> nat \<Rightarrow> card_db \<Rightarrow> (card_db \<times> cost_catalogue) result" where
  "ensure_active_catalogue country fy new_id db =
     (case first_by newer_version
             (filter (\<lambda>c. is_published country c \<and> cat_fy c = fy) (catalogues db)) of
        Some c \<Rightarrow> Inr (db, c)
      | None \<Rightarrow>
         (let c = \<lparr>cat_id = new_id, cat_country = country, cat_fy = fy, cat_kind = OPERATIONAL,
                   cat_status = PUBLISHED, cat_version = 1, cat_active = True, cat_from = None, cat_to = None\<rparr>
          in bindE (insert_catalogue c db) (\<lambda>db'. Inr (db', c))))"

definition seed_setting :: "cost_catalogue \<Rightarrow> rate_row \<Rightarrow> cost_setting" where
  "seed_setting cat row =
     (case row of (key, label, cost) \<Rightarrow>
        \<lparr>cs_catalogue = cat_id cat, cs_key = key, cs_label = label, cs_unit_cost = cost,
         cs_minimum = Some cost, cs_fy = cat_fy cat, cs_version = 1,
         cs_unit = (case map_of RATE_UNITS key of None \<Rightarrow> ''unit'' | Some u \<Rightarrow> u)\<rparr>)"

definition has_setting :: "nat \<Rightarrow> string \<Rightarrow> cost_setting list \<Rightarrow> bool" where
  "has_setting cid key rows \<longleftrightarrow> list_ex (\<lambda>r. cs_catalogue r = cid \<and> cs_key r = key) rows"

fun seed_rates :: "cost_catalogue \<Rightarrow> rate_row list \<Rightarrow> cost_setting list \<Rightarrow> cost_setting list \<times> nat" where
  "seed_rates cat [] rows = (rows, 0)"
| "seed_rates cat (r # rs) rows =
     (if has_setting (cat_id cat) (fst r) rows then seed_rates cat rs rows
      else (let (rows', n) = seed_rates cat rs (rows @ [seed_setting cat r]) in (rows', Suc n)))"

text \<open>\<open>CostCatalogue.objects.get_or_create(\<dots> kind=REFERENCE, version=0 \<dots>)\<close>\<close>

definition ensure_reference_card :: "cost_catalogue \<Rightarrow> nat \<Rightarrow> card_db \<Rightarrow> card_db result" where
  "ensure_reference_card cat new_id db =
     (if list_ex (\<lambda>c. cat_country c = cat_country cat \<and> cat_fy c = cat_fy cat
            \<and> cat_kind c = REFERENCE \<and> cat_version c = 0) (catalogues db)
      then Inr db
      else insert_catalogue \<lparr>cat_id = new_id, cat_country = cat_country cat, cat_fy = cat_fy cat,
             cat_kind = REFERENCE, cat_status = DRAFT, cat_version = 0, cat_active = False,
             cat_from = None, cat_to = None\<rparr> db)"

definition ensure_cost_reference ::
    "string \<Rightarrow> int \<Rightarrow> cost_catalogue option \<Rightarrow> nat \<Rightarrow> nat \<Rightarrow> card_db \<Rightarrow> (card_db \<times> nat) result" where
  "ensure_cost_reference country fy given id1 id2 db =
     bindE (case given of Some c \<Rightarrow> Inr (db, c) | None \<Rightarrow> ensure_active_catalogue country fy id1 db)
       (\<lambda>(db1, cat). bindE (ensure_reference_card cat id2 db1) (\<lambda>db2.
         (let (rows, created) = seed_rates cat CANONICAL_RATES (cost_settings db2)
          in Inr (db2\<lparr>cost_settings := rows\<rparr>, created))))"

definition cost_reference_is_complete :: "string \<Rightarrow> card_db \<Rightarrow> bool" where
  "cost_reference_is_complete country db =
     (case active_catalogue country None db of None \<Rightarrow> False
      | Some cat \<Rightarrow>
          list_all (\<lambda>k. has_setting (cat_id cat) k (cost_settings db)) CANONICAL_RATE_KEYS
          \<and> list_ex (\<lambda>c. cat_country c = cat_country cat \<and> cat_fy c = cat_fy cat
                \<and> cat_kind c = REFERENCE) (catalogues db))"

text \<open>The unit cost the card's row of a key charges.\<close>

definition rate_of :: "nat \<Rightarrow> string \<Rightarrow> card_db \<Rightarrow> int option" where
  "rate_of cid key db =
     map_option cs_unit_cost (find (\<lambda>r. cs_catalogue r = cid \<and> cs_key r = key) (cost_settings db))"

lemma has_setting_append [simp]:
  "has_setting c k (xs @ ys) \<longleftrightarrow> has_setting c k xs \<or> has_setting c k ys"
  by (simp add: has_setting_def)

lemma has_setting_seed [simp]:
  "has_setting c k [seed_setting cat r] \<longleftrightarrow> c = cat_id cat \<and> k = fst r"
  by (cases r) (auto simp: has_setting_def seed_setting_def)

lemma seed_rates_prefix: "\<exists>new. fst (seed_rates cat rs rows) = rows @ new"
proof (induction rs arbitrary: rows)
  case (Cons r rs)
  from Cons.IH [of "rows @ [seed_setting cat r]"] Cons.IH [of rows] show ?case
    by (auto simp: case_prod_beta)
qed simp

lemma seed_rates_complete: "r \<in> set rs \<Longrightarrow> has_setting (cat_id cat) (fst r) (fst (seed_rates cat rs rows))"
proof (induction rs arbitrary: rows)
  case (Cons q rs)
  have keep: "has_setting c k xs \<Longrightarrow> has_setting c k (fst (seed_rates cat rs xs))" for c k xs
    using seed_rates_prefix [of cat rs xs] by auto
  show ?case
  proof (cases "r = q")
    case True
    then show ?thesis by (auto simp: case_prod_beta intro: keep)
  next
    case False
    with Cons show ?thesis by (simp add: case_prod_beta)
  qed
qed simp

lemma seed_rates_nothing_missing:
  "\<forall>r \<in> set rs. has_setting (cat_id cat) (fst r) rows \<Longrightarrow> seed_rates cat rs rows = (rows, 0)"
  by (induction rs) auto

lemma ensure_reference_card_settings:
  "ensure_reference_card cat i db = Inr db' \<Longrightarrow> cost_settings db' = cost_settings db
     \<and> (\<exists>new. catalogues db' = catalogues db @ new \<and> (\<forall>c \<in> set new. cat_kind c = REFERENCE))
     \<and> list_ex (\<lambda>c. cat_country c = cat_country cat \<and> cat_fy c = cat_fy cat
            \<and> cat_kind c = REFERENCE \<and> cat_version c = 0) (catalogues db')"
  by (auto simp: ensure_reference_card_def insert_catalogue_def split: if_splits)

text \<open>Seeding a given catalogue leaves every existing rate row in place and unchanged, ends
  with every canonical rate present, and a second run creates nothing and changes nothing.\<close>

theorem seeding_only_creates:
  assumes "ensure_cost_reference country fy (Some cat) id1 id2 db = Inr (db', created)"
  shows "(\<exists>new. cost_settings db' = cost_settings db @ new)
    \<and> list_all (\<lambda>key. has_setting (cat_id cat) key (cost_settings db')) CANONICAL_RATE_KEYS
    \<and> ensure_cost_reference country fy (Some cat) id3 id4 db' = Inr (db', 0)"
proof -
  obtain db2 where r: "ensure_reference_card cat id2 db = Inr db2"
    and rows: "cost_settings db' = fst (seed_rates cat CANONICAL_RATES (cost_settings db2))"
    and db': "db' = db2\<lparr>cost_settings := cost_settings db'\<rparr>"
    using assms by (auto simp: ensure_cost_reference_def bindE_eq_Inr case_prod_beta Let_def)
  note ref = ensure_reference_card_settings [OF r]
  have all: "\<forall>q \<in> set CANONICAL_RATES. has_setting (cat_id cat) (fst q) (cost_settings db')"
    unfolding rows by (auto intro: seed_rates_complete)
  have "catalogues db' = catalogues db2" by (subst db') simp
  with ref have "ensure_reference_card cat id4 db' = Inr db'"
    by (simp add: ensure_reference_card_def)
  with seed_rates_nothing_missing [OF all]
  have "ensure_cost_reference country fy (Some cat) id3 id4 db' = Inr (db', 0)"
    by (simp add: ensure_cost_reference_def)
  moreover have "\<exists>new. cost_settings db' = cost_settings db @ new"
    unfolding rows using ref seed_rates_prefix by metis
  moreover have "list_all (\<lambda>key. has_setting (cat_id cat) key (cost_settings db')) CANONICAL_RATE_KEYS"
    using all by (simp add: CANONICAL_RATE_KEYS_def list_all_iff)
  ultimately show ?thesis by blast
qed

theorem seeding_only_creates_witness:
  "let cat = \<lparr>cat_id = 1, cat_country = ''UG'', cat_fy = 2026, cat_kind = OPERATIONAL,
        cat_status = PUBLISHED, cat_version = 3, cat_active = True, cat_from = None, cat_to = None\<rparr>;
      db = \<lparr>catalogues = [cat], cost_settings = [seed_setting cat (''lunch_per_day'', ''Lunch'', 15000)]\<rparr>
   in \<exists>db' n. ensure_cost_reference ''UG'' 2026 (Some cat) 8 9 db = Inr (db', n)
        \<and> (\<exists>new. cost_settings db' = cost_settings db @ new)
        \<and> ensure_cost_reference ''UG'' 2026 (Some cat) 8 9 db' = Inr (db', 0)"
proof -
  let ?cat = "\<lparr>cat_id = 1, cat_country = ''UG'', cat_fy = 2026, cat_kind = OPERATIONAL,
        cat_status = PUBLISHED, cat_version = 3, cat_active = True, cat_from = None, cat_to = None\<rparr>"
  let ?db = "\<lparr>catalogues = [?cat],
      cost_settings = [seed_setting ?cat (''lunch_per_day'', ''Lunch'', 15000)]\<rparr>"
  obtain db' n where r: "ensure_cost_reference ''UG'' 2026 (Some ?cat) 8 9 ?db = Inr (db', n)"
    by (cases "seed_rates ?cat CANONICAL_RATES (cost_settings ?db)")
      (simp add: ensure_cost_reference_def ensure_reference_card_def insert_catalogue_def
        catalogue_conflict_def)
  from r seeding_only_creates [OF r, of 8 9] show ?thesis unfolding Let_def by blast
qed

lemma seed_rates_fresh:
  "distinct (map fst rs) \<Longrightarrow> (\<forall>r \<in> set rs. \<not> has_setting (cat_id cat) (fst r) rows) \<Longrightarrow>
     seed_rates cat rs rows = (rows @ map (seed_setting cat) rs, length rs)"
proof (induction rs arbitrary: rows)
  case (Cons r rs)
  have "\<forall>q \<in> set rs. \<not> has_setting (cat_id cat) (fst q) (rows @ [seed_setting cat r])"
    using Cons.prems by (auto simp: image_iff)
  with Cons.IH [of "rows @ [seed_setting cat r]"] Cons.prems show ?case by simp
qed simp

lemma find_seeded:
  assumes "distinct (map fst rs)" and "(key, label, cost) \<in> set rs"
  shows "find (\<lambda>r. cs_catalogue r = cat_id cat \<and> cs_key r = key) (map (seed_setting cat) rs)
    = Some (seed_setting cat (key, label, cost))"
  using assms
proof (induction rs)
  case (Cons r rs)
  show ?case
  proof (cases "r = (key, label, cost)")
    case True
    then show ?thesis by (simp add: seed_setting_def)
  next
    case False
    with Cons.prems(2) have m: "(key, label, cost) \<in> set rs" by simp
    then have "key \<in> fst ` set rs" by force
    with Cons.prems(1) have "fst r \<noteq> key" by auto
    with m Cons show ?thesis by (cases r) (simp add: seed_setting_def)
  qed
qed simp

lemma first_by_last: "(\<forall>x \<in> set xs. better c x) \<Longrightarrow> first_by better (xs @ [c]) = Some c"
  by (induction xs) auto

lemma canonical_keys_distinct: "distinct (map fst CANONICAL_RATES)"
  by (simp add: canonical_rate_defs)

text \<open>C15: When the fiscal year has turned and no card of the new year is published, the seeding
  that runs on every deploy makes a card at the default rates, and that card becomes the live
  card every activity is priced from, on any date,
  whatever rates the previous year's published card carried.\<close>

theorem new_year_seeding_supersedes_card:
  assumes "ensure_cost_reference country fy None id1 id2 db = Inr (db', created)"
    and "\<forall>c \<in> set (catalogues db). is_published country c \<longrightarrow> cat_fy c < fy"
    and "\<forall>r \<in> set (cost_settings db). cs_catalogue r \<noteq> id1"
  shows "(\<exists>cat. active_catalogue country on_date db' = Some cat \<and> cat_id cat = id1 \<and> cat_fy cat = fy)
    \<and> list_all (\<lambda>(key, label, cost). rate_of id1 key db' = Some cost) CANONICAL_RATES"
proof -
  let ?cat = "\<lparr>cat_id = id1, cat_country = country, cat_fy = fy, cat_kind = OPERATIONAL,
     cat_status = PUBLISHED, cat_version = 1, cat_active = True, cat_from = None, cat_to = None\<rparr>"
  have "filter (\<lambda>c. is_published country c \<and> cat_fy c = fy) (catalogues db) = []"
    using assms(2) by (auto simp: filter_empty_conv)
  then have ensure: "ensure_active_catalogue country fy id1 db
      = bindE (insert_catalogue ?cat db) (\<lambda>d. Inr (d, ?cat))"
    by (simp add: ensure_active_catalogue_def Let_def)
  then obtain db2 where r: "ensure_reference_card ?cat id2 (db\<lparr>catalogues := catalogues db @ [?cat]\<rparr>) = Inr db2"
    and rows: "cost_settings db' = fst (seed_rates ?cat CANONICAL_RATES (cost_settings db2))"
    and cats: "catalogues db' = catalogues db2"
    using assms(1)
    by (auto simp: ensure_cost_reference_def bindE_eq_Inr case_prod_beta Let_def insert_catalogue_def
        split: if_splits)
  note ref = ensure_reference_card_settings [OF r]
  obtain new where new: "catalogues db' = catalogues db @ ?cat # new" "\<forall>c \<in> set new. cat_kind c = REFERENCE"
    using ref cats by auto
  let ?live = "\<lambda>c. is_published country c \<and> effective_on on_date c"
  have "filter ?live new = []"
    using new(2) by (auto simp: filter_empty_conv is_published_def)
  then have "filter ?live (catalogues db') = filter ?live (catalogues db) @ [?cat]"
    by (simp add: new is_published_def effective_on_def split: option.split)
  moreover have "\<forall>c \<in> set (filter ?live (catalogues db)). newer_card ?cat c"
    using assms(2) by (auto simp: newer_card_def)
  ultimately have active: "active_catalogue country on_date db' = Some ?cat"
    by (simp add: active_catalogue_def first_by_last)
  have none: "\<not> has_setting id1 k (cost_settings db)" for k
    using assms(3) by (auto simp: has_setting_def list_ex_iff)
  then have rows': "cost_settings db' = cost_settings db @ map (seed_setting ?cat) CANONICAL_RATES"
    using rows ref seed_rates_fresh [OF canonical_keys_distinct, of ?cat "cost_settings db"] by simp
  have "find (\<lambda>r. cs_catalogue r = id1 \<and> cs_key r = k) (cost_settings db) = None" for k
    using assms(3) by (auto simp: find_None_iff)
  then have "rate_of id1 k db' = Some cost" if "(k, l, cost) \<in> set CANONICAL_RATES" for k l cost
    using find_seeded [OF canonical_keys_distinct that, of ?cat]
    by (simp add: rate_of_def rows' find_append seed_setting_def)
  with active show ?thesis by (auto simp: list_all_iff)
qed

theorem new_year_seeding_supersedes_card_witness:
  "let cat = \<lparr>cat_id = 1, cat_country = ''UG'', cat_fy = 2026, cat_kind = OPERATIONAL,
        cat_status = PUBLISHED, cat_version = 3, cat_active = True, cat_from = None, cat_to = None\<rparr>;
      db = \<lparr>catalogues = [cat], cost_settings = [seed_setting cat (''lunch_per_day'', ''Lunch'', 15000)]\<rparr>
   in active_catalogue ''UG'' (Some (Date 2026 10 2)) db = Some cat \<and> rate_of 1 ''lunch_per_day'' db = Some 15000
      \<and> (\<exists>db' n c. ensure_cost_reference ''UG'' 2027 None 2 3 db = Inr (db', n)
           \<and> active_catalogue ''UG'' (Some (Date 2026 10 2)) db' = Some c \<and> cat_id c = 2
           \<and> rate_of 2 ''lunch_per_day'' db' = Some 12000)"
proof -
  let ?cat = "\<lparr>cat_id = 1, cat_country = ''UG'', cat_fy = 2026, cat_kind = OPERATIONAL,
        cat_status = PUBLISHED, cat_version = 3, cat_active = True, cat_from = None, cat_to = None\<rparr>"
  let ?db = "\<lparr>catalogues = [?cat],
      cost_settings = [seed_setting ?cat (''lunch_per_day'', ''Lunch'', 15000)]\<rparr>"
  have before: "active_catalogue ''UG'' (Some (Date 2026 10 2)) ?db = Some ?cat" "rate_of 1 ''lunch_per_day'' ?db = Some 15000"
    by (simp_all add: active_catalogue_def is_published_def effective_on_def rate_of_def seed_setting_def)
  obtain db' n where r: "ensure_cost_reference ''UG'' 2027 None 2 3 ?db = Inr (db', n)"
    by (auto simp: ensure_cost_reference_def ensure_active_catalogue_def ensure_reference_card_def
        insert_catalogue_def catalogue_conflict_def case_prod_beta Let_def)
  have "list_all (\<lambda>(key, label, cost). rate_of 2 key db' = Some cost) CANONICAL_RATES"
    "\<exists>c. active_catalogue ''UG'' (Some (Date 2026 10 2)) db' = Some c \<and> cat_id c = 2"
    using new_year_seeding_supersedes_card [OF r, where on_date = "Some (Date 2026 10 2)"] by (auto simp: seed_setting_def)
  moreover have "(''lunch_per_day'', ''Lunch'', 12000) \<in> set CANONICAL_RATES"
    by (simp add: canonical_rate_defs)
  ultimately have "rate_of 2 ''lunch_per_day'' db' = Some 12000" by (auto simp: list_all_iff)
  with r before \<open>\<exists>c. active_catalogue ''UG'' (Some (Date 2026 10 2)) db' = Some c \<and> cat_id c = 2\<close>
  show ?thesis unfolding Let_def by blast
qed

end
