(* ===== verification/VisitPricing.thy ===== *)
theory VisitPricing
  imports RateCard PyValues CalendarDates
begin

text \<open>
  apps/daily_visit_batches: the one travel pool of a person's day. \<open>districts.py\<close>
  decides whether the day is primary or secondary for the traveller,
  \<open>return_day.py\<close> which day carries no night, and \<open>pricing.py\<close> fetches the day's
  rates and splits each of them over the schools of the day.
  A Python dict that is built in order is the list of its items.
\<close>

type_synonym pool = "(string \<times> int) list"

section \<open>Primary or secondary (districts.py)\<close>

definition PRIMARY :: string where "PRIMARY = ''primary''"

definition SECONDARY :: string where "SECONDARY = ''secondary''"

definition HQ_PRIMARY_DISTRICTS :: "string list" where
  "HQ_PRIMARY_DISTRICTS = [''Kampala'', ''Wakiso'', ''Mukono'']"

definition HQ_ZONE :: "string list" where
  "HQ_ZONE = map lower HQ_PRIMARY_DISTRICTS"

definition FIELD_ROLES :: "string list" where
  "FIELD_ROLES = [''CCEO'', ''Program Lead'']"

definition FIELD_ROLE_ALIASES :: "string list" where
  "FIELD_ROLE_ALIASES = [''pl'', ''cceo'', ''program lead'', ''programme lead'']"

definition norm_text :: "string option \<Rightarrow> string" where
  "norm_text v = (case v of None \<Rightarrow> [] | Some s \<Rightarrow> lower (strip s))"

definition is_field_role :: "string option \<Rightarrow> bool" where
  "is_field_role role = (case role of None \<Rightarrow> False
     | Some text \<Rightarrow> text \<in> set FIELD_ROLES \<or> norm_text (Some text) \<in> set FIELD_ROLE_ALIASES)"

definition hq_district_type :: "string option \<Rightarrow> string" where
  "hq_district_type district_name =
     (if norm_text district_name \<in> set HQ_ZONE then PRIMARY else SECONDARY)"

definition resolve_district_type ::
    "string option \<Rightarrow> string option \<Rightarrow> string option \<Rightarrow> string result" where
  "resolve_district_type role primary_district target_district =
     bindE (ensure (norm_text target_district \<noteq> []) ValueError) (\<lambda>_.
       if is_field_role role then
         bindE (ensure (norm_text primary_district \<noteq> []) ValueError) (\<lambda>_.
           Inr (if norm_text primary_district = norm_text target_district then PRIMARY else SECONDARY))
       else Inr (hq_district_type target_district))"

text \<open>The rows the traveller is looked up in; soft-deleted profiles and accounts are not among them.\<close>

record account =
  user_pk :: string
  roles :: "string list"
  active_role :: "string option"

record staff_profile =
  profile_pk :: string
  profile_user :: account
  primary_district_id :: "string option"

record district =
  district_pk :: string
  district_name :: string
  district_class :: "string option"

record directory =
  profiles :: "staff_profile list"
  accounts :: "account list"

definition MANAGEMENT_ACCOMMODATION_ROLES :: "string list" where
  "MANAGEMENT_ACCOMMODATION_ROLES =
    [''Program Lead'', ''CountryDirector'', ''ImpactAssessment'', ''Accountant'', ''HumanResources'',
     ''ProjectCoordinator'', ''BusinessTransformationOfficer'', ''RegionalVicePresident'',
     ''RegionalProgramLead'', ''Admin'']"

definition ACCOMMODATION_KEY :: string where
  "ACCOMMODATION_KEY = ''secondary_accommodation_per_night''"

definition MANAGEMENT_ACCOMMODATION_KEY :: string where
  "MANAGEMENT_ACCOMMODATION_KEY = ''management_accommodation_per_night''"

definition staff_profile_of :: "directory \<Rightarrow> string \<Rightarrow> staff_profile option" where
  "staff_profile_of d responsible_id =
     (if responsible_id = [] then None
      else find (\<lambda>p. user_pk (profile_user p) = responsible_id \<or> profile_pk p = responsible_id) (profiles d))"

definition account_of :: "directory \<Rightarrow> string \<Rightarrow> account option" where
  "account_of d responsible_id =
     (if responsible_id = [] then None else find (\<lambda>u. user_pk u = responsible_id) (accounts d))"

definition accommodation_key_for_role :: "string option \<Rightarrow> string" where
  "accommodation_key_for_role role =
     (case role of None \<Rightarrow> ACCOMMODATION_KEY
      | Some text \<Rightarrow> if text \<in> set MANAGEMENT_ACCOMMODATION_ROLES then MANAGEMENT_ACCOMMODATION_KEY
                     else ACCOMMODATION_KEY)"

definition accommodation_key_for_user :: "account \<Rightarrow> string" where
  "accommodation_key_for_user u =
     (if roles u = [] then accommodation_key_for_role (active_role u)
      else if list_ex (\<lambda>r. r \<in> set MANAGEMENT_ACCOMMODATION_ROLES) (roles u)
      then MANAGEMENT_ACCOMMODATION_KEY else ACCOMMODATION_KEY)"

definition accommodation_key_for_staff :: "directory \<Rightarrow> string \<Rightarrow> string" where
  "accommodation_key_for_staff d responsible_id =
     (let user = (case staff_profile_of d responsible_id of
          Some p \<Rightarrow> Some (profile_user p) | None \<Rightarrow> account_of d responsible_id)
      in case user of None \<Rightarrow> accommodation_key_for_role None
         | Some u \<Rightarrow> accommodation_key_for_user u)"

definition holds_field_role :: "account \<Rightarrow> bool" where
  "holds_field_role u =
     (if roles u = [] then is_field_role (active_role u)
      else list_ex (\<lambda>r. is_field_role (Some r)) (roles u))"

definition district_type_for_staff :: "directory \<Rightarrow> string \<Rightarrow> district option \<Rightarrow> string option" where
  "district_type_for_staff d responsible_id district =
     (case district of None \<Rightarrow> Some PRIMARY
      | Some dist \<Rightarrow>
         (case staff_profile_of d responsible_id of
            Some p \<Rightarrow>
              if holds_field_role (profile_user p) then
                (case primary_district_id p of
                   None \<Rightarrow> district_class dist
                 | Some home \<Rightarrow>
                     if home = [] then district_class dist
                     else Some (if home = district_pk dist then PRIMARY else SECONDARY))
              else Some (hq_district_type (Some (district_name dist)))
          | None \<Rightarrow>
              (case account_of d responsible_id of None \<Rightarrow> district_class dist
               | Some _ \<Rightarrow> Some (hq_district_type (Some (district_name dist))))))"

section \<open>The rates of a day (pricing.py)\<close>

definition KEY_LABELS :: "(string \<times> string) list" where
  "KEY_LABELS =
    [(''primary_transport_per_day'', ''Transport Primary District''),
     (''secondary_transport_per_day'', ''Transport Secondary District''),
     (''lunch_per_day'', ''Lunch''),
     (ACCOMMODATION_KEY, ''Accommodation''),
     (MANAGEMENT_ACCOMMODATION_KEY, ''Accommodation''),
     (''secondary_overnight_dinner_per_day'', ''Dinner''),
     (''secondary_breakfast_per_day'', ''Breakfast'')]"

definition REQUIRED_KEYS :: "(string \<times> string list) list" where
  "REQUIRED_KEYS =
    [(''primary'', [''primary_transport_per_day'', ''lunch_per_day'']),
     (''secondary'',
      [''secondary_transport_per_day'', ''lunch_per_day'', ''secondary_breakfast_per_day'',
       ''secondary_overnight_dinner_per_day'', ''secondary_accommodation_per_night''])]"

definition OPTIONAL_KEYS :: "(string \<times> string list) list" where
  "OPTIONAL_KEYS = [(''primary'', []), (''secondary'', [])]"

definition ACCOMMODATION_KEYS :: "string list" where
  "ACCOMMODATION_KEYS = [ACCOMMODATION_KEY, MANAGEMENT_ACCOMMODATION_KEY]"

definition MIXED_DAY :: string where "MIXED_DAY = ''mixed''"

definition MIXED_TRANSPORT_LABEL :: string where
  "MIXED_TRANSPORT_LABEL = ''Transport Mixed District''"

definition DINNER_KEY :: string where
  "DINNER_KEY = ''secondary_overnight_dinner_per_day''"

definition RETURN_DAY_DROPPED_KEYS :: "string list" where
  "RETURN_DAY_DROPPED_KEYS = ACCOMMODATION_KEYS @ [DINNER_KEY]"

definition or_primary :: "string option \<Rightarrow> string" where
  "or_primary t = (case t of None \<Rightarrow> PRIMARY | Some s \<Rightarrow> if s = [] then PRIMARY else s)"

definition day_district_mark :: "string option list \<Rightarrow> string" where
  "day_district_mark district_types =
     (let types = map or_primary district_types in
      if SECONDARY \<in> set types then (if PRIMARY \<in> set types then MIXED_DAY else SECONDARY)
      else PRIMARY)"

definition pricing_district_type :: "string \<Rightarrow> string" where
  "pricing_district_type mark = (if mark = PRIMARY then PRIMARY else SECONDARY)"

definition is_letter :: "char \<Rightarrow> bool" where
  "is_letter c \<longleftrightarrow> (let n = char_code c in (65 \<le> n \<and> n \<le> 90) \<or> (97 \<le> n \<and> n \<le> 122))"

fun title_from :: "bool \<Rightarrow> string \<Rightarrow> string" where
  "title_from inside [] = []"
| "title_from inside (c # cs) =
     (if inside then lower_char c else upper_char c) # title_from (is_letter c) cs"

definition day_line_label :: "string \<Rightarrow> string \<Rightarrow> string" where
  "day_line_label key mark =
     (if mark = MIXED_DAY \<and> key = ''secondary_transport_per_day'' then MIXED_TRANSPORT_LABEL
      else (case map_of KEY_LABELS key of Some l \<Rightarrow> l
            | None \<Rightarrow> title_from False (map (\<lambda>c. if c = CHR ''_'' then CHR '' '' else c) key)))"

definition day_keys :: "string \<Rightarrow> string option \<Rightarrow> bool \<Rightarrow> string list result" where
  "day_keys district_type accommodation_key return_day =
     (let night = (case accommodation_key of None \<Rightarrow> ACCOMMODATION_KEY
                   | Some k \<Rightarrow> if k \<in> set ACCOMMODATION_KEYS then k else ACCOMMODATION_KEY)
      in bindE (of_option (KeyError district_type) (map_of REQUIRED_KEYS district_type)) (\<lambda>required.
           let keys = map (\<lambda>key. if key = ACCOMMODATION_KEY then night else key) required
           in Inr (if return_day then filter (\<lambda>key. key \<notin> set RETURN_DAY_DROPPED_KEYS) keys else keys)))"

fun join_text :: "string \<Rightarrow> string list \<Rightarrow> string" where
  "join_text sep [] = []"
| "join_text sep [s] = s"
| "join_text sep (s # t # ss) = s @ sep @ join_text sep (t # ss)"

text \<open>\<open>d[k] = v\<close> on the items of a dict: the key keeps its place.\<close>

fun set_item :: "string \<Rightarrow> int \<Rightarrow> pool \<Rightarrow> pool" where
  "set_item k v [] = [(k, v)]"
| "set_item k v ((j, w) # items) = (if j = k then (k, v) # items else (j, w) # set_item k v items)"

definition pool_of :: "rate_card \<Rightarrow> string list \<Rightarrow> pool" where
  "pool_of rates keys = map (\<lambda>k. (k, the (rates k))) keys"

definition compute_daily_pool ::
    "rate_card \<Rightarrow> string \<Rightarrow> string option \<Rightarrow> bool \<Rightarrow> pool result" where
  "compute_daily_pool given district_type accommodation_key return_day =
     (let rates = with_rate_aliases given in
      bindE (day_keys district_type accommodation_key return_day) (\<lambda>required.
      let missing = filter (\<lambda>k. rates k = None) required in
      bindE (ensure (missing = [])
          (BadRequest (''Cost Catalogue is missing required rate(s) for '' @ district_type
             @ '' district visits: '' @ join_text '', '' missing
             @ ''. Ask the CD to add them in Cost Settings.''))) (\<lambda>_.
      bindE (of_option (KeyError district_type) (map_of OPTIONAL_KEYS district_type)) (\<lambda>optional.
      Inr (foldl (\<lambda>p k. case rates k of None \<Rightarrow> p | Some v \<Rightarrow> set_item k v p)
             (pool_of rates required) optional)))))"

definition allocate_component :: "int \<Rightarrow> int \<Rightarrow> int list" where
  "allocate_component amount n =
     (if n \<le> 0 then []
      else (let base = amount div n; remainder = amount mod n in
            map (\<lambda>i. if i < remainder then base + 1 else base) [0..n - 1]))"

definition allocate_pool :: "pool \<Rightarrow> int \<Rightarrow> pool list" where
  "allocate_pool pool n =
     (let per_key = map (\<lambda>(k, v). (k, allocate_component v n)) pool in
      map (\<lambda>i. map (\<lambda>(k, shares). (k, shares ! nat i)) per_key) [0..n - 1])"

section \<open>The day a traveller comes home (return_day.py)\<close>

text \<open>
  A batch row, and the days a group of moves holds back while it prices them
  (\<open>days_standing\<close>), which answer before the batches do. The days away are the
  list of those asked for.
\<close>

record day_batch =
  batch_user :: string
  batch_date :: date
  batch_district_type :: string
  batch_school_count :: int
  batch_rate_keys :: "string list"

type_synonym standing = "string \<times> date \<rightharpoonup> bool"

definition away_on :: "standing \<Rightarrow> day_batch list \<Rightarrow> string \<Rightarrow> date list \<Rightarrow> date list" where
  "away_on known batches responsible_user days =
     (if responsible_user = [] then []
      else filter (\<lambda>d. case known (responsible_user, d) of Some away \<Rightarrow> away
        | None \<Rightarrow> list_ex (\<lambda>b. batch_user b = responsible_user \<and> batch_date b = d
            \<and> batch_district_type b = SECONDARY \<and> 0 < batch_school_count b) batches) days)"

definition is_return_day ::
    "standing \<Rightarrow> day_batch list \<Rightarrow> string \<Rightarrow> date \<Rightarrow> date list option \<Rightarrow> bool result" where
  "is_return_day known batches responsible_user d given =
     bindE (case given of Some away \<Rightarrow> Inr away
        | None \<Rightarrow> bindE (py_add_days d (- 1)) (\<lambda>before. bindE (py_add_days d 1) (\<lambda>after.
            Inr (away_on known batches responsible_user [before, after])))) (\<lambda>away.
     bindE (py_add_days d (- 1)) (\<lambda>before.
       if before \<in> set away then bindE (py_add_days d 1) (\<lambda>after. Inr (after \<notin> set away))
       else Inr False))"

definition priced_as_return_day :: "day_batch \<Rightarrow> bool" where
  "priced_as_return_day b \<longleftrightarrow> batch_district_type b = SECONDARY
     \<and> \<not> list_ex (\<lambda>k. k \<in> set ACCOMMODATION_KEYS) (batch_rate_keys b)"

section \<open>The split of a day is exact\<close>

lemma allocate_component_nth:
  assumes "0 \<le> i" and "i < n"
  shows "allocate_component v n ! nat i = v div n + (if i < v mod n then 1 else 0)"
  using assms by (simp add: allocate_component_def Let_def nth_upto)

lemma length_allocate_component: "length (allocate_component v n) = nat n"
  by (simp add: allocate_component_def Let_def)

lemma sum_first_ones:
  "r \<le> k \<Longrightarrow> (\<Sum>i<k. b + (if int i < int r then 1 else 0)) = int k * b + int r" for b :: int
proof (induction k)
  case (Suc k)
  have "(\<Sum>i<Suc k. b + (if int i < int (Suc k) then 1 else 0)) = (\<Sum>i<Suc k. b + 1)"
    by (rule sum.cong) auto
  then have full: "(\<Sum>i<Suc k. b + (if int i < int (Suc k) then 1 else 0)) = int (Suc k) * b + int (Suc k)"
    by (simp add: algebra_simps)
  show ?case
  proof (cases "r = Suc k")
    case True
    then show ?thesis using full by simp
  next
    case False
    with Suc have "r \<le> k" by simp
    with Suc.IH show ?thesis by (simp add: algebra_simps)
  qed
qed simp

lemma sum_allocate_component:
  assumes "0 < n"
  shows "sum_list (allocate_component v (int n)) = v"
proof -
  let ?r = "nat (v mod int n)"
  have "sum_list (allocate_component v (int n)) = (\<Sum>i<n. allocate_component v (int n) ! i)"
    by (simp add: sum_list_sum_nth length_allocate_component atLeast0LessThan)
  also have "\<dots> = (\<Sum>i<n. v div int n + (if int i < int ?r then 1 else 0))"
    using assms allocate_component_nth [of "int _" "int n" v] by (intro sum.cong) auto
  also have "\<dots> = int n * (v div int n) + int ?r"
    using assms by (intro sum_first_ones) (simp add: nat_le_iff less_imp_le)
  finally show ?thesis using assms by simp
qed

interpretation day_split: exact_split "\<lambda>v n. allocate_component v (int n)"
proof
  fix v :: int and n :: nat and x y
  show "length (allocate_component v (int n)) = n" by (simp add: length_allocate_component)
  show "0 < n \<Longrightarrow> sum_list (allocate_component v (int n)) = v" by (rule sum_allocate_component)
  show "x \<in> set (allocate_component v (int n)) \<Longrightarrow> y \<in> set (allocate_component v (int n)) \<Longrightarrow> x - y \<le> 1"
    by (auto simp: allocate_component_def Let_def split: if_splits)
qed

lemma length_allocate_pool: "length (allocate_pool pool n) = nat n"
  by (simp add: allocate_pool_def Let_def)

lemma allocate_pool_nth:
  assumes "i < n"
  shows "allocate_pool pool (int n) ! i = map (\<lambda>(k, v). (k, allocate_component v (int n) ! i)) pool"
  using assms by (simp add: allocate_pool_def Let_def nth_upto comp_def case_prod_beta)

lemma sum_over_schools:
  "sum_list (map f (allocate_pool pool (int n)))
     = (\<Sum>i<n. f (map (\<lambda>(k, v). (k, allocate_component v (int n) ! i)) pool))" for f :: "pool \<Rightarrow> int"
proof -
  have "sum_list (map f (allocate_pool pool (int n))) = (\<Sum>i<n. map f (allocate_pool pool (int n)) ! i)"
    by (simp add: sum_list_sum_nth length_allocate_pool atLeast0LessThan)
  also have "\<dots> = (\<Sum>i<n. f (map (\<lambda>(k, v). (k, allocate_component v (int n) ! i)) pool))"
    by (rule sum.cong) (simp_all add: length_allocate_pool allocate_pool_nth)
  finally show ?thesis .
qed

text \<open>C13: Splitting a day's pool over its schools loses no shilling: each school gets every
  component of the pool, the shares of each component add up to the component, and the schools'
  totals add up to the pool.\<close>

theorem allocate_pool_exact:
  assumes "0 < n"
  shows "length (allocate_pool pool (int n)) = n
    \<and> list_all (\<lambda>d. map fst d = map fst pool) (allocate_pool pool (int n))
    \<and> (j < length pool \<longrightarrow> sum_list (map (\<lambda>d. snd (d ! j)) (allocate_pool pool (int n))) = snd (pool ! j))
    \<and> sum_list (map (\<lambda>d. sum_list (map snd d)) (allocate_pool pool (int n))) = sum_list (map snd pool)"
proof (intro conjI impI)
  show "length (allocate_pool pool (int n)) = n" by (simp add: length_allocate_pool)
  show "list_all (\<lambda>d. map fst d = map fst pool) (allocate_pool pool (int n))"
    by (simp add: list_all_length length_allocate_pool allocate_pool_nth comp_def case_prod_beta)
  assume j: "j < length pool"
  have "sum_list (map (\<lambda>d. snd (d ! j)) (allocate_pool pool (int n)))
      = (\<Sum>i<n. allocate_component (snd (pool ! j)) (int n) ! i)"
    using j by (simp add: sum_over_schools case_prod_beta)
  also have "\<dots> = snd (pool ! j)"
    using day_split.share_pool_sum [OF assms, of "[snd (pool ! j)]"] by simp
  finally show "sum_list (map (\<lambda>d. snd (d ! j)) (allocate_pool pool (int n))) = snd (pool ! j)" .
next
  have "sum_list (map (\<lambda>d. sum_list (map snd d)) (allocate_pool pool (int n)))
      = (\<Sum>i<n. sum_list (map (\<lambda>v. allocate_component v (int n) ! i) (map snd pool)))"
    by (simp add: sum_over_schools comp_def case_prod_beta)
  then show "sum_list (map (\<lambda>d. sum_list (map snd d)) (allocate_pool pool (int n))) = sum_list (map snd pool)"
    using day_split.share_pool_sum [OF assms, of "map snd pool"] by simp
qed

theorem allocate_pool_exact_witness:
  "allocate_pool [(''lunch_per_day'', 12000), (''primary_transport_per_day'', 50000)] 7
     = allocate_pool [(''lunch_per_day'', 12000), (''primary_transport_per_day'', 50000)] (int 7)
   \<and> sum_list (map (\<lambda>d. snd (d ! 1))
       (allocate_pool [(''lunch_per_day'', 12000), (''primary_transport_per_day'', 50000)] 7)) = 50000"
  using allocate_pool_exact [where n = 7 and j = 1
      and pool = "[(''lunch_per_day'', 12000), (''primary_transport_per_day'', 50000)]"]
  by simp

text \<open>The split is fair and its order decides only the last shilling: a school earlier in the
  caller's order is never charged less for a component than a later one, and at most one
  shilling more.\<close>

theorem allocate_component_fair:
  assumes "0 \<le> i" and "i < j" and "j < n"
  shows "allocate_component v n ! nat i - allocate_component v n ! nat j \<in> {0, 1}"
  using assms allocate_component_nth [of i n v] allocate_component_nth [of j n v] by simp

theorem allocate_component_fair_witness:
  "allocate_component 50000 7 ! 5 - allocate_component 50000 7 ! 6 \<in> {0, 1}
   \<and> allocate_component 50000 7 ! 5 = 7143 \<and> allocate_component 50000 7 ! 6 = 7142"
  using allocate_component_fair [of 5 6 7 50000] allocate_component_nth [of 5 7 50000]
    allocate_component_nth [of 6 7 50000] by simp

section \<open>What a day fetches\<close>

lemmas day_type_defs = PRIMARY_def SECONDARY_def MIXED_DAY_def

lemmas day_key_defs = ACCOMMODATION_KEY_def MANAGEMENT_ACCOMMODATION_KEY_def DINNER_KEY_def

definition night_key :: "string option \<Rightarrow> string" where
  "night_key acc = (if acc = Some MANAGEMENT_ACCOMMODATION_KEY then MANAGEMENT_ACCOMMODATION_KEY
     else ACCOMMODATION_KEY)"

lemma day_keys_primary:
  "day_keys ''primary'' acc ret = Inr [''primary_transport_per_day'', ''lunch_per_day'']"
  by (simp add: day_keys_def REQUIRED_KEYS_def RETURN_DAY_DROPPED_KEYS_def ACCOMMODATION_KEYS_def
      day_key_defs Let_def)

lemma night_choice:
  "(case acc of None \<Rightarrow> ACCOMMODATION_KEY
     | Some k \<Rightarrow> if k \<in> set ACCOMMODATION_KEYS then k else ACCOMMODATION_KEY) = night_key acc"
  by (auto simp: night_key_def ACCOMMODATION_KEYS_def split: option.splits)

lemma day_keys_secondary:
  "day_keys ''secondary'' acc ret = Inr
     ([''secondary_transport_per_day'', ''lunch_per_day'', ''secondary_breakfast_per_day'']
      @ (if ret then [] else [DINNER_KEY, night_key acc]))"
proof -
  have "night_key acc = ACCOMMODATION_KEY \<or> night_key acc = MANAGEMENT_ACCOMMODATION_KEY"
    by (simp add: night_key_def)
  then show ?thesis
    unfolding day_keys_def night_choice Let_def
    by (elim disjE) (simp_all add: REQUIRED_KEYS_def RETURN_DAY_DROPPED_KEYS_def
        ACCOMMODATION_KEYS_def day_key_defs)
qed

lemma day_keys_other:
  "dt \<noteq> ''primary'' \<Longrightarrow> dt \<noteq> ''secondary'' \<Longrightarrow> day_keys dt acc ret = Inl (KeyError dt)"
  by (simp add: day_keys_def REQUIRED_KEYS_def)

lemma compute_daily_pool_eq:
  assumes "day_keys dt acc ret = Inr ks"
  shows "compute_daily_pool r dt acc ret =
    (if \<exists>k \<in> set ks. with_rate_aliases r k = None
     then Inl (BadRequest (''Cost Catalogue is missing required rate(s) for '' @ dt
       @ '' district visits: ''
       @ join_text '', '' (filter (\<lambda>k. with_rate_aliases r k = None) ks)
       @ ''. Ask the CD to add them in Cost Settings.''))
     else Inr (pool_of (with_rate_aliases r) ks))"
proof -
  have "dt = ''primary'' \<or> dt = ''secondary''"
    using assms day_keys_other [of dt acc ret] by (cases "dt = ''primary''"; cases "dt = ''secondary''") simp_all
  then have "map_of OPTIONAL_KEYS dt = Some []" by (auto simp: OPTIONAL_KEYS_def)
  with assms show ?thesis
    by (auto simp: compute_daily_pool_def Let_def filter_empty_conv ensure_def)
qed

text \<open>Pricing a day either charges exactly the day's keys, each at the rate the card carries
  for it (under its own name or an old one), or refuses the day naming every rate that is
  missing; a day is never priced with a component left out.\<close>

theorem daily_pool_complete:
  assumes "day_keys dt acc ret = Inr ks"
  shows "(\<forall>p. compute_daily_pool r dt acc ret = Inr p \<longleftrightarrow>
      map fst p = ks \<and> list_all (\<lambda>(k, v). with_rate_aliases r k = Some v) p)
    \<and> (\<forall>e. compute_daily_pool r dt acc ret = Inl e \<longrightarrow>
      (\<exists>missing. missing \<noteq> [] \<and> set missing = {k \<in> set ks. with_rate_aliases r k = None}
         \<and> e = BadRequest (''Cost Catalogue is missing required rate(s) for '' @ dt
               @ '' district visits: '' @ join_text '', '' missing
               @ ''. Ask the CD to add them in Cost Settings.'')))"
proof (cases "\<exists>k \<in> set ks. with_rate_aliases r k = None")
  case True
  have "\<not> (map fst p = ks \<and> list_all (\<lambda>(k, v). with_rate_aliases r k = Some v) p)" for p
    using True by (fastforce simp: list_all_iff)
  moreover have "filter (\<lambda>k. with_rate_aliases r k = None) ks \<noteq> []"
    using True by (auto simp: filter_empty_conv)
  ultimately show ?thesis
    using True by (auto simp: compute_daily_pool_eq [OF assms] intro!: exI
        [of _ "filter (\<lambda>k. with_rate_aliases r k = None) ks"])
next
  case False
  have "pool_of (with_rate_aliases r) ks = p \<longleftrightarrow>
      map fst p = ks \<and> list_all (\<lambda>(k, v). with_rate_aliases r k = Some v) p" for p
    using False
  proof (induction ks arbitrary: p)
    case (Cons k ks)
    then show ?case by (cases p) (auto simp: pool_of_def)
  qed (auto simp: pool_of_def)
  moreover have "compute_daily_pool r dt acc ret = Inr (pool_of (with_rate_aliases r) ks)"
    unfolding compute_daily_pool_eq [OF assms] using False by (rule if_not_P)
  ultimately show ?thesis by simp
qed

theorem daily_pool_complete_witness:
  "compute_daily_pool [''primary_transport_per_day'' \<mapsto> 50000, ''primary_lunch_per_day'' \<mapsto> 9000]
     ''primary'' None False
   = Inr [(''primary_transport_per_day'', 50000), (''lunch_per_day'', 9000)]"
proof -
  let ?r = "[''primary_transport_per_day'' \<mapsto> 50000, ''primary_lunch_per_day'' \<mapsto> 9000]"
  have "with_rate_aliases ?r ''lunch_per_day'' = Some 9000"
    "with_rate_aliases ?r ''primary_transport_per_day'' = Some 50000"
    by (simp_all add: with_rate_aliases_lookup RATE_ALIASES_def)
  with daily_pool_complete [OF day_keys_primary, of ?r None False] show ?thesis by simp
qed

text \<open>The day a traveller comes home costs what a day away costs less exactly the dinner and
  the night: transport, lunch and breakfast stay, at the same rates and in the same order.\<close>

theorem return_day_saves_night:
  assumes "compute_daily_pool r ''secondary'' acc False = Inr p"
  shows "\<exists>p' dinner night. compute_daily_pool r ''secondary'' acc True = Inr p'
    \<and> p = p' @ [(DINNER_KEY, dinner), (night_key acc, night)]
    \<and> sum_list (map snd p') = sum_list (map snd p) - dinner - night"
proof -
  let ?ks = "[''secondary_transport_per_day'', ''lunch_per_day'', ''secondary_breakfast_per_day'']"
  have away: "day_keys ''secondary'' acc False = Inr (?ks @ [DINNER_KEY, night_key acc])"
    and home: "day_keys ''secondary'' acc True = Inr ?ks"
    by (simp_all add: day_keys_secondary)
  from assms have present: "\<forall>k \<in> set (?ks @ [DINNER_KEY, night_key acc]). with_rate_aliases r k \<noteq> None"
    and p: "p = pool_of (with_rate_aliases r) (?ks @ [DINNER_KEY, night_key acc])"
    by (auto simp: compute_daily_pool_eq [OF away] split: if_splits)
  from present have "compute_daily_pool r ''secondary'' acc True = Inr (pool_of (with_rate_aliases r) ?ks)"
    by (simp add: compute_daily_pool_eq [OF home])
  with p show ?thesis by (simp add: pool_of_def)
qed

theorem return_day_saves_night_witness:
  "let r = [''secondary_transport_per_day'' \<mapsto> 80000, ''lunch_per_day'' \<mapsto> 12000,
      ''secondary_breakfast_per_day'' \<mapsto> 8000, DINNER_KEY \<mapsto> 12000, ACCOMMODATION_KEY \<mapsto> 40000]
   in \<exists>p p'. compute_daily_pool r ''secondary'' None False = Inr p \<and> sum_list (map snd p) = 152000
        \<and> compute_daily_pool r ''secondary'' None True = Inr p' \<and> sum_list (map snd p') = 100000"
proof -
  let ?r = "[''secondary_transport_per_day'' \<mapsto> 80000, ''lunch_per_day'' \<mapsto> 12000,
      ''secondary_breakfast_per_day'' \<mapsto> 8000, DINNER_KEY \<mapsto> 12000, ACCOMMODATION_KEY \<mapsto> 40000]"
  have keys: "day_keys ''secondary'' None False = Inr
     ([''secondary_transport_per_day'', ''lunch_per_day'', ''secondary_breakfast_per_day'']
      @ [DINNER_KEY, night_key None])" by (simp add: day_keys_secondary)
  have p: "compute_daily_pool ?r ''secondary'' None False = Inr
     [(''secondary_transport_per_day'', 80000), (''lunch_per_day'', 12000),
      (''secondary_breakfast_per_day'', 8000), (DINNER_KEY, 12000), (ACCOMMODATION_KEY, 40000)]"
    by (simp add: compute_daily_pool_eq [OF keys] pool_of_def with_rate_aliases_lookup night_key_def
        day_key_defs)
  from return_day_saves_night [OF p] p show ?thesis
    by (auto simp: Let_def night_key_def)
qed

text \<open>A day's mark is Mixed exactly when it joins primary and secondary work; it fetches the
  secondary rates exactly when some of its work is secondary, whatever the order of the work.\<close>

theorem day_mark_decides_rates:
  "(day_district_mark ts = MIXED_DAY \<longleftrightarrow> PRIMARY \<in> set (map or_primary ts) \<and> SECONDARY \<in> set (map or_primary ts))
   \<and> (pricing_district_type (day_district_mark ts) = SECONDARY \<longleftrightarrow> SECONDARY \<in> set (map or_primary ts))
   \<and> day_keys (pricing_district_type (day_district_mark ts)) acc ret \<noteq> Inl (KeyError k)"
  by (auto simp: day_district_mark_def pricing_district_type_def day_type_defs Let_def
      day_keys_primary day_keys_secondary)

section \<open>Where a visit is, for the one who travels\<close>

lemma field_role_of_account:
  "roles u = [r] \<Longrightarrow> holds_field_role u = is_field_role (Some r)"
  by (simp add: holds_field_role_def)

text \<open>The two readings of the district rule agree. For a traveller whose profile holds one
  role, the rule on plain values (used by the calculator) and the rule on stored rows (used to
  price a day) give the same answer: against the profile's own district for field staff, when
  ids are stored without blanks or capitals, and against the head-office zone for everyone else.\<close>

theorem district_rules_agree:
  assumes "staff_profile_of d rid = Some p" and "roles (profile_user p) = [r]"
    and "is_field_role (Some r) \<Longrightarrow> primary_district_id p = Some home \<and> home \<noteq> []
      \<and> norm_text (Some home) = home \<and> norm_text (Some (district_pk dist)) = district_pk dist"
    and "target = (if is_field_role (Some r) then district_pk dist else district_name dist)"
    and "norm_text (Some target) \<noteq> []"
  shows "\<exists>t. resolve_district_type (Some r) (primary_district_id p) (Some target) = Inr t
    \<and> district_type_for_staff d rid (Some dist) = Some t"
proof (cases "is_field_role (Some r)")
  case True
  with assms(3) have "primary_district_id p = Some home" "home \<noteq> []" "norm_text (Some home) = home"
    "norm_text (Some (district_pk dist)) = district_pk dist" by blast+
  with True assms(1,2,4,5) show ?thesis
    by (simp add: resolve_district_type_def district_type_for_staff_def field_role_of_account)
next
  case False
  with assms(1,2,4,5) show ?thesis
    by (simp add: resolve_district_type_def district_type_for_staff_def field_role_of_account)
qed

theorem district_rules_agree_witness:
  "let u = \<lparr>user_pk = ''u1'', roles = [''Accountant''], active_role = Some ''Accountant''\<rparr>;
      p = \<lparr>profile_pk = ''p1'', profile_user = u, primary_district_id = None\<rparr>;
      dist = \<lparr>district_pk = ''d9'', district_name = '' WAKISO'', district_class = Some ''secondary''\<rparr>
   in district_type_for_staff \<lparr>profiles = [p], accounts = [u]\<rparr> ''u1'' (Some dist) = Some ''primary''
      \<and> (\<exists>t. resolve_district_type (Some ''Accountant'') None (Some '' WAKISO'') = Inr t
          \<and> district_type_for_staff \<lparr>profiles = [p], accounts = [u]\<rparr> ''u1'' (Some dist) = Some t)"
proof -
  let ?u = "\<lparr>user_pk = ''u1'', roles = [''Accountant''], active_role = Some ''Accountant''\<rparr>"
  let ?p = "\<lparr>profile_pk = ''p1'', profile_user = ?u, primary_district_id = None\<rparr>"
  let ?dist = "\<lparr>district_pk = ''d9'', district_name = '' WAKISO'', district_class = Some ''secondary''\<rparr>"
  let ?d = "\<lparr>profiles = [?p], accounts = [?u]\<rparr>"
  have role: "\<not> is_field_role (Some ''Accountant'')" by code_simp
  have name: "norm_text (Some '' WAKISO'') = ''wakiso''" by code_simp
  have prof: "staff_profile_of ?d ''u1'' = Some ?p" by (simp add: staff_profile_of_def)
  have "lower ''Wakiso'' = ''wakiso''" by code_simp
  then have "district_type_for_staff ?d ''u1'' (Some ?dist) = Some ''primary''"
    using role prof name
    by (simp add: district_type_for_staff_def hq_district_type_def HQ_ZONE_def HQ_PRIMARY_DISTRICTS_def
        PRIMARY_def holds_field_role_def)
  moreover have "\<exists>t. resolve_district_type (Some ''Accountant'') (primary_district_id ?p) (Some '' WAKISO'') = Inr t
      \<and> district_type_for_staff ?d ''u1'' (Some ?dist) = Some t"
    using role name by (intro district_rules_agree [OF prof, where r = "''Accountant''"]) simp_all
  ultimately show ?thesis by (simp add: Let_def)
qed

section \<open>Nights on a run of days away\<close>

lemma year_mono: "a \<le> b \<Longrightarrow> year a \<le> year b"
  by (auto simp: less_eq_date_def date_le_def)

lemma add_days_step:
  assumes "valid_date d"
  shows "add_days (add_days d i) j = add_days d (i + j)"
proof -
  have v: "valid_date (add_days d i)" by (rule add_days_valid [OF assms])
  have "to_ordinal (add_days (add_days d i) j) = to_ordinal (add_days d (i + j))"
    by (simp add: add_days_ordinal [OF v] add_days_ordinal [OF assms])
  then show ?thesis
    using to_ordinal_eq_iff [OF add_days_valid [OF v] add_days_valid [OF assms]] by blast
qed

lemma add_days_mono:
  assumes "valid_date d" and "i \<le> j"
  shows "add_days d i \<le> add_days d j"
  using to_ordinal_le_iff [OF add_days_valid [OF assms(1)] add_days_valid [OF assms(1)], of i j] assms
  by (simp add: add_days_ordinal)

lemma add_days_inj: "valid_date d \<Longrightarrow> add_days d i = add_days d j \<longleftrightarrow> i = j"
  by (metis add_days_ordinal add_left_cancel)

lemma py_add_days_in_run:
  assumes "valid_date d" and "1 \<le> year (add_days d a)" and "year (add_days d b) \<le> 9999"
    and "a \<le> i + j" and "i + j \<le> b"
  shows "py_add_days (add_days d i) j = Inr (add_days d (i + j))"
  using year_mono [OF add_days_mono [OF assms(1,4)]] year_mono [OF add_days_mono [OF assms(1,5)]] assms(2,3)
  by (simp add: py_add_days_def add_days_step [OF assms(1)])

lemma away_on_member:
  "d \<in> set (away_on known batches u days) \<longleftrightarrow> d \<in> set days \<and> d \<in> set (away_on known batches u [d])"
  by (auto simp: away_on_def)

lemma return_day_in_run:
  assumes "valid_date d" and "1 \<le> year (add_days d (- 1))" and "year (add_days d (int n)) \<le> 9999"
    and run: "\<And>i. - 1 \<le> i \<Longrightarrow> i \<le> int n \<Longrightarrow>
      add_days d i \<in> set (away_on known batches u [add_days d i]) \<longleftrightarrow> 0 \<le> i \<and> i < int n"
    and i: "0 \<le> i" "i < int n"
  shows "is_return_day known batches u (add_days d i) None = Inr (1 \<le> i \<and> i = int n - 1)"
proof -
  have before: "py_add_days (add_days d i) (- 1) = Inr (add_days d (i - 1))"
    using py_add_days_in_run [OF assms(1-3), of i "- 1"] i by simp
  have after: "py_add_days (add_days d i) 1 = Inr (add_days d (i + 1))"
    using py_add_days_in_run [OF assms(1-3), of i 1] i by simp
  let ?away = "away_on known batches u [add_days d (i - 1), add_days d (i + 1)]"
  have "add_days d (i - 1) \<in> set ?away \<longleftrightarrow> 1 \<le> i"
    using run [of "i - 1"] i by (subst away_on_member) auto
  moreover have "add_days d (i + 1) \<in> set ?away \<longleftrightarrow> i + 1 < int n"
    using run [of "i + 1"] i by (subst away_on_member) simp
  ultimately show ?thesis using i by (auto simp: is_return_day_def before after)
qed

text \<open>On a run of consecutive days away (home the day before it and the day after it) exactly
  the last day carries no night, and a single day away keeps its night: n days away are charged
  n - 1 nights, or one when n is 1.\<close>

theorem nights_of_a_run:
  assumes "valid_date d" and "1 \<le> year (add_days d (- 1))" and "year (add_days d (int n)) \<le> 9999"
    and "0 < n"
    and "\<And>i. - 1 \<le> i \<Longrightarrow> i \<le> int n \<Longrightarrow>
      add_days d i \<in> set (away_on known batches u [add_days d i]) \<longleftrightarrow> 0 \<le> i \<and> i < int n"
  shows "length (filter (\<lambda>i. is_return_day known batches u (add_days d i) None = Inr False) [0..int n - 1])
    = max 1 (n - 1)"
proof -
  have "filter (\<lambda>i. is_return_day known batches u (add_days d i) None = Inr False) [0..int n - 1]
      = filter (\<lambda>i. \<not> (1 \<le> i \<and> i = int n - 1)) [0..int n - 1]"
    using return_day_in_run [OF assms(1-3,5)] by (intro filter_cong) auto
  also have "\<dots> = (if n = 1 then [0] else [0..int n - 2])"
  proof (cases "n = 1")
    case False
    have "[0..int n - 1] = [0..int n - 2] @ [int n - 1]"
      using upto_rec2 [of 0 "int n - 1"] assms(4) by simp
    moreover have "filter (\<lambda>i. \<not> (1 \<le> i \<and> i = int n - 1)) [0..int n - 2] = [0..int n - 2]"
      by (auto simp: filter_id_conv)
    ultimately show ?thesis using False assms(4) by simp
  qed simp
  also have "length \<dots> = max 1 (n - 1)" using assms(4) by auto
  finally show ?thesis .
qed

theorem nights_of_a_run_witness:
  "let b = (\<lambda>d. \<lparr>batch_user = ''u'', batch_date = d, batch_district_type = ''secondary'',
        batch_school_count = 2, batch_rate_keys = []\<rparr>);
      d = Date 2026 10 30
   in length (filter (\<lambda>i. is_return_day Map.empty [b d, b (Date 2026 10 31), b (Date 2026 11 1)] ''u''
        (add_days d i) None = Inr False) [0..2]) = 2"
proof -
  let ?b = "\<lambda>d. \<lparr>batch_user = ''u'', batch_date = d, batch_district_type = ''secondary'',
        batch_school_count = 2, batch_rate_keys = []\<rparr>"
  let ?d = "Date 2026 10 30"
  let ?bs = "[?b ?d, ?b (Date 2026 10 31), ?b (Date 2026 11 1)]"
  have valid: "valid_date ?d" by (simp add: valid_date_def days_in_month_def)
  have days: "add_days ?d 0 = Date 2026 10 30" "add_days ?d 1 = Date 2026 10 31"
    "add_days ?d 2 = Date 2026 11 1" "add_days ?d 3 = Date 2026 11 2" "add_days ?d (- 1) = Date 2026 10 29"
    by (simp_all add: add_days_def next_day_def prev_day_def days_in_month_def numeral_eq_Suc)
  have bs: "?bs = map (\<lambda>i. ?b (add_days ?d i)) [0, 1, 2]" by (simp add: days)
  have run: "add_days ?d i \<in> set (away_on Map.empty ?bs ''u'' [add_days ?d i]) \<longleftrightarrow> 0 \<le> i \<and> i < int 3" for i
    unfolding bs by (auto simp: away_on_def SECONDARY_def add_days_inj [OF valid])
  have "length (filter (\<lambda>i. is_return_day Map.empty ?bs ''u'' (add_days ?d i) None = Inr False) [0..int 3 - 1])
      = max 1 (3 - 1)"
    using valid run by (intro nights_of_a_run) (simp_all add: days)
  then show ?thesis by (simp add: Let_def)
qed

end
