(* ===== verification/Costing.thy ===== *)
theory Costing
  imports ActivityTypes VisitPricing
begin

text \<open>
  apps/budget/costing.py: the engine that prices one activity from the rate card.
  \<open>cost_for_activity\<close> is one function whose nested helpers append to one list of
  lines; here each helper is a definition that returns the lines it appends, or the
  \<open>KeyError\<close> a missing label would raise, and \<open>concatE\<close> runs them in the code's order.
  An activity type that is absent or not in the enumeration is \<open>None\<close>.
\<close>

section \<open>Lines and inputs\<close>

record cost_line =
  line_label :: string
  line_key :: string
  line_unit :: "int option"
  line_qty :: int
  line_amount :: int
  line_missing :: bool

record activity_cost =
  cost_amount :: int
  cost_lines :: "cost_line list"
  cost_missing :: bool
  missing_items :: "string list"

record cost_input =
  activityType :: "activity_type option"
  deliveryType :: "string option"
  districtType :: "string option"
  accommodationKey :: "string option"
  returnDay :: jval
  costingKind :: "string option"
  teachersAttended :: jval
  leadersAttended :: jval
  otherParticipants :: jval
  expectedParticipants :: jval
  nights :: jval
  days :: jval
  printingPages :: jval
  photocopyPages :: jval
  photocopyCopies :: jval
  facilitated :: jval
  linkedRates :: "(string \<times> string) list"

definition CLUSTER_TRAINING_TYPES :: "activity_type list" where
  "CLUSTER_TRAINING_TYPES = [CLUSTER_TRAINING, CLUSTER_TRAINING_SSA_COLLECTION]"

definition TOT_MEALS_RATE_KEY :: string where
  "TOT_MEALS_RATE_KEY = ''tot_trainings_meals''"

definition CLUSTER_MEALS_RATE_KEY :: string where
  "CLUSTER_MEALS_RATE_KEY = ''cluster_meetings_trainings_meals''"

definition GROUP_TRAINING_MEALS_RATE_KEY :: string where
  "GROUP_TRAINING_MEALS_RATE_KEY = ''group_training_meals''"

definition MEALS_RATE_KEYS :: "string list" where
  "MEALS_RATE_KEYS = [TOT_MEALS_RATE_KEY, CLUSTER_MEALS_RATE_KEY, GROUP_TRAINING_MEALS_RATE_KEY]"

definition SSA_WORK_TYPES :: "activity_type list" where
  "SSA_WORK_TYPES = [BASELINE_SSA_VISIT, SCHOOL_VISIT_SSA_COLLECTION, PARTNER_SSA_COLLECTION, SSA_ACTIVITY]"

definition CORE_WORK_TYPES :: "activity_type list" where
  "CORE_WORK_TYPES = [CORE_VISIT, CORE_ASSESSMENT_VISIT, CORE_TRAINING]"

section \<open>Counts\<close>

definition nonnegative_count :: "jval \<Rightarrow> int" where
  "nonnegative_count raw = (case py_int (py_or raw (JInt 0)) of Inl _ \<Rightarrow> 0 | Inr n \<Rightarrow> max 0 n)"

definition participants_of :: "cost_input \<Rightarrow> int \<Rightarrow> int" where
  "participants_of a default_n =
     (if expectedParticipants a \<noteq> JNone then nonnegative_count (expectedParticipants a)
      else (let counted = nonnegative_count (teachersAttended a) + nonnegative_count (leadersAttended a)
              + nonnegative_count (otherParticipants a)
            in if 0 < counted then counted else default_n))"

definition materials_quantities :: "cost_input \<Rightarrow> int \<times> int" where
  "materials_quantities a =
     (nonnegative_count (printingPages a),
      nonnegative_count (photocopyPages a) * nonnegative_count (photocopyCopies a))"

definition days_of :: "cost_input \<Rightarrow> int" where
  "days_of a = (case py_int (py_or (days a) (JInt 1)) of Inl _ \<Rightarrow> 1 | Inr n \<Rightarrow> max 1 n)"

section \<open>The helpers of the recipe\<close>

definition concatE :: "'a list result list \<Rightarrow> 'a list result" where
  "concatE steps = bindE (mapE (\<lambda>s. s) steps) (\<lambda>parts. Inr (concat parts))"

definition add_line :: "rate_card \<Rightarrow> string \<Rightarrow> string \<Rightarrow> int \<Rightarrow> cost_line" where
  "add_line rates label key qty =
     \<lparr>line_label = label, line_key = key, line_unit = rates key, line_qty = qty,
      line_amount = (case rates key of None \<Rightarrow> 0 | Some unit \<Rightarrow> unit * qty),
      line_missing = (rates key = None)\<rparr>"

definition add_rate :: "rate_card \<Rightarrow> string \<Rightarrow> int \<Rightarrow> cost_line list" where
  "add_rate rates key qty =
     (if key \<in> set OPTIONAL_RATE_KEYS \<and> rates key = None then []
      else [add_line rates (case RATE_LABELS key of None \<Rightarrow> key | Some l \<Rightarrow> l) key qty])"

definition add_labelled :: "rate_card \<Rightarrow> string \<Rightarrow> int \<Rightarrow> cost_line list result" where
  "add_labelled rates key qty =
     bindE (of_option (KeyError key) (RATE_LABELS key)) (\<lambda>l. Inr [add_line rates l key qty])"

definition is_secondary :: "cost_input \<Rightarrow> bool" where
  "is_secondary a \<longleftrightarrow> districtType a = Some ''secondary''"

definition is_partner :: "cost_input \<Rightarrow> bool" where
  "is_partner a \<longleftrightarrow> deliveryType a = Some ''partner''"

definition kind_of :: "cost_input \<Rightarrow> string" where
  "kind_of a = (case costingKind a of None \<Rightarrow> [] | Some k \<Rightarrow> k)"

definition type_in :: "cost_input \<Rightarrow> activity_type list \<Rightarrow> bool" where
  "type_in a ts = (case activityType a of None \<Rightarrow> False | Some t \<Rightarrow> t \<in> set ts)"

definition visit_day_line ::
    "rate_card \<Rightarrow> string list \<Rightarrow> int \<Rightarrow> int \<Rightarrow> int \<Rightarrow> string \<Rightarrow> cost_line list result" where
  "visit_day_line rates optional n_days n_nights nights_away key =
     (if key \<in> set optional \<and> rates key = None then Inr []
      else (let qty = (if key \<in> set ACCOMMODATION_KEYS then n_nights
                       else if key = DINNER_KEY then nights_away else n_days)
            in if qty \<le> 0 then Inr []
               else bindE (of_option (KeyError key) (map_of KEY_LABELS key)) (\<lambda>l.
                      Inr [add_line rates l key qty])))"

definition add_staff_visit_day ::
    "rate_card \<Rightarrow> cost_input \<Rightarrow> int \<Rightarrow> int option \<Rightarrow> cost_line list result" where
  "add_staff_visit_day rates a n_days given_nights =
     (let profile = (if is_secondary a then ''secondary'' else ''primary'');
          nights_away = (if 1 < n_days then n_days - 1 else n_days);
          n_nights = (case given_nights of None \<Rightarrow> nights_away | Some n \<Rightarrow> n);
          return_day = (n_days = 1 \<and> truthy (returnDay a))
      in bindE (day_keys profile (accommodationKey a) return_day) (\<lambda>keys.
         bindE (of_option (KeyError profile) (map_of OPTIONAL_KEYS profile)) (\<lambda>optional.
           concatE (map (visit_day_line rates optional n_days n_nights nights_away) (keys @ optional)))))"

definition add_staff_day :: "rate_card \<Rightarrow> cost_input \<Rightarrow> int \<Rightarrow> cost_line list result" where
  "add_staff_day rates a n_days =
     (if is_partner a then Inr [] else add_staff_visit_day rates a n_days None)"

definition add_materials :: "rate_card \<Rightarrow> cost_input \<Rightarrow> cost_line list" where
  "add_materials rates a =
     (let (printing, photocopying) = materials_quantities a in
      (if printing \<noteq> 0 then add_rate rates ''printing_training_materials'' printing else [])
      @ (if photocopying \<noteq> 0 then add_rate rates ''photocopying_training_materials'' photocopying else []))"

definition add_meals :: "rate_card \<Rightarrow> cost_input \<Rightarrow> string \<Rightarrow> int \<Rightarrow> cost_line list result" where
  "add_meals rates a meals_key n_days =
     (if meals_key \<in> set OPTIONAL_RATE_KEYS \<and> rates meals_key = None then Inr []
      else add_labelled rates meals_key (participants_of a 0 * n_days))"

definition add_facilitation_fee :: "rate_card \<Rightarrow> int \<Rightarrow> cost_line list result" where
  "add_facilitation_fee rates n_days = add_labelled rates ''group_training_facilitation_fee'' n_days"

definition add_group_session ::
    "rate_card \<Rightarrow> cost_input \<Rightarrow> int \<Rightarrow> string option \<Rightarrow> string option \<Rightarrow> bool option
      \<Rightarrow> cost_line list result" where
  "add_group_session rates a n_days rate_key meals_key travel =
     concatE
       [Inr (case rate_key of None \<Rightarrow> [] | Some k \<Rightarrow> add_rate rates k 1),
        (case meals_key of None \<Rightarrow> Inr [] | Some k \<Rightarrow> add_meals rates a k n_days),
        add_facilitation_fee rates n_days,
        add_labelled rates ''group_training_venue_cost'' n_days,
        Inr (add_materials rates a),
        (case travel of None \<Rightarrow> add_staff_day rates a n_days
         | Some t \<Rightarrow> if t then add_staff_visit_day rates a n_days None else Inr [])]"

definition staff_visit_rate_key :: "cost_input \<Rightarrow> string option" where
  "staff_visit_rate_key a = (if kind_of a = ''onetest'' then Some ''onetest'' else None)"

definition add_mission_rate :: "rate_card \<Rightarrow> cost_input \<Rightarrow> cost_line list" where
  "add_mission_rate rates a =
     (case staff_visit_rate_key a of None \<Rightarrow> [] | Some k \<Rightarrow> add_rate rates k 1)"

definition rate_basis_line :: "rate_card \<Rightarrow> string \<Rightarrow> string \<Rightarrow> cost_line list result" where
  "rate_basis_line rates key basis =
     bindE (of_option (KeyError key) (RATE_LABELS key)) (\<lambda>l.
       Inr [add_line rates (l @ '' [Rate basis: '' @ basis @ '']'') key 1])"

section \<open>The recipe of each kind of work\<close>

definition conference_key :: "cost_input \<Rightarrow> string option" where
  "conference_key a =
     (if kind_of a = ''student_conference'' then Some ''student_conference''
      else if kind_of a = ''proprietor_conference'' then Some ''proprietor_conference'' else None)"

definition meeting_lines :: "rate_card \<Rightarrow> cost_input \<Rightarrow> cost_line list result" where
  "meeting_lines rates a =
     (let n_days = days_of a in
      concatE
        [add_meals rates a CLUSTER_MEALS_RATE_KEY n_days,
         add_labelled rates ''group_training_venue_cost'' n_days,
         Inr (add_materials rates a),
         add_staff_day rates a n_days,
         if truthy (facilitated a) then add_facilitation_fee rates n_days else Inr []])"

definition partner_lines :: "rate_card \<Rightarrow> cost_input \<Rightarrow> cost_line list result" where
  "partner_lines rates a =
     (let is_core = (kind_of a = ''core'' \<or> type_in a CORE_WORK_TYPES);
          is_ssa = type_in a SSA_WORK_TYPES;
          (key, basis) =
            (if kind_of a = ''onetest'' then (''onetest'', ''per OneTest visit'')
             else if activityType a = Some IN_SCHOOL_TRAINING
             then (''client_partner_visit'', ''per school mission'')
             else if type_in a VISIT_TYPES \<or> is_ssa
             then (if is_core then ''core_partner_visit'' else ''client_partner_visit'', ''per activity'')
             else (''partner_meetings'', ''per meeting''))
      in rate_basis_line rates key basis)"

definition planned_nights :: "cost_input \<Rightarrow> int" where
  "planned_nights a =
     (if nights a = JNone then 1 else (case py_int (nights a) of Inl _ \<Rightarrow> 1 | Inr n \<Rightarrow> max 0 n))"

definition mission_lines :: "rate_card \<Rightarrow> cost_input \<Rightarrow> cost_line list result" where
  "mission_lines rates a =
     concatE
       [Inr (add_mission_rate rates a),
        add_staff_visit_day rates a 1 (Some (planned_nights a)),
        if activityType a = Some IN_SCHOOL_TRAINING \<and> truthy (facilitated a)
        then add_facilitation_fee rates 1 else Inr []]"

definition recipe_lines :: "rate_card \<Rightarrow> cost_input \<Rightarrow> cost_line list result" where
  "recipe_lines rates a =
     (let is_in_school_training = (activityType a = Some IN_SCHOOL_TRAINING) in
      if activityType a = Some FIELD_EVENT then add_staff_visit_day rates a (days_of a) None
      else if activityType a = Some PROGRAMME_EVENT
      then add_group_session rates a (days_of a) (conference_key a) None None
      else if type_in a CLUSTER_MEETING_TYPES then meeting_lines rates a
      else if type_in a CLUSTER_TRAINING_TYPES
      then add_group_session rates a (days_of a) None (Some GROUP_TRAINING_MEALS_RATE_KEY) (Some True)
      else if type_in a TRAINING_TYPES \<and> \<not> is_in_school_training
      then (if kind_of a = ''tot''
            then add_group_session rates a (days_of a) (Some ''tot_trainings'') (Some TOT_MEALS_RATE_KEY)
                   (Some True)
            else add_group_session rates a (days_of a) None (Some GROUP_TRAINING_MEALS_RATE_KEY) (Some True))
      else if is_partner a then partner_lines rates a
      else if type_in a VISIT_TYPES \<or> is_in_school_training then mission_lines rates a
      else if type_in a [PARTNER_ACTIVITY, PROJECT_ACTIVITY]
      then rate_basis_line rates ''partner_meetings'' ''per meeting''
      else concatE [Inr (add_mission_rate rates a), add_staff_visit_day rates a 1 None])"

definition total_cost :: "cost_line list \<Rightarrow> activity_cost" where
  "total_cost lines =
     (let uncounted = list_ex (\<lambda>l. line_qty l = 0 \<and> line_key l \<in> set MEALS_RATE_KEYS) lines in
      \<lparr>cost_amount = sum_list (map line_amount lines), cost_lines = lines,
       cost_missing = (list_ex line_missing lines \<or> uncounted),
       missing_items = map line_key (filter line_missing lines)
         @ (if uncounted then [''expectedParticipants''] else [])\<rparr>)"

definition cost_for_activity :: "cost_input \<Rightarrow> rate_card \<Rightarrow> activity_cost result" where
  "cost_for_activity a given =
     (let rates = with_rate_aliases given in
      bindE (recipe_lines rates a) (\<lambda>lines.
        Inr (total_cost (lines @ map (\<lambda>(key, label). add_line rates label key 1) (linkedRates a)))))"

definition facilitation_fee_cost :: "cost_input \<Rightarrow> rate_card \<Rightarrow> activity_cost result" where
  "facilitation_fee_cost a given =
     (let key = ''group_training_facilitation_fee''; n_days = days_of a in
      bindE (of_option (KeyError key) (RATE_LABELS key)) (\<lambda>l.
        let line = add_line (with_rate_aliases given) l key n_days in
        Inr \<lparr>cost_amount = line_amount line, cost_lines = [line], cost_missing = line_missing line,
             missing_items = (if line_missing line then [line_label line] else [])\<rparr>))"

section \<open>The keys a cluster meeting can be charged\<close>

definition blank_input :: cost_input where
  "blank_input =
     \<lparr>activityType = None, deliveryType = None, districtType = None, accommodationKey = None,
      returnDay = JNone, costingKind = None, teachersAttended = JNone, leadersAttended = JNone,
      otherParticipants = JNone, expectedParticipants = JNone, nights = JNone, days = JNone,
      printingPages = JNone, photocopyPages = JNone, photocopyCopies = JNone, facilitated = JNone,
      linkedRates = []\<rparr>"

definition stated_meeting ::
    "activity_type \<Rightarrow> string \<Rightarrow> string \<Rightarrow> string \<Rightarrow> cost_input" where
  "stated_meeting t delivery place accommodation =
     blank_input\<lparr>activityType := Some t, deliveryType := Some delivery, districtType := Some place,
       accommodationKey := Some accommodation, expectedParticipants := JInt 1,
       printingPages := JInt 1, photocopyPages := JInt 1, photocopyCopies := JInt 1\<rparr>"

definition canonical_card :: "int \<Rightarrow> rate_card" where
  "canonical_card v = (\<lambda>k. if k \<in> set CANONICAL_RATE_KEYS then Some v else None)"

definition cluster_meeting_rate_keys :: "string list result" where
  "cluster_meeting_rate_keys =
     concatE [bindE (cost_for_activity (stated_meeting t delivery place accommodation) (canonical_card 1))
                (\<lambda>c. Inr (map line_key (cost_lines c))).
        t \<leftarrow> CLUSTER_MEETING_TYPES, delivery \<leftarrow> [''staff'', ''partner''],
        place \<leftarrow> [''primary'', ''secondary''], accommodation \<leftarrow> ACCOMMODATION_KEYS]"

section \<open>Every recipe returns\<close>

lemma concatE_simps [simp]:
  "concatE [] = Inr []"
  "concatE (s # ss) = bindE s (\<lambda>l. bindE (concatE ss) (\<lambda>ls. Inr (l @ ls)))"
  by (simp_all add: concatE_def bindE_assoc)

lemma concatE_append:
  "concatE (ss @ ts) = bindE (concatE ss) (\<lambda>l. bindE (concatE ts) (\<lambda>ls. Inr (l @ ls)))"
proof (induction ss)
  case Nil
  show ?case by (cases "concatE ts") simp_all
next
  case (Cons s ss)
  then show ?case by (cases s; cases "concatE ss"; cases "concatE ts") simp_all
qed

text \<open>The step returns, and every line it adds has the property.\<close>

definition lines_all :: "(cost_line \<Rightarrow> bool) \<Rightarrow> cost_line list result \<Rightarrow> bool" where
  "lines_all P r = (case r of Inl _ \<Rightarrow> False | Inr ls \<Rightarrow> list_all P ls)"

lemma lines_all_Inr [simp]: "lines_all P (Inr ls) \<longleftrightarrow> list_all P ls"
  by (simp add: lines_all_def)

lemma lines_all_concatE: "lines_all P (concatE ss) \<longleftrightarrow> list_all (lines_all P) ss"
proof (induction ss)
  case (Cons s ss)
  then show ?case by (cases s; cases "concatE ss") (auto simp: lines_all_def)
qed simp

lemma lines_allE:
  assumes "lines_all P r"
  obtains ls where "r = Inr ls" and "list_all P ls"
  using assms by (auto simp: lines_all_def split: sum.splits)

lemma rate_labels [simp]:
  "RATE_LABELS ''group_training_facilitation_fee'' = Some ''Facilitation Fee''"
  "RATE_LABELS ''group_training_venue_cost'' = Some ''Venue Fee''"
  "RATE_LABELS ''tot_trainings_meals'' = Some ''TOT trainings - Meals''"
  "RATE_LABELS ''cluster_meetings_trainings_meals'' = Some ''Cluster Meeting - Participant Meals''"
  "RATE_LABELS ''group_training_meals'' = Some ''Group Training - Participant Meals''"
  "RATE_LABELS ''onetest'' = Some ''OneTest''"
  "RATE_LABELS ''client_partner_visit'' = Some ''Client Partner Visit''"
  "RATE_LABELS ''core_partner_visit'' = Some ''Core Partner Visit''"
  "RATE_LABELS ''partner_meetings'' = Some ''Partner Meetings''"
  by (simp_all add: RATE_LABELS_def canonical_rate_defs)

lemma add_labelled_known: "RATE_LABELS k = Some l \<Longrightarrow> add_labelled r k q = Inr [add_line r l k q]"
  by (simp add: add_labelled_def)

lemma nonnegative_count_ge [simp]: "0 \<le> nonnegative_count raw"
  by (simp add: nonnegative_count_def split: sum.splits)

lemma participants_ge: "0 \<le> d \<Longrightarrow> 0 \<le> participants_of a d"
  by (simp add: participants_of_def Let_def)

lemma days_ge [simp]: "1 \<le> days_of a"
  by (simp add: days_of_def split: sum.splits)

lemma days_pos [simp]: "0 < days_of a"
  using days_ge [of a] by linarith

lemma planned_nights_ge [simp]: "0 \<le> planned_nights a"
  by (simp add: planned_nights_def split: sum.splits)

definition nights_away :: "int \<Rightarrow> int" where
  "nights_away n = (if 1 < n then n - 1 else n)"

definition nights_or :: "int option \<Rightarrow> int \<Rightarrow> int" where
  "nights_or given n = (case given of None \<Rightarrow> nights_away n | Some m \<Rightarrow> m)"

lemma visit_day_optional: "map_of OPTIONAL_KEYS ''primary'' = Some []" "map_of OPTIONAL_KEYS ''secondary'' = Some []"
  by (simp_all add: OPTIONAL_KEYS_def)

lemma primary_visit_day:
  assumes "\<not> is_secondary a" and "0 < n"
  shows "add_staff_visit_day r a n given = Inr
    [add_line r ''Transport Primary District'' ''primary_transport_per_day'' n,
     add_line r ''Lunch'' ''lunch_per_day'' n]"
  using assms by (simp add: add_staff_visit_day_def Let_def day_keys_primary visit_day_optional
      visit_day_line_def ACCOMMODATION_KEYS_def day_key_defs KEY_LABELS_def)

lemma accommodation_line:
  "visit_day_line r [] n m w (night_key acc) =
     (if m \<le> 0 then Inr [] else Inr [add_line r ''Accommodation'' (night_key acc) m])"
  by (auto simp: visit_day_line_def night_key_def ACCOMMODATION_KEYS_def KEY_LABELS_def day_key_defs)

lemma secondary_visit_day:
  assumes "is_secondary a" and "0 < n"
  shows "add_staff_visit_day r a n given = Inr
    ([add_line r ''Transport Secondary District'' ''secondary_transport_per_day'' n,
      add_line r ''Lunch'' ''lunch_per_day'' n,
      add_line r ''Breakfast'' ''secondary_breakfast_per_day'' n]
     @ (if n = 1 \<and> truthy (returnDay a) then []
        else add_line r ''Dinner'' DINNER_KEY (nights_away n)
          # (if nights_or given n \<le> 0 then []
             else [add_line r ''Accommodation'' (night_key (accommodationKey a)) (nights_or given n)])))"
proof -
  have fixed: "visit_day_line r [] n m w ''secondary_transport_per_day''
      = Inr [add_line r ''Transport Secondary District'' ''secondary_transport_per_day'' n]"
    "visit_day_line r [] n m w ''lunch_per_day'' = Inr [add_line r ''Lunch'' ''lunch_per_day'' n]"
    "visit_day_line r [] n m w ''secondary_breakfast_per_day''
      = Inr [add_line r ''Breakfast'' ''secondary_breakfast_per_day'' n]" for m w
    using assms(2) by (simp_all add: visit_day_line_def ACCOMMODATION_KEYS_def day_key_defs KEY_LABELS_def)
  have dinner: "visit_day_line r [] n m (nights_away n) DINNER_KEY
      = Inr [add_line r ''Dinner'' DINNER_KEY (nights_away n)]" for m
    using assms(2)
    by (simp add: visit_day_line_def ACCOMMODATION_KEYS_def day_key_defs KEY_LABELS_def nights_away_def)
  show ?thesis
    using assms(1)
    by (simp add: add_staff_visit_day_def Let_def day_keys_secondary visit_day_optional
        fixed dinner accommodation_line nights_away_def [symmetric] nights_or_def [symmetric])
qed

definition DAY_KEYS :: "string list" where
  "DAY_KEYS = [''primary_transport_per_day'', ''secondary_transport_per_day'', ''lunch_per_day'',
     ''secondary_breakfast_per_day'', DINNER_KEY, ACCOMMODATION_KEY, MANAGEMENT_ACCOMMODATION_KEY]"

lemma visit_day_all:
  assumes "\<And>l k q. k \<in> set DAY_KEYS \<Longrightarrow> 0 \<le> q \<Longrightarrow> P (add_line r l k q)" and "0 < n"
  shows "lines_all P (add_staff_visit_day r a n given)"
proof -
  have "night_key (accommodationKey a) \<in> set DAY_KEYS" by (simp add: night_key_def DAY_KEYS_def)
  moreover have "0 \<le> nights_away n" using assms(2) by (simp add: nights_away_def)
  ultimately show ?thesis
    using assms primary_visit_day [of a n r given] secondary_visit_day [of a n r given]
    by (cases "is_secondary a") (auto simp: DAY_KEYS_def)
qed

lemma materials_all:
  assumes "\<And>l k q. k \<in> {''printing_training_materials'', ''photocopying_training_materials''} \<Longrightarrow>
      0 \<le> q \<Longrightarrow> P (add_line r l k q)"
  shows "list_all P (add_materials r a)"
  using assms by (simp add: add_materials_def materials_quantities_def add_rate_def Let_def)

lemma meals_all:
  assumes "RATE_LABELS k = Some l" and "\<And>q. 0 \<le> q \<Longrightarrow> P (add_line r l k q)" and "0 \<le> n"
  shows "lines_all P (add_meals r a k n)"
  using assms participants_ge [of 0 a] by (simp add: add_meals_def add_labelled_known)

lemma add_rate_all:
  assumes "\<And>l. P (add_line r l k q)"
  shows "list_all P (add_rate r k q)"
  using assms by (simp add: add_rate_def)

lemmas meals_key_defs = TOT_MEALS_RATE_KEY_def CLUSTER_MEALS_RATE_KEY_def GROUP_TRAINING_MEALS_RATE_KEY_def

lemma group_session_all:
  assumes P: "\<And>l k q. 0 \<le> q \<Longrightarrow> P (add_line r l k q)" and "0 < n"
    and "meals = None \<or> meals = Some TOT_MEALS_RATE_KEY \<or> meals = Some GROUP_TRAINING_MEALS_RATE_KEY"
  shows "lines_all P (add_group_session r a n rate meals travel)"
proof -
  have "lines_all P (case meals of None \<Rightarrow> Inr [] | Some k \<Rightarrow> add_meals r a k n)"
    using assms by (auto simp: meals_key_defs intro!: meals_all)
  moreover have "lines_all P (case travel of None \<Rightarrow> add_staff_day r a n
      | Some t \<Rightarrow> if t then add_staff_visit_day r a n None else Inr [])"
    using assms by (auto simp: add_staff_day_def intro!: visit_day_all split: option.splits)
  ultimately show ?thesis
    using assms(2) P unfolding add_group_session_def lines_all_concatE
    by (auto simp: add_facilitation_fee_def add_labelled_known intro!: materials_all add_rate_all
        split: option.splits)
qed

lemma rate_basis_all:
  "RATE_LABELS k = Some l \<Longrightarrow> (\<And>l. P (add_line r l k 1)) \<Longrightarrow> lines_all P (rate_basis_line r k basis)"
  by (simp add: rate_basis_line_def)

lemma meeting_all:
  assumes "\<And>l k q. k \<in> {CLUSTER_MEALS_RATE_KEY, ''group_training_venue_cost'',
        ''printing_training_materials'', ''photocopying_training_materials''} \<union> set DAY_KEYS \<union>
        (if truthy (facilitated a) then {''group_training_facilitation_fee''} else {}) \<Longrightarrow>
      0 \<le> q \<Longrightarrow> P (add_line r l k q)"
  shows "lines_all P (meeting_lines r a)"
proof -
  note pos = order.trans [OF zero_le_one days_ge [of a]]
  have "lines_all P (add_meals r a CLUSTER_MEALS_RATE_KEY (days_of a))"
    using assms pos by (intro meals_all [where l = "''Cluster Meeting - Participant Meals''"])
      (simp_all add: meals_key_defs)
  moreover have "lines_all P (add_staff_day r a (days_of a))"
    using assms by (auto simp: add_staff_day_def intro!: visit_day_all)
  ultimately show ?thesis
    using assms pos unfolding meeting_lines_def Let_def lines_all_concatE
    by (auto simp: add_facilitation_fee_def add_labelled_known intro!: materials_all)
qed

lemma recipe_all:
  assumes P: "\<And>l k q. 0 \<le> q \<Longrightarrow> P (add_line r l k q)"
  shows "lines_all P (recipe_lines r a)"
proof -
  have session: "lines_all P (add_group_session r a (days_of a) rate meals travel)"
    if "meals = None \<or> meals = Some TOT_MEALS_RATE_KEY \<or> meals = Some GROUP_TRAINING_MEALS_RATE_KEY"
    for rate meals travel
    using P days_pos that by (rule group_session_all)
  have visit: "0 < n \<Longrightarrow> lines_all P (add_staff_visit_day r a n given)" for n given
    using P by (intro visit_day_all)
  have partner: "lines_all P (partner_lines r a)"
    using P by (auto simp: partner_lines_def Let_def intro!: rate_basis_all)
  have rate: "list_all P (add_mission_rate r a)"
    using P by (auto simp: add_mission_rate_def intro!: add_rate_all split: option.splits)
  have mission: "lines_all P (mission_lines r a)"
    using P visit rate unfolding mission_lines_def lines_all_concatE
    by (auto simp: add_facilitation_fee_def add_labelled_known)
  have meeting: "lines_all P (meeting_lines r a)" using P by (intro meeting_all)
  have other: "lines_all P (concatE [Inr (add_mission_rate r a), add_staff_visit_day r a 1 None])"
    using visit rate unfolding lines_all_concatE by simp
  have lump: "lines_all P (rate_basis_line r ''partner_meetings'' ''per meeting'')"
    using P by (auto intro!: rate_basis_all)
  show ?thesis
    unfolding recipe_lines_def Let_def
    using visit [OF days_pos] partner mission meeting other lump by (simp add: session)
qed

section \<open>What the engine guarantees\<close>

definition priced_from :: "rate_card \<Rightarrow> cost_line \<Rightarrow> bool" where
  "priced_from rates l \<longleftrightarrow> line_unit l = rates (line_key l) \<and> 0 \<le> line_qty l
     \<and> line_missing l = (rates (line_key l) = None)
     \<and> line_amount l = (case rates (line_key l) of None \<Rightarrow> 0 | Some u \<Rightarrow> u * line_qty l)"

lemma add_line_fields [simp]:
  "line_key (add_line r l k q) = k" "line_qty (add_line r l k q) = q"
  by (simp_all add: add_line_def)

lemma priced_from_add_line: "0 \<le> q \<Longrightarrow> priced_from r (add_line r l k q)"
  by (simp add: priced_from_def add_line_def split: option.splits)

lemma total_cost_simps [simp]:
  "cost_lines (total_cost ls) = ls"
  "cost_amount (total_cost ls) = sum_list (map line_amount ls)"
  by (simp_all add: total_cost_def Let_def)

lemma total_cost_missing: "cost_missing (total_cost ls) \<longleftrightarrow> missing_items (total_cost ls) \<noteq> []"
  by (auto simp: total_cost_def Let_def filter_empty_conv list_ex_iff)

lemma cost_for_activity_lines:
  obtains ls where "recipe_lines (with_rate_aliases r) a = Inr ls"
    and "cost_for_activity a r = Inr (total_cost
      (ls @ map (\<lambda>(key, label). add_line (with_rate_aliases r) label key 1) (linkedRates a)))"
proof -
  have "lines_all (\<lambda>_. True) (recipe_lines (with_rate_aliases r) a)" by (rule recipe_all) simp
  then show ?thesis by (elim lines_allE) (use that in \<open>simp add: cost_for_activity_def\<close>)
qed


subsection \<open>The card decides the amounts, not the recipe\<close>

definition reprice :: "rate_card \<Rightarrow> cost_line \<Rightarrow> cost_line" where
  "reprice r l = add_line r (line_label l) (line_key l) (line_qty l)"

definition repriced :: "rate_card \<Rightarrow> cost_line list result \<Rightarrow> cost_line list result" where
  "repriced r m = (case m of Inl e \<Rightarrow> Inl e | Inr ls \<Rightarrow> Inr (map (reprice r) ls))"

lemma reprice_add_line [simp]: "reprice r' (add_line r l k q) = add_line r' l k q"
  by (simp add: reprice_def add_line_def)

lemma repriced_simps [simp]:
  "repriced r (Inl e) = Inl e" "repriced r (Inr ls) = Inr (map (reprice r) ls)"
  by (simp_all add: repriced_def)

lemma repriced_append:
  "repriced r (bindE s (\<lambda>l. bindE m (\<lambda>ls. Inr (l @ ls))))
    = bindE (repriced r s) (\<lambda>l. bindE (repriced r m) (\<lambda>ls. Inr (l @ ls)))"
  by (cases s; cases m) auto

lemma repriced_concatE: "repriced r (concatE ss) = concatE (map (repriced r) ss)"
  by (induction ss) (simp_all add: repriced_append)

definition same_rates :: "rate_card \<Rightarrow> rate_card \<Rightarrow> bool" where
  "same_rates r r' \<longleftrightarrow> (\<forall>k. r k = None \<longleftrightarrow> r' k = None)"

lemma same_ratesD: "same_rates r r' \<Longrightarrow> r' k = None \<longleftrightarrow> r k = None"
  by (simp add: same_rates_def)

lemma labelled_repriced: "add_labelled r' k q = repriced r' (add_labelled r k q)"
  by (cases "RATE_LABELS k") (simp_all add: add_labelled_def)

lemma rate_repriced: "same_rates r r' \<Longrightarrow> add_rate r' k q = map (reprice r') (add_rate r k q)"
  by (simp add: add_rate_def same_ratesD)

lemma visit_day_repriced:
  "0 < n \<Longrightarrow> add_staff_visit_day r' a n given = repriced r' (add_staff_visit_day r a n given)"
  by (cases "is_secondary a") (simp_all add: primary_visit_day secondary_visit_day)

lemma materials_repriced:
  "same_rates r r' \<Longrightarrow> add_materials r' a = map (reprice r') (add_materials r a)"
  by (simp add: add_materials_def Let_def case_prod_beta rate_repriced)

lemma meals_repriced: "same_rates r r' \<Longrightarrow> add_meals r' a k n = repriced r' (add_meals r a k n)"
  by (simp add: add_meals_def labelled_repriced same_ratesD)

lemma basis_repriced: "rate_basis_line r' k b = repriced r' (rate_basis_line r k b)"
  by (cases "RATE_LABELS k") (simp_all add: rate_basis_line_def)

lemma mission_rate_repriced:
  "same_rates r r' \<Longrightarrow> add_mission_rate r' a = map (reprice r') (add_mission_rate r a)"
  by (simp add: add_mission_rate_def rate_repriced split: option.splits)

lemma staff_day_repriced:
  "0 < n \<Longrightarrow> add_staff_day r' a n = repriced r' (add_staff_day r a n)"
  by (simp add: add_staff_day_def visit_day_repriced [symmetric])

lemma fee_repriced: "add_facilitation_fee r' n = repriced r' (add_facilitation_fee r n)"
  unfolding add_facilitation_fee_def by (rule labelled_repriced)

lemma session_repriced:
  assumes "same_rates r r'" and "0 < n"
  shows "add_group_session r' a n rate meals_key travel
    = repriced r' (add_group_session r a n rate meals_key travel)"
  unfolding add_group_session_def repriced_concatE list.map
  by (intro arg_cong [where f = concatE] arg_cong2 [where f = "(#)"] refl)
    (simp_all add: rate_repriced [OF assms(1)] meals_repriced [OF assms(1), symmetric]
      fee_repriced [symmetric] labelled_repriced [symmetric] materials_repriced [OF assms(1)]
      staff_day_repriced [OF assms(2), symmetric] visit_day_repriced [OF assms(2), symmetric]
      split: option.split)

lemma meeting_repriced:
  assumes "same_rates r r'"
  shows "meeting_lines r' a = repriced r' (meeting_lines r a)"
  unfolding meeting_lines_def repriced_concatE list.map Let_def
  by (intro arg_cong [where f = concatE] arg_cong2 [where f = "(#)"] refl)
    (simp_all add: meals_repriced [OF assms, symmetric] fee_repriced [symmetric]
      labelled_repriced [symmetric] materials_repriced [OF assms]
      staff_day_repriced [OF days_pos, symmetric])

lemma partner_repriced: "partner_lines r' a = repriced r' (partner_lines r a)"
  unfolding partner_lines_def Let_def case_prod_beta by (rule basis_repriced)

lemma mission_repriced:
  assumes "same_rates r r'"
  shows "mission_lines r' a = repriced r' (mission_lines r a)"
  unfolding mission_lines_def repriced_concatE list.map
  by (intro arg_cong [where f = concatE] arg_cong2 [where f = "(#)"] refl)
    (simp_all add: mission_rate_repriced [OF assms] visit_day_repriced [symmetric] fee_repriced [symmetric])

lemma other_repriced:
  assumes "same_rates r r'"
  shows "concatE [Inr (add_mission_rate r' a), add_staff_visit_day r' a 1 None]
    = repriced r' (concatE [Inr (add_mission_rate r a), add_staff_visit_day r a 1 None])"
  unfolding repriced_concatE list.map
  by (intro arg_cong [where f = concatE] arg_cong2 [where f = "(#)"] refl)
    (simp_all add: mission_rate_repriced [OF assms] visit_day_repriced [symmetric])

lemmas recipe_parts_repriced = session_repriced meeting_repriced mission_repriced other_repriced

lemma recipe_repriced:
  assumes "same_rates r r'"
  shows "recipe_lines r' a = repriced r' (recipe_lines r a)"
  unfolding recipe_lines_def Let_def if_distrib [of "repriced r'"]
  by (intro if_cong refl visit_day_repriced session_repriced meeting_repriced partner_repriced
      mission_repriced basis_repriced other_repriced days_pos assms)

definition card_le :: "rate_card \<Rightarrow> rate_card \<Rightarrow> bool" where
  "card_le r r' \<longleftrightarrow> (\<forall>k. case r k of None \<Rightarrow> r' k = None | Some u \<Rightarrow> (\<exists>u'. r' k = Some u' \<and> u \<le> u'))"

lemma card_le_same: "card_le r r' \<Longrightarrow> r k = None \<longleftrightarrow> r' k = None"
  by (auto simp: card_le_def dest: spec [of _ k] split: option.splits)

lemma card_leD:
  assumes "card_le r r'" and "r k = Some u"
  shows "\<exists>u'. r' k = Some u' \<and> u \<le> u'"
proof -
  have "case r k of None \<Rightarrow> r' k = None | Some u \<Rightarrow> (\<exists>u'. r' k = Some u' \<and> u \<le> u')"
    using assms(1) unfolding card_le_def by (rule spec)
  with assms(2) show ?thesis by simp
qed

lemma card_le_aliases:
  assumes "card_le r r'"
  shows "card_le (with_rate_aliases r) (with_rate_aliases r')"
proof -
  have "find (\<lambda>old. r old \<noteq> None) olds = find (\<lambda>old. r' old \<noteq> None) olds" for olds
    by (rule find_cong) (simp_all add: card_le_same [OF assms])
  then show ?thesis
    using assms unfolding card_le_def
    by (auto simp: with_rate_aliases_lookup split: option.splits) (metis option.inject option.simps(3))+
qed

lemma card_le_same_rates: "card_le r r' \<Longrightarrow> same_rates r r'"
  by (simp add: same_rates_def card_le_same)

lemma reprice_le:
  assumes "card_le r r'" and "priced_from r l"
  shows "line_amount l \<le> line_amount (reprice r' l)"
proof (cases "r (line_key l)")
  case None
  with assms show ?thesis
    using card_le_same [OF assms(1), of "line_key l"] by (simp add: reprice_def add_line_def priced_from_def)
next
  case (Some u)
  with assms(1) obtain u' where "r' (line_key l) = Some u'" "u \<le> u'"
    using card_leD [of r r' "line_key l" u] Some by blast
  with Some assms(2) show ?thesis
    by (simp add: reprice_def add_line_def priced_from_def mult_right_mono)
qed

lemma reprice_same_missing:
  "card_le r r' \<Longrightarrow> priced_from r l \<Longrightarrow> line_missing (reprice r' l) = line_missing l"
  using card_le_same [of r r' "line_key l"] by (simp add: reprice_def add_line_def priced_from_def)

lemma reprice_key [simp]: "line_key (reprice r l) = line_key l" "line_qty (reprice r l) = line_qty l"
  by (simp_all add: reprice_def add_line_def)

lemma reprice_total:
  assumes "card_le r r'" and "list_all (priced_from r) ls"
  shows "cost_amount (total_cost ls) \<le> cost_amount (total_cost (map (reprice r') ls))"
    and "missing_items (total_cost (map (reprice r') ls)) = missing_items (total_cost ls)"
proof -
  show "cost_amount (total_cost ls) \<le> cost_amount (total_cost (map (reprice r') ls))"
    using assms by (induction ls) (auto intro!: add_mono reprice_le)
  have "map line_key (filter line_missing (map (reprice r') ls)) = map line_key (filter line_missing ls)"
    using assms by (induction ls) (auto simp: reprice_same_missing)
  moreover have "list_ex (\<lambda>l. line_qty l = 0 \<and> line_key l \<in> set MEALS_RATE_KEYS) (map (reprice r') ls)
      = list_ex (\<lambda>l. line_qty l = 0 \<and> line_key l \<in> set MEALS_RATE_KEYS) ls"
    by (induction ls) simp_all
  ultimately show "missing_items (total_cost (map (reprice r') ls)) = missing_items (total_cost ls)"
    by (simp add: total_cost_def Let_def)
qed

text \<open>Raising rates never makes an activity cheaper. When a card carries the same keys as
  another at rates no lower, the engine charges the same lines on both (same keys, quantities
  and missing items) and the amount on the dearer card is at least the amount on the other.\<close>

theorem cost_monotone_in_card:
  assumes "card_le r r'"
  shows "\<exists>c c'. cost_for_activity a r = Inr c \<and> cost_for_activity a r' = Inr c'
    \<and> map (\<lambda>l. (line_key l, line_qty l)) (cost_lines c') = map (\<lambda>l. (line_key l, line_qty l)) (cost_lines c)
    \<and> missing_items c' = missing_items c \<and> cost_amount c \<le> cost_amount c'"
proof -
  let ?r = "with_rate_aliases r" and ?r' = "with_rate_aliases r'"
  let ?more = "\<lambda>r. map (\<lambda>(key, label). add_line r label key 1) (linkedRates a)"
  note le = card_le_aliases [OF assms]
  obtain ls where ls: "recipe_lines ?r a = Inr ls"
    and c: "cost_for_activity a r = Inr (total_cost (ls @ ?more ?r))" by (rule cost_for_activity_lines)
  have "recipe_lines ?r' a = Inr (map (reprice ?r') ls)"
    by (simp add: recipe_repriced [OF card_le_same_rates [OF le]] ls)
  moreover have more: "map (reprice ?r') (?more ?r) = ?more ?r'" by auto
  ultimately have c': "cost_for_activity a r' = Inr (total_cost (map (reprice ?r') (ls @ ?more ?r)))"
    by (simp add: cost_for_activity_def Let_def more del: map_map)
  have "lines_all (priced_from ?r) (recipe_lines ?r a)" by (rule recipe_all) (rule priced_from_add_line)
  then have priced: "list_all (priced_from ?r) (ls @ ?more ?r)"
    using ls by (auto simp: list_all_iff priced_from_add_line)
  show ?thesis
    using reprice_total [OF le priced] by (simp add: c c' comp_def del: map_append)
qed

theorem cost_monotone_in_card_witness:
  "\<exists>c c'. cost_for_activity (blank_input\<lparr>activityType := Some SCHOOL_VISIT\<rparr>)
        [''primary_transport_per_day'' \<mapsto> 50000, ''lunch_per_day'' \<mapsto> 12000] = Inr c
    \<and> cost_for_activity (blank_input\<lparr>activityType := Some SCHOOL_VISIT\<rparr>)
        [''primary_transport_per_day'' \<mapsto> 55000, ''lunch_per_day'' \<mapsto> 12000] = Inr c'
    \<and> cost_amount c \<le> cost_amount c'"
proof -
  have "card_le [''primary_transport_per_day'' \<mapsto> 50000, ''lunch_per_day'' \<mapsto> 12000]
    [''primary_transport_per_day'' \<mapsto> 55000, ''lunch_per_day'' \<mapsto> 12000]"
    by (auto simp: card_le_def)
  from cost_monotone_in_card [OF this, of "blank_input\<lparr>activityType := Some SCHOOL_VISIT\<rparr>"]
  show ?thesis by blast
qed

subsection \<open>School missions\<close>

lemma visit_type_recipe:
  assumes "t \<in> set VISIT_TYPES" and "activityType a = Some t"
  shows "recipe_lines r a = (if is_partner a then partner_lines r a
    else concatE [Inr (add_mission_rate r a), add_staff_visit_day r a 1 (Some (planned_nights a))])"
proof -
  have t: "t \<noteq> FIELD_EVENT" "t \<noteq> PROGRAMME_EVENT" "t \<notin> set CLUSTER_MEETING_TYPES"
    "t \<notin> set CLUSTER_TRAINING_TYPES" "t \<notin> set TRAINING_TYPES" "t \<noteq> IN_SCHOOL_TRAINING"
    using assms(1) by (auto simp: type_group_defs CLUSTER_TRAINING_TYPES_def)
  from t assms show ?thesis
    by (cases "add_staff_visit_day r a 1 (Some (planned_nights a))")
      (simp_all add: recipe_lines_def type_in_def mission_lines_def)
qed

lemma type_update [simp]:
  "is_partner (a\<lparr>activityType := t\<rparr>) = is_partner a"
  "add_mission_rate r (a\<lparr>activityType := t\<rparr>) = add_mission_rate r a"
  "add_staff_visit_day r (a\<lparr>activityType := t\<rparr>) n g = add_staff_visit_day r a n g"
  "planned_nights (a\<lparr>activityType := t\<rparr>) = planned_nights a"
  by (simp_all add: is_partner_def add_mission_rate_def staff_visit_rate_key_def kind_of_def
      add_staff_visit_day_def is_secondary_def planned_nights_def)

text \<open>Cost parity: a staff visit to a school costs the same, line by line, whatever kind of
  visit it is (client, core, SSA collection, coaching, and so on).\<close>

theorem staff_visit_cost_parity:
  assumes "t \<in> set VISIT_TYPES" and "t' \<in> set VISIT_TYPES" and "\<not> is_partner a"
  shows "cost_for_activity (a\<lparr>activityType := Some t\<rparr>) r = cost_for_activity (a\<lparr>activityType := Some t'\<rparr>) r"
proof -
  have "recipe_lines r' (a\<lparr>activityType := Some u\<rparr>)
      = concatE [Inr (add_mission_rate r' a), add_staff_visit_day r' a 1 (Some (planned_nights a))]"
    if "u \<in> set VISIT_TYPES" for u r'
    using visit_type_recipe [OF that, of "a\<lparr>activityType := Some u\<rparr>" r'] assms(3) by simp
  with assms show ?thesis by (simp add: cost_for_activity_def)
qed

theorem staff_visit_cost_parity_witness:
  "cost_for_activity (blank_input\<lparr>deliveryType := Some ''staff'', activityType := Some CORE_VISIT\<rparr>) [''lunch_per_day'' \<mapsto> 9]
   = cost_for_activity (blank_input\<lparr>deliveryType := Some ''staff'', activityType := Some SCHOOL_VISIT\<rparr>) [''lunch_per_day'' \<mapsto> 9]"
  using staff_visit_cost_parity [of CORE_VISIT SCHOOL_VISIT "blank_input\<lparr>deliveryType := Some ''staff''\<rparr>"
      "[''lunch_per_day'' \<mapsto> 9]"]
  by (simp add: VISIT_TYPES_def is_partner_def)

definition line_item :: "cost_line \<Rightarrow> string \<times> int" where
  "line_item l = (line_key l, line_amount l)"

lemma line_item_add_line: "r k = Some u \<Longrightarrow> line_item (add_line r l k q) = (k, u * q)"
  by (simp add: line_item_def add_line_def)

text \<open>C14: The engine and the Daily Visit Batch price one staff visit alike: where the day's pool
  can be priced, a visit on its own (no OneTest reason, the nights left unsaid, nothing linked)
  is charged exactly the components of the pool, in the pool's order, and is fundable.\<close>

theorem lone_visit_costs_the_pool:
  assumes "compute_daily_pool r (if is_secondary a then ''secondary'' else ''primary'')
        (accommodationKey a) (truthy (returnDay a)) = Inr p"
    and "activityType a = Some t" and "t \<in> set VISIT_TYPES" and "\<not> is_partner a"
    and "kind_of a \<noteq> ''onetest''" and "nights a = JNone" and "linkedRates a = []"
  shows "\<exists>c. cost_for_activity a r = Inr c \<and> map line_item (cost_lines c) = p
    \<and> cost_amount c = sum_list (map snd p) \<and> \<not> cost_missing c"
proof -
  let ?r = "with_rate_aliases r"
  define acc where "acc = accommodationKey a"
  define ret where "ret = truthy (returnDay a)"
  let ?ks = "(if is_secondary a
     then [''secondary_transport_per_day'', ''lunch_per_day'', ''secondary_breakfast_per_day'']
        @ (if ret then [] else [DINNER_KEY, night_key acc])
     else [''primary_transport_per_day'', ''lunch_per_day''])"
  have keys: "day_keys (if is_secondary a then ''secondary'' else ''primary'') acc ret = Inr ?ks"
    by (simp add: day_keys_secondary day_keys_primary)
  from assms(1) have present: "\<forall>k \<in> set ?ks. \<exists>u. ?r k = Some u" and p: "p = pool_of ?r ?ks"
    unfolding acc_def [symmetric] ret_def [symmetric]
    by (auto simp: compute_daily_pool_eq [OF keys] split: if_splits)
  obtain ls where ls: "add_staff_visit_day ?r a 1 (Some 1) = Inr ls"
      "map line_key ls = ?ks" "list_all (\<lambda>l. line_qty l = 1) ls" "list_all (priced_from ?r) ls"
  proof (cases "is_secondary a")
    case True
    show ?thesis
      by (rule that [OF secondary_visit_day]) (use True in \<open>simp_all add: acc_def ret_def nights_or_def
        nights_away_def priced_from_add_line\<close>)
  next
    case False
    show ?thesis
      by (rule that [OF primary_visit_day]) (use False in \<open>simp_all add: priced_from_add_line\<close>)
  qed
  have item: "map line_item ls' = pool_of ?r (map line_key ls')"
    "map line_amount ls' = map snd (pool_of ?r (map line_key ls'))" "list_ex line_missing ls' = False"
    if "list_all (\<lambda>l. line_qty l = 1) ls'" "list_all (priced_from ?r) ls'"
      "\<forall>k \<in> set (map line_key ls'). \<exists>u. ?r k = Some u" for ls'
    using that by (induction ls') (auto simp: pool_of_def line_item_def priced_from_def)
  have known: "\<forall>k \<in> set (map line_key ls). \<exists>u. ?r k = Some u" unfolding ls(2) by (rule present)
  note item = item [OF ls(3,4) known, unfolded ls(2) p [symmetric]]
  have facts: "map line_item ls = p" "sum_list (map line_amount ls) = sum_list (map snd p)"
    "\<not> list_ex line_missing ls" by (simp_all add: item)
  have "list_ex (\<lambda>l. line_qty l = 0 \<and> line_key l \<in> set MEALS_RATE_KEYS) ls = False"
    using ls(3) by (induction ls) auto
  then have "\<not> cost_missing (total_cost ls)" using facts(3) by (simp add: total_cost_def Let_def)
  moreover have "cost_for_activity a r = Inr (total_cost ls)"
    using visit_type_recipe [OF assms(3,2), of ?r] ls(1) assms(4-7)
    by (simp add: cost_for_activity_def add_mission_rate_def staff_visit_rate_key_def planned_nights_def)
  ultimately show ?thesis using facts by simp
qed

theorem lone_visit_costs_the_pool_witness:
  "let a = blank_input\<lparr>activityType := Some CORE_VISIT, districtType := Some ''primary''\<rparr>;
      r = [''primary_transport_per_day'' \<mapsto> 50000, ''primary_lunch_per_day'' \<mapsto> 9000]
   in \<exists>c. cost_for_activity a r = Inr c \<and> cost_amount c = 59000 \<and> \<not> cost_missing c"
proof -
  let ?a = "blank_input\<lparr>activityType := Some CORE_VISIT, districtType := Some ''primary''\<rparr>"
  let ?r = "[''primary_transport_per_day'' \<mapsto> 50000, ''primary_lunch_per_day'' \<mapsto> 9000]"
  have p: "compute_daily_pool ?r (if is_secondary ?a then ''secondary'' else ''primary'')
      (accommodationKey ?a) (truthy (returnDay ?a))
    = Inr [(''primary_transport_per_day'', 50000), (''lunch_per_day'', 9000)]"
    by (simp add: compute_daily_pool_eq [OF day_keys_primary] is_secondary_def pool_of_def
        with_rate_aliases_lookup RATE_ALIASES_def)
  have "\<exists>c. cost_for_activity ?a ?r = Inr c
      \<and> map line_item (cost_lines c) = [(''primary_transport_per_day'', 50000), (''lunch_per_day'', 9000)]
      \<and> cost_amount c = sum_list (map snd [(''primary_transport_per_day'', 50000), (''lunch_per_day'', 9000)])
      \<and> \<not> cost_missing c"
    by (rule lone_visit_costs_the_pool [OF p, of CORE_VISIT])
      (simp_all add: blank_input_def VISIT_TYPES_def is_partner_def kind_of_def)
  then show ?thesis by (auto simp: Let_def)
qed

subsection \<open>Group sessions and trips\<close>

lemma meals_line_uncounted:
  "RATE_LABELS k = Some l \<Longrightarrow> r k \<noteq> None \<Longrightarrow> participants_of a 0 = 0 \<Longrightarrow>
     add_meals r a k n = Inr [add_line r l k 0]"
  by (simp add: add_meals_def add_labelled_known)

lemma uncounted_missing:
  assumes "add_line r l k 0 \<in> set ls" and "k \<in> set MEALS_RATE_KEYS"
  shows "''expectedParticipants'' \<in> set (missing_items (total_cost ls))"
proof -
  have "list_ex (\<lambda>l. line_qty l = 0 \<and> line_key l \<in> set MEALS_RATE_KEYS) ls"
    using assms by (auto simp: list_ex_iff intro!: bexI [of _ "add_line r l k 0"])
  then show ?thesis by (simp add: total_cost_def Let_def)
qed

lemma concatE_mem:
  "concatE ss = Inr ls \<Longrightarrow> Inr part \<in> set ss \<Longrightarrow> x \<in> set part \<Longrightarrow> x \<in> set ls"
  by (induction ss arbitrary: ls) (auto simp: bindE_eq_Inr)

lemma concatE_last: "concatE (ss @ [Inr p]) = Inr ls \<Longrightarrow> set p \<subseteq> set ls"
  by (auto simp: concatE_append bindE_eq_Inr)

definition session_meals_key :: "cost_input \<Rightarrow> string" where
  "session_meals_key a =
     (if type_in a CLUSTER_MEETING_TYPES then CLUSTER_MEALS_RATE_KEY
      else if \<not> type_in a CLUSTER_TRAINING_TYPES \<and> kind_of a = ''tot'' then TOT_MEALS_RATE_KEY
      else GROUP_TRAINING_MEALS_RATE_KEY)"

text \<open>A meeting or group training that feeds its participants is never funded for nobody: when
  the card carries the session's meals rate and no participant is planned or recorded, the
  activity is unfundable and lists the headcount as missing.\<close>

theorem catered_session_needs_headcount:
  assumes "type_in a (CLUSTER_MEETING_TYPES @ TRAINING_TYPES)" and "activityType a \<noteq> Some IN_SCHOOL_TRAINING"
    and "with_rate_aliases r (session_meals_key a) \<noteq> None" and "participants_of a 0 = 0"
  shows "\<exists>c. cost_for_activity a r = Inr c \<and> cost_missing c \<and> ''expectedParticipants'' \<in> set (missing_items c)"
proof -
  let ?r = "with_rate_aliases r"
  obtain t where t: "activityType a = Some t" "t \<in> set CLUSTER_MEETING_TYPES \<union> set TRAINING_TYPES"
    using assms(1) by (auto simp: type_in_def split: option.splits)
  have typed: "t \<noteq> FIELD_EVENT" "t \<noteq> PROGRAMME_EVENT" "t \<noteq> IN_SCHOOL_TRAINING"
    using t assms(2) by (auto simp: type_group_defs)
  have "RATE_LABELS (session_meals_key a) \<noteq> None"
    by (simp add: session_meals_key_def meals_key_defs)
  then obtain l where l: "RATE_LABELS (session_meals_key a) = Some l" by blast
  note meal = meals_line_uncounted [where r = ?r, OF l assms(3) assms(4)]
  obtain ls where ls: "recipe_lines ?r a = Inr ls"
    and c: "cost_for_activity a r = Inr (total_cost
      (ls @ map (\<lambda>(key, label). add_line ?r label key 1) (linkedRates a)))"
    by (rule cost_for_activity_lines)
  have "\<exists>ss. recipe_lines ?r a = concatE ss \<and> Inr [add_line ?r l (session_meals_key a) 0] \<in> set ss"
  proof (cases "t \<in> set CLUSTER_MEETING_TYPES")
    case True
    then have "recipe_lines ?r a = meeting_lines ?r a" using t typed by (simp add: recipe_lines_def type_in_def)
    moreover have "session_meals_key a = CLUSTER_MEALS_RATE_KEY"
      using True t by (simp add: session_meals_key_def type_in_def)
    ultimately show ?thesis using meal [of "days_of a"] unfolding meeting_lines_def Let_def
      by (metis list.set_intros(1))
  next
    case False
    with t typed have "\<exists>rate. recipe_lines ?r a
        = add_group_session ?r a (days_of a) rate (Some (session_meals_key a)) (Some True)"
      by (auto simp: recipe_lines_def type_in_def session_meals_key_def)
    then show ?thesis using meal [of "days_of a"] unfolding add_group_session_def
      by (auto simp del: concatE_simps)
  qed
  with ls have "add_line ?r l (session_meals_key a) 0 \<in> set ls"
    by (metis concatE_mem list.set_intros(1))
  moreover have "session_meals_key a \<in> set MEALS_RATE_KEYS"
    by (simp add: session_meals_key_def MEALS_RATE_KEYS_def)
  ultimately have "''expectedParticipants'' \<in> set (missing_items (total_cost
      (ls @ map (\<lambda>(key, label). add_line ?r label key 1) (linkedRates a))))"
    by (intro uncounted_missing) auto
  with c total_cost_missing show ?thesis by fastforce
qed

theorem catered_session_needs_headcount_witness:
  "\<exists>c. cost_for_activity (blank_input\<lparr>activityType := Some CLUSTER_TRAINING\<rparr>)
      [''group_training_meals'' \<mapsto> 5000] = Inr c
    \<and> cost_missing c \<and> ''expectedParticipants'' \<in> set (missing_items c)"
proof -
  let ?a = "blank_input\<lparr>activityType := Some CLUSTER_TRAINING\<rparr>"
  have "type_in ?a (CLUSTER_MEETING_TYPES @ TRAINING_TYPES)"
    by (simp add: type_in_def TRAINING_TYPES_def)
  moreover have "session_meals_key ?a = ''group_training_meals''"
    by (simp add: session_meals_key_def type_in_def CLUSTER_MEETING_TYPES_def CLUSTER_TRAINING_TYPES_def
        meals_key_defs)
  moreover have "participants_of ?a 0 = 0"
    by (simp add: participants_of_def blank_input_def nonnegative_count_def py_or_def Let_def)
  ultimately show ?thesis
    by (intro catered_session_needs_headcount) (simp_all add: with_rate_aliases_lookup)
qed

text \<open>A field event of n days in a secondary district is charged transport, lunch and
  breakfast for each of its days, and a dinner and a night for each day but the last (for the
  day itself when it lasts one day, unless that day is the day home).\<close>

theorem field_event_trip_cost:
  assumes "activityType a = Some FIELD_EVENT" and "is_secondary a" and "linkedRates a = []"
    and "with_rate_aliases r ''secondary_transport_per_day'' = Some t"
    and "with_rate_aliases r ''lunch_per_day'' = Some lunch"
    and "with_rate_aliases r ''secondary_breakfast_per_day'' = Some b"
    and "with_rate_aliases r DINNER_KEY = Some d"
    and "with_rate_aliases r (night_key (accommodationKey a)) = Some n"
  shows "\<exists>c. cost_for_activity a r = Inr c \<and> \<not> cost_missing c
    \<and> cost_amount c = days_of a * (t + lunch + b)
        + (if days_of a = 1 then (if truthy (returnDay a) then 0 else d + n)
           else (days_of a - 1) * (d + n))"
proof -
  let ?r = "with_rate_aliases r"
  obtain ls where ls: "add_staff_visit_day ?r a (days_of a) None = Inr ls"
      "sum_list (map line_amount ls) = days_of a * (t + lunch + b)
        + (if days_of a = 1 then (if truthy (returnDay a) then 0 else d + n)
           else (days_of a - 1) * (d + n))"
      "list_all (\<lambda>l. line_qty l \<noteq> 0 \<and> \<not> line_missing l) ls"
  proof (rule that [OF secondary_visit_day])
    have n: "days_of a = 1 \<or> 1 < days_of a" using days_ge [of a] by linarith
    show "is_secondary a" "0 < days_of a" using assms(2) by simp_all
    show "sum_list (map line_amount
      ([add_line ?r ''Transport Secondary District'' ''secondary_transport_per_day'' (days_of a),
        add_line ?r ''Lunch'' ''lunch_per_day'' (days_of a),
        add_line ?r ''Breakfast'' ''secondary_breakfast_per_day'' (days_of a)]
       @ (if days_of a = 1 \<and> truthy (returnDay a) then []
          else add_line ?r ''Dinner'' DINNER_KEY (nights_away (days_of a))
            # (if nights_or None (days_of a) \<le> 0 then []
               else [add_line ?r ''Accommodation'' (night_key (accommodationKey a))
                      (nights_or None (days_of a))])))) = days_of a * (t + lunch + b)
        + (if days_of a = 1 then (if truthy (returnDay a) then 0 else d + n)
           else (days_of a - 1) * (d + n))"
      using n assms(4-8) by (elim disjE)
        (simp_all add: add_line_def nights_or_def nights_away_def algebra_simps)
    show "list_all (\<lambda>l. line_qty l \<noteq> 0 \<and> \<not> line_missing l)
      ([add_line ?r ''Transport Secondary District'' ''secondary_transport_per_day'' (days_of a),
        add_line ?r ''Lunch'' ''lunch_per_day'' (days_of a),
        add_line ?r ''Breakfast'' ''secondary_breakfast_per_day'' (days_of a)]
       @ (if days_of a = 1 \<and> truthy (returnDay a) then []
          else add_line ?r ''Dinner'' DINNER_KEY (nights_away (days_of a))
            # (if nights_or None (days_of a) \<le> 0 then []
               else [add_line ?r ''Accommodation'' (night_key (accommodationKey a))
                      (nights_or None (days_of a))])))"
      using n assms(4-8) by (elim disjE) (simp_all add: add_line_def nights_or_def nights_away_def)
  qed
  have "\<not> cost_missing (total_cost ls)"
    using ls(3) by (auto simp: total_cost_def Let_def list_all_iff list_ex_iff)
  moreover have "cost_for_activity a r = Inr (total_cost ls)"
    using assms(1,3) ls(1) by (simp add: cost_for_activity_def recipe_lines_def Let_def)
  ultimately show ?thesis using ls(2) by simp
qed

theorem field_event_trip_cost_witness:
  "let a = blank_input\<lparr>activityType := Some FIELD_EVENT, districtType := Some ''secondary'', days := JInt 3\<rparr>;
      r = [''secondary_transport_per_day'' \<mapsto> 80000, ''lunch_per_day'' \<mapsto> 12000,
        ''secondary_breakfast_per_day'' \<mapsto> 8000, DINNER_KEY \<mapsto> 12000, ACCOMMODATION_KEY \<mapsto> 40000]
   in \<exists>c. cost_for_activity a r = Inr c \<and> \<not> cost_missing c \<and> cost_amount c = 404000"
proof -
  let ?a = "blank_input\<lparr>activityType := Some FIELD_EVENT, districtType := Some ''secondary'', days := JInt 3\<rparr>"
  let ?r = "[''secondary_transport_per_day'' \<mapsto> 80000, ''lunch_per_day'' \<mapsto> 12000,
        ''secondary_breakfast_per_day'' \<mapsto> 8000, DINNER_KEY \<mapsto> 12000, ACCOMMODATION_KEY \<mapsto> 40000]"
  have a: "activityType ?a = Some FIELD_EVENT" "is_secondary ?a" "linkedRates ?a = []"
    "days_of ?a = 3" "night_key (accommodationKey ?a) = ACCOMMODATION_KEY"
    by (simp_all add: is_secondary_def blank_input_def days_of_def py_or_def night_key_def)
  have r: "with_rate_aliases ?r ''secondary_transport_per_day'' = Some 80000"
    "with_rate_aliases ?r ''lunch_per_day'' = Some 12000"
    "with_rate_aliases ?r ''secondary_breakfast_per_day'' = Some 8000"
    "with_rate_aliases ?r DINNER_KEY = Some 12000" "with_rate_aliases ?r ACCOMMODATION_KEY = Some 40000"
    by (simp_all add: with_rate_aliases_lookup day_key_defs)
  from field_event_trip_cost [OF a(1-3) r(1-4), unfolded a(5), OF r(5)] show ?thesis
    by (simp add: a(4) Let_def)
qed

subsection \<open>The keys of a cluster meeting\<close>

definition meeting_keys :: "string \<Rightarrow> string \<Rightarrow> string option \<Rightarrow> string list" where
  "meeting_keys delivery place acc =
     [CLUSTER_MEALS_RATE_KEY, ''group_training_venue_cost'', ''printing_training_materials'',
      ''photocopying_training_materials'']
     @ (if delivery = ''partner'' then []
        else if place = ''secondary''
        then [''secondary_transport_per_day'', ''lunch_per_day'', ''secondary_breakfast_per_day'',
              DINNER_KEY, night_key acc]
        else [''primary_transport_per_day'', ''lunch_per_day''])"

lemma meeting_recipe: "type_in a CLUSTER_MEETING_TYPES \<Longrightarrow> recipe_lines r a = meeting_lines r a"
  by (auto simp: recipe_lines_def type_in_def CLUSTER_MEETING_TYPES_def split: option.splits)

lemma stated_meeting_fields:
  "days_of (stated_meeting t delivery place acc) = 1"
  "participants_of (stated_meeting t delivery place acc) 0 = 1"
  "materials_quantities (stated_meeting t delivery place acc) = (1, 1)"
  "\<not> truthy (facilitated (stated_meeting t delivery place acc))"
  "\<not> truthy (returnDay (stated_meeting t delivery place acc))"
  "is_partner (stated_meeting t delivery place acc) \<longleftrightarrow> delivery = ''partner''"
  "is_secondary (stated_meeting t delivery place acc) \<longleftrightarrow> place = ''secondary''"
  "linkedRates (stated_meeting t delivery place acc) = []"
  "accommodationKey (stated_meeting t delivery place acc) = Some acc"
  "type_in (stated_meeting t delivery place acc) ts \<longleftrightarrow> t \<in> set ts"
  by (simp_all add: stated_meeting_def blank_input_def days_of_def participants_of_def
      materials_quantities_def nonnegative_count_def py_or_def is_partner_def is_secondary_def type_in_def)

lemma stated_meeting_keys:
  assumes "t \<in> set CLUSTER_MEETING_TYPES"
    and "\<And>k. k \<in> {CLUSTER_MEALS_RATE_KEY, ''printing_training_materials'', ''photocopying_training_materials''} \<Longrightarrow>
      with_rate_aliases r k \<noteq> None"
  shows "bindE (cost_for_activity (stated_meeting t delivery place acc) r)
      (\<lambda>c. Inr (map line_key (cost_lines c))) = Inr (meeting_keys delivery place (Some acc))"
proof -
  let ?a = "stated_meeting t delivery place acc" and ?r = "with_rate_aliases r"
  have day: "\<exists>ls. add_staff_day ?r ?a 1 = Inr ls \<and> map line_key ls = drop 4 (meeting_keys delivery place (Some acc))"
    by (simp add: add_staff_day_def stated_meeting_fields primary_visit_day secondary_visit_day
        meeting_keys_def nights_or_def nights_away_def)
  have "add_meals ?r ?a CLUSTER_MEALS_RATE_KEY 1
      = Inr [add_line ?r ''Cluster Meeting - Participant Meals'' CLUSTER_MEALS_RATE_KEY 1]"
    using assms(2) [of CLUSTER_MEALS_RATE_KEY]
    by (simp add: add_meals_def stated_meeting_fields add_labelled_known meals_key_defs)
  moreover have "map line_key (add_materials ?r ?a) = [''printing_training_materials'', ''photocopying_training_materials'']"
    using assms(2) by (simp add: add_materials_def stated_meeting_fields add_rate_def)
  ultimately have "bindE (meeting_lines ?r ?a) (\<lambda>ls. Inr (map line_key ls)) = Inr (meeting_keys delivery place (Some acc))"
    using day by (auto simp: meeting_lines_def Let_def stated_meeting_fields add_labelled_known
        add_facilitation_fee_def meeting_keys_def)
  then show ?thesis
    using meeting_recipe [of ?a ?r] assms(1)
    by (cases "meeting_lines ?r ?a") (simp_all add: cost_for_activity_def Let_def stated_meeting_fields)
qed

definition UNFACILITATED_MEETING_KEYS :: "string set" where
  "UNFACILITATED_MEETING_KEYS = {CLUSTER_MEALS_RATE_KEY, ''group_training_venue_cost'',
     ''printing_training_materials'', ''photocopying_training_materials''} \<union> set DAY_KEYS"

lemma cluster_meeting_rate_keys_eval:
  "\<exists>ks. cluster_meeting_rate_keys = Inr ks \<and> set ks = UNFACILITATED_MEETING_KEYS"
proof -
  have card: "with_rate_aliases (canonical_card 1) k \<noteq> None"
    if "k \<in> {CLUSTER_MEALS_RATE_KEY, ''printing_training_materials'', ''photocopying_training_materials''}" for k
  proof -
    have "k \<in> set CANONICAL_RATE_KEYS" using that by (auto simp: canonical_rate_defs meals_key_defs)
    then show ?thesis by (simp add: with_rate_aliases_lookup canonical_card_def)
  qed
  have keys: "bindE (cost_for_activity (stated_meeting t d p acc) (canonical_card 1))
      (\<lambda>c. Inr (map line_key (cost_lines c))) = Inr (meeting_keys d p (Some acc))"
    if "t \<in> set CLUSTER_MEETING_TYPES" for t d p acc
    using that card by (rule stated_meeting_keys)
  have night: "night_key (Some ACCOMMODATION_KEY) = ACCOMMODATION_KEY"
    "night_key (Some MANAGEMENT_ACCOMMODATION_KEY) = MANAGEMENT_ACCOMMODATION_KEY"
    by (simp_all add: night_key_def)
  define B where "B = {CLUSTER_MEALS_RATE_KEY, ''group_training_venue_cost'',
     ''printing_training_materials'', ''photocopying_training_materials''}"
  define P where "P = {''primary_transport_per_day'', ''lunch_per_day''}"
  define S where "S = {''secondary_transport_per_day'', ''lunch_per_day'', ''secondary_breakfast_per_day'',
     DINNER_KEY}"
  have sets: "set (meeting_keys ''partner'' p acc) = B" "set (meeting_keys ''staff'' ''primary'' acc) = B \<union> P"
    "set (meeting_keys ''staff'' ''secondary'' acc) = B \<union> S \<union> {night_key acc}" for p acc
    by (simp_all add: meeting_keys_def B_def P_def S_def insert_commute)
  have K: "UNFACILITATED_MEETING_KEYS = B \<union> P \<union> S \<union> {ACCOMMODATION_KEY, MANAGEMENT_ACCOMMODATION_KEY}"
    by (simp add: UNFACILITATED_MEETING_KEYS_def DAY_KEYS_def B_def P_def S_def insert_commute)
  have eval: "cluster_meeting_rate_keys = Inr (concat [meeting_keys d p (Some acc).
      t \<leftarrow> CLUSTER_MEETING_TYPES, d \<leftarrow> [''staff'', ''partner''], p \<leftarrow> [''primary'', ''secondary''],
      acc \<leftarrow> ACCOMMODATION_KEYS])"
    by (simp add: cluster_meeting_rate_keys_def keys CLUSTER_MEETING_TYPES_def ACCOMMODATION_KEYS_def)
  have "set (concat [meeting_keys d p (Some acc).
      t \<leftarrow> CLUSTER_MEETING_TYPES, d \<leftarrow> [''staff'', ''partner''], p \<leftarrow> [''primary'', ''secondary''],
      acc \<leftarrow> ACCOMMODATION_KEYS]) = UNFACILITATED_MEETING_KEYS"
    by (simp add: CLUSTER_MEETING_TYPES_def ACCOMMODATION_KEYS_def sets night K) blast
  with eval show ?thesis by blast
qed

lemma facilitation_not_unfacilitated: "''group_training_facilitation_fee'' \<notin> UNFACILITATED_MEETING_KEYS"
  by (simp add: UNFACILITATED_MEETING_KEYS_def DAY_KEYS_def meals_key_defs day_key_defs)

text \<open>The keys the engine reports for a cluster meeting are every key it can charge one that
  nobody facilitates, whatever the meeting and the card; the one key a meeting can be charged
  that the report leaves out is the facilitation fee of a partner-facilitated meeting.\<close>

theorem cluster_meeting_keys_cover:
  assumes "type_in a CLUSTER_MEETING_TYPES" and "linkedRates a = []"
  shows "\<exists>ks c. cluster_meeting_rate_keys = Inr ks \<and> cost_for_activity a r = Inr c
    \<and> line_key ` set (cost_lines c) - set ks
      = (if truthy (facilitated a) then {''group_training_facilitation_fee''} else {})"
proof -
  let ?r = "with_rate_aliases r"
  obtain ks where ks: "cluster_meeting_rate_keys = Inr ks" "set ks = UNFACILITATED_MEETING_KEYS"
    using cluster_meeting_rate_keys_eval by blast
  let ?K = "UNFACILITATED_MEETING_KEYS \<union> (if truthy (facilitated a) then {''group_training_facilitation_fee''} else {})"
  have "lines_all (\<lambda>l. line_key l \<in> ?K) (meeting_lines ?r a)"
    by (rule meeting_all) (simp add: UNFACILITATED_MEETING_KEYS_def)
  then obtain ls where ls: "meeting_lines ?r a = Inr ls" "line_key ` set ls \<subseteq> ?K"
    by (elim lines_allE) (auto simp: list_all_iff)
  have "''group_training_facilitation_fee'' \<in> line_key ` set ls" if "truthy (facilitated a)"
  proof -
    let ?l = "add_line ?r ''Facilitation Fee'' ''group_training_facilitation_fee'' (days_of a)"
    have fee: "(if truthy (facilitated a) then add_facilitation_fee ?r (days_of a) else Inr []) = Inr [?l]"
      using that by (simp add: add_facilitation_fee_def add_labelled_known)
    have "?l \<in> set ls"
      using concatE_last [of "[add_meals ?r a CLUSTER_MEALS_RATE_KEY (days_of a),
         add_labelled ?r ''group_training_venue_cost'' (days_of a), Inr (add_materials ?r a),
         add_staff_day ?r a (days_of a)]" "[?l]" ls] ls(1) [unfolded meeting_lines_def Let_def fee]
      by (simp only: append.simps list.set subset_iff insert_iff simp_thms)
    then show ?thesis by (rule rev_image_eqI) simp
  qed
  with ls(2) facilitation_not_unfacilitated
  have "line_key ` set ls - set ks = (if truthy (facilitated a) then {''group_training_facilitation_fee''} else {})"
    by (auto simp: ks(2))
  moreover have "cost_for_activity a r = Inr (total_cost ls)"
    using assms ls(1) by (simp add: cost_for_activity_def Let_def meeting_recipe)
  ultimately show ?thesis using ks(1) by auto
qed

theorem cluster_meeting_keys_cover_witness:
  "\<exists>ks c. cluster_meeting_rate_keys = Inr ks
    \<and> cost_for_activity (blank_input\<lparr>activityType := Some CLUSTER_MEETING, facilitated := JBool True\<rparr>)
        (canonical_card 1) = Inr c
    \<and> line_key ` set (cost_lines c) - set ks = {''group_training_facilitation_fee''}"
proof -
  let ?a = "blank_input\<lparr>activityType := Some CLUSTER_MEETING, facilitated := JBool True\<rparr>"
  have "type_in ?a CLUSTER_MEETING_TYPES" "linkedRates ?a = []" "truthy (facilitated ?a)"
    by (simp_all add: type_in_def CLUSTER_MEETING_TYPES_def blank_input_def)
  with cluster_meeting_keys_cover [of ?a "canonical_card 1"] show ?thesis by presburger
qed

end
