(* ===== verification/LedgerState.thy ===== *)
theory LedgerState
  imports PyValues CalendarDates
begin

text \<open>
  apps/business_transformation: the tables of the lending ledger (models.py), the
  reading and checking of a request's values (the helpers at the head of
  lending_ledger.py) and the insertion of each row with the constraints its table
  declares. Money is in hundredths. A database is the list of rows of each table in
  insertion order; an operation that fails returns an error and no database, which
  is the rollback of its transaction.
\<close>

section \<open>Enumerations\<close>

datatype facility_status = DRAFT_FACILITY | APPROVED_FACILITY | ACTIVE_FACILITY
  | SUSPENDED_FACILITY | CLOSED_FACILITY | CANCELLED_FACILITY

datatype capital_source = ORIGINAL | RECOVERED

datatype movement_kind = AUTHORIZED_DEDUCTION | CAPITAL_RETURN

datatype loan_status = PROCESSING | DISBURSED | ACTIVE | REPAID | DEFAULTED | CANCELED

datatype allocation_status = RESERVED | CONSUMED | RELEASED

datatype transaction_kind = PAYMENT | REVERSAL

datatype component = PRINCIPAL | INTEREST | FEE | PENALTY

datatype impact_status = IMPACT_NOT_DUE | IMPACT_DUE | IMPACT_OTHER string

datatype snapshot_kind = BASELINE | FOLLOW_UP

definition source_of_text :: "string \<Rightarrow> capital_source option" where
  "source_of_text s = (if s = ''original'' then Some ORIGINAL
     else if s = ''recovered'' then Some RECOVERED else None)"

definition source_text :: "capital_source \<Rightarrow> string" where
  "source_text s = (case s of ORIGINAL \<Rightarrow> ''original'' | RECOVERED \<Rightarrow> ''recovered'')"

definition movement_kind_of_text :: "string \<Rightarrow> movement_kind option" where
  "movement_kind_of_text s = (if s = ''authorized_deduction'' then Some AUTHORIZED_DEDUCTION
     else if s = ''capital_return'' then Some CAPITAL_RETURN else None)"

definition component_of_text :: "string \<Rightarrow> component option" where
  "component_of_text s = (if s = ''principal'' then Some PRINCIPAL
     else if s = ''interest'' then Some INTEREST else if s = ''fee'' then Some FEE
     else if s = ''penalty'' then Some PENALTY else None)"

definition DISBURSED_LOAN_STATUSES :: "loan_status list" where
  "DISBURSED_LOAN_STATUSES = [DISBURSED, ACTIVE, REPAID, DEFAULTED]"

section \<open>Rows\<close>

record organization =
  o_id :: string
  o_country_code :: string
  o_active :: bool
  o_deleted :: bool

record membership =
  mb_user :: string
  mb_mfi :: string
  mb_is_loan_officer :: bool
  mb_officer_reference :: string
  mb_active :: bool

record facility =
  f_id :: string
  f_mfi :: string
  f_external_reference :: string
  f_name :: string
  f_country_code :: string
  f_currency :: string
  f_funding_source :: string
  f_facility_type :: string
  f_approved_amount :: "int option"
  f_commitment_amount :: int
  f_revolving :: bool
  f_starts_on :: date
  f_ends_on :: "date option"
  f_status :: facility_status
  f_agreement_reference :: string
  f_created_by :: string
  f_approved_by :: "string option"
  f_approved_at :: "int option"

record tranche =
  t_id :: string
  t_facility :: string
  t_external_reference :: string
  t_number :: "int option"
  t_key :: string
  t_amount :: int
  t_received_on :: date
  t_value_date :: date
  t_evidence_reference :: string
  t_payment_reference :: string
  t_source_account :: string
  t_currency :: string
  t_exchange_rate :: int
  t_confirmed_by :: string
  t_confirmed_at :: int

text \<open>The reversal of a receipt, of a movement or of a disbursement.\<close>

record posting_reversal =
  r_id :: string
  r_of :: string
  r_key :: string
  r_reason :: string
  r_by :: string
  r_at :: int

record movement =
  m_id :: string
  m_facility :: string
  m_kind :: movement_kind
  m_source :: capital_source
  m_amount :: int
  m_external_reference :: string
  m_key :: string
  m_value_date :: date
  m_evidence_reference :: string
  m_posted_by :: string
  m_posted_at :: int

record loan =
  l_id :: string
  l_mfi :: string
  l_case :: string
  l_purpose :: string
  l_facility :: "string option"
  l_officer_reference :: string
  l_requested_amount :: "int option"
  l_approved_amount :: "int option"
  l_disbursed_amount :: "int option"
  l_currency :: string
  l_disbursement_date :: "date option"
  l_disbursement_confirmed_at :: "int option"
  l_status :: loan_status
  l_registered_by :: string
  l_last_repayment_data_date :: "date option"
  l_impact_status :: impact_status
  l_deleted :: bool

record allocation =
  a_id :: string
  a_facility :: string
  a_loan :: string
  a_amount :: int
  a_source :: capital_source
  a_status :: allocation_status
  a_key :: string
  a_reserved_by :: string
  a_reserved_at :: int
  a_released_by :: "string option"
  a_released_at :: "int option"
  a_release_reason :: string

record disbursement =
  d_id :: string
  d_loan :: string
  d_allocation :: string
  d_sequence :: int
  d_external_reference :: string
  d_key :: string
  d_amount :: int
  d_source :: capital_source
  d_disbursed_on :: date
  d_value_date :: date
  d_bank_reference :: string
  d_confirmed_by :: string
  d_confirmed_at :: int

record installment =
  i_id :: string
  i_loan :: string
  i_version :: int
  i_number :: int
  i_due_date :: date
  i_principal_due :: int
  i_interest_due :: int
  i_fee_due :: int
  i_created_by :: string

record repayment =
  x_id :: string
  x_loan :: string
  x_kind :: transaction_kind
  x_reversal_of :: "string option"
  x_external_reference :: string
  x_key :: string
  x_amount :: int
  x_received_on :: date
  x_value_date :: date
  x_evidence_reference :: string
  x_posted_by :: string
  x_posted_at :: int
  x_reason :: string

record repayment_allocation =
  ra_id :: string
  ra_transaction :: string
  ra_installment :: "string option"
  ra_component :: component
  ra_amount :: int

record purpose_allocation =
  pa_loan :: string
  pa_planned :: int
  pa_reported :: "int option"

record enrolment_snapshot =
  s_loan :: string
  s_kind :: snapshot_kind
  s_as_of :: date

record status_change =
  h_loan :: string
  h_previous :: loan_status
  h_new :: loan_status
  h_changed_by :: string
  h_at :: int

record audit_event =
  e_action :: string
  e_subject :: string
  e_actor :: string

record ledger =
  organizations :: "organization list"
  memberships :: "membership list"
  facilities :: "facility list"
  tranches :: "tranche list"
  tranche_reversals :: "posting_reversal list"
  movements :: "movement list"
  movement_reversals :: "posting_reversal list"
  loans :: "loan list"
  allocations :: "allocation list"
  disbursements :: "disbursement list"
  disbursement_reversals :: "posting_reversal list"
  installments :: "installment list"
  repayments :: "repayment list"
  repayment_allocations :: "repayment_allocation list"
  purpose_allocations :: "purpose_allocation list"
  enrolment_snapshots :: "enrolment_snapshot list"
  purpose_follow_up :: "(string \<times> int) list"
  case_statuses :: "(string \<times> string) list"
  verification_policies :: "((int \<times> bool) \<times> int) list"
  verification_requirements :: "(string \<times> date) list"
  impact_assessments :: "((string \<times> date) \<times> impact_status) list"
  status_history :: "status_change list"
  disbursement_notices :: "string list"
  netsuite_queue :: "string list"
  audit_events :: "audit_event list"

section \<open>The caller and the world\<close>

datatype ledger_permission = FACILITY_MANAGE | FACILITY_APPROVE | FACILITY_TRANSFER
  | ALLOCATION_MANAGE | DISBURSEMENT_WRITE | LOAN_WRITE | REPAYMENT_WRITE | REPAYMENT_REVERSE

record principal =
  p_user_id :: "string option"
  p_id :: "string option"
  p_role :: string
  p_permissions :: "ledger_permission list"

text \<open>
  \<open>parse_date\<close> is Django's (it answers no date for ill-formed text and raises
  \<open>ValueError\<close> for a date that does not exist). \<open>new_id k\<close> is the k-th primary key an
  operation draws (\<open>cuid()\<close>). \<open>audit_ok\<close> tells whether the audit row can be
  written, \<open>netsuite_on\<close> whether that integration is switched on.
\<close>

record world =
  parse_date :: "string \<Rightarrow> date option result"
  new_id :: "nat \<Rightarrow> string"
  now :: int
  today :: date
  audit_ok :: bool
  netsuite_on :: bool

definition MFI_ROLES :: "string list" where
  "MFI_ROLES = [''MfiPartnerAdmin'', ''MfiLoanOfficer'']"

definition nonempty :: "string option \<Rightarrow> string option" where
  "nonempty v = (case v of None \<Rightarrow> None | Some s \<Rightarrow> if s = [] then None else Some s)"

definition actor_id :: "principal \<Rightarrow> string" where
  "actor_id p = (case nonempty (p_user_id p) of Some s \<Rightarrow> s
     | None \<Rightarrow> (case nonempty (p_id p) of Some s \<Rightarrow> s | None \<Rightarrow> ''system''))"

definition require :: "principal \<Rightarrow> ledger_permission \<Rightarrow> string \<Rightarrow> unit result" where
  "require p perm message = ensure (perm \<in> set (p_permissions p)) (Forbidden message)"

section \<open>Reading a request\<close>

definition text_of :: "jval \<Rightarrow> string" where
  "text_of v = (if truthy v then py_str v else [])"

definition money :: "jval \<Rightarrow> string \<Rightarrow> bool \<Rightarrow> int result" where
  "money v field allow_zero =
     (if v = JNone \<or> v = JStr [] then Inl (BadRequest (field @ '' is required.''))
      else (case parse_decimal (py_str v) of
          None \<Rightarrow> Inl (BadRequest (field @ '' must be a valid monetary amount.''))
        | Some Infinite \<Rightarrow> Inl (BadRequest (field @ '' must have no more than two decimal places.''))
        | Some NotANumber \<Rightarrow> Inl (BadRequest (field @ '' must have no more than two decimal places.''))
        | Some (Finite c e) \<Rightarrow>
            (case quantize_cents c e of
               None \<Rightarrow> Inl InvalidOperation
             | Some q \<Rightarrow>
                 if \<not> equals_cents c e q
                 then Inl (BadRequest (field @ '' must have no more than two decimal places.''))
                 else if q < 0 \<or> (q = 0 \<and> \<not> allow_zero)
                 then Inl (BadRequest (field @ '' must be ''
                        @ (if allow_zero then ''zero or greater'' else ''greater than zero'') @ ''.''))
                 else Inr q)))"

definition date_value :: "world \<Rightarrow> jval \<Rightarrow> string \<Rightarrow> date result" where
  "date_value w v field =
     bindE (parse_date w (text_of v)) (of_option (BadRequest (field @ '' must be a valid date.'')))"

definition required_text :: "payload \<Rightarrow> string \<Rightarrow> string \<Rightarrow> string result" where
  "required_text data key label =
     (let v = strip (text_of (payload_get data key)) in
      if v = [] then Inl (BadRequest (label @ '' is required.'')) else Inr v)"

definition blank :: "jval \<Rightarrow> bool" where
  "blank v \<longleftrightarrow> v = JNone \<or> v = JStr []"

definition assert_mfi_scope :: "principal \<Rightarrow> string \<Rightarrow> ledger \<Rightarrow> unit result" where
  "assert_mfi_scope p mfi db =
     (if p_role p \<notin> set MFI_ROLES then Inr ()
      else ensure (list_ex (\<lambda>m. mb_user m = actor_id p \<and> mb_mfi m = mfi \<and> mb_active m) (memberships db))
             (Forbidden ''This record is outside your lending-partner scope.''))"

definition assert_loan_scope :: "principal \<Rightarrow> loan \<Rightarrow> ledger \<Rightarrow> unit result" where
  "assert_loan_scope p l db =
     bindE (assert_mfi_scope p (l_mfi l) db) (\<lambda>_.
       if p_role p \<noteq> ''MfiLoanOfficer'' then Inr ()
       else ensure (l_registered_by l = actor_id p
              \<or> list_ex (\<lambda>m. mb_user m = actor_id p \<and> mb_mfi m = l_mfi l \<and> mb_is_loan_officer m
                    \<and> mb_active m \<and> mb_officer_reference m \<noteq> []
                    \<and> mb_officer_reference m = l_officer_reference l) (memberships db))
             (NotFoundError ''Loan record not found in your assigned portfolio.''))"

definition audit :: "world \<Rightarrow> string \<Rightarrow> string \<Rightarrow> principal \<Rightarrow> ledger \<Rightarrow> ledger result" where
  "audit w action subject p db =
     (if audit_ok w
      then Inr (db\<lparr>audit_events := audit_events db
             @ [\<lparr>e_action = action, e_subject = subject, e_actor = actor_id p\<rparr>]\<rparr>)
      else Inl AuditUnavailable)"

end
