(* ===== verification/LedgerQueries.thy ===== *)
theory LedgerQueries
  imports LedgerState
begin

text \<open>
  What the lending ledger reads: totals over its postings, the position of a facility
  and of a loan, and the two reconciliation reports (lending_ledger.py), followed by
  the insertion of each kind of row with its table's constraints (models.py).
  A join on a primary key is the existence of the row it joins to.
\<close>

section \<open>Totals\<close>

definition reversed_in :: "string \<Rightarrow> posting_reversal list \<Rightarrow> bool" where
  "reversed_in k rs \<longleftrightarrow> list_ex (\<lambda>r. r_of r = k) rs"

definition by_as_of :: "date option \<Rightarrow> date \<Rightarrow> bool" where
  "by_as_of as_of d = (case as_of of None \<Rightarrow> True | Some limit \<Rightarrow> d \<le> limit)"

definition net_disbursed :: "ledger \<Rightarrow> string \<Rightarrow> date option \<Rightarrow> int" where
  "net_disbursed db lid as_of =
     sum_where (\<lambda>d. d_loan d = lid \<and> \<not> reversed_in (d_id d) (disbursement_reversals db)
        \<and> by_as_of as_of (d_value_date d)) d_amount (disbursements db)"

definition paid_in :: "ledger \<Rightarrow> (repayment \<Rightarrow> bool) \<Rightarrow> repayment_allocation \<Rightarrow> bool" where
  "paid_in db P ra \<longleftrightarrow> list_ex (\<lambda>x. x_id x = ra_transaction ra \<and> P x) (repayments db)"

definition principal_by_kind :: "ledger \<Rightarrow> string \<Rightarrow> date option \<Rightarrow> transaction_kind \<Rightarrow> int" where
  "principal_by_kind db lid as_of kind =
     sum_where (\<lambda>ra. ra_component ra = PRINCIPAL
        \<and> paid_in db (\<lambda>x. x_loan x = lid \<and> x_kind x = kind \<and> by_as_of as_of (x_value_date x)) ra)
       ra_amount (repayment_allocations db)"

definition net_principal_repaid :: "ledger \<Rightarrow> string \<Rightarrow> date option \<Rightarrow> int" where
  "net_principal_repaid db lid as_of =
     principal_by_kind db lid as_of PAYMENT - principal_by_kind db lid as_of REVERSAL"

definition component_due :: "installment \<Rightarrow> component \<Rightarrow> int option" where
  "component_due i c = (case c of PRINCIPAL \<Rightarrow> Some (i_principal_due i)
     | INTEREST \<Rightarrow> Some (i_interest_due i) | FEE \<Rightarrow> Some (i_fee_due i) | PENALTY \<Rightarrow> None)"

definition allocated_by_kind :: "ledger \<Rightarrow> string \<Rightarrow> component \<Rightarrow> date option \<Rightarrow> transaction_kind \<Rightarrow> int" where
  "allocated_by_kind db iid c as_of kind =
     sum_where (\<lambda>ra. ra_installment ra = Some iid \<and> ra_component ra = c
        \<and> paid_in db (\<lambda>x. x_kind x = kind \<and> by_as_of as_of (x_value_date x)) ra)
       ra_amount (repayment_allocations db)"

definition net_allocated :: "ledger \<Rightarrow> string \<Rightarrow> component \<Rightarrow> date option \<Rightarrow> int" where
  "net_allocated db iid c as_of =
     allocated_by_kind db iid c as_of PAYMENT - allocated_by_kind db iid c as_of REVERSAL"

section \<open>The position of a facility\<close>

definition receipts :: "ledger \<Rightarrow> string \<Rightarrow> int" where
  "receipts db fid = sum_where (\<lambda>t. t_facility t = fid \<and> \<not> reversed_in (t_id t) (tranche_reversals db))
     t_amount (tranches db)"

definition disbursed_from :: "ledger \<Rightarrow> string \<Rightarrow> capital_source \<Rightarrow> int" where
  "disbursed_from db fid src =
     sum_where (\<lambda>d. list_ex (\<lambda>a. a_id a = d_allocation d \<and> a_facility a = fid) (allocations db)
        \<and> \<not> reversed_in (d_id d) (disbursement_reversals db) \<and> d_source d = src)
       d_amount (disbursements db)"

definition recycled_by_kind :: "ledger \<Rightarrow> string \<Rightarrow> transaction_kind \<Rightarrow> int" where
  "recycled_by_kind db fid kind =
     sum_where (\<lambda>ra. ra_component ra = PRINCIPAL
        \<and> paid_in db (\<lambda>x. x_kind x = kind
             \<and> list_ex (\<lambda>l. l_id l = x_loan x \<and> l_facility l = Some fid) (loans db)) ra)
       ra_amount (repayment_allocations db)"

definition allocation_disbursed :: "ledger \<Rightarrow> string \<Rightarrow> int" where
  "allocation_disbursed db aid =
     sum_where (\<lambda>d. d_allocation d = aid \<and> \<not> reversed_in (d_id d) (disbursement_reversals db))
       d_amount (disbursements db)"

definition reserved_by_source :: "ledger \<Rightarrow> string \<Rightarrow> capital_source \<Rightarrow> int" where
  "reserved_by_source db fid src =
     sum_where (\<lambda>a. a_facility a = fid \<and> (a_status a = RESERVED \<or> a_status a = CONSUMED) \<and> a_source a = src)
       (\<lambda>a. max 0 (a_amount a - allocation_disbursed db (a_id a))) (allocations db)"

definition movement_total :: "ledger \<Rightarrow> string \<Rightarrow> movement_kind \<Rightarrow> capital_source \<Rightarrow> int" where
  "movement_total db fid kind src =
     sum_where (\<lambda>m. m_facility m = fid \<and> \<not> reversed_in (m_id m) (movement_reversals db)
        \<and> m_kind m = kind \<and> m_source m = src) m_amount (movements db)"

record facility_position =
  approved :: int
  commitment :: int
  confirmed_receipts :: int
  recycled_principal :: int
  original_disbursements :: int
  recovered_disbursements :: int
  confirmed_disbursements :: int
  original_reserved :: int
  recovered_reserved :: int
  reserved_allocations :: int
  authorized_deductions :: int
  capital_returned :: int
  original_remaining :: int
  recovered_available :: int
  available :: int
  reconciliation_difference :: int

definition facility_position :: "ledger \<Rightarrow> facility \<Rightarrow> facility_position" where
  "facility_position db f =
     (let fid = f_id f;
          received = receipts db fid;
          original_disbursed = disbursed_from db fid ORIGINAL;
          recovered_disbursed = disbursed_from db fid RECOVERED;
          recycled = (if f_revolving f
                      then recycled_by_kind db fid PAYMENT - recycled_by_kind db fid REVERSAL else 0);
          original_held = reserved_by_source db fid ORIGINAL;
          recovered_held = reserved_by_source db fid RECOVERED;
          original_deductions = movement_total db fid AUTHORIZED_DEDUCTION ORIGINAL;
          recovered_deductions = movement_total db fid AUTHORIZED_DEDUCTION RECOVERED;
          original_returns = movement_total db fid CAPITAL_RETURN ORIGINAL;
          recovered_returns = movement_total db fid CAPITAL_RETURN RECOVERED;
          original_left = received - original_disbursed - original_held - original_deductions
            - original_returns;
          recovered_left = recycled - recovered_disbursed - recovered_held - recovered_deductions
            - recovered_returns
      in \<lparr>approved = (case f_approved_amount f of None \<Rightarrow> f_commitment_amount f
                       | Some v \<Rightarrow> if v = 0 then f_commitment_amount f else v),
          commitment = f_commitment_amount f, confirmed_receipts = received,
          recycled_principal = recycled, original_disbursements = original_disbursed,
          recovered_disbursements = recovered_disbursed,
          confirmed_disbursements = original_disbursed + recovered_disbursed,
          original_reserved = original_held, recovered_reserved = recovered_held,
          reserved_allocations = original_held + recovered_held,
          authorized_deductions = original_deductions + recovered_deductions,
          capital_returned = original_returns + recovered_returns,
          original_remaining = original_left, recovered_available = recovered_left,
          available = original_left + recovered_left, reconciliation_difference = 0\<rparr>)"

definition source_available :: "ledger \<Rightarrow> facility \<Rightarrow> capital_source \<Rightarrow> int" where
  "source_available db f src =
     (case src of ORIGINAL \<Rightarrow> original_remaining (facility_position db f)
      | RECOVERED \<Rightarrow> recovered_available (facility_position db f))"

record facility_report =
  source_total :: int
  use_and_balance_total :: int
  difference :: int
  facility_issues :: "string list"

definition allocation_loan_differs :: "ledger \<Rightarrow> string \<Rightarrow> (loan \<Rightarrow> bool) \<Rightarrow> bool" where
  "allocation_loan_differs db fid same \<longleftrightarrow>
     list_ex (\<lambda>a. a_facility a = fid \<and> \<not> list_ex (\<lambda>l. l_id l = a_loan a \<and> same l) (loans db)) (allocations db)"

definition reconcile_facility :: "ledger \<Rightarrow> facility \<Rightarrow> facility_report" where
  "reconcile_facility db f =
     (let pos = facility_position db f;
          sources = confirmed_receipts pos + recycled_principal pos;
          uses = confirmed_disbursements pos + reserved_allocations pos + authorized_deductions pos
            + capital_returned pos + available pos;
          diff = sources - uses
      in \<lparr>source_total = sources, use_and_balance_total = uses, difference = diff,
          facility_issues =
            (if commitment pos < confirmed_receipts pos then [''receipts_exceed_commitment''] else [])
            @ (if available pos < 0 then [''negative_available_balance''] else [])
            @ (if original_remaining pos < 0 then [''negative_original_capital_balance''] else [])
            @ (if recovered_available pos < 0 then [''negative_recovered_capital_balance''] else [])
            @ (if allocation_loan_differs db (f_id f) (\<lambda>l. l_mfi l = f_mfi f)
               then [''allocation_lending_partner_mismatch''] else [])
            @ (if allocation_loan_differs db (f_id f) (\<lambda>l. l_currency l = f_currency f)
               then [''allocation_currency_mismatch''] else [])
            @ (if diff \<noteq> 0 then [''facility_identity_difference''] else [])\<rparr>)"

section \<open>The position of a loan\<close>

record loan_position =
  position_as_of :: date
  net_disbursed_principal :: int
  principal_repaid :: int
  outstanding_principal :: int
  amount_overdue :: int
  days_past_due :: int
  schedule_version :: "int option"

definition max_version :: "installment list \<Rightarrow> int option" where
  "max_version is = (if is = [] then None else Some (Max (set (map i_version is))))"

definition installment_remaining :: "ledger \<Rightarrow> date \<Rightarrow> installment \<Rightarrow> int" where
  "installment_remaining db as_of i =
     sum_list (map (\<lambda>c. case component_due i c of None \<Rightarrow> 0
        | Some due \<Rightarrow> max 0 (due - net_allocated db (i_id i) c (Some as_of))) [PRINCIPAL, INTEREST, FEE])"

definition loan_position :: "world \<Rightarrow> ledger \<Rightarrow> string \<Rightarrow> date option \<Rightarrow> loan_position" where
  "loan_position w db lid given =
     (let as_of = (case given of None \<Rightarrow> today w | Some d \<Rightarrow> d);
          disbursed = net_disbursed db lid (Some as_of);
          repaid = net_principal_repaid db lid (Some as_of);
          version = max_version (filter (\<lambda>i. i_loan i = lid) (installments db));
          due = (case version of None \<Rightarrow> []
            | Some v \<Rightarrow> if v = 0 then []
                else sort_key i_due_date (sort_key i_number
                  (filter (\<lambda>i. i_loan i = lid \<and> i_version i = v \<and> i_due_date i \<le> as_of) (installments db))));
          unpaid = filter (\<lambda>i. 0 < installment_remaining db as_of i) due
      in \<lparr>position_as_of = as_of, net_disbursed_principal = disbursed, principal_repaid = repaid,
          outstanding_principal = max 0 (disbursed - repaid),
          amount_overdue = sum_list (map (installment_remaining db as_of) unpaid),
          days_past_due = (case unpaid of [] \<Rightarrow> 0
            | i # _ \<Rightarrow> max 0 (to_ordinal as_of - to_ordinal (i_due_date i))),
          schedule_version = version\<rparr>)"

record loan_report =
  report_position :: loan_position
  planned_purpose :: int
  reported_purpose :: int
  scheduled_principal :: int
  loan_issues :: "string list"

definition amount_or_zero :: "int option \<Rightarrow> int" where
  "amount_or_zero v = (case v of None \<Rightarrow> 0 | Some x \<Rightarrow> x)"

definition reconcile_loan :: "world \<Rightarrow> ledger \<Rightarrow> string \<Rightarrow> date option \<Rightarrow> loan_report result" where
  "reconcile_loan w db lid as_of =
     bindE (of_option (DoesNotExist ''MfiLoan'') (find (\<lambda>l. l_id l = lid \<and> \<not> l_deleted l) (loans db))) (\<lambda>l.
       let pos = loan_position w db lid as_of;
           net = net_disbursed_principal pos;
           agreed = amount_or_zero (l_approved_amount l);
           planned = sum_where (\<lambda>pa. pa_loan pa = lid) pa_planned (purpose_allocations db);
           reported = sum_where (\<lambda>pa. pa_loan pa = lid) (\<lambda>pa. amount_or_zero (pa_reported pa))
             (purpose_allocations db);
           versioned = (case schedule_version pos of None \<Rightarrow> False | Some v \<Rightarrow> v \<noteq> 0);
           scheduled = (if versioned
             then sum_where (\<lambda>i. i_loan i = lid \<and> Some (i_version i) = schedule_version pos) i_principal_due
               (installments db) else 0);
           alloc = find (\<lambda>a. a_loan a = lid) (allocations db)
       in Inr \<lparr>report_position = pos, planned_purpose = planned, reported_purpose = reported,
            scheduled_principal = scheduled,
            loan_issues =
              (if agreed < net then [''disbursed_exceeds_approved''] else [])
              @ (if alloc = None \<and> net \<noteq> 0 then [''disbursement_without_facility_allocation''] else [])
              @ (case alloc of None \<Rightarrow> [] | Some a \<Rightarrow>
                  (if a_amount a < net then [''disbursed_exceeds_allocation''] else [])
                  @ (if Some (a_facility a) \<noteq> l_facility l
                        \<or> \<not> list_ex (\<lambda>f. f_id f = a_facility a \<and> f_mfi f = l_mfi l \<and> f_currency f = l_currency l)
                              (facilities db)
                     then [''facility_allocation_mismatch''] else []))
              @ (if planned \<noteq> 0 \<and> planned \<noteq> agreed
                 then [''planned_purpose_does_not_equal_approved''] else [])
              @ (if reported \<noteq> 0 \<and> reported \<noteq> net
                 then [''reported_purpose_does_not_equal_disbursed''] else [])
              @ (if versioned \<and> scheduled \<noteq> net
                 then [''schedule_principal_does_not_equal_disbursed''] else [])
              @ (if amount_or_zero (l_disbursed_amount l) \<noteq> net
                 then [''loan_disbursed_projection_drift''] else [])
              @ (if l_status l = REPAID \<and> outstanding_principal pos \<noteq> 0
                 then [''repaid_loan_has_outstanding_principal''] else [])
              @ (if l_status l = CANCELED \<and> net \<noteq> 0 then [''canceled_loan_has_disbursement''] else [])\<rparr>)"

section \<open>Inserting rows\<close>

definition fits :: "(nat \<times> string) list \<Rightarrow> bool" where
  "fits cols = list_all (\<lambda>(n, s). length s \<le> n) cols"

definition amount_fits :: "int \<Rightarrow> bool" where
  "amount_fits v \<longleftrightarrow> \<bar>v\<bar> < 10 ^ 20"

definition insert_facility :: "facility \<Rightarrow> ledger \<Rightarrow> ledger result" where
  "insert_facility f db =
     bindE (ensure (fits [(128, f_external_reference f), (255, f_name f), (2, f_country_code f),
          (3, f_currency f), (255, f_funding_source f), (64, f_facility_type f),
          (255, f_agreement_reference f), (30, f_created_by f)]
        \<and> amount_fits (f_commitment_amount f)
        \<and> (case f_approved_amount f of None \<Rightarrow> True | Some v \<Rightarrow> amount_fits v)) DataError) (\<lambda>_.
     bindE (ensure (0 < f_commitment_amount f
        \<and> (case f_approved_amount f of None \<Rightarrow> True | Some v \<Rightarrow> 0 < v \<and> f_commitment_amount f \<le> v)
        \<and> (case f_ends_on f of None \<Rightarrow> True | Some d \<Rightarrow> f_starts_on f \<le> d)
        \<and> \<not> list_ex (\<lambda>g. f_id g = f_id f
             \<or> (f_mfi g = f_mfi f \<and> f_external_reference g = f_external_reference f)) (facilities db))
        (IntegrityError ''bt_funding_facility'')) (\<lambda>_.
     Inr (db\<lparr>facilities := facilities db @ [f]\<rparr>)))"

definition insert_tranche :: "tranche \<Rightarrow> ledger \<Rightarrow> ledger result" where
  "insert_tranche t db =
     bindE (ensure (\<not> list_ex (\<lambda>u. t_id u = t_id t) (tranches db)) ValueError) (\<lambda>_.
     bindE (ensure (fits [(128, t_external_reference t), (128, t_key t), (255, t_evidence_reference t),
          (255, t_payment_reference t), (255, t_source_account t), (3, t_currency t), (30, t_confirmed_by t)]
        \<and> amount_fits (t_amount t)
        \<and> (case t_number t of None \<Rightarrow> True | Some n \<Rightarrow> n \<le> 2147483647 \<and> - 2147483648 \<le> n)) DataError) (\<lambda>_.
     bindE (ensure (0 < t_amount t \<and> (case t_number t of None \<Rightarrow> True | Some n \<Rightarrow> 0 \<le> n)
        \<and> \<not> list_ex (\<lambda>u. t_key u = t_key t
             \<or> (t_facility u = t_facility t \<and> t_external_reference u = t_external_reference t)) (tranches db))
        (IntegrityError ''bt_funding_facility_tranche'')) (\<lambda>_.
     Inr (db\<lparr>tranches := tranches db @ [t]\<rparr>))))"

text \<open>The three reversal tables have the same columns and constraints.\<close>

definition reversal_row_ok :: "posting_reversal \<Rightarrow> posting_reversal list \<Rightarrow> string \<Rightarrow> unit result" where
  "reversal_row_ok r rs table =
     bindE (ensure (\<not> list_ex (\<lambda>q. r_id q = r_id r) rs) ValueError) (\<lambda>_.
     bindE (ensure (fits [(128, r_key r), (30, r_by r)]) DataError) (\<lambda>_.
       ensure (\<not> list_ex (\<lambda>q. r_key q = r_key r \<or> r_of q = r_of r) rs) (IntegrityError table)))"

definition insert_tranche_reversal :: "posting_reversal \<Rightarrow> ledger \<Rightarrow> ledger result" where
  "insert_tranche_reversal r db =
     bindE (reversal_row_ok r (tranche_reversals db) ''bt_funding_facility_tranche_reversal'') (\<lambda>_.
       Inr (db\<lparr>tranche_reversals := tranche_reversals db @ [r]\<rparr>))"

definition insert_movement_reversal :: "posting_reversal \<Rightarrow> ledger \<Rightarrow> ledger result" where
  "insert_movement_reversal r db =
     bindE (reversal_row_ok r (movement_reversals db) ''bt_funding_facility_movement_reversal'') (\<lambda>_.
       Inr (db\<lparr>movement_reversals := movement_reversals db @ [r]\<rparr>))"

definition insert_disbursement_reversal :: "posting_reversal \<Rightarrow> ledger \<Rightarrow> ledger result" where
  "insert_disbursement_reversal r db =
     bindE (reversal_row_ok r (disbursement_reversals db) ''bt_loan_disbursement_reversal'') (\<lambda>_.
       Inr (db\<lparr>disbursement_reversals := disbursement_reversals db @ [r]\<rparr>))"

definition insert_movement :: "movement \<Rightarrow> ledger \<Rightarrow> ledger result" where
  "insert_movement m db =
     bindE (ensure (\<not> list_ex (\<lambda>n. m_id n = m_id m) (movements db)) ValueError) (\<lambda>_.
     bindE (ensure (fits [(128, m_external_reference m), (128, m_key m), (255, m_evidence_reference m),
          (30, m_posted_by m)] \<and> amount_fits (m_amount m)) DataError) (\<lambda>_.
     bindE (ensure (0 < m_amount m
        \<and> \<not> list_ex (\<lambda>n. m_key n = m_key m
             \<or> (m_facility n = m_facility m \<and> m_external_reference n = m_external_reference m)) (movements db))
        (IntegrityError ''bt_funding_facility_movement'')) (\<lambda>_.
     Inr (db\<lparr>movements := movements db @ [m]\<rparr>))))"

definition insert_allocation :: "allocation \<Rightarrow> ledger \<Rightarrow> ledger result" where
  "insert_allocation a db =
     bindE (ensure (fits [(128, a_key a), (30, a_reserved_by a)] \<and> amount_fits (a_amount a)) DataError) (\<lambda>_.
     bindE (ensure (0 < a_amount a
        \<and> \<not> list_ex (\<lambda>b. a_id b = a_id a \<or> a_key b = a_key a \<or> a_loan b = a_loan a) (allocations db))
        (IntegrityError ''bt_funding_facility_allocation'')) (\<lambda>_.
     Inr (db\<lparr>allocations := allocations db @ [a]\<rparr>)))"

definition insert_disbursement :: "disbursement \<Rightarrow> ledger \<Rightarrow> ledger result" where
  "insert_disbursement d db =
     bindE (ensure (\<not> list_ex (\<lambda>e. d_id e = d_id d) (disbursements db)) ValueError) (\<lambda>_.
     bindE (ensure (fits [(128, d_external_reference d), (128, d_key d), (255, d_bank_reference d),
          (30, d_confirmed_by d)] \<and> amount_fits (d_amount d) \<and> d_sequence d \<le> 32767) DataError) (\<lambda>_.
     bindE (ensure (0 < d_amount d
        \<and> \<not> list_ex (\<lambda>e. d_key e = d_key d \<or> (d_loan e = d_loan d \<and> d_sequence e = d_sequence d)
             \<or> (d_allocation e = d_allocation d \<and> d_external_reference e = d_external_reference d))
             (disbursements db))
        (IntegrityError ''bt_loan_disbursement'')) (\<lambda>_.
     Inr (db\<lparr>disbursements := disbursements db @ [d]\<rparr>))))"

definition insert_installment :: "installment \<Rightarrow> ledger \<Rightarrow> ledger result" where
  "insert_installment i db =
     bindE (ensure (\<not> list_ex (\<lambda>j. i_id j = i_id i) (installments db)) ValueError) (\<lambda>_.
     bindE (ensure (fits [(30, i_created_by i)] \<and> amount_fits (i_principal_due i)
        \<and> amount_fits (i_interest_due i) \<and> amount_fits (i_fee_due i)
        \<and> i_version i \<le> 32767 \<and> i_number i \<le> 2147483647) DataError) (\<lambda>_.
     bindE (ensure (0 \<le> i_principal_due i \<and> 0 \<le> i_interest_due i \<and> 0 \<le> i_fee_due i
        \<and> (0 < i_principal_due i \<or> 0 < i_interest_due i \<or> 0 < i_fee_due i)
        \<and> \<not> list_ex (\<lambda>j. i_loan j = i_loan i \<and> i_version j = i_version i \<and> i_number j = i_number i)
             (installments db))
        (IntegrityError ''bt_loan_repayment_installment'')) (\<lambda>_.
     Inr (db\<lparr>installments := installments db @ [i]\<rparr>))))"

definition insert_repayment :: "repayment \<Rightarrow> ledger \<Rightarrow> ledger result" where
  "insert_repayment x db =
     bindE (ensure (\<not> list_ex (\<lambda>y. x_id y = x_id x) (repayments db)) ValueError) (\<lambda>_.
     bindE (ensure (fits [(128, x_external_reference x), (128, x_key x), (255, x_evidence_reference x),
          (30, x_posted_by x)] \<and> amount_fits (x_amount x)) DataError) (\<lambda>_.
     bindE (ensure (0 < x_amount x
        \<and> (case x_kind x of PAYMENT \<Rightarrow> x_reversal_of x = None
           | REVERSAL \<Rightarrow> x_reversal_of x \<noteq> None \<and> x_reason x \<noteq> [])
        \<and> \<not> list_ex (\<lambda>y. x_key y = x_key x
             \<or> (x_reversal_of x \<noteq> None \<and> x_reversal_of y = x_reversal_of x)
             \<or> (x_loan y = x_loan x \<and> x_external_reference y = x_external_reference x)) (repayments db))
        (IntegrityError ''bt_repayment_transaction'')) (\<lambda>_.
     Inr (db\<lparr>repayments := repayments db @ [x]\<rparr>))))"

definition insert_repayment_allocation :: "repayment_allocation \<Rightarrow> ledger \<Rightarrow> ledger result" where
  "insert_repayment_allocation ra db =
     bindE (ensure (\<not> list_ex (\<lambda>q. ra_id q = ra_id ra) (repayment_allocations db)) ValueError) (\<lambda>_.
     bindE (ensure (amount_fits (ra_amount ra)) DataError) (\<lambda>_.
     bindE (ensure (0 < ra_amount ra
        \<and> \<not> list_ex (\<lambda>q. ra_transaction q = ra_transaction ra \<and> ra_installment q = ra_installment ra
             \<and> ra_component q = ra_component ra) (repayment_allocations db))
        (IntegrityError ''bt_repayment_allocation'')) (\<lambda>_.
     Inr (db\<lparr>repayment_allocations := repayment_allocations db @ [ra]\<rparr>))))"

text \<open>\<open>loan.save(\<dots>)\<close>: the row's constraints, then the row replaces the one with its key.\<close>

definition loan_row_ok :: "loan \<Rightarrow> bool" where
  "loan_row_ok l \<longleftrightarrow>
     (case l_disbursed_amount l of None \<Rightarrow> True
      | Some v \<Rightarrow> 0 < v \<and> (case l_approved_amount l of None \<Rightarrow> True | Some a \<Rightarrow> v \<le> a))
     \<and> (l_status l \<in> set DISBURSED_LOAN_STATUSES \<longrightarrow>
          l_disbursed_amount l \<noteq> None \<and> l_disbursement_date l \<noteq> None \<and> l_disbursement_confirmed_at l \<noteq> None)"

definition save_loan :: "loan \<Rightarrow> ledger \<Rightarrow> ledger result" where
  "save_loan l db =
     bindE (ensure (case l_disbursed_amount l of None \<Rightarrow> True | Some v \<Rightarrow> \<bar>v\<bar> < 10 ^ 18) DataError) (\<lambda>_.
     bindE (ensure (loan_row_ok l) (IntegrityError ''bt_mfi_loan'')) (\<lambda>_.
     Inr (db\<lparr>loans := update_where (\<lambda>k. l_id k = l_id l) (\<lambda>_. l) (loans db)\<rparr>)))"

definition save_allocation :: "allocation \<Rightarrow> ledger \<Rightarrow> ledger" where
  "save_allocation a db = db\<lparr>allocations := update_where (\<lambda>b. a_id b = a_id a) (\<lambda>_. a) (allocations db)\<rparr>"

definition save_facility :: "facility \<Rightarrow> ledger \<Rightarrow> ledger" where
  "save_facility f db = db\<lparr>facilities := update_where (\<lambda>g. f_id g = f_id f) (\<lambda>_. f) (facilities db)\<rparr>"

end
