(* ===== verification/FacilityOps.thy ===== *)
theory FacilityOps
  imports LedgerQueries
begin

text \<open>
  The facility side of lending_ledger.py: creating and approving a facility, confirming
  and reversing a receipt, posting and reversing a movement, reserving capital for a
  loan and releasing it. Each operation takes the request and the caller and answers
  the new database with the row it returns, or the error it raises.
\<close>

section \<open>Facilities\<close>

definition text_or_empty :: "payload \<Rightarrow> string \<Rightarrow> string" where
  "text_or_empty data key = strip (text_of (payload_get data key))"

text \<open>
  \<open>list(data.get(k) or [])\<close> and \<open>dict(data.get(k) or {})\<close> of a value that is not a JSON
  list or object: absent or empty passes, a number or a truth value is not iterable, and
  a text has no key-value pairs.
\<close>

definition list_column :: "payload \<Rightarrow> string \<Rightarrow> unit result" where
  "list_column data key =
     (let v = payload_get data key in
      if \<not> truthy v then Inr () else (case v of JStr _ \<Rightarrow> Inr () | _ \<Rightarrow> Inl TypeError))"

definition dict_column :: "payload \<Rightarrow> string \<Rightarrow> unit result" where
  "dict_column data key =
     (let v = payload_get data key in
      if \<not> truthy v then Inr () else (case v of JStr _ \<Rightarrow> Inl ValueError | _ \<Rightarrow> Inl TypeError))"

definition facility_by_id :: "ledger \<Rightarrow> string \<Rightarrow> facility option" where
  "facility_by_id db fid = find (\<lambda>f. f_id f = fid) (facilities db)"

definition create_funding_facility ::
    "world \<Rightarrow> payload \<Rightarrow> principal \<Rightarrow> ledger \<Rightarrow> (ledger \<times> facility) result" where
  "create_funding_facility w data p db =
     bindE (require p FACILITY_MANAGE
        ''Only Business Transformation or the Country Director may create a facility.'') (\<lambda>_.
     bindE (required_text data ''mfiId'' ''Lending partner'') (\<lambda>mfi_id.
     bindE (of_option (NotFoundError ''Lending partner not found.'')
        (find (\<lambda>m. o_id m = mfi_id \<and> o_active m \<and> \<not> o_deleted m) (organizations db))) (\<lambda>mfi.
     bindE (date_value w (payload_get data ''startsOn'') ''Start date'') (\<lambda>starts_on.
     bindE (if truthy (payload_get data ''endsOn'')
            then bindE (date_value w (payload_get data ''endsOn'') ''End date'') (\<lambda>d. Inr (Some d))
            else Inr None) (\<lambda>ends_on.
     bindE (ensure (case ends_on of None \<Rightarrow> True | Some d \<Rightarrow> starts_on \<le> d)
        (BadRequest ''End date cannot be before start date.'')) (\<lambda>_.
     let country_code = upper (strip (if truthy (payload_get data ''countryCode'')
            then py_str (payload_get data ''countryCode'') else o_country_code mfi));
         currency = upper (strip (if truthy (payload_get data ''currency'')
            then py_str (payload_get data ''currency'') else ''UGX'')) in
     bindE (ensure (length country_code = 2 \<and> length currency = 3)
        (BadRequest ''Country and currency must use ISO codes.'')) (\<lambda>_.
     bindE (required_text data ''externalReference'' ''Facility reference'') (\<lambda>reference.
     bindE (required_text data ''name'' ''Facility name'') (\<lambda>name.
     bindE (if blank (payload_get data ''approvedAmount'') then Inr None
            else bindE (money (payload_get data ''approvedAmount'') ''Approved amount'' False) (\<lambda>v. Inr (Some v)))
       (\<lambda>approved_amount.
     bindE (money (payload_get data ''commitmentAmount'') ''Commitment'' False) (\<lambda>commitment_amount.
     bindE (list_column data ''permittedPurposeCodes'') (\<lambda>_.
     bindE (dict_column data ''geographicRestrictions'') (\<lambda>_.
     bindE (dict_column data ''schoolEligibilityRestrictions'') (\<lambda>_.
     bindE (dict_column data ''interestStructure'') (\<lambda>_.
     bindE (dict_column data ''reportingConditions'') (\<lambda>_.
     let f = \<lparr>f_id = new_id w 0, f_mfi = o_id mfi, f_external_reference = reference, f_name = name,
         f_country_code = country_code, f_currency = currency,
         f_funding_source = text_or_empty data ''fundingSource'',
         f_facility_type = text_or_empty data ''facilityType'',
         f_approved_amount = approved_amount, f_commitment_amount = commitment_amount,
         f_revolving = truthy (payload_get data ''revolving''), f_starts_on = starts_on,
         f_ends_on = ends_on, f_status = DRAFT_FACILITY,
         f_agreement_reference = text_or_empty data ''agreementReference'',
         f_created_by = actor_id p, f_approved_by = None, f_approved_at = None\<rparr> in
     bindE (insert_facility f db) (\<lambda>db1.
     bindE (ensure (case approved_amount of None \<Rightarrow> True | Some v \<Rightarrow> commitment_amount \<le> v)
        (BadRequest ''Commitment cannot exceed the approved facility amount.'')) (\<lambda>_.
     bindE (audit w ''bt.facility.created'' (f_id f) p db1) (\<lambda>db2.
     Inr (db2, f))))))))))))))))))))"

definition approve_funding_facility ::
    "world \<Rightarrow> string \<Rightarrow> principal \<Rightarrow> ledger \<Rightarrow> (ledger \<times> facility) result" where
  "approve_funding_facility w facility_id p db =
     bindE (require p FACILITY_APPROVE ''Only the Country Director may approve a funding facility.'') (\<lambda>_.
     bindE (of_option (NotFoundError ''Funding facility not found.'') (facility_by_id db facility_id)) (\<lambda>f.
     bindE (ensure (f_created_by f \<noteq> actor_id p)
        (Forbidden ''The facility creator cannot approve the same facility.'')) (\<lambda>_.
     bindE (ensure (f_status f = DRAFT_FACILITY) (ConflictError ''Only a draft facility can be approved.'')) (\<lambda>_.
     bindE (ensure (fits [(30, actor_id p)]) DataError) (\<lambda>_.
     let g = f\<lparr>f_status := APPROVED_FACILITY, f_approved_by := Some (actor_id p),
               f_approved_at := Some (now w)\<rparr> in
     bindE (audit w ''bt.facility.approved'' (f_id f) p (save_facility g db)) (\<lambda>db1.
     Inr (db1, g)))))))"

section \<open>Receipts\<close>

text \<open>\<open>DecimalField(max_digits=18, decimal_places=8)\<close>: the column rounds to eight places.\<close>

definition numeric_18_8 :: "jval \<Rightarrow> int result" where
  "numeric_18_8 v =
     (case parse_decimal (py_str v) of
        Some (Finite c e) \<Rightarrow>
          (let a = (if - 8 \<le> e then \<bar>c\<bar> * 10 ^ nat (e + 8)
                    else (2 * \<bar>c\<bar> + 10 ^ nat (- 8 - e)) div (2 * 10 ^ nat (- 8 - e)))
           in if a < 10 ^ 18 then Inr (sgn c * a) else Inl DataError)
      | Some _ \<Rightarrow> Inl DataError
      | None \<Rightarrow> Inl InvalidOperation)"

definition confirm_facility_tranche ::
    "world \<Rightarrow> payload \<Rightarrow> principal \<Rightarrow> ledger \<Rightarrow> (ledger \<times> tranche) result" where
  "confirm_facility_tranche w data p db =
     bindE (require p FACILITY_TRANSFER ''Only the Accountant may confirm a facility cash receipt.'') (\<lambda>_.
     bindE (required_text data ''facilityId'' ''Funding facility'') (\<lambda>facility_id.
     bindE (of_option (NotFoundError ''Funding facility not found.'') (facility_by_id db facility_id)) (\<lambda>f.
     bindE (ensure (f_status f = APPROVED_FACILITY \<or> f_status f = ACTIVE_FACILITY)
        (ConflictError ''Cash can be confirmed only for an approved facility.'')) (\<lambda>_.
     bindE (required_text data ''idempotencyKey'' ''Idempotency key'') (\<lambda>key.
     bindE (money (payload_get data ''amount'') ''Receipt amount'' False) (\<lambda>amount.
     bindE (required_text data ''externalReference'' ''Transfer reference'') (\<lambda>reference.
     case find (\<lambda>t. t_key t = key) (tranches db) of
       Some t \<Rightarrow>
         bindE (ensure (t_facility t = f_id f \<and> t_external_reference t = reference \<and> t_amount t = amount)
            (ConflictError ''Idempotency key was already used for another receipt.'')) (\<lambda>_. Inr (db, t))
     | None \<Rightarrow>
         bindE (ensure (receipts db (f_id f) + amount \<le> f_commitment_amount f)
            (BadRequest ''Confirmed receipts cannot exceed the facility commitment.'')) (\<lambda>_.
         bindE (if blank (payload_get data ''trancheNumber'') then Inr None
                else bindE (py_int (payload_get data ''trancheNumber'')) (\<lambda>n. Inr (Some n))) (\<lambda>number.
         bindE (date_value w (payload_get data ''receivedOn'') ''Receipt date'') (\<lambda>received_on.
         bindE (date_value w (payload_get data ''valueDate'') ''Value date'') (\<lambda>value_date.
         bindE (required_text data ''evidenceReference'' ''Transfer evidence'') (\<lambda>evidence.
         bindE (numeric_18_8 (py_or (payload_get data ''exchangeRate'') (JStr ''1''))) (\<lambda>rate.
         let t = \<lparr>t_id = new_id w 0, t_facility = f_id f, t_external_reference = reference,
             t_number = number, t_key = key, t_amount = amount, t_received_on = received_on,
             t_value_date = value_date, t_evidence_reference = evidence,
             t_payment_reference = (if truthy (payload_get data ''paymentReference'')
               then py_str (payload_get data ''paymentReference'') else reference),
             t_source_account = text_or_empty data ''sourceAccount'', t_currency = f_currency f,
             t_exchange_rate = rate, t_confirmed_by = actor_id p, t_confirmed_at = now w\<rparr> in
         bindE (insert_tranche t db) (\<lambda>db1.
         let db2 = (if f_status f = APPROVED_FACILITY
                    then save_facility (f\<lparr>f_status := ACTIVE_FACILITY\<rparr>) db1 else db1) in
         bindE (audit w ''bt.facility.tranche_confirmed'' (t_id t) p db2) (\<lambda>db3.
         Inr (if netsuite_on w then db3\<lparr>netsuite_queue := netsuite_queue db3 @ [t_id t]\<rparr> else db3,
              t))))))))))))))))"

definition reverse_facility_tranche ::
    "world \<Rightarrow> string \<Rightarrow> payload \<Rightarrow> principal \<Rightarrow> ledger \<Rightarrow> (ledger \<times> posting_reversal) result" where
  "reverse_facility_tranche w tranche_id data p db =
     bindE (require p FACILITY_TRANSFER ''Only the Accountant may reverse a facility cash receipt.'') (\<lambda>_.
     bindE (of_option (NotFoundError ''Facility receipt not found.'')
        (find (\<lambda>t. t_id t = tranche_id) (tranches db))) (\<lambda>t.
     bindE (required_text data ''idempotencyKey'' ''Idempotency key'') (\<lambda>key.
     case find (\<lambda>r. r_key r = key) (tranche_reversals db) of
       Some r \<Rightarrow> bindE (ensure (r_of r = t_id t)
           (ConflictError ''Idempotency key was already used for another reversal.'')) (\<lambda>_. Inr (db, r))
     | None \<Rightarrow>
         bindE (ensure (\<not> reversed_in (t_id t) (tranche_reversals db))
            (ConflictError ''This facility receipt has already been reversed.'')) (\<lambda>_.
         bindE (of_option (DoesNotExist ''FundingFacility'') (facility_by_id db (t_facility t))) (\<lambda>f.
         bindE (ensure (t_amount t \<le> original_remaining (facility_position db f))
            (ConflictError ''The receipt cannot be reversed while its funds are allocated or disbursed.'')) (\<lambda>_.
         bindE (required_text data ''reason'' ''Reversal reason'') (\<lambda>reason.
         let r = \<lparr>r_id = new_id w 0, r_of = t_id t, r_key = key, r_reason = reason,
             r_by = actor_id p, r_at = now w\<rparr> in
         bindE (insert_tranche_reversal r db) (\<lambda>db1.
         bindE (audit w ''bt.facility.tranche_reversed'' (r_id r) p db1) (\<lambda>db2.
         Inr (db2, r))))))))))"

section \<open>Movements\<close>

definition post_facility_movement ::
    "world \<Rightarrow> payload \<Rightarrow> principal \<Rightarrow> ledger \<Rightarrow> (ledger \<times> movement) result" where
  "post_facility_movement w data p db =
     bindE (require p FACILITY_TRANSFER
        ''Only the Accountant may post a facility deduction or capital return.'') (\<lambda>_.
     bindE (required_text data ''facilityId'' ''Funding facility'') (\<lambda>facility_id.
     bindE (of_option (NotFoundError ''Funding facility not found.'') (facility_by_id db facility_id)) (\<lambda>f.
     bindE (of_option (BadRequest ''Movement kind must be an authorized deduction or capital return.'')
        (movement_kind_of_text (text_or_empty data ''kind''))) (\<lambda>kind.
     bindE (of_option (BadRequest ''Capital source must be original or recovered.'')
        (source_of_text (text_or_empty data ''capitalSource''))) (\<lambda>source.
     bindE (ensure (source = RECOVERED \<longrightarrow> f_revolving f)
        (BadRequest ''A non-revolving facility has no recoverable relending pool.'')) (\<lambda>_.
     bindE (money (payload_get data ''amount'') ''Movement amount'' False) (\<lambda>amount.
     bindE (required_text data ''idempotencyKey'' ''Idempotency key'') (\<lambda>key.
     bindE (required_text data ''externalReference'' ''Movement reference'') (\<lambda>reference.
     case find (\<lambda>m. m_key m = key) (movements db) of
       Some m \<Rightarrow> bindE (ensure (m_facility m = f_id f \<and> m_kind m = kind \<and> m_source m = source \<and> m_amount m = amount)
           (ConflictError ''Idempotency key was already used for another movement.'')) (\<lambda>_. Inr (db, m))
     | None \<Rightarrow>
         bindE (ensure (amount \<le> source_available db f source)
            (ConflictError (''Movement exceeds available '' @ source_text source @ '' capital.''))) (\<lambda>_.
         bindE (date_value w (payload_get data ''valueDate'') ''Value date'') (\<lambda>value_date.
         bindE (required_text data ''evidenceReference'' ''Movement evidence'') (\<lambda>evidence.
         let m = \<lparr>m_id = new_id w 0, m_facility = f_id f, m_kind = kind, m_source = source,
             m_amount = amount, m_external_reference = reference, m_key = key,
             m_value_date = value_date, m_evidence_reference = evidence,
             m_posted_by = actor_id p, m_posted_at = now w\<rparr> in
         bindE (insert_movement m db) (\<lambda>db1.
         bindE (audit w ''bt.facility.movement_posted'' (m_id m) p db1) (\<lambda>db2.
         Inr (db2, m)))))))))))))))"

definition reverse_facility_movement ::
    "world \<Rightarrow> string \<Rightarrow> payload \<Rightarrow> principal \<Rightarrow> ledger \<Rightarrow> (ledger \<times> posting_reversal) result" where
  "reverse_facility_movement w movement_id data p db =
     bindE (require p FACILITY_TRANSFER ''Only the Accountant may reverse a facility movement.'') (\<lambda>_.
     bindE (of_option (NotFoundError ''Facility movement not found.'')
        (find (\<lambda>m. m_id m = movement_id) (movements db))) (\<lambda>m.
     bindE (required_text data ''idempotencyKey'' ''Idempotency key'') (\<lambda>key.
     case find (\<lambda>r. r_key r = key) (movement_reversals db) of
       Some r \<Rightarrow> bindE (ensure (r_of r = m_id m)
           (ConflictError ''Idempotency key was already used for another reversal.'')) (\<lambda>_. Inr (db, r))
     | None \<Rightarrow>
         bindE (ensure (\<not> reversed_in (m_id m) (movement_reversals db))
            (ConflictError ''This facility movement has already been reversed.'')) (\<lambda>_.
         bindE (required_text data ''reason'' ''Reversal reason'') (\<lambda>reason.
         let r = \<lparr>r_id = new_id w 0, r_of = m_id m, r_key = key, r_reason = reason,
             r_by = actor_id p, r_at = now w\<rparr> in
         bindE (insert_movement_reversal r db) (\<lambda>db1.
         bindE (audit w ''bt.facility.movement_reversed'' (r_id r) p db1) (\<lambda>db2.
         Inr (db2, r))))))))"

section \<open>Reserving capital for a loan\<close>

definition live_loan :: "ledger \<Rightarrow> string \<Rightarrow> loan option" where
  "live_loan db lid = find (\<lambda>l. l_id l = lid \<and> \<not> l_deleted l) (loans db)"

definition within_approved :: "loan \<Rightarrow> int \<Rightarrow> bool" where
  "within_approved l amount \<longleftrightarrow> (case l_approved_amount l of None \<Rightarrow> False | Some v \<Rightarrow> amount \<le> v)"

definition reserve_facility_for_loan ::
    "world \<Rightarrow> payload \<Rightarrow> principal \<Rightarrow> ledger \<Rightarrow> (ledger \<times> allocation) result" where
  "reserve_facility_for_loan w data p db =
     bindE (require p ALLOCATION_MANAGE
        ''Only Business Transformation or the Country Director may reserve facility funds.'') (\<lambda>_.
     bindE (required_text data ''facilityId'' ''Funding facility'') (\<lambda>facility_id.
     bindE (required_text data ''loanId'' ''School loan'') (\<lambda>loan_id.
     bindE (of_option (NotFoundError ''Funding facility or school loan not found.'')
        (facility_by_id db facility_id)) (\<lambda>f.
     bindE (of_option (NotFoundError ''Funding facility or school loan not found.'')
        (live_loan db loan_id)) (\<lambda>l.
     bindE (ensure (f_status f = ACTIVE_FACILITY)
        (ConflictError ''Funds can be reserved only from an active facility.'')) (\<lambda>_.
     bindE (ensure (f_mfi f = l_mfi l \<and> f_currency f = l_currency l)
        (BadRequest ''Facility, lending partner and loan currency must match.'')) (\<lambda>_.
     bindE (ensure (l_status l = PROCESSING)
        (ConflictError ''Funds can be reserved only for a processing loan.'')) (\<lambda>_.
     bindE (money (payload_get data ''amount'') ''Allocation amount'' False) (\<lambda>amount.
     bindE (of_option (BadRequest ''Capital source must be original or recovered.'')
        (source_of_text (strip (if truthy (payload_get data ''capitalSource'')
           then py_str (payload_get data ''capitalSource'') else ''original'')))) (\<lambda>source.
     bindE (ensure (source = RECOVERED \<longrightarrow> f_revolving f)
        (BadRequest ''Recovered principal can be re-lent only from a revolving facility.'')) (\<lambda>_.
     bindE (ensure (within_approved l amount)
        (BadRequest ''Allocation cannot exceed the approved loan amount.'')) (\<lambda>_.
     bindE (required_text data ''idempotencyKey'' ''Idempotency key'') (\<lambda>key.
     case find (\<lambda>a. a_key a = key) (allocations db) of
       Some a \<Rightarrow> bindE (ensure (a_facility a = f_id f \<and> a_loan a = l_id l \<and> a_amount a = amount \<and> a_source a = source)
           (ConflictError ''Idempotency key was already used for another allocation.'')) (\<lambda>_. Inr (db, a))
     | None \<Rightarrow>
         bindE (ensure (\<not> list_ex (\<lambda>a. a_loan a = l_id l) (allocations db))
            (ConflictError ''This loan already has a facility allocation.'')) (\<lambda>_.
         bindE (ensure (amount \<le> source_available db f source)
            (ConflictError (''The facility does not have enough '' @ source_text source @ '' capital available.'')))
          (\<lambda>_.
         let a = \<lparr>a_id = new_id w 0, a_facility = f_id f, a_loan = l_id l, a_amount = amount,
             a_source = source, a_status = RESERVED, a_key = key, a_reserved_by = actor_id p,
             a_reserved_at = now w, a_released_by = None, a_released_at = None,
             a_release_reason = []\<rparr> in
         bindE (insert_allocation a db) (\<lambda>db1.
         bindE (save_loan (l\<lparr>l_facility := Some (f_id f)\<rparr>) db1) (\<lambda>db2.
         bindE (audit w ''bt.facility.allocated'' (a_id a) p db2) (\<lambda>db3.
         Inr (db3, a)))))))))))))))))))"

definition release_facility_allocation ::
    "world \<Rightarrow> string \<Rightarrow> payload \<Rightarrow> principal \<Rightarrow> ledger \<Rightarrow> (ledger \<times> allocation) result" where
  "release_facility_allocation w allocation_id data p db =
     bindE (require p ALLOCATION_MANAGE
        ''Only Business Transformation or the Country Director may release funds.'') (\<lambda>_.
     bindE (of_option (NotFoundError ''Facility allocation not found.'')
        (find (\<lambda>a. a_id a = allocation_id) (allocations db))) (\<lambda>a.
     if a_status a = RELEASED then Inr (db, a)
     else
       bindE (required_text data ''reason'' ''Release reason'') (\<lambda>reason.
       bindE (ensure (fits [(30, actor_id p)]) DataError) (\<lambda>_.
       let b = a\<lparr>a_status := RELEASED, a_released_by := Some (actor_id p),
             a_released_at := Some (now w), a_release_reason := reason\<rparr> in
       bindE (audit w ''bt.facility.allocation_released'' (a_id a) p (save_allocation b db)) (\<lambda>db1.
       Inr (db1, b))))))"

end
