(* ===== verification/LoanOps.thy ===== *)
theory LoanOps
  imports FacilityOps FiscalYear
begin

text \<open>
  The loan side of lending_ledger.py: posting and reversing a disbursement, the
  repayment schedule, posting and reversing a repayment; with what a first
  disbursement sets going in services.py.
\<close>

section \<open>What a disbursement sets going\<close>

definition record_status_change ::
    "world \<Rightarrow> loan \<Rightarrow> loan_status \<Rightarrow> loan_status \<Rightarrow> principal \<Rightarrow> ledger \<Rightarrow> ledger" where
  "record_status_change w l previous new p db =
     (if previous = new then db
      else db\<lparr>status_history := status_history db
             @ [\<lparr>h_loan = l_id l, h_previous = previous, h_new = new,
                 h_changed_by = actor_id p, h_at = now w\<rparr>]\<rparr>)"

text \<open>The default of \<open>loan_use_verification_days\<close> is 60.\<close>

definition policy_for_fy :: "int \<Rightarrow> ledger \<Rightarrow> ledger \<times> int" where
  "policy_for_fy fy db =
     (case map_of (verification_policies db) (fy, True) of
        Some days \<Rightarrow> (db, days)
      | None \<Rightarrow> (case find (\<lambda>x. fst (fst x) = fy) (verification_policies db) of
            Some x \<Rightarrow> (db, snd x)
          | None \<Rightarrow> (db\<lparr>verification_policies := verification_policies db @ [((fy, True), 60)]\<rparr>, 60)))"

definition ensure_verification_requirement :: "string \<Rightarrow> date \<Rightarrow> ledger \<Rightarrow> ledger result" where
  "ensure_verification_requirement lid disbursed_on db =
     (let (db1, days) = policy_for_fy (get_operational_fy disbursed_on) db in
      bindE (py_add_days disbursed_on days) (\<lambda>due.
        Inr (if list_ex (\<lambda>x. fst x = lid) (verification_requirements db1) then db1
             else db1\<lparr>verification_requirements := verification_requirements db1 @ [(lid, due)]\<rparr>)))"

definition advance_case :: "string \<Rightarrow> ledger \<Rightarrow> ledger result" where
  "advance_case cid db =
     bindE (of_option (DoesNotExist ''TransformationCase'') (map_of (case_statuses db) cid)) (\<lambda>s.
       Inr (if s \<in> {''recommended'', ''triage'', ''active''}
            then db\<lparr>case_statuses := update_where (\<lambda>x. fst x = cid) (\<lambda>x. (fst x, ''monitoring''))
                   (case_statuses db)\<rparr>
            else db))"

definition schedule_impact :: "world \<Rightarrow> loan \<Rightarrow> date \<Rightarrow> ledger \<Rightarrow> ledger result" where
  "schedule_impact w l disbursed_on db =
     (let db1 = db\<lparr>disbursement_notices := disbursement_notices db @ [l_id l]\<rparr> in
      bindE (of_option (DoesNotExist ''LoanPurpose'') (map_of (purpose_follow_up db) (l_purpose l))) (\<lambda>days.
      bindE (py_add_days disbursed_on days) (\<lambda>due.
      let status = (if due \<le> today w then IMPACT_DUE else IMPACT_NOT_DUE);
          db2 = (if list_ex (\<lambda>x. fst x = (l_id l, due)) (impact_assessments db1) then db1
                 else db1\<lparr>impact_assessments := impact_assessments db1 @ [((l_id l, due), status)]\<rparr>) in
      save_loan (l\<lparr>l_impact_status := status\<rparr>) db2)))"

section \<open>Posting a disbursement\<close>

definition allocation_of_loan :: "ledger \<Rightarrow> string \<Rightarrow> allocation option" where
  "allocation_of_loan db lid = find (\<lambda>a. a_loan a = lid) (allocations db)"

definition ready_for_first_disbursement :: "world \<Rightarrow> payload \<Rightarrow> loan \<Rightarrow> ledger \<Rightarrow> unit result" where
  "ready_for_first_disbursement w data l db =
     bindE (ensure (l_approved_amount l
          = Some (sum_where (\<lambda>pa. pa_loan pa = l_id l) pa_planned (purpose_allocations db)))
        (ConflictError ''A reconciled purpose allocation plan is required before disbursement.'')) (\<lambda>_.
     bindE (date_value w (payload_get data ''valueDate'') ''Value date'') (\<lambda>value_date.
       ensure (list_ex (\<lambda>s. s_loan s = l_id l \<and> s_kind s = BASELINE \<and> s_as_of s \<le> value_date)
            (enrolment_snapshots db))
          (ConflictError ''An enrolment baseline dated on or before disbursement is required.'')))"

definition or_else :: "'a option \<Rightarrow> 'a \<Rightarrow> 'a option" where
  "or_else v d = (case v of None \<Rightarrow> Some d | Some x \<Rightarrow> Some x)"

text \<open>The writes that follow the insertion of the posting \<open>d\<close>.\<close>

definition settle_disbursement ::
    "world \<Rightarrow> loan \<Rightarrow> allocation \<Rightarrow> disbursement \<Rightarrow> int \<Rightarrow> principal \<Rightarrow> ledger \<Rightarrow> ledger result" where
  "settle_disbursement w l a d net_before p db =
     (let net_after = net_before + d_amount d;
          k = l\<lparr>l_disbursed_amount := Some net_after,
                l_disbursement_date := or_else (l_disbursement_date l) (d_disbursed_on d),
                l_disbursement_confirmed_at := or_else (l_disbursement_confirmed_at l) (now w),
                l_status := (if l_status l = PROCESSING then DISBURSED else l_status l)\<rparr> in
      bindE (save_loan k db) (\<lambda>db1.
      let db2 = record_status_change w k (if net_before = 0 then PROCESSING else l_status k) (l_status k) p db1 in
      bindE (ensure_verification_requirement (l_id k)
         (case l_disbursement_date k of None \<Rightarrow> d_disbursed_on d | Some x \<Rightarrow> x) db2) (\<lambda>db3.
      bindE (advance_case (l_case k) db3) (\<lambda>db4.
      bindE (if net_before = 0 then schedule_impact w k (d_disbursed_on d) db4 else Inr db4) (\<lambda>db5.
      Inr (if net_after = a_amount a then save_allocation (a\<lparr>a_status := CONSUMED\<rparr>) db5 else db5))))))"

definition post_loan_disbursement ::
    "world \<Rightarrow> payload \<Rightarrow> principal \<Rightarrow> ledger \<Rightarrow> (ledger \<times> disbursement) result" where
  "post_loan_disbursement w data p db =
     bindE (require p DISBURSEMENT_WRITE
        ''Only an authorized lending-partner operator may post a disbursement.'') (\<lambda>_.
     bindE (required_text data ''loanId'' ''School loan'') (\<lambda>loan_id.
     bindE (of_option (NotFoundError ''School loan not found.'') (live_loan db loan_id)) (\<lambda>l.
     bindE (assert_loan_scope p l db) (\<lambda>_.
     bindE (of_option (ConflictError ''The loan has no active facility allocation.'')
        (allocation_of_loan db (l_id l))) (\<lambda>a.
     bindE (ensure (a_status a \<noteq> RELEASED)
        (ConflictError ''The loan has no active facility allocation.'')) (\<lambda>_.
     bindE (money (payload_get data ''amount'') ''Disbursement amount'' False) (\<lambda>amount.
     bindE (required_text data ''idempotencyKey'' ''Idempotency key'') (\<lambda>key.
     case find (\<lambda>d. d_key d = key) (disbursements db) of
       Some d \<Rightarrow> bindE (ensure (d_loan d = l_id l \<and> d_amount d = amount \<and> d_source d = a_source a)
           (ConflictError ''Idempotency key was already used for another disbursement.'')) (\<lambda>_. Inr (db, d))
     | None \<Rightarrow>
         let net_before = net_disbursed db (l_id l) None in
         bindE (if net_before = 0 then ready_for_first_disbursement w data l db else Inr ()) (\<lambda>_.
         bindE (ensure (net_before + amount \<le> a_amount a)
            (ConflictError ''Disbursement would exceed the reserved facility amount.'')) (\<lambda>_.
         bindE (py_int (py_or (payload_get data ''sequence'') (JInt 0))) (\<lambda>sequence.
         bindE (ensure (0 < sequence) (BadRequest ''Disbursement sequence must be greater than zero.'')) (\<lambda>_.
         bindE (required_text data ''externalReference'' ''Disbursement reference'') (\<lambda>reference.
         bindE (date_value w (payload_get data ''disbursedOn'') ''Disbursement date'') (\<lambda>disbursed_on.
         bindE (date_value w (payload_get data ''valueDate'') ''Value date'') (\<lambda>value_date.
         bindE (required_text data ''bankReference'' ''Bank reference'') (\<lambda>bank.
         let d = \<lparr>d_id = new_id w 0, d_loan = l_id l, d_allocation = a_id a, d_sequence = sequence,
             d_external_reference = reference, d_key = key, d_amount = amount, d_source = a_source a,
             d_disbursed_on = disbursed_on, d_value_date = value_date, d_bank_reference = bank,
             d_confirmed_by = actor_id p, d_confirmed_at = now w\<rparr> in
         bindE (insert_disbursement d db) (\<lambda>db1.
         bindE (settle_disbursement w l a d net_before p db1) (\<lambda>db2.
         bindE (audit w ''bt.loan.disbursement_posted'' (d_id d) p db2) (\<lambda>db3.
         Inr (db3, d))))))))))))))))))))"

section \<open>Reversing a disbursement\<close>

definition remaining_postings :: "ledger \<Rightarrow> string \<Rightarrow> disbursement list" where
  "remaining_postings db lid =
     sort_key d_disbursed_on (sort_key d_confirmed_at
       (filter (\<lambda>d. d_loan d = lid \<and> \<not> reversed_in (d_id d) (disbursement_reversals db)) (disbursements db)))"

definition loan_after_reversal :: "loan \<Rightarrow> ledger \<Rightarrow> loan" where
  "loan_after_reversal l db =
     (let net_after = net_disbursed db (l_id l) None;
          k = l\<lparr>l_disbursed_amount := (if net_after = 0 then None else Some net_after)\<rparr>
      in if net_after = 0
         then k\<lparr>l_disbursement_date := None, l_disbursement_confirmed_at := None, l_status := PROCESSING\<rparr>
         else (case remaining_postings db (l_id l) of
                 [] \<Rightarrow> k
               | d # _ \<Rightarrow> k\<lparr>l_disbursement_date := Some (d_disbursed_on d),
                             l_disbursement_confirmed_at := Some (d_confirmed_at d)\<rparr>))"

definition loan_by_id :: "ledger \<Rightarrow> string \<Rightarrow> loan option" where
  "loan_by_id db lid = find (\<lambda>l. l_id l = lid) (loans db)"

definition reverse_loan_disbursement ::
    "world \<Rightarrow> string \<Rightarrow> payload \<Rightarrow> principal \<Rightarrow> ledger \<Rightarrow> (ledger \<times> posting_reversal) result" where
  "reverse_loan_disbursement w disbursement_id data p db =
     bindE (require p DISBURSEMENT_WRITE
        ''Only an authorized lending-partner operator may reverse a disbursement.'') (\<lambda>_.
     bindE (of_option (NotFoundError ''Disbursement not found.'')
        (find (\<lambda>d. d_id d = disbursement_id) (disbursements db))) (\<lambda>d.
     bindE (of_option (DoesNotExist ''MfiLoan'') (loan_by_id db (d_loan d))) (\<lambda>owner.
     bindE (assert_loan_scope p owner db) (\<lambda>_.
     bindE (ensure (\<not> list_ex (\<lambda>x. x_loan x = d_loan d \<and> x_kind x = PAYMENT) (repayments db))
        (ConflictError ''A disbursement cannot be reversed after repayments exist.'')) (\<lambda>_.
     bindE (required_text data ''idempotencyKey'' ''Idempotency key'') (\<lambda>key.
     case find (\<lambda>r. r_key r = key) (disbursement_reversals db) of
       Some r \<Rightarrow> bindE (ensure (r_of r = d_id d)
           (ConflictError ''Idempotency key was already used for another reversal.'')) (\<lambda>_. Inr (db, r))
     | None \<Rightarrow>
         bindE (ensure (\<not> reversed_in (d_id d) (disbursement_reversals db))
            (ConflictError ''This disbursement has already been reversed.'')) (\<lambda>_.
         bindE (required_text data ''reason'' ''Reversal reason'') (\<lambda>reason.
         let r = \<lparr>r_id = new_id w 0, r_of = d_id d, r_key = key, r_reason = reason,
             r_by = actor_id p, r_at = now w\<rparr> in
         bindE (insert_disbursement_reversal r db) (\<lambda>db1.
         bindE (of_option (DoesNotExist ''MfiLoan'') (live_loan db1 (d_loan d))) (\<lambda>l.
         bindE (save_loan (loan_after_reversal l db1) db1) (\<lambda>db2.
         bindE (of_option (DoesNotExist ''FundingFacilityAllocation'')
            (find (\<lambda>a. a_id a = d_allocation d) (allocations db2))) (\<lambda>a.
         bindE (audit w ''bt.loan.disbursement_reversed'' (r_id r) p
            (save_allocation (a\<lparr>a_status := RESERVED\<rparr>) db2)) (\<lambda>db3.
         Inr (db3, r))))))))))))))"

section \<open>The repayment schedule\<close>

text \<open>\<open>raw.get(k, 0)\<close>: the default stands for an absent key only.\<close>

definition get_or_zero :: "payload \<Rightarrow> string \<Rightarrow> jval" where
  "get_or_zero raw key = (case raw key of None \<Rightarrow> JInt 0 | Some v \<Rightarrow> v)"

text \<open>The rows of a schedule; \<open>k\<close> counts the keys drawn, \<open>seen\<close> holds the numbers met.\<close>

fun schedule_rows ::
    "world \<Rightarrow> string \<Rightarrow> int \<Rightarrow> principal \<Rightarrow> nat \<Rightarrow> int list \<Rightarrow> payload list \<Rightarrow> installment list result" where
  "schedule_rows w lid version p k seen [] = Inr []"
| "schedule_rows w lid version p k seen (raw # raws) =
     bindE (py_int (py_or (payload_get raw ''installmentNumber'') (JInt 0))) (\<lambda>number.
     bindE (ensure (0 < number \<and> number \<notin> set seen)
        (BadRequest ''Installment numbers must be unique positive integers.'')) (\<lambda>_.
     bindE (money (get_or_zero raw ''principalDue'') ''Principal due'' True) (\<lambda>principal_due.
     bindE (money (get_or_zero raw ''interestDue'') ''Interest due'' True) (\<lambda>interest_due.
     bindE (money (get_or_zero raw ''feeDue'') ''Fee due'' True) (\<lambda>fee_due.
     bindE (ensure (0 < principal_due + interest_due + fee_due)
        (BadRequest ''Each installment must contain an amount due.'')) (\<lambda>_.
     bindE (date_value w (payload_get raw ''dueDate'') ''Installment due date'') (\<lambda>due_date.
     bindE (schedule_rows w lid version p (Suc k) (number # seen) raws) (\<lambda>rows.
     Inr (\<lparr>i_id = new_id w k, i_loan = lid, i_version = version, i_number = number,
          i_due_date = due_date, i_principal_due = principal_due, i_interest_due = interest_due,
          i_fee_due = fee_due, i_created_by = actor_id p\<rparr> # rows)))))))))"

fun insert_all :: "('r \<Rightarrow> ledger \<Rightarrow> ledger result) \<Rightarrow> 'r list \<Rightarrow> ledger \<Rightarrow> ledger result" where
  "insert_all ins [] db = Inr db"
| "insert_all ins (r # rs) db = bindE (ins r db) (insert_all ins rs)"

definition create_repayment_schedule ::
    "world \<Rightarrow> string \<Rightarrow> payload list \<Rightarrow> int \<Rightarrow> principal \<Rightarrow> ledger \<Rightarrow> (ledger \<times> installment list) result" where
  "create_repayment_schedule w loan_id raws version p db =
     bindE (require p LOAN_WRITE
        ''Only an authorized lending-partner operator may create a repayment schedule.'') (\<lambda>_.
     bindE (of_option (NotFoundError ''School loan not found.'') (live_loan db loan_id)) (\<lambda>l.
     bindE (assert_loan_scope p l db) (\<lambda>_.
     bindE (ensure (0 < version \<and> raws \<noteq> [])
        (BadRequest ''A positive schedule version and installments are required.'')) (\<lambda>_.
     case sort_key i_number (filter (\<lambda>i. i_loan i = l_id l \<and> i_version i = version) (installments db)) of
       i # is \<Rightarrow> Inr (db, i # is)
     | [] \<Rightarrow>
         bindE (ensure (0 < net_disbursed db (l_id l) None)
            (ConflictError ''A repayment schedule requires a confirmed disbursement.'')) (\<lambda>_.
         bindE (schedule_rows w (l_id l) version p 0 [] raws) (\<lambda>rows.
         bindE (ensure (sum_list (map i_principal_due rows) = net_disbursed db (l_id l) None)
            (BadRequest ''Scheduled principal must equal confirmed net disbursed principal.'')) (\<lambda>_.
         bindE (insert_all insert_installment rows db) (\<lambda>db1.
         bindE (audit w ''bt.loan.repayment_schedule_created'' (l_id l) p db1) (\<lambda>db2.
         Inr (db2, rows))))))))))"

section \<open>Repayments\<close>

type_synonym payment_line = "installment \<times> component \<times> int"

definition line_amount :: "payment_line \<Rightarrow> int" where
  "line_amount x = snd (snd x)"

text \<open>\<open>filter(id=v, loan=loan).first()\<close>: no row has a null key.\<close>

definition installment_of_loan :: "ledger \<Rightarrow> string \<Rightarrow> jval \<Rightarrow> installment option" where
  "installment_of_loan db lid v =
     (if v = JNone then None else find (\<lambda>i. i_id i = py_str v \<and> i_loan i = lid) (installments db))"

fun parse_allocations ::
    "ledger \<Rightarrow> string \<Rightarrow> (string \<times> component) list \<Rightarrow> payload list \<Rightarrow> payment_line list result" where
  "parse_allocations db lid seen [] = Inr []"
| "parse_allocations db lid seen (raw # raws) =
     bindE (of_option (BadRequest ''Every allocation must reference this loan's schedule.'')
        (installment_of_loan db lid (payload_get raw ''installmentId''))) (\<lambda>i.
     bindE (of_option (BadRequest ''Unknown repayment component.'')
        (component_of_text (strip (text_of (payload_get raw ''component''))))) (\<lambda>c.
     bindE (ensure ((i_id i, c) \<notin> set seen)
        (BadRequest ''A component may appear only once per transaction.'')) (\<lambda>_.
     bindE (money (payload_get raw ''amount'') ''Allocation amount'' False) (\<lambda>amount.
     bindE (ensure (case component_due i c of None \<Rightarrow> True
               | Some due \<Rightarrow> net_allocated db (i_id i) c None + amount \<le> due)
        (BadRequest ''Allocation would exceed the scheduled component due.'')) (\<lambda>_.
     bindE (parse_allocations db lid ((i_id i, c) # seen) raws) (\<lambda>lines.
     Inr ((i, c, amount) # lines)))))))"

definition principal_in :: "payment_line list \<Rightarrow> int" where
  "principal_in lines = sum_where (\<lambda>x. fst (snd x) = PRINCIPAL) line_amount lines"

text \<open>The rows of \<open>lines\<close> under one transaction, with keys \<open>new_id w 1\<close>, \<open>new_id w 2\<close>, \<open>\<dots>\<close>.\<close>

fun allocation_rows :: "world \<Rightarrow> string \<Rightarrow> nat \<Rightarrow> (string option \<times> component \<times> int) list \<Rightarrow> repayment_allocation list" where
  "allocation_rows w xid k [] = []"
| "allocation_rows w xid k ((i, c, amount) # lines) =
     \<lparr>ra_id = new_id w k, ra_transaction = xid, ra_installment = i, ra_component = c, ra_amount = amount\<rparr>
     # allocation_rows w xid (Suc k) lines"

definition first_value_date :: "ledger \<Rightarrow> string \<Rightarrow> date option" where
  "first_value_date db lid =
     (case sort_key d_value_date (filter (\<lambda>d. d_loan d = lid
            \<and> \<not> reversed_in (d_id d) (disbursement_reversals db)) (disbursements db)) of
        [] \<Rightarrow> None | d # _ \<Rightarrow> Some (d_value_date d))"

definition not_before_disbursement :: "ledger \<Rightarrow> string \<Rightarrow> date \<Rightarrow> bool" where
  "not_before_disbursement db lid value_date \<longleftrightarrow>
     (case first_value_date db lid of None \<Rightarrow> True | Some d \<Rightarrow> d \<le> value_date)"

definition loan_after_repayment :: "loan \<Rightarrow> date \<Rightarrow> ledger \<Rightarrow> loan" where
  "loan_after_repayment l value_date db =
     l\<lparr>l_last_repayment_data_date := Some (case l_last_repayment_data_date l of
            None \<Rightarrow> value_date | Some d \<Rightarrow> if value_date < d then d else value_date),
       l_status := (if net_principal_repaid db (l_id l) None = net_disbursed db (l_id l) None then REPAID
         else if l_status l = DISBURSED then ACTIVE else l_status l)\<rparr>"

definition the_list :: "'a list option \<Rightarrow> 'a list" where
  "the_list v = (case v of None \<Rightarrow> [] | Some xs \<Rightarrow> xs)"

text \<open>\<open>raws\<close> is \<open>data["allocations"]\<close>: \<open>None\<close> when it is absent or not a list.\<close>

definition post_repayment_transaction ::
    "world \<Rightarrow> payload \<Rightarrow> payload list option \<Rightarrow> principal \<Rightarrow> ledger \<Rightarrow> (ledger \<times> repayment) result" where
  "post_repayment_transaction w data raws p db =
     bindE (require p REPAYMENT_WRITE
        ''Only an authorized lending-partner operator may post a repayment.'') (\<lambda>_.
     bindE (required_text data ''loanId'' ''School loan'') (\<lambda>loan_id.
     bindE (of_option (NotFoundError ''School loan not found.'') (live_loan db loan_id)) (\<lambda>l.
     bindE (assert_loan_scope p l db) (\<lambda>_.
     bindE (ensure (0 < net_disbursed db (l_id l) None)
        (ConflictError ''Repayment can be posted only after disbursement.'')) (\<lambda>_.
     bindE (required_text data ''idempotencyKey'' ''Idempotency key'') (\<lambda>key.
     bindE (money (payload_get data ''amount'') ''Repayment amount'' False) (\<lambda>amount.
     case find (\<lambda>x. x_key x = key) (repayments db) of
       Some x \<Rightarrow> bindE (ensure (x_loan x = l_id l \<and> x_amount x = amount)
           (ConflictError ''Idempotency key was already used for another repayment.'')) (\<lambda>_. Inr (db, x))
     | None \<Rightarrow>
         bindE (required_text data ''externalReference'' ''Repayment reference'') (\<lambda>reference.
         bindE (ensure (\<not> list_ex (\<lambda>x. x_loan x = l_id l \<and> x_external_reference x = reference) (repayments db))
            (ConflictError ''That repayment reference already exists for this loan.'')) (\<lambda>_.
         bindE (ensure (the_list raws \<noteq> [])
            (BadRequest ''At least one repayment allocation is required.'')) (\<lambda>_.
         bindE (parse_allocations db (l_id l) [] (the_list raws)) (\<lambda>lines.
         bindE (ensure (sum_list (map line_amount lines) = amount)
            (BadRequest ''Repayment allocations must exactly equal the transaction amount.'')) (\<lambda>_.
         bindE (ensure (net_principal_repaid db (l_id l) None + principal_in lines
                 \<le> net_disbursed db (l_id l) None)
            (BadRequest ''Principal repayment cannot exceed net disbursed principal.'')) (\<lambda>_.
         bindE (date_value w (payload_get data ''receivedOn'') ''Receipt date'') (\<lambda>received_on.
         bindE (date_value w (payload_get data ''valueDate'') ''Value date'') (\<lambda>value_date.
         bindE (ensure (received_on \<le> today w \<and> value_date \<le> today w)
            (BadRequest ''Repayment dates cannot be in the future.'')) (\<lambda>_.
         bindE (ensure (not_before_disbursement db (l_id l) value_date)
            (BadRequest ''Repayment value date cannot precede loan disbursement.'')) (\<lambda>_.
         bindE (required_text data ''evidenceReference'' ''Repayment evidence'') (\<lambda>evidence.
         let x = \<lparr>x_id = new_id w 0, x_loan = l_id l, x_kind = PAYMENT, x_reversal_of = None,
             x_external_reference = reference, x_key = key, x_amount = amount,
             x_received_on = received_on, x_value_date = value_date, x_evidence_reference = evidence,
             x_posted_by = actor_id p, x_posted_at = now w, x_reason = []\<rparr> in
         bindE (insert_repayment x db) (\<lambda>db1.
         bindE (insert_all insert_repayment_allocation (allocation_rows w (x_id x) 1
            (map (\<lambda>(i, c, v). (Some (i_id i), c, v)) lines)) db1) (\<lambda>db2.
         bindE (save_loan (loan_after_repayment l value_date db2) db2) (\<lambda>db3.
         bindE (audit w ''bt.loan.repayment_posted'' (x_id x) p db3) (\<lambda>db4.
         Inr (db4, x)))))))))))))))))))))))"

definition reverse_repayment_transaction ::
    "world \<Rightarrow> string \<Rightarrow> payload \<Rightarrow> principal \<Rightarrow> ledger \<Rightarrow> (ledger \<times> repayment) result" where
  "reverse_repayment_transaction w transaction_id data p db =
     bindE (require p REPAYMENT_REVERSE
        ''Only a Lending Partner Admin may reverse a repayment.'') (\<lambda>_.
     bindE (of_option (NotFoundError ''Repayment transaction not found.'')
        (find (\<lambda>x. x_id x = transaction_id \<and> x_kind x = PAYMENT) (repayments db))) (\<lambda>x.
     bindE (of_option (DoesNotExist ''MfiLoan'') (loan_by_id db (x_loan x))) (\<lambda>owner.
     bindE (assert_loan_scope p owner db) (\<lambda>_.
     bindE (required_text data ''idempotencyKey'' ''Idempotency key'') (\<lambda>key.
     case find (\<lambda>y. x_key y = key) (repayments db) of
       Some y \<Rightarrow> bindE (ensure (x_reversal_of y = Some (x_id x))
           (ConflictError ''Idempotency key was already used for another reversal.'')) (\<lambda>_. Inr (db, y))
     | None \<Rightarrow>
         bindE (ensure (\<not> list_ex (\<lambda>y. x_reversal_of y = Some (x_id x)) (repayments db))
            (ConflictError ''This repayment has already been reversed.'')) (\<lambda>_.
         bindE (required_text data ''reason'' ''Reversal reason'') (\<lambda>reason.
         bindE (required_text data ''externalReference'' ''Reversal reference'') (\<lambda>reference.
         bindE (required_text data ''evidenceReference'' ''Reversal evidence'') (\<lambda>evidence.
         let y = \<lparr>x_id = new_id w 0, x_loan = x_loan x, x_kind = REVERSAL, x_reversal_of = Some (x_id x),
             x_external_reference = reference, x_key = key, x_amount = x_amount x,
             x_received_on = today w, x_value_date = today w, x_evidence_reference = evidence,
             x_posted_by = actor_id p, x_posted_at = now w, x_reason = reason\<rparr> in
         bindE (insert_repayment y db) (\<lambda>db1.
         bindE (insert_all insert_repayment_allocation (allocation_rows w (x_id y) 1
            (map (\<lambda>ra. (ra_installment ra, ra_component ra, ra_amount ra))
               (filter (\<lambda>ra. ra_transaction ra = x_id x) (repayment_allocations db)))) db1) (\<lambda>db2.
         bindE (of_option (DoesNotExist ''MfiLoan'') (live_loan db2 (x_loan x))) (\<lambda>l.
         bindE (if l_status l = REPAID then save_loan (l\<lparr>l_status := ACTIVE\<rparr>) db2 else Inr db2) (\<lambda>db3.
         bindE (audit w ''bt.loan.repayment_reversed'' (x_id y) p db3) (\<lambda>db4.
         Inr (db4, y)))))))))))))))"

end
