(* ===== verification/LedgerEvents.thy ===== *)
theory LedgerEvents
  imports LoanOps
begin

text \<open>
  The abstract specification of the lending ledger: its books are the tables that
  carry money, an event writes one of them, and the invariant that events keep. Every
  operation of FacilityOps and LoanOps is a run of events (LedgerRefinement).
\<close>

section \<open>Books\<close>

definition same_books :: "ledger \<Rightarrow> ledger \<Rightarrow> bool" where
  "same_books db db' \<longleftrightarrow> facilities db' = facilities db \<and> tranches db' = tranches db
     \<and> tranche_reversals db' = tranche_reversals db \<and> movements db' = movements db
     \<and> movement_reversals db' = movement_reversals db \<and> allocations db' = allocations db
     \<and> disbursements db' = disbursements db \<and> disbursement_reversals db' = disbursement_reversals db
     \<and> repayments db' = repayments db \<and> repayment_allocations db' = repayment_allocations db"

definition original_pool :: "ledger \<Rightarrow> string \<Rightarrow> int" where
  "original_pool db fid = receipts db fid - disbursed_from db fid ORIGINAL
     - reserved_by_source db fid ORIGINAL - movement_total db fid AUTHORIZED_DEDUCTION ORIGINAL
     - movement_total db fid CAPITAL_RETURN ORIGINAL"

lemma source_available_original: "source_available db f ORIGINAL = original_pool db (f_id f)"
  by (simp add: source_available_def facility_position_def original_pool_def Let_def)

definition principal_of :: "ledger \<Rightarrow> string \<Rightarrow> int" where
  "principal_of db xid = sum_where (\<lambda>ra. ra_transaction ra = xid \<and> ra_component ra = PRINCIPAL) ra_amount
     (repayment_allocations db)"

definition repayment_reversed :: "ledger \<Rightarrow> string \<Rightarrow> bool" where
  "repayment_reversed db xid \<longleftrightarrow> (\<exists>y \<in> set (repayments db). x_reversal_of y = Some xid)"

definition standing_principal :: "ledger \<Rightarrow> string \<Rightarrow> int" where
  "standing_principal db lid =
     sum_where (\<lambda>x. x_loan x = lid \<and> x_kind x = PAYMENT \<and> \<not> repayment_reversed db (x_id x))
       (\<lambda>x. principal_of db (x_id x)) (repayments db)"

lemmas balance_defs = receipts_def disbursed_from_def reserved_by_source_def allocation_disbursed_def
  movement_total_def net_disbursed_def net_principal_repaid_def principal_by_kind_def paid_in_def
  principal_of_def repayment_reversed_def standing_principal_def original_pool_def

section \<open>Events\<close>

text \<open>
  \<open>lax\<close> marks the runs in which a released allocation may be reserved again without a
  look at the pool.
\<close>

inductive ledger_event :: "bool \<Rightarrow> ledger \<Rightarrow> ledger \<Rightarrow> bool" for lax where
  quiet: "same_books db db' \<Longrightarrow> ledger_event lax db db'"
| facility_added: "f_id f \<notin> f_id ` set (facilities db) \<Longrightarrow> 0 < f_commitment_amount f \<Longrightarrow>
    f_approved_by f = None \<Longrightarrow>
    ledger_event lax db (db\<lparr>facilities := facilities db @ [f]\<rparr>)"
| facility_saved: "f \<in> set (facilities db) \<Longrightarrow> f_id g = f_id f \<Longrightarrow>
    f_commitment_amount g = f_commitment_amount f \<Longrightarrow> f_created_by g = f_created_by f \<Longrightarrow>
    f_approved_by g = f_approved_by f \<or> f_approved_by g \<noteq> Some (f_created_by g) \<Longrightarrow>
    ledger_event lax db (save_facility g db)"
| received: "f \<in> set (facilities db) \<Longrightarrow> t_facility t = f_id f \<Longrightarrow> 0 < t_amount t \<Longrightarrow>
    receipts db (f_id f) + t_amount t \<le> f_commitment_amount f \<Longrightarrow>
    t_id t \<notin> t_id ` set (tranches db) \<Longrightarrow> t_key t \<notin> t_key ` set (tranches db) \<Longrightarrow>
    ledger_event lax db (db\<lparr>tranches := tranches db @ [t]\<rparr>)"
| receipt_reversed: "t \<in> set (tranches db) \<Longrightarrow> r_of r = t_id t \<Longrightarrow>
    \<not> reversed_in (t_id t) (tranche_reversals db) \<Longrightarrow> t_amount t \<le> original_pool db (t_facility t) \<Longrightarrow>
    ledger_event lax db (db\<lparr>tranche_reversals := tranche_reversals db @ [r]\<rparr>)"
| moved: "0 < m_amount m \<Longrightarrow> (m_source m = ORIGINAL \<Longrightarrow> m_amount m \<le> original_pool db (m_facility m)) \<Longrightarrow>
    m_id m \<notin> m_id ` set (movements db) \<Longrightarrow> m_key m \<notin> m_key ` set (movements db) \<Longrightarrow>
    ledger_event lax db (db\<lparr>movements := movements db @ [m]\<rparr>)"
| movement_reversed: "m \<in> set (movements db) \<Longrightarrow> r_of r = m_id m \<Longrightarrow>
    \<not> reversed_in (m_id m) (movement_reversals db) \<Longrightarrow>
    ledger_event lax db (db\<lparr>movement_reversals := movement_reversals db @ [r]\<rparr>)"
| reserved: "0 < a_amount a \<Longrightarrow> a_status a = RESERVED \<Longrightarrow>
    (a_source a = ORIGINAL \<Longrightarrow> a_amount a \<le> original_pool db (a_facility a)) \<Longrightarrow>
    a_id a \<notin> a_id ` set (allocations db) \<Longrightarrow> a_loan a \<notin> a_loan ` set (allocations db) \<Longrightarrow>
    ledger_event lax db (db\<lparr>allocations := allocations db @ [a]\<rparr>)"
| allocation_saved: "a \<in> set (allocations db) \<Longrightarrow> a_id b = a_id a \<Longrightarrow> a_loan b = a_loan a \<Longrightarrow>
    a_facility b = a_facility a \<Longrightarrow> a_amount b = a_amount a \<Longrightarrow> a_source b = a_source a \<Longrightarrow>
    (a_status a = RELEASED \<Longrightarrow> a_status b \<noteq> RELEASED \<Longrightarrow> lax) \<Longrightarrow>
    ledger_event lax db (save_allocation b db)"
| disbursed: "a \<in> set (allocations db) \<Longrightarrow> d_allocation d = a_id a \<Longrightarrow> d_loan d = a_loan a \<Longrightarrow>
    d_source d = a_source a \<Longrightarrow> a_status a \<noteq> RELEASED \<Longrightarrow> 0 < d_amount d \<Longrightarrow>
    allocation_disbursed db (a_id a) + d_amount d \<le> a_amount a \<Longrightarrow>
    d_id d \<notin> d_id ` set (disbursements db) \<Longrightarrow> d_key d \<notin> d_key ` set (disbursements db) \<Longrightarrow>
    ledger_event lax db (db\<lparr>disbursements := disbursements db @ [d]\<rparr>)"
| disbursement_reversed: "d \<in> set (disbursements db) \<Longrightarrow> r_of r = d_id d \<Longrightarrow>
    \<not> reversed_in (d_id d) (disbursement_reversals db) \<Longrightarrow>
    (\<And>x. x \<in> set (repayments db) \<Longrightarrow> x_loan x = d_loan d \<Longrightarrow> x_kind x \<noteq> PAYMENT) \<Longrightarrow>
    ledger_event lax db (db\<lparr>disbursement_reversals := disbursement_reversals db @ [r]\<rparr>)"
| repaid: "x_kind x = PAYMENT \<Longrightarrow> x_reversal_of x = None \<Longrightarrow>
    x_id x \<notin> x_id ` set (repayments db) \<Longrightarrow> x_key x \<notin> x_key ` set (repayments db) \<Longrightarrow>
    (\<And>ra. ra \<in> set ras \<Longrightarrow> ra_transaction ra = x_id x \<and> 0 < ra_amount ra) \<Longrightarrow>
    sum_list (map ra_amount ras) = x_amount x \<Longrightarrow>
    net_principal_repaid db (x_loan x) None + sum_where (\<lambda>ra. ra_component ra = PRINCIPAL) ra_amount ras
      \<le> net_disbursed db (x_loan x) None \<Longrightarrow>
    ledger_event lax db (db\<lparr>repayments := repayments db @ [x],
      repayment_allocations := repayment_allocations db @ ras\<rparr>)"
| repayment_undone: "x \<in> set (repayments db) \<Longrightarrow> x_kind x = PAYMENT \<Longrightarrow> x_kind y = REVERSAL \<Longrightarrow>
    x_reversal_of y = Some (x_id x) \<Longrightarrow> x_loan y = x_loan x \<Longrightarrow> x_amount y = x_amount x \<Longrightarrow>
    \<not> repayment_reversed db (x_id x) \<Longrightarrow>
    x_id y \<notin> x_id ` set (repayments db) \<Longrightarrow> x_key y \<notin> x_key ` set (repayments db) \<Longrightarrow>
    (\<And>ra. ra \<in> set ras \<Longrightarrow> ra_transaction ra = x_id y \<and> 0 < ra_amount ra) \<Longrightarrow>
    map (\<lambda>ra. (ra_installment ra, ra_component ra, ra_amount ra)) ras
      = map (\<lambda>ra. (ra_installment ra, ra_component ra, ra_amount ra))
          (filter (\<lambda>ra. ra_transaction ra = x_id x) (repayment_allocations db)) \<Longrightarrow>
    ledger_event lax db (db\<lparr>repayments := repayments db @ [y],
      repayment_allocations := repayment_allocations db @ ras\<rparr>)"

inductive_cases ledger_eventE: "ledger_event lax db db'"

section \<open>The invariant\<close>

definition keys_ok :: "ledger \<Rightarrow> bool" where
  "keys_ok db \<longleftrightarrow> distinct (map f_id (facilities db)) \<and> distinct (map t_id (tranches db))
     \<and> distinct (map t_key (tranches db)) \<and> distinct (map m_id (movements db))
     \<and> distinct (map m_key (movements db)) \<and> distinct (map a_id (allocations db))
     \<and> distinct (map a_loan (allocations db)) \<and> distinct (map d_id (disbursements db))
     \<and> distinct (map d_key (disbursements db)) \<and> distinct (map x_id (repayments db))
     \<and> distinct (map x_key (repayments db))"

definition references_ok :: "ledger \<Rightarrow> bool" where
  "references_ok db \<longleftrightarrow>
     (\<forall>t \<in> set (tranches db). t_facility t \<in> f_id ` set (facilities db))
     \<and> (\<forall>r \<in> set (tranche_reversals db). r_of r \<in> t_id ` set (tranches db))
     \<and> (\<forall>r \<in> set (movement_reversals db). r_of r \<in> m_id ` set (movements db))
     \<and> (\<forall>d \<in> set (disbursements db). (d_allocation d, d_loan d, d_source d)
          \<in> (\<lambda>a. (a_id a, a_loan a, a_source a)) ` set (allocations db))
     \<and> (\<forall>r \<in> set (disbursement_reversals db). r_of r \<in> d_id ` set (disbursements db))
     \<and> (\<forall>ra \<in> set (repayment_allocations db). ra_transaction ra \<in> x_id ` set (repayments db))
     \<and> (\<forall>y \<in> set (repayments db). \<forall>k. x_reversal_of y = Some k \<longrightarrow> k \<in> x_id ` set (repayments db))"

definition amounts_ok :: "ledger \<Rightarrow> bool" where
  "amounts_ok db \<longleftrightarrow> (\<forall>t \<in> set (tranches db). 0 < t_amount t) \<and> (\<forall>m \<in> set (movements db). 0 < m_amount m)
     \<and> (\<forall>a \<in> set (allocations db). 0 < a_amount a) \<and> (\<forall>d \<in> set (disbursements db). 0 < d_amount d)
     \<and> (\<forall>ra \<in> set (repayment_allocations db). 0 < ra_amount ra)
     \<and> (\<forall>f \<in> set (facilities db). 0 < f_commitment_amount f)"

definition receipts_ok :: "ledger \<Rightarrow> bool" where
  "receipts_ok db \<longleftrightarrow> (\<forall>f \<in> set (facilities db). receipts db (f_id f) \<le> f_commitment_amount f)"

definition disbursed_ok :: "ledger \<Rightarrow> bool" where
  "disbursed_ok db \<longleftrightarrow> (\<forall>a \<in> set (allocations db). allocation_disbursed db (a_id a) \<le> a_amount a)"

definition repaid_ok :: "ledger \<Rightarrow> bool" where
  "repaid_ok db \<longleftrightarrow> (\<forall>lid. net_principal_repaid db lid None = standing_principal db lid
     \<and> standing_principal db lid \<le> net_disbursed db lid None)"

definition approvals_ok :: "ledger \<Rightarrow> bool" where
  "approvals_ok db \<longleftrightarrow> (\<forall>f \<in> set (facilities db). f_approved_by f \<noteq> Some (f_created_by f))"

definition ledger_inv :: "ledger \<Rightarrow> bool" where
  "ledger_inv db \<longleftrightarrow> keys_ok db \<and> references_ok db \<and> amounts_ok db \<and> receipts_ok db \<and> disbursed_ok db
     \<and> repaid_ok db \<and> approvals_ok db"

definition pools_ok :: "ledger \<Rightarrow> bool" where
  "pools_ok db \<longleftrightarrow> (\<forall>fid. 0 \<le> original_pool db fid)"

lemmas inv_defs = keys_ok_def references_ok_def amounts_ok_def approvals_ok_def

end
