(* ===== verification/LedgerInvariant.thy ===== *)
theory LedgerInvariant
  imports LedgerEvents
begin

text \<open>
  Events keep the ledger's invariant: the contract of a journal whose postings are only
  ever cancelled by reversal rows, its interpretation on the receipts, the movements and
  the disbursements, and the effect of each event on each balance.
\<close>

section \<open>Reversible journals\<close>

lemma reversed_in_simps [simp]:
  "\<not> reversed_in k []" "reversed_in k (rs @ [r]) \<longleftrightarrow> reversed_in k rs \<or> k = r_of r"
  by (auto simp: reversed_in_def)

lemma reversed_in_iff: "reversed_in k rs \<longleftrightarrow> k \<in> r_of ` set rs"
  by (auto simp: reversed_in_def list_ex_iff)

locale reversible_journal = keyed_table key rows wf
  for key :: "'r \<Rightarrow> string" and rows :: "'db \<Rightarrow> 'r list" and wf :: "'db \<Rightarrow> bool" +
  fixes reversals :: "'db \<Rightarrow> posting_reversal list"
  assumes reversal_refers: "wf db \<Longrightarrow> r \<in> set (reversals db) \<Longrightarrow> r_of r \<in> key ` set (rows db)"
begin

lemma fresh_not_reversed:
  assumes "wf db" and "k \<notin> key ` set (rows db)"
  shows "\<not> reversed_in k (reversals db)"
  using reversal_refers [OF assms(1)] assms(2) by (auto simp: reversed_in_iff)

lemma posting_adds:
  assumes "wf db" and "key x \<notin> key ` set (rows db)"
  shows "sum_where (\<lambda>y. P y \<and> \<not> reversed_in (key y) (reversals db) \<and> Q y) f (rows db @ [x])
    = sum_where (\<lambda>y. P y \<and> \<not> reversed_in (key y) (reversals db) \<and> Q y) f (rows db)
      + (if P x \<and> Q x then f x else 0)"
  using fresh_not_reversed [OF assms] by simp

lemma reversal_removes:
  assumes "wf db" and "x \<in> set (rows db)" and "\<not> reversed_in (key x) (reversals db)" and "r_of r = key x"
  shows "sum_where (\<lambda>y. P y \<and> \<not> reversed_in (key y) (reversals db @ [r]) \<and> Q y) f (rows db)
    = sum_where (\<lambda>y. P y \<and> \<not> reversed_in (key y) (reversals db) \<and> Q y) f (rows db)
      - (if P x \<and> Q x then f x else 0)"
proof -
  let ?open = "\<lambda>y. P y \<and> \<not> reversed_in (key y) (reversals db) \<and> Q y"
  have split: "sum_where (\<lambda>y. P y \<and> \<not> reversed_in (key y) (reversals db @ [r]) \<and> Q y) f (rows db)
      = sum_where (\<lambda>y. ?open y \<and> key y \<noteq> key x) f (rows db)"
    by (rule sum_where_cong) (auto simp: assms(4))
  show ?thesis
  proof (cases "P x \<and> Q x")
    case True
    with sum_where_remove [OF distinct_keys [OF assms(1)] assms(2), of ?open f] assms(3)
    show ?thesis unfolding split by simp
  next
    case False
    then have "sum_where (\<lambda>y. ?open y \<and> key y \<noteq> key x) f (rows db) = sum_where ?open f (rows db)"
      using same_key_same_row [OF assms(1) _ assms(2)] by (intro sum_where_cong) auto
    with False show ?thesis unfolding split by auto
  qed
qed

end

interpretation receipt_journal: reversible_journal t_id tranches
    "\<lambda>db. keys_ok db \<and> references_ok db" tranche_reversals
  by unfold_locales (auto simp: inv_defs)

interpretation movement_journal: reversible_journal m_id movements
    "\<lambda>db. keys_ok db \<and> references_ok db" movement_reversals
  by unfold_locales (auto simp: inv_defs)

interpretation disbursement_journal: reversible_journal d_id disbursements
    "\<lambda>db. keys_ok db \<and> references_ok db" disbursement_reversals
  by unfold_locales (auto simp: inv_defs)

interpretation allocation_table: keyed_table a_id allocations keys_ok
  by unfold_locales (simp add: keys_ok_def)

interpretation loan_allocation_table: keyed_table a_loan allocations keys_ok
  by unfold_locales (simp add: keys_ok_def)

interpretation facility_table: keyed_table f_id facilities keys_ok
  by unfold_locales (simp add: keys_ok_def)

interpretation repayment_table: keyed_table x_id repayments keys_ok
  by unfold_locales (simp add: keys_ok_def)

section \<open>Keys, references and amounts\<close>

lemma saved_allocations:
  assumes "keys_ok db" and "a \<in> set (allocations db)" and "a_id b = a_id a"
    and "h b = h a"
  shows "map h (allocations (save_allocation b db)) = map h (allocations db)"
proof -
  have "h x = h b" if "x \<in> set (allocations db)" and "a_id x = a_id b" for x
    using allocation_table.same_key_same_row [OF assms(1) that(1) assms(2)] that(2) assms(3,4) by simp
  then show ?thesis by (simp add: save_allocation_def map_replace)
qed

lemma saved_facilities:
  assumes "keys_ok db" and "f \<in> set (facilities db)" and "f_id g = f_id f"
    and "h g = h f"
  shows "map h (facilities (save_facility g db)) = map h (facilities db)"
proof -
  have "h x = h g" if "x \<in> set (facilities db)" and "f_id x = f_id g" for x
    using facility_table.same_key_same_row [OF assms(1) that(1) assms(2)] that(2) assms(3,4) by simp
  then show ?thesis by (simp add: save_facility_def map_replace)
qed

lemma save_tables [simp]:
  "facilities (save_allocation b db) = facilities db" "tranches (save_allocation b db) = tranches db"
  "tranche_reversals (save_allocation b db) = tranche_reversals db"
  "movements (save_allocation b db) = movements db"
  "movement_reversals (save_allocation b db) = movement_reversals db"
  "disbursements (save_allocation b db) = disbursements db"
  "disbursement_reversals (save_allocation b db) = disbursement_reversals db"
  "repayments (save_allocation b db) = repayments db"
  "repayment_allocations (save_allocation b db) = repayment_allocations db"
  "allocations (save_facility g db) = allocations db" "tranches (save_facility g db) = tranches db"
  "tranche_reversals (save_facility g db) = tranche_reversals db"
  "movements (save_facility g db) = movements db"
  "movement_reversals (save_facility g db) = movement_reversals db"
  "disbursements (save_facility g db) = disbursements db"
  "disbursement_reversals (save_facility g db) = disbursement_reversals db"
  "repayments (save_facility g db) = repayments db"
  "repayment_allocations (save_facility g db) = repayment_allocations db"
  by (simp_all add: save_allocation_def save_facility_def)

lemma in_saved:
  "a \<in> set (allocations (save_allocation b db)) \<Longrightarrow> a = b \<or> a \<in> set (allocations db)"
  "f \<in> set (facilities (save_facility g db)) \<Longrightarrow> f = g \<or> f \<in> set (facilities db)"
  by (auto simp: save_allocation_def save_facility_def set_update_where split: if_splits)

lemma event_keys:
  assumes "ledger_event lax db db'" and "keys_ok db"
  shows "keys_ok db'"
  using assms
proof (cases rule: ledger_event.cases)
  case (facility_saved f g)
  with saved_facilities [OF assms(2), of f g f_id] assms(2) show ?thesis by (simp add: keys_ok_def)
next
  case (allocation_saved a b)
  with saved_allocations [OF assms(2), of a b a_id] saved_allocations [OF assms(2), of a b a_loan] assms(2)
  show ?thesis by (simp add: keys_ok_def)
qed (auto simp: keys_ok_def same_books_def)

lemma event_references:
  assumes "ledger_event lax db db'" and "keys_ok db" and "references_ok db"
  shows "references_ok db'"
  using assms(1)
proof (cases rule: ledger_event.cases)
  case (facility_saved f g)
  then have "f_id ` set (facilities db') = f_id ` set (facilities db)"
    using saved_facilities [OF assms(2), of f g f_id] by (metis list.set_map)
  with facility_saved assms(3) show ?thesis by (simp add: references_ok_def)
next
  case (allocation_saved a b)
  then have "(\<lambda>a. (a_id a, a_loan a, a_source a)) ` set (allocations db')
      = (\<lambda>a. (a_id a, a_loan a, a_source a)) ` set (allocations db)"
    using saved_allocations [OF assms(2), of a b "\<lambda>a. (a_id a, a_loan a, a_source a)"]
    by (metis (no_types, lifting) list.set_map)
  with allocation_saved assms(3) show ?thesis by (simp add: references_ok_def)
next
  case (repayment_undone x y ras)
  with assms(3) show ?thesis by (auto simp: references_ok_def)
qed (use assms(3) in \<open>auto simp: references_ok_def same_books_def\<close>)

lemma event_amounts:
  assumes "ledger_event lax db db'" and "keys_ok db" and "amounts_ok db"
  shows "amounts_ok db'"
  using assms(1)
proof (cases rule: ledger_event.cases)
  case (facility_saved f g)
  with assms(3) show ?thesis
    unfolding amounts_ok_def by (auto dest!: in_saved)
next
  case (allocation_saved a b)
  with assms(3) show ?thesis
    unfolding amounts_ok_def by (auto dest!: in_saved)
qed (use assms(3) in \<open>auto simp: amounts_ok_def same_books_def\<close>)

lemma event_approvals:
  assumes "ledger_event lax db db'" and "approvals_ok db"
  shows "approvals_ok db'"
  using assms(1)
proof (cases rule: ledger_event.cases)
  case (facility_saved f g)
  with assms(2) show ?thesis
    unfolding approvals_ok_def by (auto dest!: in_saved)
qed (use assms(2) in \<open>auto simp: approvals_ok_def same_books_def\<close>)

section \<open>Receipts against commitments\<close>

lemma receipts_posted:
  assumes "keys_ok db" and "references_ok db" and "t_id t \<notin> t_id ` set (tranches db)"
  shows "receipts (db\<lparr>tranches := tranches db @ [t]\<rparr>) fid
    = receipts db fid + (if t_facility t = fid then t_amount t else 0)"
  using receipt_journal.posting_adds [OF conjI [OF assms(1,2)] assms(3),
      where P = "\<lambda>y. t_facility y = fid" and Q = "\<lambda>_. True" and f = t_amount]
  by (simp add: receipts_def)

lemma receipts_reversed:
  assumes "keys_ok db" and "references_ok db" and "t \<in> set (tranches db)"
    and "\<not> reversed_in (t_id t) (tranche_reversals db)" and "r_of r = t_id t"
  shows "receipts (db\<lparr>tranche_reversals := tranche_reversals db @ [r]\<rparr>) fid
    = receipts db fid - (if t_facility t = fid then t_amount t else 0)"
  using receipt_journal.reversal_removes [OF conjI [OF assms(1,2)] assms(3-5),
      where P = "\<lambda>y. t_facility y = fid" and Q = "\<lambda>_. True" and f = t_amount]
  by (simp add: receipts_def)

lemma receipts_cong:
  "tranches db' = tranches db \<Longrightarrow> tranche_reversals db' = tranche_reversals db \<Longrightarrow> receipts db' = receipts db"
  by (simp add: receipts_def fun_eq_iff)

lemma receipts_ok_iff:
  "receipts_ok db \<longleftrightarrow> (\<forall>x \<in> (\<lambda>f. (f_id f, f_commitment_amount f)) ` set (facilities db). receipts db (fst x) \<le> snd x)"
  by (simp add: receipts_ok_def)

lemma event_receipts:
  assumes "ledger_event lax db db'" and "keys_ok db" and "references_ok db" and "amounts_ok db"
    and "receipts_ok db"
  shows "receipts_ok db'"
  using assms(1)
proof (cases rule: ledger_event.cases)
  case quiet
  with assms(5) receipts_cong [of db' db] show ?thesis by (simp add: same_books_def receipts_ok_def)
next
  case (facility_added f)
  have "t_facility t \<noteq> f_id f" if "t \<in> set (tranches db)" for t
    using facility_added(2) assms(3) that unfolding references_ok_def by metis
  then have "receipts db (f_id f) = 0"
    unfolding receipts_def by (intro sum_where_none) simp
  moreover have "receipts db' = receipts db" using facility_added by (intro receipts_cong) simp_all
  ultimately show ?thesis using facility_added assms(5) by (simp add: receipts_ok_def)
next
  case (facility_saved f g)
  with saved_facilities [OF assms(2), of f g "\<lambda>f. (f_id f, f_commitment_amount f)"]
  have "(\<lambda>f. (f_id f, f_commitment_amount f)) ` set (facilities db')
      = (\<lambda>f. (f_id f, f_commitment_amount f)) ` set (facilities db)"
    by (metis (no_types, lifting) list.set_map)
  moreover have "receipts db' = receipts db" using facility_saved by (intro receipts_cong) simp_all
  ultimately show ?thesis using assms(5) by (simp add: receipts_ok_iff)
next
  case (received f t)
  have "receipts db (f_id g) + (if f_id f = f_id g then t_amount t else 0) \<le> f_commitment_amount g"
    if "g \<in> set (facilities db)" for g
    using facility_table.same_key_same_row [OF assms(2) received(2) that] received(5) assms(5) that
    by (auto simp: receipts_ok_def)
  with received receipts_posted [OF assms(2,3) received(6)] show ?thesis
    by (simp add: receipts_ok_def)
next
  case (receipt_reversed t r)
  have "0 < t_amount t" using assms(4) receipt_reversed by (simp add: amounts_ok_def)
  moreover have "receipts db' fid = receipts db fid - (if t_facility t = fid then t_amount t else 0)" for fid
    using receipts_reversed [OF assms(2,3) receipt_reversed(2,4,3)] receipt_reversed(1) by simp
  ultimately show ?thesis using receipt_reversed(1) assms(5)
    by (fastforce simp: receipts_ok_def)
qed (use assms(5) in \<open>simp_all add: receipts_ok_def receipts_def\<close>)

section \<open>Disbursements against allocations\<close>

lemma allocation_disbursed_posted:
  assumes "keys_ok db" and "references_ok db" and "d_id d \<notin> d_id ` set (disbursements db)"
  shows "allocation_disbursed (db\<lparr>disbursements := disbursements db @ [d]\<rparr>) aid
    = allocation_disbursed db aid + (if d_allocation d = aid then d_amount d else 0)"
  using disbursement_journal.posting_adds [OF conjI [OF assms(1,2)] assms(3),
      where P = "\<lambda>y. d_allocation y = aid" and Q = "\<lambda>_. True" and f = d_amount]
  by (simp add: allocation_disbursed_def)

lemma allocation_disbursed_reversed:
  assumes "keys_ok db" and "references_ok db" and "d \<in> set (disbursements db)"
    and "\<not> reversed_in (d_id d) (disbursement_reversals db)" and "r_of r = d_id d"
  shows "allocation_disbursed (db\<lparr>disbursement_reversals := disbursement_reversals db @ [r]\<rparr>) aid
    = allocation_disbursed db aid - (if d_allocation d = aid then d_amount d else 0)"
  using disbursement_journal.reversal_removes [OF conjI [OF assms(1,2)] assms(3-5),
      where P = "\<lambda>y. d_allocation y = aid" and Q = "\<lambda>_. True" and f = d_amount]
  by (simp add: allocation_disbursed_def)

lemma net_disbursed_posted:
  assumes "keys_ok db" and "references_ok db" and "d_id d \<notin> d_id ` set (disbursements db)"
  shows "net_disbursed (db\<lparr>disbursements := disbursements db @ [d]\<rparr>) lid as_of
    = net_disbursed db lid as_of + (if d_loan d = lid \<and> by_as_of as_of (d_value_date d) then d_amount d else 0)"
  using disbursement_journal.posting_adds [OF conjI [OF assms(1,2)] assms(3),
      where P = "\<lambda>y. d_loan y = lid" and Q = "\<lambda>y. by_as_of as_of (d_value_date y)" and f = d_amount]
  by (simp add: net_disbursed_def)

lemma net_disbursed_reversed:
  assumes "keys_ok db" and "references_ok db" and "d \<in> set (disbursements db)"
    and "\<not> reversed_in (d_id d) (disbursement_reversals db)" and "r_of r = d_id d"
  shows "net_disbursed (db\<lparr>disbursement_reversals := disbursement_reversals db @ [r]\<rparr>) lid as_of
    = net_disbursed db lid as_of - (if d_loan d = lid \<and> by_as_of as_of (d_value_date d) then d_amount d else 0)"
  using disbursement_journal.reversal_removes [OF conjI [OF assms(1,2)] assms(3-5),
      where P = "\<lambda>y. d_loan y = lid" and Q = "\<lambda>y. by_as_of as_of (d_value_date y)" and f = d_amount]
  by (simp add: net_disbursed_def)

lemma disbursement_balances_cong:
  assumes "disbursements db' = disbursements db" and "disbursement_reversals db' = disbursement_reversals db"
  shows "allocation_disbursed db' = allocation_disbursed db" and "net_disbursed db' = net_disbursed db"
  using assms by (simp_all add: allocation_disbursed_def net_disbursed_def fun_eq_iff)

text \<open>A loan has one allocation, so its disbursements are those of the allocation.\<close>

lemma net_disbursed_allocation:
  assumes "keys_ok db" and "references_ok db" and "a \<in> set (allocations db)"
  shows "net_disbursed db (a_loan a) None = allocation_disbursed db (a_id a)"
proof -
  have "d_loan d = a_loan a \<longleftrightarrow> d_allocation d = a_id a" if "d \<in> set (disbursements db)" for d
  proof -
    from that assms(2) obtain b where b: "b \<in> set (allocations db)"
      "a_id b = d_allocation d" "a_loan b = d_loan d" unfolding references_ok_def by fastforce
    show ?thesis
      using allocation_table.same_key_same_row [OF assms(1) b(1) assms(3)]
        loan_allocation_table.same_key_same_row [OF assms(1) b(1) assms(3)] b(2,3) by auto
  qed
  then show ?thesis unfolding net_disbursed_def allocation_disbursed_def
    by (intro sum_where_cong) (auto simp: by_as_of_def)
qed

lemma fresh_allocation_disbursed:
  assumes "references_ok db" and "aid \<notin> a_id ` set (allocations db)"
  shows "allocation_disbursed db aid = 0"
  unfolding allocation_disbursed_def using assms by (intro sum_where_none) (fastforce simp: references_ok_def)

lemma disbursed_ok_iff:
  "disbursed_ok db \<longleftrightarrow> (\<forall>x \<in> (\<lambda>a. (a_id a, a_amount a)) ` set (allocations db). allocation_disbursed db (fst x) \<le> snd x)"
  by (simp add: disbursed_ok_def)

lemma event_disbursed:
  assumes "ledger_event lax db db'" and "keys_ok db" and "references_ok db" and "amounts_ok db"
    and "disbursed_ok db"
  shows "disbursed_ok db'"
  using assms(1)
proof (cases rule: ledger_event.cases)
  case quiet
  with assms(5) disbursement_balances_cong [of db' db] show ?thesis
    by (simp add: same_books_def disbursed_ok_def)
next
  case (reserved a)
  have "allocation_disbursed db' = allocation_disbursed db"
    using reserved(1) by (intro disbursement_balances_cong) simp_all
  with fresh_allocation_disbursed [OF assms(3) reserved(5)] reserved(1,2) assms(5) show ?thesis
    by (simp add: disbursed_ok_def)
next
  case (allocation_saved a b)
  with saved_allocations [OF assms(2), of a b "\<lambda>a. (a_id a, a_amount a)"]
  have "(\<lambda>a. (a_id a, a_amount a)) ` set (allocations db') = (\<lambda>a. (a_id a, a_amount a)) ` set (allocations db)"
    by (metis (no_types, lifting) list.set_map)
  moreover have "allocation_disbursed db' = allocation_disbursed db"
    using allocation_saved(1) by (intro disbursement_balances_cong) simp_all
  ultimately show ?thesis using assms(5) by (simp add: disbursed_ok_iff)
next
  case (disbursed a d)
  have "allocation_disbursed db (a_id b) + (if a_id a = a_id b then d_amount d else 0) \<le> a_amount b"
    if "b \<in> set (allocations db)" for b
    using allocation_table.same_key_same_row [OF assms(2) disbursed(2) that] disbursed(8) assms(5) that
    by (auto simp: disbursed_ok_def)
  with disbursed allocation_disbursed_posted [OF assms(2,3) disbursed(9)] show ?thesis
    by (simp add: disbursed_ok_def)
next
  case (disbursement_reversed d r)
  have "0 < d_amount d" using assms(4) disbursement_reversed by (simp add: amounts_ok_def)
  moreover have "allocation_disbursed db' aid
      = allocation_disbursed db aid - (if d_allocation d = aid then d_amount d else 0)" for aid
    using allocation_disbursed_reversed [OF assms(2,3) disbursement_reversed(2,4,3)] disbursement_reversed(1)
    by simp
  ultimately show ?thesis using disbursement_reversed(1) assms(5)
    by (fastforce simp: disbursed_ok_def)
qed (use assms(5) in \<open>simp_all add: disbursed_ok_def allocation_disbursed_def\<close>)

section \<open>Repayments against disbursements\<close>

definition with_repayment :: "repayment \<Rightarrow> repayment_allocation list \<Rightarrow> ledger \<Rightarrow> ledger" where
  "with_repayment y ras db = db\<lparr>repayments := repayments db @ [y],
     repayment_allocations := repayment_allocations db @ ras\<rparr>"

definition principal_total :: "repayment_allocation list \<Rightarrow> int" where
  "principal_total ras = sum_where (\<lambda>ra. ra_component ra = PRINCIPAL) ra_amount ras"

lemma paid_in_posted:
  assumes "references_ok db" and "x_id y \<notin> x_id ` set (repayments db)" and "ra \<in> set (repayment_allocations db)"
  shows "paid_in (with_repayment y ras db) P ra = paid_in db P ra"
  using assms by (auto simp: paid_in_def with_repayment_def references_ok_def)

lemma paid_in_new:
  assumes "x_id y \<notin> x_id ` set (repayments db)" and "ra_transaction ra = x_id y"
  shows "paid_in (with_repayment y ras db) P ra = P y"
  using assms by (auto simp: paid_in_def with_repayment_def list_ex_iff rev_image_eqI)

lemma principal_by_kind_posted:
  assumes "references_ok db" and "x_id y \<notin> x_id ` set (repayments db)"
    and "\<And>ra. ra \<in> set ras \<Longrightarrow> ra_transaction ra = x_id y"
  shows "principal_by_kind (with_repayment y ras db) lid as_of kind = principal_by_kind db lid as_of kind
    + (if x_loan y = lid \<and> x_kind y = kind \<and> by_as_of as_of (x_value_date y) then principal_total ras else 0)"
proof -
  let ?P = "\<lambda>x. x_loan x = lid \<and> x_kind x = kind \<and> by_as_of as_of (x_value_date x)"
  let ?sum = "\<lambda>db rows. sum_where (\<lambda>ra. ra_component ra = PRINCIPAL \<and> paid_in db ?P ra) ra_amount rows"
  have "?sum (with_repayment y ras db) (repayment_allocations db) = ?sum db (repayment_allocations db)"
    by (rule sum_where_cong) (simp_all add: paid_in_posted [OF assms(1,2)])
  moreover have "?sum (with_repayment y ras db) ras
      = sum_where (\<lambda>ra. ra_component ra = PRINCIPAL \<and> ?P y) ra_amount ras"
    by (rule sum_where_cong) (simp_all add: paid_in_new [OF assms(2)] assms(3))
  moreover have "sum_where (\<lambda>ra. ra_component ra = PRINCIPAL \<and> ?P y) ra_amount ras
      = (if ?P y then principal_total ras else 0)"
    by (simp add: principal_total_def sum_where_none)
  ultimately show ?thesis
    unfolding principal_by_kind_def by (simp add: with_repayment_def)
qed

lemma principal_of_posted:
  assumes "\<And>ra. ra \<in> set ras \<Longrightarrow> ra_transaction ra = x_id y"
  shows "principal_of (with_repayment y ras db) k
    = principal_of db k + (if k = x_id y then principal_total ras else 0)"
proof -
  have "sum_where (\<lambda>ra. ra_transaction ra = k \<and> ra_component ra = PRINCIPAL) ra_amount ras
      = sum_where (\<lambda>ra. k = x_id y \<and> ra_component ra = PRINCIPAL) ra_amount ras"
    by (rule sum_where_cong) (auto simp: assms)
  then show ?thesis by (simp add: principal_of_def with_repayment_def principal_total_def sum_where_none)
qed

lemma fresh_repayment:
  assumes "references_ok db" and "k \<notin> x_id ` set (repayments db)"
  shows "principal_of db k = 0" and "\<not> repayment_reversed db k"
  using assms unfolding principal_of_def
  by (auto simp: references_ok_def repayment_reversed_def intro!: sum_where_none)

lemma standing_posted:
  assumes "keys_ok db" and "references_ok db" and "x_id y \<notin> x_id ` set (repayments db)"
    and "\<And>ra. ra \<in> set ras \<Longrightarrow> ra_transaction ra = x_id y" and "x_kind y = PAYMENT" and "x_reversal_of y = None"
  shows "standing_principal (with_repayment y ras db) lid
    = standing_principal db lid + (if x_loan y = lid then principal_total ras else 0)"
proof -
  have rev: "repayment_reversed (with_repayment y ras db) k = repayment_reversed db k" for k
    by (simp add: repayment_reversed_def with_repayment_def assms(6))
  have old: "principal_of (with_repayment y ras db) (x_id x) = principal_of db (x_id x)"
    if "x \<in> set (repayments db)" for x
  proof -
    have "x_id x \<noteq> x_id y" using assms(3) that by (metis imageI)
    then show ?thesis by (simp add: principal_of_posted [OF assms(4)])
  qed
  have "sum_where (\<lambda>x. x_loan x = lid \<and> x_kind x = PAYMENT \<and> \<not> repayment_reversed db (x_id x))
        (\<lambda>x. principal_of (with_repayment y ras db) (x_id x)) (repayments db) = standing_principal db lid"
    unfolding standing_principal_def by (rule sum_where_cong) (simp_all add: old)
  moreover have "principal_of (with_repayment y ras db) (x_id y) = principal_total ras"
    using fresh_repayment(1) [OF assms(2,3)] by (simp add: principal_of_posted [OF assms(4)])
  ultimately show ?thesis
    using fresh_repayment(2) [OF assms(2,3)]
    by (simp add: standing_principal_def rev assms(5)) (simp add: with_repayment_def assms(5))
qed

lemma standing_undone:
  assumes "keys_ok db" and "references_ok db" and "x_id y \<notin> x_id ` set (repayments db)"
    and "\<And>ra. ra \<in> set ras \<Longrightarrow> ra_transaction ra = x_id y" and "x_kind y = REVERSAL"
    and "x \<in> set (repayments db)" and "x_kind x = PAYMENT" and "\<not> repayment_reversed db (x_id x)"
    and "x_reversal_of y = Some (x_id x)"
  shows "standing_principal (with_repayment y ras db) lid
    = standing_principal db lid - (if x_loan x = lid then principal_of db (x_id x) else 0)"
proof -
  let ?open = "\<lambda>x. x_loan x = lid \<and> x_kind x = PAYMENT \<and> \<not> repayment_reversed db (x_id x)"
  let ?f = "\<lambda>x. principal_of db (x_id x)"
  have rev: "repayment_reversed (with_repayment y ras db) k \<longleftrightarrow> repayment_reversed db k \<or> k = x_id x" for k
    by (auto simp: repayment_reversed_def with_repayment_def assms(9))
  have old: "principal_of (with_repayment y ras db) (x_id z) = ?f z" if "z \<in> set (repayments db)" for z
  proof -
    have "x_id z \<noteq> x_id y" using assms(3) that by (metis imageI)
    then show ?thesis by (simp add: principal_of_posted [OF assms(4)])
  qed
  have "standing_principal (with_repayment y ras db) lid
      = sum_where (\<lambda>z. ?open z \<and> x_id z \<noteq> x_id x) ?f (repayments db)"
    unfolding standing_principal_def
    by (simp add: with_repayment_def [of y ras] assms(5))
       (rule sum_where_cong, auto simp: rev [unfolded with_repayment_def] old [unfolded with_repayment_def])
  also have "\<dots> = standing_principal db lid - (if x_loan x = lid then ?f x else 0)"
  proof (cases "x_loan x = lid")
    case True
    then show ?thesis
      using sum_where_remove [of x_id "repayments db" x ?open ?f] repayment_table.distinct_keys [OF assms(1)]
        assms(6-8) by (simp add: standing_principal_def)
  next
    case False
    have "sum_where (\<lambda>z. ?open z \<and> x_id z \<noteq> x_id x) ?f (repayments db) = standing_principal db lid"
      unfolding standing_principal_def
      using repayment_table.same_key_same_row [OF assms(1) _ assms(6)] False
      by (intro sum_where_cong) auto
    with False show ?thesis by simp
  qed
  finally show ?thesis .
qed

lemma copied_principal:
  assumes "map (\<lambda>ra. (ra_installment ra, ra_component ra, ra_amount ra)) ras
      = map (\<lambda>ra. (ra_installment ra, ra_component ra, ra_amount ra))
          (filter (\<lambda>ra. ra_transaction ra = k) (repayment_allocations db))"
  shows "principal_total ras = principal_of db k"
proof -
  let ?h = "\<lambda>ra. (ra_installment ra, ra_component ra, ra_amount ra)"
  have via: "principal_total rows = sum_where (\<lambda>z. fst (snd z) = PRINCIPAL) (\<lambda>z. snd (snd z)) (map ?h rows)" for rows
    unfolding principal_total_def by (induction rows) simp_all
  have "principal_of db k = principal_total (filter (\<lambda>ra. ra_transaction ra = k) (repayment_allocations db))"
    unfolding principal_of_def principal_total_def sum_where_def by (simp add: conj_commute)
  then show ?thesis by (simp only: via assms)
qed

lemma standing_nonneg:
  assumes "amounts_ok db"
  shows "0 \<le> standing_principal db lid" and "0 \<le> principal_of db k"
proof -
  have "0 \<le> principal_of db k" for k
    unfolding principal_of_def using assms by (intro sum_where_nonneg) (auto simp: amounts_ok_def intro: less_imp_le)
  then show "0 \<le> standing_principal db lid" and "0 \<le> principal_of db k"
    unfolding standing_principal_def by (auto intro: sum_where_nonneg)
qed

lemma repayment_balances_cong:
  assumes "repayments db' = repayments db" and "repayment_allocations db' = repayment_allocations db"
  shows "net_principal_repaid db' = net_principal_repaid db" and "standing_principal db' = standing_principal db"
  using assms by (simp_all add: net_principal_repaid_def principal_by_kind_def paid_in_def standing_principal_def
      principal_of_def repayment_reversed_def fun_eq_iff)

lemma net_disbursed_nonneg: "amounts_ok db \<Longrightarrow> 0 \<le> net_disbursed db lid as_of"
  unfolding net_disbursed_def by (intro sum_where_nonneg) (auto simp: amounts_ok_def intro: less_imp_le)

lemma event_repaid:
  assumes "ledger_event lax db db'" and "keys_ok db" and "references_ok db" and "amounts_ok db"
    and "amounts_ok db'" and "repaid_ok db"
  shows "repaid_ok db'"
  using assms(1)
proof (cases rule: ledger_event.cases)
  case quiet
  then show ?thesis using assms(6) repayment_balances_cong [of db' db] disbursement_balances_cong [of db' db]
    by (simp add: same_books_def repaid_ok_def)
next
  case (disbursed a d)
  have "0 < d_amount d" using disbursed by simp
  with disbursed(1) assms(6) repayment_balances_cong [of db' db] net_disbursed_posted [OF assms(2,3) disbursed(9)]
  show ?thesis by (auto simp: repaid_ok_def add_increasing2)
next
  case (disbursement_reversed d r)
  have none: "standing_principal db (d_loan d) = 0"
    unfolding standing_principal_def using disbursement_reversed(5) by (intro sum_where_none) auto
  have "standing_principal db lid \<le> net_disbursed db' lid None" for lid
  proof (cases "d_loan d = lid")
    case True
    with none net_disbursed_nonneg [OF assms(5)] show ?thesis by auto
  next
    case False
    then show ?thesis
      using net_disbursed_reversed [OF assms(2,3) disbursement_reversed(2,4,3)] disbursement_reversed(1) assms(6)
      by (simp add: repaid_ok_def)
  qed
  with disbursement_reversed(1) assms(6) repayment_balances_cong [of db' db] show ?thesis
    by (simp add: repaid_ok_def)
next
  case (repaid x ras)
  note db' = repaid(1) [folded with_repayment_def]
  have tr: "\<And>ra. ra \<in> set ras \<Longrightarrow> ra_transaction ra = x_id x" using repaid(6) by blast
  have "net_principal_repaid db' lid None
      = net_principal_repaid db lid None + (if x_loan x = lid then principal_total ras else 0)" for lid
    unfolding db' net_principal_repaid_def using repaid(2)
    by (simp add: principal_by_kind_posted [OF assms(3) repaid(4) tr] by_as_of_def)
  moreover have "net_disbursed db' = net_disbursed db"
    using repaid(1) by (intro disbursement_balances_cong) simp_all
  moreover have "standing_principal db' lid
      = standing_principal db lid + (if x_loan x = lid then principal_total ras else 0)" for lid
    unfolding db' by (rule standing_posted [OF assms(2,3) repaid(4) tr repaid(2,3)])
  ultimately show ?thesis using assms(6) repaid(8) by (auto simp: repaid_ok_def principal_total_def)
next
  case (repayment_undone x y ras)
  note db' = repayment_undone(1) [folded with_repayment_def]
  have tr: "\<And>ra. ra \<in> set ras \<Longrightarrow> ra_transaction ra = x_id y" using repayment_undone(11) by blast
  have "principal_total ras = principal_of db (x_id x)"
    using repayment_undone(12) by (rule copied_principal)
  then have "net_principal_repaid db' lid None
      = net_principal_repaid db lid None - (if x_loan x = lid then principal_of db (x_id x) else 0)" for lid
    unfolding db' net_principal_repaid_def using repayment_undone(4,6)
    by (simp add: principal_by_kind_posted [OF assms(3) repayment_undone(9) tr] by_as_of_def)
  moreover have "net_disbursed db' = net_disbursed db"
    using repayment_undone(1) by (intro disbursement_balances_cong) simp_all
  moreover have "standing_principal db' lid
      = standing_principal db lid - (if x_loan x = lid then principal_of db (x_id x) else 0)" for lid
    unfolding db'
    by (rule standing_undone [OF assms(2,3) repayment_undone(9) tr repayment_undone(4,2,3,8,5)])
  ultimately show ?thesis using assms(6) standing_nonneg(2) [OF assms(4), of "x_id x"]
    by (auto simp: repaid_ok_def intro: order_trans [rotated])
qed (use assms(6) repayment_balances_cong [of db' db] disbursement_balances_cong [of db' db] in
    \<open>simp_all add: repaid_ok_def\<close>)

section \<open>The pool of original capital\<close>

lemma pool_cong:
  assumes "tranches db' = tranches db" and "tranche_reversals db' = tranche_reversals db"
    and "movements db' = movements db" and "movement_reversals db' = movement_reversals db"
    and "allocations db' = allocations db" and "disbursements db' = disbursements db"
    and "disbursement_reversals db' = disbursement_reversals db"
  shows "original_pool db' = original_pool db"
  using assms by (simp add: balance_defs fun_eq_iff)

lemma pool_receipts:
  "original_pool (db\<lparr>tranches := ts\<rparr>) fid
     = original_pool db fid + receipts (db\<lparr>tranches := ts\<rparr>) fid - receipts db fid"
  "original_pool (db\<lparr>tranche_reversals := rs\<rparr>) fid
     = original_pool db fid + receipts (db\<lparr>tranche_reversals := rs\<rparr>) fid - receipts db fid"
  by (simp_all add: balance_defs)

lemma movement_total_posted:
  assumes "keys_ok db" and "references_ok db" and "m_id m \<notin> m_id ` set (movements db)"
  shows "movement_total (db\<lparr>movements := movements db @ [m]\<rparr>) fid kind src = movement_total db fid kind src
    + (if m_facility m = fid \<and> m_kind m = kind \<and> m_source m = src then m_amount m else 0)"
  using movement_journal.posting_adds [OF conjI [OF assms(1,2)] assms(3),
      where P = "\<lambda>y. m_facility y = fid" and Q = "\<lambda>y. m_kind y = kind \<and> m_source y = src" and f = m_amount]
  by (simp add: movement_total_def)

lemma movement_total_reversed:
  assumes "keys_ok db" and "references_ok db" and "m \<in> set (movements db)"
    and "\<not> reversed_in (m_id m) (movement_reversals db)" and "r_of r = m_id m"
  shows "movement_total (db\<lparr>movement_reversals := movement_reversals db @ [r]\<rparr>) fid kind src
    = movement_total db fid kind src
      - (if m_facility m = fid \<and> m_kind m = kind \<and> m_source m = src then m_amount m else 0)"
  using movement_journal.reversal_removes [OF conjI [OF assms(1,2)] assms(3-5),
      where P = "\<lambda>y. m_facility y = fid" and Q = "\<lambda>y. m_kind y = kind \<and> m_source y = src" and f = m_amount]
  by (simp add: movement_total_def)

lemma pool_moved:
  assumes "keys_ok db" and "references_ok db" and "m_id m \<notin> m_id ` set (movements db)"
  shows "original_pool (db\<lparr>movements := movements db @ [m]\<rparr>) fid = original_pool db fid
    - (if m_facility m = fid \<and> m_source m = ORIGINAL then m_amount m else 0)"
proof -
  have same: "receipts (db\<lparr>movements := ms\<rparr>) fid = receipts db fid"
    "disbursed_from (db\<lparr>movements := ms\<rparr>) fid s = disbursed_from db fid s"
    "reserved_by_source (db\<lparr>movements := ms\<rparr>) fid s = reserved_by_source db fid s" for ms s
    by (simp_all add: balance_defs)
  show ?thesis
    by (cases "m_kind m") (simp_all add: original_pool_def movement_total_posted [OF assms] same)
qed

lemma pool_movement_reversed:
  assumes "keys_ok db" and "references_ok db" and "m \<in> set (movements db)"
    and "\<not> reversed_in (m_id m) (movement_reversals db)" and "r_of r = m_id m"
  shows "original_pool (db\<lparr>movement_reversals := movement_reversals db @ [r]\<rparr>) fid = original_pool db fid
    + (if m_facility m = fid \<and> m_source m = ORIGINAL then m_amount m else 0)"
proof -
  have same: "receipts (db\<lparr>movement_reversals := ms\<rparr>) fid = receipts db fid"
    "disbursed_from (db\<lparr>movement_reversals := ms\<rparr>) fid s = disbursed_from db fid s"
    "reserved_by_source (db\<lparr>movement_reversals := ms\<rparr>) fid s = reserved_by_source db fid s" for ms s
    by (simp_all add: balance_defs)
  show ?thesis
    by (cases "m_kind m") (simp_all add: original_pool_def movement_total_reversed [OF assms] same)
qed

text \<open>What an allocation still holds of its pool.\<close>

definition held :: "ledger \<Rightarrow> allocation \<Rightarrow> int" where
  "held db a = (if a_status a = RESERVED \<or> a_status a = CONSUMED
     then max 0 (a_amount a - allocation_disbursed db (a_id a)) else 0)"

lemma reserved_by_source_held:
  "reserved_by_source db fid src = sum_where (\<lambda>a. a_facility a = fid \<and> a_source a = src) (held db) (allocations db)"
proof -
  have "sum_where (\<lambda>a. a_facility a = fid \<and> (a_status a = RESERVED \<or> a_status a = CONSUMED) \<and> a_source a = src)
      (\<lambda>a. max 0 (a_amount a - allocation_disbursed db (a_id a))) rows
    = sum_where (\<lambda>a. a_facility a = fid \<and> a_source a = src) (held db) rows" for rows
    by (induction rows) (simp_all add: held_def)
  then show ?thesis by (simp add: reserved_by_source_def)
qed

lemma pool_rest_cong:
  assumes "tranches db' = tranches db" and "tranche_reversals db' = tranche_reversals db"
    and "movements db' = movements db" and "movement_reversals db' = movement_reversals db"
  shows "original_pool db' fid = original_pool db fid
    - (disbursed_from db' fid ORIGINAL + reserved_by_source db' fid ORIGINAL)
    + (disbursed_from db fid ORIGINAL + reserved_by_source db fid ORIGINAL)"
  using assms by (simp add: original_pool_def receipts_def movement_total_def)

lemma pool_reserved:
  assumes "references_ok db" and "a_id a \<notin> a_id ` set (allocations db)" and "a_status a = RESERVED"
    and "0 < a_amount a"
  shows "original_pool (db\<lparr>allocations := allocations db @ [a]\<rparr>) fid = original_pool db fid
    - (if a_facility a = fid \<and> a_source a = ORIGINAL then a_amount a else 0)"
proof -
  let ?db = "db\<lparr>allocations := allocations db @ [a]\<rparr>"
  have disb: "allocation_disbursed ?db = allocation_disbursed db"
    by (rule disbursement_balances_cong) simp_all
  then have "held ?db = held db" by (simp add: held_def fun_eq_iff)
  moreover have "held db a = a_amount a"
    using fresh_allocation_disbursed [OF assms(1,2)] assms(3,4) by (simp add: held_def)
  moreover have "disbursed_from ?db fid s = disbursed_from db fid s" for s
  proof -
    have "a_id a \<noteq> d_allocation d" if "d \<in> set (disbursements db)" for d
      using assms(1,2) that unfolding references_ok_def by fastforce
    then show ?thesis unfolding disbursed_from_def by (intro sum_where_cong) auto
  qed
  ultimately show ?thesis
    using pool_rest_cong [of ?db db fid] by (auto simp: reserved_by_source_held)
qed

lemma pool_allocation_saved:
  assumes "keys_ok db" and "a \<in> set (allocations db)" and "a_id b = a_id a" and "a_facility b = a_facility a"
    and "a_source b = a_source a"
  shows "original_pool (save_allocation b db) fid = original_pool db fid
    - (if a_facility a = fid \<and> a_source a = ORIGINAL then held db b - held db a else 0)"
proof -
  let ?db = "save_allocation b db"
  have disb: "allocation_disbursed ?db = allocation_disbursed db"
    by (rule disbursement_balances_cong) simp_all
  have same: "held ?db = held db" using disb by (simp add: held_def fun_eq_iff)
  have "list_ex (\<lambda>a. a_id a = aid \<and> a_facility a = fid) (allocations ?db)
      = list_ex (\<lambda>a. a_id a = aid \<and> a_facility a = fid) (allocations db)" for aid
  proof -
    have "(\<lambda>a. (a_id a, a_facility a)) ` set (allocations ?db) = (\<lambda>a. (a_id a, a_facility a)) ` set (allocations db)"
      using saved_allocations [OF assms(1-3), of "\<lambda>a. (a_id a, a_facility a)"] assms(3,4)
      by (metis (no_types, lifting) list.set_map)
    then have "(aid, fid) \<in> (\<lambda>a. (a_id a, a_facility a)) ` set (allocations ?db)
        \<longleftrightarrow> (aid, fid) \<in> (\<lambda>a. (a_id a, a_facility a)) ` set (allocations db)" by simp
    then show ?thesis by (auto simp: list_ex_iff image_iff)
  qed
  then have from_same: "disbursed_from ?db fid s = disbursed_from db fid s" for s
    by (simp add: disbursed_from_def)
  let ?new = "\<lambda>c. if a_id c = a_id b then b else c"
  have "reserved_by_source ?db fid ORIGINAL
      = sum_where (\<lambda>c. a_facility c = fid \<and> a_source c = ORIGINAL) (\<lambda>c. held db (?new c)) (allocations db)"
  proof -
    have "sum_where (\<lambda>c. a_facility c = fid \<and> a_source c = ORIGINAL) (held db) (map ?new rows)
        = sum_where (\<lambda>c. a_facility c = fid \<and> a_source c = ORIGINAL) (\<lambda>c. held db (?new c)) rows"
      if "\<And>c. c \<in> set rows \<Longrightarrow> a_id c = a_id b \<Longrightarrow> c = a" for rows
      using that assms(4,5) by (induction rows) auto
    moreover have "c = a" if "c \<in> set (allocations db)" and "a_id c = a_id b" for c
      using allocation_table.same_key_same_row [OF assms(1) that(1) assms(2)] that(2) assms(3) by simp
    ultimately show ?thesis
      by (simp add: reserved_by_source_held same) (simp add: save_allocation_def update_where_def)
  qed
  also have "\<dots> = reserved_by_source db fid ORIGINAL
      + (if a_facility a = fid \<and> a_source a = ORIGINAL then held db b - held db a else 0)"
    using sum_where_change [OF allocation_table.distinct_keys [OF assms(1)] assms(2),
        of "\<lambda>c. held db (?new c)" "held db" "\<lambda>c. a_facility c = fid \<and> a_source c = ORIGINAL"] assms(3)
    by (simp add: reserved_by_source_held)
  finally show ?thesis
    using pool_rest_cong [of ?db db fid] from_same by simp
qed

lemma allocation_facility:
  assumes "keys_ok db" and "a \<in> set (allocations db)"
  shows "list_ex (\<lambda>b. a_id b = a_id a \<and> a_facility b = fid) (allocations db) \<longleftrightarrow> a_facility a = fid"
  using allocation_table.same_key_same_row [OF assms(1) _ assms(2)] assms(2) by (auto simp: list_ex_iff)

lemma disbursed_from_posted:
  assumes "keys_ok db" and "references_ok db" and "d_id d \<notin> d_id ` set (disbursements db)"
    and "a \<in> set (allocations db)" and "d_allocation d = a_id a"
  shows "disbursed_from (db\<lparr>disbursements := disbursements db @ [d]\<rparr>) fid src
    = disbursed_from db fid src + (if a_facility a = fid \<and> d_source d = src then d_amount d else 0)"
  using disbursement_journal.posting_adds [OF conjI [OF assms(1,2)] assms(3),
      where P = "\<lambda>y. list_ex (\<lambda>a. a_id a = d_allocation y \<and> a_facility a = fid) (allocations db)"
        and Q = "\<lambda>y. d_source y = src" and f = d_amount] allocation_facility [OF assms(1,4)] assms(5)
  by (simp add: disbursed_from_def)

lemma disbursed_from_reversed:
  assumes "keys_ok db" and "references_ok db" and "d \<in> set (disbursements db)"
    and "\<not> reversed_in (d_id d) (disbursement_reversals db)" and "r_of r = d_id d"
    and "a \<in> set (allocations db)" and "d_allocation d = a_id a"
  shows "disbursed_from (db\<lparr>disbursement_reversals := disbursement_reversals db @ [r]\<rparr>) fid src
    = disbursed_from db fid src - (if a_facility a = fid \<and> d_source d = src then d_amount d else 0)"
  using disbursement_journal.reversal_removes [OF conjI [OF assms(1,2)] assms(3-5),
      where P = "\<lambda>y. list_ex (\<lambda>a. a_id a = d_allocation y \<and> a_facility a = fid) (allocations db)"
        and Q = "\<lambda>y. d_source y = src" and f = d_amount] allocation_facility [OF assms(1,6)] assms(7)
  by (simp add: disbursed_from_def)

lemma reserved_change:
  assumes "keys_ok db" and "a \<in> set (allocations db)" and "allocations db' = allocations db"
    and "\<And>aid. aid \<noteq> a_id a \<Longrightarrow> allocation_disbursed db' aid = allocation_disbursed db aid"
  shows "reserved_by_source db' fid src = reserved_by_source db fid src
    + (if a_facility a = fid \<and> a_source a = src then held db' a - held db a else 0)"
  using sum_where_change [OF allocation_table.distinct_keys [OF assms(1)] assms(2),
      of "held db'" "held db" "\<lambda>c. a_facility c = fid \<and> a_source c = src"] assms(3,4)
  by (simp add: reserved_by_source_held held_def)

lemma pool_disbursed:
  assumes "keys_ok db" and "references_ok db" and "d_id d \<notin> d_id ` set (disbursements db)"
    and "a \<in> set (allocations db)" and "d_allocation d = a_id a" and "d_source d = a_source a"
    and "a_status a \<noteq> RELEASED" and "0 < d_amount d" and "allocation_disbursed db (a_id a) + d_amount d \<le> a_amount a"
  shows "original_pool (db\<lparr>disbursements := disbursements db @ [d]\<rparr>) fid = original_pool db fid"
proof -
  let ?db = "db\<lparr>disbursements := disbursements db @ [d]\<rparr>"
  have "held ?db a = held db a - d_amount d"
    using assms(5,7-9) by (cases "a_status a") (simp_all add: held_def allocation_disbursed_posted [OF assms(1-3)])
  moreover have "reserved_by_source ?db fid ORIGINAL = reserved_by_source db fid ORIGINAL
      + (if a_facility a = fid \<and> a_source a = ORIGINAL then held ?db a - held db a else 0)"
    by (rule reserved_change [OF assms(1,4)]) (simp_all add: allocation_disbursed_posted [OF assms(1-3)] assms(5))
  ultimately show ?thesis
    using pool_rest_cong [of ?db db fid] disbursed_from_posted [OF assms(1-5)] assms(6) by simp
qed

lemma pool_disbursement_reversed:
  assumes "keys_ok db" and "references_ok db" and "d \<in> set (disbursements db)"
    and "\<not> reversed_in (d_id d) (disbursement_reversals db)" and "r_of r = d_id d" and "0 < d_amount d"
  shows "original_pool db fid \<le> original_pool (db\<lparr>disbursement_reversals := disbursement_reversals db @ [r]\<rparr>) fid"
proof -
  let ?db = "db\<lparr>disbursement_reversals := disbursement_reversals db @ [r]\<rparr>"
  from assms(2,3) obtain a where a: "a \<in> set (allocations db)" "d_allocation d = a_id a" "d_source d = a_source a"
    unfolding references_ok_def by fastforce
  have "held ?db a \<le> held db a + d_amount d"
    using assms(6) a(2) by (simp add: held_def allocation_disbursed_reversed [OF assms(1-5)])
  moreover have "reserved_by_source ?db fid ORIGINAL = reserved_by_source db fid ORIGINAL
      + (if a_facility a = fid \<and> a_source a = ORIGINAL then held ?db a - held db a else 0)"
    by (rule reserved_change [OF assms(1) a(1)])
       (simp_all add: allocation_disbursed_reversed [OF assms(1-5)] a(2))
  ultimately show ?thesis
    using pool_rest_cong [of ?db db fid] disbursed_from_reversed [OF assms(1-5) a(1,2)] a(3) by simp
qed

lemma event_pools:
  assumes "ledger_event False db db'" and "ledger_inv db" and "pools_ok db"
  shows "pools_ok db'"
proof -
  from assms(2) have inv: "keys_ok db" "references_ok db" "amounts_ok db" by (simp_all add: ledger_inv_def)
  from assms(1) show ?thesis
  proof (cases rule: ledger_event.cases)
    case quiet
    then show ?thesis using assms(3) pool_cong [of db' db] by (simp add: same_books_def pools_ok_def)
  next
    case (received f t)
    then show ?thesis using assms(3) receipts_posted [OF inv(1,2)]
      by (simp add: pools_ok_def pool_receipts)
  next
    case (receipt_reversed t r)
    then show ?thesis using assms(3) receipts_reversed [OF inv(1,2)]
      by (auto simp: pools_ok_def pool_receipts)
  next
    case (moved m)
    then show ?thesis using assms(3) by (auto simp: pools_ok_def pool_moved [OF inv(1,2)])
  next
    case (movement_reversed m r)
    then have "0 < m_amount m" using inv(3) by (simp add: amounts_ok_def)
    with movement_reversed show ?thesis
      using assms(3) by (simp add: pools_ok_def pool_movement_reversed [OF inv(1,2)])
  next
    case (reserved a)
    then show ?thesis using assms(3) by (auto simp: pools_ok_def pool_reserved [OF inv(2)])
  next
    case (allocation_saved a b)
    have "held db b \<le> held db a"
      using allocation_saved by (cases "a_status a"; cases "a_status b") (simp_all add: held_def)
    moreover have "0 \<le> original_pool db (a_facility a)" using assms(3) by (simp add: pools_ok_def)
    ultimately have "held db b - held db a \<le> original_pool db (a_facility a)" by linarith
    with allocation_saved(1) assms(3) show ?thesis
      by (auto simp: pools_ok_def pool_allocation_saved [OF inv(1) allocation_saved(2,3,5,7)])
  next
    case (disbursed a d)
    then show ?thesis using assms(3) by (simp add: pools_ok_def pool_disbursed [OF inv(1,2)])
  next
    case (disbursement_reversed d r)
    then have "0 < d_amount d" using inv(3) by (simp add: amounts_ok_def)
    with disbursement_reversed assms(3) show ?thesis
      using pool_disbursement_reversed [OF inv(1,2) disbursement_reversed(2,4,3)]
      by (auto simp: pools_ok_def intro: order_trans)
  qed (use assms(3) pool_cong [of db' db] in \<open>simp_all add: pools_ok_def\<close>)
qed

section \<open>Runs of events\<close>

lemma event_inv:
  assumes "ledger_event lax db db'" and "ledger_inv db"
  shows "ledger_inv db'"
  using assms event_keys [OF assms(1)] event_references [OF assms(1)] event_amounts [OF assms(1)]
    event_receipts [OF assms(1)] event_disbursed [OF assms(1)] event_repaid [OF assms(1)]
    event_approvals [OF assms(1)]
  by (simp add: ledger_inv_def)

lemma events_inv: "(ledger_event lax)\<^sup>*\<^sup>* db db' \<Longrightarrow> ledger_inv db \<Longrightarrow> ledger_inv db'"
  by (induction rule: rtranclp_induct) (auto intro: event_inv)

lemma events_pools: "(ledger_event False)\<^sup>*\<^sup>* db db' \<Longrightarrow> ledger_inv db \<Longrightarrow> pools_ok db \<Longrightarrow> pools_ok db'"
  by (induction rule: rtranclp_induct) (auto intro: event_pools events_inv)

end
