(* ===== verification/LedgerRefinement.thy ===== *)
theory LedgerRefinement
  imports LedgerInvariant
begin

text \<open>
  Every operation of the lending ledger is a run of events: the effect of each
  operation that succeeds, the commands the API offers, and the runs of commands and
  of outside changes.
\<close>

section \<open>Runs\<close>

lemma event_run: "ledger_event lax db db' \<Longrightarrow> (ledger_event lax)\<^sup>*\<^sup>* db db'"
  by (rule r_into_rtranclp)

lemma run_event: "(ledger_event lax)\<^sup>*\<^sup>* db db1 \<Longrightarrow> ledger_event lax db1 db2 \<Longrightarrow> (ledger_event lax)\<^sup>*\<^sup>* db db2"
  by (rule rtranclp.rtrancl_into_rtrancl)

lemma run_quiet: "(ledger_event lax)\<^sup>*\<^sup>* db db1 \<Longrightarrow> same_books db1 db2 \<Longrightarrow> (ledger_event lax)\<^sup>*\<^sup>* db db2"
  by (blast intro: run_event ledger_event.quiet)

lemma same_books_refl [simp]: "same_books db db"
  by (simp add: same_books_def)

lemma same_books_trans: "same_books a b \<Longrightarrow> same_books b c \<Longrightarrow> same_books a c"
  by (simp add: same_books_def)

section \<open>What a row that was inserted satisfies\<close>

lemma audit_Inr: "audit w action subject p db = Inr db' \<longleftrightarrow> audit_ok w \<and> db' = db\<lparr>audit_events := audit_events db
    @ [\<lparr>e_action = action, e_subject = subject, e_actor = actor_id p\<rparr>]\<rparr>"
  by (auto simp: audit_def)

lemma audit_same_books: "audit w action subject p db = Inr db' \<Longrightarrow> same_books db db'"
  by (simp add: audit_Inr same_books_def)

text \<open>The end of an operation: the write, its audit row, the answer.\<close>

lemma audited:
  assumes "audit w action subject p db1 = Inr db2" and "db1 = db0" and "Inr (db2, x) = Inr (db', y)"
  shows "audit_ok w \<and> same_books db0 db'"
  using assms by (auto simp: audit_Inr same_books_def)

lemma replayed:
  assumes "find P rows = Some x" and "bindE (ensure c e) (\<lambda>_. Inr (db, x)) = Inr (db', y)"
  shows "db' = db \<and> y \<in> set rows \<and> P y \<and> c"
  using assms by (auto simp: bindE_eq_Inr dest: find_Some_set)

lemma insert_facility_Inr:
  "insert_facility f db = Inr db' \<Longrightarrow> db' = db\<lparr>facilities := facilities db @ [f]\<rparr>
     \<and> 0 < f_commitment_amount f \<and> f_id f \<notin> f_id ` set (facilities db)
     \<and> (\<forall>v. f_approved_amount f = Some v \<longrightarrow> f_commitment_amount f \<le> v)"
  by (auto simp: insert_facility_def bindE_eq_Inr list_ex_iff split: option.splits)

lemma insert_tranche_Inr:
  "insert_tranche t db = Inr db' \<Longrightarrow> db' = db\<lparr>tranches := tranches db @ [t]\<rparr>
     \<and> 0 < t_amount t \<and> t_id t \<notin> t_id ` set (tranches db) \<and> t_key t \<notin> t_key ` set (tranches db)"
  by (auto simp: insert_tranche_def bindE_eq_Inr list_ex_iff)

lemma insert_tranche_reversal_Inr:
  "insert_tranche_reversal r db = Inr db' \<Longrightarrow> db' = db\<lparr>tranche_reversals := tranche_reversals db @ [r]\<rparr>"
  by (auto simp: insert_tranche_reversal_def bindE_eq_Inr)

lemma insert_movement_reversal_Inr:
  "insert_movement_reversal r db = Inr db' \<Longrightarrow> db' = db\<lparr>movement_reversals := movement_reversals db @ [r]\<rparr>"
  by (auto simp: insert_movement_reversal_def bindE_eq_Inr)

lemma insert_disbursement_reversal_Inr:
  "insert_disbursement_reversal r db = Inr db'
     \<Longrightarrow> db' = db\<lparr>disbursement_reversals := disbursement_reversals db @ [r]\<rparr>"
  by (auto simp: insert_disbursement_reversal_def bindE_eq_Inr)

lemma insert_movement_Inr:
  "insert_movement m db = Inr db' \<Longrightarrow> db' = db\<lparr>movements := movements db @ [m]\<rparr>
     \<and> 0 < m_amount m \<and> m_id m \<notin> m_id ` set (movements db) \<and> m_key m \<notin> m_key ` set (movements db)"
  by (auto simp: insert_movement_def bindE_eq_Inr list_ex_iff)

lemma insert_allocation_Inr:
  "insert_allocation a db = Inr db' \<Longrightarrow> db' = db\<lparr>allocations := allocations db @ [a]\<rparr>
     \<and> 0 < a_amount a \<and> a_id a \<notin> a_id ` set (allocations db) \<and> a_loan a \<notin> a_loan ` set (allocations db)"
  by (auto simp: insert_allocation_def bindE_eq_Inr list_ex_iff)

lemma insert_disbursement_Inr:
  "insert_disbursement d db = Inr db' \<Longrightarrow> db' = db\<lparr>disbursements := disbursements db @ [d]\<rparr>
     \<and> 0 < d_amount d \<and> d_id d \<notin> d_id ` set (disbursements db) \<and> d_key d \<notin> d_key ` set (disbursements db)"
  by (auto simp: insert_disbursement_def bindE_eq_Inr list_ex_iff)

lemma insert_repayment_Inr:
  "insert_repayment x db = Inr db' \<Longrightarrow> db' = db\<lparr>repayments := repayments db @ [x]\<rparr>
     \<and> x_id x \<notin> x_id ` set (repayments db) \<and> x_key x \<notin> x_key ` set (repayments db)"
  by (auto simp: insert_repayment_def bindE_eq_Inr list_ex_iff)

lemma insert_installment_Inr:
  "insert_installment i db = Inr db' \<Longrightarrow> db' = db\<lparr>installments := installments db @ [i]\<rparr>"
  by (auto simp: insert_installment_def bindE_eq_Inr)

lemma insert_repayment_allocation_Inr:
  "insert_repayment_allocation ra db = Inr db'
     \<Longrightarrow> db' = db\<lparr>repayment_allocations := repayment_allocations db @ [ra]\<rparr> \<and> 0 < ra_amount ra"
  by (auto simp: insert_repayment_allocation_def bindE_eq_Inr)

lemma save_loan_Inr:
  "save_loan l db = Inr db' \<Longrightarrow>
     db' = db\<lparr>loans := update_where (\<lambda>k. l_id k = l_id l) (\<lambda>_. l) (loans db)\<rparr> \<and> loan_row_ok l"
  by (auto simp: save_loan_def bindE_eq_Inr)

lemma insert_all_allocations:
  "insert_all insert_repayment_allocation ras db = Inr db' \<Longrightarrow>
     db' = db\<lparr>repayment_allocations := repayment_allocations db @ ras\<rparr> \<and> (\<forall>ra \<in> set ras. 0 < ra_amount ra)"
proof (induction ras arbitrary: db)
  case (Cons ra ras)
  then obtain db1 where "insert_repayment_allocation ra db = Inr db1"
    and "insert_all insert_repayment_allocation ras db1 = Inr db'" by (auto simp: bindE_eq_Inr)
  with Cons.IH [of db1] insert_repayment_allocation_Inr [of ra db db1] show ?case by simp
qed simp

lemma insert_all_installments:
  "insert_all insert_installment is db = Inr db' \<Longrightarrow> db' = db\<lparr>installments := installments db @ is\<rparr>"
proof (induction "is" arbitrary: db)
  case (Cons i "is")
  then obtain db1 where "insert_installment i db = Inr db1" and "insert_all insert_installment is db1 = Inr db'"
    by (auto simp: bindE_eq_Inr)
  with Cons.IH [of db1] insert_installment_Inr [of i db db1] show ?case by simp
qed simp

lemmas inserted = insert_facility_Inr insert_tranche_Inr insert_tranche_reversal_Inr insert_movement_Inr
  insert_movement_reversal_Inr insert_allocation_Inr insert_disbursement_Inr insert_disbursement_reversal_Inr
  insert_repayment_Inr

lemma no_key: "find (\<lambda>x. k x = key) rows = None \<Longrightarrow> key \<notin> k ` set rows"
  by (auto simp: find_None_iff)

lemma facility_by_id_set: "facility_by_id db fid = Some f \<Longrightarrow> f \<in> set (facilities db) \<and> f_id f = fid"
  by (auto simp: facility_by_id_def dest: find_Some_set)

section \<open>The effect of each operation\<close>

lemma create_funding_facility_effect:
  assumes "create_funding_facility w data p db = Inr (db', f)"
  shows "f_id f \<notin> f_id ` set (facilities db) \<and> 0 < f_commitment_amount f \<and> f_approved_by f = None
    \<and> f_created_by f = actor_id p \<and> f_status f = DRAFT_FACILITY
    \<and> audit w ''bt.facility.created'' (f_id f) p (db\<lparr>facilities := facilities db @ [f]\<rparr>) = Inr db'"
  using assms unfolding create_funding_facility_def Let_def
  by (elim bindE_InrE) (auto dest: insert_facility_Inr)

lemma approve_funding_facility_effect:
  assumes "approve_funding_facility w fid p db = Inr (db', g)"
  shows "audit_ok w \<and> (\<exists>f \<in> set (facilities db). f_status f = DRAFT_FACILITY \<and> f_created_by f \<noteq> actor_id p
    \<and> g = f\<lparr>f_status := APPROVED_FACILITY, f_approved_by := Some (actor_id p), f_approved_at := Some (now w)\<rparr>
    \<and> same_books (save_facility g db) db')"
  using assms unfolding approve_funding_facility_def Let_def
  by (elim bindE_InrE) (auto simp: audit_Inr same_books_def dest!: facility_by_id_set)

lemma confirm_facility_tranche_effect:
  assumes "confirm_facility_tranche w data p db = Inr (db', t)"
  obtains (replay) "db' = db" and "t \<in> set (tranches db)"
  | (posted) f where "audit_ok w" and "f \<in> set (facilities db)" and "t_facility t = f_id f" and "0 < t_amount t"
      and "receipts db (f_id f) + t_amount t \<le> f_commitment_amount f"
      and "f_status f = APPROVED_FACILITY \<or> f_status f = ACTIVE_FACILITY"
      and "t_id t \<notin> t_id ` set (tranches db)" and "t_key t \<notin> t_key ` set (tranches db)"
      and "same_books (if f_status f = APPROVED_FACILITY
             then save_facility (f\<lparr>f_status := ACTIVE_FACILITY\<rparr>) (db\<lparr>tranches := tranches db @ [t]\<rparr>)
             else db\<lparr>tranches := tranches db @ [t]\<rparr>) db'"
  using assms unfolding confirm_facility_tranche_def Let_def
  apply (elim bindE_InrE)
  apply (split option.splits)
  apply (elim bindE_InrE)
  subgoal premises prems for _ fid f _ key amount ref _ number ron vd ev rate db1 db2
  proof -
    have t: "t_facility t = f_id f" "t_amount t = amount" using prems(19) by auto
    have ins: "insert_tranche t db = Inr db1" using prems(17,19) by (simp only: sum.inject prod.inject)
    have aud: "audit_ok w" "same_books (if f_status f = APPROVED_FACILITY
        then save_facility (f\<lparr>f_status := ACTIVE_FACILITY\<rparr>) db1 else db1) db2"
      using prems(18) by (simp_all only: audit_Inr) (simp_all add: same_books_def)
    have out: "same_books db2 db'" using prems(19) by (auto simp: same_books_def)
    note books = same_books_trans [OF aud(2) out, unfolded conjunct1 [OF insert_tranche_Inr [OF ins]]]
    show thesis
    proof (rule prems(2) [of f])
      show "f \<in> set (facilities db)" using prems(5) facility_by_id_set by auto
      show "receipts db (f_id f) + t_amount t \<le> f_commitment_amount f" using prems(11) t by simp
      show "f_status f = APPROVED_FACILITY \<or> f_status f = ACTIVE_FACILITY" using prems(6) by simp
    qed (use insert_tranche_Inr [OF ins] books aud(1) t in \<open>simp_all split del: if_split\<close>)
  qed
  subgoal premises prems
    using prems(1) replayed [OF prems(10,11)] by simp
  done

lemma reverse_facility_tranche_effect:
  assumes "reverse_facility_tranche w tid data p db = Inr (db', r)"
  obtains (replay) "db' = db" and "r \<in> set (tranche_reversals db)"
  | (posted) t where "audit_ok w" and "t \<in> set (tranches db)" and "r_of r = t_id t"
      and "\<not> reversed_in (t_id t) (tranche_reversals db)" and "t_amount t \<le> original_pool db (t_facility t)"
      and "same_books (db\<lparr>tranche_reversals := tranche_reversals db @ [r]\<rparr>) db'"
  using assms unfolding reverse_facility_tranche_def Let_def
  apply (elim bindE_InrE)
  apply (split option.splits)
  apply (elim bindE_InrE)
  subgoal premises prems for _ t key _ f _ reason db1 db2
  proof -
    have r: "r_of r = t_id t" using prems(13) by auto
    have ins: "insert_tranche_reversal r db = Inr db1" using prems(11,13) by (simp only: sum.inject prod.inject)
    have f: "f_id f = t_facility t" using prems(8) facility_by_id_set by auto
    show thesis
    proof (rule prems(2) [of t])
      show "t \<in> set (tranches db)" using prems(4) by (auto dest: find_Some_set)
      show "t_amount t \<le> original_pool db (t_facility t)"
        using prems(9) f by (simp add: facility_position_def original_pool_def Let_def)
    qed (use r prems(7) audited [OF prems(12) insert_tranche_reversal_Inr [OF ins] prems(13)] in simp_all)
  qed
  subgoal premises prems
    using prems(1) replayed [OF prems(6,7)] by simp
  done

lemma post_facility_movement_effect:
  assumes "post_facility_movement w data p db = Inr (db', m)"
  obtains (replay) "db' = db" and "m \<in> set (movements db)"
  | (posted) f where "audit_ok w" and "f \<in> set (facilities db)" and "m_facility m = f_id f" and "0 < m_amount m"
      and "m_source m = RECOVERED \<Longrightarrow> f_revolving f"
      and "m_amount m \<le> source_available db f (m_source m)"
      and "m_id m \<notin> m_id ` set (movements db)" and "m_key m \<notin> m_key ` set (movements db)"
      and "same_books (db\<lparr>movements := movements db @ [m]\<rparr>) db'"
  using assms unfolding post_facility_movement_def Let_def
  apply (elim bindE_InrE)
  apply (split option.splits)
  apply (elim bindE_InrE)
  subgoal premises prems for _ fid f kind source _ amount key ref _ vd ev db1 db2
  proof -
    have m: "m_facility m = f_id f" "m_amount m = amount" "m_source m = source" using prems(18) by auto
    have ins: "insert_movement m db = Inr db1" using prems(16,18) by (simp only: sum.inject prod.inject)
    show thesis
    proof (rule prems(2) [of f])
      show "f \<in> set (facilities db)" using prems(5) facility_by_id_set by auto
      show "m_amount m \<le> source_available db f (m_source m)" using prems(13) m by simp
      show "m_source m = RECOVERED \<Longrightarrow> f_revolving f" using prems(8) m by simp
    qed (use m insert_movement_Inr [OF ins]
        audited [OF prems(17) conjunct1 [OF insert_movement_Inr [OF ins]] prems(18)] in simp_all)
  qed
  subgoal premises prems
    using prems(1) replayed [OF prems(12,13)] by simp
  done

lemma reverse_facility_movement_effect:
  assumes "reverse_facility_movement w mid data p db = Inr (db', r)"
  obtains (replay) "db' = db" and "r \<in> set (movement_reversals db)"
  | (posted) m where "audit_ok w" and "m \<in> set (movements db)" and "m_id m = mid" and "r_of r = m_id m"
      and "\<not> reversed_in (m_id m) (movement_reversals db)"
      and "same_books (db\<lparr>movement_reversals := movement_reversals db @ [r]\<rparr>) db'"
  using assms unfolding reverse_facility_movement_def Let_def
  apply (elim bindE_InrE)
  apply (split option.splits)
  apply (elim bindE_InrE)
  subgoal premises prems for _ m key _ reason db1 db2
  proof -
    have r: "r_of r = m_id m" using prems(11) by auto
    have ins: "insert_movement_reversal r db = Inr db1" using prems(9,11) by (simp only: sum.inject prod.inject)
    have m: "m \<in> set (movements db)" "m_id m = mid" using prems(4) by (auto dest: find_Some_set)
    show thesis
      by (rule prems(2) [of m])
        (use m r prems(7) audited [OF prems(10) insert_movement_reversal_Inr [OF ins] prems(11)] in simp_all)
  qed
  subgoal premises prems
    using prems(1) replayed [OF prems(6,7)] by simp
  done

lemma save_loan_same_books: "save_loan l db = Inr db' \<Longrightarrow> same_books db db'"
  by (auto dest!: save_loan_Inr simp: same_books_def)

lemma reserve_facility_for_loan_effect:
  assumes "reserve_facility_for_loan w data p db = Inr (db', a)"
  obtains (replay) "db' = db" and "a \<in> set (allocations db)"
  | (posted) f l where "audit_ok w" and "f \<in> set (facilities db)" and "a_facility a = f_id f" and "0 < a_amount a"
      and "live_loan db (l_id l) = Some l" and "a_loan a = l_id l" and "l_status l = PROCESSING"
      and "a_status a = RESERVED" and "f_status f = ACTIVE_FACILITY"
      and "a_amount a \<le> source_available db f (a_source a)"
      and "within_approved l (a_amount a)"
      and "a_id a \<notin> a_id ` set (allocations db)" and "a_loan a \<notin> a_loan ` set (allocations db)"
      and "same_books (db\<lparr>allocations := allocations db @ [a]\<rparr>) db'"
  using assms unfolding reserve_facility_for_loan_def Let_def
  apply (elim bindE_InrE)
  apply (split option.splits)
  apply (elim bindE_InrE)
  subgoal premises prems for _ fid lid f l _ _ _ amount source _ _ key _ _ db1 db2 db3
  proof -
    have a: "a_facility a = f_id f" "a_loan a = l_id l" "a_amount a = amount" "a_source a = source"
      "a_status a = RESERVED" using prems(22) by auto
    have ins: "insert_allocation a db = Inr db1" using prems(19,22) by (simp only: sum.inject prod.inject)
    note new = insert_allocation_Inr [OF ins]
    have "same_books (db\<lparr>allocations := allocations db @ [a]\<rparr>) db2"
      using save_loan_same_books [OF prems(20)] new by simp
    moreover have "audit_ok w \<and> same_books db2 db'" by (rule audited [OF prems(21) refl prems(22)])
    ultimately have fin: "audit_ok w" "same_books (db\<lparr>allocations := allocations db @ [a]\<rparr>) db'"
      using same_books_trans by blast+
    show thesis
    proof (rule prems(2) [of f l])
      show "f \<in> set (facilities db)" using prems(6) facility_by_id_set by auto
      show "live_loan db (l_id l) = Some l" using prems(7) by (auto simp: live_loan_def dest: find_Some_set)
      show "a_amount a \<le> source_available db f (a_source a)" using prems(18) a by simp
      show "within_approved l (a_amount a)"
        using prems(14) a by simp
    qed (use a new fin prems(8,10) in simp_all)
  qed
  subgoal premises prems
    using prems(1) replayed [OF prems(16,17)] by simp
  done

lemma release_facility_allocation_effect:
  assumes "release_facility_allocation w aid data p db = Inr (db', b)"
  obtains (replay) "db' = db" and "b \<in> set (allocations db)" and "a_status b = RELEASED"
  | (posted) a where "audit_ok w" and "a \<in> set (allocations db)" and "a_id b = a_id a" and "a_status a \<noteq> RELEASED"
      and "a_facility b = a_facility a" and "a_loan b = a_loan a" and "a_amount b = a_amount a"
      and "a_source b = a_source a" and "a_status b = RELEASED" and "same_books (save_allocation b db) db'"
  using assms unfolding release_facility_allocation_def Let_def
  apply (elim bindE_InrE)
  apply (split if_splits)
  subgoal premises prems for _ a
    using prems(1,4-) by (auto dest: find_Some_set)
  apply (elim bindE_InrE)
  subgoal premises prems for _ a reason _ db1
  proof -
    have a: "a \<in> set (allocations db)" using prems(4) by (auto dest: find_Some_set)
    show thesis
      by (rule prems(2) [of a])
        (use a prems(5) prems(9) audited [OF prems(8) refl prems(9)] in \<open>auto simp: audit_Inr\<close>)
  qed
  done

section \<open>The effect of the loan operations\<close>

lemma same_books_save: "same_books x y \<Longrightarrow> same_books (save_allocation b x) (save_allocation b y)"
  by (simp add: same_books_def save_allocation_def)

lemma record_status_change_books: "same_books db (record_status_change w l old new p db)"
  by (simp add: record_status_change_def same_books_def)

lemma policy_books: "same_books db (fst (policy_for_fy fy db))"
  by (simp add: policy_for_fy_def same_books_def split: option.split)

lemma verification_books:
  assumes "ensure_verification_requirement lid don db = Inr db'"
  shows "same_books db db'"
proof -
  obtain db1 days where policy: "policy_for_fy (get_operational_fy don) db = (db1, days)" by fastforce
  with assms have "same_books db1 db'"
    by (cases "py_add_days don days") (auto simp: ensure_verification_requirement_def same_books_def)
  moreover have "same_books db db1" using policy_books [of db "get_operational_fy don"] policy by simp
  ultimately show ?thesis by (rule same_books_trans [rotated])
qed

lemma advance_case_books: "advance_case cid db = Inr db' \<Longrightarrow> same_books db db'"
  by (auto simp: advance_case_def bindE_eq_Inr same_books_def)

lemma schedule_impact_books: "schedule_impact w l don db = Inr db' \<Longrightarrow> same_books db db'"
  by (auto simp: schedule_impact_def Let_def bindE_eq_Inr same_books_def dest!: save_loan_Inr)

lemma settle_disbursement_books:
  assumes "settle_disbursement w l a d before p db = Inr db'"
  shows "same_books (if before + d_amount d = a_amount a then save_allocation (a\<lparr>a_status := CONSUMED\<rparr>) db else db) db'"
  using assms unfolding settle_disbursement_def Let_def
  apply (elim bindE_InrE)
  subgoal premises prems for db1 db3 db4 db5
  proof -
    have "same_books db4 db5"
      using prems(4) schedule_impact_books by (cases "before = 0") auto
    then have "same_books db db5"
      using save_loan_same_books [OF prems(1)] verification_books [OF prems(2)] advance_case_books [OF prems(3)]
        record_status_change_books by (meson same_books_trans)
    with prems(5) show ?thesis by (auto intro: same_books_save)
  qed
  done

lemma post_loan_disbursement_effect:
  assumes "post_loan_disbursement w data p db = Inr (db', d)"
  obtains (replay) "db' = db" and "d \<in> set (disbursements db)"
  | (posted) l a db2 where "audit_ok w" and "live_loan db (d_loan d) = Some l" and "l_id l = d_loan d"
      and "a \<in> set (allocations db)" and "a_loan a = d_loan d" and "d_allocation d = a_id a"
      and "d_source d = a_source a" and "a_status a \<noteq> RELEASED" and "0 < d_amount d"
      and "net_disbursed db (d_loan d) None + d_amount d \<le> a_amount a"
      and "d_id d \<notin> d_id ` set (disbursements db)" and "d_key d \<notin> d_key ` set (disbursements db)"
      and "same_books (if net_disbursed db (d_loan d) None + d_amount d = a_amount a
             then save_allocation (a\<lparr>a_status := CONSUMED\<rparr>) (db\<lparr>disbursements := disbursements db @ [d]\<rparr>)
             else db\<lparr>disbursements := disbursements db @ [d]\<rparr>) db'"
      and "settle_disbursement w l a d (net_disbursed db (d_loan d) None) p
             (db\<lparr>disbursements := disbursements db @ [d]\<rparr>) = Inr db2"
      and "loans db' = loans db2"
  using assms unfolding post_loan_disbursement_def Let_def
  apply (elim bindE_InrE)
  apply (split option.splits)
  apply (elim bindE_InrE)
  subgoal premises prems for _ lid l _ a _ amount key _ _ sequence _ ref don vd bank db1 db2 db3
  proof -
    have l: "l_id l = lid" "live_loan db lid = Some l"
      using prems(5) by (auto simp: live_loan_def dest: find_Some_set)
    have d: "d_loan d = lid" "d_allocation d = a_id a" "d_source d = a_source a" "d_amount d = amount"
      using prems(23) l by auto
    have ins: "insert_disbursement d db = Inr db1" using prems(20,23) by (simp only: sum.inject prod.inject)
    note new = insert_disbursement_Inr [OF ins]
    have set: "settle_disbursement w l a d (net_disbursed db (d_loan d) None) p
        (db\<lparr>disbursements := disbursements db @ [d]\<rparr>) = Inr db2"
      using prems(21,23) new l d(1) by (simp only: sum.inject prod.inject)
    have out: "audit_ok w \<and> same_books db2 db'" by (rule audited [OF prems(22) refl prems(23)])
    have a: "a \<in> set (allocations db)" "a_loan a = lid"
      using prems(7) l by (auto simp: allocation_of_loan_def dest: find_Some_set)
    show thesis
    proof (rule prems(2) [of l a db2])
      show "loans db' = loans db2" using prems(22,23) by (auto simp: audit_Inr)
      show "same_books (if net_disbursed db (d_loan d) None + d_amount d = a_amount a
             then save_allocation (a\<lparr>a_status := CONSUMED\<rparr>) (db\<lparr>disbursements := disbursements db @ [d]\<rparr>)
             else db\<lparr>disbursements := disbursements db @ [d]\<rparr>) db'"
        using same_books_trans [OF settle_disbursement_books [OF set]] out by blast
      show "net_disbursed db (d_loan d) None + d_amount d \<le> a_amount a" using prems(13) l d by simp
    qed (use l d a new out prems(8) set in simp_all)
  qed
  subgoal premises prems
    using prems(1) replayed [OF prems(11,12)] by simp
  done

lemma loan_after_reversal_id: "l_id (loan_after_reversal l db) = l_id l"
  by (simp add: loan_after_reversal_def Let_def split: list.splits)

lemma reverse_loan_disbursement_effect:
  assumes "reverse_loan_disbursement w did data p db = Inr (db', r)"
  obtains (replay) "db' = db" and "r \<in> set (disbursement_reversals db)"
  | (posted) d a where "audit_ok w" and "d \<in> set (disbursements db)" and "d_id d = did" and "r_of r = d_id d"
      and "\<not> reversed_in (d_id d) (disbursement_reversals db)"
      and "\<And>x. x \<in> set (repayments db) \<Longrightarrow> x_loan x = d_loan d \<Longrightarrow> x_kind x \<noteq> PAYMENT"
      and "a \<in> set (allocations db)" and "a_id a = d_allocation d"
      and "same_books (save_allocation (a\<lparr>a_status := RESERVED\<rparr>)
             (db\<lparr>disbursement_reversals := disbursement_reversals db @ [r]\<rparr>)) db'"
  using assms unfolding reverse_loan_disbursement_def Let_def
  apply (elim bindE_InrE)
  apply (split option.splits)
  apply (elim bindE_InrE)
  subgoal premises prems for _ d owner _ _ key _ reason db1 l db2 a db3
  proof -
    have r: "r_of r = d_id d" using prems(17) by auto
    have ins: "insert_disbursement_reversal r db = Inr db1" using prems(12,17) by (simp only: sum.inject prod.inject)
    note new = insert_disbursement_reversal_Inr [OF ins]
    have d: "d \<in> set (disbursements db)" "d_id d = did" using prems(4) by (auto dest: find_Some_set)
    have b2: "same_books (db\<lparr>disbursement_reversals := disbursement_reversals db @ [r]\<rparr>) db2"
      using save_loan_same_books [OF prems(14)] new by simp
    have a: "a \<in> set (allocations db)" "a_id a = d_allocation d"
      using prems(15) b2 by (auto dest: find_Some_set simp: same_books_def)
    have out: "audit_ok w \<and> same_books (save_allocation (a\<lparr>a_status := RESERVED\<rparr>) db2) db'"
      by (rule audited [OF prems(16) refl prems(17)])
    show thesis
    proof (rule prems(2) [of d a])
      show "same_books (save_allocation (a\<lparr>a_status := RESERVED\<rparr>)
             (db\<lparr>disbursement_reversals := disbursement_reversals db @ [r]\<rparr>)) db'"
        using same_books_trans [OF same_books_save [OF b2]] out by blast
      show "\<And>x. x \<in> set (repayments db) \<Longrightarrow> x_loan x = d_loan d \<Longrightarrow> x_kind x \<noteq> PAYMENT"
        using prems(7) by (auto simp: list_ex_iff)
    qed (use r d a out prems(10) in simp_all)
  qed
  subgoal premises prems
    using prems(1) replayed [OF prems(9,10)] by simp
  done

lemma create_repayment_schedule_effect:
  assumes "create_repayment_schedule w lid raws version p db = Inr (db', rows)"
  obtains (replay) "db' = db" and "set rows \<subseteq> set (installments db)"
  | (posted) "audit_ok w" and "0 < version" and "sum_list (map i_principal_due rows) = net_disbursed db lid None"
      and "schedule_rows w lid version p 0 [] raws = Inr rows"
      and "filter (\<lambda>i. i_loan i = lid \<and> i_version i = version) (installments db) = []"
      and "installments db' = installments db @ rows" and "same_books db db'"
  using assms unfolding create_repayment_schedule_def Let_def
  apply (elim bindE_InrE)
  apply (split list.splits)
  apply (elim bindE_InrE)
  subgoal premises prems for _ l _ _ _ rows' _ db1 db2
  proof -
    have l: "l_id l = lid" using prems(4) by (auto simp: live_loan_def dest: find_Some_set)
    have rows: "rows' = rows" using prems(13) by simp
    note new = insert_all_installments [OF prems(11)]
    have "audit_ok w \<and> same_books db1 db'" by (rule audited [OF prems(12) refl prems(13)])
    moreover have "installments db' = installments db1" using prems(12,13) by (auto simp: audit_Inr)
    moreover have "same_books db db1" using new by (simp add: same_books_def)
    moreover have "filter (\<lambda>i. i_loan i = l_id l \<and> i_version i = version) (installments db) = []"
      using prems(7) by (metis set_empty set_sort)
    ultimately show thesis
      using prems(2,6,9,10) new same_books_trans unfolding l rows by simp
  qed
  subgoal premises prems
    using prems(1,7) by (metis (no_types, lifting) prems(8) sum.inject(2) prod.inject filter_is_subset set_sort)
  done

lemma allocation_rows_transaction: "ra \<in> set (allocation_rows w xid k ls) \<Longrightarrow> ra_transaction ra = xid"
  by (induction w xid k ls rule: allocation_rows.induct) auto

lemma allocation_rows_content:
  "map (\<lambda>ra. (ra_installment ra, ra_component ra, ra_amount ra)) (allocation_rows w xid k ls) = ls"
  by (induction w xid k ls rule: allocation_rows.induct) auto

text \<open>The rows a payment writes, from its parsed lines.\<close>

definition payment_rows :: "world \<Rightarrow> string \<Rightarrow> payment_line list \<Rightarrow> repayment_allocation list" where
  "payment_rows w xid lines = allocation_rows w xid 1 (map (\<lambda>(i, c, v). (Some (i_id i), c, v)) lines)"

lemma allocation_rows_totals:
  "sum_list (map ra_amount (allocation_rows w xid k (map (\<lambda>(i, c, v). (g i, c, v)) lines)))
     = sum_list (map line_amount lines)"
  "principal_total (allocation_rows w xid k (map (\<lambda>(i, c, v). (g i, c, v)) lines)) = principal_in lines"
  by (induction lines arbitrary: k) (auto simp: line_amount_def principal_total_def principal_in_def)

lemma payment_rows_totals:
  "sum_list (map ra_amount (payment_rows w xid lines)) = sum_list (map line_amount lines)"
  "principal_total (payment_rows w xid lines) = principal_in lines"
  unfolding payment_rows_def by (rule allocation_rows_totals)+

lemma post_repayment_transaction_effect:
  assumes "post_repayment_transaction w data raws p db = Inr (db', x)"
  obtains (replay) "db' = db" and "x \<in> set (repayments db)"
  | (posted) l lines db2 where "audit_ok w" and "live_loan db (x_loan x) = Some l" and "l_id l = x_loan x"
      and "x_kind x = PAYMENT" and "x_reversal_of x = None"
      and "x_id x \<notin> x_id ` set (repayments db)" and "x_key x \<notin> x_key ` set (repayments db)"
      and "parse_allocations db (x_loan x) [] (the_list raws) = Inr lines"
      and "sum_list (map line_amount lines) = x_amount x"
      and "net_principal_repaid db (x_loan x) None + principal_in lines \<le> net_disbursed db (x_loan x) None"
      and "x_received_on x \<le> today w" and "x_value_date x \<le> today w"
      and "\<And>ra. ra \<in> set (payment_rows w (x_id x) lines) \<Longrightarrow> 0 < ra_amount ra"
      and "db2 = with_repayment x (payment_rows w (x_id x) lines) db" and "same_books db2 db'"
      and "loans db' = update_where (\<lambda>k. l_id k = x_loan x)
             (\<lambda>_. loan_after_repayment l (x_value_date x) db2) (loans db)"
  using assms unfolding post_repayment_transaction_def Let_def
  apply (elim bindE_InrE)
  apply (split option.splits)
  apply (elim bindE_InrE)
  subgoal premises prems for _ lid l _ _ key amount ref _ _ lines _ _ ron vd _ _ ev db1 db2 db3 db4
  proof -
    have l: "l_id l = lid" "live_loan db lid = Some l"
      using prems(5) by (auto simp: live_loan_def dest: find_Some_set)
    have x: "x_loan x = lid" "x_kind x = PAYMENT" "x_reversal_of x = None" "x_amount x = amount"
      "x_received_on x = ron" "x_value_date x = vd" "x_id x = new_id w 0"
      using prems(26) l by auto
    have ins: "insert_repayment x db = Inr db1" using prems(22,26) by (simp only: sum.inject prod.inject)
    note new = insert_repayment_Inr [OF ins]
    have "insert_all insert_repayment_allocation (payment_rows w (x_id x) lines) db1 = Inr db2"
      using prems(23) x by (simp add: payment_rows_def)
    note rows = insert_all_allocations [OF this]
    have db2: "db2 = with_repayment x (payment_rows w (x_id x) lines) db"
      using new rows by (simp add: with_repayment_def)
    have out: "audit_ok w \<and> same_books db3 db'" by (rule audited [OF prems(25) refl prems(26)])
    show thesis
    proof (rule prems(2) [of l lines db2])
      show "loans db' = update_where (\<lambda>k. l_id k = x_loan x)
             (\<lambda>_. loan_after_repayment l (x_value_date x) db2) (loans db)"
        using save_loan_Inr [OF prems(24)] prems(25,26) x l db2
        by (auto simp: audit_Inr loan_after_repayment_def with_repayment_def)
      show "same_books db2 db'" using save_loan_same_books [OF prems(24)] out same_books_trans by blast
    qed (use l x new out db2 rows prems(14,15,16,19) in simp_all)
  qed
  subgoal premises prems
    using prems(1) replayed [OF prems(10,11)] by simp
  done

lemma reverse_repayment_transaction_effect:
  assumes "reverse_repayment_transaction w tid data p db = Inr (db', y)"
  obtains (replay) "db' = db" and "y \<in> set (repayments db)"
  | (posted) x ras where "audit_ok w" and "x \<in> set (repayments db)" and "x_id x = tid" and "x_kind x = PAYMENT"
      and "x_kind y = REVERSAL" and "x_reversal_of y = Some (x_id x)" and "x_loan y = x_loan x"
      and "x_amount y = x_amount x" and "\<not> repayment_reversed db (x_id x)"
      and "x_id y \<notin> x_id ` set (repayments db)" and "x_key y \<notin> x_key ` set (repayments db)"
      and "\<And>ra. ra \<in> set ras \<Longrightarrow> ra_transaction ra = x_id y \<and> 0 < ra_amount ra"
      and "map (\<lambda>ra. (ra_installment ra, ra_component ra, ra_amount ra)) ras
        = map (\<lambda>ra. (ra_installment ra, ra_component ra, ra_amount ra))
            (filter (\<lambda>ra. ra_transaction ra = x_id x) (repayment_allocations db))"
      and "same_books (with_repayment y ras db) db'"
  using assms unfolding reverse_repayment_transaction_def Let_def
  apply (elim bindE_InrE)
  apply (split option.splits)
  apply (elim bindE_InrE)
  subgoal premises prems for _ x owner _ key _ reason ref ev db1 db2 l db3 db4
  proof -
    let ?content = "\<lambda>ra. (ra_installment ra, ra_component ra, ra_amount ra)"
    let ?ras = "allocation_rows w (x_id y) 1
      (map ?content (filter (\<lambda>ra. ra_transaction ra = x_id x) (repayment_allocations db)))"
    have y: "x_loan y = x_loan x" "x_kind y = REVERSAL" "x_reversal_of y = Some (x_id x)"
      "x_amount y = x_amount x" "x_id y = new_id w 0"
      using prems(18) by auto
    have ins: "insert_repayment y db = Inr db1" using prems(13,18) by (simp only: sum.inject prod.inject)
    note new = insert_repayment_Inr [OF ins]
    have "insert_all insert_repayment_allocation ?ras db1 = Inr db2"
      using prems(14) y by simp
    note rows = insert_all_allocations [OF this]
    have db2: "db2 = with_repayment y ?ras db" using new rows by (simp add: with_repayment_def)
    have "same_books db2 db3"
      using prems(16) save_loan_same_books by (cases "l_status l = REPAID") auto
    moreover have out: "audit_ok w \<and> same_books db3 db'" by (rule audited [OF prems(17) refl prems(18)])
    ultimately have books: "same_books (with_repayment y ?ras db) db'"
      using same_books_trans db2 by blast
    have x: "x \<in> set (repayments db)" "x_id x = tid" "x_kind x = PAYMENT"
      using prems(4) by (auto dest: find_Some_set)
    show thesis
    proof (rule prems(2) [of x ?ras])
      show "\<not> repayment_reversed db (x_id x)"
        using prems(9) by (auto simp: repayment_reversed_def list_ex_iff)
      show "\<And>ra. ra \<in> set ?ras \<Longrightarrow> ra_transaction ra = x_id y \<and> 0 < ra_amount ra"
        using rows allocation_rows_transaction by blast
    qed (use x y new out books in \<open>simp_all add: allocation_rows_content\<close>)
  qed
  subgoal premises prems
    using prems(1) replayed [OF prems(8,9)] by simp
  done

section \<open>Commands\<close>

text \<open>The writes the API offers on the ledger (views.py), with the request of each.\<close>

datatype ledger_command =
    CreateFacility payload
  | ApproveFacility string
  | ConfirmTranche payload
  | ReverseTranche string payload
  | PostMovement payload
  | ReverseMovement string payload
  | ReserveFunds payload
  | ReleaseFunds string payload
  | PostDisbursement payload
  | ReverseDisbursement string payload
  | CreateSchedule string "payload list" int
  | PostRepayment payload "payload list option"
  | ReverseRepayment string payload

definition outcome :: "(ledger \<times> 'a) result \<Rightarrow> ledger result" where
  "outcome r = bindE r (\<lambda>x. Inr (fst x))"

definition run_command :: "world \<Rightarrow> principal \<Rightarrow> ledger_command \<Rightarrow> ledger \<Rightarrow> ledger result" where
  "run_command w p c db = (case c of
      CreateFacility data \<Rightarrow> outcome (create_funding_facility w data p db)
    | ApproveFacility k \<Rightarrow> outcome (approve_funding_facility w k p db)
    | ConfirmTranche data \<Rightarrow> outcome (confirm_facility_tranche w data p db)
    | ReverseTranche k data \<Rightarrow> outcome (reverse_facility_tranche w k data p db)
    | PostMovement data \<Rightarrow> outcome (post_facility_movement w data p db)
    | ReverseMovement k data \<Rightarrow> outcome (reverse_facility_movement w k data p db)
    | ReserveFunds data \<Rightarrow> outcome (reserve_facility_for_loan w data p db)
    | ReleaseFunds k data \<Rightarrow> outcome (release_facility_allocation w k data p db)
    | PostDisbursement data \<Rightarrow> outcome (post_loan_disbursement w data p db)
    | ReverseDisbursement k data \<Rightarrow> outcome (reverse_loan_disbursement w k data p db)
    | CreateSchedule k raws version \<Rightarrow> outcome (create_repayment_schedule w k raws version p db)
    | PostRepayment data raws \<Rightarrow> outcome (post_repayment_transaction w data raws p db)
    | ReverseRepayment k data \<Rightarrow> outcome (reverse_repayment_transaction w k data p db))"

lemma outcome_Inr: "outcome r = Inr db' \<longleftrightarrow> (\<exists>x. r = Inr (db', x))"
  by (auto simp: outcome_def bindE_eq_Inr)

text \<open>The command reverses a disbursement whose allocation has been released.\<close>

definition reopens_released :: "ledger_command \<Rightarrow> ledger \<Rightarrow> bool" where
  "reopens_released c db = (case c of
      ReverseDisbursement k data \<Rightarrow> list_ex (\<lambda>d. d_id d = k
        \<and> list_ex (\<lambda>a. a_id a = d_allocation d \<and> a_status a = RELEASED) (allocations db)) (disbursements db)
    | _ \<Rightarrow> False)"

section \<open>Commands are runs of events\<close>

lemma create_events:
  assumes "create_funding_facility w data p db = Inr (db', f)"
  shows "(ledger_event lax)\<^sup>*\<^sup>* db db'"
proof -
  note eff = create_funding_facility_effect [OF assms]
  then have "ledger_event lax db (db\<lparr>facilities := facilities db @ [f]\<rparr>)" by (intro ledger_event.facility_added) auto
  with eff show ?thesis using audit_same_books run_quiet event_run by blast
qed

lemma approve_events:
  assumes "approve_funding_facility w k p db = Inr (db', g)"
  shows "(ledger_event lax)\<^sup>*\<^sup>* db db'"
proof -
  from approve_funding_facility_effect [OF assms] obtain f where f: "f \<in> set (facilities db)"
    "f_created_by f \<noteq> actor_id p"
    "g = f\<lparr>f_status := APPROVED_FACILITY, f_approved_by := Some (actor_id p), f_approved_at := Some (now w)\<rparr>"
    "same_books (save_facility g db) db'" by blast
  have "ledger_event lax db (save_facility g db)"
    by (rule ledger_event.facility_saved [OF f(1)]) (use f(2) in \<open>simp_all add: f(3)\<close>)
  then show ?thesis using f(4) run_quiet event_run by blast
qed

lemma confirm_events:
  assumes "confirm_facility_tranche w data p db = Inr (db', t)"
  shows "(ledger_event lax)\<^sup>*\<^sup>* db db'"
  using assms
proof (cases rule: confirm_facility_tranche_effect)
  case (posted f)
  let ?db = "db\<lparr>tranches := tranches db @ [t]\<rparr>"
  have one: "(ledger_event lax)\<^sup>*\<^sup>* db ?db"
    using posted by (intro event_run ledger_event.received) auto
  have "ledger_event lax ?db (save_facility (f\<lparr>f_status := ACTIVE_FACILITY\<rparr>) ?db)"
    by (rule ledger_event.facility_saved [of f]) (use posted(2) in simp_all)
  with one have "(ledger_event lax)\<^sup>*\<^sup>* db (if f_status f = APPROVED_FACILITY
      then save_facility (f\<lparr>f_status := ACTIVE_FACILITY\<rparr>) ?db else ?db)"
    by (auto intro: run_event)
  then show ?thesis using posted(9) by (rule run_quiet)
qed simp

lemma reverse_tranche_events:
  assumes "reverse_facility_tranche w k data p db = Inr (db', r)"
  shows "(ledger_event lax)\<^sup>*\<^sup>* db db'"
  using assms
proof (cases rule: reverse_facility_tranche_effect)
  case (posted t)
  then have "(ledger_event lax)\<^sup>*\<^sup>* db (db\<lparr>tranche_reversals := tranche_reversals db @ [r]\<rparr>)"
    by (intro event_run ledger_event.receipt_reversed) auto
  then show ?thesis using posted(6) by (rule run_quiet)
qed simp

lemma movement_events:
  assumes "post_facility_movement w data p db = Inr (db', m)"
  shows "(ledger_event lax)\<^sup>*\<^sup>* db db'"
  using assms
proof (cases rule: post_facility_movement_effect)
  case (posted f)
  then have "(ledger_event lax)\<^sup>*\<^sup>* db (db\<lparr>movements := movements db @ [m]\<rparr>)"
    by (intro event_run ledger_event.moved) (auto simp: source_available_original)
  then show ?thesis using posted(9) by (rule run_quiet)
qed simp

lemma reverse_movement_events:
  assumes "reverse_facility_movement w k data p db = Inr (db', r)"
  shows "(ledger_event lax)\<^sup>*\<^sup>* db db'"
  using assms
proof (cases rule: reverse_facility_movement_effect)
  case (posted m)
  then have "(ledger_event lax)\<^sup>*\<^sup>* db (db\<lparr>movement_reversals := movement_reversals db @ [r]\<rparr>)"
    by (intro event_run ledger_event.movement_reversed) auto
  then show ?thesis using posted(6) by (rule run_quiet)
qed simp

lemma reserve_events:
  assumes "reserve_facility_for_loan w data p db = Inr (db', a)"
  shows "(ledger_event lax)\<^sup>*\<^sup>* db db'"
  using assms
proof (cases rule: reserve_facility_for_loan_effect)
  case (posted f l)
  then have "(ledger_event lax)\<^sup>*\<^sup>* db (db\<lparr>allocations := allocations db @ [a]\<rparr>)"
    by (intro event_run ledger_event.reserved) (auto simp: source_available_original)
  then show ?thesis using posted(14) by (rule run_quiet)
qed simp

lemma release_events:
  assumes "release_facility_allocation w k data p db = Inr (db', b)"
  shows "(ledger_event lax)\<^sup>*\<^sup>* db db'"
  using assms
proof (cases rule: release_facility_allocation_effect)
  case (posted a)
  then have "(ledger_event lax)\<^sup>*\<^sup>* db (save_allocation b db)"
    by (intro event_run ledger_event.allocation_saved) auto
  then show ?thesis using posted(10) by (rule run_quiet)
qed simp

lemma disbursement_events:
  assumes "post_loan_disbursement w data p db = Inr (db', d)" and "ledger_inv db"
  shows "(ledger_event lax)\<^sup>*\<^sup>* db db'"
  using assms(1)
proof (cases rule: post_loan_disbursement_effect)
  case (posted l a db2)
  let ?db = "db\<lparr>disbursements := disbursements db @ [d]\<rparr>"
  have net: "net_disbursed db (d_loan d) None = allocation_disbursed db (a_id a)"
    using net_disbursed_allocation [OF _ _ posted(4)] assms(2) posted(5) by (simp add: ledger_inv_def)
  have one: "(ledger_event lax)\<^sup>*\<^sup>* db ?db"
    using posted net by (intro event_run ledger_event.disbursed) auto
  have "ledger_event lax ?db (save_allocation (a\<lparr>a_status := CONSUMED\<rparr>) ?db)"
    by (rule ledger_event.allocation_saved [of a]) (use posted(4,8) in simp_all)
  with one have "(ledger_event lax)\<^sup>*\<^sup>* db (if net_disbursed db (d_loan d) None + d_amount d = a_amount a
      then save_allocation (a\<lparr>a_status := CONSUMED\<rparr>) ?db else ?db)"
    by (auto intro: run_event)
  then show ?thesis using posted(13) by (rule run_quiet)
qed simp

lemma reverse_disbursement_events:
  assumes "reverse_loan_disbursement w k data p db = Inr (db', r)"
    and "reopens_released (ReverseDisbursement k data) db \<Longrightarrow> lax"
  shows "(ledger_event lax)\<^sup>*\<^sup>* db db'"
  using assms(1)
proof (cases rule: reverse_loan_disbursement_effect)
  case (posted d a)
  let ?db = "db\<lparr>disbursement_reversals := disbursement_reversals db @ [r]\<rparr>"
  have one: "(ledger_event lax)\<^sup>*\<^sup>* db ?db"
    using posted by (intro event_run ledger_event.disbursement_reversed) auto
  have "a_status a = RELEASED \<Longrightarrow> lax"
    using assms(2) posted(2,3,7,8) by (auto simp: reopens_released_def list_ex_iff)
  then have "ledger_event lax ?db (save_allocation (a\<lparr>a_status := RESERVED\<rparr>) ?db)"
    by (intro ledger_event.allocation_saved [of a]) (use posted(7) in simp_all)
  with one show ?thesis using posted(9) run_event run_quiet by meson
qed simp

lemma schedule_events:
  assumes "create_repayment_schedule w k raws version p db = Inr (db', rows)"
  shows "(ledger_event lax)\<^sup>*\<^sup>* db db'"
  using assms by (cases rule: create_repayment_schedule_effect) (auto intro: ledger_event.quiet)

lemma repayment_events:
  assumes "post_repayment_transaction w data raws p db = Inr (db', x)"
  shows "(ledger_event lax)\<^sup>*\<^sup>* db db'"
  using assms
proof (cases rule: post_repayment_transaction_effect)
  case (posted l lines db2)
  have "ledger_event lax db (with_repayment x (payment_rows w (x_id x) lines) db)"
    unfolding with_repayment_def
  proof (rule ledger_event.repaid [OF posted(4-7)])
    show "\<And>ra. ra \<in> set (payment_rows w (x_id x) lines) \<Longrightarrow> ra_transaction ra = x_id x \<and> 0 < ra_amount ra"
      using posted(13) allocation_rows_transaction unfolding payment_rows_def by blast
  qed (use posted(9,10) payment_rows_totals in \<open>simp_all add: principal_total_def\<close>)
  then show ?thesis using posted(14,15) run_quiet event_run by blast
qed simp

lemma reverse_repayment_events:
  assumes "reverse_repayment_transaction w k data p db = Inr (db', y)"
  shows "(ledger_event lax)\<^sup>*\<^sup>* db db'"
  using assms
proof (cases rule: reverse_repayment_transaction_effect)
  case (posted x ras)
  have "ledger_event lax db (with_repayment y ras db)"
    unfolding with_repayment_def by (rule ledger_event.repayment_undone [OF posted(2,4-13)])
  then show ?thesis using posted(14) run_quiet event_run by blast
qed simp

lemma command_events:
  assumes "run_command w p c db = Inr db'" and "ledger_inv db" and "reopens_released c db \<Longrightarrow> lax"
  shows "(ledger_event lax)\<^sup>*\<^sup>* db db'"
proof (cases c)
  case (ReverseDisbursement k data)
  with assms(1,3) show ?thesis
    by (auto simp: run_command_def outcome_Inr intro: reverse_disbursement_events)
qed (use assms(1,2) in \<open>auto simp: run_command_def outcome_Inr intro: create_events approve_events confirm_events
      reverse_tranche_events movement_events reverse_movement_events reserve_events release_events
      disbursement_events schedule_events repayment_events reverse_repayment_events\<close>)

section \<open>Runs of the ledger\<close>

definition empty_ledger :: ledger where
  "empty_ledger = \<lparr>organizations = [], memberships = [], facilities = [], tranches = [],
     tranche_reversals = [], movements = [], movement_reversals = [], loans = [], allocations = [],
     disbursements = [], disbursement_reversals = [], installments = [], repayments = [],
     repayment_allocations = [], purpose_allocations = [], enrolment_snapshots = [],
     purpose_follow_up = [], case_statuses = [], verification_policies = [],
     verification_requirements = [], impact_assessments = [], status_history = [],
     disbursement_notices = [], netsuite_queue = [], audit_events = []\<rparr>"

text \<open>
  \<open>outside\<close> is whatever the rest of the platform does between two commands: it may
  change loans, plans and every other table, but lending_ledger.py is the only writer of
  the books.
\<close>

inductive reachable :: "ledger \<Rightarrow> bool" where
  start: "same_books empty_ledger db \<Longrightarrow> reachable db"
| command: "reachable db \<Longrightarrow> run_command w p c db = Inr db' \<Longrightarrow> reachable db'"
| outside: "reachable db \<Longrightarrow> same_books db db' \<Longrightarrow> reachable db'"

inductive_cases reachableE: "reachable db"

lemma empty_ledger_inv: "ledger_inv empty_ledger"
  by (simp add: ledger_inv_def inv_defs receipts_ok_def disbursed_ok_def repaid_ok_def empty_ledger_def
      balance_defs)

lemma same_books_inv: "same_books db db' \<Longrightarrow> ledger_inv db \<Longrightarrow> ledger_inv db'"
  using event_inv [OF ledger_event.quiet] .

lemma reachable_inv: "reachable db \<Longrightarrow> ledger_inv db"
proof (induction rule: reachable.induct)
  case (command db w p c db')
  then show ?case using command_events [of w p c db db' True] events_inv by blast
qed (auto intro: same_books_inv empty_ledger_inv)

end
