(* ===== verification/LedgerScenario.thy ===== *)
theory LedgerScenario
  imports LedgerRefinement
begin

text \<open>
  A small portfolio on which the properties of the ledger are evaluated: one lending
  partner, two loans, and the requests that take a facility from its creation to a
  repayment.
\<close>

definition demo_world :: "string \<Rightarrow> world" where
  "demo_world tag = \<lparr>parse_date = (\<lambda>s. Inr (if s = ''2026-03-02'' then Some (Date 2026 3 2) else None)),
     new_id = (\<lambda>k. tag @ replicate k CHR ''+''), now = 100, today = Date 2026 3 5, audit_ok = True,
     netsuite_on = False\<rparr>"

definition demo_user :: "string \<Rightarrow> principal" where
  "demo_user name = \<lparr>p_user_id = Some name, p_id = None, p_role = ''CountryDirector'',
     p_permissions = [FACILITY_MANAGE, FACILITY_APPROVE, FACILITY_TRANSFER, ALLOCATION_MANAGE,
       DISBURSEMENT_WRITE, LOAN_WRITE, REPAYMENT_WRITE, REPAYMENT_REVERSE]\<rparr>"

definition demo_loan :: "string \<Rightarrow> loan" where
  "demo_loan k = \<lparr>l_id = k, l_mfi = ''m'', l_case = ''c'', l_purpose = ''p'', l_facility = None,
     l_officer_reference = [], l_requested_amount = Some 80000, l_approved_amount = Some 80000,
     l_disbursed_amount = None, l_currency = ''UGX'', l_disbursement_date = None,
     l_disbursement_confirmed_at = None, l_status = PROCESSING, l_registered_by = ''o'',
     l_last_repayment_data_date = None, l_impact_status = IMPACT_NOT_DUE, l_deleted = False\<rparr>"

definition demo_ledger :: ledger where
  "demo_ledger = empty_ledger\<lparr>
     organizations := [\<lparr>o_id = ''m'', o_country_code = ''UG'', o_active = True, o_deleted = False\<rparr>],
     loans := [demo_loan ''l1'', demo_loan ''l2''],
     purpose_allocations := [\<lparr>pa_loan = ''l1'', pa_planned = 80000, pa_reported = None\<rparr>,
       \<lparr>pa_loan = ''l2'', pa_planned = 80000, pa_reported = None\<rparr>],
     enrolment_snapshots := [\<lparr>s_loan = ''l1'', s_kind = BASELINE, s_as_of = Date 2026 1 1\<rparr>,
       \<lparr>s_loan = ''l2'', s_kind = BASELINE, s_as_of = Date 2026 1 1\<rparr>],
     purpose_follow_up := [(''p'', 30)], case_statuses := [(''c'', ''active'')]\<rparr>"

definition facility_request :: payload where
  "facility_request = [''mfiId'' \<mapsto> JStr ''m'', ''startsOn'' \<mapsto> JStr ''2026-03-02'',
     ''externalReference'' \<mapsto> JStr ''F1'', ''name'' \<mapsto> JStr ''Fund'', ''commitmentAmount'' \<mapsto> JInt 1000,
     ''revolving'' \<mapsto> JBool True]"

definition receipt_request :: payload where
  "receipt_request = [''facilityId'' \<mapsto> JStr ''a'', ''idempotencyKey'' \<mapsto> JStr ''k1'', ''amount'' \<mapsto> JInt 1000,
     ''externalReference'' \<mapsto> JStr ''T1'', ''receivedOn'' \<mapsto> JStr ''2026-03-02'',
     ''valueDate'' \<mapsto> JStr ''2026-03-02'', ''evidenceReference'' \<mapsto> JStr ''E1'']"

definition reserve_request :: "string \<Rightarrow> string \<Rightarrow> int \<Rightarrow> payload" where
  "reserve_request loan key amount = [''facilityId'' \<mapsto> JStr ''a'', ''loanId'' \<mapsto> JStr loan,
     ''amount'' \<mapsto> JInt amount, ''idempotencyKey'' \<mapsto> JStr key]"

definition disbursement_request :: "string \<Rightarrow> string \<Rightarrow> int \<Rightarrow> payload" where
  "disbursement_request loan key amount = [''loanId'' \<mapsto> JStr loan, ''idempotencyKey'' \<mapsto> JStr key,
     ''amount'' \<mapsto> JInt amount, ''sequence'' \<mapsto> JInt 1, ''externalReference'' \<mapsto> JStr key,
     ''disbursedOn'' \<mapsto> JStr ''2026-03-02'', ''valueDate'' \<mapsto> JStr ''2026-03-02'', ''bankReference'' \<mapsto> JStr ''B'']"

definition reversal_request :: "string \<Rightarrow> payload" where
  "reversal_request key = [''idempotencyKey'' \<mapsto> JStr key, ''reason'' \<mapsto> JStr ''error'',
     ''externalReference'' \<mapsto> JStr key, ''evidenceReference'' \<mapsto> JStr ''E'']"

definition movement_request :: payload where
  "movement_request = [''facilityId'' \<mapsto> JStr ''a'', ''kind'' \<mapsto> JStr ''capital_return'',
     ''capitalSource'' \<mapsto> JStr ''original'', ''amount'' \<mapsto> JInt 100, ''idempotencyKey'' \<mapsto> JStr ''k8'',
     ''externalReference'' \<mapsto> JStr ''M1'', ''valueDate'' \<mapsto> JStr ''2026-03-02'', ''evidenceReference'' \<mapsto> JStr ''E8'']"

definition schedule_request :: "payload list" where
  "schedule_request = [[''installmentNumber'' \<mapsto> JInt 1, ''principalDue'' \<mapsto> JInt 300, ''dueDate'' \<mapsto> JStr ''2026-03-02'']]"

definition repayment_request :: payload where
  "repayment_request = [''loanId'' \<mapsto> JStr ''l1'', ''idempotencyKey'' \<mapsto> JStr ''k7'', ''amount'' \<mapsto> JInt 300,
     ''externalReference'' \<mapsto> JStr ''R1'', ''receivedOn'' \<mapsto> JStr ''2026-03-02'',
     ''valueDate'' \<mapsto> JStr ''2026-03-02'', ''evidenceReference'' \<mapsto> JStr ''E7'']"

definition repayment_lines :: "payload list option" where
  "repayment_lines = Some [[''installmentId'' \<mapsto> JStr ''f'', ''component'' \<mapsto> JStr ''principal'', ''amount'' \<mapsto> JInt 300]]"

subsection \<open>The requests, step by step\<close>

lemma quantize_int:
  assumes "\<bar>n\<bar> < 10 ^ 20"
  shows "quantize_cents n 0 = Some (100 * n)" and "mk_finite n 0 = Some (Finite n 0)"
proof -
  have "nat \<bar>100 * n\<bar> < 10 ^ 22" using assms by simp
  then have "ndigits (nat \<bar>100 * n\<bar>) \<le> 22" by (rule ndigits_bound_pos) simp
  then show "quantize_cents n 0 = Some (100 * n)"
    by (simp add: quantize_cents_def decimal_precision_def mult.commute)
  have "nat \<bar>n\<bar> < 10 ^ 20" using assms by simp
  then have "ndigits (nat \<bar>n\<bar>) \<le> 20" by (rule ndigits_bound_pos) simp
  then show "mk_finite n 0 = Some (Finite n 0)"
    by (simp add: mk_finite_def decimal_exponent_ok_def)
qed

lemma money_int:
  assumes "0 < n" and "n < 10 ^ 20"
  shows "money (JInt n) field z = Inr (100 * n)"
  using assms quantize_int [of n] by (simp add: money_def py_str_def parse_decimal_show_int equals_cents_def)

lemmas reading = required_text_def text_or_empty_def text_of_def payload_get_def strip_def is_space_def char_code_def
  date_value_def blank_def py_or_def list_column_def dict_column_def money_int upper_def upper_char_def

lemmas demo_defs = demo_world_def demo_user_def actor_id_def nonempty_def require_def audit_def fits_def amount_fits_def
  Let_def assert_loan_scope_def assert_mfi_scope_def MFI_ROLES_def

definition demo_facility :: facility where
  "demo_facility = \<lparr>f_id = ''a'', f_mfi = ''m'', f_external_reference = ''F1'', f_name = ''Fund'',
     f_country_code = ''UG'', f_currency = ''UGX'', f_funding_source = [], f_facility_type = [],
     f_approved_amount = None, f_commitment_amount = 100000, f_revolving = True,
     f_starts_on = Date 2026 3 2, f_ends_on = None, f_status = DRAFT_FACILITY,
     f_agreement_reference = [], f_created_by = ''bto'', f_approved_by = None, f_approved_at = None\<rparr>"

definition approved_facility :: facility where
  "approved_facility = demo_facility\<lparr>f_status := APPROVED_FACILITY, f_approved_by := Some ''cd'',
     f_approved_at := Some 100\<rparr>"

definition demo_tranche :: tranche where
  "demo_tranche = \<lparr>t_id = ''c'', t_facility = ''a'', t_external_reference = ''T1'', t_number = None, t_key = ''k1'',
     t_amount = 100000, t_received_on = Date 2026 3 2, t_value_date = Date 2026 3 2,
     t_evidence_reference = ''E1'', t_payment_reference = ''T1'', t_source_account = [], t_currency = ''UGX'',
     t_exchange_rate = 100000000, t_confirmed_by = ''acc'', t_confirmed_at = 100\<rparr>"

definition demo_allocation :: "string \<Rightarrow> string \<Rightarrow> string \<Rightarrow> int \<Rightarrow> allocation" where
  "demo_allocation k loan key amount = \<lparr>a_id = k, a_facility = ''a'', a_loan = loan, a_amount = amount,
     a_source = ORIGINAL, a_status = RESERVED, a_key = key, a_reserved_by = ''bto'', a_reserved_at = 100,
     a_released_by = None, a_released_at = None, a_release_reason = []\<rparr>"

definition with_audit :: "string \<Rightarrow> string \<Rightarrow> string \<Rightarrow> ledger \<Rightarrow> ledger" where
  "with_audit action subject actor db = db\<lparr>audit_events := audit_events db
     @ [\<lparr>e_action = action, e_subject = subject, e_actor = actor\<rparr>]\<rparr>"

definition ledger1 :: ledger where
  "ledger1 = with_audit ''bt.facility.created'' ''a'' ''bto'' (demo_ledger\<lparr>facilities := [demo_facility]\<rparr>)"

definition ledger2 :: ledger where
  "ledger2 = with_audit ''bt.facility.approved'' ''a'' ''cd'' (ledger1\<lparr>facilities := [approved_facility]\<rparr>)"

definition ledger3 :: ledger where
  "ledger3 = with_audit ''bt.facility.tranche_confirmed'' ''c'' ''acc''
     (ledger2\<lparr>facilities := [approved_facility\<lparr>f_status := ACTIVE_FACILITY\<rparr>], tranches := [demo_tranche]\<rparr>)"

lemmas ledger_defs = demo_ledger_def empty_ledger_def with_audit_def ledger1_def ledger2_def ledger3_def
  demo_facility_def approved_facility_def demo_tranche_def demo_allocation_def demo_loan_def

lemma step1: "create_funding_facility (demo_world ''a'') facility_request (demo_user ''bto'') demo_ledger
   = Inr (ledger1, demo_facility)"
  by (simp add: create_funding_facility_def reading demo_defs facility_request_def insert_facility_def ledger_defs)

lemma step2: "approve_funding_facility (demo_world ''b'') ''a'' (demo_user ''cd'') ledger1
   = Inr (ledger2, approved_facility)"
  by (simp add: approve_funding_facility_def reading demo_defs facility_by_id_def save_facility_def ledger_defs)

lemma rate_one: "numeric_18_8 (JStr ''1'') = Inr 100000000"
  by code_simp

lemma step3: "confirm_facility_tranche (demo_world ''c'') receipt_request (demo_user ''acc'') ledger2
   = Inr (ledger3, demo_tranche)"
  by (simp add: confirm_facility_tranche_def reading demo_defs facility_by_id_def save_facility_def ledger_defs
      receipt_request_def receipts_def insert_tranche_def rate_one)

definition ledger4 :: ledger where
  "ledger4 = with_audit ''bt.facility.allocated'' ''d'' ''bto''
     (ledger3\<lparr>allocations := [demo_allocation ''d'' ''l1'' ''k2'' 80000],
       loans := [demo_loan ''l1''\<lparr>l_facility := Some ''a''\<rparr>, demo_loan ''l2'']\<rparr>)"

definition demo_disbursement :: disbursement where
  "demo_disbursement = \<lparr>d_id = ''e'', d_loan = ''l1'', d_allocation = ''d'', d_sequence = 1,
     d_external_reference = ''k3'', d_key = ''k3'', d_amount = 30000, d_source = ORIGINAL,
     d_disbursed_on = Date 2026 3 2, d_value_date = Date 2026 3 2, d_bank_reference = ''B'',
     d_confirmed_by = ''mfi'', d_confirmed_at = 100\<rparr>"

definition disbursed_loan :: loan where
  "disbursed_loan = demo_loan ''l1''\<lparr>l_facility := Some ''a'', l_disbursed_amount := Some 30000,
     l_disbursement_date := Some (Date 2026 3 2), l_disbursement_confirmed_at := Some 100,
     l_status := DISBURSED\<rparr>"

definition ledger5 :: ledger where
  "ledger5 = with_audit ''bt.loan.disbursement_posted'' ''e'' ''mfi''
     (ledger4\<lparr>disbursements := [demo_disbursement], loans := [disbursed_loan, demo_loan ''l2''],
       case_statuses := [(''c'', ''monitoring'')], verification_policies := [((2026, True), 60)],
       verification_requirements := [(''l1'', Date 2026 5 1)],
       impact_assessments := [((''l1'', Date 2026 4 1), IMPACT_NOT_DUE)],
       status_history := [\<lparr>h_loan = ''l1'', h_previous = PROCESSING, h_new = DISBURSED,
         h_changed_by = ''mfi'', h_at = 100\<rparr>], disbursement_notices := [''l1'']\<rparr>)"

lemmas ledger_defs' = ledger_defs ledger4_def demo_disbursement_def disbursed_loan_def ledger5_def

lemmas pool_defs = source_available_original original_pool_def receipts_def disbursed_from_def
  reserved_by_source_def movement_total_def allocation_disbursed_def

lemma step4: "reserve_facility_for_loan (demo_world ''d'') (reserve_request ''l1'' ''k2'' 800) (demo_user ''bto'') ledger3
   = Inr (ledger4, demo_allocation ''d'' ''l1'' ''k2'' 80000)"
  by (simp add: reserve_facility_for_loan_def reading demo_defs facility_by_id_def live_loan_def ledger_defs'
      reserve_request_def source_of_text_def within_approved_def insert_allocation_def save_loan_def loan_row_ok_def
      pool_defs DISBURSED_LOAN_STATUSES_def)

lemma add_days_eqI:
  assumes "valid_date d" and "valid_date e" and "to_ordinal e = to_ordinal d + n"
  shows "add_days d n = e"
  using assms add_days_ordinal [OF assms(1)] add_days_valid [OF assms(1)] to_ordinal_eq_iff by metis

lemma due_dates: "py_add_days (Date 2026 3 2) 60 = Inr (Date 2026 5 1)"
  "py_add_days (Date 2026 3 2) 30 = Inr (Date 2026 4 1)"
proof -
  have valid: "valid_date (Date 2026 3 2)" "valid_date (Date 2026 5 1)" "valid_date (Date 2026 4 1)"
    by code_simp+
  have "to_ordinal (Date 2026 5 1) = to_ordinal (Date 2026 3 2) + 60"
    "to_ordinal (Date 2026 4 1) = to_ordinal (Date 2026 3 2) + 30" by code_simp+
  then have "add_days (Date 2026 3 2) 60 = Date 2026 5 1" "add_days (Date 2026 3 2) 30 = Date 2026 4 1"
    using add_days_eqI valid by blast+
  then show "py_add_days (Date 2026 3 2) 60 = Inr (Date 2026 5 1)"
    "py_add_days (Date 2026 3 2) 30 = Inr (Date 2026 4 1)"
    by (simp_all add: py_add_days_def)
qed

lemma step5: "post_loan_disbursement (demo_world ''e'') (disbursement_request ''l1'' ''k3'' 300) (demo_user ''mfi'') ledger4
   = Inr (ledger5, demo_disbursement)"
  by (simp add: post_loan_disbursement_def reading demo_defs live_loan_def ledger_defs'
      disbursement_request_def allocation_of_loan_def net_disbursed_def ready_for_first_disbursement_def
      insert_disbursement_def settle_disbursement_def save_loan_def loan_row_ok_def or_else_def
      record_status_change_def ensure_verification_requirement_def policy_for_fy_def get_operational_fy_def
      advance_case_def schedule_impact_def due_dates DISBURSED_LOAN_STATUSES_def by_as_of_def)
subsection \<open>A release, a second reservation and a reversal\<close>

definition released_allocation :: allocation where
  "released_allocation = demo_allocation ''d'' ''l1'' ''k2'' 80000\<lparr>a_status := RELEASED,
     a_released_by := Some ''bto'', a_released_at := Some 100, a_release_reason := ''error''\<rparr>"

definition ledger6 :: ledger where
  "ledger6 = with_audit ''bt.facility.allocation_released'' ''d'' ''bto'' (ledger5\<lparr>allocations := [released_allocation]\<rparr>)"

definition ledger7 :: ledger where
  "ledger7 = with_audit ''bt.facility.allocated'' ''g'' ''bto''
     (ledger6\<lparr>allocations := [released_allocation, demo_allocation ''g'' ''l2'' ''k4'' 70000],
       loans := [disbursed_loan, demo_loan ''l2''\<lparr>l_facility := Some ''a''\<rparr>]\<rparr>)"

definition demo_reversal :: posting_reversal where
  "demo_reversal = \<lparr>r_id = ''h'', r_of = ''e'', r_key = ''k5'', r_reason = ''error'', r_by = ''mfi'', r_at = 100\<rparr>"

definition ledger8 :: ledger where
  "ledger8 = with_audit ''bt.loan.disbursement_reversed'' ''h'' ''mfi''
     (ledger7\<lparr>disbursement_reversals := [demo_reversal],
       allocations := [released_allocation\<lparr>a_status := RESERVED\<rparr>, demo_allocation ''g'' ''l2'' ''k4'' 70000],
       loans := [demo_loan ''l1''\<lparr>l_facility := Some ''a''\<rparr>, demo_loan ''l2''\<lparr>l_facility := Some ''a''\<rparr>]\<rparr>)"

lemmas ledger_defs'' = ledger_defs' released_allocation_def ledger6_def ledger7_def demo_reversal_def ledger8_def

lemma step6: "release_facility_allocation (demo_world ''f'') ''d'' (reversal_request ''k9'') (demo_user ''bto'') ledger5
   = Inr (ledger6, released_allocation)"
  by (simp add: release_facility_allocation_def reading demo_defs reversal_request_def save_allocation_def ledger_defs'')

lemma step7: "reserve_facility_for_loan (demo_world ''g'') (reserve_request ''l2'' ''k4'' 700) (demo_user ''bto'') ledger6
   = Inr (ledger7, demo_allocation ''g'' ''l2'' ''k4'' 70000)"
  by (simp add: reserve_facility_for_loan_def reading demo_defs facility_by_id_def live_loan_def ledger_defs''
      reserve_request_def source_of_text_def within_approved_def insert_allocation_def save_loan_def loan_row_ok_def
      pool_defs DISBURSED_LOAN_STATUSES_def)

lemma loan_facts: "l_id disbursed_loan = ''l1''" "\<not> l_deleted disbursed_loan" "l_mfi disbursed_loan = ''m''"
  "l_id (demo_loan k) = k" "\<not> l_deleted (demo_loan k)"
  by (simp_all add: disbursed_loan_def demo_loan_def)

lemma after8: "net_disbursed db ''l1'' None = 0 \<Longrightarrow>
    loan_after_reversal disbursed_loan db = demo_loan ''l1''\<lparr>l_facility := Some ''a''\<rparr>"
  by (simp add: loan_after_reversal_def disbursed_loan_def demo_loan_def)

lemma save8: "save_loan (demo_loan ''l1''\<lparr>l_facility := Some ''a''\<rparr>) db
    = Inr (db\<lparr>loans := update_where (\<lambda>k. l_id k = ''l1'') (\<lambda>_. demo_loan ''l1''\<lparr>l_facility := Some ''a''\<rparr>) (loans db)\<rparr>)"
  by (simp add: save_loan_def loan_row_ok_def demo_loan_def DISBURSED_LOAN_STATUSES_def)

lemma step8: "reverse_loan_disbursement (demo_world ''h'') ''e'' (reversal_request ''k5'') (demo_user ''mfi'') ledger7
   = Inr (ledger8, demo_reversal)"
proof -
  let ?db = "ledger7\<lparr>disbursement_reversals := [demo_reversal]\<rparr>"
  have ins: "insert_disbursement_reversal demo_reversal ledger7 = Inr ?db"
    by (simp add: insert_disbursement_reversal_def reversal_row_ok_def fits_def ledger_defs'')
  have posted: "disbursements ledger7 = [demo_disbursement]" "repayments ledger7 = []"
    "loans ledger7 = [disbursed_loan, demo_loan ''l2''\<lparr>l_facility := Some ''a''\<rparr>]"
    "allocations ledger7 = [released_allocation, demo_allocation ''g'' ''l2'' ''k4'' 70000]"
    "disbursement_reversals ledger7 = []"
    by (simp_all add: ledger7_def ledger6_def ledger5_def ledger4_def ledger3_def ledger2_def ledger1_def
        with_audit_def demo_ledger_def empty_ledger_def)
  have facts: "d_id demo_disbursement = ''e''" "d_loan demo_disbursement = ''l1''"
    "d_allocation demo_disbursement = ''d''" "r_of demo_reversal = ''e''" "r_id demo_reversal = ''h''"
    "a_id released_allocation = ''d''" "a_id (demo_allocation k l r n) = k" for k l r n
    by (simp_all add: demo_disbursement_def demo_reversal_def released_allocation_def demo_allocation_def)
  have row: "\<lparr>r_id = ''h'', r_of = ''e'', r_key = ''k5'', r_reason = ''error'', r_by = ''mfi'', r_at = 100\<rparr> = demo_reversal"
    by (simp add: demo_reversal_def)
  show ?thesis
    by (simp add: reverse_loan_disbursement_def posted facts loan_facts loan_by_id_def reading demo_defs
        reversal_request_def row ins live_loan_def after8 net_disbursed_def reversed_in_def save8)
      (simp add: ledger8_def with_audit_def save_allocation_def posted facts loan_facts)
qed

subsection \<open>A schedule and a repayment\<close>

definition demo_installment :: installment where
  "demo_installment = \<lparr>i_id = ''f'', i_loan = ''l1'', i_version = 1, i_number = 1, i_due_date = Date 2026 3 2,
     i_principal_due = 30000, i_interest_due = 0, i_fee_due = 0, i_created_by = ''mfi''\<rparr>"

definition ledger6s :: ledger where
  "ledger6s = with_audit ''bt.loan.repayment_schedule_created'' ''l1'' ''mfi'' (ledger5\<lparr>installments := [demo_installment]\<rparr>)"

definition demo_repayment :: repayment where
  "demo_repayment = \<lparr>x_id = ''g'', x_loan = ''l1'', x_kind = PAYMENT, x_reversal_of = None,
     x_external_reference = ''R1'', x_key = ''k7'', x_amount = 30000, x_received_on = Date 2026 3 2,
     x_value_date = Date 2026 3 2, x_evidence_reference = ''E7'', x_posted_by = ''mfi'', x_posted_at = 100,
     x_reason = []\<rparr>"

definition demo_payment_row :: repayment_allocation where
  "demo_payment_row = \<lparr>ra_id = ''g+'', ra_transaction = ''g'', ra_installment = Some ''f'',
     ra_component = PRINCIPAL, ra_amount = 30000\<rparr>"

definition repaid_loan :: loan where
  "repaid_loan = disbursed_loan\<lparr>l_last_repayment_data_date := Some (Date 2026 3 2), l_status := REPAID\<rparr>"

definition ledger7s :: ledger where
  "ledger7s = with_audit ''bt.loan.repayment_posted'' ''g'' ''mfi''
     (ledger6s\<lparr>repayments := [demo_repayment], repayment_allocations := [demo_payment_row],
       loans := [repaid_loan, demo_loan ''l2'']\<rparr>)"

lemmas ledger_defs_s = ledger_defs' demo_installment_def ledger6s_def demo_repayment_def demo_payment_row_def
  repaid_loan_def ledger7s_def

lemma money_default: "money (JInt 0) field True = Inr 0"
  using quantize_int [of 0] by (simp add: money_def py_str_def parse_decimal_show_int equals_cents_def)

lemma step6s: "create_repayment_schedule (demo_world ''f'') ''l1'' schedule_request 1 (demo_user ''mfi'') ledger5
   = Inr (ledger6s, [demo_installment])"
  by (simp add: create_repayment_schedule_def reading demo_defs live_loan_def ledger_defs_s schedule_request_def
      net_disbursed_def by_as_of_def get_or_zero_def money_default insert_installment_def)

lemma step7s: "post_repayment_transaction (demo_world ''g'') repayment_request repayment_lines (demo_user ''mfi'') ledger6s
   = Inr (ledger7s, demo_repayment)"
  by (simp add: post_repayment_transaction_def reading demo_defs live_loan_def ledger_defs_s repayment_request_def
      repayment_lines_def the_list_def net_disbursed_def by_as_of_def installment_of_loan_def component_of_text_def
      component_due_def net_allocated_def allocated_by_kind_def line_amount_def principal_in_def
      net_principal_repaid_def principal_by_kind_def paid_in_def not_before_disbursement_def first_value_date_def
      insert_repayment_def insert_repayment_allocation_def save_loan_def loan_row_ok_def loan_after_repayment_def
      DISBURSED_LOAN_STATUSES_def)

subsection \<open>The states are reachable\<close>

lemma reachable_start: "reachable demo_ledger"
  by (rule reachable.start) (simp add: demo_ledger_def same_books_def)

lemma command_of:
  "create_funding_facility w data p db = Inr (db', f) \<Longrightarrow> run_command w p (CreateFacility data) db = Inr db'"
  "approve_funding_facility w k p db = Inr (db', f) \<Longrightarrow> run_command w p (ApproveFacility k) db = Inr db'"
  "confirm_facility_tranche w data p db = Inr (db', t) \<Longrightarrow> run_command w p (ConfirmTranche data) db = Inr db'"
  "reserve_facility_for_loan w data p db = Inr (db', a) \<Longrightarrow> run_command w p (ReserveFunds data) db = Inr db'"
  "release_facility_allocation w k data p db = Inr (db', a) \<Longrightarrow> run_command w p (ReleaseFunds k data) db = Inr db'"
  "post_loan_disbursement w data p db = Inr (db', d) \<Longrightarrow> run_command w p (PostDisbursement data) db = Inr db'"
  "reverse_loan_disbursement w k data p db = Inr (db', r) \<Longrightarrow> run_command w p (ReverseDisbursement k data) db = Inr db'"
  "create_repayment_schedule w k raws v p db = Inr (db', rows) \<Longrightarrow> run_command w p (CreateSchedule k raws v) db = Inr db'"
  "post_repayment_transaction w data lines p db = Inr (db', x) \<Longrightarrow> run_command w p (PostRepayment data lines) db = Inr db'"
  by (simp_all add: run_command_def outcome_def)

lemma reachable_5: "reachable ledger3" "reachable ledger4" "reachable ledger5"
proof -
  have 1: "reachable ledger1" by (rule reachable.command [OF reachable_start command_of(1) [OF step1]])
  have 2: "reachable ledger2" by (rule reachable.command [OF 1 command_of(2) [OF step2]])
  show 3: "reachable ledger3" by (rule reachable.command [OF 2 command_of(3) [OF step3]])
  show 4: "reachable ledger4" by (rule reachable.command [OF 3 command_of(4) [OF step4]])
  show "reachable ledger5" by (rule reachable.command [OF 4 command_of(6) [OF step5]])
qed

lemma reachable_8: "reachable ledger7" "reachable ledger8"
proof -
  have 6: "reachable ledger6" by (rule reachable.command [OF reachable_5(3) command_of(5) [OF step6]])
  show 7: "reachable ledger7" by (rule reachable.command [OF 6 command_of(4) [OF step7]])
  show "reachable ledger8" by (rule reachable.command [OF 7 command_of(7) [OF step8]])
qed

lemma reachable_7s: "reachable ledger6s" "reachable ledger7s"
proof -
  show 6: "reachable ledger6s" by (rule reachable.command [OF reachable_5(3) command_of(8) [OF step6s]])
  show "reachable ledger7s" by (rule reachable.command [OF 6 command_of(9) [OF step7s]])
qed

end
