(* ===== verification/LedgerProperties.thy ===== *)
theory LedgerProperties
  imports LedgerScenario "HOL-Library.Sublist"
begin

text \<open>
  What the lending ledger promises: its commands refine the events of LedgerEvents, the
  balances that hold in every reachable state, what each posting does to them, and the
  behaviours that depart from what the code says of itself.
\<close>

section \<open>Helper lemmas\<close>

lemma reachable_parts:
  assumes "reachable db"
  shows "keys_ok db" and "references_ok db" and "amounts_ok db" and "receipts_ok db" and "disbursed_ok db"
    and "repaid_ok db" and "approvals_ok db"
  using reachable_inv [OF assms] by (simp_all add: ledger_inv_def)

text \<open>The seven tables of postings only ever grow at their end.\<close>

definition journals_extend :: "ledger \<Rightarrow> ledger \<Rightarrow> bool" where
  "journals_extend db db' \<longleftrightarrow> prefix (tranches db) (tranches db')
     \<and> prefix (tranche_reversals db) (tranche_reversals db') \<and> prefix (movements db) (movements db')
     \<and> prefix (movement_reversals db) (movement_reversals db') \<and> prefix (disbursements db) (disbursements db')
     \<and> prefix (disbursement_reversals db) (disbursement_reversals db') \<and> prefix (repayments db) (repayments db')
     \<and> prefix (repayment_allocations db) (repayment_allocations db')"

lemma event_extends: "ledger_event lax db db' \<Longrightarrow> journals_extend db db'"
  by (cases rule: ledger_event.cases) (auto simp: journals_extend_def same_books_def)

lemma events_extend: "(ledger_event lax)\<^sup>*\<^sup>* db db' \<Longrightarrow> journals_extend db db'"
proof (induction rule: rtranclp_induct)
  case (step y z)
  then show ?case using event_extends [of lax y z] by (auto simp: journals_extend_def intro: prefix_order.trans)
qed (simp add: journals_extend_def)

lemma command_audited:
  assumes "run_command w p c db = Inr db'"
  shows "audit_ok w \<or> db' = db"
proof (cases c)
  case (CreateFacility data)
  with assms show ?thesis
    by (auto simp: run_command_def outcome_Inr audit_Inr dest!: create_funding_facility_effect)
next
  case (ApproveFacility k)
  with assms show ?thesis by (auto simp: run_command_def outcome_Inr dest!: approve_funding_facility_effect)
qed (use assms in \<open>auto simp: run_command_def outcome_Inr elim: confirm_facility_tranche_effect
      reverse_facility_tranche_effect post_facility_movement_effect reverse_facility_movement_effect
      reserve_facility_for_loan_effect release_facility_allocation_effect post_loan_disbursement_effect
      reverse_loan_disbursement_effect create_repayment_schedule_effect post_repayment_transaction_effect
      reverse_repayment_transaction_effect\<close>)

section \<open>Refinement and invariants\<close>

text \<open>C1: every command that succeeds on a reachable state is a run of ledger events;
  the run re-reserves a released allocation only when the command reverses a
  disbursement of one.\<close>

theorem command_refines_events:
  assumes "reachable db" and "run_command w p c db = Inr db'"
  shows "(ledger_event (reopens_released c db))\<^sup>*\<^sup>* db db'"
  using command_events [OF assms(2) reachable_inv [OF assms(1)]] by blast

theorem command_refines_events_witness:
  "(ledger_event (reopens_released (PostDisbursement (disbursement_request ''l1'' ''k3'' 300)) ledger4))\<^sup>*\<^sup>* ledger4 ledger5
     \<and> ledger4 \<noteq> ledger5"
  using command_refines_events [OF reachable_5(2) command_of(6) [OF step5]]
  by (simp add: ledger5_def with_audit_def ledger4_def ledger_defs)

text \<open>C2: on every reachable state the confirmed receipts of a facility stay within its
  commitment, what is disbursed from an allocation within the reserved amount, and a
  loan's repaid principal between zero and its net disbursed principal.\<close>

theorem reachable_balances:
  assumes "reachable db"
  shows "(\<forall>f \<in> set (facilities db). 0 \<le> receipts db (f_id f) \<and> receipts db (f_id f) \<le> f_commitment_amount f)
    \<and> (\<forall>a \<in> set (allocations db). 0 \<le> allocation_disbursed db (a_id a) \<and> allocation_disbursed db (a_id a) \<le> a_amount a)
    \<and> 0 \<le> net_principal_repaid db lid None \<and> net_principal_repaid db lid None \<le> net_disbursed db lid None"
proof -
  note ok = reachable_parts [OF assms]
  have "0 \<le> receipts db fid" "0 \<le> allocation_disbursed db aid" for fid aid
    unfolding receipts_def allocation_disbursed_def using ok(3)
    by (auto intro!: sum_where_nonneg simp: amounts_ok_def intro: less_imp_le)
  then show ?thesis
    using ok(4-6) standing_nonneg(1) [OF ok(3), of lid] by (simp add: receipts_ok_def disbursed_ok_def repaid_ok_def)
qed

theorem reachable_balances_witness:
  "net_principal_repaid ledger7s ''l1'' None \<le> net_disbursed ledger7s ''l1'' None
     \<and> receipts ledger7s ''a'' = 100000"
  using reachable_balances [OF reachable_7s(2), of "''l1''"] by (simp add: ledger_defs_s receipts_def)

text \<open>Keys identify postings: on a reachable state no two receipts, movements,
  disbursements or repayments carry the same idempotency key, no posting is reversed that
  does not exist, and a loan has at most one facility allocation.\<close>

theorem reachable_keys:
  assumes "reachable db"
  shows "distinct (map t_key (tranches db)) \<and> distinct (map m_key (movements db))
    \<and> distinct (map d_key (disbursements db)) \<and> distinct (map x_key (repayments db))
    \<and> distinct (map a_loan (allocations db))
    \<and> r_of ` set (disbursement_reversals db) \<subseteq> d_id ` set (disbursements db)"
  using reachable_parts(1,2) [OF assms] by (auto simp: keys_ok_def references_ok_def)

theorem reachable_keys_witness: "distinct (map a_loan (allocations ledger8)) \<and> length (allocations ledger8) = 2"
  using reachable_keys [OF reachable_8(2)] by (simp add: ledger8_def with_audit_def)

text \<open>Four eyes: on a reachable state no facility has been approved by the person who
  created it.\<close>

theorem approver_is_not_creator:
  assumes "reachable db" and "f \<in> set (facilities db)"
  shows "f_approved_by f \<noteq> Some (f_created_by f)"
  using reachable_parts(7) [OF assms(1)] assms(2) by (simp add: approvals_ok_def)

theorem approver_is_not_creator_witness:
  "f_approved_by (approved_facility\<lparr>f_status := ACTIVE_FACILITY\<rparr>) = Some ''cd''
     \<and> f_approved_by (approved_facility\<lparr>f_status := ACTIVE_FACILITY\<rparr>)
       \<noteq> Some (f_created_by (approved_facility\<lparr>f_status := ACTIVE_FACILITY\<rparr>))"
  using approver_is_not_creator [OF reachable_5(1), of "approved_facility\<lparr>f_status := ACTIVE_FACILITY\<rparr>"]
  by (simp add: ledger3_def with_audit_def approved_facility_def)

text \<open>C3: the pool of original capital is never overdrawn by a command, unless the command
  reverses a disbursement whose allocation was released.\<close>

theorem original_pool_not_overdrawn:
  assumes "reachable db" and "\<And>fid. 0 \<le> original_pool db fid" and "run_command w p c db = Inr db'"
    and "\<not> reopens_released c db"
  shows "0 \<le> original_pool db' fid"
  using command_events [OF assms(3) reachable_inv [OF assms(1)], of False] assms(4)
    events_pools [OF _ reachable_inv [OF assms(1)], of db'] assms(2)
  by (auto simp: pools_ok_def)

lemma pool4: "0 \<le> original_pool ledger4 fid"
  by (simp add: pool_defs ledger_defs')

theorem original_pool_not_overdrawn_witness:
  "0 \<le> original_pool ledger5 ''a'' \<and> original_pool ledger5 ''a'' = 20000"
  using original_pool_not_overdrawn [OF reachable_5(2) pool4 command_of(6) [OF step5], of "''a''"]
  by (simp add: reopens_released_def) (simp add: pool_defs ledger_defs')

text \<open>C5: postings are append-only: a command that succeeds leaves every receipt, movement,
  disbursement, repayment and reversal that was there as it was, and adds its own at the end.\<close>

theorem journals_append_only:
  assumes "reachable db" and "run_command w p c db = Inr db'"
  shows "journals_extend db db'"
  using command_events [OF assms(2) reachable_inv [OF assms(1)], of True] events_extend by blast

theorem journals_append_only_witness:
  "journals_extend ledger7 ledger8 \<and> disbursements ledger8 = [demo_disbursement]"
  using journals_append_only [OF reachable_8(1) command_of(7) [OF step8]]
  by (simp add: ledger8_def ledger7_def ledger6_def ledger5_def with_audit_def)

text \<open>C6: an operation fails closed: when the audit row cannot be written, a command either
  fails or, answering a replayed request, changes nothing.\<close>

theorem unaudited_command_changes_nothing:
  assumes "\<not> audit_ok w" and "run_command w p c db = Inr db'"
  shows "db' = db"
  using command_audited [OF assms(2)] assms(1) by blast

theorem unaudited_command_changes_nothing_witness:
  "case run_command ((demo_world ''z'')\<lparr>audit_ok := False\<rparr>) (demo_user ''bto'') (ReleaseFunds ''d'' Map.empty) ledger6 of
     Inl e \<Rightarrow> False | Inr db' \<Rightarrow> db' = ledger6"
proof -
  obtain db' where run: "run_command ((demo_world ''z'')\<lparr>audit_ok := False\<rparr>) (demo_user ''bto'') (ReleaseFunds ''d'' Map.empty) ledger6 = Inr db'"
    by (simp add: run_command_def outcome_def release_facility_allocation_def demo_user_def require_def
        ledger6_def with_audit_def released_allocation_def demo_allocation_def)
  have "db' = ledger6"
    using unaudited_command_changes_nothing [OF _ run] by simp
  then show ?thesis
    using run by simp
qed

section \<open>What single postings do\<close>

lemma pool_same_books: "same_books db db' \<Longrightarrow> original_pool db' = original_pool db"
  by (rule pool_cong) (simp_all add: same_books_def)

text \<open>A reservation of original capital lowers the pool of its facility by exactly the
  reserved amount, to no less than zero, and leaves the pool of every other facility alone.\<close>

theorem reservation_takes_its_amount:
  assumes "reachable db" and "reserve_facility_for_loan w data p db = Inr (db', a)"
    and "a \<notin> set (allocations db)" and "a_source a = ORIGINAL"
  shows "original_pool db' (a_facility a) = original_pool db (a_facility a) - a_amount a
    \<and> 0 \<le> original_pool db' (a_facility a)
    \<and> (fid \<noteq> a_facility a \<longrightarrow> original_pool db' fid = original_pool db fid)"
  using assms(2)
proof (cases rule: reserve_facility_for_loan_effect)
  case (posted f l)
  have "original_pool db' k = original_pool db k - (if a_facility a = k then a_amount a else 0)" for k
    using pool_same_books [OF posted(14)] pool_reserved [OF reachable_parts(2) [OF assms(1)] posted(12,8,4)] assms(4)
    by simp
  with posted(3,10) assms(4) show ?thesis by (auto simp: source_available_original)
qed (use assms(3) in simp)

theorem reservation_takes_its_amount_witness:
  "original_pool ledger3 ''a'' = 100000 \<and> original_pool ledger4 ''a'' = 20000"
  using reservation_takes_its_amount [OF reachable_5(1) step4, of "''b''"]
  by (simp add: demo_allocation_def) (simp add: pool_defs ledger_defs')

text \<open>C11: a movement and its reversal cancel: after both, every pool of original capital is
  what it was.\<close>

theorem movement_then_reversal:
  assumes "reachable db" and "post_facility_movement w data p db = Inr (db1, m)" and "m \<notin> set (movements db)"
    and "reverse_facility_movement w' (m_id m) data' p' db1 = Inr (db2, r)"
    and "r \<notin> set (movement_reversals db1)"
  shows "original_pool db2 = original_pool db"
  using assms(2)
proof (cases rule: post_facility_movement_effect)
  case (posted f)
  have r1: "reachable db1"
    by (rule reachable.command [OF assms(1), of w p "PostMovement data"]) (simp add: run_command_def outcome_def assms(2))
  note ok = reachable_parts [OF assms(1)] and ok1 = reachable_parts [OF r1]
  have m: "m \<in> set (movements db1)" using posted(9) by (simp add: same_books_def)
  have down: "original_pool db1 fid = original_pool db fid
      - (if m_facility m = fid \<and> m_source m = ORIGINAL then m_amount m else 0)" for fid
    using pool_same_books [OF posted(9)] pool_moved [OF ok(1,2) posted(7)] by simp
  from assms(4) show ?thesis
  proof (cases rule: reverse_facility_movement_effect)
    case rev: (posted n)
    have "n = m"
      using distinct_key_unique [of m_id "movements db1" n m] ok1(1) rev(2,3) m by (simp add: keys_ok_def)
    with rev have "original_pool db2 fid = original_pool db1 fid
        + (if m_facility m = fid \<and> m_source m = ORIGINAL then m_amount m else 0)" for fid
      using pool_same_books [OF rev(6)] pool_movement_reversed [OF ok1(1,2) m] by simp
    with down show ?thesis by (simp add: fun_eq_iff)
  qed (use assms(5) in simp)
qed (use assms(3) in simp)

definition demo_movement :: movement where
  "demo_movement = \<lparr>m_id = ''i'', m_facility = ''a'', m_kind = CAPITAL_RETURN, m_source = ORIGINAL,
     m_amount = 10000, m_external_reference = ''M1'', m_key = ''k8'', m_value_date = Date 2026 3 2,
     m_evidence_reference = ''E8'', m_posted_by = ''acc'', m_posted_at = 100\<rparr>"

definition moved_ledger :: ledger where
  "moved_ledger = with_audit ''bt.facility.movement_posted'' ''i'' ''acc'' (ledger3\<lparr>movements := [demo_movement]\<rparr>)"

lemma step_moved: "post_facility_movement (demo_world ''i'') movement_request (demo_user ''acc'') ledger3
   = Inr (moved_ledger, demo_movement)"
  by (simp add: post_facility_movement_def reading demo_defs facility_by_id_def ledger_defs
      movement_request_def movement_kind_of_text_def source_of_text_def insert_movement_def pool_defs
      moved_ledger_def demo_movement_def)

definition moved_back_reversal :: posting_reversal where
  "moved_back_reversal = \<lparr>r_id = ''j'', r_of = ''i'', r_key = ''k9'', r_reason = ''error'', r_by = ''acc'', r_at = 100\<rparr>"

definition moved_back_ledger :: ledger where
  "moved_back_ledger = with_audit ''bt.facility.movement_reversed'' ''j'' ''acc''
     (moved_ledger\<lparr>movement_reversals := [moved_back_reversal]\<rparr>)"

lemma step_moved_back: "reverse_facility_movement (demo_world ''j'') (m_id demo_movement) (reversal_request ''k9'')
     (demo_user ''acc'') moved_ledger
   = Inr (moved_back_ledger, moved_back_reversal)"
  by (simp add: reverse_facility_movement_def reading demo_defs ledger_defs moved_ledger_def demo_movement_def
      reversal_request_def insert_movement_reversal_def reversal_row_ok_def moved_back_ledger_def
      moved_back_reversal_def)

theorem movement_then_reversal_witness:
  "original_pool moved_ledger ''a'' = 90000 \<and> original_pool moved_back_ledger ''a'' = 100000"
proof -
  have "original_pool moved_back_ledger = original_pool ledger3"
    by (rule movement_then_reversal [OF reachable_5(1) step_moved _ step_moved_back])
      (simp_all add: ledger_defs moved_ledger_def)
  then show ?thesis by (simp add: pool_defs ledger_defs moved_ledger_def demo_movement_def)
qed

text \<open>A replayed movement request is answered with the row the first one made and
  writes nothing, whoever asks and whenever, as long as they hold the permission.\<close>

theorem movement_replay:
  assumes "post_facility_movement w data p db = Inr (db1, m)" and "require p' FACILITY_TRANSFER
      ''Only the Accountant may post a facility deduction or capital return.'' = Inr ()"
  shows "post_facility_movement w' data p' db1 = Inr (db1, m)"
  using assms(1) unfolding post_facility_movement_def Let_def
  apply (elim bindE_InrE)
  apply (split option.splits)
  apply (elim bindE_InrE)
  subgoal premises prems for _ fid f kind source _ amount key ref _ vd ev db2 db3
  proof -
    have m: "m_facility m = f_id f" "m_amount m = amount" "m_source m = source" "m_kind m = kind" "m_key m = key"
      using prems(16) by auto
    have ins: "insert_movement m db = Inr db2" using prems(14,16) by (simp only: sum.inject prod.inject)
    have same: "facilities db1 = facilities db" "movements db1 = movements db @ [m]"
      using insert_movement_Inr [OF ins] prems(15,16) by (auto simp: audit_Inr)
    have found: "find (\<lambda>x. m_key x = key) (movements db1) = Some m"
      using prems(10) m(5) by (simp add: same(2) find_append)
    have f: "facility_by_id db1 fid = Some f" using prems(3) same(1) by (simp add: facility_by_id_def)
    show ?thesis
      using prems(2,4-9) by (simp add: assms(2) f found m del: ensure_eq_Inr)
  qed
  subgoal premises prems for _ fid f kind source _ amount key ref x
  proof -
    have "db1 = db" "m = x" using prems(11) by (auto simp: bindE_eq_Inr)
    with prems show ?thesis by (simp add: assms(2) del: ensure_eq_Inr)
  qed
  done

theorem movement_replay_witness:
  "post_facility_movement (demo_world ''q'') movement_request (demo_user ''other'') moved_ledger
     = Inr (moved_ledger, demo_movement)"
  by (rule movement_replay [OF step_moved]) (simp add: require_def demo_user_def)

text \<open>Reversing a disbursement whose allocation was released takes the unspent part of
  that allocation out of the pool again, with no look at what the pool still holds.\<close>

theorem reopening_released_allocation:
  assumes "reachable db" and "reverse_loan_disbursement w k data p db = Inr (db', r)"
    and "r \<notin> set (disbursement_reversals db)" and "a \<in> set (allocations db)" and "a_status a = RELEASED"
    and "a_source a = ORIGINAL" and "d \<in> set (disbursements db)" and "d_id d = k" and "d_allocation d = a_id a"
  shows "original_pool db' (a_facility a)
    = original_pool db (a_facility a) - (a_amount a - allocation_disbursed db (a_id a))"
  using assms(2)
proof (cases rule: reverse_loan_disbursement_effect)
  case (posted e b)
  let ?db = "db\<lparr>disbursement_reversals := disbursement_reversals db @ [r]\<rparr>"
  let ?b = "a\<lparr>a_status := RESERVED\<rparr>"
  note ok = reachable_parts [OF assms(1)]
  have e: "e = d"
    using distinct_key_unique [of d_id "disbursements db" e d] ok(1) posted(2,3) assms(7,8) by (simp add: keys_ok_def)
  have b: "b = a"
    using allocation_table.same_key_same_row [OF ok(1) posted(7) assms(4)] posted(8) assms(9) e by simp
  have src: "d_source d = ORIGINAL"
  proof -
    obtain c where c: "c \<in> set (allocations db)" "d_allocation d = a_id c" "d_source d = a_source c"
      using ok(2) assms(7) by (auto simp: references_ok_def)
    with allocation_table.same_key_same_row [OF ok(1) c(1) assms(4)] assms(6,9) show ?thesis by simp
  qed
  note rev = ok(1,2) assms(7) posted(5) [unfolded e] posted(4) [unfolded e]
  have within: "allocation_disbursed db (a_id a) \<le> a_amount a" "0 < d_amount d"
    using ok(3,5) assms(4,7) by (simp_all add: disbursed_ok_def amounts_ok_def)
  have down: "allocation_disbursed ?db (a_id a) = allocation_disbursed db (a_id a) - d_amount d"
    using allocation_disbursed_reversed [OF rev] assms(9) by simp
  have held0: "held db a = 0" "held ?db a = 0" using assms(5) by (simp_all add: held_def)
  have same: "reserved_by_source ?db (a_facility a) ORIGINAL = reserved_by_source db (a_facility a) ORIGINAL"
    using reserved_change [OF ok(1) assms(4), of ?db "a_facility a" ORIGINAL] held0
      allocation_disbursed_reversed [OF rev] assms(9) by simp
  have freed: "original_pool ?db (a_facility a) = original_pool db (a_facility a) + d_amount d"
    using pool_rest_cong [of ?db db "a_facility a"] disbursed_from_reversed [OF rev assms(4,9)] src same by simp
  have keys: "keys_ok ?db" using ok(1) by (simp add: keys_ok_def)
  have "original_pool (save_allocation ?b ?db) (a_facility a) = original_pool ?db (a_facility a) - held ?db ?b"
    using pool_allocation_saved [OF keys, of a ?b "a_facility a"] assms(4,6) held0(2) by simp
  moreover have "held ?db ?b = a_amount a - allocation_disbursed db (a_id a) + d_amount d"
    using within down by (simp add: held_def)
  ultimately show ?thesis
    using pool_same_books [OF posted(9) [unfolded b]] freed by simp
qed (use assms(3) in simp)

theorem reopening_released_allocation_witness:
  "original_pool ledger7 ''a'' = 0 \<and> original_pool ledger8 ''a'' = - 50000"
proof -
  have "original_pool ledger8 (a_facility released_allocation) = original_pool ledger7 (a_facility released_allocation)
      - (a_amount released_allocation - allocation_disbursed ledger7 (a_id released_allocation))"
    by (rule reopening_released_allocation [OF reachable_8(1) step8, of released_allocation demo_disbursement])
      (simp_all add: ledger_defs'')
  moreover have "original_pool ledger7 ''a'' = 0" "allocation_disbursed ledger7 ''d'' = 30000"
    by (simp_all add: pool_defs ledger_defs'')
  ultimately show ?thesis by (simp add: released_allocation_def demo_allocation_def)
qed

text \<open>The reconciliation of a facility can never report an identity difference: the
  balance it compares the sources with is computed from those sources.\<close>

theorem facility_identity_always_balances:
  "difference (reconcile_facility db f) = 0
     \<and> ''facility_identity_difference'' \<notin> set (facility_issues (reconcile_facility db f))"
  by (simp add: reconcile_facility_def facility_position_def Let_def)

text \<open>Reconciliation reports an overdrawn pool and receipts beyond the commitment exactly
  when they are there.\<close>

theorem reconcile_facility_reports:
  "(''receipts_exceed_commitment'' \<in> set (facility_issues (reconcile_facility db f))
      \<longleftrightarrow> f_commitment_amount f < receipts db (f_id f))
   \<and> (''negative_original_capital_balance'' \<in> set (facility_issues (reconcile_facility db f))
      \<longleftrightarrow> original_pool db (f_id f) < 0)"
  by (simp add: reconcile_facility_def facility_position_def Let_def original_pool_def)

lemma settled_loan:
  assumes "settle_disbursement w l a d before p db = Inr db2" and "l \<in> set (loans db)"
  shows "\<exists>k. loan_by_id db2 (l_id l) = Some k
    \<and> l_status k = (if l_status l = PROCESSING then DISBURSED else l_status l)
    \<and> l_disbursed_amount k = Some (before + d_amount d)"
proof -
  have update: "find (\<lambda>x. l_id x = l_id l) (update_where (\<lambda>x. l_id x = l_id l) (\<lambda>_. k) rows) = Some k"
    if "l_id k = l_id l" and "\<exists>x \<in> set rows. l_id x = l_id l" for k and rows :: "loan list"
    using that by (induction rows) auto
  have verify: "loans db' = loans db" if "ensure_verification_requirement lid don db = Inr db'" for lid don db db'
  proof -
    obtain db1 days where "policy_for_fy (get_operational_fy don) db = (db1, days)" by fastforce
    moreover from this have "loans db1 = loans db" by (auto simp: policy_for_fy_def split: option.splits)
    ultimately show ?thesis
      using that by (cases "py_add_days don days") (auto simp: ensure_verification_requirement_def)
  qed
  have advance: "loans db' = loans db" if "advance_case cid db = Inr db'" for cid db db'
    using that by (auto simp: advance_case_def bindE_eq_Inr)
  show ?thesis
    using assms(1) unfolding settle_disbursement_def Let_def
    apply (elim bindE_InrE)
    subgoal premises prems for db1 db3 db4 db5
    proof -
      let ?k = "l\<lparr>l_disbursed_amount := Some (before + d_amount d),
        l_disbursement_date := or_else (l_disbursement_date l) (d_disbursed_on d),
        l_disbursement_confirmed_at := or_else (l_disbursement_confirmed_at l) (now w),
        l_status := (if l_status l = PROCESSING then DISBURSED else l_status l)\<rparr>"
      have saved: "loans db4 = update_where (\<lambda>x. l_id x = l_id l) (\<lambda>_. ?k) (loans db)"
        using save_loan_Inr [OF prems(1)] verify [OF prems(2)] advance [OF prems(3)]
        by (simp add: record_status_change_def split: if_splits)
      have "map l_id (loans db4) = map l_id (loans db)"
        unfolding saved using map_replace [of "loans db" l_id ?k l_id] by simp
      then have in4: "\<exists>x \<in> set (loans db4). l_id x = l_id l"
        using assms(2) by (metis (no_types, lifting) image_iff list.set_map)
      have last: "loans db2 = loans db5" using prems(5) by (auto simp: save_allocation_def)
      show ?thesis
      proof (cases "before = 0")
        case True
        then obtain s where "loans db5 = update_where (\<lambda>x. l_id x = l_id l) (\<lambda>_. ?k\<lparr>l_impact_status := s\<rparr>) (loans db4)"
          using prems(4) by (auto simp: schedule_impact_def Let_def bindE_eq_Inr dest!: save_loan_Inr)
        then show ?thesis using update [OF _ in4] last by (simp add: loan_by_id_def)
      next
        case False
        then have "loans db5 = loans db4" using prems(4) by simp
        moreover have "\<exists>x \<in> set (loans db). l_id x = l_id l" using assms(2) by blast
        ultimately have "loan_by_id db2 (l_id l) = Some ?k"
          using update [of ?k "loans db"] last saved by (simp add: loan_by_id_def)
        then show ?thesis by simp
      qed
    qed
    done
qed

text \<open>A disbursement that is posted makes a processing loan disbursed and leaves any
  other status as it was: a cancelled loan that still holds an allocation can be
  disbursed and stays cancelled, a repaid one stays repaid with new principal outstanding.\<close>

theorem loan_status_after_disbursement:
  assumes "post_loan_disbursement w data p db = Inr (db', d)" and "d \<notin> set (disbursements db)"
    and "live_loan db (d_loan d) = Some l"
  shows "\<exists>k. loan_by_id db' (d_loan d) = Some k
    \<and> l_status k = (if l_status l = PROCESSING then DISBURSED else l_status l)
    \<and> l_disbursed_amount k = Some (net_disbursed db (d_loan d) None + d_amount d)"
  using assms(1)
proof (cases rule: post_loan_disbursement_effect)
  case (posted l' a db2)
  have l: "l' = l" "l \<in> set (loans db)" using posted(2) assms(3) by (auto simp: live_loan_def dest: find_Some_set)
  have "loan_by_id db' lid = loan_by_id db2 lid" for lid using posted(15) by (simp add: loan_by_id_def)
  with settled_loan [OF posted(14) [unfolded l(1)]] l(2) posted(3) show ?thesis by (simp add: l(1))
qed (use assms(2) in simp)

definition canceled_ledger :: ledger where
  "canceled_ledger = ledger4\<lparr>loans := [demo_loan ''l1''\<lparr>l_facility := Some ''a'', l_status := CANCELED\<rparr>, demo_loan ''l2'']\<rparr>"

lemma canceled_disbursed: "is_ok (post_loan_disbursement (demo_world ''e'') (disbursement_request ''l1'' ''k3'' 300)
    (demo_user ''mfi'') canceled_ledger)"
  by (simp add: post_loan_disbursement_def reading demo_defs live_loan_def ledger_defs' canceled_ledger_def
      disbursement_request_def allocation_of_loan_def net_disbursed_def ready_for_first_disbursement_def
      insert_disbursement_def settle_disbursement_def save_loan_def loan_row_ok_def or_else_def
      record_status_change_def ensure_verification_requirement_def policy_for_fy_def get_operational_fy_def
      advance_case_def schedule_impact_def due_dates DISBURSED_LOAN_STATUSES_def by_as_of_def)

theorem loan_status_after_disbursement_witness:
  "\<exists>db' d k. post_loan_disbursement (demo_world ''e'') (disbursement_request ''l1'' ''k3'' 300) (demo_user ''mfi'')
      canceled_ledger = Inr (db', d)
    \<and> loan_by_id db' (d_loan d) = Some k \<and> l_status k = CANCELED"
proof -
  obtain db' d where run: "post_loan_disbursement (demo_world ''e'') (disbursement_request ''l1'' ''k3'' 300)
      (demo_user ''mfi'') canceled_ledger = Inr (db', d)"
    using canceled_disbursed by (auto simp: is_ok_iff)
  have none: "disbursements canceled_ledger = []" by (simp add: canceled_ledger_def ledger_defs')
  have "d_loan d = ''l1''"
    using run
  proof (cases rule: post_loan_disbursement_effect)
    case (posted l a db2)
    then show ?thesis
      by (auto simp: canceled_ledger_def live_loan_def ledger_defs' split: if_splits)
  qed (simp add: none)
  then have "\<exists>k. loan_by_id db' (d_loan d) = Some k \<and> l_status k = CANCELED"
    using loan_status_after_disbursement [OF run, of "demo_loan ''l1''\<lparr>l_facility := Some ''a'', l_status := CANCELED\<rparr>"] none
    by (auto simp: canceled_ledger_def live_loan_def demo_loan_def)
  with run show ?thesis by blast
qed




lemma schedule_rows_shape:
  assumes "schedule_rows w lid version p k seen raws = Inr rows"
  shows "(\<forall>i \<in> set rows. i_loan i = lid \<and> i_version i = version \<and> 0 < i_number i \<and> i_number i \<notin> set seen
      \<and> 0 < i_principal_due i + i_interest_due i + i_fee_due i)
    \<and> distinct (map i_number rows) \<and> length rows = length raws"
  using assms
proof (induction raws arbitrary: k seen rows)
  case (Cons raw raws)
  from Cons.prems show ?case
    unfolding schedule_rows.simps
    apply (elim bindE_InrE)
    subgoal premises prems for number _ pd idue fd _ dd tail
      using Cons.IH [OF prems(8)] prems(2,6,9) by auto
    done
qed simp

text \<open>A schedule that is created has one row per request line, numbered by distinct
  positive numbers, each with something due, and its principal sums to the loan's net
  disbursed principal.\<close>

theorem schedule_matches_disbursement:
  assumes "create_repayment_schedule w lid raws version p db = Inr (db', rows)"
    and "\<not> set rows \<subseteq> set (installments db)"
  shows "sum_list (map i_principal_due rows) = net_disbursed db lid None
    \<and> distinct (map i_number rows) \<and> length rows = length raws
    \<and> (\<forall>i \<in> set rows. i_loan i = lid \<and> 0 < i_number i \<and> 0 < i_principal_due i + i_interest_due i + i_fee_due i)
    \<and> installments db' = installments db @ rows"
  using assms(1)
proof (cases rule: create_repayment_schedule_effect)
  case posted
  with schedule_rows_shape [OF posted(4)] show ?thesis by blast
qed (use assms(2) in simp)

theorem schedule_matches_disbursement_witness:
  "sum_list (map i_principal_due [demo_installment]) = net_disbursed ledger5 ''l1'' None
     \<and> net_disbursed ledger5 ''l1'' None = 30000"
  using schedule_matches_disbursement [OF step6s]
  by (simp add: ledger_defs_s)

section \<open>Amounts\<close>

lemma ndigits_lower: "10 ^ k \<le> n \<Longrightarrow> k < ndigits n"
proof (induction k arbitrary: n)
  case 0
  then show ?case using ndigits_pos [of n] by simp
next
  case (Suc k)
  then have "10 ^ k \<le> n div 10" by (simp add: less_eq_div_iff_mult_less_eq)
  then have "k < ndigits (n div 10)" by (rule Suc.IH)
  moreover have "(10::nat) \<le> 10 * 10 ^ k" by simp
  then have "10 \<le> n" using Suc.prems by (metis le_trans power_Suc)
  ultimately show ?case by (subst ndigits.simps) simp
qed

text \<open>A positive whole amount is read exactly as printed, in hundredths, as long as its
  hundredths fit decimal's 28 digits; beyond that the check itself raises
  InvalidOperation, which is not one of the errors the caller is told about.\<close>

theorem whole_amounts:
  assumes "0 < n" and "n < 10 ^ 40"
  shows "money (JInt n) field allow_zero = (if n < 10 ^ 26 then Inr (100 * n) else Inl InvalidOperation)"
proof -
  have "nat \<bar>n\<bar> < 10 ^ 40" using assms by simp
  then have "ndigits (nat \<bar>n\<bar>) \<le> 40" by (rule ndigits_bound_pos) simp
  then have finite: "mk_finite n 0 = Some (Finite n 0)" by (simp add: mk_finite_def decimal_exponent_ok_def)
  have cents: "quantize_cents n 0 = (if n < 10 ^ 26 then Some (100 * n) else None)"
  proof (cases "n < 10 ^ 26")
    case True
    then have "nat \<bar>100 * n\<bar> < 10 ^ 28" using assms(1) by simp
    then have "ndigits (nat \<bar>100 * n\<bar>) \<le> 28" by (rule ndigits_bound_pos) simp
    with True show ?thesis by (simp add: quantize_cents_def decimal_precision_def mult.commute)
  next
    case False
    then have "10 ^ 28 \<le> nat \<bar>100 * n\<bar>" using assms(1) by simp
    then have "28 < ndigits (nat \<bar>100 * n\<bar>)" by (rule ndigits_lower)
    with False show ?thesis by (simp add: quantize_cents_def decimal_precision_def mult.commute)
  qed
  show ?thesis
    using assms(1) by (simp add: money_def py_str_def parse_decimal_show_int finite cents equals_cents_def)
qed

theorem whole_amounts_witness:
  "money (JInt 1500) ''Amount'' False = Inr 150000 \<and> money (JInt (10 ^ 27)) ''Amount'' False = Inl InvalidOperation"
  using whole_amounts [of 1500 "''Amount''" False] whole_amounts [of "10 ^ 27" "''Amount''" False] by simp

section \<open>A check that cannot be reached\<close>

lemma bindE_eq_Inl: "bindE m f = Inl e \<longleftrightarrow> m = Inl e \<or> (\<exists>x. m = Inr x \<and> f x = Inl e)"
  by (cases m) auto

lemma bindE_not_Inl:
  assumes "m \<noteq> Inl e" and "\<And>x. m = Inr x \<Longrightarrow> f x \<noteq> Inl e"
  shows "bindE m f \<noteq> Inl e"
  using assms by (cases m) auto

lemma step_not_Inl:
  "c' \<noteq> e \<Longrightarrow> ensure c c' \<noteq> Inl e" "c' \<noteq> e \<Longrightarrow> of_option c' v \<noteq> Inl e"
  "Forbidden msg \<noteq> e \<Longrightarrow> require p perm msg \<noteq> Inl e" "AuditUnavailable \<noteq> e \<Longrightarrow> audit w a s p db \<noteq> Inl e"
  by (auto simp: ensure_def of_option_def require_def audit_def split: option.split)

text \<open>Creating a facility never answers the message the code has for a commitment above
  the approved amount: the row is inserted first, and its table's own constraint raises
  IntegrityError.\<close>

theorem commitment_message_unreachable:
  assumes "\<And>s e. parse_date w s = Inl e \<Longrightarrow> e = ValueError"
  shows "create_funding_facility w data p db
    \<noteq> Inl (BadRequest ''Commitment cannot exceed the approved facility amount.'')"
proof -
  let ?e = "BadRequest ''Commitment cannot exceed the approved facility amount.''"
  have m: "money v field z \<noteq> Inl ?e" if "field \<in> {''Approved amount'', ''Commitment''}" for v field z
    using that by (auto simp: money_def split: option.splits dec.splits if_splits)
  have t: "required_text data key label \<noteq> Inl ?e"
    if "label \<in> {''Lending partner'', ''Facility reference'', ''Facility name''}" for key label
    using that by (auto simp: required_text_def Let_def)
  have d: "date_value w v field \<noteq> Inl ?e" if "field \<in> {''Start date'', ''End date''}" for v field
    using that assms by (auto simp: date_value_def bindE_eq_Inl of_option_def split: option.splits)
  have c: "list_column data key \<noteq> Inl ?e" "dict_column data key \<noteq> Inl ?e" for key
    by (auto simp: list_column_def dict_column_def Let_def split: jval.splits)
  have i: "insert_facility f db \<noteq> Inl ?e" for f
    unfolding insert_facility_def by (intro bindE_not_Inl step_not_Inl) simp_all
  have e: "(if b then bindE (date_value w v ''End date'') (\<lambda>d. Inr (Some d)) else Inr None) \<noteq> Inl ?e" for b v
    using d [of "''End date''"] by (auto simp: bindE_eq_Inl)
  have a: "(if b then Inr None else bindE (money v ''Approved amount'' False) (\<lambda>v. Inr (Some v))) \<noteq> Inl ?e" for b v
    using m [of "''Approved amount''"] by (auto simp: bindE_eq_Inl)
  show ?thesis
    unfolding create_funding_facility_def Let_def
    apply (rule bindE_not_Inl, simp add: step_not_Inl)
    apply (rule bindE_not_Inl, simp add: t)
    apply (rule bindE_not_Inl, simp add: step_not_Inl)
    apply (rule bindE_not_Inl, simp add: d)
    apply (rule bindE_not_Inl, rule e)
    apply (rule bindE_not_Inl, simp add: step_not_Inl)
    apply (rule bindE_not_Inl, simp add: step_not_Inl)
    apply (rule bindE_not_Inl, simp add: t)
    apply (rule bindE_not_Inl, simp add: t)
    apply (rule bindE_not_Inl, rule a)
    apply (rule bindE_not_Inl, simp add: m)
    apply (rule bindE_not_Inl, rule c)+
    apply (rule bindE_not_Inl, rule i)
    subgoal premises prems for _ _ _ _ _ _ _ _ _ approved commitment
      using insert_facility_Inr [OF prems(17)]
      by (cases approved) (simp_all add: bindE_not_Inl step_not_Inl)
    done
qed

theorem commitment_message_unreachable_witness:
  "create_funding_facility (demo_world ''a'') (facility_request(''approvedAmount'' \<mapsto> JInt 500)) (demo_user ''bto'') demo_ledger
     = Inl (IntegrityError ''bt_funding_facility'')
   \<and> create_funding_facility (demo_world ''a'') (facility_request(''approvedAmount'' \<mapsto> JInt 500)) (demo_user ''bto'') demo_ledger
     \<noteq> Inl (BadRequest ''Commitment cannot exceed the approved facility amount.'')"
proof
  show "create_funding_facility (demo_world ''a'') (facility_request(''approvedAmount'' \<mapsto> JInt 500)) (demo_user ''bto'') demo_ledger
      = Inl (IntegrityError ''bt_funding_facility'')"
    by (simp add: create_funding_facility_def reading demo_defs facility_request_def insert_facility_def ledger_defs)
  show "create_funding_facility (demo_world ''a'') (facility_request(''approvedAmount'' \<mapsto> JInt 500)) (demo_user ''bto'') demo_ledger
      \<noteq> Inl (BadRequest ''Commitment cannot exceed the approved facility amount.'')"
    by (rule commitment_message_unreachable) (simp add: demo_world_def)
qed

end
