(* ===== verification/IsoDates.thy ===== *)
theory IsoDates
  imports PyValues CalendarDates
begin

text \<open>
  The text of a date: \<open>date.isoformat\<close> and the forms \<open>date.fromisoformat\<close> reads (Python 3.13:
  \<open>YYYY-MM-DD\<close>, \<open>YYYYMMDD\<close> and the ISO weeks \<open>YYYY-Www-D\<close>, \<open>YYYYWwwD\<close>, whose day may be
  left out), and the constructor \<open>date(y, m, d)\<close>.
\<close>

definition py_date :: "int \<Rightarrow> int \<Rightarrow> int \<Rightarrow> date result" where
  "py_date y m d =
     (if 1 \<le> y \<and> y \<le> 9999 \<and> valid_date (Date y m d) then Inr (Date y m d) else Inl ValueError)"

definition zero_padded :: "nat \<Rightarrow> int \<Rightarrow> string" where
  "zero_padded k n = replicate (k - length (show_int n)) (CHR ''0'') @ show_int n"

definition isoformat :: "date \<Rightarrow> string" where
  "isoformat d = zero_padded 4 (year d) @ ''-'' @ zero_padded 2 (month d) @ ''-'' @ zero_padded 2 (day d)"

section \<open>Reading a date\<close>

text \<open>\<open>k\<close> decimal digits and what follows them.\<close>

definition read_digits :: "nat \<Rightarrow> string \<Rightarrow> (int \<times> string) option" where
  "read_digits k s = (if length (take k s) = k \<and> list_all is_digit (take k s)
     then Some (int (digits_val (take k s)), drop k s) else None)"

definition read_dash :: "bool \<Rightarrow> string \<Rightarrow> string option" where
  "read_dash sep s = (if \<not> sep then Some s
     else (case s of [] \<Rightarrow> None | c # cs \<Rightarrow> if c = CHR ''-'' then Some cs else None))"

definition weeks_in_year :: "int \<Rightarrow> int" where
  "weeks_in_year y = (let first = weekday (Date y 1 1) in
     if first = 3 \<or> (first = 2 \<and> leap_year y) then 53 else 52)"

definition of_iso_week :: "int \<Rightarrow> int \<Rightarrow> int \<Rightarrow> date result" where
  "of_iso_week y w d =
     (if 1 \<le> y \<and> y \<le> 9999 \<and> 1 \<le> w \<and> w \<le> weeks_in_year y \<and> 1 \<le> d \<and> d \<le> 7
      then (let first = weekday (Date y 1 1);
                monday = (if 3 < first then 7 - first else - first);
                r = add_days (Date y 1 1) (monday + (w - 1) * 7 + (d - 1))
            in if year r \<le> 9999 then Inr r else Inl ValueError)
      else Inl ValueError)"

definition read_week :: "bool \<Rightarrow> int \<Rightarrow> string \<Rightarrow> date result" where
  "read_week sep y s =
     (case read_digits 2 s of None \<Rightarrow> Inl ValueError
      | Some (w, rest) \<Rightarrow>
          if rest = [] then of_iso_week y w 1
          else (case Option.bind (read_dash sep rest) (read_digits 1) of
              None \<Rightarrow> Inl ValueError
            | Some (d, _) \<Rightarrow> of_iso_week y w d))"

definition read_month_day :: "bool \<Rightarrow> int \<Rightarrow> string \<Rightarrow> date result" where
  "read_month_day sep y s =
     (case read_digits 2 s of None \<Rightarrow> Inl ValueError
      | Some (m, rest) \<Rightarrow> (case Option.bind (read_dash sep rest) (read_digits 2) of
          None \<Rightarrow> Inl ValueError
        | Some (d, tail) \<Rightarrow> if tail = [] then py_date y m d else Inl ValueError))"

definition fromisoformat :: "string \<Rightarrow> date result" where
  "fromisoformat s =
     (if length s \<noteq> 7 \<and> length s \<noteq> 8 \<and> length s \<noteq> 10 then Inl ValueError
      else (case read_digits 4 s of None \<Rightarrow> Inl ValueError
        | Some (y, rest) \<Rightarrow>
            let sep = (rest \<noteq> [] \<and> hd rest = CHR ''-''); body = (if sep then tl rest else rest) in
            if body \<noteq> [] \<and> hd body = CHR ''W'' then read_week sep y (tl body)
            else read_month_day sep y body))"

section \<open>A date is read back from its text\<close>

lemma length_show_nat: "n < 10 ^ k \<Longrightarrow> 0 < k \<Longrightarrow> length (show_nat n) \<le> k"
proof (induction k arbitrary: n)
  case (Suc k)
  show ?case
  proof (cases "n < 10")
    case True
    then show ?thesis by (subst show_nat.simps) simp
  next
    case False
    have small: "n div 10 < 10 ^ k" using Suc.prems(1) by (simp add: less_mult_imp_div_less mult.commute)
    have "0 < k" using False Suc.prems(1) by (cases k) auto
    with Suc.IH [OF small] False show ?thesis by (subst show_nat.simps) simp
  qed
qed simp

lemma digits_val_zero: "digits_val (replicate k (CHR ''0'') @ s) = digits_val s"
  by (induction k) (simp_all add: digits_val_def digit_val_def char_code_def)

lemma zero_padded_facts:
  assumes "0 \<le> n" and "n < 10 ^ k" and "0 < k"
  shows "length (zero_padded k n) = k" and "list_all is_digit (zero_padded k n)"
    and "int (digits_val (zero_padded k n)) = n"
proof -
  have "is_digit (CHR ''0'')" by (simp add: is_digit_def char_code_def)
  then show "list_all is_digit (zero_padded k n)"
    using show_nat_digits [of "nat n"] assms(1) by (auto simp: zero_padded_def show_int_def list_all_iff)
  have "nat n < 10 ^ k" using assms(1,2) by (simp add: nat_less_iff)
  then show "length (zero_padded k n) = k"
    using length_show_nat [OF _ assms(3)] assms(1) by (simp add: zero_padded_def show_int_def)
  show "int (digits_val (zero_padded k n)) = n"
    using assms(1) by (simp add: zero_padded_def show_int_def digits_val_zero digits_val_show_nat)
qed

lemma read_zero_padded:
  assumes "0 \<le> n" and "n < 10 ^ k" and "0 < k"
  shows "read_digits k (zero_padded k n @ s) = Some (n, s)"
  using zero_padded_facts [OF assms] by (simp add: read_digits_def)

lemma zero_padded_2: "0 \<le> n \<Longrightarrow> n < 100 \<Longrightarrow> read_digits 2 (zero_padded 2 n @ s) = Some (n, s)
    \<and> read_digits 2 (zero_padded 2 n) = Some (n, []) \<and> length (zero_padded 2 n) = 2
    \<and> hd (zero_padded 2 n @ s) \<noteq> CHR ''W''"
proof -
  assume n: "0 \<le> n" "n < 100"
  have "is_digit (hd (zero_padded 2 n))"
    using zero_padded_facts [of n 2] n by (cases "zero_padded 2 n") auto
  moreover have "\<not> is_digit (CHR ''W'')" by (simp add: is_digit_def char_code_def)
  ultimately have "hd (zero_padded 2 n @ s) \<noteq> CHR ''W''"
    using zero_padded_facts(1) [of n 2] n by (cases "zero_padded 2 n") auto
  then show ?thesis
    using read_zero_padded [of n 2] read_zero_padded [of n 2 "[]"] zero_padded_facts(1) [of n 2] n by simp
qed

lemma fromisoformat_dashed:
  "length s = 10 \<Longrightarrow> read_digits 4 s = Some (y, CHR ''-'' # body) \<Longrightarrow> hd body \<noteq> CHR ''W''
    \<Longrightarrow> fromisoformat s = read_month_day True y body"
  by (simp add: fromisoformat_def)

lemma fromisoformat_isoformat:
  assumes "valid_date d" and "1 \<le> year d" and "year d \<le> 9999"
  shows "fromisoformat (isoformat d) = Inr d"
proof -
  have m: "0 \<le> month d" "month d < 100" "0 \<le> day d" "day d < 100"
    using assms(1) days_in_month_bounds(2) [of "year d" "month d"] by (auto simp: valid_date_def)
  let ?m = "zero_padded 2 (month d)" and ?d = "zero_padded 2 (day d)"
  have date: "py_date (year d) (month d) (day d) = Inr d"
    using assms by (simp add: py_date_def)
  have m2: "read_digits 2 (?m @ ''-'' @ ?d) = Some (month d, ''-'' @ ?d)" and d2: "read_digits 2 ?d = Some (day d, [])"
    using zero_padded_2 [OF m(1,2)] zero_padded_2 [OF m(3,4)] by blast+
  have dash: "read_dash True (''-'' @ ?d) = Some ?d" by (simp add: read_dash_def)
  have body: "read_month_day True (year d) (?m @ ''-'' @ ?d) = Inr d"
    unfolding read_month_day_def m2 by (simp add: dash [unfolded append_Cons append_Nil] d2 date)
  have y: "read_digits 4 (isoformat d) = Some (year d, ''-'' @ ?m @ ''-'' @ ?d)"
    unfolding isoformat_def using read_zero_padded [of "year d" 4] assms(2,3) by simp
  have "length (isoformat d) = 10"
    using zero_padded_facts(1) [of "year d" 4] assms(2,3) zero_padded_2 [OF m(1,2)] zero_padded_2 [OF m(3,4)]
    by (simp add: isoformat_def)
  moreover have "hd (?m @ ''-'' @ ?d) \<noteq> CHR ''W''"
    using zero_padded_2 [OF m(1,2)] by blast
  ultimately have "fromisoformat (isoformat d) = read_month_day True (year d) (?m @ ''-'' @ ?d)"
    using y by (intro fromisoformat_dashed) simp_all
  with body show ?thesis by simp
qed

lemma isoformat_inj:
  assumes "valid_date d" "1 \<le> year d" "year d \<le> 9999" and "valid_date e" "1 \<le> year e" "year e \<le> 9999"
    and "isoformat d = isoformat e"
  shows "d = e"
  using fromisoformat_isoformat [OF assms(1-3)] fromisoformat_isoformat [OF assms(4-6)]
  unfolding assms(7) by (metis sum.inject(2))

text \<open>What is read is a date of the calendar in the years 1 to 9999.\<close>

lemma py_date_valid: "py_date y m d = Inr r \<Longrightarrow> valid_date r \<and> 1 \<le> year r \<and> year r \<le> 9999"
  by (auto simp: py_date_def split: if_splits)

end
