(* ===== verification/Notifications.thy ===== *)
theory Notifications
  imports PyValues
begin

text \<open>
  apps/notifications/services.py: the inbox. A workflow event told to a list of
  people (\<open>trigger\<close>), a notice one person sends another (\<open>notify_from_person\<close>), what a
  reader does with a notice and the closing of the notices of a condition that no
  longer holds (\<open>resolve_condition\<close>); and the part of the directory of users that
  addresses them (apps/accounts/models.py).

  The table of notices is the list of its rows in the order of their creation, so
  \<open>order_by("-created_at").first()\<close> is the last row. The k-th row is given the key
  \<open>new_id k\<close>. The link a notice opens (\<open>target_route\<close>, \<open>action_label\<close>) when the
  platform raises it is display, as are \<open>expires_at\<close> and the copies sent on to phones,
  mail, the event bus and the audit log.
\<close>

section \<open>The directory\<close>

record user =
  u_id :: string
  u_roles :: "string list"
  u_active_role :: string
  u_is_active :: bool
  u_deleted :: bool

record staff_row =
  sp_id :: string
  sp_user :: string
  sp_country :: string
  sp_deleted :: bool

record user_directory =
  users :: "user list"
  staff_profiles :: "staff_row list"

definition role_recipients :: "user_directory \<Rightarrow> string \<Rightarrow> string option \<Rightarrow> string option \<Rightarrow> user list" where
  "role_recipients dir role exclude country =
     filter (\<lambda>u. role \<in> set (u_roles u) \<and> u_is_active u \<and> \<not> u_deleted u
         \<and> (case exclude of None \<Rightarrow> True | Some x \<Rightarrow> x = [] \<or> u_id u \<noteq> x)
         \<and> (case country of None \<Rightarrow> True
            | Some c \<Rightarrow> c = [] \<or> list_ex (\<lambda>sp. sp_user sp = u_id u \<and> sp_country sp = c) (staff_profiles dir)))
       (users dir)"

section \<open>Rows\<close>

datatype message_status = UNREAD | READ | ARCHIVED

record notice =
  n_id :: string
  n_recipient :: string
  n_role :: "string option"
  n_sender :: "string option"
  n_title :: string
  n_body :: "string option"
  n_category :: string
  n_context_type :: "string option"
  n_context_id :: "string option"
  n_target_route :: "string option"
  n_action_label :: "string option"
  n_action_required :: bool
  n_priority :: string
  n_status :: message_status
  n_event :: "string option"
  n_source_event :: "string option"
  n_read_at :: "int option"
  n_resolved_at :: "int option"
  n_reminders :: nat
  n_last_reminded :: "int option"

text \<open>A row with the defaults of the model.\<close>

definition blank_notice :: notice where
  "blank_notice = \<lparr>n_id = [], n_recipient = [], n_role = None, n_sender = None, n_title = [],
     n_body = None, n_category = ''general'', n_context_type = None, n_context_id = None,
     n_target_route = None, n_action_label = None, n_action_required = False,
     n_priority = ''normal'', n_status = UNREAD, n_event = None, n_source_event = None,
     n_read_at = None, n_resolved_at = None, n_reminders = 0, n_last_reminded = None\<rparr>"

text \<open>Saving the newest of the rows that satisfy \<open>P\<close>.\<close>

fun save_newest :: "('r \<Rightarrow> bool) \<Rightarrow> ('r \<Rightarrow> 'r) \<Rightarrow> 'r list \<Rightarrow> 'r list" where
  "save_newest P f [] = []"
| "save_newest P f (r # rows) =
     (if list_ex P rows then r # save_newest P f rows else (if P r then f r else r) # rows)"

section \<open>Telling people of an event\<close>

record event =
  ev_type :: string
  ev_category :: string
  ev_priority :: string
  ev_title :: string
  ev_body :: string
  ev_context_type :: "string option"
  ev_context_id :: "string option"
  ev_sender :: "string option"

text \<open>A recipient is given as a user or as the id of a user or of a staff profile.\<close>

datatype recipient = ThisUser user | IdOf string

definition user_of :: "user_directory \<Rightarrow> recipient \<Rightarrow> user option" where
  "user_of dir r = (case r of ThisUser u \<Rightarrow> Some u
     | IdOf i \<Rightarrow> (case find (\<lambda>u. u_id u = i) (users dir) of Some u \<Rightarrow> Some u
         | None \<Rightarrow> (case find (\<lambda>sp. sp_id sp = i \<and> \<not> sp_deleted sp) (staff_profiles dir) of
               Some sp \<Rightarrow> (if sp_user sp = [] then None else find (\<lambda>u. u_id u = sp_user sp) (users dir))
             | None \<Rightarrow> None)))"

definition nonblank :: "string option \<Rightarrow> bool" where
  "nonblank v = (case v of None \<Rightarrow> False | Some s \<Rightarrow> s \<noteq> [])"

definition urgent :: "string \<Rightarrow> bool" where
  "urgent priority \<longleftrightarrow> priority = ''high'' \<or> priority = ''urgent''"

text \<open>The live notice of the same unresolved condition, when there is one.\<close>

definition same_condition :: "event \<Rightarrow> string \<Rightarrow> notice \<Rightarrow> bool" where
  "same_condition ev uid n \<longleftrightarrow> n_recipient n = uid \<and> n_event n = Some (ev_type ev)
     \<and> n_context_type n = ev_context_type ev \<and> n_context_id n = ev_context_id ev"

definition live :: "notice \<Rightarrow> bool" where
  "live n \<longleftrightarrow> n_status n \<noteq> ARCHIVED \<and> n_resolved_at n = None"

definition refired :: "int \<Rightarrow> event \<Rightarrow> notice \<Rightarrow> notice" where
  "refired at ev n = n\<lparr>n_title := ev_title ev, n_body := Some (ev_body ev),
     n_priority := ev_priority ev, n_action_required := urgent (ev_priority ev),
     n_reminders := n_reminders n + 1, n_last_reminded := Some at, n_status := UNREAD,
     n_read_at := None, n_sender := (if nonblank (ev_sender ev) then ev_sender ev else n_sender n)\<rparr>"

definition new_notice :: "string \<Rightarrow> event \<Rightarrow> user \<Rightarrow> notice" where
  "new_notice key ev u = blank_notice\<lparr>n_id := key, n_recipient := u_id u,
     n_role := Some (if u_active_role u = [] then ''Staff'' else u_active_role u),
     n_title := ev_title ev, n_body := Some (ev_body ev), n_category := ev_category ev,
     n_context_type := ev_context_type ev, n_context_id := ev_context_id ev,
     n_priority := ev_priority ev, n_event := Some (ev_type ev),
     n_source_event := Some (case ev_context_id ev of None \<Rightarrow> [] | Some s \<Rightarrow> s),
     n_action_required := urgent (ev_priority ev),
     n_sender := (if nonblank (ev_sender ev) then ev_sender ev else None)\<rparr>"

text \<open>What one recipient is told; the loop then skips whoever was told already.\<close>

definition tell :: "int \<Rightarrow> (nat \<Rightarrow> string) \<Rightarrow> event \<Rightarrow> user \<Rightarrow> notice list \<Rightarrow> notice list" where
  "tell at new_id ev u rows =
     (let same = (\<lambda>n. same_condition ev (u_id u) n \<and> live n) in
      if nonblank (ev_context_id ev) \<and> list_ex same rows then save_newest same (refired at ev) rows
      else rows @ [new_notice (new_id (length rows)) ev u])"

fun tell_all :: "int \<Rightarrow> (nat \<Rightarrow> string) \<Rightarrow> user_directory \<Rightarrow> event \<Rightarrow> string list \<Rightarrow> recipient list
    \<Rightarrow> notice list \<Rightarrow> notice list" where
  "tell_all at new_id dir ev seen [] rows = rows"
| "tell_all at new_id dir ev seen (r # rs) rows =
     (case user_of dir r of None \<Rightarrow> tell_all at new_id dir ev seen rs rows
      | Some u \<Rightarrow> if u_id u \<in> set seen then tell_all at new_id dir ev seen rs rows
          else tell_all at new_id dir ev (u_id u # seen) rs (tell at new_id ev u rows))"

definition trigger :: "int \<Rightarrow> (nat \<Rightarrow> string) \<Rightarrow> user_directory \<Rightarrow> event \<Rightarrow> recipient list
    \<Rightarrow> notice list \<Rightarrow> notice list" where
  "trigger at new_id dir ev rs rows = tell_all at new_id dir ev [] rs rows"

section \<open>A notice one person sends another\<close>

datatype person_field = Recipient_role string | Title string | Body string | Category string
  | Target_route string | Action_label string | Action_required bool | Priority string
  | Status message_status | Source_event_id string | Read_at "int option"
  | Resolved_at "int option" | Unknown_field string

fun set_field :: "person_field \<Rightarrow> notice \<Rightarrow> notice" where
  "set_field (Recipient_role v) n = n\<lparr>n_role := Some v\<rparr>"
| "set_field (Title v) n = n\<lparr>n_title := v\<rparr>"
| "set_field (Body v) n = n\<lparr>n_body := Some v\<rparr>"
| "set_field (Category v) n = n\<lparr>n_category := v\<rparr>"
| "set_field (Target_route v) n = n\<lparr>n_target_route := Some v\<rparr>"
| "set_field (Action_label v) n = n\<lparr>n_action_label := Some v\<rparr>"
| "set_field (Action_required v) n = n\<lparr>n_action_required := v\<rparr>"
| "set_field (Priority v) n = n\<lparr>n_priority := v\<rparr>"
| "set_field (Status v) n = n\<lparr>n_status := v\<rparr>"
| "set_field (Source_event_id v) n = n\<lparr>n_source_event := Some v\<rparr>"
| "set_field (Read_at v) n = n\<lparr>n_read_at := v\<rparr>"
| "set_field (Resolved_at v) n = n\<lparr>n_resolved_at := v\<rparr>"
| "set_field (Unknown_field v) n = n"

definition known_field :: "person_field \<Rightarrow> bool" where
  "known_field f = (case f of Unknown_field _ \<Rightarrow> False | _ \<Rightarrow> True)"

definition set_fields :: "person_field list \<Rightarrow> notice \<Rightarrow> notice" where
  "set_fields fs n = foldl (\<lambda>m f. set_field f m) n fs"

record lookup =
  k_recipient :: string
  k_context_type :: string
  k_context_id :: string
  k_event :: string

definition matches :: "lookup \<Rightarrow> notice \<Rightarrow> bool" where
  "matches k n \<longleftrightarrow> n_recipient n = k_recipient k \<and> n_context_type n = Some (k_context_type k)
     \<and> n_context_id n = Some (k_context_id k) \<and> n_event n = Some (k_event k)"

definition sent_again :: "int \<Rightarrow> string option \<Rightarrow> notice \<Rightarrow> notice" where
  "sent_again at sender n =
     (if nonblank sender
      then n\<lparr>n_sender := sender, n_reminders := n_reminders n + 1, n_last_reminded := Some at\<rparr> else n)"

definition notify_from_person :: "int \<Rightarrow> (nat \<Rightarrow> string) \<Rightarrow> string option \<Rightarrow> lookup
    \<Rightarrow> person_field list \<Rightarrow> notice list \<Rightarrow> (notice list \<times> bool) result" where
  "notify_from_person at new_id sender k defaults rows =
     bindE (ensure (list_all known_field defaults) ValueError) (\<lambda>_.
       if list_ex (matches k) rows
       then Inr (save_newest (matches k) (\<lambda>n. sent_again at sender (set_fields defaults n)) rows, False)
       else Inr (rows @ [set_fields defaults (blank_notice\<lparr>n_id := new_id (length rows),
              n_recipient := k_recipient k, n_context_type := Some (k_context_type k),
              n_context_id := Some (k_context_id k), n_event := Some (k_event k),
              n_sender := (if nonblank sender then sender else None)\<rparr>)], True))"

section \<open>What closes and reads notices\<close>

definition resolve_condition :: "int \<Rightarrow> string list \<Rightarrow> string option \<Rightarrow> string option
    \<Rightarrow> string list \<Rightarrow> notice list \<Rightarrow> notice list" where
  "resolve_condition at events context_type context_id recipients rows =
     (if events = [] \<or> \<not> nonblank context_id then rows
      else update_where (\<lambda>n. (case n_event n of None \<Rightarrow> False | Some e \<Rightarrow> e \<in> set events)
             \<and> n_context_id n = context_id \<and> n_resolved_at n = None
             \<and> (nonblank context_type \<longrightarrow> n_context_type n = context_type)
             \<and> (recipients \<noteq> [] \<longrightarrow> n_recipient n \<in> set recipients))
           (\<lambda>n. n\<lparr>n_resolved_at := Some at, n_status := ARCHIVED, n_action_required := False\<rparr>) rows)"

definition mark_read :: "int \<Rightarrow> string \<Rightarrow> string \<Rightarrow> notice list \<Rightarrow> notice list" where
  "mark_read at key uid rows =
     update_where (\<lambda>n. n_id n = key \<and> n_recipient n = uid)
       (\<lambda>n. n\<lparr>n_status := READ, n_read_at := Some at\<rparr>) rows"

definition mark_all_read :: "int \<Rightarrow> string \<Rightarrow> notice list \<Rightarrow> notice list" where
  "mark_all_read at uid rows =
     update_where (\<lambda>n. n_recipient n = uid \<and> n_status n = UNREAD)
       (\<lambda>n. n\<lparr>n_status := READ, n_read_at := Some at\<rparr>) rows"

definition resolve_notice :: "string \<Rightarrow> string \<Rightarrow> notice list \<Rightarrow> notice list" where
  "resolve_notice key uid rows =
     update_where (\<lambda>n. n_id n = key \<and> n_recipient n = uid) (\<lambda>n. n\<lparr>n_status := ARCHIVED\<rparr>) rows"

definition archive_all_read :: "string \<Rightarrow> notice list \<Rightarrow> notice list" where
  "archive_all_read uid rows =
     update_where (\<lambda>n. n_recipient n = uid \<and> n_status n = READ) (\<lambda>n. n\<lparr>n_status := ARCHIVED\<rparr>) rows"

definition live_of :: "string \<Rightarrow> notice list \<Rightarrow> notice list" where
  "live_of uid rows = filter (\<lambda>n. n_recipient n = uid \<and> live n) rows"

definition rail :: "string \<Rightarrow> notice list \<Rightarrow> notice list" where
  "rail uid rows = take 20 (rev (live_of uid rows))"

definition recent :: "string \<Rightarrow> notice list \<Rightarrow> notice list" where
  "recent uid rows = take 50 (rev (live_of uid rows))"

definition counts :: "string \<Rightarrow> notice list \<Rightarrow> nat \<times> nat" where
  "counts uid rows = (length (filter (\<lambda>n. n_status n = UNREAD) (live_of uid rows)), length (live_of uid rows))"

definition unread_ids :: "string \<Rightarrow> notice list \<Rightarrow> string list" where
  "unread_ids uid rows = take 100 (rev (map n_id (filter (\<lambda>n. n_status n = UNREAD) (live_of uid rows))))"

end
