(* ===== verification/LoanApplications.thy ===== *)
theory LoanApplications
  imports LedgerQueries IsoDates Notifications
begin

text \<open>
  apps/business_transformation/loan_tracking.py, the intake of loan applications: the
  public form's own checks (loan_forms.py), the submission of an application and its
  follow-up by the officers, with the tables they write (models.py) and the people
  they tell. Money is in hundredths; a middle dot in a title is written as a hyphen.

  A tracking database joins the lending ledger (\<open>books\<close>), the directory of users, the
  inbox and the tables of this module. \<open>loan_terms\<close> holds the columns of a loan the
  ledger does not read. What a principal may see (apps/core/scoping.py) is a parameter:
  \<open>None\<close> when there is no school model, else the ids of the schools in scope.
\<close>

section \<open>Statuses\<close>

datatype application_status = SUBMITTED_APPLICATION | UNDER_REVIEW_APPLICATION
  | REFERRED_APPLICATION | PROCESSING_APPLICATION | APPROVED_APPLICATION
  | DECLINED_APPLICATION | WITHDRAWN_APPLICATION | CONVERTED_APPLICATION

definition application_status_values :: "(string \<times> application_status) list" where
  "application_status_values =
     [(''submitted'', SUBMITTED_APPLICATION), (''under_review'', UNDER_REVIEW_APPLICATION),
      (''referred'', REFERRED_APPLICATION), (''processing'', PROCESSING_APPLICATION),
      (''approved'', APPROVED_APPLICATION), (''declined'', DECLINED_APPLICATION),
      (''withdrawn'', WITHDRAWN_APPLICATION), (''converted'', CONVERTED_APPLICATION)]"

definition application_label :: "application_status \<Rightarrow> string" where
  "application_label s = (case s of SUBMITTED_APPLICATION \<Rightarrow> ''Submitted''
     | UNDER_REVIEW_APPLICATION \<Rightarrow> ''Under review'' | REFERRED_APPLICATION \<Rightarrow> ''Referred to lender''
     | PROCESSING_APPLICATION \<Rightarrow> ''Processing'' | APPROVED_APPLICATION \<Rightarrow> ''Approved''
     | DECLINED_APPLICATION \<Rightarrow> ''Declined'' | WITHDRAWN_APPLICATION \<Rightarrow> ''Withdrawn''
     | CONVERTED_APPLICATION \<Rightarrow> ''Converted to loan'')"

definition OPEN_LOAN_APPLICATION_STATUSES :: "application_status list" where
  "OPEN_LOAN_APPLICATION_STATUSES = [SUBMITTED_APPLICATION, UNDER_REVIEW_APPLICATION,
     REFERRED_APPLICATION, PROCESSING_APPLICATION, APPROVED_APPLICATION]"

definition TERMINAL_APPLICATION_STATUSES :: "application_status list" where
  "TERMINAL_APPLICATION_STATUSES = [DECLINED_APPLICATION, WITHDRAWN_APPLICATION, CONVERTED_APPLICATION]"

definition APPLICATION_TRANSITIONS :: "application_status \<Rightarrow> application_status list" where
  "APPLICATION_TRANSITIONS s = (case s of
     SUBMITTED_APPLICATION \<Rightarrow> [SUBMITTED_APPLICATION, UNDER_REVIEW_APPLICATION,
       DECLINED_APPLICATION, WITHDRAWN_APPLICATION]
   | UNDER_REVIEW_APPLICATION \<Rightarrow> [UNDER_REVIEW_APPLICATION, REFERRED_APPLICATION,
       DECLINED_APPLICATION, WITHDRAWN_APPLICATION]
   | REFERRED_APPLICATION \<Rightarrow> [REFERRED_APPLICATION, PROCESSING_APPLICATION,
       DECLINED_APPLICATION, WITHDRAWN_APPLICATION]
   | PROCESSING_APPLICATION \<Rightarrow> [PROCESSING_APPLICATION, APPROVED_APPLICATION,
       DECLINED_APPLICATION, WITHDRAWN_APPLICATION]
   | APPROVED_APPLICATION \<Rightarrow> [APPROVED_APPLICATION, CONVERTED_APPLICATION, WITHDRAWN_APPLICATION]
   | DECLINED_APPLICATION \<Rightarrow> [DECLINED_APPLICATION]
   | WITHDRAWN_APPLICATION \<Rightarrow> [WITHDRAWN_APPLICATION]
   | CONVERTED_APPLICATION \<Rightarrow> [CONVERTED_APPLICATION])"

definition APPLICATION_RECIPIENT_ROLES :: "string list" where
  "APPLICATION_RECIPIENT_ROLES = [''CountryDirector'', ''ImpactAssessment'', ''BusinessTransformationOfficer'']"

definition APPLICATION_UPDATE_ROLES :: "string list" where
  "APPLICATION_UPDATE_ROLES =
     [''CCEO'', ''CountryDirector'', ''ImpactAssessment'', ''BusinessTransformationOfficer'']"

definition GLOBAL_APPLICATION_ROLES :: "string list" where
  "GLOBAL_APPLICATION_ROLES = filter (\<lambda>r. r \<noteq> ''CCEO'') APPLICATION_UPDATE_ROLES"

section \<open>Rows\<close>

record school =
  sch_id :: string
  sch_school_id :: string
  sch_name :: string
  sch_owner :: "string option"
  sch_country :: "string option"
  sch_deleted :: bool

record application =
  ap_id :: string
  ap_school :: string
  ap_purpose :: string
  ap_mfi :: "string option"
  ap_name :: string
  ap_role :: string
  ap_phone :: string
  ap_email :: string
  ap_amount :: int
  ap_currency :: string
  ap_intended_use :: string
  ap_term :: int
  ap_frequency :: string
  ap_status :: application_status
  ap_next :: "date option"
  ap_consent_at :: int
  ap_submitted_at :: int
  ap_submitted_on :: date
  ap_reviewed_by :: "string option"
  ap_reviewed_at :: "int option"
  ap_processed_at :: "int option"
  ap_linked :: "string option"
  ap_deleted :: bool

record follow_up =
  fu_application :: string
  fu_previous :: "application_status option"
  fu_new :: application_status
  fu_note :: string
  fu_next :: "date option"
  fu_by :: string

record delivery =
  dl_kind :: string
  dl_subject :: string
  dl_period :: string
  dl_recipient :: string

record loan_terms =
  lt_loan :: string
  lt_school :: string
  lt_term_months :: "int option"
  lt_frequency :: string
  lt_maturity :: "date option"

record repayment_snapshot =
  sn_loan :: string
  sn_as_of :: date
  sn_next_payment :: "date option"

record tracking =
  books :: ledger
  people :: user_directory
  schools :: "school list"
  purpose_labels :: "(string \<times> string) list"
  mfi_names :: "(string \<times> string) list"
  loan_details :: "loan_terms list"
  snapshots :: "repayment_snapshot list"
  applications :: "application list"
  follow_ups :: "follow_up list"
  delivery_log :: "delivery list"
  inbox :: "notice list"

definition open_status :: "application_status \<Rightarrow> bool" where
  "open_status s \<longleftrightarrow> s \<in> set OPEN_LOAN_APPLICATION_STATUSES"

definition terminal_status :: "application_status \<Rightarrow> bool" where
  "terminal_status s \<longleftrightarrow> s \<in> set TERMINAL_APPLICATION_STATUSES"

definition text_in :: "(string \<times> string) list \<Rightarrow> string \<Rightarrow> string" where
  "text_in table k = (case map_of table k of None \<Rightarrow> [] | Some t \<Rightarrow> t)"

section \<open>Saving an application\<close>

definition application_checks :: "application \<Rightarrow> unit result" where
  "application_checks a =
     bindE (ensure (0 < ap_amount a) (IntegrityError ''bt_loan_application_amount_positive'')) (\<lambda>_.
     bindE (ensure (0 < ap_term a \<and> ap_term a \<le> 120) (IntegrityError ''bt_loan_application_term_range'')) (\<lambda>_.
     bindE (ensure ((ap_status a = CONVERTED_APPLICATION) = (ap_linked a \<noteq> None))
              (IntegrityError ''bt_loan_application_conversion_link'')) (\<lambda>_.
     ensure (if terminal_status (ap_status a) then ap_processed_at a \<noteq> None else ap_processed_at a = None)
       (IntegrityError ''bt_loan_application_processed_state''))))"

definition claims_school :: "application \<Rightarrow> bool" where
  "claims_school a \<longleftrightarrow> \<not> ap_deleted a \<and> open_status (ap_status a)"

definition application_unique :: "application \<Rightarrow> application list \<Rightarrow> unit result" where
  "application_unique a rows =
     bindE (ensure (\<not> (claims_school a \<and>
              list_ex (\<lambda>b. ap_id b \<noteq> ap_id a \<and> claims_school b \<and> ap_school b = ap_school a) rows))
              (IntegrityError ''uniq_bt_open_loan_application_school'')) (\<lambda>_.
     ensure (\<not> (ap_linked a \<noteq> None \<and> list_ex (\<lambda>b. ap_id b \<noteq> ap_id a \<and> ap_linked b = ap_linked a) rows))
       (IntegrityError ''linked_loan_id''))"

definition insert_application :: "application \<Rightarrow> application list \<Rightarrow> application list result" where
  "insert_application a rows =
     bindE (ensure (\<not> list_ex (\<lambda>b. ap_id b = ap_id a) rows) (IntegrityError ''bt_loan_application_pkey'')) (\<lambda>_.
     bindE (application_checks a) (\<lambda>_. bindE (application_unique a rows) (\<lambda>_. Inr (rows @ [a]))))"

definition save_application :: "application \<Rightarrow> application list \<Rightarrow> application list result" where
  "save_application a rows =
     bindE (application_checks a) (\<lambda>_. bindE (application_unique a rows) (\<lambda>_.
       Inr (update_where (\<lambda>b. ap_id b = ap_id a) (\<lambda>_. a) rows)))"

section \<open>Who is told\<close>

definition portfolio_owner :: "user_directory \<Rightarrow> school \<Rightarrow> user option" where
  "portfolio_owner dir s =
     (case nonempty (sch_owner s) of None \<Rightarrow> None
      | Some owner \<Rightarrow>
          let active = (\<lambda>uid. find (\<lambda>u. u_id u = uid \<and> u_is_active u \<and> \<not> u_deleted u) (users dir)) in
          (case find (\<lambda>sp. sp_id sp = owner \<and> \<not> sp_deleted sp \<and> active (sp_user sp) \<noteq> None) (staff_profiles dir) of
             Some sp \<Rightarrow> active (sp_user sp)
           | None \<Rightarrow> find (\<lambda>u. u_id u = owner \<and> ''CCEO'' \<in> set (u_roles u) \<and> u_is_active u \<and> \<not> u_deleted u)
                (users dir)))"

text \<open>\<open>list({str(user.id): user for user in \<dots>}.values())\<close>: the first place of each id.\<close>

fun first_of_each :: "string list \<Rightarrow> user list \<Rightarrow> user list" where
  "first_of_each seen [] = []"
| "first_of_each seen (u # us) =
     (if u_id u \<in> set seen then first_of_each seen us else u # first_of_each (u_id u # seen) us)"

definition application_recipients :: "user_directory \<Rightarrow> school \<Rightarrow> bool \<Rightarrow> user list" where
  "application_recipients dir s include_ia =
     (let owner = (case portfolio_owner dir s of None \<Rightarrow> [] | Some u \<Rightarrow> [u]);
          country = (case sch_country s of None \<Rightarrow> ''Uganda'' | Some c \<Rightarrow> c);
          roles = filter (\<lambda>r. include_ia \<or> r \<noteq> ''ImpactAssessment'') APPLICATION_RECIPIENT_ROLES
      in first_of_each [] (owner @ concat (map (\<lambda>r. role_recipients dir r None (Some country)) roles)))"

definition school_of :: "tracking \<Rightarrow> string \<Rightarrow> school" where
  "school_of db sid = (case find (\<lambda>s. sch_id s = sid) (schools db) of Some s \<Rightarrow> s
     | None \<Rightarrow> \<lparr>sch_id = sid, sch_school_id = [], sch_name = [], sch_owner = None, sch_country = None,
         sch_deleted = False\<rparr>)"

section \<open>The public form\<close>

definition clean_applicant_phone :: "string \<Rightarrow> string option" where
  "clean_applicant_phone raw =
     (let value = filter (\<lambda>c. \<not> is_space c \<and> c \<notin> set ''().-'') (strip raw);
          normalized = (if take 2 value = ''00'' then CHR ''+'' # drop 2 value else value);
          digits = (if take 1 normalized = ''+'' then drop 1 normalized else normalized)
      in if all_digits digits \<and> 7 \<le> length digits \<and> length digits \<le> 15 then Some normalized else None)"

definition form_school :: "tracking \<Rightarrow> string \<Rightarrow> string \<Rightarrow> school option" where
  "form_school db sid name =
     find (\<lambda>s. lower (sch_school_id s) = lower (strip sid) \<and> lower (sch_name s) = lower (strip name)
        \<and> \<not> sch_deleted s) (schools db)"

definition clean_form :: "tracking \<Rightarrow> string \<Rightarrow> string \<Rightarrow> string \<Rightarrow> (string list) + school" where
  "clean_form db website sid name =
     (if website \<noteq> [] then Inl [''Unable to submit this application.'']
      else (case form_school db sid name of
          None \<Rightarrow> Inl [''The school ID and name do not match our records. Ask your Edify contact to confirm them.'']
        | Some s \<Rightarrow>
            if list_ex (\<lambda>a. ap_school a = sch_id s \<and> claims_school a) (applications db)
            then Inl [''This school already has an open loan application. Contact your Edify portfolio owner for an update.'']
            else Inr s))"

section \<open>Submission\<close>

record application_form =
  fm_school :: school
  fm_purpose :: string
  fm_mfi :: "string option"
  fm_name :: string
  fm_role :: string
  fm_phone :: string
  fm_email :: string
  fm_amount :: int
  fm_intended_use :: string
  fm_term :: int
  fm_frequency :: string

fun commas_from_right :: "string \<Rightarrow> string" where
  "commas_from_right (a # b # c # d # ds) = a # b # c # CHR '','' # commas_from_right (d # ds)"
| "commas_from_right ds = ds"

text \<open>\<open>f"{amount:,.0f}"\<close> of an amount in hundredths.\<close>

definition show_amount :: "int \<Rightarrow> string" where
  "show_amount cents = (let n = round_half_even cents 100; digits = show_nat (nat \<bar>n\<bar>) in
     (if n < 0 then ''-'' else []) @ rev (commas_from_right (rev digits)))"

definition submitted_event :: "tracking \<Rightarrow> application \<Rightarrow> school \<Rightarrow> event" where
  "submitted_event db a s = \<lparr>ev_type = ''bt.loan_application.submitted'',
     ev_category = ''business_transformation'', ev_priority = ''high'',
     ev_title = ''New loan application - '' @ sch_name s,
     ev_body = ap_name a @ '' requested '' @ ap_currency a @ '' '' @ show_amount (ap_amount a) @ '' for ''
       @ text_in (purpose_labels db) (ap_purpose a) @ ''. Review and record the next follow-up.'',
     ev_context_type = Some ''loan_application'', ev_context_id = Some (ap_id a), ev_sender = None\<rparr>"

definition new_application :: "world \<Rightarrow> application_form \<Rightarrow> date \<Rightarrow> application" where
  "new_application w fm next_on = \<lparr>ap_id = new_id w 0, ap_school = sch_id (fm_school fm),
     ap_purpose = fm_purpose fm, ap_mfi = fm_mfi fm, ap_name = fm_name fm, ap_role = fm_role fm,
     ap_phone = fm_phone fm, ap_email = fm_email fm, ap_amount = fm_amount fm, ap_currency = ''UGX'',
     ap_intended_use = fm_intended_use fm, ap_term = fm_term fm, ap_frequency = fm_frequency fm,
     ap_status = SUBMITTED_APPLICATION, ap_next = Some next_on, ap_consent_at = now w,
     ap_submitted_at = now w, ap_submitted_on = today w, ap_reviewed_by = None, ap_reviewed_at = None,
     ap_processed_at = None, ap_linked = None, ap_deleted = False\<rparr>"

definition integrity_to_bad_request :: "string \<Rightarrow> 'a result \<Rightarrow> 'a result" where
  "integrity_to_bad_request message r =
     (case r of Inl (IntegrityError _) \<Rightarrow> Inl (BadRequest message) | _ \<Rightarrow> r)"

definition already_open_message :: string where
  "already_open_message = ''This school already has an open loan application. Contact your Edify portfolio owner for an update.''"

definition submit_application :: "world \<Rightarrow> application_form \<Rightarrow> tracking \<Rightarrow> (tracking \<times> string) result" where
  "submit_application w fm db =
     bindE (py_add_days (today w) 3) (\<lambda>next_on.
       let a = new_application w fm next_on in
       bindE (integrity_to_bad_request already_open_message (insert_application a (applications db))) (\<lambda>rows.
         let told = application_recipients (people db) (fm_school fm) True in
         Inr (db\<lparr>applications := rows,
              follow_ups := follow_ups db @ [\<lparr>fu_application = ap_id a, fu_previous = None,
                fu_new = SUBMITTED_APPLICATION, fu_note = ''Application submitted directly by the school.'',
                fu_next = Some next_on, fu_by = ''school''\<rparr>],
              inbox := (if told = [] then inbox db
                else trigger (now w) (\<lambda>k. new_id w (Suc k)) (people db)
                       (submitted_event db a (fm_school fm)) (map ThisUser told) (inbox db))\<rparr>, ap_id a)))"

section \<open>Follow-up\<close>

type_synonym form_data = "string \<rightharpoonup> string"

definition form_text :: "form_data \<Rightarrow> string \<Rightarrow> string" where
  "form_text data k = (case data k of None \<Rightarrow> [] | Some t \<Rightarrow> strip t)"

definition reads_applications :: "string \<Rightarrow> bool" where
  "reads_applications role \<longleftrightarrow>
     role \<in> set GLOBAL_APPLICATION_ROLES \<or> role = ''RegionalVicePresident'' \<or> role = ''CCEO''"

definition scoped_applications :: "(principal \<Rightarrow> string list option) \<Rightarrow> principal \<Rightarrow> tracking \<Rightarrow> application list" where
  "scoped_applications visible p db =
     (if reads_applications (p_role p)
      then (case visible p of None \<Rightarrow> []
        | Some ids \<Rightarrow> filter (\<lambda>a. \<not> ap_deleted a \<and> ap_school a \<in> set ids) (applications db))
      else [])"

text \<open>The date of the next follow-up: open statuses must name one.\<close>

definition next_follow_up :: "application_status \<Rightarrow> form_data \<Rightarrow> date option result" where
  "next_follow_up new_status data =
     (if terminal_status new_status then Inr None
      else (let raw = form_text data ''nextFollowUpOn'' in
        if raw = [] then Inl (BadRequest ''Set the next follow-up date for an open application.'')
        else (case fromisoformat raw of
            Inr d \<Rightarrow> Inr (Some d)
          | Inl ValueError \<Rightarrow> Inl (BadRequest ''Next follow-up date must be valid.'')
          | Inl e \<Rightarrow> Inl e)))"

text \<open>The loan an application is converted to.\<close>

definition conversion_loan :: "tracking \<Rightarrow> application \<Rightarrow> application_status \<Rightarrow> form_data \<Rightarrow> string option result" where
  "conversion_loan db a new_status data =
     (if new_status \<noteq> CONVERTED_APPLICATION then Inr None
      else (let lid = form_text data ''linkedLoanId'' in
        if lid = [] then Inl (BadRequest ''Select the processed loan before marking this converted.'')
        else (case find (\<lambda>l. l_id l = lid \<and> l_purpose l = ap_purpose a \<and> \<not> l_deleted l
                 \<and> list_ex (\<lambda>t. lt_loan t = l_id l \<and> lt_school t = ap_school a) (loan_details db)) (loans (books db)) of
            None \<Rightarrow> Inl (BadRequest ''The linked loan must belong to the same school and loan purpose.'')
          | Some l \<Rightarrow>
              if nonempty (ap_mfi a) \<noteq> None \<and> Some (l_mfi l) \<noteq> ap_mfi a
              then Inl (BadRequest ''The linked loan must use the selected lending partner.'')
              else if l_status l = CANCELED
              then Inl (BadRequest ''A cancelled loan cannot be linked to an application.'')
              else Inr (Some (l_id l)))))"

definition closing_events :: "string list" where
  "closing_events = [''bt.loan_application.submitted'', ''bt.loan_application.follow_up'']"

definition updated_application :: "world \<Rightarrow> principal \<Rightarrow> application_status \<Rightarrow> date option
    \<Rightarrow> string option \<Rightarrow> application \<Rightarrow> application" where
  "updated_application w p new_status next_on linked a =
     a\<lparr>ap_status := new_status, ap_next := next_on, ap_reviewed_by := Some (actor_id p),
       ap_reviewed_at := Some (now w), ap_linked := linked,
       ap_processed_at := (if terminal_status new_status then Some (now w) else None)\<rparr>"

definition update_application :: "world \<Rightarrow> (principal \<Rightarrow> string list option) \<Rightarrow> principal \<Rightarrow> string
    \<Rightarrow> form_data \<Rightarrow> tracking \<Rightarrow> tracking result" where
  "update_application w visible p aid data db =
     bindE (ensure (p_role p \<in> set APPLICATION_UPDATE_ROLES)
              (Forbidden ''Your active role cannot update loan applications.'')) (\<lambda>_.
     bindE (of_option (NotFoundError ''Loan application not found in your scope.'')
              (find (\<lambda>a. ap_id a = aid) (scoped_applications visible p db))) (\<lambda>a.
     bindE (of_option (BadRequest ''Choose a valid application status.'')
              (map_of application_status_values (form_text data ''status''))) (\<lambda>new_status.
     bindE (ensure (new_status \<in> set (APPLICATION_TRANSITIONS (ap_status a)))
              (BadRequest (''A '' @ lower (application_label (ap_status a))
                 @ '' application cannot move directly to '' @ lower (application_label new_status) @ ''.''))) (\<lambda>_.
     let note = form_text data ''note'' in
     bindE (ensure (note \<noteq> []) (BadRequest ''Add a follow-up note so the next person has context.'')) (\<lambda>_.
     bindE (next_follow_up new_status data) (\<lambda>next_on.
     bindE (conversion_loan db a new_status data) (\<lambda>linked.
     bindE (save_application (updated_application w p new_status next_on linked a) (applications db)) (\<lambda>rows.
       Inr (db\<lparr>applications := rows,
            follow_ups := follow_ups db @ [\<lparr>fu_application = ap_id a, fu_previous = Some (ap_status a),
              fu_new = new_status, fu_note = note, fu_next = next_on, fu_by = actor_id p\<rparr>],
            inbox := (if terminal_status new_status
              then resolve_condition (now w) closing_events (Some ''loan_application'') (Some (ap_id a)) [] (inbox db)
              else inbox db)\<rparr>)))))))))"

end
