(* ===== verification/LoanReminders.thy ===== *)
theory LoanReminders
  imports LoanApplications
begin

text \<open>
  apps/business_transformation/loan_tracking.py, the scheduled work: the next payment of
  a loan, the follow-up reminders with the log that sends each of them once, and the
  monthly report to the regional leadership.
\<close>

section \<open>The next payment of a loan\<close>

text \<open>\<open>calendar.monthrange\<close> is \<open>days_in_month\<close>; \<open>date\<close> raises outside the years 1 to 9999.\<close>

definition add_months :: "date \<Rightarrow> int \<Rightarrow> date result" where
  "add_months d n =
     (let i = month d - 1 + n; y = year d + i div 12; m = i mod 12 + 1 in
      py_date y m (min (day d) (days_in_month y m)))"

definition contains :: "string \<Rightarrow> string \<Rightarrow> bool" where
  "contains s part \<longleftrightarrow> list_ex (\<lambda>k. take (length part) (drop k s) = part) [0..<Suc (length s)]"

datatype pace = MONTHLY | TERMLY

definition pace_of :: "string \<Rightarrow> pace option" where
  "pace_of frequency = (let f = lower frequency in
     if contains f ''term'' \<or> contains f ''quarter'' then Some TERMLY
     else if contains f ''month'' then Some MONTHLY else None)"

definition step_of :: "pace \<Rightarrow> int" where
  "step_of p = (case p of MONTHLY \<Rightarrow> 1 | TERMLY \<Rightarrow> 3)"

definition month_number :: "date \<Rightarrow> int" where
  "month_number d = 12 * year d + month d"

lemma step_of_pos: "1 \<le> step_of p"
  by (cases p) (simp_all add: step_of_def)

lemma add_months_month:
  assumes "add_months d n = Inr r"
  shows "month_number r = month_number d + n"
proof -
  let ?i = "month d - 1 + n"
  have "r = Date (year d + ?i div 12) (?i mod 12 + 1)
      (min (day d) (days_in_month (year d + ?i div 12) (?i mod 12 + 1)))"
    using assms by (simp add: add_months_def py_date_def Let_def split: if_splits)
  then have "month_number r = 12 * year d + (12 * (?i div 12) + ?i mod 12) + 1"
    by (simp add: month_number_def)
  then show ?thesis by (simp add: month_number_def)
qed

lemma month_number_mono:
  "valid_date a \<Longrightarrow> valid_date b \<Longrightarrow> a \<le> b \<Longrightarrow> month_number a \<le> month_number b"
  by (cases a; cases b) (auto simp: valid_date_def month_number_def)

lemma add_months_valid: "add_months d n = Inr r \<Longrightarrow> valid_date r \<and> 1 \<le> year r \<and> year r \<le> 9999"
  by (auto simp: add_months_def Let_def dest: py_date_valid)

text \<open>\<open>while due < today and due < maturity: due = _add_months(due, step)\<close>.\<close>

function advance_due :: "pace \<Rightarrow> date \<Rightarrow> date \<Rightarrow> date \<Rightarrow> date result" where
  "advance_due p at maturity due =
     (if due < at \<and> due < maturity
      then (case add_months due (step_of p) of Inl e \<Rightarrow> Inl e
            | Inr due' \<Rightarrow> advance_due p at maturity due')
      else Inr due)"
  by pat_completeness auto
termination
proof (relation "measures [\<lambda>(p, at, maturity, due). if 1 \<le> month due \<and> month due \<le> 12 then 0 else 1,
    \<lambda>(p, at, maturity, due). nat (12 * year maturity + 13 - month_number due)]")
  fix p at maturity due due'
  assume "due < at \<and> due < maturity" and next_due: "add_months due (step_of p) = Inr due'"
  then have year: "year due \<le> year maturity" by (cases due; cases maturity) auto
  have "1 \<le> month due'" "month due' \<le> 12"
    using add_months_valid [OF next_due] by (simp_all add: valid_date_def)
  then show "((p, at, maturity, due'), (p, at, maturity, due)) \<in> measures
      [\<lambda>(p, at, maturity, due). if 1 \<le> month due \<and> month due \<le> 12 then 0 else 1,
       \<lambda>(p, at, maturity, due). nat (12 * year maturity + 13 - month_number due)]"
    using add_months_month [OF next_due] step_of_pos [of p] year by (auto simp: month_number_def)
qed simp

declare advance_due.simps [simp del]

definition latest_snapshot :: "tracking \<Rightarrow> string \<Rightarrow> repayment_snapshot option" where
  "latest_snapshot db lid =
     (case rev (sort_key sn_as_of (filter (\<lambda>s. sn_loan s = lid) (snapshots db))) of
        [] \<Rightarrow> None | s # _ \<Rightarrow> Some s)"

definition earliest :: "date list \<Rightarrow> date option" where
  "earliest ds = (case sort ds of [] \<Rightarrow> None | d # _ \<Rightarrow> Some d)"

definition terms_of :: "tracking \<Rightarrow> string \<Rightarrow> loan_terms option" where
  "terms_of db lid = find (\<lambda>t. lt_loan t = lid) (loan_details db)"

text \<open>The due dates of a loan's last schedule, when it has one.\<close>

definition schedule_dates :: "tracking \<Rightarrow> string \<Rightarrow> int \<Rightarrow> date list" where
  "schedule_dates db lid v =
     map i_due_date (filter (\<lambda>i. i_loan i = lid \<and> i_version i = v) (installments (books db)))"

text \<open>The payment dates counted from the disbursement, for a loan with a frequency.\<close>

definition paced_due_date :: "date \<Rightarrow> loan \<Rightarrow> loan_terms \<Rightarrow> date option result" where
  "paced_due_date at l t =
     (case l_disbursement_date l of None \<Rightarrow> Inr None
      | Some start \<Rightarrow> (case pace_of (lt_frequency t) of None \<Rightarrow> Inr None
          | Some p \<Rightarrow>
              bindE (add_months start (step_of p)) (\<lambda>due.
              bindE (case lt_maturity t of Some m \<Rightarrow> Inr m
                     | None \<Rightarrow> add_months start (case lt_term_months t of None \<Rightarrow> step_of p
                         | Some n \<Rightarrow> if n = 0 then step_of p else n)) (\<lambda>maturity.
              bindE (advance_due p at maturity due) (\<lambda>d. Inr (Some (min d maturity)))))))"

definition derived_due_date :: "world \<Rightarrow> tracking \<Rightarrow> date \<Rightarrow> loan \<Rightarrow> date option result" where
  "derived_due_date w db at l =
     (case Option.bind (latest_snapshot db (l_id l)) sn_next_payment of
        Some d \<Rightarrow> Inr (Some d)
      | None \<Rightarrow>
          let version = max_version (filter (\<lambda>i. i_loan i = l_id l) (installments (books db))) in
          if version \<noteq> None \<and> version \<noteq> Some 0
          then (let dates = schedule_dates db (l_id l) (the version) in
            Inr (if 0 < amount_overdue (loan_position w (books db) (l_id l) (Some at))
                 then earliest (filter (\<lambda>d. d \<le> at) dates) else earliest (filter (\<lambda>d. at \<le> d) dates)))
          else (case terms_of db (l_id l) of None \<Rightarrow> Inr None | Some t \<Rightarrow> paced_due_date at l t))"

section \<open>The delivery log\<close>

definition claimed :: "string \<Rightarrow> string \<Rightarrow> string \<Rightarrow> user \<Rightarrow> delivery \<Rightarrow> bool" where
  "claimed kind subject period u d \<longleftrightarrow> dl_kind d = kind \<and> dl_subject d = subject
     \<and> dl_period d = period \<and> dl_recipient d = u_id u"

text \<open>\<open>_claim_delivery\<close>, then the notice when the claim is new; the count of notices sent.\<close>

definition deliver_once :: "world \<Rightarrow> string \<Rightarrow> string \<Rightarrow> string \<Rightarrow> event \<Rightarrow> user
    \<Rightarrow> tracking \<times> nat \<Rightarrow> tracking \<times> nat" where
  "deliver_once w kind subject period ev u acc =
     (let (db, sent) = acc in
      if list_ex (claimed kind subject period u) (delivery_log db) then (db, sent)
      else (db\<lparr>delivery_log := delivery_log db @ [\<lparr>dl_kind = kind, dl_subject = subject,
                 dl_period = period, dl_recipient = u_id u\<rparr>],
               inbox := trigger (now w) (new_id w) (people db) ev [ThisUser u] (inbox db)\<rparr>, sent + 1))"

section \<open>Reminders\<close>

definition weeks_suffix :: "int \<Rightarrow> string" where
  "weeks_suffix days = '':w'' @ show_int (days div 7)"

definition application_period :: "date \<Rightarrow> date \<Rightarrow> string" where
  "application_period next_on at = isoformat next_on @ weeks_suffix (to_ordinal at - to_ordinal next_on)"

definition follow_up_event :: "application \<Rightarrow> school \<Rightarrow> int \<Rightarrow> event" where
  "follow_up_event a s days = \<lparr>ev_type = ''bt.loan_application.follow_up'',
     ev_category = ''business_transformation'', ev_priority = ''high'',
     ev_title = ''Loan application follow-up - '' @ sch_name s,
     ev_body = ''The '' @ lower (application_label (ap_status a)) @ '' application is due for follow-up (''
       @ show_int days @ '' day(s) overdue).'',
     ev_context_type = Some ''loan_application'', ev_context_id = Some (ap_id a), ev_sender = None\<rparr>"

definition due_applications :: "date \<Rightarrow> tracking \<Rightarrow> application list" where
  "due_applications at db =
     rev (sort_key ap_submitted_at (filter (\<lambda>a. claims_school a
        \<and> (case ap_next a of None \<Rightarrow> False | Some d \<Rightarrow> d \<le> at)) (applications db)))"

definition remind_application :: "world \<Rightarrow> date \<Rightarrow> application \<Rightarrow> tracking \<times> nat \<Rightarrow> tracking \<times> nat" where
  "remind_application w at a acc =
     (case ap_next a of None \<Rightarrow> acc
      | Some next_on \<Rightarrow>
          let s = school_of (fst acc) (ap_school a); days = to_ordinal at - to_ordinal next_on in
          fold (deliver_once w ''application_follow_up'' (ap_id a) (application_period next_on at)
                  (follow_up_event a s days))
            (application_recipients (people (fst acc)) s True) acc)"

definition send_application_follow_up_reminders :: "world \<Rightarrow> date \<Rightarrow> tracking \<Rightarrow> tracking \<times> nat" where
  "send_application_follow_up_reminders w at db =
     fold (remind_application w at) (due_applications at db) (db, 0)"

definition repayment_stage :: "date \<Rightarrow> date \<Rightarrow> string" where
  "repayment_stage due at =
     (let days = to_ordinal due - to_ordinal at in
      if 0 \<le> days then ''upcoming:'' @ isoformat due
      else ''overdue:'' @ isoformat due @ weeks_suffix \<bar>days\<bar>)"

definition repayment_timing :: "int \<Rightarrow> string" where
  "repayment_timing days =
     (if 0 < days then ''due in '' @ show_int days @ '' day(s)''
      else if days = 0 then ''due today'' else show_int \<bar>days\<bar> @ '' day(s) overdue'')"

definition repayment_event :: "tracking \<Rightarrow> loan \<Rightarrow> school \<Rightarrow> string \<Rightarrow> int \<Rightarrow> event" where
  "repayment_event db l s frequency days = \<lparr>ev_type = ''bt.loan_repayment.follow_up'',
     ev_category = ''business_transformation'', ev_priority = ''high'',
     ev_title = ''Loan repayment follow-up - '' @ sch_name s,
     ev_body = ''The '' @ (if frequency = [] then ''scheduled'' else frequency) @ '' payment to ''
       @ text_in (mfi_names db) (l_mfi l) @ '' is '' @ repayment_timing days
       @ ''. Contact the school and record the repayment position.'',
     ev_context_type = Some ''loan'', ev_context_id = Some (l_id l), ev_sender = None\<rparr>"

text \<open>The default order of loans: the latest disbursement first, those without one before all.\<close>

definition tracked_loans :: "tracking \<Rightarrow> loan list" where
  "tracked_loans db =
     (let rows = filter (\<lambda>l. \<not> l_deleted l \<and> l_status l \<in> {DISBURSED, ACTIVE, DEFAULTED}) (loans (books db)) in
      rev (filter (\<lambda>l. l_disbursement_date l = None) rows)
      @ rev (sort_key (\<lambda>l. the (l_disbursement_date l)) (filter (\<lambda>l. l_disbursement_date l \<noteq> None) rows)))"

definition remind_repayment :: "world \<Rightarrow> date \<Rightarrow> loan \<Rightarrow> tracking \<times> nat \<Rightarrow> (tracking \<times> nat) result" where
  "remind_repayment w at l acc =
     bindE (derived_due_date w (fst acc) at l) (\<lambda>due. case due of None \<Rightarrow> Inr acc
      | Some d \<Rightarrow> bindE (py_add_days at 7) (\<lambda>horizon.
          if horizon < d then Inr acc
          else (let s = school_of (fst acc) (case terms_of (fst acc) (l_id l) of None \<Rightarrow> [] | Some t \<Rightarrow> lt_school t);
                    frequency = (case terms_of (fst acc) (l_id l) of None \<Rightarrow> [] | Some t \<Rightarrow> lt_frequency t);
                    days = to_ordinal d - to_ordinal at
                in Inr (fold (deliver_once w ''repayment_follow_up'' (l_id l) (repayment_stage d at)
                          (repayment_event (fst acc) l s frequency days))
                        (application_recipients (people (fst acc)) s True) acc))))"

fun remind_repayments :: "world \<Rightarrow> date \<Rightarrow> loan list \<Rightarrow> tracking \<times> nat \<Rightarrow> (tracking \<times> nat) result" where
  "remind_repayments w at [] acc = Inr acc"
| "remind_repayments w at (l # ls) acc = bindE (remind_repayment w at l acc) (remind_repayments w at ls)"

definition send_repayment_follow_up_reminders :: "world \<Rightarrow> date \<Rightarrow> tracking \<Rightarrow> (tracking \<times> nat) result" where
  "send_repayment_follow_up_reminders w at db = remind_repayments w at (tracked_loans db) (db, 0)"

section \<open>The monthly report\<close>

definition previous_calendar_month :: "date \<Rightarrow> (date \<times> date) result" where
  "previous_calendar_month at =
     (let month_end = Date (year at) (month at) 1 in
      bindE (py_add_days month_end (- 1)) (\<lambda>d. Inr (Date (year d) (month d) 1, month_end)))"

definition month_name :: "int \<Rightarrow> string" where
  "month_name m = (let names = [''January'', ''February'', ''March'', ''April'', ''May'', ''June'', ''July'',
     ''August'', ''September'', ''October'', ''November'', ''December''] in
     if 1 \<le> m \<and> m \<le> 12 then names ! nat (m - 1) else [])"

definition in_range :: "date \<Rightarrow> date \<Rightarrow> date \<Rightarrow> bool" where
  "in_range start stop d \<longleftrightarrow> start \<le> d \<and> d < stop"

record monthly_summary =
  ms_applications :: nat
  ms_disbursed_loans :: nat
  ms_disbursed_value :: int
  ms_repayments :: int

text \<open>
  \<open>visible_loans\<close> is \<open>scoped_loans\<close> (services.py); a recipient reads the report in the role
  that is active for them.
\<close>

definition monthly_report_summary :: "(principal \<Rightarrow> string list option) \<Rightarrow> (principal \<Rightarrow> string list)
    \<Rightarrow> tracking \<Rightarrow> date \<Rightarrow> date \<Rightarrow> principal \<Rightarrow> monthly_summary" where
  "monthly_report_summary visible visible_loans db start stop p =
     (let apps = filter (\<lambda>a. in_range start stop (ap_submitted_on a)) (scoped_applications visible p db);
          scope = visible_loans p;
          disbursed = filter (\<lambda>l. l_id l \<in> set scope \<and> \<not> l_deleted l
             \<and> (case l_disbursement_date l of None \<Rightarrow> False | Some d \<Rightarrow> in_range start stop d)) (loans (books db));
          paid = (\<lambda>kind. sum_where (\<lambda>x. x_loan x \<in> set scope \<and> in_range start stop (x_value_date x)
             \<and> x_kind x = kind) x_amount (repayments (books db)))
      in \<lparr>ms_applications = length apps, ms_disbursed_loans = length disbursed,
          ms_disbursed_value = sum_list (map (\<lambda>l. amount_or_zero (l_disbursed_amount l)) disbursed),
          ms_repayments = paid PAYMENT - paid REVERSAL\<rparr>)"

definition report_event :: "string \<Rightarrow> date \<Rightarrow> monthly_summary \<Rightarrow> event" where
  "report_event period start s = \<lparr>ev_type = ''bt.loan_report.monthly'',
     ev_category = ''business_transformation'', ev_priority = ''normal'',
     ev_title = ''Monthly loan report ready - '' @ month_name (month start) @ '' '' @ show_int (year start),
     ev_body = show_int (int (ms_applications s)) @ '' application(s), '' @ show_int (int (ms_disbursed_loans s))
       @ '' loan(s) disbursed worth UGX '' @ show_amount (ms_disbursed_value s) @ '', and UGX ''
       @ show_amount (ms_repayments s) @ '' in repayments. Export CSV or Excel from the loan dashboard.'',
     ev_context_type = Some ''loan_report_month'', ev_context_id = Some period, ev_sender = None\<rparr>"

definition user_principal :: "user \<Rightarrow> principal" where
  "user_principal u = \<lparr>p_user_id = Some (u_id u), p_id = Some (u_id u), p_role = u_active_role u,
     p_permissions = []\<rparr>"

definition send_monthly_rvp_report :: "world \<Rightarrow> (principal \<Rightarrow> string list option) \<Rightarrow> (principal \<Rightarrow> string list)
    \<Rightarrow> date \<Rightarrow> tracking \<Rightarrow> (tracking \<times> nat) result" where
  "send_monthly_rvp_report w visible visible_loans at db =
     bindE (previous_calendar_month at) (\<lambda>(start, stop).
       let period = show_int (year start) @ ''-'' @ zero_padded 2 (month start) in
       Inr (fold (\<lambda>u acc. deliver_once w ''monthly_rvp_report'' period period
               (report_event period start
                  (monthly_report_summary visible visible_loans (fst acc) start stop (user_principal u))) u acc)
             (role_recipients (people db) ''RegionalVicePresident'' None None) (db, 0)))"

text \<open>Each part is a transaction of its own: what was sent before a failure stays sent.\<close>

definition run_loan_tracking_notifications :: "world \<Rightarrow> (principal \<Rightarrow> string list option)
    \<Rightarrow> (principal \<Rightarrow> string list) \<Rightarrow> date \<Rightarrow> tracking \<Rightarrow> tracking \<times> nat result" where
  "run_loan_tracking_notifications w visible visible_loans at db =
     (let (db1, a) = send_application_follow_up_reminders w at db in
      case send_repayment_follow_up_reminders w at db1 of Inl e \<Rightarrow> (db1, Inl e)
      | Inr (db2, b) \<Rightarrow> (case send_monthly_rvp_report w visible visible_loans at db2 of
            Inl e \<Rightarrow> (db2, Inl e) | Inr (db3, c) \<Rightarrow> (db3, Inr (a + b + c))))"

end
