(* ===== verification/Lifecycles.thy ===== *)
theory Lifecycles
  imports Prelude
begin

text \<open>
  The contract of a lifecycle given as a table of permitted next states: every change of
  state climbs a rank, and a final state permits only itself. What follows is proved here
  once: a record changes state a bounded number of times and never leaves a final state.
\<close>

locale lifecycle =
  fixes successors :: "'s \<Rightarrow> 's list"
    and final :: "'s \<Rightarrow> bool"
    and rank :: "'s \<Rightarrow> nat"
  assumes climbs: "t \<in> set (successors s) \<Longrightarrow> t \<noteq> s \<Longrightarrow> rank s < rank t"
    and final_stays: "final s \<Longrightarrow> set (successors s) \<subseteq> {s}"
begin

fun walk :: "'s \<Rightarrow> 's list \<Rightarrow> bool" where
  "walk s [] = True"
| "walk s (t # ts) = (t \<in> set (successors s) \<and> walk t ts)"

fun changes :: "'s \<Rightarrow> 's list \<Rightarrow> nat" where
  "changes s [] = 0"
| "changes s (t # ts) = (if t = s then 0 else 1) + changes t ts"

lemma changes_climb: "walk s ts \<Longrightarrow> rank s + changes s ts \<le> rank (last (s # ts))"
proof (induction ts arbitrary: s)
  case (Cons t ts)
  then have "rank t + changes t ts \<le> rank (last (t # ts))" by simp
  with Cons.prems climbs [of t s] show ?case by (auto split: if_splits)
qed simp

lemma final_for_good: "walk s ts \<Longrightarrow> final s \<Longrightarrow> set ts \<subseteq> {s}"
proof (induction ts arbitrary: s)
  case (Cons t ts)
  then have "t = s" using final_stays [of s] by auto
  with Cons show ?case by auto
qed simp

lemma walk_append: "walk s (ts @ us) \<longleftrightarrow> walk s ts \<and> walk (last (s # ts)) us"
  by (induction ts arbitrary: s) auto

end

end
