(* ===== verification/NotificationLifecycle.thy ===== *)
theory NotificationLifecycle
  imports Notifications
begin

text \<open>
  The life of a notice: the commands of the inbox as a step relation, and the promise
  the service makes for it, one live notice per unresolved condition and recipient.
\<close>

section \<open>Commands\<close>

datatype notice_command =
    Tell event "recipient list"
  | Send "string option" lookup "person_field list"
  | Read_one string string
  | Read_all string
  | Archive_one string string
  | Archive_read string
  | Resolve "string list" "string option" "string option" "string list"

definition run_notice :: "int \<Rightarrow> (nat \<Rightarrow> string) \<Rightarrow> user_directory \<Rightarrow> notice_command
    \<Rightarrow> notice list \<Rightarrow> notice list result" where
  "run_notice at new_id dir c rows = (case c of
     Tell ev rs \<Rightarrow> Inr (trigger at new_id dir ev rs rows)
   | Send sender k defaults \<Rightarrow> bindE (notify_from_person at new_id sender k defaults rows) (\<lambda>(r, _). Inr r)
   | Read_one key uid \<Rightarrow> Inr (mark_read at key uid rows)
   | Read_all uid \<Rightarrow> Inr (mark_all_read at uid rows)
   | Archive_one key uid \<Rightarrow> Inr (resolve_notice key uid rows)
   | Archive_read uid \<Rightarrow> Inr (archive_all_read uid rows)
   | Resolve events ctype cid recipients \<Rightarrow> Inr (resolve_condition at events ctype cid recipients rows))"

text \<open>Marking a notice read that its reader had archived.\<close>

definition reads_archived :: "notice_command \<Rightarrow> notice list \<Rightarrow> bool" where
  "reads_archived c rows = (case c of
     Read_one key uid \<Rightarrow> list_ex (\<lambda>n. n_id n = key \<and> n_recipient n = uid \<and> n_status n = ARCHIVED
        \<and> n_resolved_at n = None) rows
   | _ \<Rightarrow> False)"

inductive inbox_reachable :: "notice list \<Rightarrow> bool" where
  empty_inbox: "inbox_reachable []"
| inbox_step: "inbox_reachable rows \<Longrightarrow> \<not> reads_archived c rows
    \<Longrightarrow> run_notice at new_id dir c rows = Inr rows' \<Longrightarrow> inbox_reachable rows'"

section \<open>At most the newest notice of a condition is live\<close>

type_synonym condition = "string \<times> string option \<times> string option \<times> string option"

definition condition_of :: "notice \<Rightarrow> condition" where
  "condition_of n = (n_recipient n, n_event n, n_context_type n, n_context_id n)"

definition settled_before :: "notice \<Rightarrow> notice \<Rightarrow> bool" where
  "settled_before a b \<longleftrightarrow> (condition_of a = condition_of b \<and> nonblank (n_context_id a) \<longrightarrow> \<not> live a)"

definition newest_live :: "notice list \<Rightarrow> bool" where
  "newest_live rows \<longleftrightarrow> sorted_wrt settled_before rows"

definition keeps :: "notice list \<Rightarrow> notice list \<Rightarrow> bool" where
  "keeps rows rows' \<longleftrightarrow>
     list_all2 (\<lambda>a b. condition_of b = condition_of a \<and> (live b \<longrightarrow> live a)) rows rows'"

lemma context_of_condition: "condition_of a = (uid, e, t, i) \<Longrightarrow> n_context_id a = i"
  by (simp add: condition_of_def)

lemma keeps_settled:
  assumes "keeps rows rows'" and "\<forall>b \<in> set rows. settled_before r b"
    and "condition_of r' = condition_of r" and "live r' \<longrightarrow> live r"
  shows "\<forall>b \<in> set rows'. settled_before r' b"
  using assms unfolding keeps_def
  by (induction rule: list_all2_induct) (auto simp: settled_before_def condition_of_def)

lemma newest_live_keeps:
  assumes "keeps rows rows'" and "newest_live rows"
  shows "newest_live rows'"
  using assms unfolding keeps_def newest_live_def
proof (induction rule: list_all2_induct)
  case (Cons r rows r' rows')
  then show ?case using keeps_settled [of rows rows' r r'] by (simp add: keeps_def)
qed simp

lemma keeps_update_where:
  assumes "\<And>n. P n \<Longrightarrow> condition_of (f n) = condition_of n \<and> (live (f n) \<longrightarrow> live n)"
  shows "keeps rows (update_where P f rows)"
  using assms by (induction rows) (simp_all add: keeps_def)

lemma keeps_save_newest:
  assumes "\<And>n. P n \<Longrightarrow> condition_of (f n) = condition_of n \<and> (live (f n) \<longrightarrow> live n)"
  shows "keeps rows (save_newest P f rows)"
  using assms by (induction rows) (auto simp: keeps_def list_all2_refl)

lemma newest_live_append:
  assumes "newest_live rows" and "\<And>m. m \<in> set rows \<Longrightarrow> settled_before m n"
  shows "newest_live (rows @ [n])"
  using assms by (simp add: newest_live_def sorted_wrt_append)

lemma conditions_save_newest:
  assumes "\<And>n. condition_of (f n) = condition_of n"
  shows "map condition_of (save_newest P f rows) = map condition_of rows"
  using assms by (induction rows) auto

text \<open>Writing to the newest row of a condition, whatever its state was.\<close>

lemma newest_live_save:
  assumes "newest_live rows" and "\<And>n. P n \<longleftrightarrow> condition_of n = c"
    and "\<And>n. condition_of (f n) = condition_of n"
  shows "newest_live (save_newest P f rows)"
  using assms(1)
proof (induction rows)
  case (Cons r rows)
  have later: "settled_before r b" if "b \<in> set (save_newest P f rows)" for b
  proof -
    have "condition_of b \<in> set (map condition_of rows)"
      using that conditions_save_newest [OF assms(3)] by (metis image_eqI image_set)
    then obtain b' where "b' \<in> set rows" and "condition_of b = condition_of b'" by auto
    with Cons.prems show ?thesis by (auto simp: newest_live_def settled_before_def)
  qed
  have none: "settled_before (f r) b" if "\<not> list_ex P rows" "b \<in> set rows" "P r" for b
    using that assms(2,3) by (auto simp: settled_before_def list_ex_iff)
  show ?case
    using Cons later none by (auto simp: newest_live_def)
qed (simp add: newest_live_def)

lemma newest_live_unique:
  assumes "newest_live rows" and "nonblank (snd (snd (snd c)))"
  shows "length (filter (\<lambda>n. condition_of n = c \<and> live n) rows) \<le> 1"
  using assms(1)
proof (induction rows)
  case (Cons r rows)
  show ?case
  proof (cases "condition_of r = c \<and> live r")
    case True
    then have "nonblank (n_context_id r)" using assms(2) by (auto simp: condition_of_def)
    with True Cons.prems have "filter (\<lambda>n. condition_of n = c \<and> live n) rows = []"
      by (auto simp: newest_live_def settled_before_def filter_empty_conv)
    then show ?thesis by simp
  next
    case False
    then show ?thesis using Cons by (auto simp: newest_live_def)
  qed
qed simp

section \<open>Operations that close notices\<close>

text \<open>
  What reading, archiving and resolving share: a row keeps its condition and none
  becomes live.
\<close>

locale closing_operation =
  fixes run :: "notice list \<Rightarrow> notice list"
  assumes closes: "keeps rows (run rows)"
begin

lemma preserves_newest_live: "newest_live rows \<Longrightarrow> newest_live (run rows)"
  by (rule newest_live_keeps [OF closes])

lemma preserves_conditions: "map condition_of (run rows) = map condition_of rows"
  using closes [of rows] unfolding keeps_def
  by (induction rule: list_all2_induct) simp_all

lemma no_new_live: "length (filter (\<lambda>n. condition_of n = c \<and> live n) (run rows))
    \<le> length (filter (\<lambda>n. condition_of n = c \<and> live n) rows)"
  using closes [of rows] unfolding keeps_def
  by (induction rule: list_all2_induct) auto

end

lemmas row_facts = condition_of_def live_def

interpretation read_all: closing_operation "mark_all_read at uid"
  by unfold_locales (auto simp: mark_all_read_def row_facts intro!: keeps_update_where)

interpretation archive_one: closing_operation "resolve_notice key uid"
  by unfold_locales (auto simp: resolve_notice_def row_facts intro!: keeps_update_where)

interpretation archive_read: closing_operation "archive_all_read uid"
  by unfold_locales (auto simp: archive_all_read_def row_facts intro!: keeps_update_where)

interpretation resolving: closing_operation "resolve_condition at events ctype cid recipients"
proof
  fix rows
  have "keeps rows rows" by (simp add: keeps_def list_all2_refl)
  then show "keeps rows (resolve_condition at events ctype cid recipients rows)"
    by (auto simp: resolve_condition_def row_facts intro!: keeps_update_where)
qed

section \<open>Operations that tell people\<close>

lemma condition_refired [simp]: "condition_of (refired at ev n) = condition_of n"
  by (simp add: condition_of_def refired_def)

lemma live_refired: "live (refired at ev n) \<longleftrightarrow> n_resolved_at n = None"
  by (simp add: live_def refired_def)

lemma condition_new_notice [simp]:
  "condition_of (new_notice key ev u) = (u_id u, Some (ev_type ev), ev_context_type ev, ev_context_id ev)"
  by (simp add: condition_of_def new_notice_def blank_notice_def)

lemma same_condition_iff:
  "same_condition ev uid n \<longleftrightarrow> condition_of n = (uid, Some (ev_type ev), ev_context_type ev, ev_context_id ev)"
  by (auto simp: same_condition_def condition_of_def)

lemma condition_set_field [simp]: "condition_of (set_field f n) = condition_of n"
  by (cases f) (simp_all add: condition_of_def)

lemma condition_set_fields [simp]: "condition_of (set_fields fs n) = condition_of n"
  unfolding set_fields_def by (induction fs arbitrary: n) simp_all

lemma condition_sent_again [simp]: "condition_of (sent_again at s n) = condition_of n"
  by (simp add: sent_again_def condition_of_def)

lemma matches_iff: "matches k n \<longleftrightarrow>
    condition_of n = (k_recipient k, Some (k_event k), Some (k_context_type k), Some (k_context_id k))"
  by (auto simp: matches_def condition_of_def)

lemma newest_live_tell:
  assumes "newest_live rows"
  shows "newest_live (tell at new_id ev u rows)"
proof (cases "nonblank (ev_context_id ev) \<and> list_ex (\<lambda>n. same_condition ev (u_id u) n \<and> live n) rows")
  case True
  then show ?thesis
    using newest_live_keeps [OF keeps_save_newest assms, of "\<lambda>n. same_condition ev (u_id u) n \<and> live n" "refired at ev"]
    by (simp add: tell_def live_refired live_def)
next
  case False
  have "settled_before m (new_notice (new_id (length rows)) ev u)" if "m \<in> set rows" for m
    using False that by (auto simp: settled_before_def same_condition_iff list_ex_iff dest: context_of_condition)
  with assms False show ?thesis by (auto simp: tell_def intro!: newest_live_append)
qed

lemma newest_live_tell_all:
  "newest_live rows \<Longrightarrow> newest_live (tell_all at new_id dir ev seen rs rows)"
  by (induction at new_id dir ev seen rs rows rule: tell_all.induct)
    (auto simp: newest_live_tell split: option.split)

lemma newest_live_send:
  assumes "newest_live rows" and "notify_from_person at new_id sender k defaults rows = Inr (rows', created)"
  shows "newest_live rows'"
proof (cases "list_ex (matches k) rows")
  case True
  with assms show ?thesis
    by (auto simp: notify_from_person_def result_step intro!: newest_live_save simp: matches_iff)
next
  case False
  then have "settled_before m n" if "m \<in> set rows" "matches k n" for m n
    using that by (auto simp: settled_before_def matches_iff list_ex_iff)
  moreover have "matches k (set_fields defaults n) = matches k n" for n by (simp add: matches_iff)
  ultimately show ?thesis
    using assms False
    by (auto simp: notify_from_person_def result_step matches_def intro!: newest_live_append)
qed

lemma newest_live_step:
  assumes "newest_live rows" and "\<not> reads_archived c rows" and "run_notice at new_id dir c rows = Inr rows'"
  shows "newest_live rows'"
proof (cases c)
  case (Read_one key uid)
  have "keeps rows (mark_read at key uid rows)"
    using assms(2) unfolding Read_one reads_archived_def mark_read_def
    by (induction rows) (auto simp: keeps_def row_facts)
  with assms Read_one show ?thesis
    using newest_live_keeps by (auto simp: run_notice_def)
next
  case (Send sender k defaults)
  with assms newest_live_send show ?thesis by (auto simp: run_notice_def result_step)
qed (use assms in \<open>auto simp: run_notice_def trigger_def newest_live_tell_all read_all.preserves_newest_live
    archive_one.preserves_newest_live archive_read.preserves_newest_live resolving.preserves_newest_live\<close>)

lemma reachable_newest_live: "inbox_reachable rows \<Longrightarrow> newest_live rows"
  by (induction rule: inbox_reachable.induct) (simp add: newest_live_def, rule newest_live_step)

section \<open>Being told\<close>

definition live_copies :: "event \<Rightarrow> string \<Rightarrow> notice list \<Rightarrow> notice list" where
  "live_copies ev uid rows = filter (\<lambda>n. same_condition ev uid n \<and> live n) rows"

definition carries :: "event \<Rightarrow> notice \<Rightarrow> bool" where
  "carries ev n \<longleftrightarrow> n_title n = ev_title ev \<and> n_status n = UNREAD \<and> n_priority n = ev_priority ev"

lemma live_copies_iff:
  "live_copies ev uid rows = filter (\<lambda>n. condition_of n = (uid, Some (ev_type ev), ev_context_type ev, ev_context_id ev)
     \<and> live n) rows"
  by (simp add: live_copies_def same_condition_iff)

lemma at_most_one_copy:
  assumes "newest_live rows" and "nonblank (ev_context_id ev)"
  shows "length (live_copies ev uid rows) \<le> 1"
  using newest_live_unique [OF assms(1)] assms(2) by (simp add: live_copies_iff)

lemma fresh_notice: "live (new_notice key ev u)" "carries ev (new_notice key ev u)"
  by (simp_all add: live_def carries_def new_notice_def blank_notice_def)

lemma save_newest_mem:
  "list_ex P rows \<Longrightarrow> \<exists>n \<in> set (save_newest P f rows). \<exists>m \<in> set rows. P m \<and> n = f m"
  by (induction rows) auto

lemma told_copy:
  assumes "nonblank (ev_context_id ev)"
  shows "\<exists>n \<in> set (tell at new_id ev u rows). same_condition ev (u_id u) n \<and> live n \<and> carries ev n"
proof (cases "list_ex (\<lambda>n. same_condition ev (u_id u) n \<and> live n) rows")
  case True
  then obtain m where "refired at ev m \<in> set (tell at new_id ev u rows)"
      and "same_condition ev (u_id u) m" and "live m"
    using save_newest_mem [OF True, of "refired at ev"] assms by (auto simp: tell_def)
  then show ?thesis
    by (intro bexI [where x = "refired at ev m"])
      (auto simp: same_condition_iff live_refired live_def carries_def, simp_all add: refired_def)
next
  case False
  then show ?thesis using fresh_notice by (auto simp: tell_def same_condition_iff)
qed

text \<open>Telling one person leaves the copies of the others.\<close>

lemma save_newest_other:
  assumes "\<And>n. P n \<Longrightarrow> \<not> Q n" and "\<And>n. P n \<Longrightarrow> \<not> Q (f n)"
  shows "filter Q (save_newest P f rows) = filter Q rows"
  using assms by (induction rows) auto

lemma tell_other:
  assumes "uid \<noteq> u_id u"
  shows "live_copies ev uid (tell at new_id ev u rows) = live_copies ev uid rows"
  using assms by (auto simp: tell_def Let_def live_copies_iff same_condition_iff intro!: save_newest_other)

lemma tell_all_other:
  assumes "uid \<in> set seen"
  shows "live_copies ev uid (tell_all at new_id dir ev seen rs rows) = live_copies ev uid rows"
  using assms
proof (induction at new_id dir ev seen rs rows rule: tell_all.induct)
  case (2 at new_id dir ev seen r rs rows)
  have "live_copies ev uid (tell at new_id ev u rows) = live_copies ev uid rows" if "u_id u \<notin> set seen" for u
    using that 2(4) by (intro tell_other) auto
  with 2 show ?case by (auto split: option.split)
qed simp

lemma tell_all_copy:
  assumes "nonblank (ev_context_id ev)" and "r \<in> set rs" and "user_of dir r = Some u" and "u_id u \<notin> set seen"
  shows "\<exists>n \<in> set (live_copies ev (u_id u) (tell_all at new_id dir ev seen rs rows)). carries ev n"
  using assms
proof (induction at new_id dir ev seen rs rows rule: tell_all.induct)
  case (2 at new_id dir ev seen x rs rows)
  show ?case
  proof (cases "user_of dir x")
    case None
    with 2 show ?thesis by auto
  next
    case (Some v)
    show ?thesis
    proof (cases "u_id v = u_id u")
      case True
      have "\<exists>n \<in> set (live_copies ev (u_id u) (tell at new_id ev v rows)). carries ev n"
        using told_copy [OF 2(4), of at new_id v rows] True by (auto simp: live_copies_def)
      moreover have "live_copies ev (u_id u) (tell_all at new_id dir ev (u_id v # seen) rs (tell at new_id ev v rows))
          = live_copies ev (u_id u) (tell at new_id ev v rows)"
        using True by (simp add: tell_all_other)
      ultimately show ?thesis using Some True 2(7) by simp
    next
      case False
      with Some 2 show ?thesis by auto
    qed
  qed
qed simp

text \<open>Telling people who all have a live copy adds no row.\<close>

lemma tell_keeps_told:
  assumes "nonblank (ev_context_id ev)" and "live_copies ev uid rows \<noteq> []"
  shows "live_copies ev uid (tell at new_id ev u rows) \<noteq> []"
proof (cases "uid = u_id u")
  case True
  then show ?thesis
    using told_copy [OF assms(1), of at new_id u rows] by (auto simp: live_copies_def filter_empty_conv)
next
  case False
  with assms(2) show ?thesis by (simp add: tell_other)
qed

lemma length_save_newest [simp]: "length (save_newest P f rows) = length rows"
  by (induction rows) simp_all

lemma tell_told_length:
  assumes "nonblank (ev_context_id ev)" and "live_copies ev (u_id u) rows \<noteq> []"
  shows "length (tell at new_id ev u rows) = length rows"
  using assms by (auto simp: tell_def live_copies_def filter_empty_conv list_ex_iff)

lemma tell_all_told_length:
  assumes "nonblank (ev_context_id ev)"
    and "\<And>r u. r \<in> set rs \<Longrightarrow> user_of dir r = Some u \<Longrightarrow> live_copies ev (u_id u) rows \<noteq> []"
  shows "length (tell_all at new_id dir ev seen rs rows) = length rows"
  using assms
proof (induction at new_id dir ev seen rs rows rule: tell_all.induct)
  case (2 at new_id dir ev seen r rs rows)
  show ?case
  proof (cases "user_of dir r")
    case None
    with 2 show ?thesis by auto
  next
    case (Some u)
    have "live_copies ev (u_id u) rows \<noteq> []" using 2(5) Some by auto
    then have "length (tell at new_id ev u rows) = length rows"
      by (rule tell_told_length [OF 2(4)])
    moreover have "live_copies ev (u_id w) (tell at new_id ev u rows) \<noteq> []"
      if "x \<in> set rs" "user_of dir x = Some w" for x w
      using 2(5) [of x w] that by (intro tell_keeps_told [OF 2(4)]) simp
    moreover have "live_copies ev (u_id w) rows \<noteq> []" if "x \<in> set rs" "user_of dir x = Some w" for x w
      using 2(5) [of x w] that by simp
    ultimately show ?thesis using Some 2(2,3) 2(4) by simp
  qed
qed simp

section \<open>Properties\<close>


definition demo_event :: event where
  "demo_event = \<lparr>ev_type = ''bt.loan_application.follow_up'', ev_category = ''business_transformation'',
     ev_priority = ''high'', ev_title = ''Follow-up'', ev_body = ''due'',
     ev_context_type = Some ''loan_application'', ev_context_id = Some ''ap1'', ev_sender = None\<rparr>"

definition demo_reader :: user where
  "demo_reader = \<lparr>u_id = ''u1'', u_roles = [''CCEO''], u_active_role = ''CCEO'', u_is_active = True, u_deleted = False\<rparr>"

definition demo_directory :: user_directory where
  "demo_directory = \<lparr>users = [demo_reader], staff_profiles = [\<lparr>sp_id = ''s1'', sp_user = ''u1'',
     sp_country = ''Uganda'', sp_deleted = False\<rparr>]\<rparr>"

definition demo_key :: "nat \<Rightarrow> string" where
  "demo_key k = replicate (Suc k) (CHR ''n'')"

abbreviation tell_demo :: "notice list \<Rightarrow> notice list" where
  "tell_demo \<equiv> trigger 1 demo_key demo_directory demo_event [ThisUser demo_reader, IdOf ''s1'']"

lemmas inbox_demo_defs = trigger_def tell_def user_of_def same_condition_def live_def nonblank_def
  demo_event_def demo_reader_def demo_directory_def new_notice_def blank_notice_def refired_def urgent_def

lemma demo_reachable: "inbox_reachable (tell_demo [])" "inbox_reachable (tell_demo (tell_demo []))"
proof -
  show "inbox_reachable (tell_demo [])"
    by (rule inbox_step [OF empty_inbox, of "Tell demo_event [ThisUser demo_reader, IdOf ''s1'']"])
      (simp_all add: reads_archived_def run_notice_def)
  then show "inbox_reachable (tell_demo (tell_demo []))"
    by (rule inbox_step [of _ "Tell demo_event [ThisUser demo_reader, IdOf ''s1'']"])
      (simp_all add: reads_archived_def run_notice_def)
qed


text \<open>Whoever an event is told to has afterwards exactly one live notice of it, unread
  and carrying its title and priority; telling the same people again adds no row.\<close>

theorem told_exactly_once:
  assumes "inbox_reachable rows" and "nonblank (ev_context_id ev)"
    and "r \<in> set rs" and "user_of dir r = Some u"
  shows "(\<exists>n. live_copies ev (u_id u) (trigger at new_id dir ev rs rows) = [n] \<and> carries ev n)
    \<and> length (trigger at' new_id' dir ev rs (trigger at new_id dir ev rs rows))
        = length (trigger at new_id dir ev rs rows)"
proof -
  let ?copies = "live_copies ev (u_id u) (trigger at new_id dir ev rs rows)"
  have "newest_live (trigger at new_id dir ev rs rows)"
    unfolding trigger_def by (rule newest_live_tell_all [OF reachable_newest_live [OF assms(1)]])
  then have "length ?copies \<le> 1" using at_most_one_copy assms(2) by blast
  moreover obtain n where n: "n \<in> set ?copies" "carries ev n"
    using tell_all_copy [OF assms(2-4), of "[]" at new_id rows] unfolding trigger_def by auto
  ultimately have "?copies = [n]" by (cases ?copies) auto
  with n have "\<exists>n. ?copies = [n] \<and> carries ev n" by blast
  moreover have "live_copies ev (u_id v) (trigger at new_id dir ev rs rows) \<noteq> []"
    if "x \<in> set rs" "user_of dir x = Some v" for x v
    using tell_all_copy [OF assms(2) that, of "[]" at new_id rows] unfolding trigger_def by force
  ultimately show ?thesis
    using tell_all_told_length [OF assms(2)] unfolding trigger_def by blast
qed

theorem told_exactly_once_witness:
  "(\<exists>n. live_copies demo_event ''u1'' (tell_demo (tell_demo [])) = [n] \<and> carries demo_event n)
     \<and> length (tell_demo (tell_demo (tell_demo []))) = length (tell_demo (tell_demo []))"
proof -
  have "nonblank (ev_context_id demo_event)" "user_of demo_directory (ThisUser demo_reader) = Some demo_reader"
    by (simp_all add: demo_event_def nonblank_def user_of_def)
  from told_exactly_once [OF demo_reachable(1) this(1) _ this(2)] show ?thesis
    by (simp add: demo_reader_def)
qed

text \<open>Reading a notice its reader had archived brings it back to life: when the event
  has fired again meanwhile, the condition then has two live notices.\<close>

theorem reading_archived_duplicates:
  assumes "rows = [n]" and "n_recipient n = u_id u" and "same_condition ev (u_id u) n"
    and "n_resolved_at n = None" and "new_id 1 \<noteq> n_id n" and "nonblank (ev_context_id ev)"
  shows "length (live_copies ev (u_id u)
    (mark_read at2 (n_id n) (u_id u)
      (trigger at1 new_id dir ev [ThisUser u] (resolve_notice (n_id n) (u_id u) rows)))) = 2"
  using assms
  by (simp add: live_copies_def resolve_notice_def mark_read_def trigger_def user_of_def tell_def Let_def
      live_def same_condition_def new_notice_def blank_notice_def)

theorem reading_archived_duplicates_witness:
  "length (live_copies demo_event ''u1'' (mark_read 3 ''n'' ''u1''
     (trigger 2 demo_key demo_directory demo_event [ThisUser demo_reader]
       (resolve_notice ''n'' ''u1'' (tell_demo []))))) = 2"
proof -
  have first: "tell_demo [] = [new_notice ''n'' demo_event demo_reader]"
    by (simp add: inbox_demo_defs demo_key_def)
  show ?thesis
    using reading_archived_duplicates [OF first, of demo_reader demo_event demo_key 3 2 demo_directory]
    by (simp add: inbox_demo_defs demo_key_def)
qed

text \<open>
  Sending a notice again does not reopen it: when its condition had been resolved and the
  sender's fields do not reset \<open>resolved_at\<close>, the reminder is written to a row nobody sees.
\<close>

lemma set_fields_resolved:
  "(\<And>v. Resolved_at v \<notin> set fs) \<Longrightarrow> n_resolved_at (set_fields fs n) = n_resolved_at n"
proof (induction fs arbitrary: n)
  case (Cons f fs)
  then have "n_resolved_at (set_field f n) = n_resolved_at n" by (cases f) auto
  with Cons show ?case by (simp add: set_fields_def)
qed (simp add: set_fields_def)

theorem resent_after_resolution_stays_hidden:
  assumes "notify_from_person at new_id sender k defaults [n] = Inr (rows', created)"
    and "matches k n" and "n_resolved_at n \<noteq> None" and "\<And>v. Resolved_at v \<notin> set defaults"
  shows "\<not> created \<and> live_of (k_recipient k) rows' = []"
  using assms set_fields_resolved [OF assms(4)]
  by (auto simp: notify_from_person_def result_step live_of_def live_def sent_again_def)

end
