(* ===== verification/LoanTracking.thy ===== *)
theory LoanTracking
  imports LoanReminders Lifecycles NotificationLifecycle
begin

text \<open>
  The loan intake as a whole: its commands, the databases they reach and the invariant
  that every command keeps.
\<close>

section \<open>The lifecycle of an application\<close>

text \<open>The arrows of the table, as a relation.\<close>

inductive application_step :: "application_status \<Rightarrow> application_status \<Rightarrow> bool" where
  stay: "application_step s s"
| review: "application_step SUBMITTED_APPLICATION UNDER_REVIEW_APPLICATION"
| refer: "application_step UNDER_REVIEW_APPLICATION REFERRED_APPLICATION"
| start_processing: "application_step REFERRED_APPLICATION PROCESSING_APPLICATION"
| approve: "application_step PROCESSING_APPLICATION APPROVED_APPLICATION"
| convert: "application_step APPROVED_APPLICATION CONVERTED_APPLICATION"
| decline: "open_status s \<Longrightarrow> s \<noteq> APPROVED_APPLICATION \<Longrightarrow> application_step s DECLINED_APPLICATION"
| withdraw: "open_status s \<Longrightarrow> application_step s WITHDRAWN_APPLICATION"

inductive_cases to_converted: "application_step s CONVERTED_APPLICATION"
inductive_simps from_status: "application_step s t"

lemmas status_sets = open_status_def terminal_status_def OPEN_LOAN_APPLICATION_STATUSES_def
  TERMINAL_APPLICATION_STATUSES_def

lemma transitions_iff: "t \<in> set (APPLICATION_TRANSITIONS s) \<longleftrightarrow> application_step s t"
  by (cases s; cases t) (simp_all add: APPLICATION_TRANSITIONS_def from_status status_sets)

lemma open_or_terminal: "terminal_status s \<longleftrightarrow> \<not> open_status s"
  by (cases s) (simp_all add: status_sets)

definition application_rank :: "application_status \<Rightarrow> nat" where
  "application_rank s = (case s of SUBMITTED_APPLICATION \<Rightarrow> 0 | UNDER_REVIEW_APPLICATION \<Rightarrow> 1
     | REFERRED_APPLICATION \<Rightarrow> 2 | PROCESSING_APPLICATION \<Rightarrow> 3 | APPROVED_APPLICATION \<Rightarrow> 4 | _ \<Rightarrow> 5)"

interpretation application_lifecycle: lifecycle APPLICATION_TRANSITIONS terminal_status application_rank
proof
  show "application_rank s < application_rank t" if "t \<in> set (APPLICATION_TRANSITIONS s)" "t \<noteq> s" for s t
    using that by (cases s) (auto simp: APPLICATION_TRANSITIONS_def application_rank_def)
  show "set (APPLICATION_TRANSITIONS s) \<subseteq> {s}" if "terminal_status s" for s
    using that by (cases s) (simp_all add: APPLICATION_TRANSITIONS_def status_sets)
qed

lemma application_rank_bound: "application_rank s \<le> 5"
  by (cases s) (simp_all add: application_rank_def)

section \<open>Commands\<close>

datatype tracking_command =
    Submit application_form
  | Update string form_data
  | Remind date
  | Read_notice string string
  | Archive_notice string string

definition run_tracking :: "world \<Rightarrow> (principal \<Rightarrow> string list option) \<Rightarrow> (principal \<Rightarrow> string list)
    \<Rightarrow> principal \<Rightarrow> tracking_command \<Rightarrow> tracking \<Rightarrow> tracking result" where
  "run_tracking w visible visible_loans p c db = (case c of
     Submit fm \<Rightarrow> bindE (submit_application w fm db) (\<lambda>(db', _). Inr db')
   | Update aid data \<Rightarrow> update_application w visible p aid data db
   | Remind at \<Rightarrow> Inr (fst (run_loan_tracking_notifications w visible visible_loans at db))
   | Read_notice key uid \<Rightarrow> Inr (db\<lparr>inbox := mark_read (now w) key uid (inbox db)\<rparr>)
   | Archive_notice key uid \<Rightarrow> Inr (db\<lparr>inbox := resolve_notice key uid (inbox db)\<rparr>))"

text \<open>
  The databases reached from one without applications, while the rest of the platform
  (the ledger, the directory, the schools, the loans' terms) changes as it likes. A key
  the database draws is not empty.
\<close>

inductive tracking_reachable :: "tracking \<Rightarrow> bool" where
  fresh: "applications db = [] \<Longrightarrow> follow_ups db = [] \<Longrightarrow> delivery_log db = [] \<Longrightarrow> inbox db = []
    \<Longrightarrow> tracking_reachable db"
| elsewhere: "tracking_reachable db \<Longrightarrow> applications db' = applications db \<Longrightarrow> follow_ups db' = follow_ups db
    \<Longrightarrow> delivery_log db' = delivery_log db \<Longrightarrow> inbox db' = inbox db \<Longrightarrow> tracking_reachable db'"
| command: "tracking_reachable db \<Longrightarrow> new_id w 0 \<noteq> []
    \<Longrightarrow> run_tracking w visible visible_loans p c db = Inr db' \<Longrightarrow> tracking_reachable db'"

section \<open>The invariant\<close>

text \<open>The follow-up rows of an application, and that they trace a path of the table.\<close>

definition history_of :: "tracking \<Rightarrow> string \<Rightarrow> follow_up list" where
  "history_of db aid = filter (\<lambda>f. fu_application f = aid) (follow_ups db)"

fun traces :: "application_status option \<Rightarrow> follow_up list \<Rightarrow> bool" where
  "traces s [] = True"
| "traces s (f # fs) =
     (fu_previous f = s
      \<and> (case s of None \<Rightarrow> fu_new f = SUBMITTED_APPLICATION | Some t \<Rightarrow> application_step t (fu_new f))
      \<and> traces (Some (fu_new f)) fs)"

definition row_ok :: "application \<Rightarrow> bool" where
  "row_ok a \<longleftrightarrow> application_checks a = Inr () \<and> (open_status (ap_status a) = (ap_next a \<noteq> None))"

definition history_ok :: "tracking \<Rightarrow> application \<Rightarrow> bool" where
  "history_ok db a \<longleftrightarrow> (let h = history_of db (ap_id a) in h \<noteq> [] \<and> traces None h
     \<and> fu_new (last h) = ap_status a \<and> fu_next (last h) = ap_next a)"

definition schools_claimed_once :: "application list \<Rightarrow> bool" where
  "schools_claimed_once rows \<longleftrightarrow> (\<forall>a \<in> set rows. \<forall>b \<in> set rows.
     claims_school a \<and> claims_school b \<and> ap_school a = ap_school b \<longrightarrow> ap_id a = ap_id b)"

definition loans_linked_once :: "application list \<Rightarrow> bool" where
  "loans_linked_once rows \<longleftrightarrow> (\<forall>a \<in> set rows. \<forall>b \<in> set rows.
     ap_linked a \<noteq> None \<and> ap_linked a = ap_linked b \<longrightarrow> ap_id a = ap_id b)"

text \<open>An unresolved notice of an application is about an open one.\<close>

definition pending :: "notice \<Rightarrow> bool" where
  "pending n \<longleftrightarrow> n_resolved_at n = None \<and> n_context_type n = Some ''loan_application''
     \<and> (case n_event n of None \<Rightarrow> False | Some e \<Rightarrow> e \<in> set closing_events)"

definition about_open :: "application list \<Rightarrow> notice \<Rightarrow> bool" where
  "about_open rows n \<longleftrightarrow> (pending n \<longrightarrow>
     list_ex (\<lambda>a. open_status (ap_status a) \<and> n_context_id n = Some (ap_id a)) rows)"

definition tracking_inv :: "tracking \<Rightarrow> bool" where
  "tracking_inv db \<longleftrightarrow>
     distinct (map ap_id (applications db)) \<and> (\<forall>a \<in> set (applications db). ap_id a \<noteq> [])
     \<and> (\<forall>a \<in> set (applications db). row_ok a) \<and> (\<forall>a \<in> set (applications db). history_ok db a)
     \<and> (\<forall>f \<in> set (follow_ups db). fu_application f \<in> ap_id ` set (applications db))
     \<and> schools_claimed_once (applications db) \<and> loans_linked_once (applications db)
     \<and> (\<forall>n \<in> set (inbox db). about_open (applications db) n) \<and> distinct (delivery_log db)"

section \<open>Deliveries\<close>

text \<open>One attempt to tell one person once; every scheduled job is a list of attempts.\<close>

type_synonym attempt = "string \<times> string \<times> string \<times> event \<times> user"

fun deliver :: "world \<Rightarrow> attempt \<Rightarrow> tracking \<times> nat \<Rightarrow> tracking \<times> nat" where
  "deliver w (kind, subject, period, ev, u) acc = deliver_once w kind subject period ev u acc"

fun claim_of :: "attempt \<Rightarrow> delivery" where
  "claim_of (kind, subject, period, ev, u) =
     \<lparr>dl_kind = kind, dl_subject = subject, dl_period = period, dl_recipient = u_id u\<rparr>"

fun event_of :: "attempt \<Rightarrow> event" where
  "event_of (kind, subject, period, ev, u) = ev"

text \<open>What a job leaves alone: everything but the log, which grows, and the inbox.\<close>

definition delivers :: "tracking \<Rightarrow> tracking \<Rightarrow> bool" where
  "delivers db db' \<longleftrightarrow> (\<exists>log notices. db' = db\<lparr>delivery_log := delivery_log db @ log, inbox := notices\<rparr>)"

lemma delivers_refl [simp]: "delivers db db"
  unfolding delivers_def by (rule exI [of _ "[]"], rule exI [of _ "inbox db"]) simp

lemma delivers_trans: "delivers db db' \<Longrightarrow> delivers db' db'' \<Longrightarrow> delivers db db''"
  unfolding delivers_def by fastforce

lemma delivers_same:
  assumes "delivers db db'"
  shows "books db' = books db" "people db' = people db" "schools db' = schools db"
    "mfi_names db' = mfi_names db" "loan_details db' = loan_details db" "snapshots db' = snapshots db"
    "applications db' = applications db" "follow_ups db' = follow_ups db"
    "set (delivery_log db) \<subseteq> set (delivery_log db')"
  using assms by (auto simp: delivers_def)

lemma claimed_iff: "list_ex (claimed kind subject period u) log \<longleftrightarrow> claim_of (kind, subject, period, ev, u) \<in> set log"
  by (auto simp: claimed_def list_ex_iff intro: bexI [where x = "\<lparr>dl_kind = kind, dl_subject = subject,
      dl_period = period, dl_recipient = u_id u\<rparr>"] delivery.equality [THEN subst, where P = "\<lambda>x. x \<in> set log"])

lemma deliver_cases:
  obtains "claim_of t \<in> set (delivery_log db)" and "deliver w t (db, n) = (db, n)"
  | u where "claim_of t \<notin> set (delivery_log db)"
      and "deliver w t (db, n) = (db\<lparr>delivery_log := delivery_log db @ [claim_of t],
             inbox := trigger (now w) (new_id w) (people db) (event_of t) [ThisUser u] (inbox db)\<rparr>, n + 1)"
proof -
  obtain kind subject period ev u where t: "t = (kind, subject, period, ev, u)" by (cases t) auto
  show thesis
  proof (cases "claim_of t \<in> set (delivery_log db)")
    case True
    then have "deliver w t (db, n) = (db, n)"
      using claimed_iff [of kind subject period u "delivery_log db" ev]
      by (simp add: t deliver_once_def del: claim_of.simps)
    with True that(1) show thesis by blast
  next
    case False
    then have "deliver w t (db, n) = (db\<lparr>delivery_log := delivery_log db @ [claim_of t],
             inbox := trigger (now w) (new_id w) (people db) (event_of t) [ThisUser u] (inbox db)\<rparr>, n + 1)"
      using claimed_iff [of kind subject period u "delivery_log db" ev]
      by (simp add: t deliver_once_def)
    with False that(2) show thesis by blast
  qed
qed

lemma deliver_delivers: "delivers db (fst (deliver w t (db, n)))"
  by (rule deliver_cases [of t db w n]) (auto simp: delivers_def)

lemma fold_delivers: "delivers (fst acc) (fst (fold (deliver w) ts acc))"
proof (induction ts arbitrary: acc)
  case (Cons t ts)
  have "delivers (fst acc) (fst (deliver w t acc))"
    using deliver_delivers [of "fst acc" w t "snd acc"] by simp
  with Cons.IH [of "deliver w t acc"] show ?case by (auto intro: delivers_trans)
qed simp

lemma deliver_claims: "claim_of t \<in> set (delivery_log (fst (deliver w t acc)))"
  by (cases acc) (auto intro: deliver_cases [of t "fst acc" w "snd acc"])

lemma fold_claims: "t \<in> set ts \<Longrightarrow> claim_of t \<in> set (delivery_log (fst (fold (deliver w) ts acc)))"
proof (induction ts arbitrary: acc)
  case (Cons x ts)
  show ?case
  proof (cases "t = x")
    case True
    with deliver_claims [of x w acc] fold_delivers [of "deliver w x acc" w ts] show ?thesis
      by (auto dest: delivers_same(9))
  next
    case False
    with Cons show ?thesis by simp
  qed
qed simp

text \<open>A job whose claims are all in the log does nothing.\<close>

lemma fold_claimed:
  assumes "\<And>t. t \<in> set ts \<Longrightarrow> claim_of t \<in> set (delivery_log db)"
  shows "fold (deliver w) ts (db, n) = (db, n)"
  using assms
proof (induction ts)
  case (Cons t ts)
  then have "deliver w t (db, n) = (db, n)" by (cases rule: deliver_cases [of t db w n]) auto
  with Cons show ?case by simp
qed simp

text \<open>Every notice sent is a new row of the log.\<close>

lemma deliver_counts:
  "snd (deliver w t acc) + length (delivery_log (fst acc)) = snd acc + length (delivery_log (fst (deliver w t acc)))"
  by (cases acc, rule deliver_cases [of t "fst acc" w "snd acc"]) auto

lemma fold_counts:
  "snd (fold (deliver w) ts acc) + length (delivery_log (fst acc))
     = snd acc + length (delivery_log (fst (fold (deliver w) ts acc)))"
proof (induction ts arbitrary: acc)
  case (Cons t ts)
  show ?case using Cons.IH [of "deliver w t acc"] deliver_counts [of w t acc] by simp
qed simp

section \<open>The jobs as lists of attempts\<close>

definition attempts :: "string \<Rightarrow> string \<Rightarrow> string \<Rightarrow> event \<Rightarrow> user list \<Rightarrow> attempt list" where
  "attempts kind subject period ev us = map (\<lambda>u. (kind, subject, period, ev, u)) us"

lemma fold_attempts: "fold (deliver_once w kind subject period ev) us acc
    = fold (deliver w) (attempts kind subject period ev us) acc"
  by (induction us arbitrary: acc) (simp_all add: attempts_def)

definition application_attempts :: "date \<Rightarrow> tracking \<Rightarrow> application \<Rightarrow> attempt list" where
  "application_attempts at db a = (case ap_next a of None \<Rightarrow> []
     | Some next_on \<Rightarrow> attempts ''application_follow_up'' (ap_id a) (application_period next_on at)
          (follow_up_event a (school_of db (ap_school a)) (to_ordinal at - to_ordinal next_on))
          (application_recipients (people db) (school_of db (ap_school a)) True))"

lemma school_of_cong: "schools db' = schools db \<Longrightarrow> school_of db' = school_of db"
  by (simp add: school_of_def fun_eq_iff)

lemma application_attempts_same:
  "delivers db db' \<Longrightarrow> application_attempts at db' a = application_attempts at db a"
  using school_of_cong [of db' db] by (simp add: application_attempts_def delivers_same(2,3) split: option.split)

lemma remind_application_attempts:
  "remind_application w at a acc = fold (deliver w) (application_attempts at (fst acc) a) acc"
  by (simp add: remind_application_def application_attempts_def fold_attempts Let_def split: option.split)

lemma remind_applications_attempts:
  "delivers db (fst acc) \<Longrightarrow> fold (remind_application w at) as acc
     = fold (deliver w) (concat (map (application_attempts at db) as)) acc"
proof (induction as arbitrary: acc)
  case (Cons a as)
  have "delivers db (fst (remind_application w at a acc))"
    unfolding remind_application_attempts using Cons.prems fold_delivers delivers_trans by blast
  with Cons show ?case
    by (simp add: remind_application_attempts application_attempts_same)
qed simp

definition follow_up_attempts :: "date \<Rightarrow> tracking \<Rightarrow> attempt list" where
  "follow_up_attempts at db = concat (map (application_attempts at db) (due_applications at db))"

lemma follow_up_job: "send_application_follow_up_reminders w at db = fold (deliver w) (follow_up_attempts at db) (db, 0)"
  unfolding send_application_follow_up_reminders_def follow_up_attempts_def
  by (rule remind_applications_attempts) simp

lemma follow_up_attempts_same: "delivers db db' \<Longrightarrow> follow_up_attempts at db' = follow_up_attempts at db"
  unfolding follow_up_attempts_def due_applications_def
  by (simp add: application_attempts_same delivers_same(7) cong: map_cong)

definition repayment_attempts :: "world \<Rightarrow> date \<Rightarrow> tracking \<Rightarrow> loan \<Rightarrow> attempt list result" where
  "repayment_attempts w at db l =
     bindE (derived_due_date w db at l) (\<lambda>due. case due of None \<Rightarrow> Inr []
      | Some d \<Rightarrow> bindE (py_add_days at 7) (\<lambda>horizon.
          if horizon < d then Inr []
          else (let s = school_of db (case terms_of db (l_id l) of None \<Rightarrow> [] | Some t \<Rightarrow> lt_school t);
                    frequency = (case terms_of db (l_id l) of None \<Rightarrow> [] | Some t \<Rightarrow> lt_frequency t)
                in Inr (attempts ''repayment_follow_up'' (l_id l) (repayment_stage d at)
                          (repayment_event db l s frequency (to_ordinal d - to_ordinal at))
                          (application_recipients (people db) s True)))))"

lemma terms_of_same: "delivers db db' \<Longrightarrow> terms_of db' = terms_of db"
  by (simp add: fun_eq_iff terms_of_def delivers_same)

lemma derived_due_date_same:
  assumes "delivers db db'"
  shows "derived_due_date w db' at l = derived_due_date w db at l"
  unfolding derived_due_date_def latest_snapshot_def schedule_dates_def terms_of_same [OF assms]
    delivers_same [OF assms] ..

lemma repayment_attempts_same:
  assumes "delivers db db'"
  shows "repayment_attempts w at db' l = repayment_attempts w at db l"
  unfolding repayment_attempts_def derived_due_date_same [OF assms] terms_of_same [OF assms]
    repayment_event_def delivers_same [OF assms] school_of_cong [OF delivers_same(3) [OF assms]] ..

lemma remind_repayment_attempts: "remind_repayment w at l acc
    = bindE (repayment_attempts w at (fst acc) l) (\<lambda>ts. Inr (fold (deliver w) ts acc))"
  by (auto simp: remind_repayment_def repayment_attempts_def fold_attempts Let_def bindE_def
      split: sum.split option.split)

fun all_repayment_attempts :: "world \<Rightarrow> date \<Rightarrow> tracking \<Rightarrow> loan list \<Rightarrow> attempt list result" where
  "all_repayment_attempts w at db [] = Inr []"
| "all_repayment_attempts w at db (l # ls) = bindE (repayment_attempts w at db l) (\<lambda>ts.
     bindE (all_repayment_attempts w at db ls) (\<lambda>us. Inr (ts @ us)))"

lemma remind_repayments_attempts:
  "delivers db (fst acc) \<Longrightarrow> remind_repayments w at ls acc
     = bindE (all_repayment_attempts w at db ls) (\<lambda>ts. Inr (fold (deliver w) ts acc))"
proof (induction ls arbitrary: acc)
  case (Cons l ls)
  show ?case
  proof (cases "repayment_attempts w at db l")
    case (Inl e)
    then show ?thesis using Cons.prems by (simp add: remind_repayment_attempts repayment_attempts_same)
  next
    case (Inr ts)
    have "delivers db (fst (fold (deliver w) ts acc))"
      using Cons.prems fold_delivers delivers_trans by blast
    from Cons.IH [OF this] show ?thesis
      using Inr Cons.prems
      by (cases "all_repayment_attempts w at db ls")
        (simp_all add: remind_repayment_attempts repayment_attempts_same)
  qed
qed simp

definition loan_attempts :: "world \<Rightarrow> date \<Rightarrow> tracking \<Rightarrow> attempt list result" where
  "loan_attempts w at db = all_repayment_attempts w at db (tracked_loans db)"

lemma repayment_job: "send_repayment_follow_up_reminders w at db
    = bindE (loan_attempts w at db) (\<lambda>ts. Inr (fold (deliver w) ts (db, 0)))"
  unfolding send_repayment_follow_up_reminders_def loan_attempts_def
  by (rule remind_repayments_attempts) simp

lemma loan_attempts_same:
  assumes "delivers db db'"
  shows "loan_attempts w at db' = loan_attempts w at db"
proof -
  have "all_repayment_attempts w at db' ls = all_repayment_attempts w at db ls" for ls
    by (induction ls) (simp_all add: repayment_attempts_same [OF assms])
  then show ?thesis by (simp add: loan_attempts_def tracked_loans_def delivers_same(1) [OF assms])
qed

definition report_attempts :: "(principal \<Rightarrow> string list option) \<Rightarrow> (principal \<Rightarrow> string list)
    \<Rightarrow> tracking \<Rightarrow> date \<Rightarrow> date \<Rightarrow> attempt list" where
  "report_attempts visible visible_loans db start stop =
     (let period = show_int (year start) @ ''-'' @ zero_padded 2 (month start) in
      map (\<lambda>u. (''monthly_rvp_report'', period, period, report_event period start
            (monthly_report_summary visible visible_loans db start stop (user_principal u)), u))
        (role_recipients (people db) ''RegionalVicePresident'' None None))"

lemma summary_same:
  assumes "delivers db db'"
  shows "monthly_report_summary v vl db' start stop p = monthly_report_summary v vl db start stop p"
  unfolding monthly_report_summary_def scoped_applications_def delivers_same [OF assms] ..

lemma report_fold:
  assumes "delivers db (fst acc)"
  shows "fold (\<lambda>u acc. deliver_once w kind s p (ev (monthly_report_summary v vl (fst acc) start stop (q u))) u acc) us acc
    = fold (deliver w) (map (\<lambda>u. (kind, s, p, ev (monthly_report_summary v vl db start stop (q u)), u)) us) acc"
  using assms
proof (induction us arbitrary: acc)
  case (Cons u us)
  let ?t = "(kind, s, p, ev (monthly_report_summary v vl db start stop (q u)), u)"
  have "delivers db (fst (deliver w ?t acc))"
    using Cons.prems deliver_delivers [of "fst acc" w ?t "snd acc"] delivers_trans by simp
  from Cons.IH [OF this] show ?case using Cons.prems by (simp add: summary_same)
qed simp

lemma report_job: "send_monthly_rvp_report w v vl at db
    = bindE (previous_calendar_month at) (\<lambda>(start, stop).
        Inr (fold (deliver w) (report_attempts v vl db start stop) (db, 0)))"
  by (auto simp: send_monthly_rvp_report_def report_attempts_def Let_def bindE_def report_fold [of db]
      split: sum.split)

lemma report_attempts_same: "delivers db db' \<Longrightarrow> report_attempts v vl db' start stop = report_attempts v vl db start stop"
  by (simp add: report_attempts_def summary_same delivers_same)

section \<open>Every command keeps the invariant\<close>

lemma history_append:
  "history_of (db\<lparr>applications := rows, follow_ups := follow_ups db @ [f], inbox := ns\<rparr>) aid
     = history_of db aid @ (if fu_application f = aid then [f] else [])"
  by (simp add: history_of_def)

lemma traces_append:
  "traces s (fs @ [f]) \<longleftrightarrow> traces s fs
     \<and> (let t = (if fs = [] then s else Some (fu_new (last fs))) in fu_previous f = t
        \<and> (case t of None \<Rightarrow> fu_new f = SUBMITTED_APPLICATION | Some x \<Rightarrow> application_step x (fu_new f)))"
  by (induction fs arbitrary: s) auto

text \<open>What a trigger writes is old or about its event.\<close>

lemma save_newest_sub: "n \<in> set (save_newest P f rows) \<Longrightarrow> n \<in> set rows \<or> (\<exists>m \<in> set rows. P m \<and> n = f m)"
  by (induction rows) (auto split: if_splits)

lemma tell_sub: "n \<in> set (tell at key ev u rows) \<Longrightarrow> n \<in> set rows
    \<or> n_context_type n = ev_context_type ev \<and> n_context_id n = ev_context_id ev"
  using save_newest_sub [of n "\<lambda>n. same_condition ev (u_id u) n \<and> live n" "refired at ev" rows]
  by (auto simp: tell_def same_condition_def refired_def new_notice_def Let_def split: if_splits)

lemma tell_all_sub: "n \<in> set (tell_all at key dir ev seen rs rows) \<Longrightarrow> n \<in> set rows
    \<or> n_context_type n = ev_context_type ev \<and> n_context_id n = ev_context_id ev"
  by (induction at key dir ev seen rs rows rule: tell_all.induct)
    (auto split: option.splits if_splits dest: tell_sub)

definition speaks_of_open :: "application list \<Rightarrow> event \<Rightarrow> bool" where
  "speaks_of_open rows ev \<longleftrightarrow> ev_context_type ev \<noteq> Some ''loan_application''
     \<or> (\<exists>a \<in> set rows. open_status (ap_status a) \<and> ev_context_id ev = Some (ap_id a))"

lemma trigger_about_open:
  assumes "\<forall>n \<in> set ns. about_open rows n" and "speaks_of_open rows ev"
  shows "\<forall>n \<in> set (trigger at key dir ev rs ns). about_open rows n"
proof
  fix n assume "n \<in> set (trigger at key dir ev rs ns)"
  then consider "n \<in> set ns" | "n_context_type n = ev_context_type ev" "n_context_id n = ev_context_id ev"
    unfolding trigger_def using tell_all_sub by blast
  then show "about_open rows n"
    using assms by cases (auto simp: about_open_def speaks_of_open_def pending_def list_ex_iff)
qed

lemma insert_application_Inr:
  assumes "insert_application a rows = Inr rows'"
  shows "ap_id a \<notin> ap_id ` set rows" "application_checks a = Inr ()" "application_unique a rows = Inr ()"
    "rows' = rows @ [a]"
  using assms by (auto simp: insert_application_def result_step list_ex_iff image_iff)

lemma save_application_Inr:
  assumes "save_application a rows = Inr rows'"
  shows "application_checks a = Inr ()" "application_unique a rows = Inr ()"
    "rows' = update_where (\<lambda>b. ap_id b = ap_id a) (\<lambda>_. a) rows"
  using assms by (auto simp: save_application_def result_step)

lemma application_unique_iff: "application_unique a rows = Inr () \<longleftrightarrow>
    (claims_school a \<longrightarrow> (\<forall>b \<in> set rows. claims_school b \<and> ap_school b = ap_school a \<longrightarrow> ap_id b = ap_id a))
    \<and> (ap_linked a \<noteq> None \<longrightarrow> (\<forall>b \<in> set rows. ap_linked b = ap_linked a \<longrightarrow> ap_id b = ap_id a))"
  by (auto simp: application_unique_def result_step list_ex_iff)

text \<open>Rows whose only change is one row that passed the uniqueness checks.\<close>

lemma claims_kept:
  assumes "schools_claimed_once rows" and "loans_linked_once rows" and "application_unique a rows = Inr ()"
    and "\<And>b. b \<in> set rows' \<Longrightarrow> b = a \<or> b \<in> set rows"
  shows "schools_claimed_once rows'" and "loans_linked_once rows'"
proof -
  have claim: "claims_school a \<Longrightarrow> b \<in> set rows \<Longrightarrow> claims_school b \<Longrightarrow> ap_school b = ap_school a \<Longrightarrow> ap_id b = ap_id a"
    and link: "ap_linked a \<noteq> None \<Longrightarrow> b \<in> set rows \<Longrightarrow> ap_linked b = ap_linked a \<Longrightarrow> ap_id b = ap_id a" for b
    using assms(3) unfolding application_unique_iff by blast+
  show "schools_claimed_once rows'"
    unfolding schools_claimed_once_def
  proof (intro ballI impI, elim conjE)
    fix x y assume *: "x \<in> set rows'" "y \<in> set rows'" "claims_school x" "claims_school y" "ap_school x = ap_school y"
    with assms(4) have "x = a \<or> x \<in> set rows" "y = a \<or> y \<in> set rows" by blast+
    then show "ap_id x = ap_id y"
      using * claim [of x] claim [of y] assms(1) unfolding schools_claimed_once_def by metis
  qed
  show "loans_linked_once rows'"
    unfolding loans_linked_once_def
  proof (intro ballI impI, elim conjE)
    fix x y assume *: "x \<in> set rows'" "y \<in> set rows'" "ap_linked x \<noteq> None" "ap_linked x = ap_linked y"
    with assms(4) have "x = a \<or> x \<in> set rows" "y = a \<or> y \<in> set rows" by blast+
    then show "ap_id x = ap_id y"
      using * link [of x] link [of y] assms(2) unfolding loans_linked_once_def by metis
  qed
qed

lemma integrity_to_bad_request_Inr [simp]: "integrity_to_bad_request m r = Inr x \<longleftrightarrow> r = Inr x"
  by (auto simp: integrity_to_bad_request_def split: sum.split err.split)

lemma submit_effect:
  assumes "submit_application w fm db = Inr (db', i)"
  obtains next_on rows ns where
    "insert_application (new_application w fm next_on) (applications db) = Inr rows"
    and "db' = db\<lparr>applications := rows,
        follow_ups := follow_ups db @ [\<lparr>fu_application = new_id w 0, fu_previous = None,
          fu_new = SUBMITTED_APPLICATION, fu_note = ''Application submitted directly by the school.'',
          fu_next = Some next_on, fu_by = ''school''\<rparr>], inbox := ns\<rparr>"
    and "ns = inbox db \<or> (\<exists>at key dir rs. ns = trigger at key dir
        (submitted_event db (new_application w fm next_on) (fm_school fm)) rs (inbox db))"
    and "i = new_id w 0" and "py_add_days (today w) 3 = Inr next_on"
proof -
  have id: "ap_id (new_application w fm d) = new_id w 0" for d by (simp add: new_application_def)
  show thesis
    using assms unfolding submit_application_def Let_def id
    apply (elim bindE_InrE)
    subgoal premises prems for next_on rows
    proof (rule that)
      let ?ns = "if application_recipients (people db) (fm_school fm) True = []
            then inbox db else trigger (now w) (\<lambda>k. new_id w (Suc k)) (people db)
              (submitted_event db (new_application w fm next_on) (fm_school fm))
              (map ThisUser (application_recipients (people db) (fm_school fm) True)) (inbox db)"
      show "insert_application (new_application w fm next_on) (applications db) = Inr rows"
        using prems(2) by simp
      show "db' = db\<lparr>applications := rows,
        follow_ups := follow_ups db @ [\<lparr>fu_application = new_id w 0, fu_previous = None,
          fu_new = SUBMITTED_APPLICATION, fu_note = ''Application submitted directly by the school.'',
          fu_next = Some next_on, fu_by = ''school''\<rparr>], inbox := ?ns\<rparr>"
        by (rule prems(3) [unfolded sum.inject prod.inject, THEN conjunct1, symmetric])
      show "?ns = inbox db \<or> (\<exists>at key dir rs. ?ns = trigger at key dir
          (submitted_event db (new_application w fm next_on) (fm_school fm)) rs (inbox db))"
        by (cases "application_recipients (people db) (fm_school fm) True = []") (simp_all, blast)
      show "i = new_id w 0" by (rule prems(3) [unfolded sum.inject prod.inject, THEN conjunct2, symmetric])
      show "py_add_days (today w) 3 = Inr next_on" by (rule prems(1))
    qed
    done
qed

lemma submit_inv:
  assumes inv: "tracking_inv db" and key: "new_id w 0 \<noteq> []" and run: "submit_application w fm db = Inr (db', i)"
  shows "tracking_inv db'"
proof -
  obtain next_on rows ns where ins: "insert_application (new_application w fm next_on) (applications db) = Inr rows"
    and ns: "db' = db\<lparr>applications := rows,
        follow_ups := follow_ups db @ [\<lparr>fu_application = new_id w 0, fu_previous = None,
          fu_new = SUBMITTED_APPLICATION, fu_note = ''Application submitted directly by the school.'',
          fu_next = Some next_on, fu_by = ''school''\<rparr>], inbox := ns\<rparr>"
      "ns = inbox db \<or> (\<exists>at key dir rs. ns = trigger at key dir
        (submitted_event db (new_application w fm next_on) (fm_school fm)) rs (inbox db))"
    by (rule submit_effect [OF run])
  let ?a = "new_application w fm next_on"
  note a = insert_application_Inr [OF ins]
  have id: "ap_id ?a = new_id w 0" and st: "ap_status ?a = SUBMITTED_APPLICATION" "ap_next ?a = Some next_on"
    by (simp_all add: new_application_def)
  have old: "history_of db (new_id w 0) = []"
  proof -
    have "\<forall>f \<in> set (follow_ups db). fu_application f \<in> ap_id ` set (applications db)"
      using inv by (simp add: tracking_inv_def)
    with a(1) id show ?thesis unfolding history_of_def filter_empty_conv by metis
  qed
  have hist: "history_ok db' b" if "b \<in> set rows" for b
  proof (cases "b = ?a")
    case True
    then show ?thesis
      using old id st by (simp add: history_ok_def ns(1) history_append)
  next
    case False
    with that a(4) have "b \<in> set (applications db)" by simp
    moreover from this a(1) id have "ap_id b \<noteq> new_id w 0" by force
    ultimately show ?thesis
      using inv by (simp add: tracking_inv_def history_ok_def ns(1) history_append)
  qed
  have told: "\<forall>n \<in> set ns. about_open rows n"
  proof -
    have "\<forall>n \<in> set (inbox db). about_open rows n"
      using inv a(4) by (auto simp: tracking_inv_def about_open_def)
    moreover have "speaks_of_open rows (submitted_event db ?a (fm_school fm))"
      using a(4) st by (auto simp: speaks_of_open_def submitted_event_def status_sets)
    ultimately show ?thesis using ns(2) trigger_about_open by blast
  qed
  have rows: "\<forall>f \<in> set (follow_ups db'). fu_application f \<in> ap_id ` set rows"
  proof
    fix f assume "f \<in> set (follow_ups db')"
    then consider "f \<in> set (follow_ups db)" | "fu_application f = ap_id ?a"
      using id by (auto simp: ns(1))
    then show "fu_application f \<in> ap_id ` set rows"
      using inv a(4) unfolding tracking_inv_def by cases auto
  qed
  have "row_ok ?a" using a(2) st by (simp add: row_ok_def status_sets)
  moreover have "schools_claimed_once rows" "loans_linked_once rows"
    using claims_kept [OF _ _ a(3), of rows] inv a(4) by (auto simp: tracking_inv_def)
  ultimately show ?thesis
    using inv a(1,4) id key hist told rows by (simp add: tracking_inv_def ns(1))
qed

lemma resolve_about_open:
  assumes "\<forall>n \<in> set ns. about_open rows n" and "ap_id a \<noteq> []"
    and "\<And>b. b \<in> set rows \<Longrightarrow> ap_id b \<noteq> ap_id a \<Longrightarrow> b \<in> set rows'"
  shows "\<forall>n \<in> set (resolve_condition at closing_events (Some ''loan_application'') (Some (ap_id a)) [] ns).
    about_open rows' n"
proof
  fix n assume "n \<in> set (resolve_condition at closing_events (Some ''loan_application'') (Some (ap_id a)) [] ns)"
  then obtain m where m: "m \<in> set ns"
      and n: "n = m \<and> \<not> (pending m \<and> n_context_id m = Some (ap_id a)) \<or> n_resolved_at n \<noteq> None"
    using assms(2)
    by (auto simp: resolve_condition_def closing_events_def nonblank_def set_update_where pending_def split: if_splits option.splits)
  show "about_open rows' n"
    using n assms(1,3) m by (fastforce simp: about_open_def pending_def list_ex_iff)
qed

lemma scoped_sub: "set (scoped_applications visible p db) \<subseteq> set (applications db)"
  unfolding scoped_applications_def by (cases "reads_applications (p_role p)"; cases "visible p") simp_all

lemma update_effect:
  assumes "update_application w visible p aid data db = Inr db'"
  obtains a new_status remark next_on linked rows where
    "find (\<lambda>a. ap_id a = aid) (scoped_applications visible p db) = Some a"
    and "map_of application_status_values (form_text data ''status'') = Some new_status"
    and "new_status \<in> set (APPLICATION_TRANSITIONS (ap_status a))"
    and "next_follow_up new_status data = Inr next_on"
    and "conversion_loan db a new_status data = Inr linked"
    and "save_application (updated_application w p new_status next_on linked a) (applications db) = Inr rows"
    and "db' = db\<lparr>applications := rows,
            follow_ups := follow_ups db @ [\<lparr>fu_application = ap_id a, fu_previous = Some (ap_status a),
              fu_new = new_status, fu_note = remark, fu_next = next_on, fu_by = actor_id p\<rparr>],
            inbox := (if terminal_status new_status
              then resolve_condition (now w) closing_events (Some ''loan_application'') (Some (ap_id a)) [] (inbox db)
              else inbox db)\<rparr>"
  using assms unfolding update_application_def Let_def
  apply (elim bindE_InrE)
  subgoal premises prems for u1 a new_status u2 u3 next_on linked rows
    by (rule that [of a new_status next_on linked rows "form_text data ''note''",
          OF prems(3) [unfolded of_option_eq_Inr] prems(4) [unfolded of_option_eq_Inr]
            prems(5) [unfolded ensure_eq_Inr] prems(7-9) prems(10) [unfolded sum.inject, symmetric]])
  done

lemma update_inv:
  assumes inv: "tracking_inv db" and run: "update_application w visible p aid data db = Inr db'"
  shows "tracking_inv db'"
proof -
  obtain a new_status remark next_on linked rows where
    a: "find (\<lambda>a. ap_id a = aid) (scoped_applications visible p db) = Some a"
    and step: "new_status \<in> set (APPLICATION_TRANSITIONS (ap_status a))"
    and next_on: "next_follow_up new_status data = Inr next_on"
    and save: "save_application (updated_application w p new_status next_on linked a) (applications db) = Inr rows"
    and db': "db' = db\<lparr>applications := rows,
            follow_ups := follow_ups db @ [\<lparr>fu_application = ap_id a, fu_previous = Some (ap_status a),
              fu_new = new_status, fu_note = remark, fu_next = next_on, fu_by = actor_id p\<rparr>],
            inbox := (if terminal_status new_status
              then resolve_condition (now w) closing_events (Some ''loan_application'') (Some (ap_id a)) [] (inbox db)
              else inbox db)\<rparr>"
    by (rule update_effect [OF run]) blast
  define a' where "a' = updated_application w p new_status next_on linked a"
  note a' = a'_def updated_application_def
  note save = save [folded a'_def]
  note s = save_application_Inr [OF save]
  have mem: "a \<in> set (applications db)"
    using conjunct1 [OF find_Some_set [OF a]] scoped_sub by blast
  have id: "ap_id a' = ap_id a" by (simp add: a')
  have rows: "b \<in> set rows \<longleftrightarrow> b = a' \<or> (b \<in> set (applications db) \<and> ap_id b \<noteq> ap_id a)" for b
    using mem id by (auto simp: s(3) set_update_where)
  have next_open: "open_status new_status = (next_on \<noteq> None)"
    using next_on by (auto simp: next_follow_up_def open_or_terminal Let_def split: if_splits sum.splits err.splits)
  have hist: "history_ok db' b" if "b \<in> set rows" for b
  proof (cases "b = a'")
    case True
    have "history_ok db a" using inv mem by (simp add: tracking_inv_def)
    with True step show ?thesis
      by (simp add: history_ok_def db' history_append a' traces_append transitions_iff Let_def)
  next
    case False
    with that rows have b: "b \<in> set (applications db)" "ap_id b \<noteq> ap_id a" by blast+
    with inv have "history_ok db b" by (simp add: tracking_inv_def)
    with b show ?thesis by (simp add: history_ok_def db' history_append)
  qed
  have told: "\<forall>n \<in> set (inbox db'). about_open rows n"
  proof (cases "terminal_status new_status")
    case True
    have "ap_id a \<noteq> []" using inv mem by (simp add: tracking_inv_def)
    with True inv rows show ?thesis
      unfolding db' by (simp add: tracking_inv_def) (rule resolve_about_open, auto)
  next
    case False
    have st: "ap_status a' = new_status" by (simp add: a')
    have "about_open rows n" if "about_open (applications db) n" for n
      unfolding about_open_def
    proof
      assume "pending n"
      with that obtain b where b: "b \<in> set (applications db)" "open_status (ap_status b)" "n_context_id n = Some (ap_id b)"
        by (auto simp: about_open_def list_ex_iff)
      show "list_ex (\<lambda>a. open_status (ap_status a) \<and> n_context_id n = Some (ap_id a)) rows"
      proof (cases "ap_id b = ap_id a")
        case True
        with b(3) id st False have "open_status (ap_status a') \<and> n_context_id n = Some (ap_id a')"
          by (simp add: open_or_terminal)
        with rows show ?thesis unfolding list_ex_iff by blast
      next
        case False
        with b rows show ?thesis unfolding list_ex_iff by blast
      qed
    qed
    with False inv show ?thesis by (simp add: db' tracking_inv_def)
  qed
  have "map ap_id rows = map ap_id (applications db)"
    unfolding s(3) by (rule map_replace) simp
  moreover have "row_ok a'" using s(1) next_open by (simp add: row_ok_def a')
  moreover have "schools_claimed_once rows" "loans_linked_once rows"
    using claims_kept [OF _ _ s(2), of rows] inv rows by (auto simp: tracking_inv_def)
  moreover have "ap_id ` set rows = ap_id ` set (applications db)"
    using \<open>map ap_id rows = map ap_id (applications db)\<close> by (metis image_set)
  moreover have "\<forall>b \<in> set rows. ap_id b \<noteq> []" "\<forall>b \<in> set rows. row_ok b"
    using inv rows id mem \<open>row_ok a'\<close> unfolding tracking_inv_def by metis+
  moreover have "\<forall>f \<in> set (follow_ups db'). fu_application f \<in> ap_id ` set (applications db)"
    using inv mem by (auto simp: db' tracking_inv_def)
  moreover have "applications db' = rows" "delivery_log db' = delivery_log db" by (simp_all add: db')
  ultimately show ?thesis
    using inv hist told unfolding tracking_inv_def by metis
qed

text \<open>A delivery whose event speaks of an open application, or of something else.\<close>

lemma deliver_inv:
  assumes "tracking_inv (fst acc)" and "speaks_of_open (applications (fst acc)) (event_of t)"
  shows "tracking_inv (fst (deliver w t acc))"
proof -
  obtain db n where acc: "acc = (db, n)" by (cases acc) auto
  have "\<forall>n \<in> set (inbox db). about_open (applications db) n"
    using assms(1) by (simp add: tracking_inv_def acc)
  note told = trigger_about_open [OF this]
  show ?thesis
    using assms unfolding acc
    by (cases rule: deliver_cases [of t db w n])
      (auto simp: tracking_inv_def history_ok_def history_of_def told)
qed

lemma fold_deliver_inv:
  assumes "tracking_inv (fst acc)" and "\<And>t. t \<in> set ts \<Longrightarrow> speaks_of_open (applications (fst acc)) (event_of t)"
  shows "tracking_inv (fst (fold (deliver w) ts acc))"
  using assms
proof (induction ts arbitrary: acc)
  case (Cons t ts)
  have "applications (fst (deliver w t acc)) = applications (fst acc)"
    using delivers_same(7) deliver_delivers [of "fst acc" w t "snd acc"] by simp
  with Cons deliver_inv [of acc t w] show ?case by simp
qed simp

lemma due_application_open: "a \<in> set (due_applications at db) \<Longrightarrow> a \<in> set (applications db) \<and> open_status (ap_status a)"
  by (auto simp: due_applications_def claims_school_def)

lemma follow_up_attempt:
  assumes "t \<in> set (follow_up_attempts at db)"
  shows "speaks_of_open (applications db) (event_of t)"
proof -
  obtain a where a: "a \<in> set (due_applications at db)" "t \<in> set (application_attempts at db a)"
    using assms by (auto simp: follow_up_attempts_def)
  then have "ev_context_id (event_of t) = Some (ap_id a)"
    by (auto simp: application_attempts_def attempts_def follow_up_event_def split: option.splits)
  with due_application_open [OF a(1)] show ?thesis unfolding speaks_of_open_def by blast
qed

lemma repayment_attempt:
  assumes "all_repayment_attempts w at db ls = Inr ts" and "t \<in> set ts"
  shows "speaks_of_open rows (event_of t)"
  using assms
proof (induction ls arbitrary: ts)
  case (Cons l ls)
  obtain us vs where us: "repayment_attempts w at db l = Inr us" and vs: "all_repayment_attempts w at db ls = Inr vs"
    and ts: "ts = us @ vs"
    using Cons.prems(1) by (auto simp: bindE_eq_Inr)
  show ?case
  proof (cases "t \<in> set us")
    case True
    with us have "ev_context_type (event_of t) = Some ''loan''"
      by (auto simp: repayment_attempts_def attempts_def repayment_event_def bindE_eq_Inr Let_def split: option.splits if_splits)
    then show ?thesis by (simp add: speaks_of_open_def)
  next
    case False
    with Cons vs ts show ?thesis by simp
  qed
qed simp

lemma report_attempt: "t \<in> set (report_attempts v vl db start stop) \<Longrightarrow> speaks_of_open rows (event_of t)"
  by (auto simp: report_attempts_def report_event_def speaks_of_open_def Let_def)

lemma run_inv:
  assumes "tracking_inv db"
  shows "tracking_inv (fst (run_loan_tracking_notifications w v vl at db))"
proof -
  obtain db1 n1 where one: "fold (deliver w) (follow_up_attempts at db) (db, 0) = (db1, n1)" by (rule prod.exhaust)
  have db1: "tracking_inv db1"
    using fold_deliver_inv [of "(db, 0)" "follow_up_attempts at db" w] assms follow_up_attempt one by auto
  show ?thesis
  proof (cases "loan_attempts w at db1")
    case (Inl e)
    with db1 one show ?thesis
      by (simp add: run_loan_tracking_notifications_def follow_up_job repayment_job)
  next
    case (Inr ts)
    obtain db2 n2 where two: "fold (deliver w) ts (db1, 0) = (db2, n2)" by (rule prod.exhaust)
    have db2: "tracking_inv db2"
      using fold_deliver_inv [of "(db1, 0)" ts w] db1 repayment_attempt [OF Inr [unfolded loan_attempts_def]] two
      by auto
    show ?thesis
    proof (cases "previous_calendar_month at")
      case (Inl e)
      with db2 one two Inr show ?thesis
        by (simp add: run_loan_tracking_notifications_def follow_up_job repayment_job report_job)
    next
      case (Inr months)
      obtain start stop where months: "months = (start, stop)" by (rule prod.exhaust)
      obtain db3 n3 where three: "fold (deliver w) (report_attempts v vl db2 start stop) (db2, 0) = (db3, n3)"
        by (rule prod.exhaust)
      have "tracking_inv db3"
        using fold_deliver_inv [of "(db2, 0)" "report_attempts v vl db2 start stop" w] db2 report_attempt three by auto
      with one two three \<open>loan_attempts w at db1 = Inr ts\<close> Inr months show ?thesis
        by (simp add: run_loan_tracking_notifications_def follow_up_job repayment_job report_job)
    qed
  qed
qed

text \<open>What a reader does to a notice leaves it resolved or not, and about the same thing.\<close>

lemma inbox_inv:
  assumes "tracking_inv db"
    and "\<And>n. n \<in> set ns \<Longrightarrow> \<exists>m \<in> set (inbox db). n_resolved_at n = n_resolved_at m \<and> condition_of n = condition_of m"
  shows "tracking_inv (db\<lparr>inbox := ns\<rparr>)"
proof -
  have "about_open (applications db) n" if mem: "n \<in> set ns" for n
  proof -
    obtain m where m: "m \<in> set (inbox db)" "n_resolved_at n = n_resolved_at m" "condition_of n = condition_of m"
      using assms(2) [OF mem] by blast
    then have "about_open (applications db) m" using assms(1) by (simp add: tracking_inv_def)
    with m(2,3) show ?thesis by (simp add: about_open_def pending_def condition_of_def)
  qed
  with assms(1) show ?thesis by (simp add: tracking_inv_def history_ok_def history_of_def)
qed

lemma command_inv:
  assumes "tracking_inv db" and "new_id w 0 \<noteq> []" and "run_tracking w v vl p c db = Inr db'"
  shows "tracking_inv db'"
proof (cases c)
  case (Submit fm)
  with assms submit_inv show ?thesis by (auto simp: run_tracking_def bindE_eq_Inr)
next
  case (Update aid data)
  with assms update_inv show ?thesis by (simp add: run_tracking_def)
next
  case (Remind at)
  with assms run_inv show ?thesis by (auto simp: run_tracking_def)
next
  case (Read_notice key uid)
  have "tracking_inv (db\<lparr>inbox := mark_read (now w) key uid (inbox db)\<rparr>)"
    by (rule inbox_inv [OF assms(1)]) (auto simp: mark_read_def set_update_where condition_of_def)
  with assms(3) Read_notice show ?thesis by (simp add: run_tracking_def)
next
  case (Archive_notice key uid)
  have "tracking_inv (db\<lparr>inbox := resolve_notice key uid (inbox db)\<rparr>)"
    by (rule inbox_inv [OF assms(1)]) (auto simp: resolve_notice_def set_update_where condition_of_def)
  with assms(3) Archive_notice show ?thesis by (simp add: run_tracking_def)
qed

theorem tracking_invariant: "tracking_reachable db \<Longrightarrow> tracking_inv db"
proof (induction rule: tracking_reachable.induct)
  case (fresh db)
  then show ?case by (simp add: tracking_inv_def schools_claimed_once_def loans_linked_once_def)
next
  case (elsewhere db db')
  then show ?case by (simp add: tracking_inv_def history_ok_def history_of_def)
next
  case (command db w v vl p c db')
  then show ?case using command_inv by blast
qed

end
