(* ===== verification/LoanTrackingProperties.thy ===== *)
theory LoanTrackingProperties
  imports LoanTracking LedgerScenario
begin

text \<open>
  What the loan intake guarantees, and where it does not do what it means to.
\<close>

section \<open>A small intake\<close>

definition intake_school :: school where
  "intake_school = \<lparr>sch_id = ''s'', sch_school_id = ''S1'', sch_name = ''Hill'', sch_owner = Some ''p1'',
     sch_country = Some ''Uganda'', sch_deleted = False\<rparr>"

definition intake_people :: user_directory where
  "intake_people = \<lparr>users = [
       \<lparr>u_id = ''u1'', u_roles = [''CCEO''], u_active_role = ''CCEO'', u_is_active = True, u_deleted = False\<rparr>,
       \<lparr>u_id = ''u2'', u_roles = [''CountryDirector''], u_active_role = ''CountryDirector'', u_is_active = True,
         u_deleted = False\<rparr>],
     staff_profiles = [\<lparr>sp_id = ''p1'', sp_user = ''u1'', sp_country = ''Uganda'', sp_deleted = False\<rparr>,
       \<lparr>sp_id = ''p2'', sp_user = ''u2'', sp_country = ''Uganda'', sp_deleted = False\<rparr>]\<rparr>"

definition intake :: tracking where
  "intake = \<lparr>books = empty_ledger\<lparr>loans := [demo_loan ''l1'']\<rparr>, people = intake_people, schools = [intake_school],
     purpose_labels = [(''p'', ''Classrooms'')], mfi_names = [(''m'', ''Partner'')],
     loan_details = [\<lparr>lt_loan = ''l1'', lt_school = ''s'', lt_term_months = Some 12, lt_frequency = ''monthly'',
       lt_maturity = None\<rparr>],
     snapshots = [], applications = [], follow_ups = [], delivery_log = [], inbox = []\<rparr>"

definition intake_form :: application_form where
  "intake_form = \<lparr>fm_school = intake_school, fm_purpose = ''p'', fm_mfi = Some ''m'', fm_name = ''A'',
     fm_role = ''Head'', fm_phone = ''0700000000'', fm_email = [], fm_amount = 50000, fm_intended_use = ''Desks'',
     fm_term = 12, fm_frequency = ''monthly''\<rparr>"

definition intake_row :: "string \<Rightarrow> application" where
  "intake_row k = new_application (demo_world k) intake_form (Date 2026 3 8)"

definition sees_school :: "principal \<Rightarrow> string list option" where
  "sees_school p = Some [''s'']"

definition withdrawal :: form_data where
  "withdrawal = [''status'' \<mapsto> ''withdrawn'', ''note'' \<mapsto> ''school changed its mind'']"

definition conversion :: form_data where
  "conversion = [''status'' \<mapsto> ''converted'', ''note'' \<mapsto> ''done'', ''linkedLoanId'' \<mapsto> ''l1'']"

definition intake1 :: tracking where
  "intake1 = (case submit_application (demo_world ''a'') intake_form intake of Inl e \<Rightarrow> intake | Inr (db, _) \<Rightarrow> db)"

lemma three_days: "py_add_days (Date 2026 3 5) 3 = Inr (Date 2026 3 8)"
  by (simp add: py_add_days_def add_days_def next_day_def days_in_month_def numeral_eq_Suc)

lemma insert_first: "insert_application (intake_row ''a'') [] = Inr [intake_row ''a'']"
  by (simp add: insert_application_def application_checks_def application_unique_def intake_row_def
      new_application_def intake_form_def status_sets)

definition told_of_submission :: "world \<Rightarrow> tracking \<Rightarrow> application_form \<Rightarrow> date \<Rightarrow> notice list" where
  "told_of_submission w db fm d =
     (let told = application_recipients (people db) (fm_school fm) True in
      if told = [] then inbox db
      else trigger (now w) (\<lambda>k. new_id w (Suc k)) (people db)
             (submitted_event db (new_application w fm d) (fm_school fm)) (map ThisUser told) (inbox db))"

lemma submit_ok:
  assumes "py_add_days (today w) 3 = Inr d" and "insert_application (new_application w fm d) (applications db) = Inr rows"
  shows "\<exists>fs. submit_application w fm db
    = Inr (db\<lparr>applications := rows, follow_ups := follow_ups db @ fs, inbox := told_of_submission w db fm d\<rparr>, new_id w 0)"
proof -
  have "ap_id (new_application w fm d) = new_id w 0" by (simp add: new_application_def)
  with assms show ?thesis
    unfolding submit_application_def Let_def told_of_submission_def
    by (intro exI [of _ "[\<lparr>fu_application = new_id w 0, fu_previous = None, fu_new = SUBMITTED_APPLICATION,
            fu_note = ''Application submitted directly by the school.'', fu_next = Some d, fu_by = ''school''\<rparr>]"])
      (simp add: integrity_to_bad_request_def)
qed

lemma submitted: "\<exists>fs. submit_application (demo_world ''a'') intake_form intake = Inr (intake1, ''a'')
    \<and> intake1 = intake\<lparr>applications := [intake_row ''a''], follow_ups := fs,
        inbox := told_of_submission (demo_world ''a'') intake intake_form (Date 2026 3 8)\<rparr>"
proof -
  have w: "today (demo_world ''a'') = Date 2026 3 5" "new_id (demo_world ''a'') 0 = ''a''"
    by (simp_all add: demo_world_def)
  have "insert_application (new_application (demo_world ''a'') intake_form (Date 2026 3 8)) (applications intake)
      = Inr [intake_row ''a'']"
    using insert_first by (simp add: intake_row_def intake_def)
  from submit_ok [OF _ this] show ?thesis
    by (auto simp: w three_days intake1_def intake_def)
qed

lemma intake1_rows: "applications intake1 = [intake_row ''a'']" "people intake1 = intake_people"
    "delivery_log intake1 = []" "books intake1 = books intake" "loan_details intake1 = loan_details intake"
    "schools intake1 = [intake_school]"
    "inbox intake1 = told_of_submission (demo_world ''a'') intake intake_form (Date 2026 3 8)"
proof -
  obtain fs where e: "intake1 = intake\<lparr>applications := [intake_row ''a''], follow_ups := fs,
      inbox := told_of_submission (demo_world ''a'') intake intake_form (Date 2026 3 8)\<rparr>"
    using submitted by blast
  show "applications intake1 = [intake_row ''a'']" "people intake1 = intake_people"
    "delivery_log intake1 = []" "books intake1 = books intake" "loan_details intake1 = loan_details intake"
    "schools intake1 = [intake_school]"
    "inbox intake1 = told_of_submission (demo_world ''a'') intake intake_form (Date 2026 3 8)"
    unfolding e by (simp_all add: intake_def)
qed

lemma intake_recipients: "application_recipients intake_people intake_school True = users intake_people"
  by code_simp

lemma intake1_reachable: "tracking_reachable intake1"
proof -
  have "tracking_reachable intake" by (rule fresh) (simp_all add: intake_def)
  moreover have "run_tracking (demo_world ''a'') sees_school (\<lambda>_. []) (demo_user ''u2'') (Submit intake_form) intake
      = Inr intake1"
    using submitted by (auto simp: run_tracking_def)
  moreover have "new_id (demo_world ''a'') 0 \<noteq> []" by (simp add: demo_world_def)
  ultimately show ?thesis using tracking_reachable.command by blast
qed

section \<open>Applications\<close>

text \<open>C7: every application the intake reaches is consistent: it names the next follow-up and is
  not processed exactly while it is open, is linked to a loan exactly when it is converted, and
  is the only open one of its school.\<close>

theorem application_rows_consistent:
  assumes "tracking_reachable db" and "a \<in> set (applications db)"
  shows "open_status (ap_status a) = (ap_next a \<noteq> None)
    \<and> open_status (ap_status a) = (ap_processed_at a = None)
    \<and> (ap_status a = CONVERTED_APPLICATION) = (ap_linked a \<noteq> None)
    \<and> 0 < ap_amount a \<and> ap_term a \<in> {1..120}
    \<and> filter (\<lambda>b. ap_school b = ap_school a \<and> claims_school b) (applications db)
        = (if claims_school a then [a] else filter (\<lambda>b. ap_school b = ap_school a \<and> claims_school b) (applications db))"
proof -
  have inv: "tracking_inv db" by (rule tracking_invariant [OF assms(1)])
  then have row: "row_ok a" using assms(2) by (simp add: tracking_inv_def)
  have dist: "distinct (map ap_id (applications db))" using inv by (simp add: tracking_inv_def)
  have "filter (\<lambda>b. ap_school b = ap_school a \<and> claims_school b) (applications db) = [a]" if "claims_school a"
  proof -
    have "ap_school b = ap_school a \<and> claims_school b \<longleftrightarrow> ap_id b = ap_id a" if "b \<in> set (applications db)" for b
      using inv that assms(2) \<open>claims_school a\<close> distinct_key_unique [OF dist that assms(2)]
      unfolding tracking_inv_def schools_claimed_once_def by metis
    then have "filter (\<lambda>b. ap_school b = ap_school a \<and> claims_school b) (applications db)
        = filter (\<lambda>b. ap_id b = ap_id a) (applications db)"
      by (rule filter_cong [OF refl])
    also have "\<dots> = [a]"
    proof -
      have "distinct (map ap_id xs) \<Longrightarrow> a \<in> set xs \<Longrightarrow> filter (\<lambda>b. ap_id b = ap_id a) xs = [a]" for xs
        by (induction xs) (auto simp: filter_empty_conv intro: rev_image_eqI)
      with dist assms(2) show ?thesis by blast
    qed
    finally show ?thesis .
  qed
  with row show ?thesis
    by (auto simp: row_ok_def application_checks_def result_step open_or_terminal split: if_splits)
qed

lemma intake_row_facts: "ap_status (intake_row k) = SUBMITTED_APPLICATION" "ap_next (intake_row k) = Some (Date 2026 3 8)"
    "ap_school (intake_row k) = ''s''" "ap_id (intake_row k) = k" "ap_deleted (intake_row k) = False"
    "ap_processed_at (intake_row k) = None" "ap_linked (intake_row k) = None" "ap_mfi (intake_row k) = Some ''m''"
    "ap_purpose (intake_row k) = ''p''" "ap_amount (intake_row k) = 50000" "ap_term (intake_row k) = 12"
  by (simp_all add: intake_row_def new_application_def intake_form_def intake_school_def demo_world_def)

theorem application_rows_consistent_witness:
  "applications intake1 = [intake_row ''a''] \<and> 0 < ap_amount (intake_row ''a'')
     \<and> filter (\<lambda>b. ap_school b = ''s'' \<and> claims_school b) (applications intake1) = [intake_row ''a'']"
  using application_rows_consistent [OF intake1_reachable, of "intake_row ''a''"]
  by (simp add: intake1_rows intake_row_facts claims_school_def status_sets)

text \<open>The number of times the status changes along a history.\<close>

fun status_changes :: "follow_up list \<Rightarrow> nat" where
  "status_changes [] = 0"
| "status_changes (f # fs) =
     (case fu_previous f of None \<Rightarrow> 0 | Some s \<Rightarrow> if s = fu_new f then 0 else 1) + status_changes fs"

lemma traces_walk: "traces (Some s) fs \<Longrightarrow> application_lifecycle.walk s (map fu_new fs)
    \<and> status_changes fs = application_lifecycle.changes s (map fu_new fs)"
  by (induction fs arbitrary: s) (auto simp: transitions_iff)

text \<open>C8: the follow-up rows of an application trace a path of the transition table from its
  submission to its present status, and the status changes at most five times.\<close>

theorem application_history_traced:
  assumes "tracking_reachable db" and "a \<in> set (applications db)"
  shows "traces None (history_of db (ap_id a)) \<and> fu_new (last (history_of db (ap_id a))) = ap_status a
    \<and> status_changes (history_of db (ap_id a)) \<le> 5"
proof -
  have ok: "history_ok db a" using tracking_invariant [OF assms(1)] assms(2) by (simp add: tracking_inv_def)
  then obtain f fs where h: "history_of db (ap_id a) = f # fs"
    by (auto simp: history_ok_def Let_def neq_Nil_conv)
  have first: "fu_previous f = None" "traces (Some (fu_new f)) fs"
    using ok by (auto simp: history_ok_def Let_def h)
  have "status_changes fs \<le> application_rank (last (fu_new f # map fu_new fs))"
    using traces_walk [OF first(2)] application_lifecycle.changes_climb [of "fu_new f" "map fu_new fs"] by simp
  also have "\<dots> \<le> 5" by (rule application_rank_bound)
  finally show ?thesis using ok first(1) by (auto simp: history_ok_def Let_def h)
qed

theorem application_history_traced_witness:
  "traces None (history_of intake1 ''a'') \<and> fu_new (last (history_of intake1 ''a'')) = SUBMITTED_APPLICATION"
  using application_history_traced [OF intake1_reachable, of "intake_row ''a''"]
  by (simp add: intake1_rows intake_row_facts)

lemma withdrawn_text: "strip ''withdrawn'' = ''withdrawn''" "strip ''converted'' = ''converted''"
    "strip ''l1'' = ''l1''" "strip ''done'' = ''done''"
    "map_of application_status_values ''withdrawn'' = Some WITHDRAWN_APPLICATION"
    "map_of application_status_values ''converted'' = Some CONVERTED_APPLICATION"
  by (code_simp+)

lemma find_scoped:
  assumes "tracking_inv db" and "a \<in> set (applications db)" and "p_role p \<in> set APPLICATION_UPDATE_ROLES"
    and "visible p = Some ids" and "ap_school a \<in> set ids" and "\<not> ap_deleted a"
  shows "find (\<lambda>b. ap_id b = ap_id a) (scoped_applications visible p db) = Some a"
proof -
  have "reads_applications (p_role p)"
    using assms(3) by (auto simp: reads_applications_def GLOBAL_APPLICATION_ROLES_def)
  then have rows: "scoped_applications visible p db
      = filter (\<lambda>b. \<not> ap_deleted b \<and> ap_school b \<in> set ids) (applications db)"
    using assms(4) by (simp add: scoped_applications_def)
  have "distinct (map ap_id xs) \<Longrightarrow> a \<in> set xs \<Longrightarrow> P a \<Longrightarrow> find (\<lambda>b. ap_id b = ap_id a) (filter P xs) = Some a"
    for xs P by (induction xs) (auto intro: rev_image_eqI)
  with assms rows show ?thesis by (simp add: tracking_inv_def)
qed

lemma withdrawal_succeeds:
  assumes "tracking_reachable db" and "a \<in> set (applications db)" and "claims_school a"
    and "p_role p \<in> set APPLICATION_UPDATE_ROLES" and "visible p = Some ids" and "ap_school a \<in> set ids"
    and "form_text data ''status'' = ''withdrawn''" and "form_text data ''note'' \<noteq> []"
  shows "\<exists>db' a'. update_application w visible p (ap_id a) data db = Inr db' \<and> a' \<in> set (applications db')
    \<and> ap_id a' = ap_id a \<and> ap_status a' = WITHDRAWN_APPLICATION \<and> ap_next a' = None"
proof -
  have inv: "tracking_inv db" by (rule tracking_invariant [OF assms(1)])
  have a: "find (\<lambda>b. ap_id b = ap_id a) (scoped_applications visible p db) = Some a"
    using find_scoped [where visible = visible and p = p, OF inv assms(2,4,5,6)] assms(3) by (simp add: claims_school_def)
  have st: "open_status (ap_status a)" using assms(3) by (simp add: claims_school_def)
  then have step: "WITHDRAWN_APPLICATION \<in> set (APPLICATION_TRANSITIONS (ap_status a))"
    by (auto simp: transitions_iff intro: withdraw)
  let ?a = "updated_application w p WITHDRAWN_APPLICATION None None a"
  have new: "ap_id ?a = ap_id a" "ap_status ?a = WITHDRAWN_APPLICATION" "ap_linked ?a = None" "ap_next ?a = None"
    by (simp_all add: updated_application_def)
  have "application_checks a = Inr ()" using inv assms(2) by (simp add: tracking_inv_def row_ok_def)
  then have "application_checks ?a = Inr ()"
    by (simp add: application_checks_def result_step updated_application_def status_sets)
  moreover have "application_unique ?a (applications db) = Inr ()"
    using new by (simp add: application_unique_iff claims_school_def status_sets)
  ultimately have save: "save_application ?a (applications db)
      = Inr (update_where (\<lambda>b. ap_id b = ap_id a) (\<lambda>_. ?a) (applications db))"
    using new(1) by (simp add: save_application_def)
  have next_on: "next_follow_up WITHDRAWN_APPLICATION data = Inr None"
    and linked: "conversion_loan db a WITHDRAWN_APPLICATION data = Inr None"
    by (simp_all add: next_follow_up_def conversion_loan_def status_sets)
  obtain db' where "update_application w visible p (ap_id a) data db = Inr db'"
      and rows: "applications db' = update_where (\<lambda>b. ap_id b = ap_id a) (\<lambda>_. ?a) (applications db)"
    using assms(4,7,8) a step next_on linked save withdrawn_text(5)
    by (simp add: update_application_def Let_def)
  moreover have "?a \<in> set (applications db')"
    using assms(2) unfolding rows set_update_where by (auto intro: rev_image_eqI)
  ultimately show ?thesis using new by blast
qed

lemma intake_withdrawal:
  "p_role (demo_user ''u2'') \<in> set APPLICATION_UPDATE_ROLES" "sees_school (demo_user ''u2'') = Some [''s'']"
  "form_text withdrawal ''status'' = ''withdrawn''" "form_text withdrawal ''note'' \<noteq> []"
  "claims_school (intake_row ''a'')"
proof -
  show "form_text withdrawal ''note'' \<noteq> []"
    by (simp add: form_text_def withdrawal_def strip_def is_space_def char_code_def Let_def)
qed (simp_all add: demo_user_def APPLICATION_UPDATE_ROLES_def sees_school_def form_text_def withdrawal_def
    withdrawn_text claims_school_def intake_row_facts status_sets)

text \<open>An open application can always be brought to an end: whoever may update applications
  and sees its school withdraws it with a note, whatever its status and its data.\<close>

theorem open_application_can_be_withdrawn:
  assumes "tracking_reachable db" and "a \<in> set (applications db)" and "claims_school a"
    and "p_role p \<in> set APPLICATION_UPDATE_ROLES" and "visible p = Some ids" and "ap_school a \<in> set ids"
    and "form_text data ''status'' = ''withdrawn''" and "form_text data ''note'' \<noteq> []"
  shows "\<exists>db' a'. update_application w visible p (ap_id a) data db = Inr db' \<and> a' \<in> set (applications db')
    \<and> ap_id a' = ap_id a \<and> ap_status a' = WITHDRAWN_APPLICATION \<and> ap_next a' = None"
  using assms by (rule withdrawal_succeeds)

theorem open_application_can_be_withdrawn_witness:
  "\<exists>db' a'. update_application (demo_world ''b'') sees_school (demo_user ''u2'') ''a'' withdrawal intake1 = Inr db'
     \<and> a' \<in> set (applications db') \<and> ap_id a' = ''a'' \<and> ap_status a' = WITHDRAWN_APPLICATION \<and> ap_next a' = None"
  using open_application_can_be_withdrawn [where visible = sees_school and w = "demo_world ''b''",
      OF intake1_reachable _ intake_withdrawal(5,1,2) _ intake_withdrawal(3,4)]
  by (simp add: intake1_rows intake_row_facts)

text \<open>A closed application bothers nobody: no notice of its submission or follow-up stays
  unresolved in any inbox, even when a reader archives notices and reads them again.\<close>

theorem closed_application_is_silent:
  assumes "tracking_reachable db" and "a \<in> set (applications db)" and "terminal_status (ap_status a)"
    and "n \<in> set (inbox db)" and "n_context_id n = Some (ap_id a)"
  shows "\<not> pending n"
proof
  assume "pending n"
  have inv: "tracking_inv db" by (rule tracking_invariant [OF assms(1)])
  with assms(4) \<open>pending n\<close> obtain b where b: "b \<in> set (applications db)" "open_status (ap_status b)" "ap_id b = ap_id a"
    using assms(5) by (auto simp: tracking_inv_def about_open_def list_ex_iff)
  then have "b = a"
    using inv assms(2) distinct_key_unique [of ap_id "applications db" b a] by (simp add: tracking_inv_def)
  with b(2) assms(3) show False by (simp add: open_or_terminal)
qed

lemma update_keeps_conditions:
  assumes "update_application w visible p aid data db = Inr db'"
  shows "map condition_of (inbox db') = map condition_of (inbox db)"
  by (rule update_effect [OF assms]) (simp add: resolving.preserves_conditions)

lemma told_of_intake: "\<exists>n \<in> set (inbox intake1). n_recipient n = ''u1'' \<and> n_context_id n = Some ''a''"
proof -
  let ?ev = "submitted_event intake (intake_row ''a'') intake_school"
  have ev: "ev_context_id ?ev = Some ''a''" "nonblank (ev_context_id ?ev)"
    by (simp_all add: submitted_event_def intake_row_facts nonblank_def)
  have inbox: "inbox intake1 = trigger (now (demo_world ''a'')) (\<lambda>k. new_id (demo_world ''a'') (Suc k)) intake_people
      ?ev (map ThisUser (users intake_people)) []"
    using intake_recipients
    by (simp add: intake1_rows told_of_submission_def Let_def intake_row_def)
      (simp add: intake_def intake_form_def intake_people_def)
  have "ThisUser (hd (users intake_people)) \<in> set (map ThisUser (users intake_people))"
    "user_of intake_people (ThisUser (hd (users intake_people))) = Some (hd (users intake_people))"
    "u_id (hd (users intake_people)) = ''u1''"
    by (simp_all add: intake_people_def user_of_def)
  with tell_all_copy [OF ev(2) this(1,2), of "[]"] ev(1) show ?thesis
    unfolding inbox trigger_def by (fastforce simp: live_copies_def same_condition_def)
qed

lemma withdrawn_intake:
  obtains db a where "tracking_reachable db" and "a \<in> set (applications db)" and "ap_id a = ''a''"
    and "ap_status a = WITHDRAWN_APPLICATION" and "\<exists>n \<in> set (inbox db). n_recipient n = ''u1'' \<and> n_context_id n = Some ''a''"
proof -
  have "intake_row ''a'' \<in> set (applications intake1)" "ap_school (intake_row ''a'') \<in> set [''s'']"
    by (simp_all add: intake1_rows intake_row_facts)
  then obtain db a where run: "update_application (demo_world ''b'') sees_school (demo_user ''u2'') ''a'' withdrawal intake1 = Inr db"
      and a: "a \<in> set (applications db)" "ap_id a = ''a''" "ap_status a = WITHDRAWN_APPLICATION"
    using withdrawal_succeeds [where visible = sees_school and w = "demo_world ''b''",
      OF intake1_reachable _ intake_withdrawal(5,1,2) _ intake_withdrawal(3,4)] intake_row_facts(4) by metis
  have "run_tracking (demo_world ''b'') sees_school (\<lambda>_. []) (demo_user ''u2'') (Update ''a'' withdrawal) intake1 = Inr db"
    by (simp add: run_tracking_def run)
  moreover have "new_id (demo_world ''b'') 0 \<noteq> []" by (simp add: demo_world_def)
  ultimately have "tracking_reachable db"
    using tracking_reachable.command [OF intake1_reachable] by blast
  moreover obtain m where m: "m \<in> set (inbox intake1)" "n_recipient m = ''u1''" "n_context_id m = Some ''a''"
    using told_of_intake by blast
  then have "condition_of m \<in> set (map condition_of (inbox db))"
    unfolding update_keeps_conditions [OF run] by simp
  then obtain n where "n \<in> set (inbox db)" "condition_of n = condition_of m" by auto
  with m have "\<exists>n \<in> set (inbox db). n_recipient n = ''u1'' \<and> n_context_id n = Some ''a''"
    by (auto simp: condition_of_def)
  ultimately show thesis using that a by blast
qed

theorem closed_application_is_silent_witness:
  "\<exists>(db :: tracking) n. n \<in> set (inbox db) \<and> n_recipient n = ''u1'' \<and> n_context_id n = Some ''a'' \<and> \<not> pending n"
proof -
  obtain db a n where db: "tracking_reachable db" "a \<in> set (applications db)" "ap_id a = ''a''"
      "ap_status a = WITHDRAWN_APPLICATION" and n: "n \<in> set (inbox db)" "n_recipient n = ''u1''" "n_context_id n = Some ''a''"
    by (rule withdrawn_intake) blast
  have "\<not> pending n"
    using closed_application_is_silent [OF db(1,2) _ n(1)] db(3,4) n(3) by (simp add: status_sets)
  with n show ?thesis by blast
qed

text \<open>An application is converted only from approval (or again once converted), and only to a
  loan that exists, is not cancelled, and has its school, its purpose and the lending partner it
  asked for; the row then names that loan.\<close>

theorem conversion_needs_its_loan:
  assumes "update_application w visible p aid data db = Inr db'" and "form_text data ''status'' = ''converted''"
  shows "\<exists>a \<in> set (applications db). ap_id a = aid
    \<and> ap_status a \<in> {APPROVED_APPLICATION, CONVERTED_APPLICATION}
    \<and> (\<exists>l \<in> set (loans (books db)). l_id l = form_text data ''linkedLoanId'' \<and> \<not> l_deleted l
        \<and> l_purpose l = ap_purpose a \<and> (\<exists>t \<in> set (loan_details db). lt_loan t = l_id l \<and> lt_school t = ap_school a)
        \<and> l_status l \<noteq> CANCELED \<and> (nonempty (ap_mfi a) = None \<or> ap_mfi a = Some (l_mfi l))
        \<and> (\<exists>a' \<in> set (applications db'). ap_id a' = aid \<and> ap_linked a' = Some (l_id l)))"
proof -
  obtain a new_status remark next_on linked rows where
    a: "find (\<lambda>a. ap_id a = aid) (scoped_applications visible p db) = Some a"
    and st: "map_of application_status_values (form_text data ''status'') = Some new_status"
    and step: "new_status \<in> set (APPLICATION_TRANSITIONS (ap_status a))"
    and linked: "conversion_loan db a new_status data = Inr linked"
    and save: "save_application (updated_application w p new_status next_on linked a) (applications db) = Inr rows"
    and rows: "applications db' = rows"
    by (rule update_effect [OF assms(1)]) simp
  have mem: "a \<in> set (applications db)" "ap_id a = aid"
    using find_Some_set [OF a] scoped_sub by blast+
  have conv: "new_status = CONVERTED_APPLICATION" using st assms(2) withdrawn_text(6) by simp
  then have from_approved: "ap_status a \<in> {APPROVED_APPLICATION, CONVERTED_APPLICATION}"
    using step unfolding transitions_iff by (auto elim: to_converted)
  let ?lid = "form_text data ''linkedLoanId''"
  let ?ok = "\<lambda>l. l_id l = ?lid \<and> l_purpose l = ap_purpose a \<and> \<not> l_deleted l
      \<and> list_ex (\<lambda>t. lt_loan t = l_id l \<and> lt_school t = ap_school a) (loan_details db)"
  obtain l where l: "find ?ok (loans (books db)) = Some l" and mfi: "\<not> (nonempty (ap_mfi a) \<noteq> None \<and> Some (l_mfi l) \<noteq> ap_mfi a)"
      and live: "l_status l \<noteq> CANCELED" and id: "linked = Some (l_id l)"
    using linked conv unfolding conversion_loan_def Let_def
    by (cases "find ?ok (loans (books db))") (simp_all split: if_split_asm)
  have l': "l \<in> set (loans (books db))" "?ok l" using find_Some_set [OF l] by blast+
  have row: "updated_application w p new_status next_on linked a \<in> set rows"
    "ap_id (updated_application w p new_status next_on linked a) = aid"
    "ap_linked (updated_application w p new_status next_on linked a) = Some (l_id l)"
    using save_application_Inr(3) [OF save] mem id
    by (auto simp: updated_application_def set_update_where intro: rev_image_eqI)
  have "\<exists>t \<in> set (loan_details db). lt_loan t = l_id l \<and> lt_school t = ap_school a"
    using l'(2) unfolding list_ex_iff by blast
  moreover have "\<exists>a' \<in> set (applications db'). ap_id a' = aid \<and> ap_linked a' = Some (l_id l)"
    using row rows by blast
  moreover have "nonempty (ap_mfi a) = None \<or> ap_mfi a = Some (l_mfi l)" using mfi by metis
  ultimately show ?thesis using mem from_approved l' live by blast
qed

text \<open>An approved application beside the one the intake has.\<close>

definition approved_intake :: "application list \<Rightarrow> tracking" where
  "approved_intake others = intake\<lparr>applications := (intake_row ''a'')\<lparr>ap_status := APPROVED_APPLICATION\<rparr> # others\<rparr>"

lemma approved_conversion:
  "conversion_loan (approved_intake others) ((intake_row ''a'')\<lparr>ap_status := APPROVED_APPLICATION\<rparr>)
     CONVERTED_APPLICATION conversion = Inr (Some ''l1'')"
  by (simp add: conversion_loan_def form_text_def conversion_def withdrawn_text approved_intake_def intake_def
      empty_ledger_def demo_loan_def intake_row_facts nonempty_def)

lemma conversion_run: "update_application (demo_world ''b'') sees_school (demo_user ''u2'') ''a'' conversion (approved_intake others)
    = bindE (save_application (updated_application (demo_world ''b'') (demo_user ''u2'') CONVERTED_APPLICATION None (Some ''l1'')
          ((intake_row ''a'')\<lparr>ap_status := APPROVED_APPLICATION\<rparr>)) (applications (approved_intake others)))
        (\<lambda>rows. Inr ((approved_intake others)\<lparr>applications := rows,
          follow_ups := follow_ups (approved_intake others) @ [\<lparr>fu_application = ''a'', fu_previous = Some APPROVED_APPLICATION,
              fu_new = CONVERTED_APPLICATION, fu_note = ''done'', fu_next = None, fu_by = ''u2''\<rparr>],
          inbox := resolve_condition 100 closing_events (Some ''loan_application'') (Some ''a'') []
            (inbox (approved_intake others))\<rparr>))"
proof -
  let ?a = "(intake_row ''a'')\<lparr>ap_status := APPROVED_APPLICATION\<rparr>"
  have "find (\<lambda>b. ap_id b = ''a'') (scoped_applications sees_school (demo_user ''u2'') (approved_intake others)) = Some ?a"
    using intake_withdrawal(1) by (simp add: scoped_applications_def sees_school_def approved_intake_def intake_row_facts
        reads_applications_def GLOBAL_APPLICATION_ROLES_def demo_user_def APPLICATION_UPDATE_ROLES_def)
  moreover have "form_text conversion ''status'' = ''converted''" "form_text conversion ''note'' = ''done''"
    by (simp_all add: form_text_def conversion_def withdrawn_text)
  moreover have "now (demo_world ''b'') = 100" "actor_id (demo_user ''u2'') = ''u2''"
    by (simp_all add: demo_world_def demo_user_def actor_id_def nonempty_def)
  ultimately show ?thesis
    using intake_withdrawal(1) approved_conversion
    by (simp add: update_application_def Let_def withdrawn_text transitions_iff from_status status_sets
        next_follow_up_def intake_row_facts)
qed

lemma conversion_succeeds: "\<exists>db. update_application (demo_world ''b'') sees_school (demo_user ''u2'') ''a'' conversion
    (approved_intake []) = Inr db"
  unfolding conversion_run
  by (simp add: save_application_def application_checks_def application_unique_def updated_application_def
      approved_intake_def intake_row_facts status_sets claims_school_def)

theorem conversion_needs_its_loan_witness:
  "\<exists>db a'. update_application (demo_world ''b'') sees_school (demo_user ''u2'') ''a'' conversion (approved_intake []) = Inr db
     \<and> a' \<in> set (applications db) \<and> ap_id a' = ''a'' \<and> ap_linked a' = Some ''l1''"
proof -
  obtain db where run: "update_application (demo_world ''b'') sees_school (demo_user ''u2'') ''a'' conversion
      (approved_intake []) = Inr db"
    using conversion_succeeds by blast
  have "form_text conversion ''status'' = ''converted''" "form_text conversion ''linkedLoanId'' = ''l1''"
    by (simp_all add: form_text_def conversion_def withdrawn_text)
  with conversion_needs_its_loan [OF run] run show ?thesis by auto
qed

text \<open>Converting an application to a loan another application was converted to is refused
  by the one-to-one constraint alone: the call ends in an \<open>IntegrityError\<close>, not in an answer
  the officer can act on.\<close>

theorem second_conversion_escapes:
  assumes "find (\<lambda>a. ap_id a = aid) (scoped_applications visible p db) = Some a"
    and "p_role p \<in> set APPLICATION_UPDATE_ROLES" and "ap_status a = APPROVED_APPLICATION"
    and "form_text data ''status'' = ''converted''" and "form_text data ''note'' \<noteq> []"
    and "conversion_loan db a CONVERTED_APPLICATION data = Inr (Some lid)"
    and "application_checks a = Inr ()"
    and "b \<in> set (applications db)" and "ap_id b \<noteq> ap_id a" and "ap_linked b = Some lid"
  shows "update_application w visible p aid data db = Inl (IntegrityError ''linked_loan_id'')"
proof -
  let ?a = "updated_application w p CONVERTED_APPLICATION None (Some lid) a"
  have "application_checks ?a = Inr ()"
    using assms(7) by (simp add: application_checks_def result_step updated_application_def status_sets)
  moreover have "application_unique ?a (applications db) = Inl (IntegrityError ''linked_loan_id'')"
    using assms(8-10) by (auto simp: application_unique_def updated_application_def claims_school_def status_sets
        list_ex_iff ensure_def)
  ultimately have "save_application ?a (applications db) = Inl (IntegrityError ''linked_loan_id'')"
    by (simp add: save_application_def)
  then show ?thesis
    using assms(1-6) withdrawn_text(6)
    by (simp add: update_application_def Let_def transitions_iff from_status next_follow_up_def status_sets)
qed

theorem second_conversion_escapes_witness:
  "update_application (demo_world ''b'') sees_school (demo_user ''u2'') ''a'' conversion
     (approved_intake [(intake_row ''b'')\<lparr>ap_status := CONVERTED_APPLICATION, ap_linked := Some ''l1''\<rparr>])
     = Inl (IntegrityError ''linked_loan_id'')"
proof -
  let ?a = "(intake_row ''a'')\<lparr>ap_status := APPROVED_APPLICATION\<rparr>"
  let ?db = "approved_intake [(intake_row ''b'')\<lparr>ap_status := CONVERTED_APPLICATION, ap_linked := Some ''l1''\<rparr>]"
  have "find (\<lambda>b. ap_id b = ''a'') (scoped_applications sees_school (demo_user ''u2'') ?db) = Some ?a"
    using intake_withdrawal(1) by (simp add: scoped_applications_def sees_school_def approved_intake_def intake_row_facts
        reads_applications_def GLOBAL_APPLICATION_ROLES_def demo_user_def APPLICATION_UPDATE_ROLES_def)
  moreover have "form_text conversion ''status'' = ''converted''" "form_text conversion ''note'' \<noteq> []"
    by (simp_all add: form_text_def conversion_def withdrawn_text)
  moreover have "application_checks ?a = Inr ()"
    by (simp add: application_checks_def intake_row_facts status_sets)
  ultimately show ?thesis
    using second_conversion_escapes [OF _ intake_withdrawal(1) _ _ _ approved_conversion,
        of "''a''" sees_school _ "(intake_row ''b'')\<lparr>ap_status := CONVERTED_APPLICATION, ap_linked := Some ''l1''\<rparr>"]
    by (simp add: approved_intake_def intake_row_facts)
qed

end
