(* ===== verification/LoanReminderProperties.thy ===== *)
theory LoanReminderProperties
  imports LoanTrackingProperties
begin

text \<open>
  The scheduled work of the loan intake: that a run sends each notice once, that the
  search for the next payment ends with a date, and where the dates it finds are not
  the ones to remind of.
\<close>

section \<open>Each notice once\<close>

lemma loan_position_given: "loan_position w db lid (Some d) = loan_position w' db lid (Some d)"
  by (simp add: loan_position_def)

lemma loan_attempts_clock: "loan_attempts w at db = loan_attempts w' at db"
proof -
  have "repayment_attempts w at db l = repayment_attempts w' at db l" for l
    unfolding repayment_attempts_def derived_due_date_def loan_position_given [of w _ _ _ w'] ..
  then have "all_repayment_attempts w at db ls = all_repayment_attempts w' at db ls" for ls
    by (induction ls) simp_all
  then show ?thesis by (simp add: loan_attempts_def)
qed

text \<open>A run that returns, as three lists of attempts.\<close>

lemma run_phases:
  assumes "run_loan_tracking_notifications w v vl at db = (db3, Inr n)"
  obtains ts start stop db1 n1 db2 n2 n3 where
    "fold (deliver w) (follow_up_attempts at db) (db, 0) = (db1, n1)"
    and "loan_attempts w at db1 = Inr ts" and "fold (deliver w) ts (db1, 0) = (db2, n2)"
    and "previous_calendar_month at = Inr (start, stop)"
    and "fold (deliver w) (report_attempts v vl db2 start stop) (db2, 0) = (db3, n3)" and "n = n1 + n2 + n3"
proof -
  obtain db1 n1 where one: "fold (deliver w) (follow_up_attempts at db) (db, 0) = (db1, n1)" by (rule prod.exhaust)
  obtain ts where ts: "loan_attempts w at db1 = Inr ts"
    using assms one by (cases "loan_attempts w at db1")
      (simp_all add: run_loan_tracking_notifications_def follow_up_job repayment_job)
  obtain db2 n2 where two: "fold (deliver w) ts (db1, 0) = (db2, n2)" by (rule prod.exhaust)
  obtain start stop where month: "previous_calendar_month at = Inr (start, stop)"
    using assms one ts two by (cases "previous_calendar_month at")
      (auto simp: run_loan_tracking_notifications_def follow_up_job repayment_job report_job)
  obtain db' n3 where three: "fold (deliver w) (report_attempts v vl db2 start stop) (db2, 0) = (db', n3)"
    by (rule prod.exhaust)
  have "db' = db3 \<and> n = n1 + n2 + n3"
    using assms one ts two month three
    by (auto simp: run_loan_tracking_notifications_def follow_up_job repayment_job report_job)
  with one ts two month three that show thesis by blast
qed

text \<open>C9: a run is idempotent: every notice it sends is a new row of the delivery log, and running
  it again on the same day, at whatever hour, sends nothing and changes nothing.\<close>

theorem reminders_sent_once:
  assumes "run_loan_tracking_notifications w v vl at db = (db', Inr n)"
  shows "length (delivery_log db') = length (delivery_log db) + n
    \<and> run_loan_tracking_notifications w' v vl at db' = (db', Inr 0)"
proof -
  obtain ts start stop db1 n1 db2 n2 n3 where
    one: "fold (deliver w) (follow_up_attempts at db) (db, 0) = (db1, n1)"
    and ts: "loan_attempts w at db1 = Inr ts" and two: "fold (deliver w) ts (db1, 0) = (db2, n2)"
    and month: "previous_calendar_month at = Inr (start, stop)"
    and three: "fold (deliver w) (report_attempts v vl db2 start stop) (db2, 0) = (db', n3)" and n: "n = n1 + n2 + n3"
    by (rule run_phases [OF assms])
  have d1: "delivers db db1" using fold_delivers [of "(db, 0)" w "follow_up_attempts at db"] one by simp
  have d2: "delivers db1 db2" using fold_delivers [of "(db1, 0)" w ts] two by simp
  have d3: "delivers db2 db'" using fold_delivers [of "(db2, 0)" w "report_attempts v vl db2 start stop"] three by simp
  note to_end = delivers_trans [OF d1 delivers_trans [OF d2 d3]] delivers_trans [OF d2 d3] d3
  have "claim_of t \<in> set (delivery_log db')" if "t \<in> set (follow_up_attempts at db)" for t
    using fold_claims [OF that, of w "(db, 0)"] one delivers_same(9) [OF to_end(2)] by auto
  then have a: "fold (deliver w') (follow_up_attempts at db') (db', 0) = (db', 0)"
    unfolding follow_up_attempts_same [OF to_end(1)] by (rule fold_claimed)
  have "claim_of t \<in> set (delivery_log db')" if "t \<in> set ts" for t
    using fold_claims [OF that, of w "(db1, 0)"] two delivers_same(9) [OF to_end(3)] by auto
  then have b: "fold (deliver w') ts (db', 0) = (db', 0)" by (rule fold_claimed)
  have "claim_of t \<in> set (delivery_log db')" if "t \<in> set (report_attempts v vl db2 start stop)" for t
    using fold_claims [OF that, of w "(db2, 0)"] three by simp
  then have c: "fold (deliver w') (report_attempts v vl db' start stop) (db', 0) = (db', 0)"
    unfolding report_attempts_same [OF to_end(3)] by (rule fold_claimed)
  have "loan_attempts w' at db' = Inr ts"
    using ts loan_attempts_clock [of w' at db1 w] by (simp add: loan_attempts_same [OF to_end(2)])
  with a b c month have again: "run_loan_tracking_notifications w' v vl at db' = (db', Inr 0)"
    by (simp add: run_loan_tracking_notifications_def follow_up_job repayment_job report_job)
  have "length (delivery_log db1) = length (delivery_log db) + n1"
    "length (delivery_log db2) = length (delivery_log db1) + n2"
    "length (delivery_log db') = length (delivery_log db2) + n3"
    using fold_counts [of w "follow_up_attempts at db" "(db, 0)"] fold_counts [of w ts "(db1, 0)"]
      fold_counts [of w "report_attempts v vl db2 start stop" "(db2, 0)"] one two three by simp_all
  with n again show ?thesis by simp
qed

lemma intake_due: "due_applications (Date 2026 3 9) intake1 = [intake_row ''a'']"
  by (simp add: due_applications_def intake1_rows claims_school_def intake_row_facts status_sets)

lemma intake_attempts: "\<exists>s p ev. follow_up_attempts (Date 2026 3 9) intake1
    = map (\<lambda>u. (''application_follow_up'', s, p, ev, u)) (users intake_people)"
proof -
  have "school_of intake1 ''s'' = intake_school"
    by (simp add: school_of_def intake1_rows intake_school_def)
  then show ?thesis
    by (simp add: follow_up_attempts_def intake_due application_attempts_def intake_row_facts intake1_rows
        intake_recipients attempts_def)
qed

lemma intake_run: "\<exists>db'. run_loan_tracking_notifications (demo_world ''r'') sees_school (\<lambda>_. []) (Date 2026 3 9) intake1
    = (db', Inr 2)"
proof -
  obtain s p ev where ts: "follow_up_attempts (Date 2026 3 9) intake1
      = map (\<lambda>u. (''application_follow_up'', s, p, ev, u)) (users intake_people)"
    using intake_attempts by blast
  obtain db1 where one: "fold (deliver (demo_world ''r'')) (follow_up_attempts (Date 2026 3 9) intake1) (intake1, 0) = (db1, 2)"
    unfolding ts by (simp add: intake_people_def deliver_once_def intake1_rows claimed_def)
  have d1: "delivers intake1 db1"
    using fold_delivers [of "(intake1, 0)" "demo_world ''r''" "follow_up_attempts (Date 2026 3 9) intake1"] one by simp
  have "tracked_loans intake1 = []" "role_recipients intake_people ''RegionalVicePresident'' None None = []"
    by (simp_all add: tracked_loans_def intake1_rows intake_def empty_ledger_def demo_loan_def role_recipients_def intake_people_def)
  then have "loan_attempts (demo_world ''r'') (Date 2026 3 9) db1 = Inr []"
    "report_attempts sees_school (\<lambda>_. []) db1 start stop = []" for start stop
    unfolding loan_attempts_same [OF d1] report_attempts_same [OF d1]
    by (simp_all add: loan_attempts_def report_attempts_def intake1_rows)
  moreover have "previous_calendar_month (Date 2026 3 9) = Inr (Date 2026 2 1, Date 2026 3 1)"
    by (simp add: previous_calendar_month_def py_add_days_def add_days_def prev_day_def days_in_month_def leap_year_def)
  ultimately show ?thesis
    using one by (simp add: run_loan_tracking_notifications_def follow_up_job repayment_job report_job)
qed

theorem reminders_sent_once_witness:
  "\<exists>db'. run_loan_tracking_notifications (demo_world ''r'') sees_school (\<lambda>_. []) (Date 2026 3 9) intake1 = (db', Inr 2)
     \<and> length (delivery_log db') = 2
     \<and> run_loan_tracking_notifications (demo_world ''t'') sees_school (\<lambda>_. []) (Date 2026 3 9) db' = (db', Inr 0)"
proof -
  obtain db' where run: "run_loan_tracking_notifications (demo_world ''r'') sees_school (\<lambda>_. []) (Date 2026 3 9) intake1
      = (db', Inr 2)"
    using intake_run by blast
  from reminders_sent_once [OF run, of "demo_world ''t''"] run show ?thesis by (auto simp: intake1_rows)
qed

section \<open>The next payment\<close>

lemma advance_ok:
  assumes "valid_date due" and "1 \<le> year due" and "valid_date maturity" and "year maturity \<le> 9998"
  shows "\<exists>d. advance_due p at maturity due = Inr d \<and> (at \<le> d \<or> maturity \<le> d)"
  using assms
proof (induction p at maturity due rule: advance_due.induct)
  case (1 p at maturity due)
  show ?case
  proof (cases "due < at \<and> due < maturity")
    case True
    let ?i = "month due - 1 + step_of p"
    let ?y = "year due + ?i div 12" and ?m = "?i mod 12 + 1"
    have m: "1 \<le> month due" "month due \<le> 12" "1 \<le> day due" using 1(2) by (auto simp: valid_date_def)
    have y: "year due \<le> 9998" using True 1(4,5) by (cases due; cases maturity) auto
    have "0 \<le> ?i" "?i < 24" using m step_of_pos [of p] by (cases p; simp add: step_of_def)+
    then have "0 \<le> ?i div 12" "?i div 12 \<le> 1" by linarith+
    moreover have "valid_date (Date ?y ?m (min (day due) (days_in_month ?y ?m)))"
      using m days_in_month_bounds(1) [of ?y ?m] by (simp add: valid_date_def)
    ultimately have step: "add_months due (step_of p) = Inr (Date ?y ?m (min (day due) (days_in_month ?y ?m)))"
      using y 1(3) unfolding add_months_def py_date_def Let_def by simp
    from add_months_valid [OF this] 1(1) [OF True step] 1(4,5) show ?thesis
      using True step by (subst advance_due.simps) simp
  next
    case False
    then show ?thesis by (subst advance_due.simps) auto
  qed
qed

lemma add_months_ok:
  assumes "valid_date d" and "1 \<le> year d" and "year d \<le> 9998" and "0 \<le> n" and "n \<le> 12"
  shows "\<exists>r. add_months d n = Inr r"
proof -
  let ?i = "month d - 1 + n"
  have m: "1 \<le> month d" "month d \<le> 12" "1 \<le> day d" using assms(1) by (auto simp: valid_date_def)
  then have "0 \<le> ?i div 12" "?i div 12 \<le> 1" using assms(4,5) by linarith+
  moreover have "valid_date (Date (year d + ?i div 12) (?i mod 12 + 1)
      (min (day d) (days_in_month (year d + ?i div 12) (?i mod 12 + 1))))"
    using m days_in_month_bounds(1) [of "year d + ?i div 12" "?i mod 12 + 1"] by (simp add: valid_date_def)
  ultimately show ?thesis using assms(2,3) by (simp add: add_months_def py_date_def Let_def)
qed

text \<open>The search for the next payment of a loan with a frequency and a maturity ends, for every
  day, with a payment date: it is not after the maturity, and it lies before the day only when
  it is the maturity itself.\<close>

theorem payment_date_found:
  assumes "l_disbursement_date l = Some start" and "pace_of (lt_frequency t) = Some p" and "lt_maturity t = Some m"
    and "valid_date start" and "1 \<le> year start" and "year start \<le> 9998" and "valid_date m" and "year m \<le> 9998"
  shows "\<exists>d. paced_due_date at l t = Inr (Some d) \<and> d \<le> m \<and> (at \<le> d \<or> d = m)"
proof -
  have "0 \<le> step_of p" "step_of p \<le> 12" by (cases p; simp add: step_of_def)+
  then obtain due where due: "add_months start (step_of p) = Inr due"
    using add_months_ok [OF assms(4-6)] by blast
  with add_months_valid [OF due] advance_ok [of due m p at] assms(7,8)
  obtain d where d: "advance_due p at m due = Inr d" "at \<le> d \<or> m \<le> d" by auto
  with due assms(1-3) show ?thesis
    by (auto simp: paced_due_date_def min_def)
qed

definition month_end_loan :: loan where
  "month_end_loan = (demo_loan ''l1'')\<lparr>l_disbursement_date := Some (Date 2026 1 31), l_status := ACTIVE\<rparr>"

definition month_end_terms :: loan_terms where
  "month_end_terms = \<lparr>lt_loan = ''l1'', lt_school = ''s'', lt_term_months = None, lt_frequency = ''Monthly'',
     lt_maturity = Some (Date 2027 1 31)\<rparr>"

lemma monthly_pace: "pace_of ''Monthly'' = Some MONTHLY" "pace_of ''Termly'' = Some TERMLY"
  by code_simp+

theorem payment_date_found_witness:
  "\<exists>d. paced_due_date (Date 2026 6 1) month_end_loan month_end_terms = Inr (Some d) \<and> d \<le> Date 2027 1 31
     \<and> (Date 2026 6 1 \<le> d \<or> d = Date 2027 1 31)"
  using payment_date_found [of month_end_loan "Date 2026 1 31" month_end_terms MONTHLY "Date 2027 1 31"]
  by (simp add: month_end_loan_def month_end_terms_def monthly_pace valid_date_def days_in_month_def)

text \<open>
  The steps are taken from the last date found, not from the disbursement, so a day that a
  short month cut off never comes back: from then on every payment falls on that day.
\<close>

lemma add_months_early_day:
  assumes "add_months d n = Inr r" and "day d \<le> 28"
  shows "day r = day d"
  using assms days_in_month_bounds(1) [of "year d + (month d - 1 + n) div 12" "(month d - 1 + n) mod 12 + 1"]
  by (auto simp: add_months_def py_date_def Let_def split: if_splits)

lemma cut_day_stays:
  assumes "advance_due p at maturity due = Inr d" and "day due \<le> 28"
  shows "day d = day due"
  using assms
proof (induction p at maturity due rule: advance_due.induct)
  case (1 p at maturity due)
  show ?case
  proof (cases "due < at \<and> due < maturity")
    case True
    then obtain due' where due': "add_months due (step_of p) = Inr due'" "advance_due p at maturity due' = Inr d"
      using 1(2) by (subst (asm) advance_due.simps) (auto split: sum.splits)
    with 1(1) [OF True due'(1)] 1(3) add_months_early_day [OF due'(1)] show ?thesis by simp
  next
    case False
    with 1(2) show ?thesis by (subst (asm) advance_due.simps) auto
  qed
qed

theorem month_end_payments_drift:
  "paced_due_date (Date 2026 3 15) month_end_loan month_end_terms = Inr (Some (Date 2026 3 28))
     \<and> add_months (Date 2026 1 31) 2 = Inr (Date 2026 3 31)"
  by (simp add: paced_due_date_def month_end_loan_def month_end_terms_def monthly_pace step_of_def add_months_def
      py_date_def valid_date_def days_in_month_def leap_year_def advance_due.simps)

section \<open>Overdue loans with a schedule\<close>

lemma earliest_le:
  assumes "d \<in> set ds"
  shows "\<exists>e. earliest ds = Some e \<and> e \<le> d"
proof -
  have "sort ds \<noteq> []" using assms by (metis empty_iff empty_set set_sort)
  then obtain e es where s: "sort ds = e # es" by (cases "sort ds") auto
  have "sorted (e # es)" unfolding s [symmetric] by simp
  moreover have "d \<in> set (e # es)" unfolding s [symmetric] using assms by simp
  ultimately show ?thesis using s by (auto simp: earliest_def)
qed

lemma installment_remaining_nonneg: "0 \<le> installment_remaining db d i"
  by (auto simp: installment_remaining_def intro!: sum_list_nonneg split: option.splits)

lemma overdue_amount_pos:
  assumes "j \<in> set (installments db)" and "i_loan j = lid" and "i_due_date j \<le> d"
    and "0 < installment_remaining db d j" and "max_version (filter (\<lambda>i. i_loan i = lid) (installments db)) = Some (i_version j)"
    and "i_version j \<noteq> 0"
  shows "0 < amount_overdue (loan_position w db lid (Some d))"
proof -
  let ?unpaid = "filter (\<lambda>i. 0 < installment_remaining db d i) (sort_key i_due_date (sort_key i_number
      (filter (\<lambda>i. i_loan i = lid \<and> i_version i = i_version j \<and> i_due_date i \<le> d) (installments db))))"
  have "amount_overdue (loan_position w db lid (Some d)) = sum_list (map (installment_remaining db d) ?unpaid)"
    using assms(5,6) by (simp add: loan_position_def Let_def)
  moreover have "j \<in> set ?unpaid" using assms by simp
  then have "installment_remaining db d j \<le> sum_list (map (installment_remaining db d) ?unpaid)"
    by (intro member_le_sum_list) (auto simp: installment_remaining_nonneg)
  ultimately show ?thesis using assms(4) by linarith
qed

text \<open>For an overdue loan the reminder names the first instalment of the schedule, paid or not:
  with an earlier instalment settled in full and a later one unpaid, the date it names is not
  after the settled one's, so the delay it states is counted from a payment that was made.\<close>

theorem overdue_reminder_names_settled_instalment:
  assumes "Option.bind (latest_snapshot db (l_id l)) sn_next_payment = None"
    and "i \<in> set (installments (books db))" and "i_loan i = l_id l" and "i_version i = v"
    and "j \<in> set (installments (books db))" and "i_loan j = l_id l" and "i_version j = v"
    and "max_version (filter (\<lambda>k. i_loan k = l_id l) (installments (books db))) = Some v" and "v \<noteq> 0"
    and "i_due_date i < i_due_date j" and "i_due_date j \<le> at"
    and "installment_remaining (books db) at i = 0" and "0 < installment_remaining (books db) at j"
  shows "\<exists>d. derived_due_date w db at l = Inr (Some d) \<and> d \<le> i_due_date i"
proof -
  have "0 < amount_overdue (loan_position w (books db) (l_id l) (Some at))"
    by (rule overdue_amount_pos [OF assms(5,6,11,13)]) (simp_all add: assms)
  then have "derived_due_date w db at l
      = Inr (earliest (filter (\<lambda>d. d \<le> at) (schedule_dates db (l_id l) v)))"
    using assms(1,8,9) by (simp add: derived_due_date_def Let_def)
  moreover have "i_due_date i \<in> set (filter (\<lambda>d. d \<le> at) (schedule_dates db (l_id l) v))"
    using assms(2-4,10,11) by (auto simp: schedule_dates_def)
  ultimately show ?thesis using earliest_le by fastforce
qed

definition instalment_on :: "string \<Rightarrow> int \<Rightarrow> date \<Rightarrow> installment" where
  "instalment_on k n d = \<lparr>i_id = k, i_loan = ''l1'', i_version = 1, i_number = n, i_due_date = d,
     i_principal_due = 40000, i_interest_due = 0, i_fee_due = 0, i_created_by = ''o''\<rparr>"

text \<open>Two instalments, the first of them paid on its day.\<close>

definition half_paid :: tracking where
  "half_paid = intake\<lparr>books := empty_ledger\<lparr>loans := [demo_loan ''l1''],
     installments := [instalment_on ''i1'' 1 (Date 2026 2 1), instalment_on ''i2'' 2 (Date 2026 5 1)],
     repayments := [\<lparr>x_id = ''x'', x_loan = ''l1'', x_kind = PAYMENT, x_reversal_of = None,
       x_external_reference = ''R'', x_key = ''k'', x_amount = 40000, x_received_on = Date 2026 2 1,
       x_value_date = Date 2026 2 1, x_evidence_reference = ''E'', x_posted_by = ''o'', x_posted_at = 1, x_reason = []\<rparr>],
     repayment_allocations := [\<lparr>ra_id = ''ra'', ra_transaction = ''x'', ra_installment = Some ''i1'',
       ra_component = PRINCIPAL, ra_amount = 40000\<rparr>]\<rparr>\<rparr>"

theorem overdue_reminder_names_settled_instalment_witness:
  "\<exists>d. derived_due_date (demo_world ''r'') half_paid (Date 2026 5 4) (demo_loan ''l1'') = Inr (Some d) \<and> d \<le> Date 2026 2 1"
proof -
  have rows: "installments (books half_paid) = [instalment_on ''i1'' 1 (Date 2026 2 1), instalment_on ''i2'' 2 (Date 2026 5 1)]"
    by (simp add: half_paid_def)
  have "installment_remaining (books half_paid) (Date 2026 5 4) (instalment_on ''i1'' 1 (Date 2026 2 1)) = 0"
    "installment_remaining (books half_paid) (Date 2026 5 4) (instalment_on ''i2'' 2 (Date 2026 5 1)) = 40000"
    by (simp_all add: installment_remaining_def component_due_def net_allocated_def allocated_by_kind_def paid_in_def
        half_paid_def instalment_on_def by_as_of_def)
  then show ?thesis
    using overdue_reminder_names_settled_instalment [of half_paid "demo_loan ''l1''"
        "instalment_on ''i1'' 1 (Date 2026 2 1)" 1 "instalment_on ''i2'' 2 (Date 2026 5 1)" "Date 2026 5 4" "demo_world ''r''"]
    by (simp add: rows max_version_def) (simp add: instalment_on_def demo_loan_def latest_snapshot_def half_paid_def intake_def)
qed

end
