(* ===== verification/AuditCanonical.thy ===== *)
theory AuditCanonical
  imports PyValues "HOL-Library.List_Lexorder"
begin

text \<open>
  apps/core/audit_hash.py: the text an audit record is hashed as. \<open>stable_stringify\<close>
  prints a JSON value with the keys of its objects in order, \<open>canonical_audit\<close> the list
  of the fields of a record, \<open>chain_hash\<close> links it to the hash before it. The lemmas
  show that the text determines the record: two records share it iff they agree in
  every field, with payloads equal up to the order of object keys and to the
  representation of whole numbers. SHA-256 is an argument of \<open>chain_hash\<close>.

  A value is what a JSON column holds: object keys are strings, sequences are lists.
  A float with an integral value is \<open>J_Whole\<close> of that integer; another one is \<open>J_Frac\<close>
  of the text \<open>repr\<close> prints for it.
\<close>

section \<open>Values\<close>

datatype json = J_Null | J_Bool bool | J_Int int | J_Whole int | J_Frac string | J_Str string
  | J_List "json list" | J_Obj "(string \<times> json) list"

definition is_num_char :: "char \<Rightarrow> bool" where
  "is_num_char c \<longleftrightarrow> is_digit c \<or> c = CHR ''-'' \<or> c = CHR ''+'' \<or> c = CHR ''.'' \<or> c = CHR ''e''"

definition frac_text :: "string \<Rightarrow> bool" where
  "frac_text s \<longleftrightarrow> list_all is_num_char s \<and> list_ex (\<lambda>c. c = CHR ''.'' \<or> c = CHR ''e'') s"

fun json_ok :: "json \<Rightarrow> bool" where
  "json_ok (J_Frac s) = frac_text s"
| "json_ok (J_List vs) = list_all json_ok vs"
| "json_ok (J_Obj kvs) = (distinct (map fst kvs) \<and> list_all (\<lambda>(k, v). json_ok v) kvs)"
| "json_ok _ = True"

section \<open>Printing\<close>

definition hex_digit :: "nat \<Rightarrow> char" where
  "hex_digit n = (if n < 10 then digit_char n else char_of (87 + n))"

definition escape_char :: "char \<Rightarrow> string" where
  "escape_char c =
     (if c = CHR 0x22 then [CHR 0x5C, CHR 0x22]
      else if c = CHR 0x5C then [CHR 0x5C, CHR 0x5C]
      else if c = CHR 0x0A then [CHR 0x5C, CHR ''n'']
      else if c = CHR 0x0D then [CHR 0x5C, CHR ''r'']
      else if c = CHR 0x09 then [CHR 0x5C, CHR ''t'']
      else if char_code c < 32
      then [CHR 0x5C, CHR ''u'', CHR ''0'', CHR ''0'', hex_digit (char_code c div 16), hex_digit (char_code c mod 16)]
      else [c])"

definition json_escape :: "string \<Rightarrow> string" where
  "json_escape s = CHR 0x22 # concat (map escape_char s) @ [CHR 0x22]"

fun comma_join :: "string list \<Rightarrow> string" where
  "comma_join [] = []"
| "comma_join [x] = x"
| "comma_join (x # y # xs) = x @ CHR '','' # comma_join (y # xs)"

definition print_pair :: "string \<times> string \<Rightarrow> string" where
  "print_pair p = json_escape (fst p) @ CHR '':'' # snd p"

fun stable_stringify :: "json \<Rightarrow> string" where
  "stable_stringify J_Null = ''null''"
| "stable_stringify (J_Bool b) = (if b then ''true'' else ''false'')"
| "stable_stringify (J_Int n) = show_int n"
| "stable_stringify (J_Whole n) = show_int n"
| "stable_stringify (J_Frac s) = s"
| "stable_stringify (J_Str s) = json_escape s"
| "stable_stringify (J_List vs) = CHR ''['' # comma_join (map stable_stringify vs) @ '']''"
| "stable_stringify (J_Obj kvs) = CHR ''{'' # comma_join (map print_pair
     (sort_key fst (map (\<lambda>(k, v). (k, stable_stringify v)) kvs))) @ ''}''"

section \<open>Records\<close>

record audit_fields =
  af_action :: string
  af_subject_kind :: "string option"
  af_subject_id :: "string option"
  af_actor_id :: "string option"
  af_actor_role :: "string option"
  af_success :: bool
  af_reason :: "string option"
  af_ip_address :: "string option"
  af_user_agent :: "string option"
  af_correlation_id :: "string option"
  af_payload :: json

definition text_or_null :: "string option \<Rightarrow> json" where
  "text_or_null v = (case v of None \<Rightarrow> J_Null | Some s \<Rightarrow> J_Str s)"

definition canonical_audit :: "audit_fields \<Rightarrow> string" where
  "canonical_audit r = stable_stringify (J_List
     [J_Str (af_action r), text_or_null (af_subject_kind r), text_or_null (af_subject_id r),
      text_or_null (af_actor_id r), text_or_null (af_actor_role r), J_Bool (af_success r),
      text_or_null (af_reason r), text_or_null (af_ip_address r), text_or_null (af_user_agent r),
      text_or_null (af_correlation_id r), af_payload r])"

definition chain_hash :: "(string \<Rightarrow> string) \<Rightarrow> string \<Rightarrow> string \<Rightarrow> string" where
  "chain_hash sha prev canonical = sha (prev @ CHR 0x0A # canonical)"

section \<open>The text of a string\<close>

definition hex_value :: "char \<Rightarrow> nat" where
  "hex_value h = (if char_code h < 58 then char_code h - 48 else char_code h - 87)"

fun unescape :: "string \<Rightarrow> (char \<times> string) option" where
  "unescape [] = None"
| "unescape (a # s) = (if a \<noteq> CHR 0x5C then Some (a, s) else (case s of [] \<Rightarrow> None
     | b # s' \<Rightarrow>
       (if b = CHR ''n'' then Some (CHR 0x0A, s') else if b = CHR ''r'' then Some (CHR 0x0D, s')
        else if b = CHR ''t'' then Some (CHR 0x09, s')
        else if b = CHR ''u'' then Some (char_of (16 * hex_value (s' ! 2) + hex_value (s' ! 3)), drop 4 s')
        else Some (b, s'))))"

lemma hex_value_digit: "n < 16 \<Longrightarrow> hex_value (hex_digit n) = n"
  by (simp add: hex_value_def hex_digit_def char_code_digit) (simp add: char_code_def)

lemma unescape_escape: "unescape (escape_char c @ s) = Some (c, s)"
proof -
  consider (quote) "c = CHR 0x22" | (slash) "c = CHR 0x5C" | (nl) "c = CHR 0x0A" | (cr) "c = CHR 0x0D"
    | (tab) "c = CHR 0x09"
    | (control) "c \<notin> {CHR 0x22, CHR 0x5C, CHR 0x0A, CHR 0x0D, CHR 0x09}" "char_code c < 32"
    | (plain) "c \<notin> {CHR 0x22, CHR 0x5C, CHR 0x0A, CHR 0x0D, CHR 0x09}" "\<not> char_code c < 32"
    by blast
  then show ?thesis
  proof cases
    case control
    have "hex_value (hex_digit (char_code c div 16)) = char_code c div 16"
      "hex_value (hex_digit (char_code c mod 16)) = char_code c mod 16"
      using control(2) by (intro hex_value_digit; simp)+
    moreover have "char_of (16 * (char_code c div 16) + char_code c mod 16) = c"
      by (simp add: char_code_def)
    moreover have "escape_char c = [CHR 0x5C, CHR ''u'', CHR ''0'', CHR ''0'',
        hex_digit (char_code c div 16), hex_digit (char_code c mod 16)]"
      using control by (simp add: escape_char_def)
    ultimately show ?thesis by simp
  qed (simp_all add: escape_char_def)
qed

lemma escape_char_ne: "escape_char c \<noteq> []" "hd (escape_char c) \<noteq> CHR 0x22"
  by (simp_all add: escape_char_def)

lemma escape_char_quote: "escape_char c @ s \<noteq> CHR 0x22 # t"
  using escape_char_ne[of c] by (cases "escape_char c") auto

lemma escape_char_cancel:
  assumes "escape_char c @ s = escape_char d @ t"
  shows "c = d \<and> s = t"
proof -
  have "Some (c, s) = unescape (escape_char d @ t)" by (simp only: unescape_escape flip: assms)
  then show ?thesis by (simp only: unescape_escape option.inject prod.inject)
qed

lemma escaped_cancel:
  "concat (map escape_char a) @ CHR 0x22 # s = concat (map escape_char b) @ CHR 0x22 # t \<Longrightarrow> a = b \<and> s = t"
proof (induction a arbitrary: b)
  case Nil
  then show ?case by (cases b) (simp_all add: escape_char_quote[symmetric])
next
  case (Cons c a)
  show ?case
  proof (cases b)
    case Nil
    with Cons.prems show ?thesis by (simp add: escape_char_quote)
  next
    case (Cons d b')
    with Cons.prems have "escape_char c @ concat (map escape_char a) @ CHR 0x22 # s
        = escape_char d @ concat (map escape_char b') @ CHR 0x22 # t"
      by (simp only: list.map concat.simps append_assoc)
    then have "c = d \<and> concat (map escape_char a) @ CHR 0x22 # s = concat (map escape_char b') @ CHR 0x22 # t"
      by (rule escape_char_cancel)
    with Cons Cons.IH[of b'] show ?thesis by blast
  qed
qed

lemma json_escape_cancel: "json_escape a @ s = json_escape b @ t \<Longrightarrow> a = b \<and> s = t"
  by (rule escaped_cancel) (simp only: json_escape_def append_Cons append_assoc append_Nil list.inject)

section \<open>Separators\<close>

definition closed :: "string \<Rightarrow> bool" where
  "closed s \<longleftrightarrow> s = [] \<or> hd s \<in> {CHR '','', CHR '']'', CHR ''}''}"

lemma closed_simps [simp]:
  "closed []" "closed (CHR '','' # s)" "closed (CHR '']'' # s)" "closed (CHR ''}'' # s)"
  by (simp_all add: closed_def)

text \<open>A list of texts between separators can be taken apart when its elements can.\<close>

lemma comma_join_cancel:
  assumes "\<And>x y s t. x \<in> set xs \<Longrightarrow> y \<in> set ys \<Longrightarrow> closed s \<Longrightarrow> closed t \<Longrightarrow> f x @ s = f y @ t \<Longrightarrow> g x = g y \<and> s = t"
    and "\<And>x. x \<in> set xs \<union> set ys \<Longrightarrow> \<not> closed (f x)"
    and "e = CHR '']'' \<or> e = CHR ''}''"
    and "comma_join (map f xs) @ e # s = comma_join (map f ys) @ e # t"
  shows "map g xs = map g ys \<and> s = t"
  using assms(1,2,4)
proof (induction xs arbitrary: ys)
  case Nil
  show ?case
  proof (cases ys)
    case (Cons y r)
    then have "\<exists>u. e # s = f y @ u" using Nil.prems(3) by (cases r) auto
    then show ?thesis
      using Nil.prems(2)[of y] Cons assms(3) by (cases "f y") (auto simp: closed_def)
  qed (use Nil in simp)
next
  case (Cons x r)
  obtain u where u: "comma_join (map f (x # r)) @ e # s = f x @ u"
    "u = (if r = [] then e # s else CHR '','' # comma_join (map f r) @ e # s)"
    by (cases r) auto
  show ?case
  proof (cases ys)
    case Nil
    with Cons.prems(2)[of x] Cons.prems(3) u(1) assms(3) show ?thesis
      by (cases "f x") (auto simp: closed_def)
  next
    case ys: (Cons y q)
    obtain v where v: "comma_join (map f ys) @ e # t = f y @ v"
      "v = (if q = [] then e # t else CHR '','' # comma_join (map f q) @ e # t)"
      using ys by (cases q) auto
    have "closed u" "closed v" using u(2) v(2) assms(3) by auto
    then have head: "g x = g y" "u = v"
      using Cons.prems(1)[of x y u v] Cons.prems(3) u(1) v(1) ys by auto
    show ?thesis
    proof (cases "r = [] \<or> q = []")
      case True
      with head u(2) v(2) assms(3) ys show ?thesis by (auto split: if_splits)
    next
      case False
      with head(2) u(2) v(2) have "comma_join (map f r) @ e # s = comma_join (map f q) @ e # t" by simp
      with Cons.IH[of q] Cons.prems(1,2) ys head(1) show ?thesis by auto
    qed
  qed
qed

section \<open>Numbers\<close>

lemma num_chars_show_int: "list_all is_num_char (show_int n)" "show_int n \<noteq> []"
  using show_nat_digits show_nat_nonempty
  by (auto simp: show_int_def list_all_iff is_num_char_def)

lemma frac_text_num: "frac_text s \<Longrightarrow> list_all is_num_char s \<and> s \<noteq> []"
  by (auto simp: frac_text_def)

lemma show_nat_plain: "c \<in> set (show_nat n) \<Longrightarrow> c \<noteq> CHR ''.'' \<and> c \<noteq> CHR ''e'' \<and> c \<noteq> CHR ''-''"
  using show_nat_digits[of n] by (auto simp: is_digit_def char_code_def)

lemma show_int_not_frac: "\<not> frac_text (show_int n)"
  using show_nat_plain by (auto simp: frac_text_def show_int_def list_ex_iff)

lemma show_int_inj: "show_int m = show_int n \<longleftrightarrow> m = n"
proof -
  have nat: "show_nat a = show_nat b \<longleftrightarrow> a = b" for a b
    using digits_val_show_nat by metis
  have "show_nat a \<noteq> CHR ''-'' # s" for a s
    using show_nat_plain[of "CHR ''-''" a] by (metis list.set_intros(1))
  then show ?thesis
    by (auto simp: show_int_def nat eq_nat_nat_iff) metis+
qed

lemma closed_num: "closed s \<Longrightarrow> takeWhile is_num_char s = []"
  by (cases s) (auto simp: closed_def is_num_char_def is_digit_def char_code_def)

lemma number_cancel:
  assumes "list_all is_num_char a" "list_all is_num_char b" "closed s" "closed t" "a @ s = b @ t"
  shows "a = b \<and> s = t"
proof -
  have "takeWhile is_num_char (a @ s) = a" "takeWhile is_num_char (b @ t) = b"
    using assms(1-4) closed_num by (simp_all add: list_all_iff)
  with assms(5) show ?thesis by simp
qed

section \<open>What the text determines\<close>

text \<open>A value up to the order of object keys and the type of whole numbers.\<close>

fun same_json_form :: "json \<Rightarrow> json" where
  "same_json_form (J_Whole n) = J_Int n"
| "same_json_form (J_List vs) = J_List (map same_json_form vs)"
| "same_json_form (J_Obj kvs) = J_Obj (sort_key fst (map (\<lambda>(k, v). (k, same_json_form v)) kvs))"
| "same_json_form v = v"

lemma sort_key_map_value: "sort_key fst (map (\<lambda>(k, v). (k, f v)) kvs) = map (\<lambda>(k, v). (k, f v)) (sort_key fst kvs)"
proof -
  have "insort_key fst (k, f v) (map (\<lambda>(k, v). (k, f v)) xs) = map (\<lambda>(k, v). (k, f v)) (insort_key fst (k, v) xs)"
    for k v xs by (induction xs) auto
  note ins = this
  show ?thesis by (induction kvs) (auto simp: ins)
qed

lemma sort_key_idem: "sort_key fst (sort_key fst kvs) = sort_key fst kvs"
  by (simp add: sort_key_id_if_sorted)

definition print_item :: "string \<times> json \<Rightarrow> string" where
  "print_item p = json_escape (fst p) @ CHR '':'' # stable_stringify (snd p)"

lemma stringify_obj: "stable_stringify (J_Obj kvs) = CHR ''{'' # comma_join (map print_item (sort_key fst kvs)) @ ''}''"
  by (simp add: sort_key_map_value comp_def print_pair_def print_item_def[abs_def] case_prod_beta)

definition json_head :: "char \<Rightarrow> bool" where
  "json_head c \<longleftrightarrow> is_num_char c \<or> c \<in> {CHR ''n'', CHR ''t'', CHR ''f'', CHR 0x22, CHR ''['', CHR ''{''}"

lemma num_head: "list_all is_num_char s \<Longrightarrow> s \<noteq> [] \<Longrightarrow> is_num_char (hd s)"
  by (cases s) auto

lemma stringify_head: "json_ok v \<Longrightarrow> stable_stringify v \<noteq> [] \<and> json_head (hd (stable_stringify v))"
  using num_chars_show_int frac_text_num
  by (cases v) (auto simp: json_head_def json_escape_def num_head stringify_obj simp del: stable_stringify.simps(8))

lemma json_head_not_closing: "json_head c \<Longrightarrow> c \<notin> {CHR '','', CHR '']'', CHR ''}''}"
  by (auto simp: json_head_def is_num_char_def is_digit_def char_code_def)

lemma stringify_not_closed: "json_ok v \<Longrightarrow> \<not> closed (stable_stringify v)"
  using stringify_head json_head_not_closing by (auto simp: closed_def)

lemma item_not_closed: "\<not> closed (print_item p)"
  by (simp add: print_item_def json_escape_def closed_def)

definition json_kind :: "json \<Rightarrow> nat" where
  "json_kind v = (case v of J_Null \<Rightarrow> 0 | J_Bool b \<Rightarrow> (if b then 1 else 2) | J_Int _ \<Rightarrow> 3 | J_Whole _ \<Rightarrow> 3
     | J_Frac _ \<Rightarrow> 3 | J_Str _ \<Rightarrow> 4 | J_List _ \<Rightarrow> 5 | J_Obj _ \<Rightarrow> 6)"

definition head_kind :: "char \<Rightarrow> nat" where
  "head_kind c = (if c = CHR ''n'' then 0 else if c = CHR ''t'' then 1 else if c = CHR ''f'' then 2
     else if c = CHR 0x22 then 4 else if c = CHR ''['' then 5 else if c = CHR ''{'' then 6 else 3)"

lemma head_kind_num: "is_num_char c \<Longrightarrow> head_kind c = 3"
  by (auto simp: head_kind_def is_num_char_def is_digit_def char_code_def)

lemma head_kind_stringify: "json_ok v \<Longrightarrow> head_kind (hd (stable_stringify v)) = json_kind v"
proof (cases v)
  case (J_Int n)
  then show ?thesis using head_kind_num num_head num_chars_show_int by (simp add: json_kind_def)
next
  case (J_Whole n)
  then show ?thesis using head_kind_num num_head num_chars_show_int by (simp add: json_kind_def)
next
  case (J_Frac t)
  moreover assume "json_ok v"
  ultimately show ?thesis using head_kind_num num_head frac_text_num by (simp add: json_kind_def)
qed (simp_all add: head_kind_def json_kind_def json_escape_def)

lemma same_kind:
  assumes "json_ok v" "json_ok w" "stable_stringify v @ s = stable_stringify w @ t"
  shows "json_kind v = json_kind w"
proof -
  have "hd (stable_stringify v) = hd (stable_stringify w)"
    using assms stringify_head by (metis hd_append2)
  then show ?thesis using head_kind_stringify assms(1,2) by metis
qed

definition number_text :: "json \<Rightarrow> string option" where
  "number_text v = (case v of J_Int n \<Rightarrow> Some (show_int n) | J_Whole n \<Rightarrow> Some (show_int n)
     | J_Frac t \<Rightarrow> Some t | _ \<Rightarrow> None)"

lemma number_form:
  assumes "json_ok v" "json_ok w" "number_text v = Some a" "number_text w = Some b"
    "closed s" "closed t" "a @ s = b @ t"
  shows "same_json_form v = same_json_form w \<and> s = t"
proof -
  have num: "list_all is_num_char x" if "json_ok u" "number_text u = Some x" for u x
    using that num_chars_show_int frac_text_num by (auto simp: number_text_def split: json.splits)
  then have "a = b" "s = t" using number_cancel[of a b s t] assms by auto
  then show ?thesis
    using assms show_int_not_frac show_int_inj
    by (auto simp: number_text_def split: json.splits)
qed

lemma kind3: "json_kind v = 3 \<longleftrightarrow> number_text v = Some (stable_stringify v)"
  by (cases v) (auto simp: json_kind_def number_text_def)

lemma number_same:
  assumes "json_ok v" "json_ok w" "closed s" "closed t" "stable_stringify v @ s = stable_stringify w @ t"
    and "json_kind v = 3"
  shows "same_json_form v = same_json_form w \<and> s = t"
proof -
  have "json_kind w = 3" using same_kind[OF assms(1,2,5)] assms(6) by simp
  then have "number_text w = Some (stable_stringify w)" by (rule iffD1[OF kind3])
  moreover have "number_text v = Some (stable_stringify v)" using assms(6) by (rule iffD1[OF kind3])
  ultimately show ?thesis using number_form[OF assms(1,2) _ _ assms(3,4,5)] by blast
qed

text \<open>Printed values can be told apart and cut off wherever a separator follows.\<close>

lemma stringify_cancel:
  "json_ok v \<Longrightarrow> json_ok w \<Longrightarrow> closed s \<Longrightarrow> closed t \<Longrightarrow> stable_stringify v @ s = stable_stringify w @ t
    \<Longrightarrow> same_json_form v = same_json_form w \<and> s = t"
proof (induction v arbitrary: w s t)
  case J_Null
  with same_kind[OF J_Null.prems(1,2,5)] have "w = J_Null"
    by (cases w) (auto simp: json_kind_def split: if_splits)
  with J_Null show ?case by simp
next
  case (J_Bool b)
  with same_kind[OF J_Bool.prems(1,2,5)] have "w = J_Bool b"
    by (cases w) (auto simp: json_kind_def split: if_splits)
  with J_Bool show ?case by simp
next
  case (J_Int n)
  then show ?case by (intro number_same) (simp_all add: json_kind_def)
next
  case (J_Whole n)
  then show ?case by (intro number_same) (simp_all add: json_kind_def)
next
  case (J_Frac x)
  then show ?case by (intro number_same) (simp_all add: json_kind_def)
next
  case (J_Str x)
  with same_kind[OF J_Str.prems(1,2,5)] obtain y where w: "w = J_Str y"
    by (cases w) (auto simp: json_kind_def split: if_splits)
  with J_Str.prems(5) have "json_escape x @ s = json_escape y @ t" by simp
  then have "x = y \<and> s = t" by (rule json_escape_cancel)
  with w show ?case by simp
next
  case (J_List xs)
  from same_kind[OF J_List.prems(1,2,5)] obtain ys where w: "w = J_List ys"
    by (cases w) (auto simp: json_kind_def split: if_splits)
  have "map same_json_form xs = map same_json_form ys \<and> s = t"
  proof (rule comma_join_cancel[where f = stable_stringify and e = "CHR '']''"])
    show "comma_join (map stable_stringify xs) @ CHR '']'' # s = comma_join (map stable_stringify ys) @ CHR '']'' # t"
      using J_List.prems(5) w by simp
    show "\<not> closed (stable_stringify x)" if "x \<in> set xs \<union> set ys" for x
      using that J_List.prems(1,2) w stringify_not_closed by (auto simp: list_all_iff)
  qed (use J_List w in \<open>auto simp: list_all_iff\<close>)
  with w show ?case by simp
next
  case (J_Obj xs)
  from same_kind[OF J_Obj.prems(1,2,5)] obtain ys where w: "w = J_Obj ys"
    by (cases w) (auto simp: json_kind_def split: if_splits)
  let ?g = "\<lambda>(k :: string, v). (k, same_json_form v)"
  have "map ?g (sort_key fst xs) = map ?g (sort_key fst ys) \<and> s = t"
  proof (rule comma_join_cancel[where f = print_item and e = "CHR ''}''"])
    show "comma_join (map print_item (sort_key fst xs)) @ CHR ''}'' # s
        = comma_join (map print_item (sort_key fst ys)) @ CHR ''}'' # t"
      using J_Obj.prems(5) unfolding w stringify_obj by simp
    fix p q a b
    assume p: "p \<in> set (sort_key fst xs)" and q: "q \<in> set (sort_key fst ys)" and "closed a" "closed b"
      and eq: "print_item p @ a = print_item q @ b"
    from eq have "json_escape (fst p) @ CHR '':'' # stable_stringify (snd p) @ a
        = json_escape (fst q) @ CHR '':'' # stable_stringify (snd q) @ b"
      by (simp add: print_item_def)
    then have "fst p = fst q \<and> CHR '':'' # stable_stringify (snd p) @ a = CHR '':'' # stable_stringify (snd q) @ b"
      by (rule json_escape_cancel)
    then have "fst p = fst q" "stable_stringify (snd p) @ a = stable_stringify (snd q) @ b" by simp_all
    moreover have "json_ok (snd p)" "json_ok (snd q)"
      using J_Obj.prems(1,2) w p q by (auto simp: list_all_iff)
    ultimately show "?g p = ?g q \<and> a = b"
      using J_Obj.IH[of p "snd p" "snd q" a b] p \<open>closed a\<close> \<open>closed b\<close> by (cases p, cases q) auto
  qed (simp_all add: item_not_closed)
  with w show ?case by (simp add: sort_key_map_value)
qed

lemma stringify_same_form: "stable_stringify (same_json_form v) = stable_stringify v"
proof (induction v)
  case (J_List vs)
  then show ?case by (simp add: comp_def cong: map_cong)
next
  case (J_Obj kvs)
  have item: "print_item (k, same_json_form v) = print_item (k, v)" if "(k, v) \<in> set kvs" for k v
    using J_Obj[of "(k, v)" v] that by (simp add: print_item_def)
  have "map print_item (map (\<lambda>(k, v). (k, same_json_form v)) (sort_key fst kvs)) = map print_item (sort_key fst kvs)"
    unfolding map_map by (rule map_cong[OF refl]) (use item in auto)
  then show ?case
    by (simp only: same_json_form.simps stringify_obj sort_key_idem) (simp only: sort_key_map_value)
qed simp_all

lemma stringify_iff:
  assumes "json_ok v" "json_ok w"
  shows "stable_stringify v = stable_stringify w \<longleftrightarrow> same_json_form v = same_json_form w"
  using stringify_cancel[of v w "[]" "[]"] assms stringify_same_form by (metis append_Nil2 closed_simps(1))

text \<open>Two records with the same content.\<close>

definition same_record :: "audit_fields \<Rightarrow> audit_fields \<Rightarrow> bool" where
  "same_record a b \<longleftrightarrow> a\<lparr>af_payload := same_json_form (af_payload a)\<rparr> = b\<lparr>af_payload := same_json_form (af_payload b)\<rparr>"

lemma text_or_null_simps [simp]:
  "json_ok (text_or_null v)" "same_json_form (text_or_null v) = text_or_null v"
  "text_or_null v = text_or_null w \<longleftrightarrow> v = w"
  by (auto simp: text_or_null_def split: option.splits)

lemma canonical_iff:
  assumes "json_ok (af_payload a)" "json_ok (af_payload b)"
  shows "canonical_audit a = canonical_audit b \<longleftrightarrow> same_record a b"
proof -
  have "canonical_audit a = canonical_audit b \<longleftrightarrow> same_json_form (J_List
     [J_Str (af_action a), text_or_null (af_subject_kind a), text_or_null (af_subject_id a),
      text_or_null (af_actor_id a), text_or_null (af_actor_role a), J_Bool (af_success a),
      text_or_null (af_reason a), text_or_null (af_ip_address a), text_or_null (af_user_agent a),
      text_or_null (af_correlation_id a), af_payload a]) = same_json_form (J_List
     [J_Str (af_action b), text_or_null (af_subject_kind b), text_or_null (af_subject_id b),
      text_or_null (af_actor_id b), text_or_null (af_actor_role b), J_Bool (af_success b),
      text_or_null (af_reason b), text_or_null (af_ip_address b), text_or_null (af_user_agent b),
      text_or_null (af_correlation_id b), af_payload b])"
    unfolding canonical_audit_def using assms by (intro stringify_iff) simp_all
  also have "\<dots> \<longleftrightarrow> same_record a b"
    by (cases a; cases b) (simp add: same_record_def)
  finally show ?thesis .
qed

text \<open>
  The text a link hashes. It determines the hash before it, which is hexadecimal or
  empty and holds no newline, and the record.
\<close>

definition link_text :: "string \<Rightarrow> string \<Rightarrow> string" where
  "link_text prev canonical = prev @ CHR 0x0A # canonical"

lemma chain_hash_link: "chain_hash sha p c = sha (link_text p c)"
  by (simp add: chain_hash_def link_text_def)

lemma link_text_cancel:
  assumes "link_text p a = link_text q b" and "CHR 0x0A \<notin> set p" "CHR 0x0A \<notin> set q"
  shows "p = q \<and> a = b"
proof -
  have "takeWhile (\<lambda>c. c \<noteq> CHR 0x0A) (x @ CHR 0x0A # y) = x" if "CHR 0x0A \<notin> set x" for x y :: string
    using that by (induction x) auto
  then have "p = q" using assms unfolding link_text_def by metis
  with assms(1) show ?thesis by (simp add: link_text_def)
qed

end
