(* ===== verification/AuditChain.thy ===== *)
theory AuditChain
  imports AuditCanonical "HOL-Library.Product_Lexorder"
begin

text \<open>
  apps/audit/services.py and models.py: the audit table, the hash chain through its
  sealed rows and its verification. A row written inside a transaction has neither
  number nor hash until the transaction commits; a row written outside one is chained
  at once. \<open>verify_chain\<close> walks the chain, from its start or from the checkpoint that
  the last clean walk left.

  SHA-256 is the argument \<open>sha\<close>; the clock and the key of a new row come with the call.
  The chain lock makes each operation one step. The events published for the pages, the
  memo of the cover for the length of a request and the log files are not modelled.
\<close>

section \<open>Rows\<close>

record audit_row =
  ar_id :: string
  ar_seq :: "int option"
  ar_created :: int
  ar_fields :: audit_fields
  ar_prev_hash :: "string option"
  ar_hash :: "string option"

record chain_checkpoint =
  cp_verified_through :: "int option"
  cp_verified_hash :: "string option"
  cp_verified_at :: "int option"
  cp_broken_at :: "int option"

record audit_db =
  audit_rows :: "audit_row list"
  frontier :: "chain_checkpoint option"

definition empty_log :: audit_db where
  "empty_log = \<lparr>audit_rows = [], frontier = None\<rparr>"

text \<open>The width of the columns.\<close>

definition text_fits :: "nat \<Rightarrow> string option \<Rightarrow> bool" where
  "text_fits n v = (case v of None \<Rightarrow> True | Some s \<Rightarrow> length s \<le> n)"

definition fits_columns :: "audit_fields \<Rightarrow> bool" where
  "fits_columns f \<longleftrightarrow> length (af_action f) \<le> 128 \<and> text_fits 64 (af_subject_kind f)
     \<and> text_fits 128 (af_subject_id f) \<and> text_fits 30 (af_actor_id f) \<and> text_fits 64 (af_actor_role f)
     \<and> text_fits 128 (af_ip_address f) \<and> text_fits 512 (af_user_agent f)
     \<and> text_fits 64 (af_correlation_id f) \<and> text_fits 512 (af_reason f)"

section \<open>What a call records\<close>

text \<open>A cover for a leave, and the staff it is between. The tables are in the order of their keys.\<close>

record audited_staff =
  as_id :: string
  as_user :: string
  as_user_name :: string
  as_deleted :: bool

record staff_cover =
  sc_leave_request :: string
  sc_original :: string
  sc_covering :: string
  sc_start :: int
  sc_end :: int
  sc_status :: string

record cover_tables =
  ct_staff :: "audited_staff list"
  ct_covers :: "staff_cover list"

definition acting_for :: "int \<Rightarrow> cover_tables \<Rightarrow> string \<Rightarrow> (string \<times> json) list option" where
  "acting_for at tables actor =
     (case find (\<lambda>sp. as_user sp = actor \<and> \<not> as_deleted sp) (ct_staff tables) of None \<Rightarrow> None
      | Some sp \<Rightarrow>
          (case find (\<lambda>c. sc_covering c = as_id sp \<and> sc_start c \<le> at \<and> at \<le> sc_end c
                 \<and> sc_status c = ''active'') (ct_covers tables) of None \<Rightarrow> None
           | Some c \<Rightarrow>
               (case find (\<lambda>s. as_id s = sc_original c) (ct_staff tables) of None \<Rightarrow> None
                | Some s \<Rightarrow> Some [(''acting_for'', J_Obj [(''staff_profile_id'', J_Str (as_id s)),
                      (''user_id'', J_Str (as_user s)), (''name'', J_Str (as_user_name s))]),
                    (''reason'', J_Str ''Leave Coverage''), (''leave_request_id'', J_Str (sc_leave_request c))])))"

definition json_truthy :: "json \<Rightarrow> bool" where
  "json_truthy v = (case v of J_Null \<Rightarrow> False | J_Bool b \<Rightarrow> b | J_Int n \<Rightarrow> n \<noteq> 0 | J_Whole n \<Rightarrow> n \<noteq> 0
     | J_Frac _ \<Rightarrow> True | J_Str s \<Rightarrow> s \<noteq> [] | J_List vs \<Rightarrow> vs \<noteq> [] | J_Obj kvs \<Rightarrow> kvs \<noteq> [])"

fun dict_set :: "string \<Rightarrow> json \<Rightarrow> (string \<times> json) list \<Rightarrow> (string \<times> json) list" where
  "dict_set k v [] = [(k, v)]"
| "dict_set k v (p # kvs) = (if fst p = k then (k, v) # kvs else p # dict_set k v kvs)"

definition dict_update :: "(string \<times> json) list \<Rightarrow> (string \<times> json) list \<Rightarrow> (string \<times> json) list" where
  "dict_update kvs new = foldl (\<lambda>d (k, v). dict_set k v d) kvs new"

definition payload_dict :: "json \<Rightarrow> (string \<times> json) list" where
  "payload_dict p = (if \<not> json_truthy p then [] else (case p of J_Obj kvs \<Rightarrow> kvs | _ \<Rightarrow> [(''original_payload'', p)]))"

definition stamped_payload :: "(string \<times> json) list option \<Rightarrow> (string \<times> json) list option \<Rightarrow> json \<Rightarrow> json" where
  "stamped_payload cover stamp p =
     (let p1 = (case cover of None \<Rightarrow> p | Some new \<Rightarrow> if new = [] then p else J_Obj (dict_update (payload_dict p) new))
      in (case stamp of None \<Rightarrow> p1
          | Some s \<Rightarrow> if s = [] then p1 else J_Obj (dict_set ''acting'' (J_Obj s) (payload_dict p1))))"

record request_context =
  rc_ip :: "string option"
  rc_agent :: "string option"
  rc_correlation :: "string option"

record log_call =
  lc_row_id :: string
  lc_at :: int
  lc_context :: "request_context option"
  lc_stamp :: "(string \<times> json) list option"
  lc_fields :: audit_fields
  lc_required :: bool

definition text_given :: "string option \<Rightarrow> bool" where
  "text_given v = (case v of None \<Rightarrow> False | Some s \<Rightarrow> s \<noteq> [])"

definition or_context :: "string option \<Rightarrow> (request_context \<Rightarrow> string option) \<Rightarrow> request_context option \<Rightarrow> string option" where
  "or_context v sel ctx = (if text_given v then v else (case ctx of None \<Rightarrow> None | Some c \<Rightarrow> sel c))"

definition logged_fields :: "cover_tables \<Rightarrow> log_call \<Rightarrow> audit_fields" where
  "logged_fields tables c =
     (let f = lc_fields c;
          p = (case af_actor_id f of None \<Rightarrow> af_payload f
               | Some a \<Rightarrow> if a = [] then af_payload f
                   else stamped_payload (acting_for (lc_at c) tables a) (lc_stamp c) (af_payload f))
      in f\<lparr>af_payload := p, af_ip_address := or_context (af_ip_address f) rc_ip (lc_context c),
           af_user_agent := or_context (af_user_agent f) rc_agent (lc_context c),
           af_correlation_id := or_context (af_correlation_id f) rc_correlation (lc_context c)\<rparr>)"

section \<open>The chain\<close>

definition sealed_rows :: "audit_row list \<Rightarrow> audit_row list" where
  "sealed_rows rows = sort_key (\<lambda>r. the (ar_seq r)) (filter (\<lambda>r. ar_seq r \<noteq> None) rows)"

definition chain_tail :: "audit_row list \<Rightarrow> audit_row option" where
  "chain_tail rows = (case rev (sealed_rows rows) of [] \<Rightarrow> None | r # _ \<Rightarrow> Some r)"

definition next_link :: "audit_row list \<Rightarrow> string option \<times> int" where
  "next_link rows = (case chain_tail rows of None \<Rightarrow> (None, 1) | Some r \<Rightarrow> (ar_hash r, the (ar_seq r) + 1))"

definition text_or_empty :: "string option \<Rightarrow> string" where
  "text_or_empty v = (case v of None \<Rightarrow> [] | Some s \<Rightarrow> s)"

definition link_hash :: "(string \<Rightarrow> string) \<Rightarrow> string option \<Rightarrow> audit_fields \<Rightarrow> string" where
  "link_hash sha prev f = chain_hash sha (text_or_empty prev) (canonical_audit f)"

definition seal_row :: "(string \<Rightarrow> string) \<Rightarrow> string option \<Rightarrow> int \<Rightarrow> audit_row \<Rightarrow> audit_row" where
  "seal_row sha prev seq r =
     r\<lparr>ar_seq := Some seq, ar_prev_hash := prev, ar_hash := Some (link_hash sha prev (ar_fields r))\<rparr>"

fun seal_rows :: "(string \<Rightarrow> string) \<Rightarrow> string option \<Rightarrow> int \<Rightarrow> audit_row list \<Rightarrow> audit_row list" where
  "seal_rows sha prev seq [] = []"
| "seal_rows sha prev seq (r # rs) =
     (let r' = seal_row sha prev seq r in r' # seal_rows sha (ar_hash r') (seq + 1) rs)"

section \<open>Writing\<close>

definition unsealed_row :: "cover_tables \<Rightarrow> log_call \<Rightarrow> audit_row" where
  "unsealed_row tables c = \<lparr>ar_id = lc_row_id c, ar_seq = None, ar_created = lc_at c,
     ar_fields = logged_fields tables c, ar_prev_hash = None, ar_hash = None\<rparr>"

definition row_refused :: "audit_row \<Rightarrow> audit_row list \<Rightarrow> err option" where
  "row_refused row rows =
     (if \<not> fits_columns (ar_fields row) then Some DataError
      else if ar_id row \<in> set (map ar_id rows) then Some (IntegrityError ''audit_log_pkey'') else None)"

definition log_row :: "(string \<Rightarrow> string) \<Rightarrow> cover_tables \<Rightarrow> bool \<Rightarrow> log_call \<Rightarrow> audit_db \<Rightarrow> audit_db result" where
  "log_row sha tables deferred c db =
     (let unsealed = unsealed_row tables c; link = next_link (audit_rows db);
          row = (if deferred then unsealed else seal_row sha (fst link) (snd link) unsealed) in
      case row_refused row (audit_rows db) of
        Some e \<Rightarrow> if lc_required c then Inl e else Inr db
      | None \<Rightarrow> Inr (db\<lparr>audit_rows := audit_rows db @ [row]\<rparr>))"

definition pending_rows :: "audit_row list \<Rightarrow> audit_row list" where
  "pending_rows rows = sort_key (\<lambda>r. (ar_created r, ar_id r)) (filter (\<lambda>r. ar_seq r = None) rows)"

definition bulk_update :: "audit_row list \<Rightarrow> audit_row list \<Rightarrow> audit_row list" where
  "bulk_update new rows = map (\<lambda>r. case find (\<lambda>x. ar_id x = ar_id r) new of None \<Rightarrow> r | Some x \<Rightarrow> x) rows"

definition seal_pending :: "(string \<Rightarrow> string) \<Rightarrow> nat \<Rightarrow> audit_db \<Rightarrow> audit_db \<times> nat" where
  "seal_pending sha limit db =
     (let pending = take limit (pending_rows (audit_rows db)) in
      if pending = [] then (db, 0)
      else let (prev, seq) = next_link (audit_rows db) in
        (db\<lparr>audit_rows := bulk_update (seal_rows sha prev seq pending) (audit_rows db)\<rparr>, length pending))"

text \<open>
  A unit of work of the application that logs \<open>calls\<close> and commits: each row is written
  unsealed, a failure of a required one undoes them all, the commit seals what is pending.
  The first call registers the seal of the commit, inside the savepoint of its row: when
  the row is refused the savepoint takes the registration with it, and no later call of
  the transaction registers another.
\<close>

fun log_all :: "(string \<Rightarrow> string) \<Rightarrow> cover_tables \<Rightarrow> log_call list \<Rightarrow> audit_db \<Rightarrow> audit_db result" where
  "log_all sha tables [] db = Inr db"
| "log_all sha tables (c # cs) db = bindE (log_row sha tables True c db) (log_all sha tables cs)"

definition seal_registered :: "cover_tables \<Rightarrow> log_call list \<Rightarrow> audit_db \<Rightarrow> bool" where
  "seal_registered tables calls db =
     (case calls of [] \<Rightarrow> False | c # _ \<Rightarrow> row_refused (unsealed_row tables c) (audit_rows db) = None)"

definition commit_calls :: "(string \<Rightarrow> string) \<Rightarrow> cover_tables \<Rightarrow> log_call list \<Rightarrow> audit_db \<Rightarrow> audit_db result" where
  "commit_calls sha tables calls db =
     bindE (log_all sha tables calls db) (\<lambda>db'.
       Inr (if seal_registered tables calls db then fst (seal_pending sha 5000 db') else db'))"

section \<open>Verification\<close>

record verdict =
  v_ok :: bool
  v_broken_at :: "int option"
  v_checked :: nat
  v_from :: "int option"

definition blank_checkpoint :: chain_checkpoint where
  "blank_checkpoint = \<lparr>cp_verified_through = None, cp_verified_hash = None, cp_verified_at = None, cp_broken_at = None\<rparr>"

definition update_checkpoint :: "(chain_checkpoint \<Rightarrow> chain_checkpoint) \<Rightarrow> audit_db \<Rightarrow> audit_db" where
  "update_checkpoint f db =
     db\<lparr>frontier := Some (f (case frontier db of None \<Rightarrow> blank_checkpoint | Some c \<Rightarrow> c))\<rparr>"

datatype walk_end = Broken int nat | Clean "int option" "string option" nat

fun walk :: "(string \<Rightarrow> string) \<Rightarrow> string option \<Rightarrow> nat \<Rightarrow> int option \<Rightarrow> audit_row list \<Rightarrow> walk_end" where
  "walk sha prev n upto_seq [] = Clean upto_seq prev n"
| "walk sha prev n upto_seq (r # rs) =
     (if ar_hash r \<noteq> Some (link_hash sha prev (ar_fields r)) then Broken (the (ar_seq r)) (n + 1)
      else walk sha (ar_hash r) (n + 1) (ar_seq r) rs)"

definition walk_from :: "(string \<Rightarrow> string) \<Rightarrow> int \<Rightarrow> string option \<Rightarrow> int option \<Rightarrow> audit_db \<Rightarrow> audit_db \<times> verdict" where
  "walk_from sha at prev start db =
     (let rows = filter (\<lambda>r. case start of None \<Rightarrow> True | Some s \<Rightarrow> s < the (ar_seq r)) (sealed_rows (audit_rows db)) in
      case walk sha prev 0 start rows of
        Broken seq n \<Rightarrow> (update_checkpoint (\<lambda>c. c\<lparr>cp_broken_at := Some seq\<rparr>) db,
          \<lparr>v_ok = False, v_broken_at = Some seq, v_checked = n, v_from = start\<rparr>)
      | Clean last_seq last_hash n \<Rightarrow>
          ((if last_seq = None then db
            else update_checkpoint (\<lambda>c. c\<lparr>cp_verified_through := last_seq, cp_verified_hash := last_hash,
              cp_verified_at := Some at, cp_broken_at := None\<rparr>) db),
           \<lparr>v_ok = True, v_broken_at = None, v_checked = n, v_from = start\<rparr>))"

definition verify_chain :: "(string \<Rightarrow> string) \<Rightarrow> bool \<Rightarrow> int \<Rightarrow> audit_db \<Rightarrow> audit_db \<times> verdict" where
  "verify_chain sha full at db =
     (case (if full then None else frontier db) of
        None \<Rightarrow> walk_from sha at None None db
      | Some cp \<Rightarrow>
          (case cp_verified_through cp of None \<Rightarrow> walk_from sha at None None db
           | Some through \<Rightarrow>
               (case find (\<lambda>r. ar_seq r = Some through) (audit_rows db) of
                  Some anchor \<Rightarrow> if ar_hash anchor = cp_verified_hash cp
                    then walk_from sha at (cp_verified_hash cp) (Some through) db
                    else (update_checkpoint (\<lambda>c. c\<lparr>cp_broken_at := Some through\<rparr>) db,
                      \<lparr>v_ok = False, v_broken_at = Some through, v_checked = 1, v_from = Some through\<rparr>)
                | None \<Rightarrow> (update_checkpoint (\<lambda>c. c\<lparr>cp_broken_at := Some through\<rparr>) db,
                      \<lparr>v_ok = False, v_broken_at = Some through, v_checked = 1, v_from = Some through\<rparr>))))"

text \<open>
  The command that links the chain anew after a break: every row, in the order of its
  time, gets the next number and a fresh hash. It leaves the checkpoint to the
  verification it ends with.
\<close>

definition rechained :: "(string \<Rightarrow> string) \<Rightarrow> audit_row list \<Rightarrow> audit_row list" where
  "rechained sha rows = seal_rows sha None 1 (sort_key (\<lambda>r. (ar_created r, ar_id r)) rows)"

definition rebuild_chain :: "(string \<Rightarrow> string) \<Rightarrow> int \<Rightarrow> bool \<Rightarrow> audit_db \<Rightarrow> audit_db" where
  "rebuild_chain sha at apply_it db =
     (let (db1, before) = verify_chain sha False at db in
      if v_ok before \<or> \<not> apply_it then db1
      else fst (verify_chain sha False at
        (db1\<lparr>audit_rows := bulk_update (rechained sha (audit_rows db1)) (audit_rows db1)\<rparr>)))"

end
