(* ===== verification/AuditChainProofs.thy ===== *)
theory AuditChainProofs
  imports AuditChain
begin

text \<open>
  What the operations of the audit table keep: the sealed rows, in the order of their
  numbers, are numbered from one and linked by their hashes (\<open>linked\<close>), and the
  checkpoint names a row of the chain. Every writer extends the chain at its end
  (locale \<open>chain_writer\<close>).
\<close>

section \<open>Links\<close>

definition chain_end :: "string option \<Rightarrow> audit_row list \<Rightarrow> string option" where
  "chain_end prev rs = (if rs = [] then prev else ar_hash (last rs))"

fun hash_linked :: "(string \<Rightarrow> string) \<Rightarrow> string option \<Rightarrow> audit_row list \<Rightarrow> bool" where
  "hash_linked sha prev [] = True"
| "hash_linked sha prev (r # rs) =
     (ar_hash r = Some (link_hash sha prev (ar_fields r)) \<and> hash_linked sha (ar_hash r) rs)"

fun linked :: "(string \<Rightarrow> string) \<Rightarrow> string option \<Rightarrow> int \<Rightarrow> audit_row list \<Rightarrow> bool" where
  "linked sha prev n [] = True"
| "linked sha prev n (r # rs) =
     (ar_seq r = Some n \<and> ar_prev_hash r = prev \<and> ar_hash r = Some (link_hash sha prev (ar_fields r))
      \<and> linked sha (ar_hash r) (n + 1) rs)"

lemma chain_end_simps [simp]:
  "chain_end prev [] = prev" "chain_end prev (r # rs) = chain_end (ar_hash r) rs"
  "chain_end prev (rs @ [r]) = ar_hash r"
  by (simp_all add: chain_end_def)

lemma linked_hash: "linked sha prev n rs \<Longrightarrow> hash_linked sha prev rs"
  by (induction rs arbitrary: prev n) auto

lemma linked_append:
  "linked sha prev n (xs @ ys) \<longleftrightarrow> linked sha prev n xs \<and> linked sha (chain_end prev xs) (n + int (length xs)) ys"
  by (induction xs arbitrary: prev n) (auto simp: algebra_simps)

lemma hash_linked_append:
  "hash_linked sha prev (xs @ ys) \<longleftrightarrow> hash_linked sha prev xs \<and> hash_linked sha (chain_end prev xs) ys"
  by (induction xs arbitrary: prev) auto

lemma linked_seal: "linked sha prev n (seal_rows sha prev n rs)"
  by (induction rs arbitrary: prev n) (simp_all add: Let_def seal_row_def)

lemma linked_seqs: "linked sha prev n rs \<Longrightarrow> map (\<lambda>r. the (ar_seq r)) rs = map (\<lambda>i. n + int i) [0..<length rs]"
proof (induction rs arbitrary: prev n)
  case (Cons r rs)
  then have "map (\<lambda>r. the (ar_seq r)) rs = map (\<lambda>i. (n + 1) + int i) [0..<length rs]" by fastforce
  with Cons.prems show ?case by (simp add: map_upt_Suc add.assoc del: upt_Suc)
qed simp

lemma linked_sealed: "linked sha prev n rs \<Longrightarrow> r \<in> set rs \<Longrightarrow> ar_seq r \<noteq> None"
  by (induction rs arbitrary: prev n) auto

lemma linked_range: "linked sha prev n rs \<Longrightarrow> r \<in> set rs \<Longrightarrow> n \<le> the (ar_seq r) \<and> the (ar_seq r) < n + int (length rs)"
proof (induction rs arbitrary: prev n)
  case (Cons x rs)
  show ?case
  proof (cases "r = x")
    case False
    with Cons.prems have "linked sha (ar_hash x) (n + 1) rs" "r \<in> set rs" by auto
    then have "n + 1 \<le> the (ar_seq r) \<and> the (ar_seq r) < n + 1 + int (length rs)" by (rule Cons.IH)
    then show ?thesis by simp
  qed (use Cons.prems in simp)
qed simp

lemma linked_at:
  "linked sha prev n rs \<Longrightarrow> n \<le> s \<Longrightarrow> s < n + int (length rs) \<Longrightarrow>
     rs ! nat (s - n) \<in> set rs \<and> ar_seq (rs ! nat (s - n)) = Some s"
proof (induction rs arbitrary: prev n)
  case (Cons r rs)
  show ?case
  proof (cases "s = n")
    case False
    have "linked sha (ar_hash r) (n + 1) rs" using Cons.prems(1) by auto
    then have "rs ! nat (s - (n + 1)) \<in> set rs \<and> ar_seq (rs ! nat (s - (n + 1))) = Some s"
      by (rule Cons.IH) (use False Cons.prems in simp_all)
    moreover have "nat (s - n) = Suc (nat (s - (n + 1)))" using False Cons.prems(2) by simp
    ultimately show ?thesis by simp
  qed (use Cons.prems in simp)
qed simp

text \<open>The rows after the one with number \<open>s\<close>.\<close>

lemma linked_after:
  assumes "linked sha prev n rs" "n \<le> s" "s < n + int (length rs)"
  shows "filter (\<lambda>r. s < the (ar_seq r)) rs = drop (nat (s - n) + 1) rs"
proof -
  let ?k = "nat (s - n) + 1"
  have parts: "linked sha prev n (take ?k rs)"
    "linked sha (chain_end prev (take ?k rs)) (n + int ?k) (drop ?k rs)"
    using assms linked_append[of sha prev n "take ?k rs" "drop ?k rs"] by (simp_all add: min_absorb2)
  have "the (ar_seq r) \<le> s" if "r \<in> set (take ?k rs)" for r
    using linked_range[OF parts(1) that] assms by (simp add: min_absorb2)
  moreover have "s < the (ar_seq r)" if "r \<in> set (drop ?k rs)" for r
    using linked_range[OF parts(2) that] assms(2) by simp
  ultimately have "filter (\<lambda>r. s < the (ar_seq r)) (take ?k rs @ drop ?k rs) = drop ?k rs"
    by (simp only: filter_append) (simp add: filter_empty_conv filter_id_conv linorder_not_less)
  then show ?thesis by simp
qed

section \<open>The sealed rows\<close>

lemma sort_key_unique:
  fixes f :: "'a \<Rightarrow> 'k :: linorder"
  assumes "set xs = set ys" "distinct xs" "distinct (map f ys)" "sorted (map f ys)"
  shows "sort_key f xs = ys"
proof -
  have inj: "inj_on f (set ys)" using assms(3) by (simp add: distinct_map)
  have "distinct (map f (sort_key f xs))"
    using inj assms(1,2) by (simp add: distinct_map)
  then have "map f (sort_key f xs) = map f ys"
    using assms by (intro sorted_distinct_set_unique) simp_all
  moreover have "set (sort_key f xs) \<union> set ys = set ys" using assms(1) by simp
  ultimately show ?thesis using inj by (metis map_inj_on)
qed

lemma sort_key_map: "sort_key f (map g xs) = map g (sort_key (\<lambda>x. f (g x)) xs)"
proof -
  have "insort_key f (g x) (map g xs) = map g (insort_key (\<lambda>x. f (g x)) x xs)" for x xs
    by (induction xs) auto
  then show ?thesis by (induction xs) simp_all
qed

lemma set_sealed_rows [simp]: "set (sealed_rows rows) = {r \<in> set rows. ar_seq r \<noteq> None}"
  by (auto simp: sealed_rows_def)

lemma sealed_rowsI:
  assumes "linked sha prev n ys" "distinct rows" "{r \<in> set rows. ar_seq r \<noteq> None} = set ys"
  shows "sealed_rows rows = ys"
  unfolding sealed_rows_def
proof (rule sort_key_unique)
  note seqs = linked_seqs[OF assms(1)]
  show "sorted (map (\<lambda>r. the (ar_seq r)) ys)" unfolding seqs by (simp add: sorted_iff_nth_mono)
  show "distinct (map (\<lambda>r. the (ar_seq r)) ys)" unfolding seqs by (simp add: distinct_map inj_on_def)
qed (use assms in auto)

lemma sealed_rows_map:
  assumes "\<And>r. ar_seq (g r) = ar_seq r"
  shows "sealed_rows (map g rows) = map g (sealed_rows rows)"
  by (simp add: sealed_rows_def filter_map comp_def assms sort_key_map)

lemma next_link_linked:
  assumes "linked sha None 1 (sealed_rows rows)"
  shows "next_link rows = (chain_end None (sealed_rows rows), 1 + int (length (sealed_rows rows)))"
proof (cases "sealed_rows rows" rule: rev_cases)
  case (snoc xs x)
  with assms have "ar_seq x = Some (1 + int (length xs))" by (simp add: linked_append)
  with snoc show ?thesis by (simp add: next_link_def chain_tail_def)
qed (simp add: next_link_def chain_tail_def)

section \<open>Writers\<close>

definition keyed :: "audit_row list \<Rightarrow> bool" where
  "keyed rows \<longleftrightarrow> distinct (map ar_id rows)"

definition chain_ok :: "(string \<Rightarrow> string) \<Rightarrow> audit_db \<Rightarrow> bool" where
  "chain_ok sha db \<longleftrightarrow> keyed (audit_rows db) \<and> linked sha None 1 (sealed_rows (audit_rows db))"

text \<open>The checkpoint of a clean walk names a row of the chain.\<close>

definition frontier_ok :: "audit_db \<Rightarrow> bool" where
  "frontier_ok db = (case frontier db of None \<Rightarrow> True | Some cp \<Rightarrow>
     cp_broken_at cp = None \<and> (\<exists>r \<in> set (audit_rows db).
       cp_verified_through cp = ar_seq r \<and> ar_seq r \<noteq> None \<and> cp_verified_hash cp = ar_hash r))"

locale chain_writer =
  fixes sha :: "string \<Rightarrow> string" and step :: "audit_db \<Rightarrow> audit_db \<Rightarrow> bool"
  assumes extends: "chain_ok sha db \<Longrightarrow> step db db' \<Longrightarrow>
      \<exists>new. sealed_rows (audit_rows db') = sealed_rows (audit_rows db)
        @ seal_rows sha (fst (next_link (audit_rows db))) (snd (next_link (audit_rows db))) new"
    and keeps_keys: "keyed (audit_rows db) \<Longrightarrow> step db db' \<Longrightarrow> keyed (audit_rows db')"
    and keeps_frontier: "step db db' \<Longrightarrow> frontier db' = frontier db"
begin

lemma prefix: "chain_ok sha db \<Longrightarrow> step db db' \<Longrightarrow>
    \<exists>new. sealed_rows (audit_rows db') = sealed_rows (audit_rows db) @ new"
  using extends by blast

lemma preserves_chain: "chain_ok sha db \<Longrightarrow> step db db' \<Longrightarrow> chain_ok sha db'"
  using extends[of db db'] keeps_keys[of db db']
  by (auto simp: chain_ok_def linked_append next_link_linked linked_seal)

lemma preserves_frontier:
  assumes "chain_ok sha db" "step db db'" "frontier_ok db"
  shows "frontier_ok db'"
proof -
  obtain new where "sealed_rows (audit_rows db') = sealed_rows (audit_rows db) @ new"
    using prefix assms(1,2) by blast
  then have "set (sealed_rows (audit_rows db)) \<subseteq> set (sealed_rows (audit_rows db'))" by simp
  then have "r \<in> set (audit_rows db) \<Longrightarrow> ar_seq r \<noteq> None \<Longrightarrow> r \<in> set (audit_rows db')" for r
    by auto
  with assms(3) show ?thesis
    using keeps_frontier[OF assms(2)] by (fastforce simp: frontier_ok_def split: option.splits)
qed

end

lemma log_row_cases:
  assumes "log_row sha tables deferred c db = Inr db'"
  obtains (dropped) "db' = db"
  | (written) row where "db' = db\<lparr>audit_rows := audit_rows db @ [row]\<rparr>"
      "ar_id row \<notin> set (map ar_id (audit_rows db))"
      "row = (if deferred then unsealed_row tables c
         else seal_row sha (fst (next_link (audit_rows db))) (snd (next_link (audit_rows db))) (unsealed_row tables c))"
  using assms
  by (auto simp: log_row_def Let_def row_refused_def split: if_splits option.splits)

lemma ids_unsealed [simp]: "ar_seq (unsealed_row tables c) = None"
  by (simp add: unsealed_row_def)

lemma keyed_distinct: "keyed rows \<Longrightarrow> distinct rows"
  by (simp add: keyed_def distinct_map)

interpretation logging: chain_writer sha "\<lambda>db db'. log_row sha tables deferred c db = Inr db'"
proof
  fix db db'
  assume step: "log_row sha tables deferred c db = Inr db'"
  show "frontier db' = frontier db" using step by (cases rule: log_row_cases) simp_all
  {
    assume "keyed (audit_rows db)"
    with step show "keyed (audit_rows db')"
      by (cases rule: log_row_cases) (auto simp: keyed_def)
  }
  {
    assume ok: "chain_ok sha db"
    let ?link = "next_link (audit_rows db)"
    from ok have link: "linked sha None 1 (sealed_rows (audit_rows db))" by (simp add: chain_ok_def)
    from step show "\<exists>new. sealed_rows (audit_rows db') = sealed_rows (audit_rows db)
        @ seal_rows sha (fst ?link) (snd ?link) new"
    proof (cases rule: log_row_cases)
      case dropped
      then show ?thesis by (intro exI[of _ "[]"]) simp
    next
      case (written row)
      show ?thesis
      proof (cases deferred)
        case True
        then show ?thesis
          using written by (intro exI[of _ "[]"]) (simp add: sealed_rows_def)
      next
        case False
        have row: "[row] = seal_rows sha (fst ?link) (snd ?link) [unsealed_row tables c]"
          using written(3) False by (simp add: Let_def)
        have "linked sha None 1 (sealed_rows (audit_rows db) @ [row])"
          unfolding linked_append
          using link linked_seal[of sha "fst ?link" "snd ?link" "[unsealed_row tables c]", folded row]
          by (simp only: next_link_linked[OF link] fst_conv snd_conv simp_thms)
        moreover have "distinct (audit_rows db @ [row])"
          using ok written(2) by (auto simp: chain_ok_def dest: keyed_distinct)
        moreover have "ar_seq row \<noteq> None" using written(3) False by (simp add: seal_row_def)
        ultimately have "sealed_rows (audit_rows db @ [row]) = sealed_rows (audit_rows db) @ [row]"
          by (intro sealed_rowsI[where n = 1]) auto
        then show ?thesis
          unfolding written(1) by (intro exI[of _ "[unsealed_row tables c]"]) (simp add: row[symmetric] del: seal_rows.simps)
      qed
    qed
  }
qed

section \<open>Sealing\<close>

lemma map_id_seal_rows: "map ar_id (seal_rows sha prev n rs) = map ar_id rs"
  by (induction rs arbitrary: prev n) (simp_all add: Let_def seal_row_def)

lemma length_seal_rows [simp]: "length (seal_rows sha prev n rs) = length rs"
  by (induction rs arbitrary: prev n) (simp_all add: Let_def)

lemma find_by_id:
  "distinct (map ar_id new) \<Longrightarrow> x \<in> set new \<Longrightarrow> ar_id x = i \<Longrightarrow> find (\<lambda>x. ar_id x = i) new = Some x"
  by (induction new) (auto simp: rev_image_eqI)

lemma find_no_id: "i \<notin> set (map ar_id new) \<Longrightarrow> find (\<lambda>x. ar_id x = i) new = None"
  by (auto simp: find_None_iff)

lemma map_id_bulk_update: "map ar_id (bulk_update new rows) = map ar_id rows"
  by (auto simp: bulk_update_def find_Some_iff split: option.splits)

lemma set_bulk_update:
  assumes "distinct (map ar_id new)" "set (map ar_id new) \<subseteq> set (map ar_id rows)"
  shows "set (bulk_update new rows) = {r \<in> set rows. ar_id r \<notin> set (map ar_id new)} \<union> set new"
proof (intro set_eqI iffI)
  fix r assume "r \<in> set (bulk_update new rows)"
  then obtain q where q: "q \<in> set rows"
    "r = (case find (\<lambda>x. ar_id x = ar_id q) new of None \<Rightarrow> q | Some x \<Rightarrow> x)"
    by (auto simp: bulk_update_def)
  show "r \<in> {r \<in> set rows. ar_id r \<notin> set (map ar_id new)} \<union> set new"
  proof (cases "find (\<lambda>x. ar_id x = ar_id q) new")
    case None
    with q show ?thesis by (auto simp: find_None_iff)
  next
    case (Some x)
    with q find_Some_set[OF Some] show ?thesis by simp
  qed
next
  fix r assume "r \<in> {r \<in> set rows. ar_id r \<notin> set (map ar_id new)} \<union> set new"
  then consider (old) "r \<in> set rows" "ar_id r \<notin> set (map ar_id new)" | (new) "r \<in> set new" by blast
  then show "r \<in> set (bulk_update new rows)"
  proof cases
    case old
    from find_no_id[OF old(2)] show ?thesis
      unfolding bulk_update_def set_map by (intro image_eqI[OF _ old(1)]) simp
  next
    case new
    then obtain q where "q \<in> set rows" "ar_id q = ar_id r" using assms(2) by force
    moreover have "find (\<lambda>x. ar_id x = ar_id q) new = Some r"
      using find_by_id[OF assms(1) new] \<open>ar_id q = ar_id r\<close> by simp
    ultimately show ?thesis unfolding bulk_update_def by (force intro!: image_eqI[of _ _ q])
  qed
qed

lemma pending_facts:
  "set (pending_rows rows) = {r \<in> set rows. ar_seq r = None}"
  "keyed rows \<Longrightarrow> distinct (map ar_id (pending_rows rows))"
proof -
  show set: "set (pending_rows rows) = {r \<in> set rows. ar_seq r = None}"
    by (auto simp: pending_rows_def)
  assume "keyed rows"
  then show "distinct (map ar_id (pending_rows rows))"
    unfolding distinct_map set by (auto simp: keyed_def distinct_map pending_rows_def inj_on_def)
qed

text \<open>What a seal writes: the oldest pending rows, linked in their order.\<close>

lemma seal_pending_effect:
  fixes sha limit db
  defines "pending \<equiv> take limit (pending_rows (audit_rows db))"
    and "link \<equiv> next_link (audit_rows db)"
  assumes "chain_ok sha db"
  shows "audit_rows (fst (seal_pending sha limit db))
      = bulk_update (seal_rows sha (fst link) (snd link) pending) (audit_rows db)"
    and "snd (seal_pending sha limit db) = length pending"
    and "sealed_rows (audit_rows (fst (seal_pending sha limit db)))
      = sealed_rows (audit_rows db) @ seal_rows sha (fst link) (snd link) pending"
    and "{r \<in> set (audit_rows (fst (seal_pending sha limit db))). ar_seq r = None}
      = set (drop limit (pending_rows (audit_rows db)))"
proof -
  let ?rows = "audit_rows db" and ?new = "seal_rows sha (fst link) (snd link) pending"
  have keyed: "keyed ?rows" and chain: "linked sha None 1 (sealed_rows ?rows)"
    using assms by (simp_all add: chain_ok_def)
  have none: "bulk_update [] ?rows = ?rows" by (simp add: bulk_update_def)
  show rows: "audit_rows (fst (seal_pending sha limit db)) = bulk_update ?new ?rows"
    unfolding seal_pending_def pending_def[symmetric] link_def[symmetric]
    by (simp add: Let_def case_prod_beta none)
  show "snd (seal_pending sha limit db) = length pending"
    unfolding seal_pending_def pending_def[symmetric] by (simp add: Let_def case_prod_beta)
  have ids: "map ar_id ?new = map ar_id pending" by (rule map_id_seal_rows)
  note dist = pending_facts(2)[OF keyed]
  have pend: "distinct (map ar_id pending)" "set pending \<subseteq> {r \<in> set ?rows. ar_seq r = None}"
    using dist unfolding pending_def pending_facts(1)[symmetric]
    by (simp_all add: take_map[symmetric] set_take_subset)
  have "set (bulk_update ?new ?rows) = {r \<in> set ?rows. ar_id r \<notin> set (map ar_id pending)} \<union> set ?new"
    using set_bulk_update[of ?new ?rows] pend unfolding ids by (metis (no_types, lifting) image_mono
        list.set_map mem_Collect_eq subset_iff)
  moreover have "ar_id r \<in> set (map ar_id pending) \<longleftrightarrow> r \<in> set pending" if "r \<in> set ?rows" for r
    using that pend(2) keyed by (auto simp: keyed_def distinct_map inj_on_def)
  ultimately have set: "set (bulk_update ?new ?rows) = (set ?rows - set pending) \<union> set ?new" by blast
  have linked: "linked sha None 1 (sealed_rows ?rows @ ?new)"
    unfolding linked_append using chain linked_seal[of sha "fst link" "snd link" pending]
    by (simp add: link_def next_link_linked)
  have new_sealed: "ar_seq r \<noteq> None" if "r \<in> set ?new" for r
    using linked_sealed[OF linked_seal that] .
  have keys: "keyed (bulk_update ?new ?rows)" using keyed by (simp add: keyed_def map_id_bulk_update)
  show "sealed_rows (audit_rows (fst (seal_pending sha limit db))) = sealed_rows ?rows @ ?new"
    unfolding rows
  proof (rule sealed_rowsI[OF linked keyed_distinct[OF keys]])
    show "{r \<in> set (bulk_update ?new ?rows). ar_seq r \<noteq> None} = set (sealed_rows ?rows @ ?new)"
      unfolding set using pend(2) new_sealed by auto
  qed
  have "{r \<in> set (bulk_update ?new ?rows). ar_seq r = None} = set (pending_rows ?rows) - set pending"
    unfolding set pending_facts(1) using new_sealed by blast
  also have "\<dots> = set (drop limit (pending_rows ?rows))"
  proof -
    have "set (take limit (pending_rows ?rows)) \<inter> set (drop limit (pending_rows ?rows)) = {}"
      using dist by (intro set_take_disj_set_drop_if_distinct) (auto simp: distinct_map)
    moreover have "set (pending_rows ?rows)
        = set (take limit (pending_rows ?rows)) \<union> set (drop limit (pending_rows ?rows))"
      by (metis append_take_drop_id set_append)
    ultimately show ?thesis unfolding pending_def by blast
  qed
  finally show "{r \<in> set (audit_rows (fst (seal_pending sha limit db))). ar_seq r = None}
      = set (drop limit (pending_rows ?rows))" unfolding rows .
qed

lemma seal_pending_frontier [simp]: "frontier (fst (seal_pending sha limit db)) = frontier db"
  by (simp add: seal_pending_def Let_def case_prod_beta)

lemma keyed_seal_pending: "keyed (audit_rows db) \<Longrightarrow> keyed (audit_rows (fst (seal_pending sha limit db)))"
  by (simp add: seal_pending_def Let_def case_prod_beta keyed_def map_id_bulk_update)

interpretation sealing: chain_writer sha "\<lambda>db db'. db' = fst (seal_pending sha limit db)"
  by unfold_locales (use seal_pending_effect(3) keyed_seal_pending in \<open>auto\<close>)

section \<open>Verification of a chain\<close>

lemma walk_hash_linked:
  "hash_linked sha prev rs \<Longrightarrow> walk sha prev n l rs
     = Clean (if rs = [] then l else ar_seq (last rs)) (chain_end prev rs) (n + length rs)"
proof (induction rs arbitrary: prev n l)
  case (Cons r rs)
  with Cons.IH[of "ar_hash r" "Suc n" "ar_seq r"] show ?case by auto
qed simp

lemma walk_clean: "walk sha prev n l rs = Clean a b c \<Longrightarrow> hash_linked sha prev rs"
  by (induction rs arbitrary: prev n l) (auto split: if_splits)

lemma walk_from_linked:
  assumes "hash_linked sha prev (filter (\<lambda>r. case start of None \<Rightarrow> True | Some s \<Rightarrow> s < the (ar_seq r))
      (sealed_rows (audit_rows db)))" (is "hash_linked sha prev ?rows")
  shows "snd (walk_from sha at prev start db)
      = \<lparr>v_ok = True, v_broken_at = None, v_checked = length ?rows, v_from = start\<rparr>"
    and "audit_rows (fst (walk_from sha at prev start db)) = audit_rows db"
    and "frontier (fst (walk_from sha at prev start db))
      = (case (if ?rows = [] then start else ar_seq (last ?rows)) of None \<Rightarrow> frontier db
         | Some s \<Rightarrow> Some \<lparr>cp_verified_through = Some s, cp_verified_hash = chain_end prev ?rows,
             cp_verified_at = Some at, cp_broken_at = None\<rparr>)"
  using walk_hash_linked[OF assms, of 0 start]
  by (auto simp: walk_from_def Let_def update_checkpoint_def split: option.splits if_splits)

lemma walk_from_frontier:
  assumes "hash_linked sha prev (filter (\<lambda>r. case start of None \<Rightarrow> True | Some s \<Rightarrow> s < the (ar_seq r))
      (sealed_rows (audit_rows db)))" (is "hash_linked sha prev ?rows")
    and "start = None \<Longrightarrow> frontier_ok db"
    and "\<And>s. start = Some s \<Longrightarrow> \<exists>r \<in> set (audit_rows db). ar_seq r = Some s \<and> ar_hash r = prev"
  shows "frontier_ok (fst (walk_from sha at prev start db))"
proof (cases "?rows = []")
  case True
  with assms(2,3) show ?thesis
    unfolding frontier_ok_def walk_from_linked(2,3)[OF assms(1)]
    by (cases start) (force simp: frontier_ok_def)+
next
  case False
  then have "last ?rows \<in> set ?rows" by (rule last_in_set)
  then obtain s where "last ?rows \<in> set (audit_rows db)" "ar_seq (last ?rows) = Some s" by auto
  with False show ?thesis
    unfolding frontier_ok_def walk_from_linked(2,3)[OF assms(1)]
    by (auto simp: chain_end_def intro!: bexI[of _ "last ?rows"])
qed

lemma walk_from_ok_iff:
  "v_ok (snd (walk_from sha at prev start db)) \<longleftrightarrow> hash_linked sha prev
     (filter (\<lambda>r. case start of None \<Rightarrow> True | Some s \<Rightarrow> s < the (ar_seq r)) (sealed_rows (audit_rows db)))"
  using walk_hash_linked walk_clean
  by (fastforce simp: walk_from_def Let_def split: walk_end.splits)

lemma full_ok_iff: "v_ok (snd (verify_chain sha True at db)) \<longleftrightarrow> hash_linked sha None (sealed_rows (audit_rows db))"
  by (simp add: verify_chain_def walk_from_ok_iff)

lemma audit_rows_verify [simp]: "audit_rows (fst (verify_chain sha full at db)) = audit_rows db"
  by (auto simp: verify_chain_def walk_from_def Let_def update_checkpoint_def split: option.splits walk_end.splits)

text \<open>The row a checkpoint names.\<close>

lemma find_seq:
  assumes "linked sha prev n (sealed_rows rows)" "r \<in> set rows" "ar_seq r = Some s"
  shows "find (\<lambda>r. ar_seq r = Some s) rows = Some r"
proof -
  have "x = r" if "x \<in> set rows" "ar_seq x = Some s" for x
  proof -
    have "distinct (map (\<lambda>r. the (ar_seq r)) (sealed_rows rows))"
      unfolding linked_seqs[OF assms(1)] by (simp add: distinct_map inj_on_def)
    then have "inj_on (\<lambda>r. the (ar_seq r)) (set (sealed_rows rows))" by (simp add: distinct_map)
    then show ?thesis using that assms(2,3) by (auto simp: inj_on_def)
  qed
  moreover obtain x where x: "find (\<lambda>r. ar_seq r = Some s) rows = Some x"
    using assms(2,3) by (cases "find (\<lambda>r. ar_seq r = Some s) rows") (auto simp: find_None_iff)
  ultimately show ?thesis using find_Some_set[OF x] by simp
qed

text \<open>The chain from the row with number \<open>s\<close> on.\<close>

lemma linked_from:
  assumes "linked sha prev n rs" "r \<in> set rs" "ar_seq r = Some s"
  obtains xs ys where "rs = xs @ r # ys" "filter (\<lambda>q. s < the (ar_seq q)) rs = ys"
    "linked sha (ar_hash r) (s + 1) ys" "s = n + int (length xs)"
proof -
  obtain xs ys where rs: "rs = xs @ r # ys" using assms(2) by (meson split_list)
  with assms(1,3) have s: "s = n + int (length xs)" by (simp add: linked_append)
  with rs assms(1) have "filter (\<lambda>q. s < the (ar_seq q)) rs = ys" "linked sha (ar_hash r) (s + 1) ys"
    using linked_after[OF assms(1), of s] by (auto simp: linked_append)
  with rs s that show ?thesis by blast
qed

section \<open>Reachable audit tables\<close>

inductive audit_reachable :: "(string \<Rightarrow> string) \<Rightarrow> audit_db \<Rightarrow> bool" for sha where
  start: "audit_reachable sha empty_log"
| logged: "audit_reachable sha db \<Longrightarrow> log_row sha tables False c db = Inr db' \<Longrightarrow> audit_reachable sha db'"
| committed: "audit_reachable sha db \<Longrightarrow> commit_calls sha tables calls db = Inr db' \<Longrightarrow> audit_reachable sha db'"
| sealed: "audit_reachable sha db \<Longrightarrow> audit_reachable sha (fst (seal_pending sha limit db))"
| verified: "audit_reachable sha db \<Longrightarrow> audit_reachable sha (fst (verify_chain sha full at db))"

definition audit_ok :: "(string \<Rightarrow> string) \<Rightarrow> audit_db \<Rightarrow> bool" where
  "audit_ok sha db \<longleftrightarrow> chain_ok sha db \<and> frontier_ok db"

lemma audit_ok_log: "audit_ok sha db \<Longrightarrow> log_row sha tables d c db = Inr db' \<Longrightarrow> audit_ok sha db'"
  unfolding audit_ok_def using logging.preserves_chain logging.preserves_frontier by blast

lemma audit_ok_log_all: "audit_ok sha db \<Longrightarrow> log_all sha tables calls db = Inr db' \<Longrightarrow> audit_ok sha db'"
  by (induction calls arbitrary: db) (auto simp: bindE_eq_Inr intro: audit_ok_log)

lemma audit_ok_seal: "audit_ok sha db \<Longrightarrow> audit_ok sha (fst (seal_pending sha limit db))"
  unfolding audit_ok_def using sealing.preserves_chain sealing.preserves_frontier by blast

text \<open>What either walk answers on a chain that was not tampered with.\<close>

lemma incremental_walk:
  assumes "audit_ok sha db" "frontier db = Some cp" "cp_verified_through cp = Some s"
  obtains r ys where "find (\<lambda>r. ar_seq r = Some s) (audit_rows db) = Some r" "ar_hash r = cp_verified_hash cp"
    "filter (\<lambda>q. s < the (ar_seq q)) (sealed_rows (audit_rows db)) = ys" "linked sha (ar_hash r) (s + 1) ys"
    "length (sealed_rows (audit_rows db)) = nat s + length ys" "1 \<le> s"
proof -
  from assms have chain: "linked sha None 1 (sealed_rows (audit_rows db))"
    by (simp add: audit_ok_def chain_ok_def)
  from assms obtain r where r: "r \<in> set (audit_rows db)" "ar_seq r = Some s" "cp_verified_hash cp = ar_hash r"
    by (auto simp: audit_ok_def frontier_ok_def)
  then have "r \<in> set (sealed_rows (audit_rows db))" by simp
  from linked_from[OF chain this r(2)] obtain xs ys where "sealed_rows (audit_rows db) = xs @ r # ys"
    "filter (\<lambda>q. s < the (ar_seq q)) (sealed_rows (audit_rows db)) = ys"
    "linked sha (ar_hash r) (s + 1) ys" "s = 1 + int (length xs)" .
  with that find_seq[OF chain r(1,2)] r(3) show ?thesis by simp
qed

lemma verify_ok:
  assumes "audit_ok sha db"
  shows "v_ok (snd (verify_chain sha full at db))"
    and "frontier_ok (fst (verify_chain sha full at db))"
proof -
  from assms have chain: "linked sha None 1 (sealed_rows (audit_rows db))"
    by (simp add: audit_ok_def chain_ok_def)
  have whole: "v_ok (snd (walk_from sha at None None db)) \<and> frontier_ok (fst (walk_from sha at None None db))"
  proof -
    have h: "hash_linked sha None (filter (\<lambda>r. case None of None \<Rightarrow> True | Some s \<Rightarrow> s < the (ar_seq r))
        (sealed_rows (audit_rows db)))"
      using linked_hash[OF chain] by simp
    have "frontier_ok (fst (walk_from sha at None None db))"
      using walk_from_frontier[OF h] assms by (simp add: audit_ok_def)
    with walk_from_linked(1)[OF h] show ?thesis by simp
  qed
  have "v_ok (snd (verify_chain sha full at db)) \<and> frontier_ok (fst (verify_chain sha full at db))"
  proof (cases "\<exists>cp s. \<not> full \<and> frontier db = Some cp \<and> cp_verified_through cp = Some s")
    case False
    with whole show ?thesis by (auto simp: verify_chain_def split: option.splits)
  next
    case True
    then obtain cp s where cp: "\<not> full" "frontier db = Some cp" "cp_verified_through cp = Some s" by blast
    from incremental_walk[OF assms cp(2,3)] obtain r ys where w:
      "find (\<lambda>r. ar_seq r = Some s) (audit_rows db) = Some r" "ar_hash r = cp_verified_hash cp"
      "filter (\<lambda>q. s < the (ar_seq q)) (sealed_rows (audit_rows db)) = ys" "linked sha (ar_hash r) (s + 1) ys" .
    then have v: "verify_chain sha full at db = walk_from sha at (ar_hash r) (Some s) db"
      using cp by (simp add: verify_chain_def)
    have h: "hash_linked sha (ar_hash r) (filter (\<lambda>r. case Some s of None \<Rightarrow> True | Some s \<Rightarrow> s < the (ar_seq r))
        (sealed_rows (audit_rows db)))"
      using linked_hash[OF w(4)] w(3) by simp
    have "frontier_ok (fst (walk_from sha at (ar_hash r) (Some s) db))"
      using walk_from_frontier[OF h] find_Some_set[OF w(1)] by auto
    with walk_from_linked(1)[OF h] show ?thesis unfolding v by simp
  qed
  then show "v_ok (snd (verify_chain sha full at db))" "frontier_ok (fst (verify_chain sha full at db))" by blast+
qed

lemma audit_ok_verify: "audit_ok sha db \<Longrightarrow> audit_ok sha (fst (verify_chain sha full at db))"
  using verify_ok(2) by (auto simp: audit_ok_def chain_ok_def)

lemma reachable_audit_ok: "audit_reachable sha db \<Longrightarrow> audit_ok sha db"
proof (induction rule: audit_reachable.induct)
  case start
  then show ?case by (simp add: audit_ok_def chain_ok_def frontier_ok_def empty_log_def keyed_def sealed_rows_def)
next
  case (committed db tables calls db')
  then obtain db1 where db1: "log_all sha tables calls db = Inr db1"
    "db' = (if seal_registered tables calls db then fst (seal_pending sha 5000 db1) else db1)"
    by (auto simp: commit_calls_def bindE_eq_Inr)
  from audit_ok_log_all[OF committed(3) db1(1)] show ?case unfolding db1(2) by (simp add: audit_ok_seal)
qed (use audit_ok_log audit_ok_seal audit_ok_verify in blast)+

end
