(* ===== verification/AuditProperties.thy ===== *)
theory AuditProperties
  imports AuditChainProofs
begin

text \<open>
  The properties of the audit log: what its hashes identify, that honest operation
  verifies, what each of the two walks detects and misses, and that sealing completes
  in the order the rows were written.
\<close>

section \<open>The chain and its last hash\<close>

text \<open>What is relied on of SHA-256: a digest is a line of text that is not empty.\<close>

definition digest :: "(string \<Rightarrow> string) \<Rightarrow> bool" where
  "digest sha \<longleftrightarrow> (\<forall>x. sha x \<noteq> [] \<and> CHR 0x0A \<notin> set (sha x))"

fun link_texts :: "string option \<Rightarrow> audit_row list \<Rightarrow> string list" where
  "link_texts prev [] = []"
| "link_texts prev (r # rs) =
     link_text (text_or_empty prev) (canonical_audit (ar_fields r)) # link_texts (ar_hash r) rs"

lemma link_texts_append: "link_texts prev (xs @ ys) = link_texts prev xs @ link_texts (chain_end prev xs) ys"
  by (induction xs arbitrary: prev) simp_all

lemma hash_linked_end:
  "hash_linked sha prev rs \<Longrightarrow> rs \<noteq> [] \<Longrightarrow> \<exists>t. chain_end prev rs = Some (sha t)"
  by (induction rs rule: rev_induct) (auto simp: hash_linked_append link_hash_def chain_hash_link)

lemma end_text:
  assumes "digest sha" "hash_linked sha None rs"
  shows "CHR 0x0A \<notin> set (text_or_empty (chain_end None rs))"
    and "text_or_empty (chain_end None rs) = [] \<longleftrightarrow> rs = []"
  using assms hash_linked_end[OF assms(2)]
  by (cases "rs = []"; auto simp: digest_def text_or_empty_def)+

lemma same_end_same_chain:
  assumes "digest sha"
  shows "hash_linked sha None xs \<Longrightarrow> hash_linked sha None ys \<Longrightarrow> (xs = [] \<longleftrightarrow> ys = [])
    \<Longrightarrow> text_or_empty (chain_end None xs) = text_or_empty (chain_end None ys)
    \<Longrightarrow> inj_on sha (set (link_texts None xs) \<union> set (link_texts None ys))
    \<Longrightarrow> list_all2 (\<lambda>x y. canonical_audit (ar_fields x) = canonical_audit (ar_fields y)) xs ys"
proof (induction xs arbitrary: ys rule: rev_induct)
  case (snoc x xs)
  then obtain zs y where ys: "ys = zs @ [y]" by (cases ys rule: rev_cases) auto
  let ?t = "\<lambda>rs r. link_text (text_or_empty (chain_end None rs)) (canonical_audit (ar_fields r))"
  from snoc.prems ys have parts: "hash_linked sha None xs" "hash_linked sha None zs"
    and eq: "sha (?t xs x) = sha (?t zs y)"
    and inj: "inj_on sha (set (link_texts None (xs @ [x])) \<union> set (link_texts None (zs @ [y])))"
    by (auto simp: hash_linked_append link_hash_def chain_hash_link text_or_empty_def)
  have "?t xs x = ?t zs y"
    using inj eq by (rule inj_onD) (simp_all add: link_texts_append)
  then have "text_or_empty (chain_end None xs) = text_or_empty (chain_end None zs)
      \<and> canonical_audit (ar_fields x) = canonical_audit (ar_fields y)"
    by (rule link_text_cancel) (use end_text(1)[OF assms] parts in blast)+
  moreover from this have "xs = [] \<longleftrightarrow> zs = []"
    using end_text(2)[OF assms parts(1)] end_text(2)[OF assms parts(2)] by simp
  moreover have "inj_on sha (set (link_texts None xs) \<union> set (link_texts None zs))"
    using inj by (rule inj_on_subset) (auto simp: link_texts_append)
  ultimately show ?case
    using snoc.IH[OF parts] unfolding ys by (simp add: list_all2_appendI)
qed simp

lemma chain_tail_last: "chain_tail rows = Some r \<Longrightarrow> sealed_rows rows \<noteq> [] \<and> last (sealed_rows rows) = r"
  by (cases "sealed_rows rows" rule: rev_cases) (auto simp: chain_tail_def)

definition payloads_ok :: "audit_db \<Rightarrow> bool" where
  "payloads_ok db = list_all (\<lambda>r. json_ok (af_payload (ar_fields r))) (audit_rows db)"

section \<open>A change behind the frontier\<close>

text \<open>Rewriting the content of the rows up to number \<open>s\<close>, hashes left as they were.\<close>

definition edit_row :: "int \<Rightarrow> (audit_row \<Rightarrow> audit_fields) \<Rightarrow> audit_row \<Rightarrow> audit_row" where
  "edit_row s f r = (case ar_seq r of None \<Rightarrow> r | Some k \<Rightarrow> if k \<le> s then r\<lparr>ar_fields := f r\<rparr> else r)"

definition edit_rows :: "int \<Rightarrow> (audit_row \<Rightarrow> audit_fields) \<Rightarrow> audit_db \<Rightarrow> audit_db" where
  "edit_rows s f db = db\<lparr>audit_rows := map (edit_row s f) (audit_rows db)\<rparr>"

lemma edit_row_simps [simp]:
  "ar_seq (edit_row s f r) = ar_seq r" "ar_hash (edit_row s f r) = ar_hash r"
  by (auto simp: edit_row_def split: option.splits)

lemma edit_rows_simps [simp]:
  "frontier (edit_rows s f db) = frontier db"
  "sealed_rows (audit_rows (edit_rows s f db)) = map (edit_row s f) (sealed_rows (audit_rows db))"
  by (simp_all add: edit_rows_def sealed_rows_map)

lemma find_edit:
  "find (\<lambda>r. ar_seq r = v) (map (edit_row s f) rows) = map_option (edit_row s f) (find (\<lambda>r. ar_seq r = v) rows)"
  by (induction rows) auto

lemma edit_later: "\<forall>r \<in> set rs. s < the (ar_seq r) \<and> ar_seq r \<noteq> None \<Longrightarrow> map (edit_row s f) rs = rs"
  by (induction rs) (auto simp: edit_row_def)

lemma hash_linked_edit:
  "linked sha prev n rs \<Longrightarrow> hash_linked sha prev (map (edit_row s f) rs) \<longleftrightarrow>
     list_all (\<lambda>r. the (ar_seq r) \<le> s \<longrightarrow>
       link_hash sha (ar_prev_hash r) (f r) = link_hash sha (ar_prev_hash r) (ar_fields r)) rs"
  by (induction rs arbitrary: prev n) (auto simp: edit_row_def)

text \<open>An incremental run on the edited table, from a frontier at or beyond the edits.\<close>

lemma incremental_edited:
  assumes "audit_ok sha db" "frontier db' = Some cp" "cp_verified_through cp = Some s"
    "frontier db = Some cp0" "cp_verified_through cp0 = Some s" "cp_verified_hash cp = cp_verified_hash cp0"
    "audit_rows db' = audit_rows (edit_rows s f db)"
  shows "v_ok (snd (verify_chain sha False at db'))"
    and "\<exists>cp'. frontier (fst (verify_chain sha False at db')) = Some cp' \<and> cp_broken_at cp' = None"
proof -
  from incremental_walk[OF assms(1,4,5)] obtain r ys where w:
    "find (\<lambda>r. ar_seq r = Some s) (audit_rows db) = Some r" "ar_hash r = cp_verified_hash cp0"
    "filter (\<lambda>q. s < the (ar_seq q)) (sealed_rows (audit_rows db)) = ys" "linked sha (ar_hash r) (s + 1) ys" .
  have v: "verify_chain sha False at db' = walk_from sha at (ar_hash r) (Some s) db'"
    using assms w by (simp add: verify_chain_def edit_rows_def find_edit)
  have "\<forall>q \<in> set ys. s < the (ar_seq q) \<and> ar_seq q \<noteq> None" using w(3) by auto
  then have same: "map (edit_row s f) ys = ys" by (rule edit_later)
  have "filter (\<lambda>q. case Some s of None \<Rightarrow> True | Some s \<Rightarrow> s < the (ar_seq q)) (sealed_rows (audit_rows db')) = ys"
    using w(3) same assms(7) by (simp add: filter_map comp_def)
  then have h: "hash_linked sha (ar_hash r)
      (filter (\<lambda>q. case Some s of None \<Rightarrow> True | Some s \<Rightarrow> s < the (ar_seq q)) (sealed_rows (audit_rows db')))"
    using linked_hash[OF w(4)] by simp
  show "v_ok (snd (verify_chain sha False at db'))" unfolding v walk_from_linked(1)[OF h] by simp
  show "\<exists>cp'. frontier (fst (verify_chain sha False at db')) = Some cp' \<and> cp_broken_at cp' = None"
    unfolding v walk_from_linked(3)[OF h] using last_in_set by (fastforce split: option.splits)
qed

section \<open>A chain cut short\<close>

definition cut_rows :: "int \<Rightarrow> audit_db \<Rightarrow> audit_db" where
  "cut_rows k db = db\<lparr>audit_rows := filter (\<lambda>r. case ar_seq r of None \<Rightarrow> True | Some j \<Rightarrow> j \<le> k) (audit_rows db)\<rparr>"

lemma sealed_cut:
  assumes "linked sha None 1 (sealed_rows (audit_rows db))" "1 \<le> k" "k \<le> int (length (sealed_rows (audit_rows db)))"
  shows "sealed_rows (audit_rows (cut_rows k db)) = take (nat k) (sealed_rows (audit_rows db))"
proof -
  let ?rs = "sealed_rows (audit_rows db)"
  have parts: "linked sha None 1 (take (nat k) ?rs)"
    "linked sha (chain_end None (take (nat k) ?rs)) (1 + int (nat k)) (drop (nat k) ?rs)"
    using assms linked_append[of sha None 1 "take (nat k) ?rs" "drop (nat k) ?rs"] by (simp_all add: min_absorb2)
  have "the (ar_seq r) \<le> k" if "r \<in> set (take (nat k) ?rs)" for r
    using linked_range[OF parts(1) that] assms(2,3) by (simp add: min_absorb2)
  moreover have "\<not> the (ar_seq r) \<le> k" if "r \<in> set (drop (nat k) ?rs)" for r
    using linked_range[OF parts(2) that] assms(2) by simp
  ultimately have "filter (\<lambda>r. the (ar_seq r) \<le> k) (take (nat k) ?rs @ drop (nat k) ?rs) = take (nat k) ?rs"
    by (simp only: filter_append) (simp add: filter_empty_conv filter_id_conv)
  moreover have "sealed_rows (audit_rows (cut_rows k db)) = filter (\<lambda>r. the (ar_seq r) \<le> k) ?rs"
    unfolding sealed_rows_def cut_rows_def
    by (auto simp: filter_sort intro!: arg_cong[of _ _ "sort_key _"] filter_cong split: option.splits)
  ultimately show ?thesis by simp
qed

section \<open>Sealing in order\<close>

lemma pending_after_seal:
  assumes "chain_ok sha db"
  shows "pending_rows (audit_rows (fst (seal_pending sha limit db))) = drop limit (pending_rows (audit_rows db))"
proof -
  let ?key = "\<lambda>r. (ar_created r, ar_id r)" and ?p = "pending_rows (audit_rows db)"
  let ?rows = "audit_rows (fst (seal_pending sha limit db))"
  from assms have keyed: "keyed (audit_rows db)" by (simp add: chain_ok_def)
  have "distinct (map ar_id ?p)" by (rule pending_facts(2)[OF keyed])
  then have "distinct (map ?key ?p)" by (auto simp: distinct_map inj_on_def)
  then have "distinct (map ?key (drop limit ?p))" by (simp add: drop_map[symmetric] distinct_drop)
  moreover have "sorted (map ?key (drop limit ?p))"
    by (simp add: drop_map[symmetric] pending_rows_def sorted_wrt_drop)
  ultimately show ?thesis
    unfolding pending_rows_def[of ?rows]
    using seal_pending_effect(4)[OF assms, of limit] keyed_distinct[OF keyed_seal_pending[OF keyed]]
    by (intro sort_key_unique) (auto simp: distinct_filter)
qed

lemma audit_ok_chain: "audit_ok sha db \<Longrightarrow> chain_ok sha db"
  by (simp add: audit_ok_def)

lemma seal_runs:
  fixes sha limit db
  assumes "audit_ok sha db"
  defines "after k \<equiv> ((\<lambda>d. fst (seal_pending sha limit d)) ^^ k) db"
  shows "audit_ok sha (after k)"
    and "pending_rows (audit_rows (after k)) = drop (k * limit) (pending_rows (audit_rows db))"
    and "map ar_id (sealed_rows (audit_rows (after k)))
      = map ar_id (sealed_rows (audit_rows db)) @ take (k * limit) (map ar_id (pending_rows (audit_rows db)))"
proof (induction k)
  case 0
  show "audit_ok sha (after 0)" using assms(1) by (simp add: after_def)
  show "pending_rows (audit_rows (after 0)) = drop (0 * limit) (pending_rows (audit_rows db))"
    by (simp add: after_def)
  show "map ar_id (sealed_rows (audit_rows (after 0)))
      = map ar_id (sealed_rows (audit_rows db)) @ take (0 * limit) (map ar_id (pending_rows (audit_rows db)))"
    by (simp add: after_def)
next
  case (Suc k)
  have step: "after (Suc k) = fst (seal_pending sha limit (after k))" by (simp add: after_def)
  note chain = audit_ok_chain[OF Suc(1)]
  show "audit_ok sha (after (Suc k))" unfolding step by (rule audit_ok_seal[OF Suc(1)])
  show "pending_rows (audit_rows (after (Suc k))) = drop (Suc k * limit) (pending_rows (audit_rows db))"
    unfolding step pending_after_seal[OF chain] Suc(2) by simp
  have split: "take (Suc k * limit) (map ar_id (pending_rows (audit_rows db)))
      = take (k * limit) (map ar_id (pending_rows (audit_rows db)))
        @ map ar_id (take limit (drop (k * limit) (pending_rows (audit_rows db))))"
    using take_add[of "k * limit" limit "map ar_id (pending_rows (audit_rows db))"]
    by (simp add: take_map drop_map add.commute)
  show "map ar_id (sealed_rows (audit_rows (after (Suc k))))
      = map ar_id (sealed_rows (audit_rows db)) @ take (Suc k * limit) (map ar_id (pending_rows (audit_rows db)))"
    unfolding step seal_pending_effect(3)[OF chain] Suc(2) map_append Suc(3) map_id_seal_rows split
    by (rule append_assoc)
qed

section \<open>The rebuilt chain\<close>

lemma sealed_rechained:
  assumes "keyed rows"
  shows "sealed_rows (bulk_update (rechained sha rows) rows) = rechained sha rows"
    and "linked sha None 1 (rechained sha rows)" and "length (rechained sha rows) = length rows"
    and "keyed (bulk_update (rechained sha rows) rows)"
proof -
  let ?new = "rechained sha rows"
  show linked: "linked sha None 1 ?new" unfolding rechained_def by (rule linked_seal)
  show "length ?new = length rows" by (simp add: rechained_def)
  show keyed: "keyed (bulk_update ?new rows)" using assms by (simp add: keyed_def map_id_bulk_update)
  have ids: "distinct (map ar_id ?new)" "set (map ar_id ?new) = set (map ar_id rows)"
    using assms unfolding rechained_def map_id_seal_rows by (simp_all add: keyed_def distinct_map)
  have "set (bulk_update ?new rows) = {r \<in> set rows. ar_id r \<notin> set (map ar_id ?new)} \<union> set ?new"
    by (rule set_bulk_update[OF ids(1)]) (simp only: ids(2) order.refl)
  also have "\<dots> = set ?new" unfolding ids(2) by auto
  finally have set: "set (bulk_update ?new rows) = set ?new" .
  show "sealed_rows (bulk_update ?new rows) = ?new"
    by (rule sealed_rowsI[OF linked keyed_distinct[OF keyed]]) (use set linked_sealed[OF linked] in auto)
qed

lemma rejected_keeps_frontier:
  assumes "\<not> v_ok (snd (verify_chain sha False at db))" "frontier db = Some cp" "cp_verified_through cp = Some s"
  shows "\<exists>b. fst (verify_chain sha False at db) = update_checkpoint (\<lambda>c. c\<lparr>cp_broken_at := Some b\<rparr>) db"
  using assms by (auto simp: verify_chain_def walk_from_def Let_def split: option.splits walk_end.splits if_splits)

text \<open>An incremental run on a linked table, whatever its checkpoint names.\<close>

lemma incremental_linked:
  assumes "keyed (audit_rows db)" "linked sha None 1 (sealed_rows (audit_rows db))"
    and "frontier db = Some cp" "cp_verified_through cp = Some s"
  defines "anchored \<equiv> 1 \<le> s \<and> s \<le> int (length (sealed_rows (audit_rows db)))
      \<and> ar_hash (sealed_rows (audit_rows db) ! nat (s - 1)) = cp_verified_hash cp"
  shows "v_ok (snd (verify_chain sha False at db)) \<longleftrightarrow> anchored"
    and "anchored \<Longrightarrow> audit_ok sha (fst (verify_chain sha False at db))"
proof -
  let ?rs = "sealed_rows (audit_rows db)" and ?r = "sealed_rows (audit_rows db) ! nat (s - 1)"
  have row: "?r \<in> set ?rs \<and> ar_seq ?r = Some s" if "1 \<le> s" "s \<le> int (length ?rs)"
    using linked_at[OF assms(2) that(1)] that(2) by simp
  have found: "find (\<lambda>r. ar_seq r = Some s) (audit_rows db) = (if 1 \<le> s \<and> s \<le> int (length ?rs) then Some ?r else None)"
  proof (cases "1 \<le> s \<and> s \<le> int (length ?rs)")
    case True
    then show ?thesis using find_seq[OF assms(2), of ?r s] row by simp
  next
    case False
    have "ar_seq r \<noteq> Some s" if "r \<in> set (audit_rows db)" for r
      using linked_range[OF assms(2), of r] that False by auto
    with False show ?thesis by (auto simp: find_None_iff)
  qed
  have ok: "audit_ok sha (fst (verify_chain sha False at db))" "v_ok (snd (verify_chain sha False at db))" if "anchored"
  proof -
    have "linked sha (ar_hash ?r) (s + 1) (filter (\<lambda>q. s < the (ar_seq q)) ?rs)"
      using linked_from[OF assms(2), of ?r s] row that unfolding anchored_def by metis
    then have h: "hash_linked sha (ar_hash ?r) (filter (\<lambda>q. case Some s of None \<Rightarrow> True | Some s \<Rightarrow> s < the (ar_seq q)) ?rs)"
      using linked_hash by simp
    have v: "verify_chain sha False at db = walk_from sha at (ar_hash ?r) (Some s) db"
      using that found assms(3,4) unfolding anchored_def by (simp add: verify_chain_def)
    show "v_ok (snd (verify_chain sha False at db))" unfolding v walk_from_linked(1)[OF h] by simp
    have "frontier_ok (fst (walk_from sha at (ar_hash ?r) (Some s) db))"
      using walk_from_frontier[OF h] row that unfolding anchored_def by auto
    with assms(1,2) show "audit_ok sha (fst (verify_chain sha False at db))"
      unfolding v audit_ok_def chain_ok_def walk_from_linked(2)[OF h] by blast
  qed
  show "anchored \<Longrightarrow> audit_ok sha (fst (verify_chain sha False at db))" by (rule ok(1))
  have "anchored" if "v_ok (snd (verify_chain sha False at db))"
    using that found assms(3,4) by (auto simp: verify_chain_def anchored_def split: if_splits)
  with ok(2) show "v_ok (snd (verify_chain sha False at db)) \<longleftrightarrow> anchored" by blast
qed

section \<open>A small log\<close>

text \<open>A small log, under a digest that is easy to compute.\<close>

definition demo_sha :: "string \<Rightarrow> string" where
  "demo_sha x = CHR ''h'' # map (\<lambda>c. if c = CHR 0x0A then CHR ''/'' else c) x"

definition demo_fields :: "string \<Rightarrow> audit_fields" where
  "demo_fields a = \<lparr>af_action = a, af_subject_kind = None, af_subject_id = None, af_actor_id = None,
     af_actor_role = None, af_success = True, af_reason = None, af_ip_address = None, af_user_agent = None,
     af_correlation_id = None, af_payload = J_Obj [(''n'', J_Int 1)]\<rparr>"

definition demo_log :: "string \<Rightarrow> int \<Rightarrow> string \<Rightarrow> log_call" where
  "demo_log i at a = \<lparr>lc_row_id = i, lc_at = at, lc_context = None, lc_stamp = None,
     lc_fields = demo_fields a, lc_required = False\<rparr>"

definition no_covers :: cover_tables where
  "no_covers = \<lparr>ct_staff = [], ct_covers = []\<rparr>"

text \<open>A transaction of two rows whose first was refused commits them unsealed.\<close>

definition demo_calls :: "log_call list" where
  "demo_calls = [demo_log ''x'' 0 (replicate 129 (CHR ''a'')), demo_log ''b'' 2 ''out'', demo_log ''a'' 1 ''in'']"

definition demo_pending :: audit_db where
  "demo_pending = \<lparr>audit_rows = [unsealed_row no_covers (demo_log ''b'' 2 ''out''),
     unsealed_row no_covers (demo_log ''a'' 1 ''in'')], frontier = None\<rparr>"

definition demo_sealed :: audit_db where
  "demo_sealed = fst (seal_pending demo_sha 5000 demo_pending)"

definition demo_verified :: audit_db where
  "demo_verified = fst (verify_chain demo_sha False 9 demo_sealed)"

lemma demo_commit: "commit_calls demo_sha no_covers demo_calls empty_log = Inr demo_pending"
  by code_simp

lemma demo_log_reachable:
  "audit_reachable demo_sha demo_pending" "audit_reachable demo_sha demo_sealed"
  "audit_reachable demo_sha demo_verified"
proof -
  show p: "audit_reachable demo_sha demo_pending"
    by (rule audit_reachable.committed[OF audit_reachable.start demo_commit])
  show s: "audit_reachable demo_sha demo_sealed"
    unfolding demo_sealed_def by (rule audit_reachable.sealed[OF p])
  show "audit_reachable demo_sha demo_verified"
    unfolding demo_verified_def by (rule audit_reachable.verified[OF s])
qed

lemma demo_digest: "digest demo_sha"
  by (auto simp: digest_def demo_sha_def)

lemma demo_facts:
  "frontier demo_verified = Some \<lparr>cp_verified_through = Some 2,
     cp_verified_hash = ar_hash (the (chain_tail (audit_rows demo_verified))), cp_verified_at = Some 9, cp_broken_at = None\<rparr>"
  "map ar_id (sealed_rows (audit_rows demo_verified)) = [''a'', ''b'']"
  "map ar_id (pending_rows (audit_rows demo_pending)) = [''a'', ''b'']"
  "sealed_rows (audit_rows demo_pending) = []"
  "payloads_ok demo_verified"
  by code_simp+

section \<open>Properties\<close>

text \<open>C16: the hashed text identifies an audit record. Two records have the same canonical
  text iff they agree in every field, with payloads equal up to the order of object keys
  and to whether a whole number is an int or a float: no two fields can be run together,
  no text can pass for null, a number or a nested value.\<close>

theorem canonical_audit_identifies:
  assumes "json_ok (af_payload a)" and "json_ok (af_payload b)"
  shows "canonical_audit a = canonical_audit b \<longleftrightarrow> same_record a b"
  using assms by (rule canonical_iff)

theorem canonical_audit_identifies_witness:
  "canonical_audit (demo_fields ''in''\<lparr>af_payload := J_Obj [(''a'', J_Int 1), (''b'', J_Whole 2)]\<rparr>)
      = canonical_audit (demo_fields ''in''\<lparr>af_payload := J_Obj [(''b'', J_Int 2), (''a'', J_Int 1)]\<rparr>)
    \<and> canonical_audit (demo_fields ''in''\<lparr>af_payload := J_Str ''null''\<rparr>)
      \<noteq> canonical_audit (demo_fields ''in''\<lparr>af_payload := J_Null\<rparr>)"
  using canonical_audit_identifies
      [of "demo_fields ''in''\<lparr>af_payload := J_Obj [(''a'', J_Int 1), (''b'', J_Whole 2)]\<rparr>"
        "demo_fields ''in''\<lparr>af_payload := J_Obj [(''b'', J_Int 2), (''a'', J_Int 1)]\<rparr>"]
    canonical_audit_identifies
      [of "demo_fields ''in''\<lparr>af_payload := J_Str ''null''\<rparr>" "demo_fields ''in''\<lparr>af_payload := J_Null\<rparr>"]
  by (simp add: same_record_def demo_fields_def)

text \<open>C17: what the service writes verifies. After any sequence of direct rows, committed
  transactions, seals and verifications both walks accept, the sealed rows are numbered
  1, 2, 3 without a gap, and the incremental walk checks exactly the rows after its frontier.\<close>

theorem reachable_chain_verifies:
  assumes "audit_reachable sha db"
  shows "v_ok (snd (verify_chain sha full at db))
    \<and> map ar_seq (sealed_rows (audit_rows db)) = map (\<lambda>i. Some (1 + int i)) [0..<length (sealed_rows (audit_rows db))]
    \<and> v_checked (snd (verify_chain sha False at db)) = length (sealed_rows (audit_rows db))
        - (case frontier db of None \<Rightarrow> 0 | Some cp \<Rightarrow> nat (the (cp_verified_through cp)))"
proof -
  have ok: "audit_ok sha db" using assms by (rule reachable_audit_ok)
  then have chain: "linked sha None 1 (sealed_rows (audit_rows db))" by (simp add: audit_ok_def chain_ok_def)
  have "map ar_seq (sealed_rows (audit_rows db)) = map (Some \<circ> (\<lambda>r. the (ar_seq r))) (sealed_rows (audit_rows db))"
    using linked_sealed[OF chain] by simp
  also have "\<dots> = map (\<lambda>i. Some (1 + int i)) [0..<length (sealed_rows (audit_rows db))]"
    unfolding map_map[symmetric] linked_seqs[OF chain] by simp
  finally have seqs: "map ar_seq (sealed_rows (audit_rows db)) = \<dots>" .
  have "v_checked (snd (verify_chain sha False at db)) = length (sealed_rows (audit_rows db))
        - (case frontier db of None \<Rightarrow> 0 | Some cp \<Rightarrow> nat (the (cp_verified_through cp)))"
  proof (cases "frontier db")
    case None
    then show ?thesis
      using walk_from_linked(1)[of sha None None db at] linked_hash[OF chain] by (simp add: verify_chain_def)
  next
    case (Some cp)
    with ok obtain s where s: "cp_verified_through cp = Some s" by (auto simp: audit_ok_def frontier_ok_def)
    from incremental_walk[OF ok Some s] obtain r ys where w:
      "find (\<lambda>r. ar_seq r = Some s) (audit_rows db) = Some r" "ar_hash r = cp_verified_hash cp"
      "filter (\<lambda>q. s < the (ar_seq q)) (sealed_rows (audit_rows db)) = ys" "linked sha (ar_hash r) (s + 1) ys"
      "length (sealed_rows (audit_rows db)) = nat s + length ys" .
    then show ?thesis
      using walk_from_linked(1)[of sha "ar_hash r" "Some s" db at] linked_hash[OF w(4)] Some s
      by (simp add: verify_chain_def)
  qed
  with seqs verify_ok(1)[OF ok] show ?thesis by blast
qed

theorem reachable_chain_verifies_witness:
  "v_ok (snd (verify_chain demo_sha True 10 demo_verified))
    \<and> v_checked (snd (verify_chain demo_sha False 10 demo_verified)) = 0
    \<and> map ar_seq (sealed_rows (audit_rows demo_verified)) = [Some 1, Some 2]"
proof -
  have "length (sealed_rows (audit_rows demo_verified)) = 2"
    using arg_cong[OF demo_facts(2), of length] by simp
  then show ?thesis
    using reachable_chain_verifies[OF demo_log_reachable(3), of True 10] demo_facts(1) by (simp add: upt_rec)
qed

text \<open>C18: the last hash fixes the whole history. Two audit tables that a full walk accepts
  and whose last rows have the same hash record the same sequence of records, unless two of
  the texts they hash collide under SHA-256.\<close>

theorem accepted_chains_agree:
  assumes "digest sha" and "payloads_ok A" and "payloads_ok B"
    and "v_ok (snd (verify_chain sha True at A))" and "v_ok (snd (verify_chain sha True at B))"
    and "chain_tail (audit_rows A) = Some a" and "chain_tail (audit_rows B) = Some b" and "ar_hash a = ar_hash b"
    and "inj_on sha (set (link_texts None (sealed_rows (audit_rows A)))
      \<union> set (link_texts None (sealed_rows (audit_rows B))))"
  shows "list_all2 (\<lambda>x y. same_record (ar_fields x) (ar_fields y))
    (sealed_rows (audit_rows A)) (sealed_rows (audit_rows B))"
proof -
  note tails = chain_tail_last[OF assms(6)] chain_tail_last[OF assms(7)]
  have "list_all2 (\<lambda>x y. canonical_audit (ar_fields x) = canonical_audit (ar_fields y))
      (sealed_rows (audit_rows A)) (sealed_rows (audit_rows B))"
    by (rule same_end_same_chain[OF assms(1)]) (use assms(4,5,8,9) tails in \<open>simp_all add: full_ok_iff chain_end_def\<close>)
  then show ?thesis
  proof (rule list.rel_mono_strong)
    fix x y
    assume "x \<in> set (sealed_rows (audit_rows A))" "y \<in> set (sealed_rows (audit_rows B))"
      and "canonical_audit (ar_fields x) = canonical_audit (ar_fields y)"
    then show "same_record (ar_fields x) (ar_fields y)"
      using assms(2,3) canonical_iff by (auto simp: payloads_ok_def list_all_iff)
  qed
qed

theorem accepted_chains_agree_witness:
  "list_all2 (\<lambda>x y. same_record (ar_fields x) (ar_fields y)) (sealed_rows (audit_rows demo_verified))
    (sealed_rows (audit_rows (demo_verified\<lparr>audit_rows := map (\<lambda>r. r\<lparr>ar_created := 0\<rparr>) (audit_rows demo_verified)\<rparr>)))"
    (is "list_all2 _ (sealed_rows (audit_rows ?A)) (sealed_rows (audit_rows ?B))")
proof (rule accepted_chains_agree[OF demo_digest])
  show "v_ok (snd (verify_chain demo_sha True 0 ?A))" "v_ok (snd (verify_chain demo_sha True 0 ?B))"
    "payloads_ok ?A" "payloads_ok ?B" by code_simp+
  show "chain_tail (audit_rows ?A) = Some (the (chain_tail (audit_rows ?A)))"
    "chain_tail (audit_rows ?B) = Some (the (chain_tail (audit_rows ?B)))"
    "ar_hash (the (chain_tail (audit_rows ?A))) = ar_hash (the (chain_tail (audit_rows ?B)))" by code_simp+
  have "link_texts None (sealed_rows (audit_rows ?B)) = link_texts None (sealed_rows (audit_rows ?A))"
    "distinct (map demo_sha (link_texts None (sealed_rows (audit_rows ?A))))" by code_simp+
  then show "inj_on demo_sha (set (link_texts None (sealed_rows (audit_rows ?A)))
      \<union> set (link_texts None (sealed_rows (audit_rows ?B))))"
    by (simp add: distinct_map)
qed

text \<open>A run from the checkpoint does not see a change behind it. Whatever is written into
  the rows up to the frontier, with the hashes left alone, the incremental walk accepts; the
  full walk accepts only where no link hash changes, and when it does record a break the next
  incremental run accepts again and erases the mark.\<close>

theorem incremental_misses_history:
  assumes "audit_reachable sha db" and "frontier db = Some cp" and "cp_verified_through cp = Some s"
  shows "v_ok (snd (verify_chain sha False at (edit_rows s f db)))
    \<and> (v_ok (snd (verify_chain sha True at (edit_rows s f db))) \<longleftrightarrow>
        list_all (\<lambda>r. s < the (ar_seq r)
          \<or> link_hash sha (ar_prev_hash r) (f r) = link_hash sha (ar_prev_hash r) (ar_fields r)) (sealed_rows (audit_rows db)))
    \<and> (v_ok (snd (verify_chain sha True at (edit_rows s f db)))
      \<or> cp_broken_at (the (frontier (fst (verify_chain sha True at (edit_rows s f db))))) \<noteq> None
        \<and> v_ok (snd (verify_chain sha False later (fst (verify_chain sha True at (edit_rows s f db)))))
        \<and> cp_broken_at (the (frontier (fst (verify_chain sha False later
            (fst (verify_chain sha True at (edit_rows s f db))))))) = None)"
    (is "?inc \<and> ?full \<and> (?ok \<or> ?erased)")
proof -
  let ?db = "edit_rows s f db"
  have ok: "audit_ok sha db" using assms(1) by (rule reachable_audit_ok)
  then have chain: "linked sha None 1 (sealed_rows (audit_rows db))" by (simp add: audit_ok_def chain_ok_def)
  have ?inc using incremental_edited(1)[OF ok _ assms(3) assms(2,3) refl, of ?db f at] assms(2) by simp
  moreover have ?full
    unfolding full_ok_iff edit_rows_simps hash_linked_edit[OF chain] by (auto simp: list_all_iff)
  moreover have "?ok \<or> ?erased"
  proof (cases ?ok)
    case False
    then obtain b n where "fst (verify_chain sha True at ?db) = update_checkpoint (\<lambda>c. c\<lparr>cp_broken_at := Some b\<rparr>) ?db"
      by (auto simp: verify_chain_def walk_from_def Let_def split: walk_end.splits)
    then have db1: "frontier (fst (verify_chain sha True at ?db)) = Some (cp\<lparr>cp_broken_at := Some b\<rparr>)"
      by (simp add: update_checkpoint_def assms(2))
    from incremental_edited[OF ok db1 _ assms(2,3), of f later] assms(3)
    have "?erased" unfolding db1 by auto
    then show ?thesis by blast
  qed blast
  ultimately show ?thesis by blast
qed

theorem incremental_misses_history_witness:
  "v_ok (snd (verify_chain demo_sha False 10 (edit_rows 2 (\<lambda>r. demo_fields ''forged'') demo_verified)))
    \<and> \<not> v_ok (snd (verify_chain demo_sha True 10 (edit_rows 2 (\<lambda>r. demo_fields ''forged'') demo_verified)))
    \<and> v_ok (snd (verify_chain demo_sha False 11
        (fst (verify_chain demo_sha True 10 (edit_rows 2 (\<lambda>r. demo_fields ''forged'') demo_verified)))))"
proof -
  have "\<not> list_all (\<lambda>r. 2 < the (ar_seq r) \<or> link_hash demo_sha (ar_prev_hash r) (demo_fields ''forged'')
      = link_hash demo_sha (ar_prev_hash r) (ar_fields r)) (sealed_rows (audit_rows demo_verified))"
    by code_simp
  then show ?thesis
    using incremental_misses_history[OF demo_log_reachable(3) demo_facts(1), of 2 10 "\<lambda>r. demo_fields ''forged''" 11]
    by auto
qed

text \<open>The full walk does not see a chain cut short. With the rows after number k removed,
  k behind the frontier, the full walk accepts what is left and moves the frontier back to k,
  after which the incremental walk accepts too; an incremental run before it would have
  reported the missing row.\<close>

theorem truncation_passes_full:
  assumes "audit_reachable sha db" and "frontier db = Some cp" and "cp_verified_through cp = Some s"
    and "1 \<le> k" and "k < s"
  shows "snd (verify_chain sha False at (cut_rows k db))
      = \<lparr>v_ok = False, v_broken_at = Some s, v_checked = 1, v_from = Some s\<rparr>
    \<and> v_ok (snd (verify_chain sha True at (cut_rows k db)))
    \<and> cp_verified_through (the (frontier (fst (verify_chain sha True at (cut_rows k db))))) = Some k
    \<and> v_ok (snd (verify_chain sha False later (fst (verify_chain sha True at (cut_rows k db)))))"
proof -
  let ?cut = "cut_rows k db" and ?rs = "sealed_rows (audit_rows db)"
  have ok: "audit_ok sha db" using assms(1) by (rule reachable_audit_ok)
  then have chain: "linked sha None 1 ?rs" and keyed: "keyed (audit_rows db)"
    by (simp_all add: audit_ok_def chain_ok_def)
  from incremental_walk[OF ok assms(2,3)] have len: "s \<le> int (length ?rs)" by fastforce
  have cut: "sealed_rows (audit_rows ?cut) = take (nat k) ?rs"
    using sealed_cut[OF chain] assms(4,5) len by simp
  have linked: "linked sha None 1 (take (nat k) ?rs)"
    using chain linked_append[of sha None 1 "take (nat k) ?rs" "drop (nat k) ?rs"] by simp
  then have h: "hash_linked sha None (filter (\<lambda>r. case None of None \<Rightarrow> True | Some s \<Rightarrow> s < the (ar_seq r))
      (sealed_rows (audit_rows ?cut)))"
    using linked_hash cut by simp
  have v: "verify_chain sha True at ?cut = walk_from sha at None None ?cut" by (simp add: verify_chain_def)
  have ne: "take (nat k) ?rs \<noteq> []" using assms(4,5) len by auto
  have last: "ar_seq (last (take (nat k) ?rs)) = Some k"
    using linked_at[OF chain, of k] assms(4,5) len ne
    by (simp add: last_conv_nth min_absorb2 nat_diff_distrib)
  have frontier: "frontier (fst (verify_chain sha True at ?cut)) = Some \<lparr>cp_verified_through = Some k,
      cp_verified_hash = chain_end None (take (nat k) ?rs), cp_verified_at = Some at, cp_broken_at = None\<rparr>"
    unfolding v walk_from_linked(3)[OF h] using ne last cut by simp
  have "last (take (nat k) ?rs) \<in> set (audit_rows ?cut)"
    using last_in_set[OF ne] unfolding cut[symmetric] by simp
  then have "frontier_ok (fst (verify_chain sha True at ?cut))"
    unfolding frontier_ok_def frontier using last ne
    by (auto simp: chain_end_def intro!: bexI[of _ "last (take (nat k) ?rs)"])
  moreover have "keyed (audit_rows ?cut)" using keyed by (simp add: keyed_def cut_rows_def distinct_map_filter)
  ultimately have "audit_ok sha (fst (verify_chain sha True at ?cut))"
    using linked cut by (simp add: audit_ok_def chain_ok_def)
  then have "v_ok (snd (verify_chain sha False later (fst (verify_chain sha True at ?cut))))"
    by (rule verify_ok(1))
  moreover have "find (\<lambda>r. ar_seq r = Some s) (audit_rows ?cut) = None"
    using assms(5) by (auto simp: find_None_iff cut_rows_def)
  then have "snd (verify_chain sha False at ?cut)
      = \<lparr>v_ok = False, v_broken_at = Some s, v_checked = 1, v_from = Some s\<rparr>"
    using assms(2,3) by (simp add: verify_chain_def cut_rows_def)
  moreover have "v_ok (snd (verify_chain sha True at ?cut))" unfolding v walk_from_linked(1)[OF h] by simp
  ultimately show ?thesis unfolding frontier by simp
qed

theorem truncation_passes_full_witness:
  "\<not> v_ok (snd (verify_chain demo_sha False 10 (cut_rows 1 demo_verified)))
    \<and> v_ok (snd (verify_chain demo_sha True 10 (cut_rows 1 demo_verified)))
    \<and> v_ok (snd (verify_chain demo_sha False 11 (fst (verify_chain demo_sha True 10 (cut_rows 1 demo_verified)))))"
  using truncation_passes_full[OF demo_log_reachable(3) demo_facts(1), of 2 1 10 11] by simp

text \<open>C19: nothing stays unsealed. Enough runs of the seal chain every pending row, oldest first
  after the rows sealed before, whichever commits left their rows to it.\<close>

theorem sealing_completes:
  assumes "audit_reachable sha db" and "length (pending_rows (audit_rows db)) \<le> k * limit"
  shows "pending_rows (audit_rows (((\<lambda>d. fst (seal_pending sha limit d)) ^^ k) db)) = []
    \<and> map ar_id (sealed_rows (audit_rows (((\<lambda>d. fst (seal_pending sha limit d)) ^^ k) db)))
      = map ar_id (sealed_rows (audit_rows db)) @ map ar_id (pending_rows (audit_rows db))"
  using seal_runs(2,3)[OF reachable_audit_ok[OF assms(1)], of k limit] assms(2) by simp

theorem sealing_completes_witness:
  "map ar_id (sealed_rows (audit_rows (fst (seal_pending demo_sha 1 (fst (seal_pending demo_sha 1 demo_pending))))))
    = [''a'', ''b'']"
proof -
  have "length (pending_rows (audit_rows demo_pending)) = 2"
    using arg_cong[OF demo_facts(3), of length] by simp
  then show ?thesis
    using sealing_completes[OF demo_log_reachable(1), of 2 1] demo_facts(3,4) by (simp add: numeral_2_eq_2)
qed

text \<open>Rebuilding mends the links but not the checkpoint. After the rebuild of a broken
  chain the full walk accepts; the incremental walk, the one the health page runs, accepts
  iff the row that now has the number of the frontier has the hash recorded there, and
  otherwise goes on reporting the break whenever it is run.\<close>

theorem rebuild_mends_links:
  assumes "keyed (audit_rows db)" and "\<not> v_ok (snd (verify_chain sha False at db))"
    and "frontier db = Some cp" and "cp_verified_through cp = Some s"
  shows "v_ok (snd (verify_chain sha True later (rebuild_chain sha at True db)))
    \<and> (v_ok (snd (verify_chain sha False later (rebuild_chain sha at True db))) \<longleftrightarrow>
        1 \<le> s \<and> s \<le> int (length (audit_rows db))
        \<and> ar_hash (rechained sha (audit_rows db) ! nat (s - 1)) = cp_verified_hash cp)"
proof -
  from rejected_keeps_frontier[OF assms(2-4)] obtain b
    where b: "fst (verify_chain sha False at db) = update_checkpoint (\<lambda>c. c\<lparr>cp_broken_at := Some b\<rparr>) db" ..
  let ?mid = "(update_checkpoint (\<lambda>c. c\<lparr>cp_broken_at := Some b\<rparr>) db)
      \<lparr>audit_rows := bulk_update (rechained sha (audit_rows db)) (audit_rows db)\<rparr>"
  let ?after = "fst (verify_chain sha False at ?mid)"
  have after: "rebuild_chain sha at True db = ?after"
    using assms(2) b by (simp add: rebuild_chain_def case_prod_beta update_checkpoint_def)
  note new = sealed_rechained[OF assms(1), of sha]
  have mid: "keyed (audit_rows ?mid)" "linked sha None 1 (sealed_rows (audit_rows ?mid))"
    "frontier ?mid = Some (cp\<lparr>cp_broken_at := Some b\<rparr>)" "cp_verified_through (cp\<lparr>cp_broken_at := Some b\<rparr>) = Some s"
    using new assms(3,4) by (simp_all add: update_checkpoint_def)
  note inc = incremental_linked[OF mid, of at]
  let ?anchored = "1 \<le> s \<and> s \<le> int (length (audit_rows db))
      \<and> ar_hash (rechained sha (audit_rows db) ! nat (s - 1)) = cp_verified_hash cp"
  have "v_ok (snd (verify_chain sha True later ?after))"
    unfolding full_ok_iff using new by (simp add: linked_hash)
  moreover have "v_ok (snd (verify_chain sha False later ?after)) \<longleftrightarrow> ?anchored"
  proof (cases ?anchored)
    case True
    then have "audit_ok sha ?after" using inc(2) new by simp
    with True show ?thesis using verify_ok(1) by blast
  next
    case False
    then have "\<not> v_ok (snd (verify_chain sha False at ?mid))" using inc(1) new by simp
    from rejected_keeps_frontier[OF this mid(3,4)] obtain c
      where c: "?after = update_checkpoint (\<lambda>x. x\<lparr>cp_broken_at := Some c\<rparr>) ?mid" ..
    have "keyed (audit_rows ?after)" "linked sha None 1 (sealed_rows (audit_rows ?after))"
      "frontier ?after = Some (cp\<lparr>cp_broken_at := Some c\<rparr>)" "cp_verified_through (cp\<lparr>cp_broken_at := Some c\<rparr>) = Some s"
      unfolding c using mid new assms(3,4) by (simp_all add: update_checkpoint_def)
    from incremental_linked(1)[OF this, of later] False show ?thesis
      unfolding audit_rows_verify using new by auto
  qed
  ultimately show ?thesis unfolding after by blast
qed

theorem rebuild_mends_links_witness:
  "v_ok (snd (verify_chain demo_sha True 11 (rebuild_chain demo_sha 10 True (cut_rows 1 demo_verified))))
    \<and> \<not> v_ok (snd (verify_chain demo_sha False 11 (rebuild_chain demo_sha 10 True (cut_rows 1 demo_verified))))"
proof -
  let ?db = "cut_rows 1 demo_verified"
  have db: "keyed (audit_rows ?db)" "\<not> v_ok (snd (verify_chain demo_sha False 10 ?db))"
    "frontier ?db = frontier demo_verified" "length (audit_rows ?db) = 1"
    unfolding keyed_def by code_simp+
  show ?thesis
    using rebuild_mends_links[OF db(1,2), of _ 2 11] db(3,4) demo_facts(1) by simp
qed

end
