(* ===== verification/Outbox.thy ===== *)
theory Outbox
  imports AuditChain Notifications
begin

text \<open>
  apps/outbox/services.py and models.py: the durable outbox. A business write enqueues an
  event in its own transaction; workers claim due events, run the handler registered for
  the type and record the outcome: delivered, retried after a delay that doubles, or dead
  after the last attempt, of which the administrators are told through the inbox.

  What a handler does is a parameter: from the payload and the rest of the database it
  yields an error or none, the database it leaves, the events it enqueued and the seconds
  it took. Keys come from \<open>new_row_id\<close> and \<open>cuid\<close>. The clock is part of the state and moves
  while handlers run; the monotonic clock of the drain is the same one. A claim locks its
  rows for one transaction, so claims are single steps. The dash of the dead letter is
  written as a hyphen.
\<close>

section \<open>Rows\<close>

datatype outbox_status = PENDING_EVENT | PROCESSING_EVENT | SUCCEEDED_EVENT | DEAD_EVENT

record outbox_event =
  q_id :: string
  q_type :: string
  q_payload :: json
  q_key :: string
  q_status :: outbox_status
  q_attempts :: nat
  q_max_attempts :: nat
  q_next_attempt :: int
  q_locked_by :: string
  q_locked_until :: "int option"
  q_last_error :: string
  q_succeeded_at :: "int option"

record 'w outbox =
  queue :: "outbox_event list"
  rest_of_db :: 'w
  clock :: int
  notices :: "notice list"

section \<open>Handlers\<close>

record enqueue_request =
  rq_type :: string
  rq_payload :: json
  rq_key :: string
  rq_delay :: int

record 'w handler_outcome =
  ho_error :: "string option"
  ho_db :: 'w
  ho_enqueued :: "enqueue_request list"
  ho_seconds :: nat

record 'w handler =
  h_func :: "json \<Rightarrow> 'w \<Rightarrow> 'w handler_outcome"
  h_note :: string
  h_atomic :: bool

record 'w outbox_env =
  handlers :: "string \<Rightarrow> 'w handler option"
  new_row_id :: "nat \<Rightarrow> string"
  cuid :: "nat \<Rightarrow> string"
  new_notice_id :: "nat \<Rightarrow> string"
  directory :: user_directory

definition register :: "string \<Rightarrow> string \<Rightarrow> bool \<Rightarrow> (json \<Rightarrow> 'w \<Rightarrow> 'w handler_outcome)
    \<Rightarrow> (string \<Rightarrow> 'w handler option) \<Rightarrow> (string \<Rightarrow> 'w handler option) result" where
  "register type note atomic func hs =
     bindE (ensure (strip note \<noteq> []) ValueError) (\<lambda>_.
     bindE (ensure (hs type = None) ValueError) (\<lambda>_.
       Inr (hs(type \<mapsto> \<lparr>h_func = func, h_note = note, h_atomic = atomic\<rparr>))))"

section \<open>Enqueueing\<close>

definition base_backoff_seconds :: int where "base_backoff_seconds = 30"
definition max_backoff_seconds :: int where "max_backoff_seconds = 3600"
definition claim_seconds :: int where "claim_seconds = 300"

definition new_event :: "string \<Rightarrow> string \<Rightarrow> json \<Rightarrow> string \<Rightarrow> int \<Rightarrow> outbox_event" where
  "new_event row type payload key due = \<lparr>q_id = row, q_type = type,
     q_payload = (if json_truthy payload then payload else J_Obj []), q_key = key,
     q_status = PENDING_EVENT, q_attempts = 0, q_max_attempts = 8, q_next_attempt = due,
     q_locked_by = [], q_locked_until = None, q_last_error = [], q_succeeded_at = None\<rparr>"

definition key_used :: "string \<Rightarrow> outbox_event list \<Rightarrow> bool" where
  "key_used key rows \<longleftrightarrow> list_ex (\<lambda>e. q_key e = key) rows"

definition get_or_create :: "'w outbox_env \<Rightarrow> int \<Rightarrow> string \<Rightarrow> json \<Rightarrow> string \<Rightarrow> int
    \<Rightarrow> outbox_event list \<Rightarrow> outbox_event list \<times> outbox_event" where
  "get_or_create env at type payload key delay rows =
     (case find (\<lambda>e. q_key e = key) rows of
        Some e \<Rightarrow> (rows, e)
      | None \<Rightarrow> let e = new_event (new_row_id env (length rows)) type payload key (at + delay) in (rows @ [e], e))"

definition event_fits :: "string \<Rightarrow> string \<Rightarrow> bool" where
  "event_fits type key \<longleftrightarrow> length type \<le> 128 \<and> length key \<le> 191"

definition enqueue :: "'w outbox_env \<Rightarrow> string \<Rightarrow> json \<Rightarrow> string option \<Rightarrow> int
    \<Rightarrow> 'w outbox \<Rightarrow> ('w outbox \<times> outbox_event) result" where
  "enqueue env type payload key delay s =
     (let k = (if text_given key then the key else type @ '':'' @ cuid env (length (queue s)));
          (rows, e) = get_or_create env (clock s) type payload k delay (queue s) in
      bindE (ensure (key_used k (queue s) \<or> event_fits type k) DataError) (\<lambda>_.
        Inr (s\<lparr>queue := rows\<rparr>, e)))"

fun insert_ignoring :: "'w outbox_env \<Rightarrow> string \<Rightarrow> int \<Rightarrow> (json \<times> string) list
    \<Rightarrow> outbox_event list \<Rightarrow> outbox_event list" where
  "insert_ignoring env type due [] rows = rows"
| "insert_ignoring env type due ((payload, key) # items) rows =
     insert_ignoring env type due items
       (if key_used key rows then rows
        else rows @ [new_event (new_row_id env (length rows)) type payload key due])"

definition enqueue_many :: "'w outbox_env \<Rightarrow> string \<Rightarrow> (json \<times> string) list \<Rightarrow> int
    \<Rightarrow> 'w outbox \<Rightarrow> ('w outbox \<times> nat) result" where
  "enqueue_many env type items delay s =
     (if items = [] then Inr (s, 0)
      else bindE (ensure (list_all (\<lambda>(_, key). event_fits type key) items) DataError) (\<lambda>_.
        Inr (s\<lparr>queue := insert_ignoring env type (clock s + delay) items (queue s)\<rparr>, length items)))"

definition backoff_seconds :: "nat \<Rightarrow> int" where
  "backoff_seconds attempts = min (base_backoff_seconds * 2 ^ attempts) max_backoff_seconds"

section \<open>Dead letters\<close>

definition dead_letter_event :: "outbox_event \<Rightarrow> event" where
  "dead_letter_event e = \<lparr>ev_type = ''outbox.dead_letter'', ev_category = ''platform'', ev_priority = ''high'',
     ev_title = ''Outbox event dead-lettered'',
     ev_body = q_type e @ '' exhausted its retries: '' @ take 200 (q_last_error e)
       @ '' - fix the cause, then replay with outbox_requeue.'',
     ev_context_type = Some ''OutboxEvent'', ev_context_id = Some (q_id e), ev_sender = None\<rparr>"

definition active_admins :: "user_directory \<Rightarrow> string list" where
  "active_admins dir = map u_id (filter (\<lambda>u. u_is_active u \<and> \<not> u_deleted u \<and> ''Admin'' \<in> set (u_roles u)) (users dir))"

definition notify_dead_letter :: "'w outbox_env \<Rightarrow> outbox_event \<Rightarrow> 'w outbox \<Rightarrow> 'w outbox" where
  "notify_dead_letter env e s =
     (if active_admins (directory env) = [] then s
      else s\<lparr>notices := trigger (clock s) (new_notice_id env) (directory env) (dead_letter_event e)
        (map IdOf (active_admins (directory env))) (notices s)\<rparr>)"

section \<open>Claims\<close>

definition due_event :: "int \<Rightarrow> outbox_event \<Rightarrow> bool" where
  "due_event at e \<longleftrightarrow> q_status e = PENDING_EVENT \<and> q_next_attempt e \<le> at
     \<or> q_status e = PROCESSING_EVENT \<and> (case q_locked_until e of None \<Rightarrow> False | Some t \<Rightarrow> t < at)"

definition locked :: "int \<Rightarrow> string \<Rightarrow> outbox_event \<Rightarrow> outbox_event" where
  "locked at worker e = e\<lparr>q_status := PROCESSING_EVENT, q_locked_by := worker, q_locked_until := Some (at + claim_seconds)\<rparr>"

definition reclaimed :: "outbox_event \<Rightarrow> outbox_event" where
  "reclaimed e = e\<lparr>q_attempts := q_attempts e + 1, q_last_error := ''Reclaimed after a worker died mid-handler.''\<rparr>"

definition buried :: "outbox_event \<Rightarrow> outbox_event" where
  "buried e = e\<lparr>q_status := DEAD_EVENT, q_locked_by := [], q_locked_until := None\<rparr>"

definition exhausted :: "outbox_event \<Rightarrow> bool" where
  "exhausted e \<longleftrightarrow> q_max_attempts e \<le> q_attempts e"

definition dead_letter_exhausted :: "string list \<Rightarrow> outbox_event list \<Rightarrow> outbox_event list \<times> outbox_event list" where
  "dead_letter_exhausted ids rows =
     (let gone = filter (\<lambda>e. q_id e \<in> set ids \<and> exhausted e) rows in
      (update_where (\<lambda>e. q_id e \<in> set (map q_id gone)) buried rows, gone))"

definition claim_batch :: "'w outbox_env \<Rightarrow> nat \<Rightarrow> string \<Rightarrow> 'w outbox \<Rightarrow> 'w outbox \<times> string list" where
  "claim_batch env batch_size worker s =
     (let at = clock s;
          ids = take batch_size (map q_id (sort_key q_next_attempt (filter (due_event at) (queue s))));
          again = map q_id (filter (\<lambda>e. q_id e \<in> set ids \<and> q_status e = PROCESSING_EVENT) (queue s));
          rows1 = update_where (\<lambda>e. q_id e \<in> set ids) (locked at worker) (queue s);
          rows2 = update_where (\<lambda>e. q_id e \<in> set again) reclaimed rows1;
          (rows3, gone) = dead_letter_exhausted again rows2 in
      (fold (notify_dead_letter env) gone (s\<lparr>queue := rows3\<rparr>), ids))"

section \<open>Outcomes\<close>

definition retried :: "int \<Rightarrow> string \<Rightarrow> outbox_event \<Rightarrow> outbox_event" where
  "retried at error e = e\<lparr>q_status := PENDING_EVENT,
     q_next_attempt := at + backoff_seconds (q_attempts e), q_last_error := take 4000 error\<rparr>"

definition finished :: "int \<Rightarrow> string option \<Rightarrow> outbox_event \<Rightarrow> outbox_event" where
  "finished at error e =
     (let e1 = e\<lparr>q_attempts := q_attempts e + 1\<rparr>;
          e2 = (case error of
              None \<Rightarrow> e1\<lparr>q_status := SUCCEEDED_EVENT, q_succeeded_at := Some at, q_last_error := []\<rparr>
            | Some x \<Rightarrow> if exhausted e1 then e1\<lparr>q_status := DEAD_EVENT, q_last_error := take 4000 x\<rparr>
                else retried at x e1)
      in e2\<lparr>q_locked_by := [], q_locked_until := None\<rparr>)"

definition event_of :: "string \<Rightarrow> 'w outbox \<Rightarrow> outbox_event result" where
  "event_of i s = of_option (DoesNotExist ''OutboxEvent'') (find (\<lambda>e. q_id e = i) (queue s))"

definition finish :: "'w outbox_env \<Rightarrow> string \<Rightarrow> string option \<Rightarrow> 'w outbox \<Rightarrow> 'w outbox result" where
  "finish env i error s =
     bindE (event_of i s) (\<lambda>e.
       let e' = finished (clock s) error e;
           s' = s\<lparr>queue := update_where (\<lambda>x. q_id x = i) (\<lambda>_. e') (queue s)\<rparr> in
       Inr (if q_status e' = DEAD_EVENT then notify_dead_letter env e' s' else s'))"

fun enqueue_all :: "'w outbox_env \<Rightarrow> enqueue_request list \<Rightarrow> 'w outbox \<Rightarrow> 'w outbox" where
  "enqueue_all env [] s = s"
| "enqueue_all env (r # rs) s = enqueue_all env rs
     (s\<lparr>queue := fst (get_or_create env (clock s) (rq_type r) (rq_payload r) (rq_key r) (rq_delay r) (queue s))\<rparr>)"

definition run_handler :: "'w outbox_env \<Rightarrow> 'w handler \<Rightarrow> json \<Rightarrow> 'w outbox \<Rightarrow> 'w outbox \<times> string option" where
  "run_handler env h payload s =
     (let out = h_func h payload (rest_of_db s);
          s1 = (if h_atomic h \<and> ho_error out \<noteq> None then s
                else enqueue_all env (ho_enqueued out) (s\<lparr>rest_of_db := ho_db out\<rparr>))
      in (s1\<lparr>clock := clock s1 + int (ho_seconds out)\<rparr>, ho_error out))"

definition no_handler :: "string \<Rightarrow> string" where
  "no_handler type = ''No handler registered for '' @ [CHR 0x27] @ type @ [CHR 0x27, CHR ''.'']"

text \<open>One event of a claimed batch, and one of \<open>run_now\<close>, which reads them when it claims.\<close>

definition attempt :: "'w outbox_env \<Rightarrow> string \<Rightarrow> 'w outbox \<Rightarrow> ('w outbox \<times> bool) result" where
  "attempt env i s =
     bindE (event_of i s) (\<lambda>e.
       case handlers env (q_type e) of
         None \<Rightarrow> bindE (finish env i (Some (no_handler (q_type e))) s) (\<lambda>s'. Inr (s', False))
       | Some h \<Rightarrow> let (s1, error) = run_handler env h (q_payload e) s in
           bindE (finish env i error s1) (\<lambda>s'. Inr (s', error = None)))"

definition attempt_now :: "'w outbox_env \<Rightarrow> string \<times> string \<times> json \<Rightarrow> 'w outbox \<Rightarrow> ('w outbox \<times> bool) result" where
  "attempt_now env row s =
     (case row of (i, type, payload) \<Rightarrow>
       let (s1, error) = (case handlers env type of
             None \<Rightarrow> (s, Some (''LookupError: '' @ no_handler type))
           | Some h \<Rightarrow> run_handler env h payload s)
       in bindE (finish env i error s1) (\<lambda>s'. Inr (s', error = None)))"

record counts =
  n_succeeded :: nat
  n_failed :: nat

definition counted :: "bool \<Rightarrow> counts \<Rightarrow> counts" where
  "counted ok c = (if ok then c\<lparr>n_succeeded := n_succeeded c + 1\<rparr> else c\<lparr>n_failed := n_failed c + 1\<rparr>)"

fun run_each :: "('i \<Rightarrow> 'w outbox \<Rightarrow> ('w outbox \<times> bool) result) \<Rightarrow> 'i list \<Rightarrow> counts \<Rightarrow> 'w outbox
    \<Rightarrow> ('w outbox \<times> counts) result" where
  "run_each run [] c s = Inr (s, c)"
| "run_each run (i # is) c s = bindE (run i s) (\<lambda>(s', ok). run_each run is (counted ok c) s')"

definition claim_now :: "string list \<Rightarrow> string \<Rightarrow> 'w outbox \<Rightarrow> 'w outbox \<times> (string \<times> string \<times> json) list" where
  "claim_now keys worker s =
     (let claimed = filter (\<lambda>e. q_key e \<in> set keys \<and> q_status e = PENDING_EVENT \<and> q_next_attempt e \<le> clock s) (queue s) in
      (s\<lparr>queue := update_where (\<lambda>e. q_id e \<in> set (map q_id claimed)) (locked (clock s) worker) (queue s)\<rparr>,
       map (\<lambda>e. (q_id e, q_type e, q_payload e)) claimed))"

definition run_now :: "'w outbox_env \<Rightarrow> string list \<Rightarrow> string \<Rightarrow> 'w outbox \<Rightarrow> ('w outbox \<times> counts) result" where
  "run_now env keys worker s =
     (let (s1, claimed) = claim_now keys worker s
      in run_each (attempt_now env) claimed \<lparr>n_succeeded = 0, n_failed = 0\<rparr> s1)"

text \<open>
  The loop of the drain, at most \<open>fuel\<close> times round: \<open>None\<close> when it has not ended by then.
  \<open>processed\<close> is the sum of the two counts.
\<close>

fun drain_loop :: "nat \<Rightarrow> 'w outbox_env \<Rightarrow> nat \<Rightarrow> int \<Rightarrow> string \<Rightarrow> int \<Rightarrow> counts \<Rightarrow> 'w outbox
    \<Rightarrow> ('w outbox \<times> counts) result option" where
  "drain_loop 0 env batch_size budget worker started c s = None"
| "drain_loop (Suc fuel) env batch_size budget worker started c s =
     (if \<not> clock s - started < budget then Some (Inr (s, c))
      else case claim_batch env batch_size worker s of (s1, ids) \<Rightarrow>
        if ids = [] then Some (Inr (s1, c))
        else case run_each (attempt env) ids c s1 of
          Inl e \<Rightarrow> Some (Inl e)
        | Inr (s2, c2) \<Rightarrow> drain_loop fuel env batch_size budget worker started c2 s2)"

definition drain :: "nat \<Rightarrow> 'w outbox_env \<Rightarrow> nat \<Rightarrow> int \<Rightarrow> string \<Rightarrow> 'w outbox \<Rightarrow> ('w outbox \<times> counts) result option" where
  "drain fuel env batch_size budget worker s =
     drain_loop fuel env batch_size budget worker (clock s) \<lparr>n_succeeded = 0, n_failed = 0\<rparr> s"

definition requeue_dead :: "string list option \<Rightarrow> 'w outbox \<Rightarrow> 'w outbox \<times> nat" where
  "requeue_dead ids s =
     (let chosen = (\<lambda>e. q_status e = DEAD_EVENT \<and> (case ids of None \<Rightarrow> True | Some is \<Rightarrow> is = [] \<or> q_id e \<in> set is)) in
      (s\<lparr>queue := update_where chosen (\<lambda>e. e\<lparr>q_status := PENDING_EVENT, q_attempts := 0, q_next_attempt := clock s,
          q_locked_by := [], q_locked_until := None\<rparr>) (queue s)\<rparr>, length (filter chosen (queue s))))"

section \<open>Health\<close>

record outbox_summary =
  hs_pending :: nat
  hs_processing :: nat
  hs_dead :: nat
  hs_succeeded_24h :: nat
  hs_oldest_minutes :: int

definition oldest_pending_minutes :: "int \<Rightarrow> outbox_event list \<Rightarrow> int" where
  "oldest_pending_minutes at rows =
     (case sort_key q_next_attempt (filter (\<lambda>e. q_status e = PENDING_EVENT) rows) of [] \<Rightarrow> 0
      | e # _ \<Rightarrow> if q_next_attempt e < at then (at - q_next_attempt e) div 60 else 0)"

definition outbox_health :: "bool \<Rightarrow> 'w outbox \<Rightarrow> string list \<times> outbox_summary" where
  "outbox_health drained_recently s =
     (let rows = queue s; n = (\<lambda>st. length (filter (\<lambda>e. q_status e = st) rows));
          minutes = oldest_pending_minutes (clock s) rows in
      ((if n DEAD_EVENT \<noteq> 0 then [''outbox_dead_letters''] else [])
        @ (if 30 < minutes then [''outbox_backlog_stale''] else [])
        @ (if rows \<noteq> [] \<and> \<not> drained_recently then [''outbox_drain_stale''] else []),
       \<lparr>hs_pending = n PENDING_EVENT, hs_processing = n PROCESSING_EVENT, hs_dead = n DEAD_EVENT,
        hs_succeeded_24h = length (filter (\<lambda>e. q_status e = SUCCEEDED_EVENT
            \<and> (case q_succeeded_at e of None \<Rightarrow> False | Some t \<Rightarrow> clock s - 86400 \<le> t)) rows),
        hs_oldest_minutes = minutes\<rparr>))"

end
