(* ===== verification/OutboxSteps.thy ===== *)
theory OutboxSteps
  imports Outbox
begin

text \<open>
  The outbox as a transition system: any number of workers claim and attempt events, each
  holding the events it has claimed; a worker may die with what it holds. \<open>held\<close> lists the
  claimed events not yet attempted, of all workers together. The lemmas give each
  operation as one function on rows, the invariant of the rows, and the measure that
  every piece of work lowers.
\<close>

section \<open>Rows\<close>

definition event_facts :: "outbox_event \<Rightarrow> string \<times> string \<times> json \<times> string \<times> nat" where
  "event_facts e = (q_id e, q_type e, q_payload e, q_key e, q_max_attempts e)"

definition row_ok :: "outbox_event \<Rightarrow> bool" where
  "row_ok e \<longleftrightarrow> (q_status e = PROCESSING_EVENT \<longleftrightarrow> q_locked_until e \<noteq> None)
     \<and> (q_status e = DEAD_EVENT \<longrightarrow> exhausted e)
     \<and> (q_status e = PENDING_EVENT \<or> q_status e = PROCESSING_EVENT \<longrightarrow> \<not> exhausted e)
     \<and> (q_status e = SUCCEEDED_EVENT \<longrightarrow> q_succeeded_at e \<noteq> None) \<and> 0 < q_max_attempts e"

definition claimed_row :: "int \<Rightarrow> string \<Rightarrow> outbox_event \<Rightarrow> outbox_event" where
  "claimed_row at worker e =
     (if q_status e = PROCESSING_EVENT
      then let e1 = reclaimed (locked at worker e) in if exhausted e1 then buried e1 else e1
      else locked at worker e)"

lemmas row_updates = locked_def reclaimed_def buried_def retried_def finished_def claimed_row_def
  exhausted_def Let_def

lemma event_facts_updates [simp]:
  "event_facts (locked at w e) = event_facts e" "event_facts (reclaimed e) = event_facts e"
  "event_facts (buried e) = event_facts e" "event_facts (finished at error e) = event_facts e"
  "event_facts (claimed_row at w e) = event_facts e"
  by (simp_all add: event_facts_def row_updates split: option.splits)

lemma q_id_updates [simp]:
  "q_id (locked at w e) = q_id e" "q_id (reclaimed e) = q_id e" "q_id (buried e) = q_id e"
  "q_id (finished at error e) = q_id e" "q_id (claimed_row at w e) = q_id e"
  by (simp_all add: row_updates split: option.splits)

lemma row_ok_new: "row_ok (new_event i t p k due)"
  by (simp add: row_ok_def new_event_def exhausted_def)

lemma row_ok_claimed: "row_ok e \<Longrightarrow> due_event at e \<Longrightarrow> row_ok (claimed_row at w e)"
  by (auto simp: row_ok_def due_event_def row_updates)

lemma row_ok_finished: "row_ok e \<Longrightarrow> row_ok (finished at error e)"
  by (auto simp: row_ok_def row_updates split: option.splits)

lemma row_ok_locked: "row_ok e \<Longrightarrow> q_status e = PENDING_EVENT \<Longrightarrow> row_ok (locked at w e)"
  by (auto simp: row_ok_def row_updates)

section \<open>The queue under each operation\<close>

definition unique_ids :: "outbox_event list \<Rightarrow> bool" where
  "unique_ids rows \<longleftrightarrow> distinct (map q_id rows)"

lemma unique_id: "unique_ids rows \<Longrightarrow> e \<in> set rows \<Longrightarrow> f \<in> set rows \<Longrightarrow> q_id e = q_id f \<Longrightarrow> e = f"
  by (auto simp: unique_ids_def distinct_map inj_on_def)

lemma id_of_filtered:
  assumes "unique_ids rows" "e \<in> set rows"
  shows "q_id e \<in> set (map q_id (filter P rows)) \<longleftrightarrow> P e"
proof
  assume "q_id e \<in> set (map q_id (filter P rows))"
  then obtain f where "f \<in> set rows" "P f" "q_id e = q_id f" by auto
  with unique_id[OF assms] show "P e" by blast
next
  assume "P e"
  with assms(2) show "q_id e \<in> set (map q_id (filter P rows))" by simp
qed

lemma queue_notify [simp]:
  "queue (notify_dead_letter env e s) = queue s" "clock (notify_dead_letter env e s) = clock s"
  "rest_of_db (notify_dead_letter env e s) = rest_of_db s"
  by (simp_all add: notify_dead_letter_def)

lemma queue_fold_notify [simp]:
  "queue (fold (notify_dead_letter env) es s) = queue s" "clock (fold (notify_dead_letter env) es s) = clock s"
  "rest_of_db (fold (notify_dead_letter env) es s) = rest_of_db s"
  by (induction es arbitrary: s) simp_all

definition due_ids :: "nat \<Rightarrow> 'w outbox \<Rightarrow> string list" where
  "due_ids n s = take n (map q_id (sort_key q_next_attempt (filter (due_event (clock s)) (queue s))))"

lemma due_ids_due: "i \<in> set (due_ids n s) \<Longrightarrow> \<exists>e \<in> set (queue s). q_id e = i \<and> due_event (clock s) e"
  unfolding due_ids_def by (auto dest!: in_set_takeD)

lemma due_ids_empty:
  assumes "0 < n"
  shows "due_ids n s = [] \<longleftrightarrow> (\<forall>e \<in> set (queue s). \<not> due_event (clock s) e)"
proof -
  have "sort_key f xs = [] \<longleftrightarrow> xs = []" for f :: "outbox_event \<Rightarrow> int" and xs
    by (metis length_0_conv length_sort)
  then show ?thesis using assms by (simp add: due_ids_def filter_empty_conv)
qed

lemma distinct_due_ids:
  assumes "unique_ids (queue s)"
  shows "distinct (due_ids n s)"
proof -
  have "distinct (map q_id (filter (due_event (clock s)) (queue s)))"
    using assms by (simp add: unique_ids_def distinct_map_filter)
  then have "distinct (map q_id (sort_key q_next_attempt (filter (due_event (clock s)) (queue s))))"
    by (simp add: distinct_map)
  then show ?thesis by (simp add: due_ids_def distinct_take)
qed

lemma claim_batch_queue:
  assumes "unique_ids (queue s)"
  shows "snd (claim_batch env n worker s) = due_ids n s"
    and "queue (fst (claim_batch env n worker s))
      = update_where (\<lambda>e. q_id e \<in> set (due_ids n s)) (claimed_row (clock s) worker) (queue s)"
    and "clock (fst (claim_batch env n worker s)) = clock s"
    and "rest_of_db (fst (claim_batch env n worker s)) = rest_of_db s"
proof -
  let ?ids = "due_ids n s" and ?rows = "queue s"
  let ?again = "map q_id (filter (\<lambda>e. q_id e \<in> set ?ids \<and> q_status e = PROCESSING_EVENT) ?rows)"
  let ?f = "\<lambda>e. if q_id e \<in> set ?ids then locked (clock s) worker e else e"
  let ?g = "\<lambda>e. if q_id e \<in> set ?again then reclaimed (?f e) else ?f e"
  let ?h = "\<lambda>e. if q_id e \<in> set ?again \<and> exhausted (?g e) then buried (?g e) else ?g e"
  have rows1: "update_where (\<lambda>e. q_id e \<in> set ?ids) (locked (clock s) worker) ?rows = map ?f ?rows"
    by (simp add: update_where_def)
  have rows2: "update_where (\<lambda>e. q_id e \<in> set ?again) reclaimed (map ?f ?rows) = map ?g ?rows"
    by (simp add: update_where_def)
  have idf: "q_id (?g e) = q_id e" for e by simp
  have again: "q_id e \<in> set ?again \<longleftrightarrow> q_id e \<in> set ?ids \<and> q_status e = PROCESSING_EVENT" if "e \<in> set ?rows" for e
    by (rule id_of_filtered[OF assms that])
  let ?gone = "filter (\<lambda>e. q_id e \<in> set ?again \<and> exhausted e) (map ?g ?rows)"
  have gone: "q_id e \<in> set (map q_id ?gone) \<longleftrightarrow> q_id e \<in> set ?again \<and> exhausted (?g e)" if "e \<in> set ?rows" for e
  proof -
    have "unique_ids (map ?g ?rows)" using assms unfolding unique_ids_def by (simp only: map_map comp_def idf)
    moreover have "?g e \<in> set (map ?g ?rows)" using that by simp
    ultimately have "q_id (?g e) \<in> set (map q_id ?gone) \<longleftrightarrow> q_id (?g e) \<in> set ?again \<and> exhausted (?g e)"
      by (rule id_of_filtered)
    then show ?thesis unfolding idf .
  qed
  have rows3: "fst (dead_letter_exhausted ?again (map ?g ?rows)) = map ?h ?rows"
    unfolding dead_letter_exhausted_def Let_def fst_conv update_where_def map_map
    using gone idf by (intro map_cong[OF refl]) (simp only: comp_apply)
  have final: "map ?h ?rows = update_where (\<lambda>e. q_id e \<in> set ?ids) (claimed_row (clock s) worker) ?rows"
    unfolding update_where_def
  proof (rule map_cong[OF refl])
    fix e assume "e \<in> set ?rows"
    from again[OF this] show "?h e = (if q_id e \<in> set ?ids then claimed_row (clock s) worker e else e)"
      by (auto simp: claimed_row_def Let_def)
  qed
  have claim: "claim_batch env n worker s = (fold (notify_dead_letter env)
      (snd (dead_letter_exhausted ?again (map ?g ?rows)))
      (s\<lparr>queue := fst (dead_letter_exhausted ?again (map ?g ?rows))\<rparr>), ?ids)"
    unfolding claim_batch_def Let_def due_ids_def[symmetric] rows1 rows2 by (simp add: case_prod_beta)
  show "snd (claim_batch env n worker s) = ?ids" unfolding claim by simp
  show "queue (fst (claim_batch env n worker s)) = update_where (\<lambda>e. q_id e \<in> set ?ids) (claimed_row (clock s) worker) ?rows"
    unfolding claim fst_conv queue_fold_notify rows3 final by simp
  show "clock (fst (claim_batch env n worker s)) = clock s" "rest_of_db (fst (claim_batch env n worker s)) = rest_of_db s"
    unfolding claim by simp_all
qed

lemma finish_effect:
  assumes "finish env i error s = Inr s'" "unique_ids (queue s)"
  shows "queue s' = update_where (\<lambda>e. q_id e = i) (finished (clock s) error) (queue s)"
    and "clock s' = clock s" and "rest_of_db s' = rest_of_db s" and "\<exists>e \<in> set (queue s). q_id e = i"
proof -
  from assms(1) obtain e where e: "find (\<lambda>e. q_id e = i) (queue s) = Some e"
    and s': "s' = (if q_status (finished (clock s) error e) = DEAD_EVENT then notify_dead_letter env (finished (clock s) error e)
        (s\<lparr>queue := update_where (\<lambda>x. q_id x = i) (\<lambda>_. finished (clock s) error e) (queue s)\<rparr>)
      else s\<lparr>queue := update_where (\<lambda>x. q_id x = i) (\<lambda>_. finished (clock s) error e) (queue s)\<rparr>)"
    by (auto simp: finish_def event_of_def bindE_eq_Inr Let_def)
  note e' = find_Some_set[OF e]
  have "update_where (\<lambda>x. q_id x = i) (\<lambda>_. finished (clock s) error e) (queue s)
      = update_where (\<lambda>e. q_id e = i) (finished (clock s) error) (queue s)"
    unfolding update_where_def using unique_id[OF assms(2)] e' by (intro map_cong) auto
  with s' show "queue s' = update_where (\<lambda>e. q_id e = i) (finished (clock s) error) (queue s)" by simp
  from s' show "clock s' = clock s" "rest_of_db s' = rest_of_db s" by simp_all
  from e' show "\<exists>e \<in> set (queue s). q_id e = i" by blast
qed

section \<open>Enqueued rows\<close>

text \<open>What every operation keeps: old rows stay, with their facts, and new ones have new keys.\<close>

definition queue_ok :: "'w outbox_env \<Rightarrow> outbox_event list \<Rightarrow> bool" where
  "queue_ok env rows \<longleftrightarrow> map q_id rows = map (new_row_id env) [0..<length rows] \<and> distinct (map q_key rows)
     \<and> list_all row_ok rows"

definition fresh_ids :: "'w outbox_env \<Rightarrow> bool" where
  "fresh_ids env \<longleftrightarrow> inj (new_row_id env)"

lemma queue_ok_unique: "fresh_ids env \<Longrightarrow> queue_ok env rows \<Longrightarrow> unique_ids rows"
  by (simp add: queue_ok_def unique_ids_def fresh_ids_def distinct_map inj_on_def)

lemma q_key_facts: "event_facts e = event_facts f \<Longrightarrow> q_id e = q_id f \<and> q_key e = q_key f \<and> q_max_attempts e = q_max_attempts f"
  by (simp add: event_facts_def)

lemma queue_ok_update:
  assumes "queue_ok env rows" and "\<And>e. e \<in> set rows \<Longrightarrow> P e \<Longrightarrow> event_facts (f e) = event_facts e \<and> row_ok (f e)"
  shows "queue_ok env (update_where P f rows)"
    and "map event_facts (update_where P f rows) = map event_facts rows"
proof -
  show facts: "map event_facts (update_where P f rows) = map event_facts rows"
    unfolding update_where_def using assms(2) by simp
  have "map q_id (update_where P f rows) = map q_id rows" "map q_key (update_where P f rows) = map q_key rows"
    using arg_cong[OF facts, of "map fst"] arg_cong[OF facts, of "map (\<lambda>x. fst (snd (snd (snd x))))"]
    by (simp_all add: comp_def event_facts_def)
  moreover have "row_ok x" if x: "x \<in> set (update_where P f rows)" for x
  proof -
    from x obtain e where e: "e \<in> set rows" "x = (if P e then f e else e)"
      by (auto simp: set_update_where)
    then have "row_ok e" using assms(1) by (simp add: queue_ok_def list_all_iff)
    with e assms(2)[OF e(1)] show ?thesis by (cases "P e") simp_all
  qed
  then have "list_all row_ok (update_where P f rows)" by (simp add: list_all_iff)
  ultimately show "queue_ok env (update_where P f rows)"
    using assms(1) by (simp only: queue_ok_def length_update_where simp_thms)
qed

lemma queue_ok_append:
  assumes "queue_ok env rows" "\<not> key_used key rows"
  shows "queue_ok env (rows @ [new_event (new_row_id env (length rows)) type payload key due])"
proof -
  let ?e = "new_event (new_row_id env (length rows)) type payload key due"
  have "q_id ?e = new_row_id env (length rows)" "q_key ?e = key" by (simp_all add: new_event_def)
  moreover have "key \<notin> set (map q_key rows)" using assms(2) by (auto simp: key_used_def list_ex_iff)
  ultimately show ?thesis using assms(1) row_ok_new by (simp add: queue_ok_def)
qed

lemma key_used_find: "key_used key rows \<longleftrightarrow> find (\<lambda>e. q_key e = key) rows \<noteq> None"
  by (auto simp: key_used_def list_ex_iff find_None_iff)

lemma get_or_create_queue:
  assumes "queue_ok env rows"
  shows "queue_ok env (fst (get_or_create env at type payload key delay rows))"
    and "\<exists>new. fst (get_or_create env at type payload key delay rows) = rows @ new"
  using queue_ok_append[OF assms, of key] assms
  by (auto simp: get_or_create_def Let_def key_used_find split: option.splits)

lemma insert_ignoring_queue:
  "queue_ok env rows \<Longrightarrow> queue_ok env (insert_ignoring env type due items rows)
    \<and> (\<exists>new. insert_ignoring env type due items rows = rows @ new)"
proof (induction items arbitrary: rows)
  case (Cons item items)
  obtain payload key where item: "item = (payload, key)" by (cases item)
  show ?case
  proof (cases "key_used key rows")
    case True
    with Cons item show ?thesis by simp
  next
    case False
    from Cons.IH[OF queue_ok_append[OF Cons.prems False]] item False show ?thesis by fastforce
  qed
qed simp

lemma enqueue_all_effect:
  "queue_ok env (queue s) \<Longrightarrow> queue_ok env (queue (enqueue_all env rs s))
    \<and> (\<exists>new. queue (enqueue_all env rs s) = queue s @ new)
    \<and> clock (enqueue_all env rs s) = clock s \<and> rest_of_db (enqueue_all env rs s) = rest_of_db s"
proof (induction rs arbitrary: s)
  case (Cons r rs)
  let ?rows = "fst (get_or_create env (clock s) (rq_type r) (rq_payload r) (rq_key r) (rq_delay r) (queue s))"
  note first = get_or_create_queue[OF Cons.prems, of "clock s" "rq_type r" "rq_payload r" "rq_key r" "rq_delay r"]
  from Cons.IH[of "s\<lparr>queue := ?rows\<rparr>"] first show ?case by fastforce
qed simp

text \<open>An environment whose handlers enqueue nothing themselves.\<close>

definition quiet :: "'w outbox_env \<Rightarrow> bool" where
  "quiet env \<longleftrightarrow> (\<forall>type h payload w. handlers env type = Some h \<longrightarrow> ho_enqueued (h_func h payload w) = [])"

text \<open>The state a handler leaves.\<close>

lemma run_handler_effect:
  assumes "queue_ok env (queue s)"
  shows "queue_ok env (queue (fst (run_handler env h payload s)))"
    and "\<exists>new. queue (fst (run_handler env h payload s)) = queue s @ new"
    and "clock s \<le> clock (fst (run_handler env h payload s))"
    and "snd (run_handler env h payload s) = ho_error (h_func h payload (rest_of_db s))"
    and "quiet env \<Longrightarrow> handlers env type = Some h \<Longrightarrow> queue (fst (run_handler env h payload s)) = queue s"
  using enqueue_all_effect[of env "s\<lparr>rest_of_db := ho_db (h_func h payload (rest_of_db s))\<rparr>"
      "ho_enqueued (h_func h payload (rest_of_db s))"] assms
  by (auto simp: run_handler_def Let_def quiet_def)

text \<open>An attempt in either form: what ran before, then the finish of the event.\<close>

lemma attempt_parts:
  assumes "attempt env i s = Inr (s', ok)" "queue_ok env (queue s)"
  obtains s1 error new where "finish env i error s1 = Inr s'" "queue_ok env (queue s1)"
    "queue s1 = queue s @ new" "quiet env \<Longrightarrow> queue s1 = queue s" "clock s \<le> clock s1" "ok = (error = None)"
proof -
  from assms(1) obtain e where "event_of i s = Inr e" by (auto simp: attempt_def bindE_eq_Inr)
  show thesis
  proof (cases "handlers env (q_type e)")
    case None
    with assms \<open>event_of i s = Inr e\<close> show thesis
      by (intro that[of "Some (no_handler (q_type e))" s "[]"]) (auto simp: attempt_def bindE_eq_Inr)
  next
    case (Some h)
    note run = run_handler_effect[OF assms(2), where h = h and payload = "q_payload e"]
    obtain new where "queue (fst (run_handler env h (q_payload e) s)) = queue s @ new" using run(2) by blast
    with assms(1) \<open>event_of i s = Inr e\<close> Some run show thesis
      by (intro that[of "snd (run_handler env h (q_payload e) s)" "fst (run_handler env h (q_payload e) s)" new])
        (auto simp: attempt_def bindE_eq_Inr case_prod_beta)
  qed
qed

lemma attempt_now_parts:
  assumes "attempt_now env row s = Inr (s', ok)" "queue_ok env (queue s)"
  obtains s1 error new where "finish env (fst row) error s1 = Inr s'" "queue_ok env (queue s1)"
    "queue s1 = queue s @ new" "quiet env \<Longrightarrow> queue s1 = queue s" "clock s \<le> clock s1" "ok = (error = None)"
proof -
  obtain i type payload where row: "row = (i, type, payload)" by (cases row)
  show thesis
  proof (cases "handlers env type")
    case None
    with assms row show thesis
      by (intro that[of "Some (''LookupError: '' @ no_handler type)" s "[]"])
        (auto simp: attempt_now_def bindE_eq_Inr)
  next
    case (Some h)
    note run = run_handler_effect[OF assms(2), where h = h and payload = payload]
    obtain new where "queue (fst (run_handler env h payload s)) = queue s @ new" using run(2) by blast
    with assms(1) row Some run show thesis
      by (intro that[of "snd (run_handler env h payload s)" "fst (run_handler env h payload s)" new])
        (auto simp: attempt_now_def bindE_eq_Inr case_prod_beta)
  qed
qed

section \<open>Steps\<close>

type_synonym 'w outbox_state = "'w outbox \<times> string list"

inductive work :: "'w outbox_env \<Rightarrow> 'w outbox_state \<Rightarrow> 'w outbox_state \<Rightarrow> bool" for env where
  claimed: "claim_batch env n worker s = (s', ids) \<Longrightarrow> ids \<noteq> [] \<Longrightarrow> work env (s, held) (s', ids @ held)"
| claimed_now: "claim_now keys worker s = (s', rows) \<Longrightarrow> rows \<noteq> [] \<Longrightarrow> work env (s, held) (s', map fst rows @ held)"
| attempted: "i \<in> set held \<Longrightarrow> attempt env i s = Inr (s', ok) \<Longrightarrow> work env (s, held) (s', remove1 i held)"
| attempted_now: "fst row \<in> set held \<Longrightarrow> attempt_now env row s = Inr (s', ok)
    \<Longrightarrow> work env (s, held) (s', remove1 (fst row) held)"
| died: "i \<in> set held \<Longrightarrow> work env (s, held) (s, remove1 i held)"

inductive outside :: "'w outbox_env \<Rightarrow> 'w outbox_state \<Rightarrow> 'w outbox_state \<Rightarrow> bool" for env where
  enqueued: "enqueue env type payload key delay s = Inr (s', e) \<Longrightarrow> outside env (s, held) (s', held)"
| enqueued_many: "enqueue_many env type items delay s = Inr (s', n) \<Longrightarrow> outside env (s, held) (s', held)"
| requeued: "requeue_dead ids s = (s', n) \<Longrightarrow> outside env (s, held) (s', held)"
| elsewhere: "outside env (s, held) (s\<lparr>rest_of_db := w, clock := clock s + int k, notices := ns\<rparr>, held)"

definition outbox_step :: "'w outbox_env \<Rightarrow> 'w outbox_state \<Rightarrow> 'w outbox_state \<Rightarrow> bool" where
  "outbox_step env st st' \<longleftrightarrow> work env st st' \<or> outside env st st'"

inductive outbox_reachable :: "'w outbox_env \<Rightarrow> 'w outbox_state \<Rightarrow> bool" for env where
  start: "queue s = [] \<Longrightarrow> outbox_reachable env (s, [])"
| step: "outbox_reachable env st \<Longrightarrow> outbox_step env st st' \<Longrightarrow> outbox_reachable env st'"

text \<open>What every step does to the queue.\<close>

definition outbox_inv :: "'w outbox_env \<Rightarrow> 'w outbox_state \<Rightarrow> bool" where
  "outbox_inv env st \<longleftrightarrow> queue_ok env (queue (fst st)) \<and> set (snd st) \<subseteq> set (map q_id (queue (fst st)))"

definition keeps_events :: "outbox_event list \<Rightarrow> outbox_event list \<Rightarrow> bool" where
  "keeps_events rows rows' \<longleftrightarrow> (\<exists>new. map event_facts rows' = map event_facts rows @ new)"

lemma keeps_events_refl: "map event_facts rows' = map event_facts rows \<Longrightarrow> keeps_events rows rows'"
  by (simp add: keeps_events_def)

lemma keeps_events_append: "rows' = rows @ new \<Longrightarrow> keeps_events rows rows'"
  by (simp add: keeps_events_def)

lemma keeps_events_trans: "keeps_events a b \<Longrightarrow> keeps_events b c \<Longrightarrow> keeps_events a c"
  by (auto simp: keeps_events_def)

lemma keeps_ids: "keeps_events a b \<Longrightarrow> set (map q_id a) \<subseteq> set (map q_id b)"
proof -
  assume "keeps_events a b"
  then obtain new where "map event_facts b = map event_facts a @ new" by (auto simp: keeps_events_def)
  from arg_cong[OF this, of "map fst"] have "map q_id b = map q_id a @ map fst new"
    by (simp add: comp_def event_facts_def)
  then show ?thesis by simp
qed

lemma claim_keeps:
  assumes "fresh_ids env" "queue_ok env (queue s)" "claim_batch env n worker s = (s', ids)"
  shows "queue_ok env (queue s')" "map event_facts (queue s') = map event_facts (queue s)"
    "set ids \<subseteq> set (map q_id (queue s))" "distinct ids"
proof -
  note unique = queue_ok_unique[OF assms(1,2)]
  note claim = claim_batch_queue[OF unique, of env n worker, unfolded assms(3) fst_conv snd_conv]
  have row: "event_facts (claimed_row (clock s) worker e) = event_facts e \<and> row_ok (claimed_row (clock s) worker e)"
    if "e \<in> set (queue s)" "q_id e \<in> set (due_ids n s)" for e
  proof -
    have "due_event (clock s) e" using due_ids_due[OF that(2)] unique_id[OF unique _ that(1)] by blast
    moreover have "row_ok e" using assms(2) that(1) by (simp add: queue_ok_def list_all_iff)
    ultimately show ?thesis by (simp add: row_ok_claimed)
  qed
  show "queue_ok env (queue s')" unfolding claim(2)
    by (rule queue_ok_update(1)[OF assms(2)], rule row)
  show "map event_facts (queue s') = map event_facts (queue s)" unfolding claim(2)
    by (rule queue_ok_update(2)[OF assms(2)], rule row)
  show "set ids \<subseteq> set (map q_id (queue s))" unfolding claim(1) using due_ids_due by fastforce
  show "distinct ids" unfolding claim(1) by (rule distinct_due_ids[OF unique])
qed

lemma claim_now_keeps:
  assumes "fresh_ids env" "queue_ok env (queue s)" "claim_now keys worker s = (s', rows)"
  shows "queue_ok env (queue s')" "map event_facts (queue s') = map event_facts (queue s)"
    "set (map fst rows) \<subseteq> set (map q_id (queue s))"
proof -
  let ?P = "\<lambda>e. q_key e \<in> set keys \<and> q_status e = PENDING_EVENT \<and> q_next_attempt e \<le> clock s"
  have s': "queue s' = update_where (\<lambda>e. q_id e \<in> set (map q_id (filter ?P (queue s)))) (locked (clock s) worker) (queue s)"
    and rows: "map fst rows = map q_id (filter ?P (queue s))"
    using assms(3) unfolding claim_now_def Let_def by (auto simp del: set_map)
  have row: "event_facts (locked (clock s) worker e) = event_facts e \<and> row_ok (locked (clock s) worker e)"
    if "e \<in> set (queue s)" "q_id e \<in> set (map q_id (filter ?P (queue s)))" for e
  proof -
    have "?P e" 
      by (rule iffD1[OF id_of_filtered[OF queue_ok_unique[OF assms(1,2)] that(1)] that(2)])
    moreover have "row_ok e" using assms(2) that(1) by (simp add: queue_ok_def list_all_iff)
    ultimately show ?thesis by (simp add: row_ok_locked)
  qed
  show "queue_ok env (queue s')" unfolding s'
    by (rule queue_ok_update(1)[OF assms(2)], rule row)
  show "map event_facts (queue s') = map event_facts (queue s)" unfolding s'
    by (rule queue_ok_update(2)[OF assms(2)], rule row)
  show "set (map fst rows) \<subseteq> set (map q_id (queue s))" unfolding rows by auto
qed

lemma finish_keeps:
  assumes "fresh_ids env" "queue_ok env (queue s)" "finish env i error s = Inr s'"
  shows "queue_ok env (queue s')" "map event_facts (queue s') = map event_facts (queue s)"
proof -
  have row: "event_facts (finished (clock s) error e) = event_facts e \<and> row_ok (finished (clock s) error e)"
    if "e \<in> set (queue s)" "q_id e = i" for e
    using assms(2) that row_ok_finished by (simp add: queue_ok_def list_all_iff)
  show "queue_ok env (queue s')" unfolding finish_effect(1)[OF assms(3) queue_ok_unique[OF assms(1,2)]]
    by (rule queue_ok_update(1)[OF assms(2)], rule row)
  show "map event_facts (queue s') = map event_facts (queue s)" unfolding finish_effect(1)[OF assms(3) queue_ok_unique[OF assms(1,2)]]
    by (rule queue_ok_update(2)[OF assms(2)], rule row)
qed

lemma attempt_keeps:
  assumes "fresh_ids env" "queue_ok env (queue s)" "attempt env i s = Inr (s', ok)"
  shows "queue_ok env (queue s')" "keeps_events (queue s) (queue s')"
proof -
  obtain s1 error new where "finish env i error s1 = Inr s'" "queue_ok env (queue s1)" "queue s1 = queue s @ new"
    by (rule attempt_parts[OF assms(3,2)])
  with finish_keeps[OF assms(1) this(2,1)] show "queue_ok env (queue s')" "keeps_events (queue s) (queue s')"
    by (auto simp: keeps_events_def)
qed

lemma attempt_now_keeps:
  assumes "fresh_ids env" "queue_ok env (queue s)" "attempt_now env row s = Inr (s', ok)"
  shows "queue_ok env (queue s')" "keeps_events (queue s) (queue s')"
proof -
  obtain s1 error new where "finish env (fst row) error s1 = Inr s'" "queue_ok env (queue s1)" "queue s1 = queue s @ new"
    by (rule attempt_now_parts[OF assms(3,2)])
  with finish_keeps[OF assms(1) this(2,1)] show "queue_ok env (queue s')" "keeps_events (queue s) (queue s')"
    by (auto simp: keeps_events_def)
qed

lemma work_keeps:
  assumes "fresh_ids env" "outbox_inv env st" "work env st st'"
  shows "outbox_inv env st' \<and> keeps_events (queue (fst st)) (queue (fst st'))"
proof -
  have ok: "queue_ok env (queue (fst st))" and held: "set (snd st) \<subseteq> set (map q_id (queue (fst st)))"
    using assms(2) by (simp_all add: outbox_inv_def)
  have kept: "outbox_inv env (s', held') \<and> keeps_events (queue (fst st)) (queue s')"
    if "queue_ok env (queue s')" "keeps_events (queue (fst st)) (queue s')"
      "set held' \<subseteq> set (map q_id (queue (fst st)))" for s' held'
    using that keeps_ids[OF that(2)] by (simp only: outbox_inv_def fst_conv snd_conv simp_thms order.trans)
  note fewer = order.trans[OF set_remove1_subset held]
  show ?thesis
    using assms(3)
  proof (cases rule: work.cases)
    case (claimed n worker s s' ids held)
    note keeps = claim_keeps[OF assms(1) ok[unfolded claimed(1) fst_conv] claimed(3)]
    show ?thesis unfolding claimed(2) fst_conv
      by (rule kept[OF keeps(1)]) (use keeps held in \<open>simp_all add: claimed(1) keeps_events_refl\<close>)
  next
    case (claimed_now keys worker s s' rows held)
    note keeps = claim_now_keeps[OF assms(1) ok[unfolded claimed_now(1) fst_conv] claimed_now(3)]
    show ?thesis unfolding claimed_now(2) fst_conv
      by (rule kept[OF keeps(1)]) (use keeps held in \<open>simp_all add: claimed_now(1) keeps_events_refl\<close>)
  next
    case (attempted i held s s' ok)
    note keeps = attempt_keeps[OF assms(1) ok[unfolded attempted(1) fst_conv] attempted(4)]
    show ?thesis unfolding attempted(2) fst_conv
      by (rule kept[OF keeps(1)]) (use keeps fewer[unfolded attempted(1) snd_conv fst_conv] in \<open>simp_all add: attempted(1)\<close>)
  next
    case (attempted_now row held s s' ok)
    note keeps = attempt_now_keeps[OF assms(1) ok[unfolded attempted_now(1) fst_conv] attempted_now(4)]
    show ?thesis unfolding attempted_now(2) fst_conv
      by (rule kept[OF keeps(1)]) (use keeps fewer[unfolded attempted_now(1) snd_conv fst_conv] in \<open>simp_all add: attempted_now(1)\<close>)
  next
    case (died i held s)
    show ?thesis unfolding died(2) fst_conv
      by (rule kept) (use ok fewer[unfolded died(1) snd_conv fst_conv] in \<open>simp_all add: died(1) keeps_events_refl\<close>)
  qed
qed

lemma outside_keeps:
  assumes "fresh_ids env" "outbox_inv env st" "outside env st st'"
  shows "outbox_inv env st' \<and> keeps_events (queue (fst st)) (queue (fst st'))"
proof -
  have ok: "queue_ok env (queue (fst st))" and held: "set (snd st) \<subseteq> set (map q_id (queue (fst st)))"
    using assms(2) by (simp_all add: outbox_inv_def)
  have kept: "outbox_inv env (s', snd st) \<and> keeps_events (queue (fst st)) (queue s')"
    if "queue_ok env (queue s')" "keeps_events (queue (fst st)) (queue s')" for s'
    using that order.trans[OF held keeps_ids[OF that(2)]] by (simp only: outbox_inv_def fst_conv snd_conv simp_thms)
  show ?thesis
    using assms(3)
  proof (cases rule: outside.cases)
    case (enqueued type payload key delay s s' e held)
    let ?k = "if text_given key then the key else type @ '':'' @ cuid env (length (queue s))"
    have "queue s' = fst (get_or_create env (clock s) type payload ?k delay (queue s))"
      using enqueued(3) by (auto simp: enqueue_def Let_def bindE_eq_Inr case_prod_beta)
    with get_or_create_queue[OF ok, of "clock s" type payload ?k delay] enqueued(1) kept[of s']
    show ?thesis unfolding enqueued(2) fst_conv using keeps_events_append enqueued(1) by fastforce
  next
    case (enqueued_many type items delay s s' n held)
    have "queue s' = queue s \<or> (\<exists>due. queue s' = insert_ignoring env type due items (queue s))"
      using enqueued_many(3) by (auto simp: enqueue_many_def bindE_eq_Inr split: if_splits)
    with insert_ignoring_queue[OF ok] ok enqueued_many(1) kept[of s'] keeps_events_append keeps_events_refl
    show ?thesis unfolding enqueued_many(2) fst_conv by fastforce
  next
    case (requeued ids s s' n held)
    let ?chosen = "\<lambda>e. q_status e = DEAD_EVENT \<and> (case ids of None \<Rightarrow> True | Some is \<Rightarrow> is = [] \<or> q_id e \<in> set is)"
    let ?f = "\<lambda>e. e\<lparr>q_status := PENDING_EVENT, q_attempts := 0, q_next_attempt := clock s, q_locked_by := [], q_locked_until := None\<rparr>"
    have s': "queue s' = update_where ?chosen ?f (queue s)"
      using requeued(3) by (auto simp: requeue_dead_def Let_def)
    have row: "event_facts (?f e) = event_facts e \<and> row_ok (?f e)" if "e \<in> set (queue s)" "?chosen e" for e
      using ok requeued(1) that by (auto simp: queue_ok_def list_all_iff event_facts_def row_ok_def exhausted_def)
    have "queue_ok env (queue s')" unfolding s'
      by (rule queue_ok_update(1)[OF ok[unfolded requeued(1) fst_conv]], rule row)
    moreover have "map event_facts (queue s') = map event_facts (queue s)" unfolding s'
      by (rule queue_ok_update(2)[OF ok[unfolded requeued(1) fst_conv]], rule row)
    ultimately show ?thesis using kept[of s'] requeued(1) keeps_events_refl unfolding requeued(2) by simp
  next
    case (elsewhere s held ns k w)
    with ok kept[of "s\<lparr>rest_of_db := w, clock := clock s + int k, notices := ns\<rparr>"] keeps_events_refl
    show ?thesis by simp
  qed
qed

lemma step_keeps:
  assumes "fresh_ids env" "outbox_inv env st" "outbox_step env st st'"
  shows "outbox_inv env st' \<and> keeps_events (queue (fst st)) (queue (fst st'))"
  using assms work_keeps outside_keeps unfolding outbox_step_def by blast

lemma steps_keep:
  assumes "(outbox_step env)\<^sup>*\<^sup>* st st'" "fresh_ids env" "outbox_inv env st"
  shows "outbox_inv env st' \<and> keeps_events (queue (fst st)) (queue (fst st'))"
  using assms
proof (induction rule: rtranclp_induct)
  case base
  then show ?case by (simp add: keeps_events_refl)
next
  case (step y z)
  with step_keeps[OF step.prems(1) _ step.hyps(2)] keeps_events_trans show ?case by blast
qed

lemma reachable_outbox_inv:
  assumes "outbox_reachable env st" "fresh_ids env"
  shows "outbox_inv env st"
  using assms
proof (induction rule: outbox_reachable.induct)
  case (start s)
  then show ?case by (simp add: outbox_inv_def queue_ok_def)
next
  case (step st st')
  then show ?case using step_keeps by blast
qed

end
