(* ===== verification/OutboxProperties.thy ===== *)
theory OutboxProperties
  imports OutboxSteps
begin

text \<open>
  The properties of the outbox: no event is lost or doubled, work ends whatever the
  workers do, the drain is a run of worker steps that ends with nothing due, and where
  claims fail to keep an event to one worker.
\<close>

section \<open>The measure of the work left\<close>













section \<open>The drain as a run of steps\<close>




section \<open>The end of the drain\<close>












section \<open>A small outbox\<close>

text \<open>Handlers that count their runs in the rest of the database: one delivers, one fails.\<close>

definition demo_handlers :: "string \<Rightarrow> nat handler option" where
  "demo_handlers type =
     (if type = ''ok'' then Some \<lparr>h_func = (\<lambda>p w. \<lparr>ho_error = None, ho_db = w + 1, ho_enqueued = [], ho_seconds = 0\<rparr>),
        h_note = ''counts'', h_atomic = True\<rparr>
      else if type = ''slow'' then Some \<lparr>h_func = (\<lambda>p w. \<lparr>ho_error = (if w = 0 then None else Some ''gone''),
        ho_db = w + 1, ho_enqueued = [], ho_seconds = 0\<rparr>), h_note = ''counts'', h_atomic = False\<rparr>
      else None)"

definition demo_row_id :: "nat \<Rightarrow> string" where
  "demo_row_id k = replicate k (CHR ''e'')"

definition demo_outbox_env :: "nat outbox_env" where
  "demo_outbox_env = \<lparr>handlers = demo_handlers, new_row_id = demo_row_id, cuid = demo_row_id, new_notice_id = demo_row_id,
     directory = \<lparr>users = [\<lparr>u_id = ''root'', u_roles = [''Admin''], u_active_role = ''Admin'', u_is_active = True, u_deleted = False\<rparr>],
       staff_profiles = []\<rparr>\<rparr>"

definition demo_outbox :: "nat outbox" where
  "demo_outbox = \<lparr>queue = [], rest_of_db = 0, clock = 0, notices = []\<rparr>"

definition demo_enqueued :: "nat outbox" where
  "demo_enqueued = (case enqueue demo_outbox_env ''slow'' (J_Obj []) (Some ''k'') 0 demo_outbox of Inr (s, _) \<Rightarrow> s | Inl _ \<Rightarrow> demo_outbox)"

lemma demo_env_ok: "fresh_ids demo_outbox_env" "quiet demo_outbox_env"
  by (auto simp: fresh_ids_def quiet_def demo_outbox_env_def demo_row_id_def demo_handlers_def inj_def
      dest: arg_cong[of _ _ length] split: if_splits)

text \<open>
  One event claimed by a worker that takes longer than its claim; a second worker claims it
  again and delivers it, while the first still holds it.
\<close>

definition demo_claimed :: "nat outbox" where
  "demo_claimed = fst (claim_batch demo_outbox_env 50 ''first'' demo_enqueued)"

definition demo_expired :: "nat outbox" where
  "demo_expired = demo_claimed\<lparr>rest_of_db := rest_of_db demo_claimed, clock := clock demo_claimed + int 301,
     notices := notices demo_claimed\<rparr>"

definition demo_reclaimed :: "nat outbox" where
  "demo_reclaimed = fst (claim_batch demo_outbox_env 50 ''second'' demo_expired)"

definition demo_delivered :: "nat outbox" where
  "demo_delivered = (case attempt demo_outbox_env [] demo_reclaimed of Inr (s, _) \<Rightarrow> s | Inl _ \<Rightarrow> demo_reclaimed)"

definition demo_event :: outbox_event where
  "demo_event = hd (queue demo_enqueued)"

definition demo_worn :: "nat outbox" where
  "demo_worn = demo_expired\<lparr>queue := map (q_attempts_update (\<lambda>_. 7)) (queue demo_expired)\<rparr>"

lemma demo_runs:
  "enqueue demo_outbox_env ''slow'' (J_Obj []) (Some ''k'') 0 demo_outbox = Inr (demo_enqueued, demo_event)"
  "claim_batch demo_outbox_env 50 ''first'' demo_enqueued = (demo_claimed, [[]])"
  "claim_batch demo_outbox_env 50 ''second'' demo_expired = (demo_reclaimed, [[]])"
  "attempt demo_outbox_env [] demo_reclaimed = Inr (demo_delivered, True)"
  by code_simp+

lemma demo_steps:
  "outbox_step demo_outbox_env (demo_outbox, []) (demo_enqueued, [])"
  "outbox_step demo_outbox_env (demo_enqueued, []) (demo_claimed, [[]])"
  "outbox_step demo_outbox_env (demo_claimed, [[]]) (demo_expired, [[]])"
  "outbox_step demo_outbox_env (demo_expired, [[]]) (demo_reclaimed, [[], []])"
  "outbox_step demo_outbox_env (demo_reclaimed, [[], []]) (demo_delivered, [[]])"
  using outside.enqueued[OF demo_runs(1)] work.claimed[OF demo_runs(2), of "[]"]
    outside.elsewhere[where s = demo_claimed and held = "[[]]" and w = "rest_of_db demo_claimed" and k = 301
      and ns = "notices demo_claimed"]
    work.claimed[OF demo_runs(3), of "[[]]"]
    work.attempted[OF _ demo_runs(4), of "[[], []]"]
  by (simp_all add: outbox_step_def demo_expired_def)

lemma demo_outbox_reachable:
  "outbox_reachable demo_outbox_env (demo_outbox, [])"
  "outbox_reachable demo_outbox_env (demo_enqueued, [])"
  "outbox_reachable demo_outbox_env (demo_delivered, [[]])"
proof -
  show empty: "outbox_reachable demo_outbox_env (demo_outbox, [])"
    by (rule outbox_reachable.start) (simp add: demo_outbox_def)
  show one: "outbox_reachable demo_outbox_env (demo_enqueued, [])"
    by (rule outbox_reachable.step[OF empty demo_steps(1)])
  show "outbox_reachable demo_outbox_env (demo_delivered, [[]])"
    by (rule outbox_reachable.step[OF outbox_reachable.step[OF outbox_reachable.step[OF
      outbox_reachable.step[OF one demo_steps(2)] demo_steps(3)] demo_steps(4)] demo_steps(5)])
qed

lemma demo_run: "(outbox_step demo_outbox_env)\<^sup>*\<^sup>* (demo_enqueued, []) (demo_delivered, [[]])"
  using demo_steps(2-5) by (meson converse_rtranclp_into_rtranclp rtranclp.rtrancl_refl)

lemma event_of_set: "event_of i s = Inr e \<Longrightarrow> e \<in> set (queue s) \<and> q_id e = i"
  by (auto simp: event_of_def dest: find_Some_set)

lemma event_of_updated:
  assumes "event_of i s = Inr e" "queue s' = update_where P f (queue s @ new)" "\<And>e. q_id (f e) = q_id e"
  shows "event_of i s' = Inr (if P e then f e else e)"
proof -
  have "find (\<lambda>e. q_id e = i) (queue s @ new) = Some e"
    using assms(1) by (auto simp: event_of_def find_append)
  then show ?thesis
    unfolding event_of_def assms(2) by (subst find_update_where) (simp_all add: assms(3))
qed

text \<open>What the next attempt does to an event whose handler is known.\<close>

lemma attempt_known:
  assumes "fresh_ids env" "queue_ok env (queue s)" "event_of i s = Inr e" "handlers env (q_type e) = Some h"
  defines "out \<equiv> h_func h (q_payload e) (rest_of_db s)"
  shows "\<exists>s2 at. attempt env i s = Inr (s2, ho_error out = None) \<and> event_of i s2 = Inr (finished at (ho_error out) e)
    \<and> rest_of_db s2 = (if h_atomic h \<and> ho_error out \<noteq> None then rest_of_db s else ho_db out)"
proof -
  let ?run = "run_handler env h (q_payload e) s"
  note run = run_handler_effect[OF assms(2), where h = h and payload = "q_payload e"]
  obtain new where new: "queue (fst ?run) = queue s @ new" using run(2) by blast
  have err: "snd ?run = ho_error out" using run(4) by (simp add: out_def)
  have rest: "rest_of_db (fst ?run) = (if h_atomic h \<and> ho_error out \<noteq> None then rest_of_db s else ho_db out)"
    using enqueue_all_effect[of env "s\<lparr>rest_of_db := ho_db out\<rparr>" "ho_enqueued out"] assms(2)
    by (auto simp: run_handler_def Let_def out_def)
  have same: "event_of i (fst ?run) = Inr e"
    using event_of_updated[OF assms(3), of "fst ?run" "\<lambda>_. False" "\<lambda>e. e" new] new by (simp add: update_where_def)
  then obtain s2 where s2: "finish env i (ho_error out) (fst ?run) = Inr s2"
    by (auto simp: finish_def Let_def)
  note fin = finish_effect[OF s2 queue_ok_unique[OF assms(1) run(1)]]
  have "attempt env i s = Inr (s2, ho_error out = None)"
    using assms(3,4) s2 err by (simp add: attempt_def case_prod_beta)
  moreover have "event_of i s2 = Inr (finished (clock (fst ?run)) (ho_error out) e)"
    using event_of_updated[OF assms(3), of s2 "\<lambda>e. q_id e = i" "finished (clock (fst ?run)) (ho_error out)" new]
      fin(1) new event_of_set[OF assms(3)] by simp
  ultimately show ?thesis using fin(3) rest by metis
qed

section \<open>Properties\<close>

text \<open>C20: no event is lost, doubled or altered. From any reachable state on, whatever workers,
  handlers and callers do, every row stays with its type, payload, key and budget, new rows
  are appended under new keys, and each row is consistent: locked exactly while processing,
  out of attempts exactly when dead, stamped when delivered.\<close>

theorem outbox_events_kept:
  assumes "fresh_ids env" and "outbox_reachable env st" and "(outbox_step env)\<^sup>*\<^sup>* st st'"
  shows "(\<exists>new. map event_facts (queue (fst st')) = map event_facts (queue (fst st)) @ new)
    \<and> distinct (map q_key (queue (fst st'))) \<and> list_all row_ok (queue (fst st'))"
  using steps_keep[OF assms(3,1) reachable_outbox_inv[OF assms(2,1)]]
  by (simp add: outbox_inv_def queue_ok_def keeps_events_def)

theorem outbox_events_kept_witness:
  "(\<exists>new. map event_facts (queue demo_delivered) = map event_facts (queue demo_enqueued) @ new)
    \<and> distinct (map q_key (queue demo_delivered)) \<and> list_all row_ok (queue demo_delivered)"
  using outbox_events_kept[OF demo_env_ok(1) demo_outbox_reachable(2) demo_run] by (simp only: fst_conv)





text \<open>A key is enqueued once. After an event was enqueued under a key, enqueueing under that
  key at any later time writes nothing and answers with the same event, whatever has become
  of it: also when it has long been delivered, or is dead.\<close>

theorem enqueue_converges:
  assumes "fresh_ids env" and "outbox_reachable env (s, held)" and "key \<noteq> []"
    and "enqueue env type payload (Some key) delay s = Inr (s1, e1)"
    and "(outbox_step env)\<^sup>*\<^sup>* (s1, held) (s2, held2)"
  shows "\<exists>e2. enqueue env type2 payload2 (Some key) delay2 s2 = Inr (s2, e2) \<and> event_facts e2 = event_facts e1"
proof -
  have step: "outbox_step env (s, held) (s1, held)"
    using outside.enqueued[OF assms(4)] by (simp add: outbox_step_def)
  have inv1: "outbox_inv env (s1, held)"
    using step_keeps[OF assms(1) reachable_outbox_inv[OF assms(2,1)] step] by blast
  from steps_keep[OF assms(5,1) inv1] have inv2: "queue_ok env (queue s2)" and keeps: "keeps_events (queue s1) (queue s2)"
    by (simp_all add: outbox_inv_def)
  have e1: "e1 \<in> set (queue s1) \<and> q_key e1 = key"
    using assms(3,4) by (auto simp: enqueue_def text_given_def Let_def bindE_eq_Inr get_or_create_def new_event_def
        dest: find_Some_set split: option.splits)
  moreover obtain new where "map event_facts (queue s2) = map event_facts (queue s1) @ new"
    using keeps by (auto simp: keeps_events_def)
  ultimately have "event_facts e1 \<in> set (map event_facts (queue s2))" by (simp only: set_append) simp
  then obtain e2 where e2: "e2 \<in> set (queue s2)" "event_facts e2 = event_facts e1" by auto
  then have key: "q_key e2 = key" using e1 q_key_facts by metis
  have "find (\<lambda>e. q_key e = key) (queue s2) = Some e2"
  proof -
    obtain x where x: "find (\<lambda>e. q_key e = key) (queue s2) = Some x"
      using e2(1) key by (cases "find (\<lambda>e. q_key e = key) (queue s2)") (auto simp: find_None_iff)
    with find_Some_set[OF x] e2(1) key inv2 have "x = e2"
      by (auto simp: queue_ok_def distinct_map inj_on_def)
    with x show ?thesis by simp
  qed
  then have "enqueue env type2 payload2 (Some key) delay2 s2 = Inr (s2, e2)"
    using assms(3) by (simp add: enqueue_def text_given_def get_or_create_def key_used_find)
  with e2(2) show ?thesis by blast
qed

theorem enqueue_converges_witness:
  "\<exists>e2. enqueue demo_outbox_env ''ok'' (J_Int 1) (Some ''k'') 5 demo_delivered = Inr (demo_delivered, e2)
    \<and> event_facts e2 = event_facts demo_event"
  by (rule enqueue_converges[OF demo_env_ok(1) demo_outbox_reachable(1) _ demo_runs(1) demo_run]) simp

text \<open>A dead letter is still handed to its handler. A claim that takes back an event on its
  last attempt retires it as dead, tells the administrators and returns it in the batch all
  the same: the drain runs it, and when the handler succeeds the dead event is delivered.\<close>

theorem exhausted_event_still_run:
  assumes "fresh_ids env" and "queue_ok env (queue s)" and "event_of i s = Inr e"
    and "q_status e = PROCESSING_EVENT" and "q_max_attempts e = q_attempts e + 1"
    and "i \<in> set (snd (claim_batch env n w s))" and "handlers env (q_type e) = Some h"
    and "ho_error (h_func h (q_payload e) (rest_of_db s)) = None"
  shows "\<exists>e1 s2 e2. event_of i (fst (claim_batch env n w s)) = Inr e1 \<and> q_status e1 = DEAD_EVENT
    \<and> attempt env i (fst (claim_batch env n w s)) = Inr (s2, True)
    \<and> event_of i s2 = Inr e2 \<and> q_status e2 = SUCCEEDED_EVENT
    \<and> rest_of_db s2 = ho_db (h_func h (q_payload e) (rest_of_db s))"
proof -
  let ?s1 = "fst (claim_batch env n w s)"
  note claim = claim_batch_queue[OF queue_ok_unique[OF assms(1,2)], of env n w]
  have ok: "queue_ok env (queue ?s1)"
    using claim_keeps(1)[OF assms(1,2), of n w ?s1 "snd (claim_batch env n w s)"] by simp
  have "event_of i ?s1 = Inr (claimed_row (clock s) w e)"
    using event_of_updated[OF assms(3), of ?s1 _ "claimed_row (clock s) w" "[]"] claim(2) assms(6)
      event_of_set[OF assms(3)] unfolding claim(1) by simp
  moreover have "q_status (claimed_row (clock s) w e) = DEAD_EVENT" "q_type (claimed_row (clock s) w e) = q_type e"
    "q_payload (claimed_row (clock s) w e) = q_payload e"
    using assms(4,5) by (simp_all add: row_updates)
  ultimately obtain e1 where e1: "event_of i ?s1 = Inr e1" "q_status e1 = DEAD_EVENT" "q_type e1 = q_type e" "q_payload e1 = q_payload e"
    by blast
  from attempt_known[OF assms(1) ok e1(1), of h] assms(7,8) e1 claim(4)
  obtain s2 at where "attempt env i ?s1 = Inr (s2, True)" "event_of i s2 = Inr (finished at None e1)"
    "rest_of_db s2 = ho_db (h_func h (q_payload e) (rest_of_db s))" by auto
  moreover have "q_status (finished at None e1) = SUCCEEDED_EVENT" for at by (simp add: finished_def)
  ultimately show ?thesis using e1(1,2) by blast
qed

theorem exhausted_event_still_run_witness:
  "\<exists>e1 s2. event_of [] (fst (claim_batch demo_outbox_env 50 ''second'' demo_worn)) = Inr e1 \<and> q_status e1 = DEAD_EVENT
    \<and> attempt demo_outbox_env [] (fst (claim_batch demo_outbox_env 50 ''second'' demo_worn)) = Inr (s2, True)"
proof -
  let ?e = "hd (queue demo_worn)"
  have "queue_ok demo_outbox_env (queue demo_worn)" by code_simp
  moreover have "event_of [] demo_worn = Inr ?e" "q_status ?e = PROCESSING_EVENT" "q_max_attempts ?e = q_attempts ?e + 1"
    "[] \<in> set (snd (claim_batch demo_outbox_env 50 ''second'' demo_worn))" "q_type ?e = ''slow''" "rest_of_db demo_worn = 0"
    by code_simp+
  moreover obtain h where "handlers demo_outbox_env ''slow'' = Some h" "\<And>p. ho_error (h_func h p 0) = None"
    by (simp add: demo_outbox_env_def demo_handlers_def)
  ultimately show ?thesis
    using exhausted_event_still_run[OF demo_env_ok(1), of demo_worn "[]" ?e 50 "''second''" h] by fastforce
qed

text \<open>A claim does not keep an event to one worker once it has expired. A worker that holds
  an event another worker has meanwhile delivered runs its handler again, and when that run
  fails the delivered event is queued again.\<close>

theorem delivered_event_queued_again:
  assumes "fresh_ids env" and "outbox_reachable env (s, held)" and "i \<in> set held"
    and "event_of i s = Inr e" and "q_status e = SUCCEEDED_EVENT" and "q_attempts e + 1 < q_max_attempts e"
    and "handlers env (q_type e) = Some h" and "ho_error (h_func h (q_payload e) (rest_of_db s)) = Some x"
  shows "\<exists>s2 e2. work env (s, held) (s2, remove1 i held) \<and> event_of i s2 = Inr e2
    \<and> q_status e2 = PENDING_EVENT \<and> q_attempts e2 = q_attempts e + 1
    \<and> rest_of_db s2 = (if h_atomic h then rest_of_db s else ho_db (h_func h (q_payload e) (rest_of_db s)))"
proof -
  have ok: "queue_ok env (queue s)" using reachable_outbox_inv[OF assms(2,1)] by (simp add: outbox_inv_def)
  from attempt_known[OF assms(1) ok assms(4,7)] assms(8) obtain s2 at where
    s2: "attempt env i s = Inr (s2, False)" "event_of i s2 = Inr (finished at (Some x) e)"
    "rest_of_db s2 = (if h_atomic h then rest_of_db s else ho_db (h_func h (q_payload e) (rest_of_db s)))" by auto
  have "q_status (finished at (Some x) e) = PENDING_EVENT" "q_attempts (finished at (Some x) e) = q_attempts e + 1"
    using assms(6) by (simp_all add: row_updates)
  with s2 work.attempted[OF assms(3) s2(1)] show ?thesis by blast
qed

theorem delivered_event_queued_again_witness:
  "\<exists>s2 e2. work demo_outbox_env (demo_delivered, [[]]) (s2, []) \<and> event_of [] s2 = Inr e2 \<and> q_status e2 = PENDING_EVENT"
proof -
  let ?e = "hd (queue demo_delivered)"
  have "event_of [] demo_delivered = Inr ?e" "q_status ?e = SUCCEEDED_EVENT" "q_attempts ?e + 1 < q_max_attempts ?e"
    "q_type ?e = ''slow''" "rest_of_db demo_delivered = 1" by code_simp+
  moreover obtain h where "handlers demo_outbox_env ''slow'' = Some h" "\<And>p. ho_error (h_func h p 1) = Some ''gone''"
    by (simp add: demo_outbox_env_def demo_handlers_def)
  ultimately show ?thesis
    using delivered_event_queued_again[OF demo_env_ok(1) demo_outbox_reachable(3), of "[]" ?e h "''gone''"] by fastforce
qed

end
