(* ===== verification/FundLedger.thy ===== *)
theory FundLedger
  imports Outbox ActivityTypes IsoDates
begin

text \<open>
  apps/fund_requests/models.py: the tables of the fund requests, and what their services
  share. A planned activity has cost lines; each line has one advance, the ledger every
  channel pays through. The channels are the weekly request of a person and the period
  request (monthly plan) of the approval chain.

  Amounts are whole shillings, instants are seconds, the lines of a request are part of its
  row. The period a row is filed under is not read here. Audit rows are the calls of the
  audit log in their order; they and the notices are written after the commit and their
  failure is swallowed, so \<open>fw_audit_ok\<close> tells whether the audit row could be written.
  The columns only a page shows, and the cost snapshot a saved advance is projected onto
  (apps/budget), are left out. A dash in a message is a hyphen.
\<close>

section \<open>Statuses\<close>

datatype advance_status = DRAFT_FROM_SCHEDULE | PENDING_CONFIRMATION | CONFIRMED_FOR_ADVANCE
  | SELF_FUNDED_PENDING | NOT_REQUESTED_ADVANCE | SUBMITTED_TO_ACCOUNTANT | DISBURSED_ADVANCE
  | ACCOUNTABILITY_PL_PENDING | ACCOUNTABILITY_PENDING | ACCOUNTED_ADVANCE
  | REIMBURSEMENT_PL_PENDING | REIMBURSEMENT_SUBMITTED | REIMBURSEMENT_DISBURSED
  | REIMBURSED_ADVANCE | RETURNED_ADVANCE | CANCELLED_ADVANCE

definition advance_status_text :: "advance_status \<Rightarrow> string" where
  "advance_status_text s = (case s of DRAFT_FROM_SCHEDULE \<Rightarrow> ''draft_from_schedule''
     | PENDING_CONFIRMATION \<Rightarrow> ''pending_responsible_confirmation''
     | CONFIRMED_FOR_ADVANCE \<Rightarrow> ''confirmed_for_advance''
     | SELF_FUNDED_PENDING \<Rightarrow> ''self_funded_pending_reimbursement''
     | NOT_REQUESTED_ADVANCE \<Rightarrow> ''not_requested'' | SUBMITTED_TO_ACCOUNTANT \<Rightarrow> ''submitted_to_accountant''
     | DISBURSED_ADVANCE \<Rightarrow> ''disbursed'' | ACCOUNTABILITY_PL_PENDING \<Rightarrow> ''accountability_pl_pending''
     | ACCOUNTABILITY_PENDING \<Rightarrow> ''accountability_pending'' | ACCOUNTED_ADVANCE \<Rightarrow> ''accounted''
     | REIMBURSEMENT_PL_PENDING \<Rightarrow> ''reimbursement_pl_pending''
     | REIMBURSEMENT_SUBMITTED \<Rightarrow> ''reimbursement_submitted''
     | REIMBURSEMENT_DISBURSED \<Rightarrow> ''reimbursement_disbursed'' | REIMBURSED_ADVANCE \<Rightarrow> ''reimbursed''
     | RETURNED_ADVANCE \<Rightarrow> ''returned'' | CANCELLED_ADVANCE \<Rightarrow> ''cancelled'')"

definition MONEY_MOVED_ADVANCE_STATUSES :: "advance_status list" where
  "MONEY_MOVED_ADVANCE_STATUSES = [DISBURSED_ADVANCE, ACCOUNTABILITY_PL_PENDING,
     ACCOUNTABILITY_PENDING, ACCOUNTED_ADVANCE, REIMBURSEMENT_PL_PENDING, REIMBURSEMENT_SUBMITTED,
     REIMBURSEMENT_DISBURSED, REIMBURSED_ADVANCE]"

datatype advance_type = BY_ADVANCE | BY_OWN_FUNDS | WITHOUT_FUNDS

datatype weekly_status = WEEK_PENDING | WEEK_NOT_REQUESTED | WEEK_SUBMITTED_TO_PL
  | WEEK_SUBMITTED_TO_CD | WEEK_CONFIRMED | WEEK_RETURNED_BY_PL | WEEK_RETURNED_BY_CD
  | WEEK_RETURNED_BY_ACCOUNTANT | WEEK_SELF_FUNDED | WEEK_DISBURSED | WEEK_ACCOUNTED

definition weekly_status_text :: "weekly_status \<Rightarrow> string" where
  "weekly_status_text s = (case s of WEEK_PENDING \<Rightarrow> ''pending_responsible_confirmation''
     | WEEK_NOT_REQUESTED \<Rightarrow> ''not_requested'' | WEEK_SUBMITTED_TO_PL \<Rightarrow> ''submitted_to_pl''
     | WEEK_SUBMITTED_TO_CD \<Rightarrow> ''submitted_to_cd'' | WEEK_CONFIRMED \<Rightarrow> ''confirmed_for_advance''
     | WEEK_RETURNED_BY_PL \<Rightarrow> ''returned_by_pl'' | WEEK_RETURNED_BY_CD \<Rightarrow> ''returned_by_cd''
     | WEEK_RETURNED_BY_ACCOUNTANT \<Rightarrow> ''returned_by_accountant'' | WEEK_SELF_FUNDED \<Rightarrow> ''self_funded''
     | WEEK_DISBURSED \<Rightarrow> ''disbursed'' | WEEK_ACCOUNTED \<Rightarrow> ''accounted'')"

datatype plan_status = PLAN_SUBMITTED | PLAN_APPROVED | PLAN_RETURNED | PLAN_REJECTED
  | PLAN_DISBURSED | PLAN_DRAFT | PLAN_SUBMITTED_TO_PL | PLAN_APPROVED_BY_PL
  | PLAN_SUBMITTED_TO_CD | PLAN_APPROVED_BY_CD | PLAN_SUBMITTED_TO_RVP | PLAN_APPROVED_BY_RVP
  | PLAN_SENT_TO_ACCOUNTANT | PLAN_HELD | PLAN_CLOSED | PLAN_RETURNED_BY_PL
  | PLAN_RETURNED_BY_CD | PLAN_RETURNED_BY_RVP | PLAN_RETURNED_BY_ACCOUNTANT

datatype fund_period = WEEKLY_PERIOD | MONTHLY_PERIOD | QUARTERLY_PERIOD | ANNUAL_PERIOD

section \<open>Rows\<close>

record advance =
  ad_id :: string
  ad_activity :: string
  ad_line :: string
  ad_owner :: "string option"
  ad_amount :: int
  ad_status :: advance_status
  ad_type :: advance_type
  ad_disbursed :: "int option"
  ad_disbursed_at :: "int option"
  ad_disbursed_by :: "string option"
  ad_method :: "string option"
  ad_reference :: "string option"
  ad_accounted :: "int option"
  ad_returned :: "int option"
  ad_netsuite :: "string option"
  ad_submitted_at :: "int option"
  ad_pl_approved_at :: "int option"
  ad_pl_approved_by :: "string option"
  ad_reviewed_at :: "int option"
  ad_confirmed_at :: "int option"
  ad_note :: "string option"
  ad_reimbursed :: "int option"
  ad_reimbursed_at :: "int option"
  ad_reimbursed_by :: "string option"
  ad_reimburse_method :: "string option"
  ad_reimburse_reference :: "string option"
  ad_receipt_at :: "int option"
  ad_receipt_amount :: "int option"
  ad_return_verified_at :: "int option"
  ad_return_verified_by :: "string option"
  ad_return_reference :: "string option"

record weekly_line =
  wl_line :: string
  wl_cost :: int

record weekly =
  wk_id :: string
  wk_owner :: string
  wk_role :: "string option"
  wk_start :: date
  wk_end :: date
  wk_source :: string
  wk_total :: int
  wk_status :: weekly_status
  wk_disbursed :: "int option"
  wk_disbursed_at :: "int option"
  wk_disbursed_by :: "string option"
  wk_method :: "string option"
  wk_reference :: "string option"
  wk_receipt_at :: "int option"
  wk_reason :: string
  wk_returned_at :: "int option"
  wk_returned_by :: "string option"
  wk_accounted :: "int option"
  wk_returned :: "int option"
  wk_netsuite :: "string option"
  wk_submitted_at :: "int option"
  wk_reviewed_at :: "int option"
  wk_confirmed_at :: "int option"
  wk_lines :: "weekly_line list"

record plan_item =
  pi_activity :: string
  pi_line :: string
  pi_amount :: int

record plan =
  pl_id :: string
  pl_period :: fund_period
  pl_key :: string
  pl_scope :: string
  pl_owner :: string
  pl_total :: int
  pl_status :: plan_status
  pl_reviewed_by :: "string option"
  pl_reviewed_at :: "int option"
  pl_note :: "string option"
  pl_disbursed :: "int option"
  pl_disbursed_at :: "int option"
  pl_disbursed_by :: "string option"
  pl_method :: "string option"
  pl_reference :: "string option"
  pl_held_reason :: "string option"
  pl_held_at :: "int option"
  pl_receipt_at :: "int option"
  pl_accounted :: "int option"
  pl_returned :: "int option"
  pl_accountability :: "string option"
  pl_netsuite :: "string option"
  pl_submitted_at :: "int option"
  pl_accountability_reviewed_at :: "int option"
  pl_items :: "plan_item list"

text \<open>What is read of an activity, and the one row per activity a paid plan leaves.\<close>

record funded_activity =
  fa_id :: string
  fa_status :: activity_status
  fa_ia_status :: "string option"
  fa_delivery :: string
  fa_payment_status :: string

record disbursement_row =
  dr_activity :: string
  dr_plan :: string
  dr_amount :: int
  dr_at :: int
  dr_by :: string
  dr_method :: string
  dr_reference :: string

record fund_audit_row =
  fu_action :: string
  fu_kind :: string
  fu_subject :: string
  fu_actor :: string
  fu_payload :: "(string \<times> json) list"

text \<open>A row of \<open>supervisions\<close> is (user of the supervisor, user of the supervisee).\<close>

record fund_db =
  advances :: "advance list"
  weeklies :: "weekly list"
  plans :: "plan list"
  work_items :: "funded_activity list"
  disbursement_rows :: "disbursement_row list"
  supervisions :: "(string \<times> string) list"
  staff_names :: "(string \<times> string) list"
  directory_of :: user_directory
  fund_inbox :: "notice list"
  fund_audits :: "fund_audit_row list"
  sync_queue :: "outbox_event list"

section \<open>The caller and the world\<close>

text \<open>
  \<open>fp_permissions\<close> are the permissions the caller's role resolves to (apps/core/rbac.py),
  \<open>fp_seat\<close> the leader whose fund decisions an acting appointment withholds.
  \<open>getattr(principal, "country_scope", False)\<close> is \<open>fp_country_scope\<close>.
\<close>

record fund_principal =
  fp_user :: string
  fp_role :: string
  fp_permissions :: "string list"
  fp_seat :: "string option"
  fp_country_scope :: bool

record fund_world =
  fw_now :: int
  fw_audit_ok :: bool
  fw_netsuite_on :: bool
  fw_notice_id :: "nat \<Rightarrow> string"
  fw_event_id :: "nat \<Rightarrow> string"

definition refuse_withheld :: "fund_principal \<Rightarrow> string \<Rightarrow> unit result" where
  "refuse_withheld p what = (case fp_seat p of None \<Rightarrow> Inr ()
     | Some name \<Rightarrow> Inl (Forbidden (what @ '' is not part of an acting appointment. It stays with '' @ name @ ''.'')))"

section \<open>Reading a request\<close>

definition payload_or :: "payload \<Rightarrow> string \<Rightarrow> jval \<Rightarrow> jval" where
  "payload_or data k d = (case data k of None \<Rightarrow> d | Some v \<Rightarrow> v)"

text \<open>\<open>(data.get(k) or "").strip()\<close>; a value that is true and no text has no \<open>strip\<close>.\<close>

definition stripped :: "payload \<Rightarrow> string \<Rightarrow> string result" where
  "stripped data k = (let v = payload_get data k in
     if \<not> truthy v then Inr [] else (case v of JStr s \<Rightarrow> Inr (strip s) | _ \<Rightarrow> Inl AttributeError))"

text \<open>A value stored in a text column of \<open>n\<close> characters.\<close>

definition text_column :: "nat \<Rightarrow> jval \<Rightarrow> string option result" where
  "text_column n v = (if v = JNone then Inr None
     else bindE (ensure (length (py_str v) \<le> n) DataError) (\<lambda>_. Inr (Some (py_str v))))"

text \<open>\<open>int(v)\<close> with the errors it catches answered by a default.\<close>

definition int_or :: "jval \<Rightarrow> int \<Rightarrow> int" where
  "int_or v d = (case py_int v of Inl _ \<Rightarrow> d | Inr n \<Rightarrow> n)"

fun group_digits :: "string \<Rightarrow> string" where
  "group_digits (a # b # c # d # ds) = a # b # c # CHR '','' # group_digits (d # ds)"
| "group_digits ds = ds"

definition commas :: "int \<Rightarrow> string" where
  "commas n = (if n < 0 then ''-'' else []) @ rev (group_digits (rev (show_nat (nat \<bar>n\<bar>))))"

definition month_name :: "int \<Rightarrow> string" where
  "month_name m = [''Jan'', ''Feb'', ''Mar'', ''Apr'', ''May'', ''Jun'', ''Jul'', ''Aug'', ''Sep'',
     ''Oct'', ''Nov'', ''Dec''] ! nat (m - 1)"

definition short_date :: "date \<Rightarrow> string" where
  "short_date d = month_name (month d) @ '' '' @ zero_padded 2 (day d)"

section \<open>What every service writes\<close>

definition record_audit :: "fund_world \<Rightarrow> fund_principal \<Rightarrow> string \<Rightarrow> string \<Rightarrow> string
    \<Rightarrow> (string \<times> json) list \<Rightarrow> fund_db \<Rightarrow> fund_db" where
  "record_audit w p action kind subject payload db =
     (if fw_audit_ok w then db\<lparr>fund_audits := fund_audits db @ [\<lparr>fu_action = action, fu_kind = kind,
        fu_subject = subject, fu_actor = fp_user p, fu_payload = payload\<rparr>]\<rparr> else db)"

definition fund_event :: "string \<Rightarrow> string \<Rightarrow> string \<Rightarrow> string \<Rightarrow> string \<Rightarrow> event" where
  "fund_event type title body kind subject = \<lparr>ev_type = type, ev_category = ''finance'',
     ev_priority = ''high'', ev_title = title, ev_body = body, ev_context_type = Some kind,
     ev_context_id = Some subject, ev_sender = None\<rparr>"

definition tell_people :: "fund_world \<Rightarrow> string list \<Rightarrow> event \<Rightarrow> fund_db \<Rightarrow> fund_db" where
  "tell_people w ids ev db =
     (let who = filter (\<lambda>i. i \<noteq> []) ids in
      if who = [] then db
      else db\<lparr>fund_inbox := trigger (fw_now w) (fw_notice_id w) (directory_of db) ev
        (map IdOf who) (fund_inbox db)\<rparr>)"

definition supervisor_ids :: "string option \<Rightarrow> fund_db \<Rightarrow> string list" where
  "supervisor_ids owner db = (case owner of None \<Rightarrow> []
     | Some u \<Rightarrow> if u = [] then [] else filter (\<lambda>i. i \<noteq> []) (map fst (filter (\<lambda>(_, s). s = u) (supervisions db))))"

definition accountant_ids :: "fund_db \<Rightarrow> string list" where
  "accountant_ids db = map u_id (filter (\<lambda>u. u_active_role u = ''Accountant'' \<and> u_is_active u) (users (directory_of db)))"

definition owner_name :: "string option \<Rightarrow> fund_db \<Rightarrow> string" where
  "owner_name owner db = (case owner of None \<Rightarrow> ''a staff member''
     | Some u \<Rightarrow> (case find (\<lambda>(i, _). i = u) (staff_names db) of
         Some (_, name) \<Rightarrow> if u = [] \<or> name = [] then ''a staff member'' else name
       | None \<Rightarrow> ''a staff member''))"

text \<open>The push of a paid advance to NetSuite, on the outbox of the same transaction.\<close>

definition sync_env :: "fund_world \<Rightarrow> unit outbox_env" where
  "sync_env w = \<lparr>handlers = (\<lambda>_. None), new_row_id = fw_event_id w, cuid = fw_event_id w,
     new_notice_id = fw_notice_id w, directory = \<lparr>users = [], staff_profiles = []\<rparr>\<rparr>"

definition enqueue_netsuite :: "fund_world \<Rightarrow> string \<Rightarrow> outbox_event list \<Rightarrow> outbox_event list" where
  "enqueue_netsuite w i rows =
     (if fw_netsuite_on w
      then fst (get_or_create (sync_env w) (fw_now w) ''integrations.netsuite.advance''
        (J_Obj [(''advanceId'', J_Str i)]) (''ns:advance:'' @ i) 0 rows)
      else rows)"

section \<open>Saving an advance\<close>

definition big_integer :: "int option \<Rightarrow> bool" where
  "big_integer v = (case v of None \<Rightarrow> True | Some n \<Rightarrow> - (2 ^ 63) \<le> n \<and> n < 2 ^ 63)"

definition at_least :: "int \<Rightarrow> int option \<Rightarrow> bool" where
  "at_least b v = (case v of None \<Rightarrow> True | Some n \<Rightarrow> b \<le> n)"

definition netsuite_code :: "advance \<Rightarrow> string" where
  "netsuite_code a = (case ad_netsuite a of None \<Rightarrow> [] | Some s \<Rightarrow> s)"

definition code_free :: "advance \<Rightarrow> advance list \<Rightarrow> bool" where
  "code_free a rows \<longleftrightarrow> netsuite_code a = []
     \<or> \<not> list_ex (\<lambda>b. ad_id b \<noteq> ad_id a \<and> ad_netsuite b = ad_netsuite a) rows"

text \<open>The columns are checked as the row is stored, then the constraints of the table.\<close>

definition advance_refused :: "advance \<Rightarrow> advance list \<Rightarrow> unit result" where
  "advance_refused a rows =
     bindE (ensure (big_integer (ad_disbursed a) \<and> big_integer (ad_accounted a) \<and> big_integer (ad_returned a)
       \<and> big_integer (ad_reimbursed a) \<and> big_integer (ad_receipt_amount a)
       \<and> length (netsuite_code a) \<le> 128) DataError) (\<lambda>_.
     bindE (ensure (0 \<le> ad_amount a) (IntegrityError ''advance_request_amount_non_negative'')) (\<lambda>_.
     bindE (ensure (at_least 0 (ad_disbursed a)) (IntegrityError ''advance_request_disbursed_amount_non_negative'')) (\<lambda>_.
     bindE (ensure (at_least 0 (ad_accounted a)) (IntegrityError ''advance_request_accounted_amount_non_negative'')) (\<lambda>_.
     bindE (ensure (at_least 0 (ad_returned a)) (IntegrityError ''advance_request_returned_amount_non_negative'')) (\<lambda>_.
     bindE (ensure (at_least 1 (ad_reimbursed a)) (IntegrityError ''advance_request_reimbursed_amount_positive'')) (\<lambda>_.
       ensure (code_free a rows) (IntegrityError ''uniq_advance_accountability_netsuite_id'')))))))"

definition put_advance :: "advance \<Rightarrow> fund_db \<Rightarrow> fund_db" where
  "put_advance a db = db\<lparr>advances := update_where (\<lambda>b. ad_id b = ad_id a) (\<lambda>_. a) (advances db)\<rparr>"

definition save_advance :: "advance \<Rightarrow> fund_db \<Rightarrow> fund_db result" where
  "save_advance a db = bindE (advance_refused a (advances db)) (\<lambda>_. Inr (put_advance a db))"

definition get_advance :: "string \<Rightarrow> fund_db \<Rightarrow> advance result" where
  "get_advance i db = of_option (NotFoundError ''Advance request not found.'') (find (\<lambda>a. ad_id a = i) (advances db))"

end
