(* ===== verification/FundAdvances.thy ===== *)
theory FundAdvances
  imports FundLedger
begin

text \<open>
  apps/fund_requests/advance_service.py: the life of an advance. Its owner asks for it,
  pays from their own pocket or declines; the accountant pays it out; the owner accounts
  for it, the programme lead confirms, the accountant settles; what was overspent or paid
  from the owner's pocket is reimbursed and the receipt confirmed.

  Every operation is one transaction on the locked row, then the audit row and the notices.
  Where the code reads the row twice, once to refuse early and once under the lock, the two
  reads are one. No pricing is pending (\<open>settled_first\<close> has nothing to do). The answer is
  the row (\<open>_serialize\<close>).
\<close>

section \<open>The owner's choice\<close>

definition CONFIRMABLE :: "advance_status list" where
  "CONFIRMABLE = [PENDING_CONFIRMATION, RETURNED_ADVANCE]"

definition get_for_owner :: "string \<Rightarrow> fund_principal \<Rightarrow> fund_db \<Rightarrow> advance result" where
  "get_for_owner i p db =
     bindE (get_advance i db) (\<lambda>a.
     bindE (ensure (ad_owner a = Some (fp_user p) \<or> fp_country_scope p)
       (Forbidden ''Only the responsible user can confirm this advance request.'')) (\<lambda>_. Inr a))"

definition chosen :: "fund_world \<Rightarrow> advance_status \<Rightarrow> advance_type \<Rightarrow> advance \<Rightarrow> advance" where
  "chosen w status type a = a\<lparr>ad_status := status, ad_type := type, ad_confirmed_at := Some (fw_now w)\<rparr>"

definition quoted_status :: "advance \<Rightarrow> string" where
  "quoted_status a = [CHR 0x27] @ advance_status_text (ad_status a) @ [CHR 0x27]"

definition confirm_advance :: "fund_world \<Rightarrow> string \<Rightarrow> fund_principal \<Rightarrow> fund_db \<Rightarrow> fund_db result" where
  "confirm_advance w i p db =
     bindE (get_for_owner i p db) (\<lambda>a.
     bindE (ensure (ad_status a \<in> set CONFIRMABLE)
       (BadRequest (''Cannot confirm an advance in status '' @ quoted_status a @ ''.''))) (\<lambda>_.
       save_advance (chosen w CONFIRMED_FOR_ADVANCE BY_ADVANCE a) db))"

definition self_funded :: "fund_world \<Rightarrow> string \<Rightarrow> fund_principal \<Rightarrow> fund_db \<Rightarrow> fund_db result" where
  "self_funded w i p db =
     bindE (get_for_owner i p db) (\<lambda>a.
     bindE (ensure (ad_status a \<notin> set MONEY_MOVED_ADVANCE_STATUSES)
       (BadRequest (''Cannot change a '' @ advance_status_text (ad_status a) @ '' advance to self-funded.''))) (\<lambda>_.
       save_advance (chosen w SELF_FUNDED_PENDING BY_OWN_FUNDS a) db))"

definition not_requested :: "fund_world \<Rightarrow> string \<Rightarrow> fund_principal \<Rightarrow> fund_db \<Rightarrow> fund_db result" where
  "not_requested w i p db =
     bindE (get_for_owner i p db) (\<lambda>a.
     bindE (ensure (ad_status a \<notin> set MONEY_MOVED_ADVANCE_STATUSES)
       (BadRequest (''Cannot cancel a '' @ advance_status_text (ad_status a) @ '' advance.''))) (\<lambda>_.
       save_advance (chosen w NOT_REQUESTED_ADVANCE WITHOUT_FUNDS a) db))"

section \<open>Paying it out\<close>

text \<open>The line is on a weekly request that is approved.\<close>

definition carried :: "string \<Rightarrow> fund_db \<Rightarrow> bool" where
  "carried line db \<longleftrightarrow> list_ex (\<lambda>r. wk_status r = WEEK_CONFIRMED \<and> list_ex (\<lambda>l. wl_line l = line) (wk_lines r)) (weeklies db)"

definition paid_out :: "fund_world \<Rightarrow> string \<Rightarrow> int \<Rightarrow> string option \<Rightarrow> string option \<Rightarrow> advance \<Rightarrow> advance" where
  "paid_out w by amount via reference a = a\<lparr>ad_status := DISBURSED_ADVANCE, ad_disbursed := Some amount,
     ad_disbursed_at := Some (fw_now w), ad_disbursed_by := Some by, ad_method := via, ad_reference := reference\<rparr>"

definition json_text :: "string option \<Rightarrow> json" where
  "json_text v = (case v of None \<Rightarrow> J_Null | Some s \<Rightarrow> J_Str s)"

definition json_int :: "int option \<Rightarrow> json" where
  "json_int v = (case v of None \<Rightarrow> J_Null | Some n \<Rightarrow> J_Int n)"

definition audit_advance :: "fund_world \<Rightarrow> fund_principal \<Rightarrow> string \<Rightarrow> string \<Rightarrow> (string \<times> json) list \<Rightarrow> fund_db \<Rightarrow> fund_db" where
  "audit_advance w p action i payload db = record_audit w p (''advance_request.'' @ action) ''AdvanceRequest'' i payload db"

definition disburse :: "fund_world \<Rightarrow> string \<Rightarrow> payload \<Rightarrow> fund_principal \<Rightarrow> fund_db \<Rightarrow> fund_db result" where
  "disburse w i data p db =
     bindE (get_advance i db) (\<lambda>a.
     bindE (ensure (ad_status a \<in> {CONFIRMED_FOR_ADVANCE, SUBMITTED_TO_ACCOUNTANT})
       (BadRequest (''Cannot disburse an advance in status '' @ quoted_status a
         @ ''. The responsible user must confirm the advance first.''))) (\<lambda>_.
     bindE (ensure (carried (ad_line a) db)
       (BadRequest (''Cannot disburse - this budget line is not part of an approved weekly fund request. ''
         @ ''Submit and approve the weekly request that carries it first (if the request was already approved ''
         @ ''before this activity was scheduled, ask the approver to return it so the week regenerates, then re-submit).''))) (\<lambda>_.
     let amount = int_or (payload_or data ''amount'' (JInt (ad_amount a))) (ad_amount a) in
     bindE (ensure (0 < amount \<and> amount \<le> ad_amount a)
       (BadRequest ''Disbursed amount must be positive and within the approved advance amount.'')) (\<lambda>_.
     bindE (text_column 64 (payload_get data ''method'')) (\<lambda>via.
     bindE (text_column 128 (payload_get data ''reference'')) (\<lambda>reference.
     bindE (save_advance (paid_out w (fp_user p) amount via reference a) db) (\<lambda>db1.
       Inr (audit_advance w p ''disburse'' i
         [(''amount'', J_Int amount), (''method'', json_text via), (''reference'', json_text reference)]
         (db1\<lparr>sync_queue := enqueue_netsuite w i (sync_queue db1)\<rparr>)))))))))"

section \<open>Accounting for it\<close>

definition effective_disbursed :: "advance \<Rightarrow> int" where
  "effective_disbursed a = (case ad_disbursed a of Some n \<Rightarrow> n
     | None \<Rightarrow> if ad_type a = BY_OWN_FUNDS then 0 else ad_amount a)"

definition or_zero :: "int option \<Rightarrow> int" where
  "or_zero v = (case v of None \<Rightarrow> 0 | Some n \<Rightarrow> n)"

definition reconciliation_ok :: "advance \<Rightarrow> bool" where
  "reconciliation_ok a \<longleftrightarrow>
     or_zero (ad_accounted a) = effective_disbursed a - or_zero (ad_returned a) + or_zero (ad_reimbursed a)"

text \<open>The money of a paid request that carries the line has not been confirmed as received.\<close>

definition unreceipted :: "string \<Rightarrow> fund_db \<Rightarrow> bool" where
  "unreceipted line db \<longleftrightarrow>
     list_ex (\<lambda>r. wk_status r = WEEK_DISBURSED \<and> wk_receipt_at r = None
       \<and> list_ex (\<lambda>l. wl_line l = line) (wk_lines r)) (weeklies db)
     \<or> list_ex (\<lambda>f. pl_period f = MONTHLY_PERIOD \<and> pl_status f = PLAN_DISBURSED \<and> pl_receipt_at f = None
       \<and> list_ex (\<lambda>x. pi_line x = line) (pl_items f)) (plans db)"

definition leads_country :: "fund_principal \<Rightarrow> bool" where
  "leads_country p \<longleftrightarrow> fp_role p = ''CountryDirector'' \<or> fp_role p = ''Admin''"

definition require_owner :: "string \<Rightarrow> advance \<Rightarrow> fund_principal \<Rightarrow> unit result" where
  "require_owner message a p = ensure (\<not> nonblank (ad_owner a) \<or> ad_owner a = Some (fp_user p) \<or> leads_country p) (Forbidden message)"

definition accounted_for :: "fund_world \<Rightarrow> int \<Rightarrow> int \<Rightarrow> string \<Rightarrow> string \<Rightarrow> advance \<Rightarrow> advance" where
  "accounted_for w spent returned code why a = a\<lparr>ad_accounted := Some spent, ad_returned := Some returned,
     ad_netsuite := Some code, ad_submitted_at := Some (fw_now w),
     ad_note := (if why \<noteq> [] then Some (take 512 why) else ad_note a), ad_status := ACCOUNTABILITY_PL_PENDING,
     ad_pl_approved_at := None, ad_pl_approved_by := None\<rparr>"

definition variance_ok :: "int \<Rightarrow> int \<Rightarrow> string \<Rightarrow> advance \<Rightarrow> unit result" where
  "variance_ok spent returned why a =
     (let variance = spent - effective_disbursed a in
      bindE (ensure (\<not> (0 \<le> variance \<and> returned \<noteq> 0))
        (BadRequest ''Amount returned must be zero unless actual spend is less than the disbursed amount.'')) (\<lambda>_.
        ensure (\<not> (variance < 0 \<and> returned \<noteq> - variance \<and> why = []))
          (BadRequest (''Actual spend (UGX '' @ commas spent @ '') is UGX '' @ commas (- variance)
            @ '' less than the disbursed amount - enter the returned amount or a variance explanation.''))))"

definition submit_accountability :: "fund_world \<Rightarrow> string \<Rightarrow> payload \<Rightarrow> fund_principal \<Rightarrow> fund_db \<Rightarrow> fund_db result" where
  "submit_accountability w i data p db =
     bindE (get_advance i db) (\<lambda>a.
     bindE (ensure (ad_status a = DISBURSED_ADVANCE) (BadRequest ''Accountability applies to a disbursed advance.'')) (\<lambda>_.
     bindE (require_owner ''Only the responsible user can submit accountability.'' a p) (\<lambda>_.
     bindE (ensure (\<not> unreceipted (ad_line a) db)
       (BadRequest (''Confirm receipt of the disbursed funds first - accountability opens once you have confirmed ''
         @ ''the money actually arrived.''))) (\<lambda>_.
     bindE (stripped data ''netsuiteId'') (\<lambda>code.
     bindE (ensure (code \<noteq> [])
       (BadRequest (''NetSuite Code is required - accountability is incomplete without proof the expense was ''
         @ ''entered into NetSuite.''))) (\<lambda>_.
     bindE (py_int (py_or (payload_or data ''amountSpent'' (JInt 0)) (JInt 0))) (\<lambda>spent.
     bindE (py_int (py_or (payload_or data ''amountReturned'' (JInt 0)) (JInt 0))) (\<lambda>returned.
     bindE (ensure (0 \<le> spent \<and> 0 \<le> returned)
       (BadRequest ''Amount spent and amount returned must not be negative.'')) (\<lambda>_.
     bindE (stripped data ''varianceNote'') (\<lambda>why.
     bindE (variance_ok spent returned why a) (\<lambda>_.
     bindE (save_advance (accounted_for w spent returned code why a) db) (\<lambda>db1.
       Inr (tell_people w (supervisor_ids (ad_owner a) db1)
         (fund_event ''advance_accountability_submitted'' ''Fund accountability awaiting your approval''
           (owner_name (ad_owner a) db1 @ '' accounted for UGX '' @ commas spent @ '' ('' @ code
             @ ''). Confirm the money is accounted for so the Accountant can settle it.'') ''AdvanceRequest'' i)
         (audit_advance w p ''submit_accountability'' i
           [(''accounted'', J_Int spent), (''returned'', J_Int returned), (''netsuite_id'', J_Str code)] db1))))))))))))))"

section \<open>The programme lead\<close>

definition require_accountability_approver :: "advance \<Rightarrow> fund_principal \<Rightarrow> fund_db \<Rightarrow> unit result" where
  "require_accountability_approver a p db =
     bindE (refuse_withheld p ''Approving a fund accountability'') (\<lambda>_.
     bindE (ensure (ad_owner a \<noteq> Some (fp_user p)) (Forbidden ''You cannot approve your own accountability.'')) (\<lambda>_.
       if leads_country p \<or> ''fundRequest.approveEscalated'' \<in> set (fp_permissions p) then Inr ()
       else bindE (ensure (fp_role p = ''Program Lead'')
              (Forbidden (''Only the owner'' @ [CHR 0x27] @ ''s Program Lead (or country leadership) can act on this accountability.''))) (\<lambda>_.
         ensure (list_ex (\<lambda>(s, e). s = fp_user p \<and> Some e = ad_owner a) (supervisions db))
           (Forbidden (''This accountability belongs to another Program Lead'' @ [CHR 0x27] @ ''s team.'')))))"

definition PL_PENDING :: "advance_status list" where
  "PL_PENDING = [ACCOUNTABILITY_PL_PENDING, REIMBURSEMENT_PL_PENDING]"

definition pl_approved :: "fund_world \<Rightarrow> string \<Rightarrow> advance \<Rightarrow> advance" where
  "pl_approved w by a = a\<lparr>ad_pl_approved_at := Some (fw_now w), ad_pl_approved_by := Some by,
     ad_status := (if ad_status a = ACCOUNTABILITY_PL_PENDING then ACCOUNTABILITY_PENDING else REIMBURSEMENT_SUBMITTED)\<rparr>"

definition pl_approve_accountability :: "fund_world \<Rightarrow> string \<Rightarrow> fund_principal \<Rightarrow> fund_db \<Rightarrow> fund_db result" where
  "pl_approve_accountability w i p db =
     bindE (get_advance i db) (\<lambda>a.
     bindE (ensure (ad_status a \<in> set PL_PENDING)
       (BadRequest ''Nothing to approve - this accountability is not awaiting PL approval.'')) (\<lambda>_.
     bindE (require_accountability_approver a p db) (\<lambda>_.
     let b = pl_approved w (fp_user p) a; claim = (ad_status b = REIMBURSEMENT_SUBMITTED) in
     bindE (save_advance b db) (\<lambda>db1.
       Inr (tell_people w (accountant_ids db1)
         (fund_event ''advance_accountability_ready''
           (if claim then ''Reimbursement claim ready to pay'' else ''Accountability ready for review'')
           (''UGX '' @ commas (or_zero (ad_accounted b)) @ '' from '' @ owner_name (ad_owner b) db1 @ '' cleared PL approval.'')
           ''AdvanceRequest'' i)
         (tell_people w (case ad_owner b of None \<Rightarrow> [] | Some u \<Rightarrow> [u])
           (fund_event ''accountability_pl_approved'' ''Accountability approved by your Program Lead''
             (if claim then ''Your reimbursement claim was approved and sent to the Accountant.''
              else ''Your accountability was approved and sent to the Accountant.'') ''AdvanceRequest'' i)
           (audit_advance w p ''pl_approve_accountability'' i
             [(''accounted'', json_int (ad_accounted b)), (''routed_to'', J_Str (advance_status_text (ad_status b)))] db1)))))))"

definition pl_returned :: "string \<Rightarrow> advance \<Rightarrow> advance" where
  "pl_returned reason a = a\<lparr>ad_note := Some (take 512 reason),
     ad_status := (if ad_status a = ACCOUNTABILITY_PL_PENDING then DISBURSED_ADVANCE else SELF_FUNDED_PENDING)\<rparr>"

definition pl_return_accountability :: "fund_world \<Rightarrow> string \<Rightarrow> payload \<Rightarrow> fund_principal \<Rightarrow> fund_db \<Rightarrow> fund_db result" where
  "pl_return_accountability w i data p db =
     bindE (stripped data ''reason'') (\<lambda>reason.
     bindE (ensure (reason \<noteq> []) (BadRequest ''A return reason is required.'')) (\<lambda>_.
     bindE (get_advance i db) (\<lambda>a.
     bindE (ensure (ad_status a \<in> set PL_PENDING)
       (BadRequest ''Nothing to return - this accountability is not awaiting PL approval.'')) (\<lambda>_.
     bindE (require_accountability_approver a p db) (\<lambda>_.
     bindE (save_advance (pl_returned reason a) db) (\<lambda>db1.
       Inr (tell_people w (case ad_owner a of None \<Rightarrow> [] | Some u \<Rightarrow> [u])
         (fund_event ''accountability_pl_returned'' ''Accountability returned by your Program Lead''
           (''Correct and resubmit. Reason: '' @ reason) ''AdvanceRequest'' i)
         (audit_advance w p ''pl_return_accountability'' i [(''reason'', J_Str reason)] db1))))))))"

section \<open>Settling it\<close>

definition return_verified :: "fund_world \<Rightarrow> string \<Rightarrow> string \<Rightarrow> advance \<Rightarrow> advance" where
  "return_verified w by reference a = a\<lparr>ad_return_verified_at := Some (fw_now w), ad_return_verified_by := Some by,
     ad_return_reference := (if reference \<noteq> [] then Some (take 128 reference) else ad_return_reference a)\<rparr>"

definition verify_return :: "fund_world \<Rightarrow> string \<Rightarrow> payload \<Rightarrow> fund_principal \<Rightarrow> fund_db \<Rightarrow> fund_db result" where
  "verify_return w i data p db =
     bindE (get_advance i db) (\<lambda>a.
     bindE (ensure (ad_status a = ACCOUNTABILITY_PENDING)
       (BadRequest (''Only a submitted accountability'' @ [CHR 0x27] @ ''s return can be verified.''))) (\<lambda>_.
     bindE (ensure (or_zero (ad_returned a) \<noteq> 0) (BadRequest ''No returned amount was declared on this accountability.'')) (\<lambda>_.
     bindE (stripped data ''reference'') (\<lambda>reference.
     let b = return_verified w (fp_user p) reference a in
     bindE (save_advance b db) (\<lambda>db1.
       Inr (audit_advance w p ''verify_return'' i
         [(''returned_amount'', json_int (ad_returned b)), (''reference'', json_text (ad_return_reference b))] db1))))))"

definition activity_of :: "advance \<Rightarrow> fund_db \<Rightarrow> funded_activity result" where
  "activity_of a db = of_option (DoesNotExist ''Activity'') (find (\<lambda>x. fa_id x = ad_activity a) (work_items db))"

definition ia_verified :: "funded_activity \<Rightarrow> bool" where
  "ia_verified x \<longleftrightarrow> fa_ia_status x = Some ''confirmed'' \<or> fa_status x = IA_VERIFIED \<or> fa_status x = CLOSED"

definition called_off :: "funded_activity \<Rightarrow> bool" where
  "called_off x \<longleftrightarrow> fa_status x = CANCELLED \<or> fa_status x = DEFERRED"

definition OPEN_ADVANCE_STATUSES :: "advance_status list" where
  "OPEN_ADVANCE_STATUSES = [DISBURSED_ADVANCE, ACCOUNTABILITY_PL_PENDING, ACCOUNTABILITY_PENDING,
     REIMBURSEMENT_SUBMITTED, REIMBURSEMENT_DISBURSED]"

definition settle_activity_accounts :: "string \<Rightarrow> fund_db \<Rightarrow> fund_db" where
  "settle_activity_accounts act db =
     (let mine = filter (\<lambda>a. ad_activity a = act) (advances db) in
      if list_ex (\<lambda>a. ad_status a \<in> set OPEN_ADVANCE_STATUSES) mine
        \<or> \<not> list_ex (\<lambda>a. ad_status a = ACCOUNTED_ADVANCE \<or> ad_status a = REIMBURSED_ADVANCE) mine then db
      else db\<lparr>work_items := update_where (\<lambda>x. fa_id x = act \<and> fa_delivery x \<noteq> ''partner'')
        (fa_payment_status_update (\<lambda>_. ''accountant_cleared'')) (work_items db)\<rparr>)"

definition reviewed :: "fund_world \<Rightarrow> advance_status \<Rightarrow> advance \<Rightarrow> advance" where
  "reviewed w status a = a\<lparr>ad_reviewed_at := Some (fw_now w), ad_status := status\<rparr>"

definition approve_accountability :: "fund_world \<Rightarrow> string \<Rightarrow> fund_principal \<Rightarrow> fund_db \<Rightarrow> fund_db result" where
  "approve_accountability w i p db =
     bindE (get_advance i db) (\<lambda>a.
     bindE (ensure (ad_status a = ACCOUNTABILITY_PENDING)
       (BadRequest ''Nothing to approve - advance is not pending accountability.'')) (\<lambda>_.
     bindE (ensure (strip (netsuite_code a) \<noteq> [])
       (BadRequest ''Cannot clear - no NetSuite Code on this accountability submission.'')) (\<lambda>_.
     bindE (activity_of a db) (\<lambda>x.
     bindE (ensure (ia_verified x \<or> called_off x)
       (BadRequest ''Cannot final-clear - IA has not verified this activity yet. Finance clearance requires IA verification.'')) (\<lambda>_.
     bindE (ensure (\<not> (called_off x \<and> or_zero (ad_returned a) \<noteq> 0 \<and> ad_return_verified_at a = None))
       (BadRequest (''Cannot final-clear called-off work until the returned amount is verified - confirm the money ''
         @ ''came back before settling.''))) (\<lambda>_.
     let variance = or_zero (ad_accounted a) - effective_disbursed a in
     if 0 < variance
     then bindE (save_advance (reviewed w REIMBURSEMENT_SUBMITTED a) db) (\<lambda>db1.
       Inr (audit_advance w p ''route_to_reimbursement'' i
         [(''reimbursement_due'', J_Int variance), (''activity_id'', J_Str (ad_activity a))] db1))
     else
     bindE (ensure (\<not> (variance < 0 \<and> ad_return_verified_at a = None))
       (BadRequest (''Cannot clear - the returned funds have not been verified by the Accountant yet ''
         @ ''(verify the return first).''))) (\<lambda>_.
     bindE (ensure (reconciliation_ok a)
       (BadRequest (''Cannot clear - accounted amount does not reconcile with disbursed minus returned plus reimbursed. ''
         @ ''Critical finance error.''))) (\<lambda>_.
     bindE (save_advance (reviewed w ACCOUNTED_ADVANCE a) db) (\<lambda>db1.
       Inr (audit_advance w p ''approve_accountability'' i
         [(''accounted_amount'', json_int (ad_accounted a)), (''activity_id'', J_Str (ad_activity a))]
         (settle_activity_accounts (ad_activity a) db1)))))))))))"

section \<open>Reimbursement\<close>

definition claim_filed :: "fund_world \<Rightarrow> int \<Rightarrow> string option \<Rightarrow> advance \<Rightarrow> advance" where
  "claim_filed w spent code a = a\<lparr>ad_accounted := Some spent, ad_netsuite := code, ad_submitted_at := Some (fw_now w),
     ad_status := REIMBURSEMENT_PL_PENDING, ad_pl_approved_at := None, ad_pl_approved_by := None\<rparr>"

definition submit_reimbursement :: "fund_world \<Rightarrow> string \<Rightarrow> payload \<Rightarrow> fund_principal \<Rightarrow> fund_db \<Rightarrow> fund_db result" where
  "submit_reimbursement w i data p db =
     bindE (get_advance i db) (\<lambda>a.
     bindE (ensure (ad_status a = SELF_FUNDED_PENDING)
       (BadRequest ''Only a self-funded advance can submit a reimbursement claim.'')) (\<lambda>_.
     bindE (stripped data ''netsuiteId'') (\<lambda>code.
     bindE (ensure (code \<noteq> [])
       (BadRequest (''NetSuite Code is required - a reimbursement claim is accountability and needs proof the ''
         @ ''expense was entered into NetSuite.''))) (\<lambda>_.
     bindE (py_int (payload_or data ''amountSpent'' (JInt (ad_amount a)))) (\<lambda>spent.
     bindE (text_column 128 (payload_get data ''netsuiteId'')) (\<lambda>raw.
     bindE (save_advance (claim_filed w spent raw a) db) (\<lambda>db1.
       Inr (audit_advance w p ''submit_reimbursement'' i
         [(''amount_spent'', J_Int spent), (''netsuite_id'', json_text raw)] db1))))))))"

definition reimbursement_due :: "advance \<Rightarrow> int" where
  "reimbursement_due a = or_zero (ad_accounted a) - effective_disbursed a + or_zero (ad_returned a)"

definition reimbursed_out :: "fund_world \<Rightarrow> string \<Rightarrow> int \<Rightarrow> string option \<Rightarrow> string option \<Rightarrow> advance \<Rightarrow> advance" where
  "reimbursed_out w by amount via reference a = a\<lparr>ad_reimbursed := Some amount, ad_reimbursed_at := Some (fw_now w),
     ad_reimbursed_by := Some by, ad_reimburse_method := via, ad_reimburse_reference := reference,
     ad_status := REIMBURSEMENT_DISBURSED\<rparr>"

definition reimburse :: "fund_world \<Rightarrow> string \<Rightarrow> payload \<Rightarrow> fund_principal \<Rightarrow> fund_db \<Rightarrow> fund_db result" where
  "reimburse w i data p db =
     bindE (get_advance i db) (\<lambda>a.
     bindE (ensure (ad_status a = REIMBURSEMENT_SUBMITTED)
       (BadRequest ''Only a submitted reimbursement claim can be reimbursed.'')) (\<lambda>_.
     bindE (activity_of a db) (\<lambda>x.
     bindE (ensure (ia_verified x)
       (BadRequest (''Cannot reimburse - IA has not verified this activity yet. Reimbursement requires IA ''
         @ ''verification that the work was done.''))) (\<lambda>_.
     let raw = payload_get data ''amount'' in
     bindE (if raw = JNone \<or> raw = JStr [] then Inr (reimbursement_due a)
       else (case py_int raw of Inr n \<Rightarrow> Inr n
         | Inl _ \<Rightarrow> Inl (BadRequest ''Reimbursed amount must be a whole number of UGX.''))) (\<lambda>amount.
     bindE (ensure (0 < reimbursement_due a)
       (BadRequest (''Nothing to reimburse - the accounted spend does not exceed the amount already disbursed ''
         @ ''for this advance.''))) (\<lambda>_.
     bindE (ensure (amount = reimbursement_due a)
       (BadRequest (''Reimbursed amount must be positive and equal to the reimbursement due (UGX ''
         @ commas (reimbursement_due a) @ '') - the accounted spend less the amount already disbursed, plus any amount returned.''))) (\<lambda>_.
     bindE (text_column 64 (payload_get data ''method'')) (\<lambda>via.
     bindE (text_column 128 (payload_get data ''reference'')) (\<lambda>reference.
     bindE (save_advance (reimbursed_out w (fp_user p) amount via reference a) db) (\<lambda>db1.
       Inr (audit_advance w p ''reimburse'' i
         [(''reimbursed_amount'', J_Int amount), (''activity_id'', J_Str (ad_activity a))] db1)))))))))))"

definition receipted :: "fund_world \<Rightarrow> int \<Rightarrow> advance \<Rightarrow> advance" where
  "receipted w amount a = a\<lparr>ad_receipt_at := Some (fw_now w), ad_receipt_amount := Some amount, ad_status := REIMBURSED_ADVANCE\<rparr>"

definition confirm_reimbursement_receipt :: "fund_world \<Rightarrow> string \<Rightarrow> payload \<Rightarrow> fund_principal \<Rightarrow> fund_db \<Rightarrow> fund_db result" where
  "confirm_reimbursement_receipt w i data p db =
     bindE (get_advance i db) (\<lambda>a.
     bindE (require_owner ''Only the responsible user can confirm reimbursement receipt.'' a p) (\<lambda>_.
     bindE (ensure (ad_status a = REIMBURSEMENT_DISBURSED)
       (BadRequest ''Nothing to confirm - no disbursed reimbursement is awaiting receipt confirmation.'')) (\<lambda>_.
     bindE (ensure (reconciliation_ok a)
       (BadRequest (''Cannot confirm - accounted amount does not reconcile with disbursed minus returned plus ''
         @ ''reimbursed. Critical finance error.''))) (\<lambda>_.
     bindE (py_int (py_or (payload_or data ''amount''
       (case ad_reimbursed a of None \<Rightarrow> JNone | Some n \<Rightarrow> JInt n)) (JInt 0))) (\<lambda>amount.
     bindE (save_advance (receipted w amount a) db) (\<lambda>db1.
       Inr (audit_advance w p ''confirm_reimbursement_receipt'' i [(''amount'', J_Int amount)]
         (settle_activity_accounts (ad_activity a) db1))))))))"

section \<open>The accountant's queues\<close>

definition accountant_queues :: "fund_db \<Rightarrow> (string \<times> advance list) list" where
  "accountant_queues db = (let having = (\<lambda>st. rev (filter (\<lambda>a. ad_status a = st) (advances db))) in
     [(''pending_responsible_confirmation'', having PENDING_CONFIRMATION),
      (''ready_for_disbursement'', having CONFIRMED_FOR_ADVANCE), (''self_funded'', having SELF_FUNDED_PENDING),
      (''accountability_pending'', having ACCOUNTABILITY_PENDING),
      (''ready_for_reimbursement'', having REIMBURSEMENT_SUBMITTED),
      (''reimbursement_receipt_pending'', having REIMBURSEMENT_DISBURSED), (''disbursed'', having DISBURSED_ADVANCE),
      (''accounted'', having ACCOUNTED_ADVANCE)])"

end
