(* ===== verification/PyFloats.thy ===== *)
theory PyFloats
  imports Complex_Main "HOL-Library.Log_Nat"
begin

text \<open>
  Python's floats, as far as the shares of a disbursement use them: a float is the rational
  number it stands for. An operation is exact and then rounded to 53 significant bits, half
  to even. The numbers here are zero or between \<open>2 ^ (-1000)\<close> and \<open>2 ^ 1000\<close>, so nothing
  overflows or is subnormal.
\<close>

definition half_even :: "rat \<Rightarrow> int" where
  "half_even y = (let f = \<lfloor>y\<rfloor>; r = y - of_int f in
     if 2 * r < 1 then f else if 1 < 2 * r then f + 1 else if even f then f else f + 1)"

text \<open>\<open>2 ^ e \<le> x < 2 ^ (e + 1)\<close> for a positive \<open>x\<close>, from the lengths of its terms in bits.\<close>

definition power_of_two :: "int \<Rightarrow> rat" where
  "power_of_two e = (if 0 \<le> e then 2 ^ nat e else inverse (2 ^ nat (- e)))"

definition binary_exponent :: "rat \<Rightarrow> int" where
  "binary_exponent x = (let (p, q) = quotient_of x; e = bitlen p - bitlen q in
     if power_of_two e \<le> x then e else e - 1)"

definition to_float :: "rat \<Rightarrow> rat" where
  "to_float x = (if x \<le> 0 then 0 else let s = power_of_two (52 - binary_exponent x) in of_int (half_even (x * s)) / s)"

definition float_div :: "int \<Rightarrow> int \<Rightarrow> rat" where
  "float_div a b = to_float (of_int a / of_int b)"

definition int_times_float :: "int \<Rightarrow> rat \<Rightarrow> rat" where
  "int_times_float n x = to_float (to_float (of_int n) * x)"

section \<open>How far rounding is off\<close>

lemma power_of_two_pos: "0 < power_of_two e"
  by (simp add: power_of_two_def)

lemma power_of_two_add: "power_of_two (a + b) = power_of_two a * power_of_two b"
proof -
  have pi: "power_of_two e = 2 powi e" for e by (simp add: power_of_two_def power_int_def power_one_over inverse_eq_divide)
  show ?thesis by (simp add: pi power_int_add)
qed

lemma power_of_two_nat: "power_of_two (int n) = 2 ^ n"
  by (simp add: power_of_two_def)

lemma bitlen_powers: "0 < (p :: int) \<Longrightarrow> power_of_two (bitlen p - 1) \<le> of_int p \<and> of_int p < power_of_two (bitlen p)"
proof -
  assume p: "0 < p"
  have b: "2 ^ nat (bitlen p - 1) \<le> p" "p < 2 ^ nat (bitlen p)" using bitlen_bounds[of p] p by auto
  have pos: "0 < bitlen p" using b(2) p by (cases "0 < bitlen p") auto
  have "(of_int (2 ^ nat (bitlen p - 1)) :: rat) \<le> of_int p" "(of_int p :: rat) < of_int (2 ^ nat (bitlen p))"
    using b by (simp_all only: of_int_le_iff of_int_less_iff)
  with pos show ?thesis by (simp add: power_of_two_def)
qed

lemma exponent_below: "0 < x \<Longrightarrow> power_of_two (binary_exponent x) \<le> x"
proof -
  assume x: "0 < x"
  obtain p q where pq: "quotient_of x = (p, q)" by fastforce
  have q: "0 < q" using quotient_of_denom_pos[OF pq] .
  have xq: "x = of_int p / of_int q" using quotient_of_div[OF pq] .
  with x q have p: "0 < p" by (simp add: zero_less_divide_iff)
  have "power_of_two (bitlen p - bitlen q - 1) * of_int q \<le> power_of_two (bitlen p - bitlen q - 1) * power_of_two (bitlen q)"
    using bitlen_powers[OF q] power_of_two_pos by (intro mult_left_mono) (auto simp: less_imp_le)
  also have "\<dots> = power_of_two (bitlen p - 1)" by (simp flip: power_of_two_add add: algebra_simps)
  also have "\<dots> \<le> of_int p" using bitlen_powers[OF p] by simp
  finally have "power_of_two (bitlen p - bitlen q - 1) \<le> x" using q by (simp add: xq pos_le_divide_eq)
  then show ?thesis by (simp add: binary_exponent_def pq Let_def)
qed

lemma half_even_close: "\<bar>of_int (half_even y) - y\<bar> \<le> 1 / 2"
proof -
  have "of_int \<lfloor>y\<rfloor> \<le> y" "y < of_int \<lfloor>y\<rfloor> + 1" by linarith+
  then show ?thesis by (auto simp: half_even_def Let_def abs_le_iff)
qed

lemma to_float_close: "0 \<le> x \<Longrightarrow> \<bar>to_float x - x\<bar> \<le> x / 2 ^ 53"
proof (cases "x = 0")
  case False
  assume "0 \<le> x"
  with False have x: "0 < x" by simp
  let ?s = "power_of_two (52 - binary_exponent x)"
  have s: "0 < ?s" by (rule power_of_two_pos)
  have "2 ^ 52 = ?s * power_of_two (binary_exponent x)"
    by (simp flip: power_of_two_add) (simp add: power_of_two_def)
  also have "\<dots> \<le> ?s * x" using exponent_below[OF x] s by (intro mult_left_mono) auto
  finally have big: "2 ^ 52 \<le> ?s * x" .
  have "to_float x - x = (of_int (half_even (x * ?s)) - x * ?s) / ?s"
    using x s by (simp add: to_float_def Let_def field_simps)
  then have "\<bar>to_float x - x\<bar> = \<bar>of_int (half_even (x * ?s)) - x * ?s\<bar> / ?s" using s by (simp add: abs_divide)
  also have "\<dots> \<le> (1 / 2) / ?s" using half_even_close s by (intro divide_right_mono) auto
  also have "\<dots> \<le> x / 2 ^ 53" using big s by (simp add: field_simps)
  finally show ?thesis .
qed (simp add: to_float_def)

lemma to_float_nonneg: "0 \<le> x \<Longrightarrow> 0 \<le> to_float x"
proof -
  assume x: "0 \<le> x"
  have "x / 2 ^ 53 \<le> x" using x by (simp add: divide_le_eq)
  moreover have "x - to_float x \<le> x / 2 ^ 53" using to_float_close[OF x] unfolding abs_le_iff by linarith
  ultimately show ?thesis by linarith
qed

lemma half_even_int: "half_even (of_int n) = n"
  by (simp add: half_even_def)

lemma to_float_int: "0 \<le> n \<Longrightarrow> n < 2 ^ 53 \<Longrightarrow> to_float (of_int n) = of_int n"
proof (cases "n = 0")
  case False
  assume n: "0 \<le> n" "n < 2 ^ 53"
  with False have pos: "0 < n" by simp
  have "power_of_two (binary_exponent (of_int n)) \<le> of_int n" using exponent_below[of "of_int n"] pos by simp
  also have "\<dots> < power_of_two 53" using n(2) power_of_two_nat[of 53]
    by (metis of_int_less_iff of_int_numeral of_int_power of_nat_numeral)
  finally have "binary_exponent (of_int n) \<le> 52"
  proof (rule contrapos_pp)
    assume "\<not> binary_exponent (of_int n) \<le> 52"
    then have "power_of_two 53 * 1 \<le> power_of_two 53 * power_of_two (binary_exponent (of_int n) - 53)"
      by (intro mult_left_mono) (auto simp: power_of_two_def)
    also have "\<dots> = power_of_two (binary_exponent (of_int n))" by (simp flip: power_of_two_add)
    finally show "\<not> power_of_two (binary_exponent (of_int n)) < power_of_two 53" by simp
  qed
  then have s: "power_of_two (52 - binary_exponent (of_int n)) = of_int (2 ^ nat (52 - binary_exponent (of_int n)))"
    by (simp add: power_of_two_def)
  show ?thesis using pos unfolding to_float_def Let_def s
    by (simp only: of_int_mult[symmetric] half_even_int) simp
qed (simp add: to_float_def)

text \<open>An integer times a quotient is off by less than one part in \<open>2 ^ 51\<close>.\<close>

lemma scaled_close:
  assumes "0 \<le> c" "c < 2 ^ 53" "0 \<le> a" "0 < b"
  shows "\<bar>int_times_float c (float_div a b) - of_int c * (of_int a / of_int b)\<bar>
    \<le> of_int c * (of_int a / of_int b) / 2 ^ 51"
proof -
  let ?f = "of_int a / of_int b :: rat" and ?g = "float_div a b"
  have f: "0 \<le> ?f" using assms(3,4) by simp
  have g: "\<bar>?g - ?f\<bar> \<le> ?f / 2 ^ 53" using to_float_close[OF f] by (simp add: float_div_def)
  have g0: "0 \<le> ?g" using to_float_nonneg[OF f] by (simp add: float_div_def)
  have cg: "\<bar>of_int c * ?g - of_int c * ?f\<bar> \<le> of_int c * ?f / 2 ^ 53"
  proof -
    have "\<bar>of_int c * ?g - of_int c * ?f\<bar> = of_int c * \<bar>?g - ?f\<bar>"
      using assms(1) by (simp add: abs_mult del: times_divide_eq_right flip: right_diff_distrib)
    also have "\<dots> \<le> of_int c * (?f / 2 ^ 53)" using g assms(1) by (intro mult_left_mono) auto
    finally show ?thesis by simp
  qed
  have "int_times_float c ?g = to_float (of_int c * ?g)"
    using to_float_int[OF assms(1,2)] by (simp add: int_times_float_def)
  moreover have "\<bar>to_float (of_int c * ?g) - of_int c * ?g\<bar> \<le> of_int c * ?g / 2 ^ 53"
    using assms(1) g0 by (intro to_float_close) simp
  ultimately show ?thesis
    using cg assms(1) f unfolding abs_le_iff by (simp only:) (simp add: field_simps)
qed

end
