(* ===== verification/FundChannels.thy ===== *)
theory FundChannels
  imports FundAdvances PyFloats "HOL-Library.List_Lexorder"
begin

text \<open>
  apps/fund_requests/weekly_service.py, funding_guard.py and the accountant's side of the
  weekly request (disbursement_dashboard_service.py, finance_views.py): a person's week is
  submitted, approved by the programme lead or the country director, paid out over its
  lines, confirmed as received and closed when every advance is settled.

  The re-pricing of the day batches of a returned week (\<open>resync_stale_batches\<close>) is a
  command of its own and not part of the return here.
\<close>

section \<open>The guard of every channel\<close>

definition DISBURSABLE_ADVANCE_STATUSES :: "advance_status list" where
  "DISBURSABLE_ADVANCE_STATUSES = [CONFIRMED_FOR_ADVANCE, SUBMITTED_TO_ACCOUNTANT]"

definition lock_disbursable_advances :: "string list \<Rightarrow> fund_db \<Rightarrow> advance list result" where
  "lock_disbursable_advances ids db =
     (let lines = remdups (filter (\<lambda>i. i \<noteq> []) ids);
          rows = sort_key ad_line (filter (\<lambda>a. ad_line a \<in> set lines) (advances db));
          missing = length (filter (\<lambda>l. l \<notin> set (map ad_line rows)) lines);
          ineligible = length (filter (\<lambda>a. ad_status a \<notin> set DISBURSABLE_ADVANCE_STATUSES) rows) in
      bindE (ensure (lines \<noteq> []) (BadRequest ''Cannot disburse - this request has no approved budget-line ledger.'')) (\<lambda>_.
      bindE (ensure (missing + ineligible = 0)
        (BadRequest (''Cannot disburse - '' @ show_nat (missing + ineligible) @ '' of this request'' @ [CHR 0x27]
          @ ''s budget lines are missing an approved advance or already had money released. ''
          @ ''Reconcile the request before paying it.''))) (\<lambda>_. Inr rows)))"

section \<open>Submitting a week\<close>

definition get_weekly :: "string \<Rightarrow> fund_db \<Rightarrow> weekly result" where
  "get_weekly i db = of_option (NotFoundError ''Weekly fund request not found.'') (find (\<lambda>r. wk_id r = i) (weeklies db))"

definition put_weekly :: "weekly \<Rightarrow> fund_db \<Rightarrow> fund_db" where
  "put_weekly r db = db\<lparr>weeklies := update_where (\<lambda>x. wk_id x = wk_id r) (\<lambda>_. r) (weeklies db)\<rparr>"

definition owner_role :: "weekly \<Rightarrow> fund_db \<Rightarrow> string" where
  "owner_role r db =
     (if nonblank (wk_role r) then the (wk_role r)
      else case find (\<lambda>u. u_id u = wk_owner r) (users (directory_of db)) of
          None \<Rightarrow> ''CCEO''
        | Some u \<Rightarrow> if u_active_role u \<noteq> [] then u_active_role u
            else if u_roles u = [] then ''CCEO'' else hd (u_roles u))"

definition submission_status_for :: "string \<Rightarrow> weekly_status" where
  "submission_status_for role =
     (if role = ''CCEO'' then WEEK_SUBMITTED_TO_PL
      else if role = ''CountryDirector'' \<or> role = ''Admin'' then WEEK_CONFIRMED
      else WEEK_SUBMITTED_TO_CD)"

text \<open>Every line has one advance at most; money that moved is not touched.\<close>

definition sync_advances :: "fund_world \<Rightarrow> weekly \<Rightarrow> advance_status \<Rightarrow> advance_type \<Rightarrow> fund_db \<Rightarrow> fund_db" where
  "sync_advances w r status type db = db\<lparr>advances := update_where
     (\<lambda>a. list_ex (\<lambda>l. wl_line l = ad_line a) (wk_lines r) \<and> ad_status a \<notin> set MONEY_MOVED_ADVANCE_STATUSES)
     (chosen w status type) (advances db)\<rparr>"

definition audit_weekly :: "fund_world \<Rightarrow> fund_principal \<Rightarrow> string \<Rightarrow> weekly \<Rightarrow> (string \<times> json) list \<Rightarrow> fund_db \<Rightarrow> fund_db" where
  "audit_weekly w p action r payload db = record_audit w p (''weekly_fund_request.'' @ action) ''WeeklyFundRequest'' (wk_id r)
     ([(''week_start'', J_Str (isoformat (wk_start r))), (''total'', J_Int (wk_total r))] @ payload) db"

definition week_text :: "weekly \<Rightarrow> string" where
  "week_text r = ''('' @ short_date (wk_start r) @ '' - '' @ short_date (wk_end r)"

definition notify_weekly_approver :: "fund_world \<Rightarrow> weekly \<Rightarrow> fund_db \<Rightarrow> fund_db" where
  "notify_weekly_approver w r db =
     (let ids = (case wk_status r of WEEK_SUBMITTED_TO_PL \<Rightarrow> map fst (filter (\<lambda>(_, s). s = wk_owner r) (supervisions db))
          | WEEK_SUBMITTED_TO_CD \<Rightarrow> map u_id (filter (\<lambda>u. u_active_role u = ''CountryDirector'' \<and> u_is_active u)
              (users (directory_of db)))
          | _ \<Rightarrow> []) in
      tell_people w ids (fund_event ''weekly_fund_request_submitted'' ''Weekly fund request awaiting your approval''
        (''A weekly fund request '' @ week_text r @ '', UGX '' @ commas (wk_total r) @ '') needs your review.'')
        ''WeeklyFundRequest'' (wk_id r)) db)"

definition notify_weekly_owner :: "fund_world \<Rightarrow> weekly \<Rightarrow> string \<Rightarrow> string \<Rightarrow> string \<Rightarrow> fund_db \<Rightarrow> fund_db" where
  "notify_weekly_owner w r type title body db =
     tell_people w [wk_owner r] (fund_event type title body ''WeeklyFundRequest'' (wk_id r)) db"

definition notify_weekly_accountants :: "fund_world \<Rightarrow> weekly \<Rightarrow> fund_db \<Rightarrow> fund_db" where
  "notify_weekly_accountants w r db = tell_people w (accountant_ids db)
     (fund_event ''weekly_fund_request_ready'' ''Weekly fund request ready to disburse''
       (''An approved weekly fund request '' @ week_text r @ '', UGX '' @ commas (wk_total r) @ '') is ready for disbursement.'')
       ''WeeklyFundRequest'' (wk_id r)) db"

definition REQUESTABLE_WEEKLY_STATUSES :: "weekly_status list" where
  "REQUESTABLE_WEEKLY_STATUSES = [WEEK_PENDING, WEEK_NOT_REQUESTED, WEEK_RETURNED_BY_PL, WEEK_RETURNED_BY_CD,
     WEEK_RETURNED_BY_ACCOUNTANT]"

definition request_advance :: "fund_world \<Rightarrow> string \<Rightarrow> fund_principal \<Rightarrow> string \<Rightarrow> fund_db \<Rightarrow> fund_db result" where
  "request_advance w i p source db =
     bindE (ensure (source = ''advance'' \<or> source = ''self_fund'') (BadRequest ''Unknown funding source.'')) (\<lambda>_.
     bindE (get_weekly i db) (\<lambda>r.
     bindE (ensure (wk_owner r = fp_user p) (Forbidden ''Only the owner can confirm this request.'')) (\<lambda>_.
     bindE (ensure (wk_status r \<in> set REQUESTABLE_WEEKLY_STATUSES)
       (BadRequest (''Cannot request advance in status '' @ [CHR 0x27] @ weekly_status_text (wk_status r) @ [CHR 0x27, CHR ''.'']))) (\<lambda>_.
     let role = owner_role r db;
         r1 = r\<lparr>wk_source := source, wk_status := submission_status_for role, wk_role := Some role,
           wk_confirmed_at := Some (fw_now w)\<rparr>;
         db1 = sync_advances w r1 (if wk_status r1 = WEEK_CONFIRMED then CONFIRMED_FOR_ADVANCE else PENDING_CONFIRMATION)
           BY_ADVANCE (put_weekly r1 db) in
     Inr (notify_weekly_approver w r1 (audit_weekly w p ''submit'' r1
       [(''routed'', J_Str (weekly_status_text (wk_status r1))), (''funding_source'', J_Str source)] db1))))))"

definition weekly_self_funded :: "fund_world \<Rightarrow> string \<Rightarrow> fund_principal \<Rightarrow> fund_db \<Rightarrow> fund_db result" where
  "weekly_self_funded w i p db = request_advance w i p ''self_fund'' db"

definition weekly_not_requested :: "fund_world \<Rightarrow> string \<Rightarrow> fund_principal \<Rightarrow> fund_db \<Rightarrow> fund_db result" where
  "weekly_not_requested w i p db =
     bindE (get_weekly i db) (\<lambda>r.
     bindE (ensure (wk_owner r = fp_user p) (Forbidden ''Only the owner can confirm this request.'')) (\<lambda>_.
     bindE (ensure (wk_status r \<noteq> WEEK_DISBURSED \<and> wk_status r \<noteq> WEEK_ACCOUNTED)
       (BadRequest ''Cannot cancel a disbursed request.'')) (\<lambda>_.
     let r1 = r\<lparr>wk_status := WEEK_NOT_REQUESTED, wk_confirmed_at := Some (fw_now w)\<rparr> in
     Inr (sync_advances w r1 NOT_REQUESTED_ADVANCE WITHOUT_FUNDS (put_weekly r1 db)))))"

section \<open>Approving and returning it\<close>

datatype approval_stage = PL_STAGE | CD_STAGE

definition require_weekly_approver :: "weekly \<Rightarrow> fund_principal \<Rightarrow> fund_db \<Rightarrow> approval_stage result" where
  "require_weekly_approver r p db =
     bindE (ensure (wk_status r = WEEK_SUBMITTED_TO_PL \<or> wk_status r = WEEK_SUBMITTED_TO_CD)
       (BadRequest (''Request is not awaiting approval (status '' @ [CHR 0x27] @ weekly_status_text (wk_status r) @ [CHR 0x27] @ '').''))) (\<lambda>_.
     bindE (ensure (wk_owner r \<noteq> fp_user p) (Forbidden ''You cannot approve your own fund request.'')) (\<lambda>_.
     bindE (refuse_withheld p ''Deciding a weekly advance request'') (\<lambda>_.
     let escalated = (''fundRequest.approveEscalated'' \<in> set (fp_permissions p) \<or> fp_role p = ''CountryDirector'') in
     if wk_status r = WEEK_SUBMITTED_TO_CD
     then bindE (ensure escalated (Forbidden ''Only the Country Director can act on this request.'')) (\<lambda>_. Inr CD_STAGE)
     else if escalated then Inr PL_STAGE
     else bindE (ensure (fp_role p = ''Program Lead'')
         (Forbidden (''Only the owner'' @ [CHR 0x27] @ ''s Program Lead can act on this request.''))) (\<lambda>_.
       bindE (ensure (list_ex (\<lambda>(s, e). s = fp_user p \<and> e = wk_owner r) (supervisions db))
         (Forbidden (''This request belongs to another Program Lead'' @ [CHR 0x27] @ ''s team.''))) (\<lambda>_. Inr PL_STAGE)))))"

definition stage_text :: "approval_stage \<Rightarrow> string" where
  "stage_text s = (case s of PL_STAGE \<Rightarrow> ''pl'' | CD_STAGE \<Rightarrow> ''cd'')"

definition approve_weekly_request :: "fund_world \<Rightarrow> string \<Rightarrow> fund_principal \<Rightarrow> fund_db \<Rightarrow> fund_db result" where
  "approve_weekly_request w i p db =
     bindE (get_weekly i db) (\<lambda>r.
     bindE (require_weekly_approver r p db) (\<lambda>stage.
     let r1 = r\<lparr>wk_status := WEEK_CONFIRMED\<rparr>;
         db1 = sync_advances w r1 CONFIRMED_FOR_ADVANCE BY_ADVANCE (put_weekly r1 db) in
     Inr (notify_weekly_accountants w r1 (notify_weekly_owner w r1 ''weekly_fund_request_approved'' ''Weekly fund request approved''
       (''Your weekly fund request '' @ week_text r1 @ '') was approved and sent to the Accountant for disbursement.'')
       (audit_weekly w p ''approve'' r1 [(''stage'', J_Str (stage_text stage))] db1)))))"

definition has_pending_accountability :: "weekly \<Rightarrow> fund_db \<Rightarrow> bool" where
  "has_pending_accountability r db \<longleftrightarrow> list_ex (\<lambda>l. list_ex (\<lambda>a. ad_line a = wl_line l
     \<and> ad_status a = ACCOUNTABILITY_PENDING) (advances db)) (wk_lines r)"

definition weekly_status_bucket :: "weekly \<Rightarrow> bool \<Rightarrow> string" where
  "weekly_status_bucket r pending = (case wk_status r of WEEK_CONFIRMED \<Rightarrow> ''Pending Disbursement''
     | WEEK_DISBURSED \<Rightarrow> if pending \<or> (wk_submitted_at r \<noteq> None \<and> wk_reviewed_at r = None)
         then ''Awaiting Reconciliation'' else ''Disbursed''
     | WEEK_RETURNED_BY_ACCOUNTANT \<Rightarrow> ''Returned'' | WEEK_ACCOUNTED \<Rightarrow> ''Closed'' | _ \<Rightarrow> ''Pending Approval'')"

definition require_accountant :: "fund_principal \<Rightarrow> unit result" where
  "require_accountant p = ensure (fp_role p = ''Accountant'') (Forbidden ''Only a Program Accountant can act on disbursements.'')"

definition returned_for :: "fund_world \<Rightarrow> string \<Rightarrow> string \<Rightarrow> weekly_status \<Rightarrow> weekly \<Rightarrow> weekly" where
  "returned_for w by reason status r = r\<lparr>wk_status := status, wk_reason := reason, wk_returned_at := Some (fw_now w),
     wk_returned_by := Some by\<rparr>"

definition accountant_return :: "fund_world \<Rightarrow> fund_principal \<Rightarrow> string \<Rightarrow> string \<Rightarrow> fund_db \<Rightarrow> fund_db result" where
  "accountant_return w p i given db =
     bindE (require_accountant p) (\<lambda>_.
     let reason = strip given in
     bindE (ensure (reason \<noteq> []) (BadRequest ''A return reason is required.'')) (\<lambda>_.
     bindE (ensure (length reason \<le> 500) (BadRequest ''Keep the return reason within 500 characters.'')) (\<lambda>_.
     bindE (of_option (DoesNotExist ''WeeklyFundRequest'') (find (\<lambda>r. wk_id r = i) (weeklies db))) (\<lambda>r.
     bindE (ensure (wk_status r = WEEK_CONFIRMED)
       (BadRequest (''Only a confirmed request can be returned by the accountant - this one is already ''
         @ weekly_status_bucket r (has_pending_accountability r db) @ ''.''))) (\<lambda>_.
     let r1 = (returned_for w (fp_user p) reason WEEK_RETURNED_BY_ACCOUNTANT r)\<lparr>wk_confirmed_at := None\<rparr>;
         back = (\<lambda>a. list_ex (\<lambda>l. wl_line l = ad_line a) (wk_lines r) \<and> ad_status a = CONFIRMED_FOR_ADVANCE);
         moved = length (filter back (advances db));
         db1 = (put_weekly r1 db)\<lparr>advances := update_where back
           (\<lambda>a. a\<lparr>ad_status := RETURNED_ADVANCE, ad_note := Some reason\<rparr>) (advances db)\<rparr> in
     bindE (ensure (fw_audit_ok w) AuditUnavailable) (\<lambda>_.
     Inr (notify_weekly_owner w r1 ''weekly_fund_request_returned'' ''Weekly fund request returned''
       (''The Accountant returned your weekly request for correction. Reason: '' @ reason)
       (record_audit w p ''weekly_fund_request.return_by_accountant'' ''WeeklyFundRequest'' i
         [(''reason'', J_Str reason), (''total_amount'', J_Int (wk_total r)), (''advances_returned'', J_Int (int moved))] db1))))))))"

definition return_weekly_request :: "fund_world \<Rightarrow> string \<Rightarrow> payload \<Rightarrow> fund_principal \<Rightarrow> fund_db \<Rightarrow> fund_db result" where
  "return_weekly_request w i data p db =
     bindE (stripped data ''reason'') (\<lambda>reason.
     bindE (ensure (reason \<noteq> []) (BadRequest ''A return reason is required.'')) (\<lambda>_.
     bindE (ensure (length reason \<le> 500) (BadRequest ''Keep the return reason within 500 characters.'')) (\<lambda>_.
     bindE (get_weekly i db) (\<lambda>r.
     if wk_status r = WEEK_CONFIRMED then accountant_return w p i reason db
     else
     bindE (require_weekly_approver r p db) (\<lambda>stage.
     let r1 = returned_for w (fp_user p) reason
           (case stage of PL_STAGE \<Rightarrow> WEEK_RETURNED_BY_PL | CD_STAGE \<Rightarrow> WEEK_RETURNED_BY_CD) r;
         db1 = sync_advances w r1 PENDING_CONFIRMATION BY_ADVANCE (put_weekly r1 db) in
     Inr (notify_weekly_owner w r1 ''weekly_fund_request_returned'' ''Weekly fund request returned''
       (''Your weekly fund request '' @ week_text r1 @ '') was returned for correction. Reason: '' @ reason)
       (audit_weekly w p ''return'' r1 [(''stage'', J_Str (stage_text stage)), (''reason'', J_Str reason)] db1)))))))"

section \<open>Paying it out\<close>

text \<open>
  The largest remainders: every line gets the whole part of its share, computed in floats,
  and what is left goes one shilling each to the lines with the largest fractions.
\<close>

definition fraction_of :: "rat \<Rightarrow> rat" where
  "fraction_of v = to_float (v - to_float (of_int \<lfloor>v\<rfloor>))"

definition weekly_shares :: "int \<Rightarrow> int \<Rightarrow> int list \<Rightarrow> int list" where
  "weekly_shares paid whole costs =
     (let exact = map (\<lambda>c. int_times_float c (float_div paid whole)) costs;
          floors = map floor exact;
          remainder = nat (paid - sum_list floors);
          lucky = take remainder (sort_key (\<lambda>i. - fraction_of (exact ! i)) [0..<length costs])
      in map (\<lambda>i. floors ! i + (if i \<in> set lucky then 1 else 0)) [0..<length costs])"

fun pay_lines :: "fund_world \<Rightarrow> string \<Rightarrow> string option \<Rightarrow> string option \<Rightarrow> (string \<times> int) list \<Rightarrow> fund_db \<Rightarrow> fund_db result" where
  "pay_lines w by via reference [] db = Inr db"
| "pay_lines w by via reference ((line, share) # rest) db =
     bindE (of_option (KeyError line) (find (\<lambda>a. ad_line a = line) (advances db))) (\<lambda>a.
     bindE (save_advance (paid_out w by share via reference a) db) (\<lambda>db1.
       pay_lines w by via reference rest (db1\<lparr>sync_queue := enqueue_netsuite w (ad_id a) (sync_queue db1)\<rparr>)))"

definition disburse_weekly :: "fund_world \<Rightarrow> string \<Rightarrow> payload \<Rightarrow> fund_principal \<Rightarrow> fund_db \<Rightarrow> fund_db result" where
  "disburse_weekly w i data p db =
     bindE (ensure (''payment.act'' \<in> set (fp_permissions p)) (Forbidden ''Only a Program Accountant can disburse funds.'')) (\<lambda>_.
     bindE (get_weekly i db) (\<lambda>r.
     bindE (ensure (wk_status r = WEEK_CONFIRMED) (BadRequest ''Only a confirmed request can be disbursed by the accountant.'')) (\<lambda>_.
     let amount = int_or (py_or (payload_get data ''amount'') (JInt (wk_total r))) (wk_total r) in
     bindE (ensure (0 < amount \<and> amount \<le> wk_total r)
       (BadRequest ''Disbursed amount must be positive and within the approved total.'')) (\<lambda>_.
     bindE (lock_disbursable_advances (map wl_line (wk_lines r)) db) (\<lambda>_.
     bindE (text_column 64 (payload_get data ''method'')) (\<lambda>via.
     bindE (text_column 128 (payload_get data ''reference'')) (\<lambda>reference.
     let r1 = r\<lparr>wk_status := WEEK_DISBURSED, wk_disbursed := Some amount, wk_disbursed_at := Some (fw_now w),
           wk_disbursed_by := Some (fp_user p), wk_method := via, wk_reference := reference\<rparr> in
     bindE (pay_lines w (fp_user p) via reference
       (zip (map wl_line (wk_lines r)) (weekly_shares amount (wk_total r) (map wl_cost (wk_lines r)))) (put_weekly r1 db)) (\<lambda>db1.
     Inr (notify_weekly_owner w r1 ''weekly_fund_request_disbursed'' ''Funds disbursed - confirm receipt''
       (''UGX '' @ commas amount @ '' for your week of '' @ zero_padded 2 (day (wk_start r)) @ '' '' @ month_name (month (wk_start r))
         @ '' was disbursed'' @ (if nonblank via then '' via '' @ the via else [])
         @ ''. Only click Fund Received after receiving the bank message and verifying the funds arrived.'')
       (audit_weekly w p ''disburse'' r1 [(''disbursed'', J_Int amount),
         (''method'', J_Str (if nonblank via then the via else [])),
         (''reference'', J_Str (if nonblank reference then the reference else []))] db1))))))))))"

definition confirm_weekly_receipt :: "fund_world \<Rightarrow> string \<Rightarrow> fund_principal \<Rightarrow> bool \<Rightarrow> fund_db \<Rightarrow> fund_db result" where
  "confirm_weekly_receipt w i p bank_message db =
     bindE (get_weekly i db) (\<lambda>r.
     bindE (ensure (wk_owner r = fp_user p) (Forbidden ''Only the owner can confirm receipt of these funds.'')) (\<lambda>_.
     bindE (ensure (wk_status r = WEEK_DISBURSED) (BadRequest ''These funds are not marked as disbursed.'')) (\<lambda>_.
     if wk_receipt_at r \<noteq> None then Inr db
     else bindE (ensure bank_message
         (BadRequest ''Confirm only after receiving the bank message and verifying the funds arrived.'')) (\<lambda>_.
       let r1 = r\<lparr>wk_receipt_at := Some (fw_now w)\<rparr> in
       Inr (audit_weekly w p ''receipt_confirmed'' r1 [(''bank_message_received'', J_Bool True)] (put_weekly r1 db))))))"

section \<open>Closing it\<close>

definition advances_of_week :: "weekly \<Rightarrow> fund_db \<Rightarrow> advance list" where
  "advances_of_week r db = concat (map (\<lambda>l. case find (\<lambda>a. ad_line a = wl_line l) (advances db) of
     None \<Rightarrow> [] | Some a \<Rightarrow> [a]) (wk_lines r))"

definition joined :: "string list \<Rightarrow> string" where
  "joined ss = (case ss of [] \<Rightarrow> [] | s # rest \<Rightarrow> s @ concat (map (\<lambda>t. '', '' @ t) rest))"

definition roll_up_accountability :: "fund_world \<Rightarrow> string \<Rightarrow> advance list \<Rightarrow> fund_db \<Rightarrow> fund_db" where
  "roll_up_accountability w i rows db =
     (if rows = [] \<or> \<not> list_all (\<lambda>a. ad_status a = ACCOUNTED_ADVANCE \<or> ad_status a = REIMBURSED_ADVANCE) rows then db
      else let codes = sort (remdups (filter (\<lambda>c. c \<noteq> []) (map netsuite_code rows)));
               code = take 128 (joined codes);
               stamps = concat (map (\<lambda>a. case ad_submitted_at a of None \<Rightarrow> [] | Some t \<Rightarrow> [t]) rows) in
        db\<lparr>weeklies := update_where (\<lambda>r. wk_id r = i) (\<lambda>r. r\<lparr>wk_status := WEEK_ACCOUNTED,
          wk_netsuite := (if code = [] then None else Some code),
          wk_submitted_at := (case wk_submitted_at r of Some t \<Rightarrow> Some t
            | None \<Rightarrow> Some (if stamps = [] then fw_now w else foldl min (hd stamps) stamps)),
          wk_reviewed_at := Some (fw_now w),
          wk_accounted := Some (sum_list (map (\<lambda>a. or_zero (ad_accounted a)) rows)),
          wk_returned := Some (sum_list (map (\<lambda>a. or_zero (ad_returned a)) rows))\<rparr>) (weeklies db)\<rparr>)"

text \<open>The accountant's one click on a week: every submitted accountability, then the week.\<close>

fun clear_each :: "fund_world \<Rightarrow> fund_principal \<Rightarrow> advance list \<Rightarrow> fund_db \<Rightarrow> fund_db result" where
  "clear_each w p [] db = Inr db"
| "clear_each w p (a # rest) db =
     bindE (if or_zero (ad_returned a) \<noteq> 0 then verify_return w (ad_id a) [''reference'' \<mapsto> JStr []] p db else Inr db) (\<lambda>db1.
     bindE (approve_accountability w (ad_id a) p db1) (\<lambda>db2. clear_each w p rest db2))"

definition confirm_accountability :: "fund_world \<Rightarrow> string \<Rightarrow> fund_principal \<Rightarrow> fund_db \<Rightarrow> fund_db result" where
  "confirm_accountability w i p db =
     bindE (ensure (''payment.act'' \<in> set (fp_permissions p)) (Forbidden ''Unauthorized'')) (\<lambda>_.
     bindE (get_weekly i db) (\<lambda>r.
     let pending = filter (\<lambda>a. ad_status a = ACCOUNTABILITY_PENDING) (advances_of_week r db) in
     bindE (ensure (pending \<noteq> []) (BadRequest ''No submitted accountability awaits review on this request.'')) (\<lambda>_.
     bindE (clear_each w p pending db) (\<lambda>db1.
       Inr (roll_up_accountability w i (advances_of_week r db1) db1)))))"

end
