(* ===== verification/FundPlans.thy ===== *)
theory FundPlans
  imports FundChannels
begin

text \<open>
  apps/fund_requests/services.py and the accountant's side of monthly plans
  (disbursement_dashboard_service.py): a period request is reviewed by the approval chain,
  which routes the advances of its lines to the accountant or back, held, released or
  returned by the accountant, paid out, confirmed as received and accounted for.

  \<open>supervised\<close> tells whether the caller supervises the owner of the request, as the scope
  of the caller (apps/core/scoping.py) resolves it; \<open>None\<close> when they supervise nobody.
\<close>

section \<open>Statuses\<close>

definition plan_status_text :: "plan_status \<Rightarrow> string" where
  "plan_status_text s = (case s of PLAN_SUBMITTED \<Rightarrow> ''submitted'' | PLAN_APPROVED \<Rightarrow> ''approved''
     | PLAN_RETURNED \<Rightarrow> ''returned'' | PLAN_REJECTED \<Rightarrow> ''rejected'' | PLAN_DISBURSED \<Rightarrow> ''disbursed''
     | PLAN_DRAFT \<Rightarrow> ''draft'' | PLAN_SUBMITTED_TO_PL \<Rightarrow> ''submitted_to_pl'' | PLAN_APPROVED_BY_PL \<Rightarrow> ''approved_by_pl''
     | PLAN_SUBMITTED_TO_CD \<Rightarrow> ''submitted_to_cd'' | PLAN_APPROVED_BY_CD \<Rightarrow> ''approved_by_cd''
     | PLAN_SUBMITTED_TO_RVP \<Rightarrow> ''submitted_to_rvp'' | PLAN_APPROVED_BY_RVP \<Rightarrow> ''approved_by_rvp''
     | PLAN_SENT_TO_ACCOUNTANT \<Rightarrow> ''sent_to_accountant'' | PLAN_HELD \<Rightarrow> ''held'' | PLAN_CLOSED \<Rightarrow> ''closed''
     | PLAN_RETURNED_BY_PL \<Rightarrow> ''returned_by_pl'' | PLAN_RETURNED_BY_CD \<Rightarrow> ''returned_by_cd''
     | PLAN_RETURNED_BY_RVP \<Rightarrow> ''returned_by_rvp'' | PLAN_RETURNED_BY_ACCOUNTANT \<Rightarrow> ''returned_by_accountant'')"

definition plan_status_label :: "plan_status \<Rightarrow> string" where
  "plan_status_label s = (case s of PLAN_SUBMITTED \<Rightarrow> ''Submitted'' | PLAN_APPROVED \<Rightarrow> ''Approved''
     | PLAN_RETURNED \<Rightarrow> ''Returned'' | PLAN_REJECTED \<Rightarrow> ''Rejected'' | PLAN_DISBURSED \<Rightarrow> ''Disbursed''
     | PLAN_DRAFT \<Rightarrow> ''Draft'' | PLAN_SUBMITTED_TO_PL \<Rightarrow> ''Submitted to PL'' | PLAN_APPROVED_BY_PL \<Rightarrow> ''Approved by PL''
     | PLAN_SUBMITTED_TO_CD \<Rightarrow> ''Submitted to CD'' | PLAN_APPROVED_BY_CD \<Rightarrow> ''Approved by CD''
     | PLAN_SUBMITTED_TO_RVP \<Rightarrow> ''Submitted to RVP'' | PLAN_APPROVED_BY_RVP \<Rightarrow> ''Approved by RVP''
     | PLAN_SENT_TO_ACCOUNTANT \<Rightarrow> ''Sent to Accountant'' | PLAN_HELD \<Rightarrow> ''Held'' | PLAN_CLOSED \<Rightarrow> ''Closed''
     | PLAN_RETURNED_BY_PL \<Rightarrow> ''Returned by PL'' | PLAN_RETURNED_BY_CD \<Rightarrow> ''Returned by CD''
     | PLAN_RETURNED_BY_RVP \<Rightarrow> ''Returned by RVP'' | PLAN_RETURNED_BY_ACCOUNTANT \<Rightarrow> ''Returned by Accountant'')"

definition period_text :: "fund_period \<Rightarrow> string" where
  "period_text d = (case d of WEEKLY_PERIOD \<Rightarrow> ''weekly'' | MONTHLY_PERIOD \<Rightarrow> ''monthly''
     | QUARTERLY_PERIOD \<Rightarrow> ''quarterly'' | ANNUAL_PERIOD \<Rightarrow> ''annual'')"

definition REVIEWABLE_STATUSES :: "plan_status list" where
  "REVIEWABLE_STATUSES = [PLAN_SUBMITTED, PLAN_SUBMITTED_TO_PL, PLAN_SUBMITTED_TO_CD, PLAN_SUBMITTED_TO_RVP,
     PLAN_SENT_TO_ACCOUNTANT, PLAN_HELD]"

section \<open>Review\<close>

definition get_plan :: "string \<Rightarrow> fund_db \<Rightarrow> plan result" where
  "get_plan i db = of_option (NotFoundError ''Fund request not found.'') (find (\<lambda>f. pl_id f = i) (plans db))"

definition put_plan :: "plan \<Rightarrow> fund_db \<Rightarrow> fund_db" where
  "put_plan f db = db\<lparr>plans := update_where (\<lambda>x. pl_id x = pl_id f) (\<lambda>_. f) (plans db)\<rparr>"

text \<open>The approval of a request clears the advances of its lines for payment, a return takes it back.\<close>

definition sync_advances_for_period_request :: "plan \<Rightarrow> bool \<Rightarrow> fund_db \<Rightarrow> fund_db" where
  "sync_advances_for_period_request f to_accountant db =
     (let lines = filter (\<lambda>l. l \<noteq> []) (map pi_line (pl_items f)) in
      db\<lparr>advances := (if to_accountant
        then update_where (\<lambda>a. ad_line a \<in> set lines \<and> (ad_status a = PENDING_CONFIRMATION \<or> ad_status a = RETURNED_ADVANCE))
          (\<lambda>a. a\<lparr>ad_status := SUBMITTED_TO_ACCOUNTANT\<rparr>) (advances db)
        else update_where (\<lambda>a. ad_line a \<in> set lines \<and> ad_status a = SUBMITTED_TO_ACCOUNTANT)
          (\<lambda>a. a\<lparr>ad_status := PENDING_CONFIRMATION\<rparr>) (advances db))\<rparr>)"

definition assert_may_review :: "plan \<Rightarrow> fund_principal \<Rightarrow> bool option \<Rightarrow> unit result" where
  "assert_may_review f p supervised =
     bindE (refuse_withheld p ''Deciding a fund request'') (\<lambda>_.
     if fp_role p = ''Admin'' \<or> ''fundRequest.approveEscalated'' \<in> set (fp_permissions p)
       \<or> ''countryBudget.approve'' \<in> set (fp_permissions p) then Inr ()
     else bindE (ensure (pl_status f \<noteq> PLAN_SUBMITTED_TO_CD \<and> pl_status f \<noteq> PLAN_SUBMITTED_TO_RVP)
         (Forbidden ''This request has been escalated to country leadership.'')) (\<lambda>_.
       bindE (ensure (supervised \<noteq> None) (Forbidden ''You do not supervise anyone whose requests you can review.'')) (\<lambda>_.
         ensure (supervised = Some True) (Forbidden (''This request belongs to another Program Lead'' @ [CHR 0x27] @ ''s team.'')))))"

definition audit_plan :: "fund_world \<Rightarrow> fund_principal \<Rightarrow> string \<Rightarrow> plan \<Rightarrow> (string \<times> json) list \<Rightarrow> fund_db \<Rightarrow> fund_db" where
  "audit_plan w p action f payload db = record_audit w p (''fund_request.'' @ action) ''FundRequest'' (pl_id f)
     ([(''period'', J_Str (period_text (pl_period f))), (''period_key'', J_Str (pl_key f))] @ payload) db"

definition text_or_blank :: "string option \<Rightarrow> string" where
  "text_or_blank v = (case v of None \<Rightarrow> [] | Some s \<Rightarrow> s)"

definition review_plan :: "fund_world \<Rightarrow> string \<Rightarrow> plan_status \<Rightarrow> payload \<Rightarrow> fund_principal \<Rightarrow> bool option
    \<Rightarrow> fund_db \<Rightarrow> fund_db result" where
  "review_plan w i new_status data p supervised db =
     bindE (get_plan i db) (\<lambda>f.
     bindE (ensure (pl_owner f \<noteq> fp_user p) (BadRequest ''You cannot review your own fund request.'')) (\<lambda>_.
     bindE (assert_may_review f p supervised) (\<lambda>_.
     bindE (ensure (pl_status f \<in> set REVIEWABLE_STATUSES)
       (BadRequest (''A request in status '' @ [CHR 0x27] @ plan_status_text (pl_status f) @ [CHR 0x27] @ '' can no longer be reviewed.''))) (\<lambda>_.
     bindE (text_column 512 (payload_get data ''note'')) (\<lambda>remark.
     let f1 = f\<lparr>pl_status := new_status, pl_reviewed_by := Some (fp_user p), pl_reviewed_at := Some (fw_now w), pl_note := remark\<rparr> in
     Inr (audit_plan w p (plan_status_text new_status) f1 [(''note'', J_Str (text_or_blank remark))] (put_plan f1 db)))))))"

text \<open>The review is committed before the advances are moved.\<close>

definition decided :: "fund_world \<Rightarrow> string \<Rightarrow> plan_status \<Rightarrow> bool \<Rightarrow> payload \<Rightarrow> fund_principal \<Rightarrow> bool option
    \<Rightarrow> fund_db \<Rightarrow> fund_db result" where
  "decided w i new_status to_accountant data p supervised db =
     bindE (review_plan w i new_status data p supervised db) (\<lambda>db1.
       case find (\<lambda>f. pl_id f = i) (plans db1) of None \<Rightarrow> Inr db1
       | Some f \<Rightarrow> Inr (sync_advances_for_period_request f to_accountant db1))"

definition approve_plan :: "fund_world \<Rightarrow> string \<Rightarrow> payload \<Rightarrow> fund_principal \<Rightarrow> bool option \<Rightarrow> fund_db \<Rightarrow> fund_db result" where
  "approve_plan w i data p supervised db = decided w i PLAN_APPROVED True data p supervised db"

definition return_plan :: "fund_world \<Rightarrow> string \<Rightarrow> payload \<Rightarrow> fund_principal \<Rightarrow> bool option \<Rightarrow> fund_db \<Rightarrow> fund_db result" where
  "return_plan w i data p supervised db = decided w i PLAN_RETURNED False data p supervised db"

definition reject_plan :: "fund_world \<Rightarrow> string \<Rightarrow> payload \<Rightarrow> fund_principal \<Rightarrow> bool option \<Rightarrow> fund_db \<Rightarrow> fund_db result" where
  "reject_plan w i data p supervised db = decided w i PLAN_REJECTED False data p supervised db"

section \<open>Paying it out\<close>

text \<open>Every locked advance is paid its whole amount.\<close>

definition pay_whole :: "fund_world \<Rightarrow> string \<Rightarrow> string option \<Rightarrow> string option \<Rightarrow> advance list \<Rightarrow> fund_db \<Rightarrow> fund_db" where
  "pay_whole w by via reference rows db = db\<lparr>advances := update_where (\<lambda>a. ad_id a \<in> set (map ad_id rows))
     (\<lambda>a. paid_out w by (ad_amount a) via reference a) (advances db)\<rparr>"

definition int_column :: "jval \<Rightarrow> int option result" where
  "int_column v = (if v = JNone then Inr None else bindE (py_int v) (\<lambda>n.
     bindE (ensure (big_integer (Some n)) DataError) (\<lambda>_. Inr (Some n))))"

definition plan_lines :: "plan \<Rightarrow> string list" where
  "plan_lines f = filter (\<lambda>l. l \<noteq> []) (map pi_line (pl_items f))"

definition plan_paid :: "fund_world \<Rightarrow> string \<Rightarrow> int option \<Rightarrow> string option \<Rightarrow> string option \<Rightarrow> plan \<Rightarrow> plan" where
  "plan_paid w by amount via reference f = f\<lparr>pl_status := PLAN_DISBURSED, pl_disbursed := amount,
     pl_disbursed_at := Some (fw_now w), pl_disbursed_by := Some by, pl_method := via, pl_reference := reference\<rparr>"

text \<open>\<open>services.disburse\<close>: the amount is stored as it was sent.\<close>

definition disburse_request :: "fund_world \<Rightarrow> string \<Rightarrow> payload \<Rightarrow> fund_principal \<Rightarrow> fund_db \<Rightarrow> fund_db result" where
  "disburse_request w i data p db =
     bindE (get_plan i db) (\<lambda>f.
     bindE (ensure (pl_status f = PLAN_APPROVED \<or> pl_status f = PLAN_SENT_TO_ACCOUNTANT)
       (BadRequest ''Only an approved request can be disbursed.'')) (\<lambda>_.
     bindE (lock_disbursable_advances (plan_lines f) db) (\<lambda>rows.
     bindE (int_column (payload_or data ''amount'' (JInt (pl_total f)))) (\<lambda>amount.
     bindE (text_column 64 (payload_get data ''method'')) (\<lambda>via.
     bindE (text_column 128 (payload_get data ''reference'')) (\<lambda>reference.
     bindE (ensure (at_least 0 amount) (IntegrityError ''fund_request_disbursed_amount_non_negative'')) (\<lambda>_.
     let f1 = plan_paid w (fp_user p) amount via reference f in
     Inr (audit_plan w p ''disburse'' f1 [(''amount'', json_int amount), (''reference'', J_Str (text_or_blank reference))]
       (pay_whole w (fp_user p) via reference rows (put_plan f1 db))))))))))"

definition get_monthly_plan :: "string \<Rightarrow> plan_status list \<Rightarrow> fund_db \<Rightarrow> plan result" where
  "get_monthly_plan i expected db =
     bindE (of_option (BadRequest ''Fund plan not found.'') (find (\<lambda>f. pl_id f = i \<and> pl_period f = MONTHLY_PERIOD) (plans db))) (\<lambda>f.
     bindE (ensure (pl_status f \<in> set expected)
       (BadRequest (''This fund plan is not in a state for that action (currently '' @ plan_status_label (pl_status f) @ '').''))) (\<lambda>_. Inr f))"

definition nullable :: "string \<Rightarrow> string option" where
  "nullable s = (if s = [] then None else Some s)"

definition audit_dashboard :: "fund_world \<Rightarrow> fund_principal \<Rightarrow> string \<Rightarrow> plan \<Rightarrow> (string \<times> json) list \<Rightarrow> fund_db \<Rightarrow> fund_db" where
  "audit_dashboard w p action f payload db = record_audit w p (''fund_request.'' @ action) ''FundRequest'' (pl_id f)
     ([(''period_key'', J_Str (pl_key f)), (''total'', J_Int (pl_total f))] @ payload) db"

definition notify_requester :: "fund_world \<Rightarrow> plan \<Rightarrow> string \<Rightarrow> string \<Rightarrow> string \<Rightarrow> fund_db \<Rightarrow> fund_db" where
  "notify_requester w f type title body db = tell_people w [pl_owner f] (fund_event type title body ''FundRequest'' (pl_id f)) db"

text \<open>\<open>format_ugx_compact\<close>: one decimal of a float, or none.\<close>

definition one_decimal :: "rat \<Rightarrow> string" where
  "one_decimal v = (let t = half_even (v * 10) in show_int (t div 10) @ ''.'' @ show_int (t mod 10))"

definition compact_ugx :: "int \<Rightarrow> string" where
  "compact_ugx v = (let m = \<bar>v\<bar> in (if v < 0 then ''-'' else []) @ ''UGX '' @
     (if 1000000000 \<le> m then one_decimal (float_div m 1000000000) @ ''B''
      else if 1000000 \<le> m then one_decimal (float_div m 1000000) @ ''M''
      else if 1000 \<le> m then show_int (half_even (float_div m 1000)) @ ''K''
      else commas m))"

text \<open>\<open>round(x)\<close> of a float is to the nearest whole number, half to even.\<close>

definition plan_disbursement :: "fund_world \<Rightarrow> fund_principal \<Rightarrow> plan \<Rightarrow> int \<Rightarrow> string option \<Rightarrow> string option \<Rightarrow> plan_item \<Rightarrow> disbursement_row" where
  "plan_disbursement w p f amount via reference x = \<lparr>dr_activity = pi_activity x, dr_plan = pl_id f,
     dr_amount = half_even (int_times_float (pi_amount x) (float_div amount (pl_total f))), dr_at = fw_now w,
     dr_by = fp_user p, dr_method = text_or_blank via, dr_reference = text_or_blank reference\<rparr>"

definition disburse_plan :: "fund_world \<Rightarrow> string \<Rightarrow> payload \<Rightarrow> fund_principal \<Rightarrow> fund_db \<Rightarrow> fund_db result" where
  "disburse_plan w i data p db =
     bindE (require_accountant p) (\<lambda>_.
     bindE (stripped data ''method'') (\<lambda>via_text.
     bindE (stripped data ''reference'') (\<lambda>reference_text.
     let via = nullable via_text; reference = nullable reference_text in
     bindE (get_monthly_plan i [PLAN_SENT_TO_ACCOUNTANT] db) (\<lambda>f.
     let amount = int_or (py_or (payload_get data ''amount'') (JInt (pl_total f))) (pl_total f) in
     bindE (ensure (0 < amount \<and> amount \<le> pl_total f)
       (BadRequest ''Disbursed amount must be positive and within the approved total.'')) (\<lambda>_.
     bindE (lock_disbursable_advances (plan_lines f) db) (\<lambda>rows.
     bindE (ensure (length via_text \<le> 64 \<and> length reference_text \<le> 128) DataError) (\<lambda>_.
     let f1 = plan_paid w (fp_user p) (Some amount) via reference f;
         db1 = pay_whole w (fp_user p) via reference rows (put_plan f1 db);
         db2 = db1\<lparr>sync_queue := fold (\<lambda>a. enqueue_netsuite w (ad_id a)) rows (sync_queue db1),
           disbursement_rows := disbursement_rows db1 @ map (plan_disbursement w p f amount via reference)
             (filter (\<lambda>x. pi_line x \<in> set (map ad_line rows)) (pl_items f))\<rparr> in
     Inr (notify_requester w f1 ''fund_request_disbursed'' ''Funds disbursed - confirm receipt''
       (''Funds for your '' @ pl_key f @ '' fund plan ('' @ compact_ugx amount @ '') have been disbursed. Check your account and confirm receipt.'')
       (audit_dashboard w p ''disburse'' f1
         [(''amount'', J_Int amount), (''method'', json_text via), (''reference'', json_text reference)] db2)))))))))"

section \<open>Holding, releasing, returning\<close>

text \<open>The reason, and the comment after it when there is one.\<close>

definition with_comment :: "payload \<Rightarrow> string \<Rightarrow> string result" where
  "with_comment data reason = (let v = payload_get data ''comment'' in
     if \<not> truthy v then Inr reason
     else (case v of JStr s \<Rightarrow> Inr (reason @ '' - '' @ s) | _ \<Rightarrow> Inl TypeError))"

definition hold_plan :: "fund_world \<Rightarrow> string \<Rightarrow> payload \<Rightarrow> fund_principal \<Rightarrow> fund_db \<Rightarrow> fund_db result" where
  "hold_plan w i data p db =
     bindE (require_accountant p) (\<lambda>_.
     bindE (stripped data ''reason'') (\<lambda>reason.
     bindE (ensure (reason \<noteq> []) (BadRequest ''A hold reason is required.'')) (\<lambda>_.
     bindE (get_monthly_plan i [PLAN_SENT_TO_ACCOUNTANT] db) (\<lambda>f.
     bindE (with_comment data reason) (\<lambda>full.
     let f1 = f\<lparr>pl_status := PLAN_HELD, pl_held_reason := Some (take 256 full), pl_held_at := Some (fw_now w)\<rparr> in
     Inr (notify_requester w f1 ''fund_request_held'' ''Fund plan on hold''
       (''Your '' @ pl_key f @ '' fund plan is on hold: '' @ reason @ ''. No correction is needed yet - the Accountant will release or return it.'')
       (audit_dashboard w p ''hold'' f1 [(''reason'', J_Str reason)] (put_plan f1 db))))))))"

definition release_plan :: "fund_world \<Rightarrow> string \<Rightarrow> fund_principal \<Rightarrow> fund_db \<Rightarrow> fund_db result" where
  "release_plan w i p db =
     bindE (require_accountant p) (\<lambda>_.
     bindE (get_monthly_plan i [PLAN_HELD] db) (\<lambda>f.
     let f1 = f\<lparr>pl_status := PLAN_SENT_TO_ACCOUNTANT, pl_held_reason := None, pl_held_at := None\<rparr> in
     Inr (audit_dashboard w p ''release_hold'' f1 [] (put_plan f1 db))))"

definition return_item :: "fund_world \<Rightarrow> string \<Rightarrow> payload \<Rightarrow> fund_principal \<Rightarrow> fund_db \<Rightarrow> fund_db result" where
  "return_item w i data p db =
     bindE (require_accountant p) (\<lambda>_.
     bindE (stripped data ''reason'') (\<lambda>reason.
     bindE (ensure (reason \<noteq> []) (BadRequest ''A return reason is required.'')) (\<lambda>_.
     bindE (get_monthly_plan i [PLAN_SENT_TO_ACCOUNTANT, PLAN_HELD] db) (\<lambda>f.
     bindE (with_comment data reason) (\<lambda>full.
     let f1 = f\<lparr>pl_status := PLAN_RETURNED_BY_ACCOUNTANT, pl_reviewed_by := Some (fp_user p),
           pl_reviewed_at := Some (fw_now w), pl_note := Some (take 512 full), pl_held_reason := None, pl_held_at := None\<rparr> in
     Inr (notify_requester w f1 ''fund_request_returned'' ''Fund plan returned by Accountant''
       (''Your '' @ pl_key f @ '' fund plan was returned by the Accountant. Reason: '' @ reason)
       (audit_dashboard w p ''return_accountant'' f1 [(''reason'', J_Str reason)]
         (sync_advances_for_period_request f1 False (put_plan f1 db)))))))))"

definition confirm_plan_receipt :: "fund_world \<Rightarrow> string \<Rightarrow> fund_principal \<Rightarrow> fund_db \<Rightarrow> fund_db result" where
  "confirm_plan_receipt w i p db =
     bindE (of_option (BadRequest ''Fund plan not found.'') (find (\<lambda>f. pl_id f = i \<and> pl_period f = MONTHLY_PERIOD) (plans db))) (\<lambda>f.
     bindE (ensure (pl_owner f = fp_user p) (Forbidden ''Only the requester can confirm receipt of these funds.'')) (\<lambda>_.
     bindE (ensure (pl_status f = PLAN_DISBURSED) (BadRequest ''These funds are not marked as disbursed.'')) (\<lambda>_.
     if pl_receipt_at f \<noteq> None then Inr db
     else let f1 = f\<lparr>pl_receipt_at := Some (fw_now w)\<rparr> in
       Inr (audit_dashboard w p ''receipt_confirmed'' f1 [] (put_plan f1 db)))))"

section \<open>Accounting for it\<close>

definition submit_plan_accountability :: "fund_world \<Rightarrow> string \<Rightarrow> payload \<Rightarrow> fund_principal \<Rightarrow> fund_db \<Rightarrow> fund_db result" where
  "submit_plan_accountability w i data p db =
     bindE (get_plan i db) (\<lambda>f.
     bindE (ensure (pl_owner f = [] \<or> pl_owner f = fp_user p \<or> leads_country p)
       (Forbidden ''Only the request owner can submit its accountability.'')) (\<lambda>_.
     bindE (ensure (pl_status f = PLAN_DISBURSED)
       (BadRequest (''Accountability can only be submitted for a disbursed request (current status: '' @ [CHR 0x27]
         @ plan_status_text (pl_status f) @ [CHR 0x27] @ '').''))) (\<lambda>_.
     bindE (stripped data ''netsuiteId'') (\<lambda>code.
     bindE (ensure (code \<noteq> [])
       (BadRequest (''NetSuite Code is required - accountability is incomplete without proof the expense was ''
         @ ''entered into NetSuite.''))) (\<lambda>_.
     bindE (int_column (payload_get data ''amountSpent'')) (\<lambda>spent.
     bindE (int_column (payload_get data ''amountReturned'')) (\<lambda>returned.
     bindE (ensure (length code \<le> 128) DataError) (\<lambda>_.
     bindE (ensure (at_least 0 spent) (IntegrityError ''fund_request_accounted_amount_non_negative'')) (\<lambda>_.
     bindE (ensure (at_least 0 returned) (IntegrityError ''fund_request_returned_amount_non_negative'')) (\<lambda>_.
     Inr (put_plan (f\<lparr>pl_accounted := spent, pl_returned := returned, pl_netsuite := Some code,
       pl_accountability := Some ''submitted'', pl_submitted_at := Some (fw_now w)\<rparr>) db)))))))))))"

definition review_plan_accountability :: "fund_world \<Rightarrow> string \<Rightarrow> string \<Rightarrow> fund_principal \<Rightarrow> fund_db \<Rightarrow> fund_db result" where
  "review_plan_accountability w i decision p db =
     bindE (get_plan i db) (\<lambda>f.
     bindE (ensure (pl_status f = PLAN_DISBURSED)
       (BadRequest (''Accountability review requires a disbursed request (current status: '' @ [CHR 0x27]
         @ plan_status_text (pl_status f) @ [CHR 0x27] @ '').''))) (\<lambda>_.
     bindE (ensure (pl_accountability f = Some ''submitted'') (BadRequest ''No submitted accountability to review.'')) (\<lambda>_.
     Inr (put_plan ((if decision = ''approve'' then f\<lparr>pl_accountability := Some ''approved'', pl_status := PLAN_CLOSED\<rparr>
        else f\<lparr>pl_accountability := Some ''returned''\<rparr>)
       \<lparr>pl_accountability_reviewed_at := Some (fw_now w), pl_reviewed_by := Some (fp_user p)\<rparr>) db))))"

end
