(* ===== verification/FundMoves.thy ===== *)
theory FundMoves
  imports FundPlans
begin

text \<open>
  What the channels do to an advance, whichever of them it is: \<open>advance_move\<close>. Every command
  of the three services moves the rows of the ledger by such moves, one beside the other,
  so what a move keeps every command keeps. Only a line that is \<open>cleared\<close> is paid out.
\<close>

section \<open>Moves of one advance\<close>

inductive advance_move :: "(string \<Rightarrow> bool) \<Rightarrow> advance \<Rightarrow> advance \<Rightarrow> bool" for cleared where
  choose: "ad_status a \<notin> set MONEY_MOVED_ADVANCE_STATUSES
    \<Longrightarrow> (status, type) \<in> {(CONFIRMED_FOR_ADVANCE, BY_ADVANCE), (PENDING_CONFIRMATION, BY_ADVANCE),
      (SELF_FUNDED_PENDING, BY_OWN_FUNDS), (NOT_REQUESTED_ADVANCE, WITHOUT_FUNDS)}
    \<Longrightarrow> advance_move cleared a (chosen w status type a)"
| route: "ad_status a \<notin> set MONEY_MOVED_ADVANCE_STATUSES
    \<Longrightarrow> status \<in> {SUBMITTED_TO_ACCOUNTANT, PENDING_CONFIRMATION, RETURNED_ADVANCE}
    \<Longrightarrow> advance_move cleared a (a\<lparr>ad_status := status, ad_note := remark\<rparr>)"
| pay: "ad_status a \<in> set DISBURSABLE_ADVANCE_STATUSES \<Longrightarrow> cleared (ad_line a) \<Longrightarrow> 0 \<le> n
    \<Longrightarrow> advance_move cleared a (paid_out w by n via reference a)"
| account: "ad_status a = DISBURSED_ADVANCE \<Longrightarrow> 0 \<le> spent \<Longrightarrow> 0 \<le> returned \<Longrightarrow> variance_ok spent returned why a = Inr ()
    \<Longrightarrow> advance_move cleared a (accounted_for w spent returned code why a)"
| confirm: "ad_status a \<in> set PL_PENDING \<Longrightarrow> advance_move cleared a (pl_approved w by a)"
| send_back: "ad_status a \<in> set PL_PENDING \<Longrightarrow> advance_move cleared a (pl_returned reason a)"
| verify: "ad_status a = ACCOUNTABILITY_PENDING \<Longrightarrow> advance_move cleared a (return_verified w by reference a)"
| overspent: "ad_status a = ACCOUNTABILITY_PENDING \<Longrightarrow> effective_disbursed a < or_zero (ad_accounted a)
    \<Longrightarrow> advance_move cleared a (reviewed w REIMBURSEMENT_SUBMITTED a)"
| clear: "ad_status a = ACCOUNTABILITY_PENDING \<Longrightarrow> or_zero (ad_accounted a) \<le> effective_disbursed a
    \<Longrightarrow> reconciliation_ok a \<Longrightarrow> advance_move cleared a (reviewed w ACCOUNTED_ADVANCE a)"
| claim: "ad_status a = SELF_FUNDED_PENDING \<Longrightarrow> 0 \<le> spent \<Longrightarrow> advance_move cleared a (claim_filed w spent code a)"
| refund: "ad_status a = REIMBURSEMENT_SUBMITTED \<Longrightarrow> 0 < reimbursement_due a
    \<Longrightarrow> advance_move cleared a (reimbursed_out w by (reimbursement_due a) via reference a)"
| receipt: "ad_status a = REIMBURSEMENT_DISBURSED \<Longrightarrow> reconciliation_ok a \<Longrightarrow> advance_move cleared a (receipted w n a)"

lemmas advance_updates = chosen_def paid_out_def accounted_for_def pl_approved_def pl_returned_def return_verified_def
  reviewed_def claim_filed_def reimbursed_out_def receipted_def

abbreviation "advance_moves cleared \<equiv> (advance_move cleared)\<^sup>*\<^sup>*"

definition ledger_moves :: "(string \<Rightarrow> bool) \<Rightarrow> advance list \<Rightarrow> advance list \<Rightarrow> bool" where
  "ledger_moves cleared xs ys \<longleftrightarrow> list_all2 (advance_moves cleared) xs ys"

definition advance_facts :: "advance \<Rightarrow> string \<times> string \<times> string \<times> string option \<times> int" where
  "advance_facts a = (ad_id a, ad_activity a, ad_line a, ad_owner a, ad_amount a)"

lemma move_facts: "advance_move cleared a b \<Longrightarrow> advance_facts b = advance_facts a"
  by (induction rule: advance_move.induct) (simp_all add: advance_facts_def advance_updates)

lemma moves_facts: "advance_moves cleared a b \<Longrightarrow> advance_facts b = advance_facts a"
  by (induction rule: rtranclp_induct) (simp_all add: move_facts)

lemma ledger_moves_facts: "ledger_moves cleared xs ys \<Longrightarrow> map advance_facts ys = map advance_facts xs"
  unfolding ledger_moves_def by (induction rule: list_all2_induct) (simp_all add: moves_facts)

lemma ledger_moves_ids: "ledger_moves cleared xs ys \<Longrightarrow> map ad_id ys = map ad_id xs"
proof -
  assume "ledger_moves cleared xs ys"
  from arg_cong[OF ledger_moves_facts[OF this], of "map fst"] show ?thesis by (simp add: advance_facts_def comp_def)
qed

lemma ledger_moves_refl [simp]: "ledger_moves cleared xs xs"
  by (simp add: ledger_moves_def list.rel_refl)

lemma ledger_moves_trans: "ledger_moves cleared xs ys \<Longrightarrow> ledger_moves cleared ys zs \<Longrightarrow> ledger_moves cleared xs zs"
  unfolding ledger_moves_def by (rule list_all2_trans[of "advance_moves cleared" "advance_moves cleared"]) (auto intro: rtranclp_trans)

lemma ledger_moves_update:
  assumes "\<And>a. a \<in> set rows \<Longrightarrow> P a \<Longrightarrow> advance_move cleared a (f a)"
  shows "ledger_moves cleared rows (update_where P f rows)"
  using assms unfolding ledger_moves_def by (induction rows) auto

text \<open>A row saved under its own id is the only one that changes.\<close>

lemma ledger_moves_save:
  assumes "distinct (map ad_id (advances db))" "a \<in> set (advances db)" "advance_move cleared a b"
  shows "ledger_moves cleared (advances db) (advances (put_advance b db))"
proof -
  have "ad_id b = ad_id a" using move_facts[OF assms(3)] by (simp add: advance_facts_def)
  moreover have "x = a" if "x \<in> set (advances db)" "ad_id x = ad_id a" for x
    using that assms(1,2) by (auto simp: distinct_map inj_on_def)
  ultimately show ?thesis using assms(3) by (auto simp: put_advance_def intro!: ledger_moves_update)
qed

section \<open>Commands\<close>

datatype fund_command =
    Confirm_advance string | Self_funded string | Not_requested string | Disburse string payload
  | Submit_accountability string payload | PL_approve string | PL_return string payload
  | Verify_return string payload | Approve_accountability string | Submit_reimbursement string payload
  | Reimburse string payload | Confirm_reimbursement string payload
  | Request_week string string | Week_not_requested string | Approve_week string | Return_week string payload
  | Disburse_week string payload | Confirm_week_receipt string bool | Confirm_week_accountability string
  | Approve_plan string payload "bool option" | Return_plan string payload "bool option"
  | Reject_plan string payload "bool option" | Disburse_request string payload | Disburse_plan string payload
  | Hold_plan string payload | Release_plan string | Return_item string payload | Confirm_plan_receipt string
  | Submit_plan_accountability string payload | Review_plan_accountability string string

fun run_fund :: "fund_world \<Rightarrow> fund_principal \<Rightarrow> fund_command \<Rightarrow> fund_db \<Rightarrow> fund_db result" where
  "run_fund w p (Confirm_advance i) db = confirm_advance w i p db"
| "run_fund w p (Self_funded i) db = self_funded w i p db"
| "run_fund w p (Not_requested i) db = not_requested w i p db"
| "run_fund w p (Disburse i data) db = disburse w i data p db"
| "run_fund w p (Submit_accountability i data) db = submit_accountability w i data p db"
| "run_fund w p (PL_approve i) db = pl_approve_accountability w i p db"
| "run_fund w p (PL_return i data) db = pl_return_accountability w i data p db"
| "run_fund w p (Verify_return i data) db = verify_return w i data p db"
| "run_fund w p (Approve_accountability i) db = approve_accountability w i p db"
| "run_fund w p (Submit_reimbursement i data) db = submit_reimbursement w i data p db"
| "run_fund w p (Reimburse i data) db = reimburse w i data p db"
| "run_fund w p (Confirm_reimbursement i data) db = confirm_reimbursement_receipt w i data p db"
| "run_fund w p (Request_week i source) db = request_advance w i p source db"
| "run_fund w p (Week_not_requested i) db = weekly_not_requested w i p db"
| "run_fund w p (Approve_week i) db = approve_weekly_request w i p db"
| "run_fund w p (Return_week i data) db = return_weekly_request w i data p db"
| "run_fund w p (Disburse_week i data) db = disburse_weekly w i data p db"
| "run_fund w p (Confirm_week_receipt i ok) db = confirm_weekly_receipt w i p ok db"
| "run_fund w p (Confirm_week_accountability i) db = confirm_accountability w i p db"
| "run_fund w p (Approve_plan i data m) db = approve_plan w i data p m db"
| "run_fund w p (Return_plan i data m) db = return_plan w i data p m db"
| "run_fund w p (Reject_plan i data m) db = reject_plan w i data p m db"
| "run_fund w p (Disburse_request i data) db = disburse_request w i data p db"
| "run_fund w p (Disburse_plan i data) db = disburse_plan w i data p db"
| "run_fund w p (Hold_plan i data) db = hold_plan w i data p db"
| "run_fund w p (Release_plan i) db = release_plan w i p db"
| "run_fund w p (Return_item i data) db = return_item w i data p db"
| "run_fund w p (Confirm_plan_receipt i) db = confirm_plan_receipt w i p db"
| "run_fund w p (Submit_plan_accountability i data) db = submit_plan_accountability w i data p db"
| "run_fund w p (Review_plan_accountability i decision) db = review_plan_accountability w i decision p db"

text \<open>Commands one after the other, each by its own caller.\<close>

fun run_funds :: "fund_world \<Rightarrow> (fund_principal \<times> fund_command) list \<Rightarrow> fund_db \<Rightarrow> fund_db result" where
  "run_funds w [] db = Inr db"
| "run_funds w ((p, c) # rest) db = bindE (run_fund w p c db) (run_funds w rest)"

section \<open>What leaves the ledger alone\<close>

lemma advances_tell [simp]: "advances (tell_people w ids ev db) = advances db"
  by (simp add: tell_people_def Let_def)

lemma advances_audit [simp]: "advances (record_audit w p action kind i payload db) = advances db"
  by (simp add: record_audit_def)

lemma advances_settle [simp]: "advances (settle_activity_accounts act db) = advances db"
  by (simp add: settle_activity_accounts_def Let_def)

lemma advances_put_weekly [simp]: "advances (put_weekly r db) = advances db"
  by (simp add: put_weekly_def)

lemma advances_put_plan [simp]: "advances (put_plan f db) = advances db"
  by (simp add: put_plan_def)

lemma advances_roll_up [simp]: "advances (roll_up_accountability w i rows db) = advances db"
  by (simp add: roll_up_accountability_def Let_def)

lemmas fund_notes = audit_advance_def audit_weekly_def audit_plan_def audit_dashboard_def notify_weekly_owner_def
  notify_weekly_approver_def notify_weekly_accountants_def notify_requester_def

lemma advances_notes [simp]:
  "advances (audit_advance w p s i payload db) = advances db"
  "advances (audit_weekly w p s r payload db) = advances db"
  "advances (audit_plan w p s f payload db) = advances db"
  "advances (audit_dashboard w p s f payload db) = advances db"
  "advances (notify_weekly_owner w r t1 t2 t3 db) = advances db"
  "advances (notify_weekly_approver w r db) = advances db"
  "advances (notify_weekly_accountants w r db) = advances db"
  "advances (notify_requester w f t1 t2 t3 db) = advances db"
  by (simp_all add: fund_notes Let_def)

lemma get_advance_Inr: "get_advance i db = Inr a \<Longrightarrow> a \<in> set (advances db) \<and> ad_id a = i"
  by (auto simp: get_advance_def dest: find_Some_set)

lemma get_for_owner_Inr: "get_for_owner i p db = Inr a \<Longrightarrow> a \<in> set (advances db) \<and> ad_id a = i"
  by (auto simp: get_for_owner_def bindE_eq_Inr dest: get_advance_Inr)

lemma save_advance_Inr: "save_advance b db = Inr db1 \<Longrightarrow> db1 = put_advance b db \<and> advance_refused b (advances db) = Inr ()"
  by (auto simp: save_advance_def bindE_eq_Inr)

lemma refused_amounts:
  assumes "advance_refused b rows = Inr ()"
  shows "at_least 0 (ad_disbursed b)" "at_least 0 (ad_accounted b)" "at_least 0 (ad_returned b)" "code_free b rows"
  using assms by (auto simp: advance_refused_def bindE_eq_Inr)

section \<open>Every command moves the ledger\<close>

definition unique_advances :: "fund_db \<Rightarrow> bool" where
  "unique_advances db \<longleftrightarrow> distinct (map ad_id (advances db))"

lemma save_moves:
  assumes "save_advance b db = Inr db1" "unique_advances db" "a \<in> set (advances db)" "advance_move cleared a b"
  shows "ledger_moves cleared (advances db) (advances db1)"
  using ledger_moves_save assms save_advance_Inr[OF assms(1)] by (auto simp: unique_advances_def)

text \<open>The operations that save one row.\<close>

lemma owner_choices_move:
  assumes "unique_advances db"
  shows "confirm_advance w i p db = Inr db' \<Longrightarrow> ledger_moves cleared (advances db) (advances db')"
    and "self_funded w i p db = Inr db' \<Longrightarrow> ledger_moves cleared (advances db) (advances db')"
    and "not_requested w i p db = Inr db' \<Longrightarrow> ledger_moves cleared (advances db) (advances db')"
  by (auto simp: confirm_advance_def self_funded_def not_requested_def bindE_eq_Inr CONFIRMABLE_def
      MONEY_MOVED_ADVANCE_STATUSES_def dest!: get_for_owner_Inr
      elim!: save_moves[OF _ assms] intro!: advance_move.choose)

text \<open>A line that somebody approved: it is on a confirmed week, or on an approved period request.\<close>

definition cleared_line :: "fund_db \<Rightarrow> string \<Rightarrow> bool" where
  "cleared_line db l \<longleftrightarrow> carried l db
     \<or> list_ex (\<lambda>f. (pl_status f = PLAN_APPROVED \<or> pl_status f = PLAN_SENT_TO_ACCOUNTANT) \<and> l \<in> set (plan_lines f)) (plans db)"

lemma disburse_moves:
  assumes "disburse w i data p db = Inr db'" "unique_advances db"
  shows "ledger_moves (cleared_line db) (advances db) (advances db')"
  using assms(1) by (auto simp: disburse_def bindE_eq_Inr Let_def DISBURSABLE_ADVANCE_STATUSES_def cleared_line_def
      dest!: get_advance_Inr elim!: save_moves[OF _ assms(2)] intro!: advance_move.pay)

lemma submit_accountability_moves:
  assumes "submit_accountability w i data p db = Inr db'" "unique_advances db"
  shows "ledger_moves cleared (advances db) (advances db')"
  using assms(1) by (auto simp: submit_accountability_def bindE_eq_Inr
      dest!: get_advance_Inr elim!: save_moves[OF _ assms(2)] intro!: advance_move.account)

lemma pl_decisions_move:
  assumes "unique_advances db"
  shows "pl_approve_accountability w i p db = Inr db' \<Longrightarrow> ledger_moves cleared (advances db) (advances db')"
    and "pl_return_accountability w i data p db = Inr db' \<Longrightarrow> ledger_moves cleared (advances db) (advances db')"
  by (auto simp: pl_approve_accountability_def pl_return_accountability_def bindE_eq_Inr Let_def
      dest!: get_advance_Inr elim!: save_moves[OF _ assms] intro!: advance_move.confirm advance_move.send_back)

lemma verify_return_moves:
  assumes "verify_return w i data p db = Inr db'" "unique_advances db"
  shows "ledger_moves cleared (advances db) (advances db')"
  using assms(1) by (auto simp: verify_return_def bindE_eq_Inr Let_def
      dest!: get_advance_Inr elim!: save_moves[OF _ assms(2)] intro!: advance_move.verify)

lemma approve_accountability_moves:
  assumes "approve_accountability w i p db = Inr db'" "unique_advances db"
  shows "ledger_moves cleared (advances db) (advances db')"
proof -
  from assms(1) obtain a where a: "a \<in> set (advances db)" "ad_status a = ACCOUNTABILITY_PENDING"
    and rest: "if effective_disbursed a < or_zero (ad_accounted a)
      then \<exists>db1. save_advance (reviewed w REIMBURSEMENT_SUBMITTED a) db = Inr db1 \<and> advances db' = advances db1
      else reconciliation_ok a \<and> (\<exists>db1. save_advance (reviewed w ACCOUNTED_ADVANCE a) db = Inr db1 \<and> advances db' = advances db1)"
    unfolding approve_accountability_def Let_def
    by (elim bindE_InrE) (fastforce dest!: get_advance_Inr simp: bindE_eq_Inr split: if_splits)
  show ?thesis
  proof (cases "effective_disbursed a < or_zero (ad_accounted a)")
    case True
    with rest save_moves[OF _ assms(2) a(1) advance_move.overspent[OF a(2)]] show ?thesis by auto
  next
    case False
    with rest save_moves[OF _ assms(2) a(1) advance_move.clear[OF a(2)]] show ?thesis by auto
  qed
qed

lemma submit_reimbursement_moves:
  assumes "submit_reimbursement w i data p db = Inr db'" "unique_advances db"
  shows "ledger_moves cleared (advances db) (advances db')"
proof -
  from assms(1) obtain a spent raw db1 where s: "a \<in> set (advances db)" "ad_status a = SELF_FUNDED_PENDING"
    "save_advance (claim_filed w spent raw a) db = Inr db1" "advances db' = advances db1"
    by (auto simp: submit_reimbursement_def bindE_eq_Inr dest!: get_advance_Inr)
  have "0 \<le> spent"
    using refused_amounts(2)[OF conjunct2[OF save_advance_Inr[OF s(3)]]] by (simp add: claim_filed_def at_least_def)
  with save_moves[OF s(3) assms(2) s(1)] advance_move.claim[OF s(2)] s(4) show ?thesis by simp
qed

lemma reimburse_moves:
  assumes "reimburse w i data p db = Inr db'" "unique_advances db"
  shows "ledger_moves cleared (advances db) (advances db')"
proof -
  from assms(1) obtain a via reference db1 where s: "a \<in> set (advances db)" "ad_status a = REIMBURSEMENT_SUBMITTED"
    "0 < reimbursement_due a" "save_advance (reimbursed_out w (fp_user p) (reimbursement_due a) via reference a) db = Inr db1"
    "advances db' = advances db1"
    by (auto simp: reimburse_def bindE_eq_Inr Let_def dest!: get_advance_Inr)
  with save_moves[OF s(4) assms(2) s(1)] advance_move.refund[OF s(2,3)] show ?thesis by simp
qed

lemma confirm_reimbursement_moves:
  assumes "confirm_reimbursement_receipt w i data p db = Inr db'" "unique_advances db"
  shows "ledger_moves cleared (advances db) (advances db')"
  using assms(1) by (auto simp: confirm_reimbursement_receipt_def bindE_eq_Inr
      dest!: get_advance_Inr elim!: save_moves[OF _ assms(2)] intro!: advance_move.receipt)

text \<open>The weekly requests and the plans.\<close>

lemma weekly_decisions_move:
  shows "request_advance w i p source db = Inr db' \<Longrightarrow> ledger_moves cleared (advances db) (advances db')"
    and "weekly_not_requested w i p db = Inr db' \<Longrightarrow> ledger_moves cleared (advances db) (advances db')"
    and "approve_weekly_request w i p db = Inr db' \<Longrightarrow> ledger_moves cleared (advances db) (advances db')"
  by (auto simp: request_advance_def weekly_not_requested_def approve_weekly_request_def bindE_eq_Inr Let_def
      sync_advances_def intro!: ledger_moves_update advance_move.choose)

lemma accountant_return_moves: "accountant_return w p i given db = Inr db' \<Longrightarrow> ledger_moves cleared (advances db) (advances db')"
  by (auto simp: accountant_return_def bindE_eq_Inr Let_def MONEY_MOVED_ADVANCE_STATUSES_def
      intro!: ledger_moves_update advance_move.route)

lemma return_weekly_moves: "return_weekly_request w i data p db = Inr db' \<Longrightarrow> ledger_moves cleared (advances db) (advances db')"
  by (auto simp: return_weekly_request_def bindE_eq_Inr Let_def sync_advances_def split: if_splits
      dest: accountant_return_moves intro!: ledger_moves_update advance_move.choose)

lemma unique_moves: "unique_advances db \<Longrightarrow> ledger_moves cleared (advances db) (advances db') \<Longrightarrow> unique_advances db'"
  by (simp add: unique_advances_def ledger_moves_ids)

text \<open>The constraints of the tables: keys, one advance a line, no line twice on a request.\<close>

definition fund_tables :: "fund_db \<Rightarrow> bool" where
  "fund_tables db \<longleftrightarrow> unique_advances db \<and> distinct (map ad_line (advances db))
     \<and> list_all (\<lambda>r. distinct (map wl_line (wk_lines r))) (weeklies db)"

definition payable :: "string list \<Rightarrow> fund_db \<Rightarrow> bool" where
  "payable lines db \<longleftrightarrow> list_all (\<lambda>a. ad_line a \<in> set lines \<longrightarrow> ad_status a \<in> set DISBURSABLE_ADVANCE_STATUSES) (advances db)"

lemma lock_payable:
  assumes "lock_disbursable_advances ids db = Inr rows"
  shows "payable (filter (\<lambda>i. i \<noteq> []) ids) db" "set rows = {a \<in> set (advances db). ad_line a \<in> set (filter (\<lambda>i. i \<noteq> []) ids)}"
    "set (filter (\<lambda>i. i \<noteq> []) ids) \<subseteq> ad_line ` set (advances db)"
  using assms by (auto simp: lock_disbursable_advances_def Let_def bindE_eq_Inr payable_def list_all_iff filter_empty_conv)

lemma put_advance_rows: "x \<in> set (advances (put_advance b db)) \<Longrightarrow> x = b \<or> x \<in> set (advances db)"
  by (auto simp: put_advance_def set_update_where split: if_splits)

lemma pay_lines_moves:
  assumes "pay_lines w by via reference ps db = Inr db'" "unique_advances db" "distinct (map fst ps)" "payable (map fst ps) db"
    "list_all cleared (map fst ps)"
  shows "ledger_moves cleared (advances db) (advances db')"
  using assms
proof (induction ps arbitrary: db)
  case (Cons q ps)
  obtain l share where q: "q = (l, share)" by fastforce
  from Cons.prems(1) obtain a db1 where a: "find (\<lambda>a. ad_line a = l) (advances db) = Some a"
    and save: "save_advance (paid_out w by share via reference a) db = Inr db1"
    and rest: "pay_lines w by via reference ps (db1\<lparr>sync_queue := enqueue_netsuite w (ad_id a) (sync_queue db1)\<rparr>) = Inr db'"
    unfolding q by (auto simp: bindE_eq_Inr)
  note row = find_Some_set[OF a]
  have "ad_status a \<in> set DISBURSABLE_ADVANCE_STATUSES" using Cons.prems(4) row by (auto simp: payable_def list_all_iff q)
  moreover have "0 \<le> share"
    using refused_amounts(1)[OF conjunct2[OF save_advance_Inr[OF save]]] by (simp add: paid_out_def at_least_def)
  ultimately have "advance_move cleared a (paid_out w by share via reference a)"
    using row Cons.prems(5) by (auto simp: q intro: advance_move.pay)
  then have first: "ledger_moves cleared (advances db) (advances db1)" using save_moves[OF save Cons.prems(2)] row by blast
  have "ad_status x \<in> set DISBURSABLE_ADVANCE_STATUSES" if x: "x \<in> set (advances db1)" "ad_line x \<in> set (map fst ps)" for x
  proof -
    have "ad_line x \<noteq> l" using x(2) Cons.prems(3) by (auto simp: q)
    then have "x \<in> set (advances db)" using put_advance_rows[of x "paid_out w by share via reference a" db] x(1) save_advance_Inr[OF save] row
      by (auto simp: paid_out_def)
    with x(2) Cons.prems(4) show ?thesis by (simp add: payable_def list_all_iff q)
  qed
  then have "payable (map fst ps) db1" by (simp add: payable_def list_all_iff)
  with Cons.IH[OF rest] unique_moves[OF Cons.prems(2) first] Cons.prems(3,5)
  have "ledger_moves cleared (advances db1) (advances db')" by (simp add: unique_advances_def payable_def)
  with first show ?case by (rule ledger_moves_trans)
qed simp

lemma disburse_weekly_moves:
  assumes "disburse_weekly w i data p db = Inr db'" "fund_tables db" "list_all (\<lambda>a. ad_line a \<noteq> []) (advances db)"
  shows "ledger_moves (cleared_line db) (advances db) (advances db')"
proof -
  from assms(1) obtain r r1 rows via reference shares db1 where r: "r \<in> set (weeklies db)" "wk_status r = WEEK_CONFIRMED"
    and lock: "lock_disbursable_advances (map wl_line (wk_lines r)) db = Inr rows"
    and pay: "pay_lines w (fp_user p) via reference (zip (map wl_line (wk_lines r)) shares) (put_weekly r1 db) = Inr db1"
    and shares: "length shares = length (wk_lines r)" and db': "advances db' = advances db1"
    by (auto simp: disburse_weekly_def bindE_eq_Inr Let_def get_weekly_def weekly_shares_def dest!: find_Some_set)
  have "distinct (map wl_line (wk_lines r))" using assms(2) r by (auto simp: fund_tables_def list_all_iff)
  moreover have "payable (map wl_line (wk_lines r)) (put_weekly r1 db)"
    using lock_payable(1)[OF lock] assms(3) by (fastforce simp: payable_def list_all_iff)
  moreover have "list_all (cleared_line db) (map wl_line (wk_lines r))"
    using r by (fastforce simp: cleared_line_def carried_def list_all_iff list_ex_iff)
  ultimately show ?thesis
    using pay_lines_moves[OF pay] assms(2) shares by (simp add: db' fund_tables_def unique_advances_def)
qed

lemma pay_whole_moves:
  assumes "lock_disbursable_advances ids db = Inr rows" "list_all (\<lambda>a. 0 \<le> ad_amount a) (advances db)" "unique_advances db"
    "list_all cleared (filter (\<lambda>l. l \<noteq> []) ids)"
  shows "ledger_moves cleared (advances db) (advances (pay_whole w by via reference rows (put_plan f db)))"
proof -
  have "ad_status a \<in> set DISBURSABLE_ADVANCE_STATUSES \<and> cleared (ad_line a)" if "a \<in> set (advances db)" "ad_id a \<in> set (map ad_id rows)" for a
  proof -
    from that(2) obtain b where "b \<in> set rows" "ad_id b = ad_id a" by auto
    moreover from this have "b \<in> set (advances db)" using lock_payable(2)[OF assms(1)] by auto
    ultimately have "a \<in> set rows" using that(1) assms(3) by (metis unique_advances_def distinct_map inj_on_eq_iff)
    then show ?thesis using lock_payable(1,2)[OF assms(1)] assms(4) by (auto simp: payable_def list_all_iff)
  qed
  then show ?thesis using assms(2)
    by (auto simp: pay_whole_def list_all_iff intro!: ledger_moves_update advance_move.pay)
qed

lemma period_sync_moves: "ledger_moves cleared (advances db) (advances (sync_advances_for_period_request f to_accountant db))"
proof -
  have "advance_move cleared a (a\<lparr>ad_status := s\<rparr>)"
    if "ad_status a \<notin> set MONEY_MOVED_ADVANCE_STATUSES" "s \<in> {SUBMITTED_TO_ACCOUNTANT, PENDING_CONFIRMATION, RETURNED_ADVANCE}" for a s
    using advance_move.route[OF that, where remark = "ad_note a"] by simp
  then show ?thesis
    by (auto simp: sync_advances_for_period_request_def Let_def MONEY_MOVED_ADVANCE_STATUSES_def intro!: ledger_moves_update)
qed

lemma plan_decisions_move:
  assumes "decided w i status to_accountant data p m db = Inr db'"
  shows "ledger_moves cleared (advances db) (advances db')"
proof -
  from assms obtain db1 where review: "review_plan w i status data p m db = Inr db1"
    and rest: "db' = db1 \<or> (\<exists>f. db' = sync_advances_for_period_request f to_accountant db1)"
    by (auto simp: decided_def bindE_eq_Inr split: option.splits)
  from review have "advances db1 = advances db" by (auto simp: review_plan_def bindE_eq_Inr Let_def)
  with rest period_sync_moves[where db = db1] show ?thesis by auto
qed

lemma approved_plan_cleared:
  assumes "f \<in> set (plans db)" "pl_status f = PLAN_APPROVED \<or> pl_status f = PLAN_SENT_TO_ACCOUNTANT"
  shows "list_all (cleared_line db) (filter (\<lambda>l. l \<noteq> []) (plan_lines f))"
  using assms by (auto simp: cleared_line_def list_all_iff list_ex_iff)

lemma disburse_request_moves:
  assumes "disburse_request w i data p db = Inr db'" "fund_tables db" "list_all (\<lambda>a. 0 \<le> ad_amount a) (advances db)"
  shows "ledger_moves (cleared_line db) (advances db) (advances db')"
proof -
  from assms(1) obtain f rows f1 via reference where f: "f \<in> set (plans db)" "pl_status f = PLAN_APPROVED \<or> pl_status f = PLAN_SENT_TO_ACCOUNTANT"
    and lock: "lock_disbursable_advances (plan_lines f) db = Inr rows"
    and db': "advances db' = advances (pay_whole w (fp_user p) via reference rows (put_plan f1 db))"
    by (auto simp: disburse_request_def bindE_eq_Inr Let_def get_plan_def dest!: find_Some_set)
  from pay_whole_moves[OF lock assms(3) _ approved_plan_cleared[OF f]] assms(2) show ?thesis by (simp add: db' fund_tables_def)
qed

lemma disburse_plan_moves:
  assumes "disburse_plan w i data p db = Inr db'" "fund_tables db" "list_all (\<lambda>a. 0 \<le> ad_amount a) (advances db)"
  shows "ledger_moves (cleared_line db) (advances db) (advances db')"
proof -
  from assms(1) obtain f rows f1 via reference where f: "f \<in> set (plans db)" "pl_status f = PLAN_SENT_TO_ACCOUNTANT"
    and lock: "lock_disbursable_advances (plan_lines f) db = Inr rows"
    and db': "advances db' = advances (pay_whole w (fp_user p) via reference rows (put_plan f1 db))"
    by (auto simp: disburse_plan_def bindE_eq_Inr Let_def get_monthly_plan_def dest!: find_Some_set)
  from pay_whole_moves[OF lock assms(3) _ approved_plan_cleared[OF f(1) disjI2[OF f(2)]]] assms(2)
  show ?thesis by (simp add: db' fund_tables_def)
qed

lemma return_item_moves:
  assumes "return_item w i data p db = Inr db'"
  shows "ledger_moves cleared (advances db) (advances db')"
proof -
  from assms obtain f f1 where "advances db' = advances (sync_advances_for_period_request f False (put_plan f1 db))"
    by (auto simp: return_item_def bindE_eq_Inr Let_def)
  with period_sync_moves[where db = "put_plan f1 db" and f = f and to_accountant = False] show ?thesis by simp
qed

lemma plan_rest_moves:
  shows "hold_plan w i data p db = Inr db' \<Longrightarrow> ledger_moves cleared (advances db) (advances db')"
    and "release_plan w i p db = Inr db' \<Longrightarrow> ledger_moves cleared (advances db) (advances db')"
    and "submit_plan_accountability w i data p db = Inr db' \<Longrightarrow> ledger_moves cleared (advances db) (advances db')"
    and "review_plan_accountability w i decision p db = Inr db' \<Longrightarrow> ledger_moves cleared (advances db) (advances db')"
  by (auto simp: hold_plan_def release_plan_def submit_plan_accountability_def
      review_plan_accountability_def bindE_eq_Inr Let_def)

lemma receipts_move:
  shows "confirm_plan_receipt w i p db = Inr db' \<Longrightarrow> ledger_moves cleared (advances db) (advances db')"
    and "confirm_weekly_receipt w i p ok db = Inr db' \<Longrightarrow> ledger_moves cleared (advances db) (advances db')"
  by (auto simp: confirm_plan_receipt_def confirm_weekly_receipt_def bindE_eq_Inr Let_def split: if_splits)

lemma clear_each_moves:
  "clear_each w p rows db = Inr db' \<Longrightarrow> unique_advances db \<Longrightarrow> ledger_moves cleared (advances db) (advances db')"
proof (induction rows arbitrary: db)
  case (Cons a rows)
  from Cons.prems(1) obtain db1 db2 where first: "db1 = db \<or> verify_return w (ad_id a) [''reference'' \<mapsto> JStr []] p db = Inr db1"
    and second: "approve_accountability w (ad_id a) p db1 = Inr db2" and rest: "clear_each w p rows db2 = Inr db'"
    by (auto simp: bindE_eq_Inr split: if_splits)
  have one: "ledger_moves cleared (advances db) (advances db1)" using first verify_return_moves[OF _ Cons.prems(2)] by auto
  have two: "ledger_moves cleared (advances db1) (advances db2)"
    by (rule approve_accountability_moves[OF second unique_moves[OF Cons.prems(2) one]])
  have "ledger_moves cleared (advances db2) (advances db')"
    by (rule Cons.IH[OF rest unique_moves[OF unique_moves[OF Cons.prems(2) one] two]])
  then show ?case using ledger_moves_trans[OF one] ledger_moves_trans[OF two] by blast
qed simp

lemma confirm_accountability_moves:
  "confirm_accountability w i p db = Inr db' \<Longrightarrow> unique_advances db \<Longrightarrow> ledger_moves cleared (advances db) (advances db')"
  by (auto simp: confirm_accountability_def bindE_eq_Inr Let_def dest: clear_each_moves)

text \<open>The amounts and the lines of the advances: what the tables and the planning guarantee.\<close>

definition sound_rows :: "fund_db \<Rightarrow> bool" where
  "sound_rows db \<longleftrightarrow> fund_tables db \<and> list_all (\<lambda>a. 0 \<le> ad_amount a \<and> ad_line a \<noteq> []) (advances db)"

lemma command_moves:
  assumes "run_fund w p c db = Inr db'" "sound_rows db"
  shows "ledger_moves (cleared_line db) (advances db) (advances db')"
proof -
  have t: "fund_tables db" "unique_advances db" "list_all (\<lambda>a. 0 \<le> ad_amount a) (advances db)" "list_all (\<lambda>a. ad_line a \<noteq> []) (advances db)"
    using assms(2) by (auto simp: sound_rows_def fund_tables_def list_all_iff)
  show ?thesis
  proof -
    note moves = owner_choices_move[OF t(2)] disburse_moves[OF _ t(2)] submit_accountability_moves[OF _ t(2)]
      pl_decisions_move[OF t(2)] verify_return_moves[OF _ t(2)] approve_accountability_moves[OF _ t(2)]
      submit_reimbursement_moves[OF _ t(2)] reimburse_moves[OF _ t(2)] confirm_reimbursement_moves[OF _ t(2)]
      weekly_decisions_move return_weekly_moves disburse_weekly_moves[OF _ t(1,4)] confirm_accountability_moves[OF _ t(2)]
      plan_decisions_move disburse_request_moves[OF _ t(1,3)] disburse_plan_moves[OF _ t(1,3)] return_item_moves plan_rest_moves receipts_move
    from assms(1) show ?thesis
      by (cases c; simp only: run_fund.simps approve_plan_def return_plan_def reject_plan_def; elim moves)
  qed
qed

end
