(* ===== verification/FundInvariant.thy ===== *)
theory FundInvariant
  imports FundMoves
begin

text \<open>
  The databases the fund services can reach: their commands, and whatever the planning does
  beside them to advances no money has moved on, to the requests and to the activities. A
  row whose money has moved is consistent with its status, and what was paid stays as it is.
\<close>

section \<open>A consistent advance\<close>

definition unpaid :: "advance \<Rightarrow> bool" where
  "unpaid a \<longleftrightarrow> ad_status a \<notin> set MONEY_MOVED_ADVANCE_STATUSES"

text \<open>Either an advance was paid out, or the owner spent their own money.\<close>

definition paid_or_own :: "advance \<Rightarrow> bool" where
  "paid_or_own a \<longleftrightarrow> (case ad_disbursed a of Some n \<Rightarrow> 0 \<le> n | None \<Rightarrow> ad_type a = BY_OWN_FUNDS)"

definition advance_ok :: "advance \<Rightarrow> bool" where
  "advance_ok a \<longleftrightarrow> (case ad_status a of
       DISBURSED_ADVANCE \<Rightarrow> at_least 0 (ad_disbursed a) \<and> ad_disbursed a \<noteq> None \<and> ad_reimbursed a = None
     | ACCOUNTABILITY_PL_PENDING \<Rightarrow> at_least 0 (ad_disbursed a) \<and> ad_disbursed a \<noteq> None \<and> ad_reimbursed a = None
     | ACCOUNTABILITY_PENDING \<Rightarrow> at_least 0 (ad_disbursed a) \<and> ad_disbursed a \<noteq> None \<and> ad_reimbursed a = None
     | ACCOUNTED_ADVANCE \<Rightarrow> at_least 0 (ad_disbursed a) \<and> ad_disbursed a \<noteq> None \<and> ad_reimbursed a = None \<and> reconciliation_ok a
     | REIMBURSEMENT_PL_PENDING \<Rightarrow> ad_type a = BY_OWN_FUNDS \<and> ad_disbursed a = None \<and> ad_reimbursed a = None
     | REIMBURSEMENT_SUBMITTED \<Rightarrow> paid_or_own a \<and> ad_reimbursed a = None
     | REIMBURSEMENT_DISBURSED \<Rightarrow> paid_or_own a \<and> at_least 1 (ad_reimbursed a) \<and> ad_reimbursed a \<noteq> None \<and> reconciliation_ok a
     | REIMBURSED_ADVANCE \<Rightarrow> paid_or_own a \<and> at_least 1 (ad_reimbursed a) \<and> ad_reimbursed a \<noteq> None \<and> reconciliation_ok a
     | SELF_FUNDED_PENDING \<Rightarrow> ad_type a = BY_OWN_FUNDS \<and> ad_disbursed a = None \<and> ad_reimbursed a = None
     | _ \<Rightarrow> ad_disbursed a = None \<and> ad_reimbursed a = None)"

lemma unpaid_nothing_paid: "advance_ok a \<Longrightarrow> unpaid a \<Longrightarrow> ad_disbursed a = None \<and> ad_reimbursed a = None"
  by (cases "ad_status a") (simp_all add: advance_ok_def unpaid_def MONEY_MOVED_ADVANCE_STATUSES_def)

lemma effective_paid: "paid_or_own a \<Longrightarrow> effective_disbursed a = or_zero (ad_disbursed a)"
  by (auto simp: paid_or_own_def effective_disbursed_def or_zero_def split: option.splits)

lemma move_keeps_ok: "advance_move cleared a b \<Longrightarrow> advance_ok a \<Longrightarrow> advance_ok b"
proof (induction rule: advance_move.induct)
  case (choose a status type w)
  then show ?case using unpaid_nothing_paid[of a] by (auto simp: advance_ok_def advance_updates unpaid_def)
next
  case (route a status remark)
  then show ?case using unpaid_nothing_paid[of a] by (auto simp: advance_ok_def advance_updates unpaid_def)
next
  case (pay a n w u via reference)
  then have "unpaid a" by (auto simp: unpaid_def DISBURSABLE_ADVANCE_STATUSES_def MONEY_MOVED_ADVANCE_STATUSES_def)
  with pay show ?case using unpaid_nothing_paid[of a] by (simp add: advance_ok_def advance_updates at_least_def)
next
  case (refund a w u via reference)
  then have "effective_disbursed (reimbursed_out w u (reimbursement_due a) via reference a) = effective_disbursed a"
    by (simp add: effective_disbursed_def advance_updates split: option.splits)
  moreover have "paid_or_own (reimbursed_out w u (reimbursement_due a) via reference a) = paid_or_own a"
    by (simp add: paid_or_own_def advance_updates split: option.splits)
  moreover have "ad_status (reimbursed_out w u (reimbursement_due a) via reference a) = REIMBURSEMENT_DISBURSED"
    "ad_reimbursed (reimbursed_out w u (reimbursement_due a) via reference a) = Some (reimbursement_due a)"
    "ad_accounted (reimbursed_out w u (reimbursement_due a) via reference a) = ad_accounted a"
    "ad_returned (reimbursed_out w u (reimbursement_due a) via reference a) = ad_returned a"
    by (simp_all add: reimbursed_out_def)
  ultimately show ?case using refund
    by (simp add: advance_ok_def at_least_def reconciliation_ok_def) (simp add: reimbursement_due_def or_zero_def)
qed (auto simp: advance_ok_def advance_updates PL_PENDING_def at_least_def paid_or_own_def reconciliation_ok_def
    effective_disbursed_def or_zero_def split: option.splits)

section \<open>What was paid stays paid\<close>

definition payout :: "advance \<Rightarrow> int option \<times> int option \<times> string option \<times> string option \<times> string option" where
  "payout a = (ad_disbursed a, ad_disbursed_at a, ad_disbursed_by a, ad_method a, ad_reference a)"

definition refund_of :: "advance \<Rightarrow> int option \<times> int option \<times> string option \<times> string option \<times> string option" where
  "refund_of a = (ad_reimbursed a, ad_reimbursed_at a, ad_reimbursed_by a, ad_reimburse_method a, ad_reimburse_reference a)"

text \<open>The later row is of the same advance and has the payments the earlier one had.\<close>

definition same_payments :: "advance \<Rightarrow> advance \<Rightarrow> bool" where
  "same_payments a b \<longleftrightarrow> advance_facts b = advance_facts a \<and> (ad_disbursed a \<noteq> None \<longrightarrow> payout b = payout a)
     \<and> (ad_reimbursed a \<noteq> None \<longrightarrow> refund_of b = refund_of a)"

lemma move_keeps_payments:
  assumes "advance_move cleared a b" "advance_ok a"
  shows "same_payments a b"
proof -
  have "(ad_disbursed a \<noteq> None \<longrightarrow> payout b = payout a) \<and> (ad_reimbursed a \<noteq> None \<longrightarrow> refund_of b = refund_of a)"
    using assms
  proof (induction rule: advance_move.induct)
    case (pay a n w u via reference)
    then have "unpaid a" by (auto simp: unpaid_def DISBURSABLE_ADVANCE_STATUSES_def MONEY_MOVED_ADVANCE_STATUSES_def)
    with pay show ?case using unpaid_nothing_paid[of a] by simp
  qed (auto simp: payout_def refund_of_def advance_updates advance_ok_def)
  with move_facts[OF assms(1)] show ?thesis by (simp add: same_payments_def)
qed

lemma moves_keep:
  assumes "advance_moves cleared a b" "advance_ok a"
  shows "advance_ok b \<and> same_payments a b"
  using assms(1)
proof (induction rule: rtranclp_induct)
  case base
  then show ?case using assms(2) by (simp add: same_payments_def)
next
  case (step b c)
  with move_keeps_ok[of cleared b c] move_keeps_payments[of cleared b c] show ?case
    by (auto simp: same_payments_def payout_def refund_of_def)
qed

text \<open>Nobody is paid for a line that is not cleared.\<close>

lemma moves_paid_cleared:
  assumes "advance_moves cleared a b" "ad_disbursed a = None" "ad_disbursed b \<noteq> None"
  shows "cleared (ad_line a)"
proof (rule ccontr)
  assume no: "\<not> cleared (ad_line a)"
  from assms(1) have "ad_disbursed b = None"
  proof (induction rule: rtranclp_induct)
    case (step b c)
    have "ad_line b = ad_line a" using moves_facts[OF step.hyps(1)] by (simp add: advance_facts_def)
    with step.hyps(2) step.IH no show ?case by (cases rule: advance_move.cases) (auto simp: advance_updates)
  qed (rule assms(2))
  with assms(3) show False by simp
qed

section \<open>Advances nobody can settle\<close>

definition unsettleable :: "advance \<Rightarrow> bool" where
  "unsettleable a \<longleftrightarrow>
     ad_status a = ACCOUNTABILITY_PENDING \<and> or_zero (ad_accounted a) \<le> effective_disbursed a \<and> \<not> reconciliation_ok a
     \<or> ad_status a = REIMBURSEMENT_SUBMITTED \<and> reimbursement_due a \<le> 0"

lemma move_keeps_unsettleable: "advance_move cleared a b \<Longrightarrow> unsettleable a \<Longrightarrow> unsettleable b \<and> ad_status b = ad_status a"
  by (induction rule: advance_move.induct)
    (auto simp: unsettleable_def advance_updates MONEY_MOVED_ADVANCE_STATUSES_def DISBURSABLE_ADVANCE_STATUSES_def
      PL_PENDING_def reconciliation_ok_def effective_disbursed_def split: option.splits)

lemma moves_keep_unsettleable: "advance_moves cleared a b \<Longrightarrow> unsettleable a \<Longrightarrow> unsettleable b \<and> ad_status b = ad_status a"
  by (induction rule: rtranclp_induct) (auto dest: move_keeps_unsettleable)

section \<open>Reachable databases\<close>

text \<open>
  What the planning does beside the services: it opens, re-prices and drops advances no
  money has moved on, and writes the requests and the activities.
\<close>

definition replanned :: "fund_db \<Rightarrow> fund_db \<Rightarrow> bool" where
  "replanned db db' \<longleftrightarrow> sound_rows db' \<and> list_all (\<lambda>a. unpaid a \<or> a \<in> set (advances db')) (advances db)
     \<and> list_all (\<lambda>b. b \<in> set (advances db) \<or> unpaid b \<and> advance_ok b) (advances db')"

inductive fund_step :: "fund_db \<Rightarrow> fund_db \<Rightarrow> bool" where
  command: "run_fund w p c db = Inr db' \<Longrightarrow> fund_step db db'"
| planning: "replanned db db' \<Longrightarrow> fund_step db db'"

inductive fund_reachable :: "fund_db \<Rightarrow> bool" where
  start: "advances db = [] \<Longrightarrow> fund_tables db \<Longrightarrow> fund_reachable db"
| step: "fund_reachable db \<Longrightarrow> fund_step db db' \<Longrightarrow> fund_reachable db'"

definition fund_inv :: "fund_db \<Rightarrow> bool" where
  "fund_inv db \<longleftrightarrow> sound_rows db \<and> list_all advance_ok (advances db)"

text \<open>No command changes the lines of a weekly request, or its total.\<close>

definition week_lines :: "fund_db \<Rightarrow> (int \<times> weekly_line list) set" where
  "week_lines db = set (map (\<lambda>r. (wk_total r, wk_lines r)) (weeklies db))"

lemma weeklies_kept [simp]:
  "weeklies (tell_people w ids ev db) = weeklies db" "weeklies (record_audit w p action kind i payload db) = weeklies db"
  "weeklies (put_advance a db) = weeklies db" "weeklies (settle_activity_accounts act db) = weeklies db"
  "weeklies (put_plan f db) = weeklies db" "weeklies (pay_whole w by via reference rows db) = weeklies db"
  "weeklies (sync_advances w r status type db) = weeklies db"
  "weeklies (sync_advances_for_period_request f to_accountant db) = weeklies db"
  by (simp_all add: tell_people_def record_audit_def put_advance_def settle_activity_accounts_def put_plan_def pay_whole_def
      sync_advances_def sync_advances_for_period_request_def Let_def)

lemma weeklies_notes [simp]:
  "weeklies (audit_advance w p s i payload db) = weeklies db" "weeklies (audit_weekly w p s r payload db) = weeklies db"
  "weeklies (audit_plan w p s f payload db) = weeklies db" "weeklies (audit_dashboard w p s f payload db) = weeklies db"
  "weeklies (notify_weekly_owner w r t1 t2 t3 db) = weeklies db" "weeklies (notify_weekly_approver w r db) = weeklies db"
  "weeklies (notify_weekly_accountants w r db) = weeklies db" "weeklies (notify_requester w f t1 t2 t3 db) = weeklies db"
  by (simp_all add: fund_notes Let_def)

lemma save_weeklies: "save_advance b db = Inr db1 \<Longrightarrow> weeklies db1 = weeklies db"
  by (auto dest: save_advance_Inr)

lemma pay_lines_weeklies: "pay_lines w by via reference ps db = Inr db' \<Longrightarrow> weeklies db' = weeklies db"
proof (induction ps arbitrary: db)
  case (Cons q ps)
  then show ?case by (cases q) (fastforce simp: bindE_eq_Inr dest: save_weeklies)
qed simp

lemma put_weekly_lines: "r \<in> set (weeklies db) \<Longrightarrow> wk_lines r1 = wk_lines r \<Longrightarrow> wk_total r1 = wk_total r
    \<Longrightarrow> week_lines (put_weekly r1 db) \<subseteq> week_lines db"
  by (auto simp: week_lines_def put_weekly_def set_update_where split: if_splits)

lemma week_lines_same: "weeklies db' = weeklies db \<Longrightarrow> week_lines db' = week_lines db"
  by (simp add: week_lines_def)

lemma advance_commands_keep_weeks:
  shows "confirm_advance w i p db = Inr db' \<Longrightarrow> weeklies db' = weeklies db"
    and "self_funded w i p db = Inr db' \<Longrightarrow> weeklies db' = weeklies db"
    and "not_requested w i p db = Inr db' \<Longrightarrow> weeklies db' = weeklies db"
    and "verify_return w i data p db = Inr db' \<Longrightarrow> weeklies db' = weeklies db"
    and "pl_approve_accountability w i p db = Inr db' \<Longrightarrow> weeklies db' = weeklies db"
    and "pl_return_accountability w i data p db = Inr db' \<Longrightarrow> weeklies db' = weeklies db"
  by (auto simp: confirm_advance_def self_funded_def not_requested_def verify_return_def pl_approve_accountability_def
      pl_return_accountability_def bindE_eq_Inr Let_def dest!: save_weeklies)

lemma payments_keep_weeks:
  shows "disburse w i data p db = Inr db' \<Longrightarrow> weeklies db' = weeklies db"
    and "submit_accountability w i data p db = Inr db' \<Longrightarrow> weeklies db' = weeklies db"
    and "submit_reimbursement w i data p db = Inr db' \<Longrightarrow> weeklies db' = weeklies db"
    and "confirm_reimbursement_receipt w i data p db = Inr db' \<Longrightarrow> weeklies db' = weeklies db"
  by (auto simp: disburse_def submit_accountability_def submit_reimbursement_def confirm_reimbursement_receipt_def
      bindE_eq_Inr Let_def dest!: save_weeklies)

lemma reimburse_keeps_weeks: "reimburse w i data p db = Inr db' \<Longrightarrow> weeklies db' = weeklies db"
  by (auto simp: reimburse_def bindE_eq_Inr Let_def dest!: save_weeklies)

lemma approve_keeps_weeks: "approve_accountability w i p db = Inr db' \<Longrightarrow> weeklies db' = weeklies db"
  unfolding approve_accountability_def Let_def
  by (elim bindE_InrE) (auto simp: bindE_eq_Inr split: if_splits dest!: save_weeklies)

lemma plan_commands_keep_weeks:
  shows "decided w i status to_accountant data p m db = Inr db' \<Longrightarrow> weeklies db' = weeklies db"
    and "disburse_request w i data p db = Inr db' \<Longrightarrow> weeklies db' = weeklies db"
    and "disburse_plan w i data p db = Inr db' \<Longrightarrow> weeklies db' = weeklies db"
    and "hold_plan w i data p db = Inr db' \<Longrightarrow> weeklies db' = weeklies db"
    and "release_plan w i p db = Inr db' \<Longrightarrow> weeklies db' = weeklies db"
    and "return_item w i data p db = Inr db' \<Longrightarrow> weeklies db' = weeklies db"
    and "confirm_plan_receipt w i p db = Inr db' \<Longrightarrow> weeklies db' = weeklies db"
    and "submit_plan_accountability w i data p db = Inr db' \<Longrightarrow> weeklies db' = weeklies db"
    and "review_plan_accountability w i decision p db = Inr db' \<Longrightarrow> weeklies db' = weeklies db"
  by (auto simp: decided_def review_plan_def disburse_request_def disburse_plan_def hold_plan_def release_plan_def return_item_def
      confirm_plan_receipt_def submit_plan_accountability_def review_plan_accountability_def bindE_eq_Inr Let_def
      split: option.splits if_splits)

lemma clear_each_keeps_weeks: "clear_each w p rows db = Inr db' \<Longrightarrow> weeklies db' = weeklies db"
proof (induction rows arbitrary: db)
  case (Cons a rows)
  then obtain db1 db2 where "db1 = db \<or> verify_return w (ad_id a) [''reference'' \<mapsto> JStr []] p db = Inr db1"
    "approve_accountability w (ad_id a) p db1 = Inr db2" "clear_each w p rows db2 = Inr db'"
    by (auto simp: bindE_eq_Inr split: if_splits)
  with Cons.IH[of db2] approve_keeps_weeks[of w "ad_id a" p db1 db2] advance_commands_keep_weeks(4)[of w "ad_id a" _ p db db1]
  show ?case by auto
qed simp

lemma weekly_commands_keep_lines:
  shows "request_advance w i p source db = Inr db' \<Longrightarrow> week_lines db' \<subseteq> week_lines db"
    and "weekly_not_requested w i p db = Inr db' \<Longrightarrow> week_lines db' \<subseteq> week_lines db"
    and "approve_weekly_request w i p db = Inr db' \<Longrightarrow> week_lines db' \<subseteq> week_lines db"
    and "confirm_weekly_receipt w i p ok db = Inr db' \<Longrightarrow> week_lines db' \<subseteq> week_lines db"
  by (auto simp: request_advance_def weekly_not_requested_def approve_weekly_request_def confirm_weekly_receipt_def
      get_weekly_def bindE_eq_Inr Let_def week_lines_def put_weekly_def set_update_where split: if_splits dest!: find_Some_set)

lemma return_week_keeps_lines: "return_weekly_request w i data p db = Inr db' \<Longrightarrow> week_lines db' \<subseteq> week_lines db"
  by (auto simp: return_weekly_request_def accountant_return_def returned_for_def get_weekly_def bindE_eq_Inr Let_def
      week_lines_def put_weekly_def set_update_where split: if_splits dest!: find_Some_set)

lemma disburse_weekly_keeps_lines:
  assumes "disburse_weekly w i data p db = Inr db'"
  shows "week_lines db' \<subseteq> week_lines db"
proof -
  let ?paid = "\<lambda>r amount via reference. r\<lparr>wk_status := WEEK_DISBURSED, wk_disbursed := Some amount,
    wk_disbursed_at := Some (fw_now w), wk_disbursed_by := Some (fp_user p), wk_method := via, wk_reference := reference\<rparr>"
  from assms obtain r amount ps via reference db1 where r: "r \<in> set (weeklies db)"
    and pay: "pay_lines w (fp_user p) via reference ps (put_weekly (?paid r amount via reference) db) = Inr db1"
    and db': "weeklies db' = weeklies db1"
    by (auto simp: disburse_weekly_def bindE_eq_Inr Let_def get_weekly_def dest!: find_Some_set)
  from put_weekly_lines[OF r, of "?paid r amount via reference"] pay_lines_weeklies[OF pay] db'
  show ?thesis by (simp add: week_lines_def)
qed

lemma confirm_accountability_keeps_lines: "confirm_accountability w i p db = Inr db' \<Longrightarrow> week_lines db' \<subseteq> week_lines db"
  by (auto simp: confirm_accountability_def roll_up_accountability_def week_lines_def bindE_eq_Inr Let_def set_update_where
      dest!: clear_each_keeps_weeks split: if_splits)

lemma command_keeps_lines:
  assumes "run_fund w p c db = Inr db'"
  shows "week_lines db' \<subseteq> week_lines db"
proof -
  note same = advance_commands_keep_weeks payments_keep_weeks reimburse_keeps_weeks approve_keeps_weeks plan_commands_keep_weeks
  note keeps = weekly_commands_keep_lines return_week_keeps_lines disburse_weekly_keeps_lines confirm_accountability_keeps_lines
    same[THEN week_lines_same, THEN equalityD1]
  from assms show ?thesis
    by (cases c; simp only: run_fund.simps approve_plan_def return_plan_def reject_plan_def; elim keeps)
qed

section \<open>The invariant\<close>

lemma ledger_moves_ok: "ledger_moves cleared xs ys \<Longrightarrow> list_all advance_ok xs \<Longrightarrow> list_all advance_ok ys"
  unfolding ledger_moves_def by (induction rule: list_all2_induct) (auto dest: moves_keep)

lemma ledger_moves_row:
  assumes "ledger_moves cleared xs ys" "a \<in> set xs"
  obtains b where "b \<in> set ys" "advance_moves cleared a b"
proof -
  from assms(2) obtain i where i: "i < length xs" "xs ! i = a" by (auto simp: in_set_conv_nth)
  with assms(1) have "i < length ys" "advance_moves cleared a (ys ! i)"
    by (auto simp: ledger_moves_def list_all2_conv_all_nth)
  then show thesis by (intro that[of "ys ! i"]) simp_all
qed

lemma sound_facts:
  "list_all (\<lambda>a. 0 \<le> ad_amount a \<and> ad_line a \<noteq> []) xs = list_all (\<lambda>(_, _, l, _, n). 0 \<le> n \<and> l \<noteq> []) (map advance_facts xs)"
  by (simp add: list_all_iff advance_facts_def)

lemma command_keeps_inv:
  assumes "run_fund w p c db = Inr db'" "fund_inv db"
  shows "fund_inv db'"
proof -
  have sound: "sound_rows db" using assms(2) by (simp add: fund_inv_def)
  note moves = command_moves[OF assms(1) sound]
  have facts: "map advance_facts (advances db') = map advance_facts (advances db)" by (rule ledger_moves_facts[OF moves])
  have proj: "map (g \<circ> advance_facts) (advances db') = map (g \<circ> advance_facts) (advances db)" for g
    using arg_cong[OF facts, of "map g"] by simp
  have "map ad_id (advances db') = map ad_id (advances db)" "map ad_line (advances db') = map ad_line (advances db)"
    "map ad_amount (advances db') = map ad_amount (advances db)"
    using proj[of fst] proj[of "\<lambda>(_, _, l, _). l"] proj[of "\<lambda>(_, _, _, _, n). n"] by (simp_all add: comp_def advance_facts_def)
  moreover have "list_all (\<lambda>a. 0 \<le> ad_amount a \<and> ad_line a \<noteq> []) (advances db')"
    using sound sound_facts[of "advances db"] sound_facts[of "advances db'"] facts by (simp add: sound_rows_def)
  moreover have "list_all (\<lambda>r. distinct (map wl_line (wk_lines r))) (weeklies db')"
    using command_keeps_lines[OF assms(1)] sound by (fastforce simp: sound_rows_def fund_tables_def week_lines_def list_all_iff)
  ultimately show ?thesis
    using sound ledger_moves_ok[OF moves] assms(2) by (simp add: fund_inv_def sound_rows_def fund_tables_def unique_advances_def)
qed

lemma step_keeps_inv:
  assumes "fund_step db db'" "fund_inv db"
  shows "fund_inv db'"
  using assms
proof (cases rule: fund_step.cases)
  case planning
  with assms(2) show ?thesis by (fastforce simp: replanned_def fund_inv_def list_all_iff)
qed (auto intro: command_keeps_inv)

lemma reachable_fund_inv: "fund_reachable db \<Longrightarrow> fund_inv db"
  by (induction rule: fund_reachable.induct) (auto simp: fund_inv_def sound_rows_def dest: step_keeps_inv)

text \<open>A paid advance through a step.\<close>

lemma step_keeps_paid:
  assumes "fund_step db db'" "fund_inv db" "a \<in> set (advances db)" "\<not> unpaid a"
  shows "\<exists>b \<in> set (advances db'). same_payments a b \<and> (unsettleable a \<longrightarrow> unsettleable b \<and> ad_status b = ad_status a)"
  using assms(1)
proof (cases rule: fund_step.cases)
  case (command w p c)
  have "sound_rows db" "advance_ok a" using assms(2,3) by (auto simp: fund_inv_def list_all_iff)
  from ledger_moves_row[OF command_moves[OF command this(1)] assms(3)] obtain b
    where "b \<in> set (advances db')" "advance_moves (cleared_line db) a b" .
  with moves_keep[OF _ \<open>advance_ok a\<close>] moves_keep_unsettleable show ?thesis by blast
next
  case planning
  with assms(3,4) have "a \<in> set (advances db')" by (auto simp: replanned_def list_all_iff)
  then show ?thesis by (auto simp: same_payments_def)
qed

text \<open>What was paid, through any number of steps; and what cannot be settled.\<close>

definition something_paid :: "advance \<Rightarrow> bool" where
  "something_paid a \<longleftrightarrow> ad_disbursed a \<noteq> None \<or> ad_reimbursed a \<noteq> None"

lemma same_payments_trans: "same_payments a b \<Longrightarrow> same_payments b c \<Longrightarrow> same_payments a c"
  by (auto simp: same_payments_def payout_def refund_of_def)

lemma same_payments_paid: "same_payments a b \<Longrightarrow> something_paid a \<Longrightarrow> something_paid b"
  by (auto simp: same_payments_def something_paid_def payout_def refund_of_def)

lemma steps_keep_inv: "fund_step\<^sup>*\<^sup>* db db' \<Longrightarrow> fund_inv db \<Longrightarrow> fund_inv db'"
  by (induction rule: rtranclp_induct) (auto dest: step_keeps_inv)

lemma steps_keep_paid:
  assumes "fund_step\<^sup>*\<^sup>* db db'" "fund_inv db" "a \<in> set (advances db)" "something_paid a"
  shows "\<exists>b \<in> set (advances db'). same_payments a b"
  using assms(1)
proof (induction rule: rtranclp_induct)
  case base
  show ?case using assms(3) by (auto simp: same_payments_def)
next
  case (step db1 db2)
  then obtain b where b: "b \<in> set (advances db1)" "same_payments a b" by blast
  have inv: "fund_inv db1" by (rule steps_keep_inv[OF step.hyps(1) assms(2)])
  with b(1) have "advance_ok b" by (simp add: fund_inv_def list_all_iff)
  with same_payments_paid[OF b(2) assms(4)] unpaid_nothing_paid[of b] have "\<not> unpaid b" by (auto simp: something_paid_def)
  with step_keeps_paid[OF step.hyps(2) inv b(1)] same_payments_trans[OF b(2)] show ?case by blast
qed

lemma steps_keep_unsettleable:
  assumes "fund_step\<^sup>*\<^sup>* db db'" "fund_inv db" "a \<in> set (advances db)" "unsettleable a"
  shows "\<exists>b \<in> set (advances db'). ad_id b = ad_id a \<and> unsettleable b \<and> ad_status b = ad_status a"
  using assms(1)
proof (induction rule: rtranclp_induct)
  case base
  show ?case using assms(3,4) by blast
next
  case (step db1 db2)
  then obtain b where b: "b \<in> set (advances db1)" "ad_id b = ad_id a" "unsettleable b" "ad_status b = ad_status a" by blast
  have "\<not> unpaid b" using b(3) by (auto simp: unsettleable_def unpaid_def MONEY_MOVED_ADVANCE_STATUSES_def)
  from step_keeps_paid[OF step.hyps(2) steps_keep_inv[OF step.hyps(1) assms(2)] b(1) this] b(2-4)
  obtain c where "c \<in> set (advances db2)" "same_payments b c" "unsettleable c" "ad_status c = ad_status b" by blast
  with b(2,4) show ?case by (auto simp: same_payments_def advance_facts_def)
qed

section \<open>Which weeks are approved\<close>

definition confirmed_weeks :: "fund_db \<Rightarrow> weekly set" where
  "confirmed_weeks db = {r \<in> set (weeklies db). wk_status r = WEEK_CONFIRMED}"

lemma confirmed_same: "weeklies db' = weeklies db \<Longrightarrow> confirmed_weeks db' \<subseteq> confirmed_weeks db"
  by (simp add: confirmed_weeks_def)

lemma confirmed_put: "wk_status r1 \<noteq> WEEK_CONFIRMED \<Longrightarrow> confirmed_weeks (put_weekly r1 db) \<subseteq> confirmed_weeks db"
  by (auto simp: confirmed_weeks_def put_weekly_def set_update_where split: if_splits)

lemma weekly_commands_confirm_none:
  shows "weekly_not_requested w i p db = Inr db' \<Longrightarrow> confirmed_weeks db' \<subseteq> confirmed_weeks db"
    and "return_weekly_request w i data p db = Inr db' \<Longrightarrow> confirmed_weeks db' \<subseteq> confirmed_weeks db"
    and "confirm_weekly_receipt w i p ok db = Inr db' \<Longrightarrow> confirmed_weeks db' \<subseteq> confirmed_weeks db"
    and "confirm_accountability w i p db = Inr db' \<Longrightarrow> confirmed_weeks db' \<subseteq> confirmed_weeks db"
  by (auto simp: weekly_not_requested_def return_weekly_request_def accountant_return_def returned_for_def confirm_weekly_receipt_def
      confirm_accountability_def roll_up_accountability_def get_weekly_def bindE_eq_Inr Let_def confirmed_weeks_def put_weekly_def
      set_update_where split: if_splits approval_stage.splits dest!: find_Some_set clear_each_keeps_weeks)
    (metis approval_stage.exhaust)

lemma disburse_weekly_confirms_none:
  assumes "disburse_weekly w i data p db = Inr db'"
  shows "confirmed_weeks db' \<subseteq> confirmed_weeks db"
proof -
  let ?paid = "\<lambda>r amount via reference. r\<lparr>wk_status := WEEK_DISBURSED, wk_disbursed := Some amount,
    wk_disbursed_at := Some (fw_now w), wk_disbursed_by := Some (fp_user p), wk_method := via, wk_reference := reference\<rparr>"
  from assms obtain r amount ps via reference db1 where
    pay: "pay_lines w (fp_user p) via reference ps (put_weekly (?paid r amount via reference) db) = Inr db1"
    and db': "weeklies db' = weeklies db1"
    by (auto simp: disburse_weekly_def bindE_eq_Inr Let_def)
  have "confirmed_weeks db' = confirmed_weeks (put_weekly (?paid r amount via reference) db)"
    using pay_lines_weeklies[OF pay] db' by (simp add: confirmed_weeks_def)
  with confirmed_put[of "?paid r amount via reference" db] show ?thesis by simp
qed

text \<open>Who may make a week payable: its approver, or an owner who leads the country.\<close>

definition may_confirm :: "fund_principal \<Rightarrow> fund_db \<Rightarrow> weekly \<Rightarrow> bool" where
  "may_confirm p db r \<longleftrightarrow>
     wk_owner r \<noteq> fp_user p \<and> fp_seat p = None \<and> (''fundRequest.approveEscalated'' \<in> set (fp_permissions p)
       \<or> fp_role p = ''CountryDirector'' \<or> fp_role p = ''Program Lead'' \<and> (fp_user p, wk_owner r) \<in> set (supervisions db))
     \<or> wk_owner r = fp_user p \<and> (wk_role r = Some ''CountryDirector'' \<or> wk_role r = Some ''Admin'')"

lemma approve_confirms:
  assumes "approve_weekly_request w i p db = Inr db'" "r' \<in> confirmed_weeks db'" "r' \<notin> confirmed_weeks db"
  shows "may_confirm p db r'"
proof -
  from assms(1) obtain r stage where r: "require_weekly_approver r p db = Inr stage"
    and db': "weeklies db' = weeklies (put_weekly (r\<lparr>wk_status := WEEK_CONFIRMED\<rparr>) db)"
    by (auto simp: approve_weekly_request_def bindE_eq_Inr Let_def sync_advances_def)
  from assms(2,3) db' have "r' = r\<lparr>wk_status := WEEK_CONFIRMED\<rparr>"
    by (auto simp: confirmed_weeks_def put_weekly_def set_update_where split: if_splits)
  with r show ?thesis
    by (auto simp: require_weekly_approver_def refuse_withheld_def bindE_eq_Inr Let_def may_confirm_def list_ex_iff
        split: if_splits option.splits)
qed

lemma request_confirms:
  assumes "request_advance w i p source db = Inr db'" "r' \<in> confirmed_weeks db'" "r' \<notin> confirmed_weeks db"
  shows "may_confirm p db r'"
proof -
  from assms(1) obtain r role where r: "wk_owner r = fp_user p"
    and db': "weeklies db' = weeklies (put_weekly (r\<lparr>wk_source := source, wk_status := submission_status_for role,
      wk_role := Some role, wk_confirmed_at := Some (fw_now w)\<rparr>) db)"
    by (auto simp: request_advance_def bindE_eq_Inr Let_def sync_advances_def)
  from assms(2,3) db' have "r' = r\<lparr>wk_source := source, wk_status := submission_status_for role,
      wk_role := Some role, wk_confirmed_at := Some (fw_now w)\<rparr>" "submission_status_for role = WEEK_CONFIRMED"
    by (auto simp: confirmed_weeks_def put_weekly_def set_update_where split: if_splits)
  with r show ?thesis by (auto simp: may_confirm_def submission_status_for_def split: if_splits)
qed

lemma command_confirms:
  assumes "run_fund w p c db = Inr db'" "r' \<in> confirmed_weeks db'" "r' \<notin> confirmed_weeks db"
  shows "may_confirm p db r'"
proof (rule ccontr)
  assume no: "\<not> may_confirm p db r'"
  note same = advance_commands_keep_weeks payments_keep_weeks reimburse_keeps_weeks approve_keeps_weeks plan_commands_keep_weeks
  note none = weekly_commands_confirm_none disburse_weekly_confirms_none same[THEN confirmed_same]
  have approving: "approve_weekly_request w i p db = Inr db' \<Longrightarrow> confirmed_weeks db' \<subseteq> confirmed_weeks db" for i
    using approve_confirms assms(2,3) no by blast
  have asking: "request_advance w i p source db = Inr db' \<Longrightarrow> confirmed_weeks db' \<subseteq> confirmed_weeks db" for i source
    using request_confirms assms(2,3) no by blast
  from assms(1) have "confirmed_weeks db' \<subseteq> confirmed_weeks db"
    by (cases c; simp only: run_fund.simps approve_plan_def return_plan_def reject_plan_def; elim none approving asking)
  with assms(2,3) show False by blast
qed

end
