(* ===== verification/FundShares.thy ===== *)
theory FundShares
  imports FundInvariant
begin

text \<open>
  How a paid week is split over its lines: the whole parts fall short of the amount by less
  than one shilling a line although they are computed in floats, so the largest remainders
  make up the difference and every line's advance gets its share.
\<close>

section \<open>The largest remainders\<close>

lemma sum_floors_below: "of_int (sum_list (map floor xs)) \<le> (sum_list xs :: rat)"
  by (induction xs) (auto intro: add_mono)

lemma sum_floors_above: "(sum_list xs :: rat) - of_nat (length xs) \<le> of_int (sum_list (map floor xs))"
proof (induction xs)
  case (Cons x xs)
  moreover have "x - 1 \<le> of_int \<lfloor>x\<rfloor>" by linarith
  ultimately show ?case by simp
qed simp

lemma sum_scaled_close:
  assumes "list_all (\<lambda>c. 0 \<le> c \<and> c < 2 ^ 53) costs" "0 \<le> paid" "0 < whole"
  shows "\<bar>sum_list (map (\<lambda>c. int_times_float c (float_div paid whole)) costs) - of_int (sum_list costs) * (of_int paid / of_int whole)\<bar>
    \<le> of_int (sum_list costs) * (of_int paid / of_int whole) / 2 ^ 51"
  using assms(1)
proof (induction costs)
  case (Cons c costs)
  then have "\<bar>int_times_float c (float_div paid whole) - of_int c * (of_int paid / of_int whole)\<bar>
      \<le> of_int c * (of_int paid / of_int whole) / 2 ^ 51"
    using assms(2,3) by (intro scaled_close) auto
  moreover have "\<bar>sum_list (map (\<lambda>c. int_times_float c (float_div paid whole)) costs) - of_int (sum_list costs) * (of_int paid / of_int whole)\<bar>
      \<le> of_int (sum_list costs) * (of_int paid / of_int whole) / 2 ^ 51"
    using Cons by simp
  ultimately show ?case unfolding abs_le_iff by (simp add: algebra_simps add_divide_distrib)
qed simp

lemma member_le_sum_list: "list_all (\<lambda>c. 0 \<le> c) costs \<Longrightarrow> c \<in> set costs \<Longrightarrow> (c :: int) \<le> sum_list costs"
proof (induction costs)
  case (Cons d costs)
  moreover have "0 \<le> sum_list costs" using Cons.prems(1) by (intro sum_list_nonneg) (simp add: list_all_iff)
  ultimately show ?case by auto
qed simp

lemma floors_short:
  assumes "list_all (\<lambda>c. 0 \<le> c) costs" "sum_list costs = whole" "0 < paid" "paid \<le> whole" "whole < 2 ^ 50"
  defines "F \<equiv> sum_list (map floor (map (\<lambda>c. int_times_float c (float_div paid whole)) costs))"
  shows "F \<le> paid" "paid - int (length costs) \<le> F"
proof -
  let ?exact = "map (\<lambda>c. int_times_float c (float_div paid whole)) costs"
  have "list_all (\<lambda>c. 0 \<le> c \<and> c < 2 ^ 53) costs"
    using member_le_sum_list[OF assms(1)] assms(1,2,5) by (fastforce simp: list_all_iff)
  moreover have "of_int (sum_list costs) * (of_int paid / of_int whole) = (of_int paid :: rat)"
    using assms(2-4) by (simp add: assms(2))
  ultimately have "\<bar>sum_list ?exact - of_int paid\<bar> \<le> of_int paid / 2 ^ 51"
    using sum_scaled_close[of costs paid whole] assms(3,4) by simp
  moreover have "(of_int paid :: rat) / 2 ^ 51 < 1 / 2"
  proof -
    have "(of_int paid :: rat) < of_int (2 ^ 50)" using assms(4,5) by (simp only: of_int_less_iff)
    then show ?thesis by simp
  qed
  ultimately have close: "sum_list ?exact < of_int paid + 1 / 2" "of_int paid - 1 / 2 < sum_list ?exact"
    unfolding abs_le_iff by linarith+
  have "of_int F < (of_int paid + 1 / 2 :: rat)" using sum_floors_below[of ?exact] close(1) unfolding F_def by linarith
  then show "F \<le> paid" by linarith
  have "(of_int paid - 1 / 2 - of_nat (length costs) :: rat) < of_int F"
    using sum_floors_above[of ?exact] close(2) unfolding F_def by simp
  then have "(of_int (paid - int (length costs)) :: rat) < of_int F + 1" by simp
  then show "paid - int (length costs) \<le> F" by linarith
qed

lemma sum_marked:
  assumes "distinct marked" "set marked \<subseteq> {0..<n}"
  shows "sum_list (map (\<lambda>i. if i \<in> set marked then 1 else 0) [0..<n]) = int (length marked)"
proof -
  have "sum_list (map (\<lambda>i. if i \<in> set marked then 1 else 0) [0..<n]) = (\<Sum>i \<in> {0..<n}. if i \<in> set marked then 1 else (0 :: int))"
    by (simp flip: sum_set_upt_conv_sum_list_nat)
  also have "\<dots> = (\<Sum>i \<in> set marked. 1)" using assms(2) by (intro sum.mono_neutral_cong_right) auto
  also have "\<dots> = int (length marked)" using assms(1) by (simp add: distinct_card)
  finally show ?thesis .
qed

lemma weekly_shares_sum:
  assumes "list_all (\<lambda>c. 0 \<le> c) costs" "sum_list costs = whole" "0 < paid" "paid \<le> whole" "whole < 2 ^ 50"
  shows "sum_list (weekly_shares paid whole costs) = paid"
proof -
  let ?floors = "map floor (map (\<lambda>c. int_times_float c (float_div paid whole)) costs)"
  let ?key = "\<lambda>i. - fraction_of (map (\<lambda>c. int_times_float c (float_div paid whole)) costs ! i)"
  let ?lucky = "take (nat (paid - sum_list ?floors)) (sort_key ?key [0..<length costs])"
  have short: "sum_list ?floors \<le> paid" "paid - int (length costs) \<le> sum_list ?floors" using floors_short[OF assms] by simp_all
  then have "length ?lucky = nat (paid - sum_list ?floors)" by simp
  moreover have "distinct ?lucky" "set ?lucky \<subseteq> {0..<length costs}" by (auto dest: in_set_takeD)
  ultimately have "sum_list (map (\<lambda>i. if i \<in> set ?lucky then 1 else 0) [0..<length costs]) = paid - sum_list ?floors"
    using sum_marked[of ?lucky "length costs"] short(1) by simp
  moreover have "map ((!) ?floors) [0..<length costs] = ?floors" using map_nth[of ?floors] by simp
  ultimately show ?thesis by (simp add: weekly_shares_def Let_def sum_list_addf)
qed

section \<open>Each advance gets its share\<close>

definition paid_for :: "string \<Rightarrow> fund_db \<Rightarrow> int option option" where
  "paid_for l db = map_option ad_disbursed (find (\<lambda>a. ad_line a = l) (advances db))"

lemma find_saved:
  assumes "unique_advances db" "a \<in> set (advances db)" "ad_id b = ad_id a" "ad_line b = ad_line a"
  shows "find (\<lambda>x. ad_line x = l) (advances (put_advance b db))
    = map_option (\<lambda>x. if ad_id x = ad_id b then b else x) (find (\<lambda>x. ad_line x = l) (advances db))"
proof -
  have "ad_line (if ad_id x = ad_id b then b else x) = ad_line x" if "x \<in> set (advances db)" for x
    using that assms by (auto simp: unique_advances_def distinct_map inj_on_def)
  then have "find (\<lambda>x. ad_line x = l) (map (\<lambda>x. if ad_id x = ad_id b then b else x) xs)
      = map_option (\<lambda>x. if ad_id x = ad_id b then b else x) (find (\<lambda>x. ad_line x = l) xs)"
    if "set xs \<subseteq> set (advances db)" for xs
    using that by (induction xs) auto
  then show ?thesis by (simp add: put_advance_def update_where_def)
qed

lemma pay_lines_pays:
  assumes "pay_lines w by via reference ps db = Inr db'" "unique_advances db" "distinct (map fst ps)"
    "distinct (map ad_line (advances db))"
  shows "(\<forall>(l, share) \<in> set ps. paid_for l db' = Some (Some share)) \<and> (\<forall>l. l \<notin> fst ` set ps \<longrightarrow> paid_for l db' = paid_for l db)"
  using assms
proof (induction ps arbitrary: db)
  case (Cons q ps)
  obtain l share where q: "q = (l, share)" by fastforce
  from Cons.prems(1) obtain a db1 where a: "find (\<lambda>a. ad_line a = l) (advances db) = Some a"
    and save: "save_advance (paid_out w by share via reference a) db = Inr db1"
    and rest: "pay_lines w by via reference ps (db1\<lparr>sync_queue := enqueue_netsuite w (ad_id a) (sync_queue db1)\<rparr>) = Inr db'"
    unfolding q by (auto simp: bindE_eq_Inr)
  note row = find_Some_set[OF a]
  have db1: "db1 = put_advance (paid_out w by share via reference a) db" using save_advance_Inr[OF save] by simp
  have found: "find (\<lambda>x. ad_line x = k) (advances db1) =
      map_option (\<lambda>x. if ad_id x = ad_id a then paid_out w by share via reference a else x) (find (\<lambda>x. ad_line x = k) (advances db))" for k
    using find_saved[OF Cons.prems(2), of a "paid_out w by share via reference a" k] row by (simp add: db1 paid_out_def)
  have same: "map ad_id (advances db1) = map ad_id (advances db)" "map ad_line (advances db1) = map ad_line (advances db)"
    using row Cons.prems(2) by (auto simp: db1 put_advance_def update_where_def paid_out_def unique_advances_def distinct_map inj_on_def)
  have here: "paid_for l db1 = Some (Some share)" using found[of l] a by (simp add: paid_for_def paid_out_def)
  have other: "paid_for k db1 = paid_for k db" if "k \<noteq> l" for k
  proof (cases "find (\<lambda>x. ad_line x = k) (advances db)")
    case (Some x)
    with find_Some_set[OF Some] row that Cons.prems(2) have "ad_id x \<noteq> ad_id a"
      by (auto simp: unique_advances_def distinct_map inj_on_def)
    with found[of k] Some show ?thesis by (simp add: paid_for_def)
  qed (use found[of k] in \<open>simp add: paid_for_def\<close>)
  let ?db2 = "db1\<lparr>sync_queue := enqueue_netsuite w (ad_id a) (sync_queue db1)\<rparr>"
  have "unique_advances ?db2" "distinct (map ad_line (advances ?db2))" "paid_for k ?db2 = paid_for k db1" for k
    using same Cons.prems(2,4) by (simp_all add: unique_advances_def paid_for_def)
  with Cons.IH[OF rest] Cons.prems(3) here other show ?case by (auto simp: q)
qed simp

lemma week_paid_sum:
  assumes "list_all2 (\<lambda>l share. paid_for l db = Some (Some share)) (map wl_line (wk_lines r)) shares"
  shows "sum_list (map (\<lambda>a. or_zero (ad_disbursed a)) (advances_of_week r db)) = sum_list shares"
proof -
  have "sum_list (map (\<lambda>a. or_zero (ad_disbursed a)) (concat (map (\<lambda>l. case find (\<lambda>a. ad_line a = wl_line l) (advances db) of
      None \<Rightarrow> [] | Some a \<Rightarrow> [a]) lines))) = sum_list shares"
    if "list_all2 (\<lambda>l share. paid_for l db = Some (Some share)) (map wl_line lines) shares" for lines
    using that
  proof (induction lines arbitrary: shares)
    case (Cons l lines)
    then obtain share rest where "shares = share # rest" by (cases shares) auto
    with Cons show ?case by (auto simp: paid_for_def or_zero_def split: option.splits)
  qed simp
  with assms show ?thesis by (simp add: advances_of_week_def)
qed

end
