(* ===== verification/FundSettling.thy ===== *)
theory FundSettling
  imports FundShares
begin

text \<open>
  The way out: an accountability that reconciles, or overspent, is settled by the accountant
  and the owner in at most three commands.
\<close>

lemma save_ok: "advance_refused b (advances db) = Inr () \<Longrightarrow> save_advance b db = Inr (put_advance b db)"
  by (simp add: save_advance_def)

lemma code_free_put:
  "ad_id b' = ad_id b \<Longrightarrow> code_free b (advances (put_advance b' db)) = code_free b (advances db)"
  by (auto simp: code_free_def put_advance_def update_where_def list_ex_iff)

lemma refused_put:
  assumes "ad_id b' = ad_id b"
  shows "advance_refused b (advances (put_advance b' db)) = advance_refused b (advances db)"
  by (simp only: advance_refused_def code_free_put[OF assms])

lemma refused_same:
  assumes "ad_id b = ad_id a" "ad_amount b = ad_amount a" "ad_disbursed b = ad_disbursed a" "ad_accounted b = ad_accounted a"
    "ad_returned b = ad_returned a" "ad_netsuite b = ad_netsuite a" "ad_reimbursed b = ad_reimbursed a"
    "ad_receipt_amount b = ad_receipt_amount a"
  shows "advance_refused b rows = advance_refused a rows"
  using assms by (simp add: advance_refused_def code_free_def netsuite_code_def)

lemma effective_same:
  "ad_disbursed b = ad_disbursed a \<Longrightarrow> ad_type b = ad_type a \<Longrightarrow> ad_amount b = ad_amount a
    \<Longrightarrow> effective_disbursed b = effective_disbursed a"
  by (cases "ad_disbursed a") (simp_all add: effective_disbursed_def)

text \<open>The row saved last is the one read next.\<close>

definition holds_row :: "advance \<Rightarrow> funded_activity \<Rightarrow> fund_db \<Rightarrow> bool" where
  "holds_row a x db \<longleftrightarrow> get_advance (ad_id a) db = Inr a \<and> find (\<lambda>x. fa_id x = ad_activity a) (work_items db) = Some x
     \<and> advance_refused a (advances db) = Inr ()"

lemma work_items_kept [simp]:
  "work_items (put_advance b db) = work_items db" "work_items (audit_advance w p action i payload db) = work_items db"
  by (simp_all add: put_advance_def audit_advance_def record_audit_def)

lemma get_advance_kept [simp]: "get_advance i (audit_advance w p action j payload db) = get_advance i db"
  by (simp add: get_advance_def)

lemma get_put:
  assumes "get_advance i db = Inr a" "ad_id b = i"
  shows "get_advance i (put_advance b db) = Inr b"
proof -
  have "find (\<lambda>x. ad_id x = i) (update_where (\<lambda>x. ad_id x = i) (\<lambda>_. b) xs) = Some b" if "find (\<lambda>x. ad_id x = i) xs = Some a" for xs
    using that assms(2) by (induction xs) (auto simp: update_where_def split: if_splits)
  with assms show ?thesis by (auto simp: get_advance_def put_advance_def of_option_def split: option.splits)
qed

lemma holds_saved:
  assumes "holds_row a x db" "ad_id b = ad_id a" "ad_activity b = ad_activity a" "advance_refused b (advances db) = Inr ()"
  shows "holds_row b x (put_advance b db)"
  using assms get_put[of "ad_id a" db a b] by (simp add: holds_row_def refused_put)

lemma holds_audited: "holds_row a x db \<Longrightarrow> holds_row a x (audit_advance w p action i payload db)"
  by (simp add: holds_row_def)

lemma verify_return_ok:
  assumes "holds_row a x db" "ad_status a = ACCOUNTABILITY_PENDING" "or_zero (ad_returned a) \<noteq> 0"
  shows "\<exists>db'. run_fund w p (Verify_return (ad_id a) Map.empty) db = Inr db' \<and> holds_row (return_verified w (fp_user p) [] a) x db'"
proof -
  have "advance_refused (return_verified w (fp_user p) [] a) (advances db) = Inr ()"
    using assms(1) refused_same[of "return_verified w (fp_user p) [] a" a "advances db"] by (simp add: holds_row_def return_verified_def)
  with holds_saved[OF assms(1), of "return_verified w (fp_user p) [] a"] assms
  show ?thesis by (auto simp: holds_row_def verify_return_def save_ok stripped_def payload_get_def truthy_def return_verified_def)
qed

lemma approve_ok:
  assumes "holds_row a x db" "ad_status a = ACCOUNTABILITY_PENDING" "strip (netsuite_code a) \<noteq> []" "ia_verified x"
    "reconciliation_ok a" "ad_reimbursed a = None" "0 \<le> or_zero (ad_returned a)"
    "or_zero (ad_returned a) = 0 \<or> ad_return_verified_at a \<noteq> None"
  shows "\<exists>db'. run_fund w p (Approve_accountability (ad_id a)) db = Inr db' \<and> get_advance (ad_id a) db' = Inr (reviewed w ACCOUNTED_ADVANCE a)"
proof -
  let ?b = "reviewed w ACCOUNTED_ADVANCE a"
  have b: "advance_refused ?b (advances db) = Inr ()" "ad_id ?b = ad_id a"
    using assms(1) refused_same[of ?b a "advances db"] by (simp_all add: holds_row_def reviewed_def)
  have "or_zero (ad_accounted a) - effective_disbursed a = - or_zero (ad_returned a)"
    using assms(5,6) by (simp add: reconciliation_ok_def or_zero_def)
  with assms get_put[of "ad_id a" db a ?b] b show ?thesis
    by (auto simp: holds_row_def approve_accountability_def activity_of_def save_ok of_option_def Let_def get_advance_def)
qed

lemma overspent_ok:
  assumes "holds_row a x db" "ad_status a = ACCOUNTABILITY_PENDING" "strip (netsuite_code a) \<noteq> []" "ia_verified x"
    "effective_disbursed a < or_zero (ad_accounted a)" "or_zero (ad_returned a) = 0"
  shows "\<exists>db'. run_fund w p (Approve_accountability (ad_id a)) db = Inr db' \<and> holds_row (reviewed w REIMBURSEMENT_SUBMITTED a) x db'"
proof -
  let ?b = "reviewed w REIMBURSEMENT_SUBMITTED a"
  have b: "advance_refused ?b (advances db) = Inr ()"
    using assms(1) refused_same[of ?b a "advances db"] by (simp add: holds_row_def reviewed_def)
  then have "holds_row ?b x (put_advance ?b db)" using holds_saved[OF assms(1), of ?b] by (simp add: reviewed_def)
  with assms b show ?thesis
    by (auto simp: holds_row_def approve_accountability_def activity_of_def save_ok of_option_def Let_def)
qed

lemma reimburse_ok:
  assumes "holds_row a x db" "ad_status a = REIMBURSEMENT_SUBMITTED" "ia_verified x" "0 < reimbursement_due a"
    "reimbursement_due a < 2 ^ 63"
  shows "\<exists>db'. run_fund w p (Reimburse (ad_id a) Map.empty) db = Inr db'
    \<and> holds_row (reimbursed_out w (fp_user p) (reimbursement_due a) None None a) x db'"
proof -
  let ?b = "reimbursed_out w (fp_user p) (reimbursement_due a) None None a"
  have b: "advance_refused ?b (advances db) = Inr ()"
    using assms by (auto simp: holds_row_def advance_refused_def reimbursed_out_def bindE_eq_Inr code_free_def netsuite_code_def
        big_integer_def at_least_def)
  then have "holds_row ?b x (put_advance ?b db)" using holds_saved[OF assms(1), of ?b] by (simp add: reimbursed_out_def)
  with assms b show ?thesis
    by (auto simp: holds_row_def reimburse_def activity_of_def save_ok of_option_def Let_def payload_get_def text_column_def)
qed

lemma receipt_ok:
  assumes "holds_row a x db" "ad_status a = REIMBURSEMENT_DISBURSED" "reconciliation_ok a" "ad_reimbursed a = Some n" "0 < n"
    "leads_country p"
  shows "\<exists>db'. run_fund w p (Confirm_reimbursement (ad_id a) Map.empty) db = Inr db'
    \<and> get_advance (ad_id a) db' = Inr (receipted w n a)"
proof -
  let ?b = "receipted w n a"
  have b: "advance_refused ?b (advances db) = Inr ()" "ad_id ?b = ad_id a"
    using assms by (auto simp: holds_row_def advance_refused_def receipted_def bindE_eq_Inr code_free_def netsuite_code_def)
  with assms get_put[of "ad_id a" db a ?b] show ?thesis
    by (auto simp: holds_row_def confirm_reimbursement_receipt_def require_owner_def save_ok payload_or_def py_or_def truthy_def py_int_def
        get_advance_def)
qed

text \<open>The country director for every step.\<close>

definition director :: fund_principal where
  "director = \<lparr>fp_user = [], fp_role = ''CountryDirector'', fp_permissions = [], fp_seat = None, fp_country_scope = True\<rparr>"

lemma accountability_settled:
  assumes "holds_row a x db" "ad_status a = ACCOUNTABILITY_PENDING" "advance_ok a" "strip (netsuite_code a) \<noteq> []" "ia_verified x"
    "reconciliation_ok a \<or> effective_disbursed a < or_zero (ad_accounted a) \<and> or_zero (ad_returned a) = 0"
  shows "\<exists>cs db' b. run_funds w cs db = Inr db' \<and> get_advance (ad_id a) db' = Inr b
    \<and> (ad_status b = ACCOUNTED_ADVANCE \<or> ad_status b = REIMBURSED_ADVANCE)"
proof -
  note amounts = refused_amounts[of a "advances db"]
  have row: "ad_reimbursed a = None" "ad_disbursed a \<noteq> None" "0 \<le> effective_disbursed a" "0 \<le> or_zero (ad_returned a)"
    using assms(1-3) amounts by (auto simp: advance_ok_def effective_disbursed_def holds_row_def at_least_def or_zero_def split: option.splits)
  consider (even) "reconciliation_ok a" "or_zero (ad_returned a) = 0" | (returning) "reconciliation_ok a" "or_zero (ad_returned a) \<noteq> 0"
    | (over) "effective_disbursed a < or_zero (ad_accounted a)" "or_zero (ad_returned a) = 0"
    using assms(6) by blast
  then show ?thesis
  proof cases
    case even
    with approve_ok[OF assms(1,2,4,5) even(1) row(1,4)] obtain db' where
      "run_fund w director (Approve_accountability (ad_id a)) db = Inr db'" "get_advance (ad_id a) db' = Inr (reviewed w ACCOUNTED_ADVANCE a)"
      by blast
    then have "run_funds w [(director, Approve_accountability (ad_id a))] db = Inr db'" "ad_status (reviewed w ACCOUNTED_ADVANCE a) = ACCOUNTED_ADVANCE"
      by (simp_all add: reviewed_def)
    with \<open>get_advance _ db' = _\<close> show ?thesis by blast
  next
    case returning
    let ?b = "return_verified w (fp_user director) [] a"
    from verify_return_ok[OF assms(1,2) returning(2)] obtain db1 where
      one: "run_fund w director (Verify_return (ad_id a) Map.empty) db = Inr db1" "holds_row ?b x db1" by blast
    have "ad_status ?b = ACCOUNTABILITY_PENDING" "strip (netsuite_code ?b) \<noteq> []" "reconciliation_ok ?b" "ad_reimbursed ?b = None"
      "0 \<le> or_zero (ad_returned ?b)" "ad_return_verified_at ?b \<noteq> None" "ad_id ?b = ad_id a"
      using assms(2,4) returning row effective_same[of ?b a] by (simp_all add: return_verified_def netsuite_code_def reconciliation_ok_def)
    with approve_ok[OF one(2), of w director] assms(5) obtain db' where
      two: "run_fund w director (Approve_accountability (ad_id a)) db1 = Inr db'" "get_advance (ad_id a) db' = Inr (reviewed w ACCOUNTED_ADVANCE ?b)"
      by auto
    with one have "run_funds w [(director, Verify_return (ad_id a) Map.empty), (director, Approve_accountability (ad_id a))] db = Inr db'"
      "ad_status (reviewed w ACCOUNTED_ADVANCE ?b) = ACCOUNTED_ADVANCE" by (simp_all add: reviewed_def)
    with two(2) show ?thesis by blast
  next
    case over
    let ?b = "reviewed w REIMBURSEMENT_SUBMITTED a"
    from overspent_ok[OF assms(1,2,4,5) over] obtain db1 where
      one: "run_fund w director (Approve_accountability (ad_id a)) db = Inr db1" "holds_row ?b x db1" by blast
    have due: "reimbursement_due ?b = or_zero (ad_accounted a) - effective_disbursed a" "ad_id ?b = ad_id a" "ad_status ?b = REIMBURSEMENT_SUBMITTED"
      using over(2) effective_same[of ?b a] by (simp_all add: reimbursement_due_def reviewed_def)
    have "or_zero (ad_accounted a) < 2 ^ 63"
      using assms(1) by (auto simp: holds_row_def advance_refused_def bindE_eq_Inr big_integer_def or_zero_def split: option.splits)
    with reimburse_ok[OF one(2) due(3) assms(5), of w director] due(1,2) over(1) row(3) obtain db2 where
      two: "run_fund w director (Reimburse (ad_id a) Map.empty) db1 = Inr db2"
        "holds_row (reimbursed_out w (fp_user director) (reimbursement_due ?b) None None ?b) x db2" by fastforce
    let ?c = "reimbursed_out w (fp_user director) (reimbursement_due ?b) None None ?b"
    have c: "ad_status ?c = REIMBURSEMENT_DISBURSED" "reconciliation_ok ?c" "ad_reimbursed ?c = Some (reimbursement_due ?b)" "ad_id ?c = ad_id a"
      using over(2) effective_same[of ?c a] effective_same[of ?b a]
      by (simp_all add: reimbursed_out_def reviewed_def reconciliation_ok_def reimbursement_due_def or_zero_def)
    have "0 < reimbursement_due ?b" "leads_country director" using due(1) over(1) by (simp_all add: leads_country_def director_def)
    with receipt_ok[OF two(2) c(1-3)] c(4) obtain db' where
      three: "run_fund w director (Confirm_reimbursement (ad_id a) Map.empty) db2 = Inr db'"
        "get_advance (ad_id a) db' = Inr (receipted w (reimbursement_due ?b) ?c)" by auto
    with one two have "run_funds w [(director, Approve_accountability (ad_id a)), (director, Reimburse (ad_id a) Map.empty),
        (director, Confirm_reimbursement (ad_id a) Map.empty)] db = Inr db'"
      "ad_status (receipted w (reimbursement_due ?b) ?c) = REIMBURSED_ADVANCE" by (simp_all add: receipted_def)
    with three(2) show ?thesis by blast
  qed
qed

end
