(* ===== verification/FundProperties.thy ===== *)
theory FundProperties
  imports FundSettling
begin

text \<open>
  What the fund services guarantee, with a week of one officer followed from the request to
  the settled account.
\<close>

section \<open>A week followed\<close>

definition blank_advance :: advance where
  "blank_advance = \<lparr>ad_id = ''adv1'', ad_activity = ''act1'', ad_line = ''line1'', ad_owner = Some ''officer'',
     ad_amount = 1000, ad_status = CONFIRMED_FOR_ADVANCE, ad_type = BY_ADVANCE, ad_disbursed = None, ad_disbursed_at = None,
     ad_disbursed_by = None, ad_method = None, ad_reference = None, ad_accounted = None, ad_returned = None,
     ad_netsuite = None, ad_submitted_at = None, ad_pl_approved_at = None, ad_pl_approved_by = None, ad_reviewed_at = None,
     ad_confirmed_at = None, ad_note = None, ad_reimbursed = None, ad_reimbursed_at = None, ad_reimbursed_by = None,
     ad_reimburse_method = None, ad_reimburse_reference = None, ad_receipt_at = None, ad_receipt_amount = None,
     ad_return_verified_at = None, ad_return_verified_by = None, ad_return_reference = None\<rparr>"

definition blank_week :: weekly where
  "blank_week = \<lparr>wk_id = ''week1'', wk_owner = ''officer'', wk_role = Some ''CCEO'', wk_start = Date 2026 7 6,
     wk_end = Date 2026 7 12, wk_source = ''advance'', wk_total = 3000, wk_status = WEEK_CONFIRMED, wk_disbursed = None,
     wk_disbursed_at = None, wk_disbursed_by = None, wk_method = None, wk_reference = None, wk_receipt_at = None,
     wk_reason = [], wk_returned_at = None, wk_returned_by = None, wk_accounted = None, wk_returned = None,
     wk_netsuite = None, wk_submitted_at = None, wk_reviewed_at = None, wk_confirmed_at = None,
     wk_lines = [\<lparr>wl_line = ''line1'', wl_cost = 1000\<rparr>, \<lparr>wl_line = ''line2'', wl_cost = 2000\<rparr>]\<rparr>"

definition blank_plan :: plan where
  "blank_plan = \<lparr>pl_id = ''plan1'', pl_period = MONTHLY_PERIOD, pl_key = ''2026-M7'', pl_scope = ''own'', pl_owner = ''officer'', pl_total = 3000,
     pl_status = PLAN_SENT_TO_ACCOUNTANT, pl_reviewed_by = None, pl_reviewed_at = None, pl_note = None, pl_disbursed = None,
     pl_disbursed_at = None, pl_disbursed_by = None, pl_method = None, pl_reference = None, pl_held_reason = None,
     pl_held_at = None, pl_receipt_at = None, pl_accounted = None, pl_returned = None, pl_accountability = None,
     pl_netsuite = None, pl_submitted_at = None, pl_accountability_reviewed_at = None,
     pl_items = [\<lparr>pi_activity = ''act1'', pi_line = ''line1'', pi_amount = 1000\<rparr>,
       \<lparr>pi_activity = ''act1'', pi_line = ''line2'', pi_amount = 2000\<rparr>]\<rparr>"

definition advance_two :: advance where
  "advance_two = blank_advance\<lparr>ad_id := ''adv2'', ad_line := ''line2'', ad_amount := 2000\<rparr>"

definition fund_start :: fund_db where
  "fund_start = \<lparr>advances = [], weeklies = [blank_week], plans = [],
     work_items = [\<lparr>fa_id = ''act1'', fa_status = IA_VERIFIED, fa_ia_status = Some ''confirmed'', fa_delivery = ''staff'',
       fa_payment_status = []\<rparr>], disbursement_rows = [], supervisions = [(''lead'', ''officer'')], staff_names = [],
     directory_of = \<lparr>users = [], staff_profiles = []\<rparr>, fund_inbox = [], fund_audits = [], sync_queue = []\<rparr>"

definition fund_demo :: fund_db where
  "fund_demo = fund_start\<lparr>advances := [blank_advance, advance_two]\<rparr>"

definition demo_world :: fund_world where
  "demo_world = \<lparr>fw_now = 100, fw_audit_ok = True, fw_netsuite_on = False, fw_notice_id = (\<lambda>_. []), fw_event_id = (\<lambda>_. [])\<rparr>"

definition acts_as :: "string \<Rightarrow> string \<Rightarrow> string list \<Rightarrow> fund_principal" where
  "acts_as user role permissions = \<lparr>fp_user = user, fp_role = role, fp_permissions = permissions, fp_seat = None,
     fp_country_scope = False\<rparr>"

abbreviation "officer \<equiv> acts_as ''officer'' ''CCEO'' []"
abbreviation "lead \<equiv> acts_as ''lead'' ''Program Lead'' []"
abbreviation "cashier \<equiv> acts_as ''cashier'' ''Accountant'' [''payment.act'']"

lemma run_funds_steps: "run_funds w cs db = Inr db' \<Longrightarrow> fund_step\<^sup>*\<^sup>* db db'"
proof (induction cs arbitrary: db)
  case (Cons q cs)
  obtain p c where q: "q = (p, c)" by fastforce
  from Cons.prems obtain db1 where "run_fund w p c db = Inr db1" "run_funds w cs db1 = Inr db'"
    by (auto simp: q bindE_eq_Inr)
  with Cons.IH[of db1] show ?case by (meson converse_rtranclp_into_rtranclp fund_step.command)
qed simp

definition after :: "(fund_principal \<times> fund_command) list \<Rightarrow> fund_db \<Rightarrow> fund_db" where
  "after cs db = (case run_funds demo_world cs db of Inr db' \<Rightarrow> db' | Inl _ \<Rightarrow> db)"

lemma after_steps: "fund_step\<^sup>*\<^sup>* db (after cs db)"
  by (auto simp: after_def intro: run_funds_steps split: sum.splits)

lemma steps_reachable: "fund_step\<^sup>*\<^sup>* db db' \<Longrightarrow> fund_reachable db \<Longrightarrow> fund_reachable db'"
  by (induction rule: rtranclp_induct) (auto intro: fund_reachable.step)

lemma fund_demo_reachable: "fund_reachable fund_demo"
proof -
  have "fund_reachable fund_start"
    by (intro fund_reachable.start) (simp_all add: fund_start_def fund_tables_def unique_advances_def blank_week_def)
  moreover have "replanned fund_start fund_demo"
    by (simp add: replanned_def sound_rows_def fund_tables_def unique_advances_def fund_demo_def fund_start_def blank_week_def
        blank_advance_def advance_two_def unpaid_def advance_ok_def MONEY_MOVED_ADVANCE_STATUSES_def)
  ultimately show ?thesis by (blast intro: fund_reachable.step fund_step.planning)
qed

lemma after_reachable: "fund_reachable (after cs fund_demo)"
  by (rule steps_reachable[OF after_steps fund_demo_reachable])

text \<open>A line paid, accounted for and settled.\<close>

definition paid_week :: fund_db where
  "paid_week = after [(cashier, Disburse ''adv1'' Map.empty)] fund_demo"

definition spending :: "int \<Rightarrow> int \<Rightarrow> string \<Rightarrow> payload" where
  "spending spent returned why = [''netsuiteId'' \<mapsto> JStr ''NS-1'', ''amountSpent'' \<mapsto> JInt spent,
     ''amountReturned'' \<mapsto> JInt returned, ''varianceNote'' \<mapsto> JStr why]"

definition submitted_week :: "int \<Rightarrow> int \<Rightarrow> string \<Rightarrow> fund_db" where
  "submitted_week spent returned why = after [(officer, Submit_accountability ''adv1'' (spending spent returned why)),
     (lead, PL_approve ''adv1'')] paid_week"

definition settled_week :: fund_db where
  "settled_week = after [(cashier, Verify_return ''adv1'' Map.empty), (cashier, Approve_accountability ''adv1'')]
     (submitted_week 800 200 [])"

lemma demo_weeks_reachable: "fund_reachable paid_week" "fund_reachable (submitted_week spent returned why)"
  "fund_reachable settled_week"
  using steps_reachable[OF after_steps after_reachable] steps_reachable[OF after_steps steps_reachable[OF after_steps after_reachable]]
  by (auto simp: settled_week_def submitted_week_def paid_week_def after_reachable)


lemma paid_week_row: "list_ex (\<lambda>a. ad_id a = ''adv1'' \<and> ad_disbursed a = Some 1000) (advances paid_week)"
  by code_simp

lemma settled_week_row: "list_ex (\<lambda>a. ad_status a = ACCOUNTED_ADVANCE \<and> ad_accounted a = Some 800) (advances settled_week)"
  by code_simp


lemma plans_kept [simp]:
  "plans (tell_people w ids ev db) = plans db" "plans (record_audit w p action kind i payload db) = plans db"
  "plans (pay_whole w by via reference rows db) = plans db"
  by (simp_all add: tell_people_def record_audit_def pay_whole_def Let_def)

lemma plans_notes [simp]:
  "plans (audit_dashboard w p s f payload db) = plans db" "plans (notify_requester w f t1 t2 t3 db) = plans db"
  by (simp_all add: audit_dashboard_def notify_requester_def)

section \<open>Properties\<close>



text \<open>C30: Every reachable database is well formed: keys identify advances, a cost line has one advance
  and stands on a request once, amounts are not negative, and each advance has the amounts
  its status calls for - paid out or own money, reimbursed or not, reconciled once settled.\<close>
theorem fund_rows_well_formed:
  assumes "fund_reachable db"
  shows "sound_rows db \<and> list_all advance_ok (advances db)"
  using reachable_fund_inv[OF assms] by (simp add: fund_inv_def)

lemma fund_rows_well_formed_witness: "list_all advance_ok (advances (submitted_week 800 200 []))"
  using fund_rows_well_formed[OF demo_weeks_reachable(2)] by blast

text \<open>C24: A settled advance balances. In every reachable database the advance that is accounted for
  or reimbursed was paid, plus reimbursed, less returned, exactly what its owner accounted for;
  what was never paid out counts as nothing.\<close>
theorem settled_balances:
  assumes "fund_reachable db" "a \<in> set (advances db)" "ad_status a = ACCOUNTED_ADVANCE \<or> ad_status a = REIMBURSED_ADVANCE"
  shows "or_zero (ad_disbursed a) + or_zero (ad_reimbursed a) - or_zero (ad_returned a) = or_zero (ad_accounted a)"
proof -
  have "advance_ok a" using reachable_fund_inv[OF assms(1)] assms(2) by (simp add: fund_inv_def list_all_iff)
  with assms(3) have "paid_or_own a" "reconciliation_ok a"
    by (auto simp: advance_ok_def paid_or_own_def at_least_def split: option.splits)
  with effective_paid[of a] show ?thesis by (simp add: reconciliation_ok_def)
qed

lemma settled_balances_witness:
  "\<exists>a \<in> set (advances settled_week). ad_accounted a = Some 800
     \<and> or_zero (ad_disbursed a) + or_zero (ad_reimbursed a) - or_zero (ad_returned a) = 800"
proof -
  from settled_week_row obtain a where a: "a \<in> set (advances settled_week)" "ad_status a = ACCOUNTED_ADVANCE" "ad_accounted a = Some 800"
    by (auto simp: list_ex_iff)
  with settled_balances[OF demo_weeks_reachable(3) a(1)] show ?thesis by (force simp: or_zero_def)
qed

text \<open>C25: Nobody is paid without an approval. When a command pays an advance out, by whichever channel,
  its cost line is on a weekly request that is approved, or on a period request that is
  approved or was sent to the accountant.\<close>
theorem payment_needs_approval:
  assumes "fund_reachable db" "run_fund w p c db = Inr db'" "a \<in> set (advances db)" "ad_disbursed a = None"
    "b \<in> set (advances db')" "ad_id b = ad_id a" "ad_disbursed b \<noteq> None"
  shows "cleared_line db (ad_line a)"
proof -
  have sound: "sound_rows db" using reachable_fund_inv[OF assms(1)] by (simp add: fund_inv_def)
  note moves = command_moves[OF assms(2) sound]
  from ledger_moves_row[OF moves assms(3)] obtain b' where b': "b' \<in> set (advances db')" "advance_moves (cleared_line db) a b'" .
  have "ad_id b' = ad_id a" using moves_facts[OF b'(2)] by (simp add: advance_facts_def)
  moreover have "distinct (map ad_id (advances db'))"
    using ledger_moves_ids[OF moves] sound by (simp add: sound_rows_def fund_tables_def unique_advances_def)
  ultimately have "b' = b" using b'(1) assms(5,6) by (auto simp: distinct_map inj_on_def)
  with moves_paid_cleared[OF b'(2) assms(4)] assms(7) show ?thesis by simp
qed

lemma payment_needs_approval_witness: "cleared_line fund_demo ''line1''"
proof -
  have run: "run_fund demo_world cashier (Disburse ''adv1'' Map.empty) fund_demo = Inr paid_week"
  proof -
    have "case run_fund demo_world cashier (Disburse ''adv1'' Map.empty) fund_demo of Inr d \<Rightarrow> True | Inl _ \<Rightarrow> False" by code_simp
    then show ?thesis by (auto simp: paid_week_def after_def split: sum.splits)
  qed
  from paid_week_row obtain b where b: "b \<in> set (advances paid_week)" "ad_id b = ''adv1''" "ad_disbursed b = Some 1000"
    by (auto simp: list_ex_iff)
  with payment_needs_approval[OF fund_demo_reachable run, of blank_advance b]
  show ?thesis by (simp add: fund_demo_def blank_advance_def)
qed

text \<open>C26: A week becomes payable by somebody else's approval: the approver is not its owner, decides in
  their own right, and is the owner's programme lead, the country director or holds the
  escalated approval. The one exception is an owner whose own role leads the country.\<close>
theorem week_needs_another_approver:
  assumes "run_fund w p c db = Inr db'" "r \<in> set (weeklies db')" "wk_status r = WEEK_CONFIRMED" "r \<notin> set (weeklies db)"
  shows "may_confirm p db r"
  using command_confirms[OF assms(1), of r] assms(2-4) by (simp add: confirmed_weeks_def)

definition waiting_week :: fund_db where
  "waiting_week = fund_demo\<lparr>weeklies := [blank_week\<lparr>wk_status := WEEK_SUBMITTED_TO_PL\<rparr>]\<rparr>"

lemma week_needs_another_approver_witness: "may_confirm lead waiting_week blank_week"
proof -
  have "\<exists>db'. run_fund demo_world lead (Approve_week ''week1'') waiting_week = Inr db' \<and> weeklies db' = [blank_week]"
    by (simp add: approve_weekly_request_def get_weekly_def require_weekly_approver_def refuse_withheld_def waiting_week_def Let_def
        fund_demo_def fund_start_def acts_as_def sync_advances_def put_weekly_def update_where_def) (simp add: blank_week_def of_option_def)
  with week_needs_another_approver show ?thesis by (fastforce simp: waiting_week_def blank_week_def)
qed





text \<open>A week is paid out to the shilling. The amount released is within the week's total, and the
  advances of its lines are paid exactly that amount together, although the shares are
  computed in floating point.\<close>
theorem weekly_split_exact:
  assumes "disburse_weekly w i data p db = Inr db'" "sound_rows db" "get_weekly i db = Inr r"
    "list_all (\<lambda>l. 0 \<le> wl_cost l) (wk_lines r)" "sum_list (map wl_cost (wk_lines r)) = wk_total r" "wk_total r < 2 ^ 50"
  shows "\<exists>amount r'. 0 < amount \<and> amount \<le> wk_total r \<and> r' \<in> set (weeklies db') \<and> wk_id r' = i \<and> wk_disbursed r' = Some amount
    \<and> sum_list (map (\<lambda>a. or_zero (ad_disbursed a)) (advances_of_week r db')) = amount"
proof -
  let ?paid = "\<lambda>amount via reference. r\<lparr>wk_status := WEEK_DISBURSED, wk_disbursed := Some amount,
    wk_disbursed_at := Some (fw_now w), wk_disbursed_by := Some (fp_user p), wk_method := via, wk_reference := reference\<rparr>"
  let ?lines = "map wl_line (wk_lines r)"
  from assms(1,3) obtain amount via reference db1 where amount: "0 < amount" "amount \<le> wk_total r"
    and pay: "pay_lines w (fp_user p) via reference (zip ?lines (weekly_shares amount (wk_total r) (map wl_cost (wk_lines r))))
      (put_weekly (?paid amount via reference) db) = Inr db1"
    and db': "weeklies db' = weeklies db1" "advances db' = advances db1"
    by (auto simp: disburse_weekly_def bindE_eq_Inr Let_def)
  let ?db = "put_weekly (?paid amount via reference) db" and ?shares = "weekly_shares amount (wk_total r) (map wl_cost (wk_lines r))"
  from assms(3) have r: "r \<in> set (weeklies db)" "wk_id r = i" by (auto simp: get_weekly_def dest!: find_Some_set)
  have "unique_advances ?db" "distinct (map ad_line (advances ?db))" "distinct ?lines"
    using assms(2) r(1) by (auto simp: sound_rows_def fund_tables_def unique_advances_def list_all_iff)
  moreover have "length ?shares = length ?lines" by (simp add: weekly_shares_def Let_def)
  ultimately have "list_all2 (\<lambda>l share. paid_for l db1 = Some (Some share)) ?lines ?shares"
    using pay_lines_pays[OF pay] by (auto simp: list_all2_iff)
  then have "sum_list (map (\<lambda>a. or_zero (ad_disbursed a)) (advances_of_week r db1)) = sum_list ?shares" by (rule week_paid_sum)
  moreover have "sum_list ?shares = amount" using assms(4-6) amount by (intro weekly_shares_sum) (auto simp: list_all_iff)
  moreover have "?paid amount via reference \<in> set (weeklies db1)"
    using pay_lines_weeklies[OF pay] r by (auto simp: put_weekly_def set_update_where)
  ultimately show ?thesis using amount r(2) db' by (force simp: advances_of_week_def)
qed

lemma demo_shares: "weekly_shares 1000 3000 [1000, 2000] = [333, 667]"
  by code_simp

lemma demo_locked: "case lock_disbursable_advances [''line1'', ''line2''] fund_demo of Inr _ \<Rightarrow> True | Inl _ \<Rightarrow> False"
  by code_simp

lemma demo_lines_paid: "case pay_lines demo_world ''cashier'' None None [(''line1'', 333), (''line2'', 667)] (fund_demo\<lparr>weeklies := ws\<rparr>)
    of Inr _ \<Rightarrow> True | Inl _ \<Rightarrow> False"
  by code_simp

lemma demo_week_paid: "\<exists>db'. disburse_weekly demo_world ''week1'' [''amount'' \<mapsto> JInt 1000] cashier fund_demo = Inr db'"
proof -
  let ?r = "blank_week\<lparr>wk_status := WEEK_DISBURSED, wk_disbursed := Some 1000, wk_disbursed_at := Some (fw_now demo_world),
    wk_disbursed_by := Some ''cashier'', wk_method := None, wk_reference := None\<rparr>"
  obtain rows where "lock_disbursable_advances [''line1'', ''line2''] fund_demo = Inr rows"
    using demo_locked by (cases "lock_disbursable_advances [''line1'', ''line2''] fund_demo") simp_all
  moreover obtain db1 where "pay_lines demo_world ''cashier'' None None [(''line1'', 333), (''line2'', 667)] (fund_demo\<lparr>weeklies := [?r]\<rparr>) = Inr db1"
    using demo_lines_paid[of "[?r]"]
    by (cases "pay_lines demo_world ''cashier'' None None [(''line1'', 333), (''line2'', 667)] (fund_demo\<lparr>weeklies := [?r]\<rparr>)") simp_all
  moreover have "put_weekly ?r fund_demo = fund_demo\<lparr>weeklies := [?r]\<rparr>"
    by (simp add: put_weekly_def fund_demo_def fund_start_def update_where_def)
  moreover have "get_weekly ''week1'' fund_demo = Inr blank_week"
    by (simp add: get_weekly_def fund_demo_def fund_start_def blank_week_def of_option_def)
  moreover have "wk_status blank_week = WEEK_CONFIRMED" "wk_total blank_week = 3000" "map wl_line (wk_lines blank_week) = [''line1'', ''line2'']"
    "map wl_cost (wk_lines blank_week) = [1000, 2000]" "int_or (py_or (payload_get [''amount'' \<mapsto> JInt 1000] ''amount'') (JInt 3000)) 3000 = 1000"
    "payload_get [''amount'' \<mapsto> JInt 1000] ''method'' = JNone" "payload_get [''amount'' \<mapsto> JInt 1000] ''reference'' = JNone"
    "''payment.act'' \<in> set (fp_permissions cashier)" "fp_user cashier = ''cashier''"
    by (simp_all add: blank_week_def int_or_def py_or_def payload_get_def truthy_def py_int_def acts_as_def)
  ultimately show ?thesis
    using demo_shares by (simp add: disburse_weekly_def text_column_def Let_def del: pay_lines.simps fund_db.simps)
qed

lemma weekly_split_exact_witness:
  "\<exists>db' amount r'. disburse_weekly demo_world ''week1'' [''amount'' \<mapsto> JInt 1000] cashier fund_demo = Inr db'
    \<and> r' \<in> set (weeklies db') \<and> wk_disbursed r' = Some amount
    \<and> sum_list (map (\<lambda>a. or_zero (ad_disbursed a)) (advances_of_week blank_week db')) = amount"
proof -
  obtain db' where run: "disburse_weekly demo_world ''week1'' [''amount'' \<mapsto> JInt 1000] cashier fund_demo = Inr db'"
    using demo_week_paid by blast
  have "get_weekly ''week1'' fund_demo = Inr blank_week" by (simp add: get_weekly_def fund_demo_def fund_start_def blank_week_def of_option_def)
  with weekly_split_exact[OF run _ this] reachable_fund_inv[OF fund_demo_reachable] run
  show ?thesis by (fastforce simp: fund_inv_def blank_week_def)
qed

text \<open>C29: A partial release of a monthly plan pays the lines in full. Whatever part of the approved
  total the accountant releases, the plan records that part, while the advance of every line
  is marked as paid its whole amount.\<close>
theorem partial_plan_pays_whole:
  assumes "disburse_plan w i data p db = Inr db'" "sound_rows db" "get_monthly_plan i [PLAN_SENT_TO_ACCOUNTANT] db = Inr f"
    "l \<in> set (plan_lines f)"
  shows "(\<exists>a \<in> set (advances db'). ad_line a = l \<and> ad_status a = DISBURSED_ADVANCE \<and> ad_disbursed a = Some (ad_amount a))
    \<and> (\<exists>g \<in> set (plans db'). pl_id g = i \<and> pl_status g = PLAN_DISBURSED
         \<and> pl_disbursed g = Some (int_or (py_or (payload_get data ''amount'') (JInt (pl_total f))) (pl_total f)))"
proof -
  let ?amount = "int_or (py_or (payload_get data ''amount'') (JInt (pl_total f))) (pl_total f)"
  from assms(1,3) obtain rows via reference where lock: "lock_disbursable_advances (plan_lines f) db = Inr rows"
    and db': "advances db' = advances (pay_whole w (fp_user p) via reference rows (put_plan (plan_paid w (fp_user p) (Some ?amount) via reference f) db))"
      "plans db' = plans (put_plan (plan_paid w (fp_user p) (Some ?amount) via reference f) db)"
    by (auto simp: disburse_plan_def bindE_eq_Inr Let_def)
  have "l \<noteq> []" using assms(4) by (simp add: plan_lines_def)
  with lock_payable(2,3)[OF lock] assms(4) obtain a where a: "a \<in> set (advances db)" "ad_line a = l" "a \<in> set rows" by fastforce
  then have "paid_out w (fp_user p) (ad_amount a) via reference a \<in> set (advances db')"
    unfolding db' pay_whole_def by (auto simp: set_update_where)
  moreover have "plan_paid w (fp_user p) (Some ?amount) via reference f \<in> set (plans db')" "pl_id f = i"
    using assms(3) by (auto simp: db' put_plan_def set_update_where plan_paid_def get_monthly_plan_def bindE_eq_Inr of_option_def
        split: option.splits dest!: find_Some_set)
  ultimately show ?thesis using a(2)
    bexI[of "\<lambda>a. ad_line a = l \<and> ad_status a = DISBURSED_ADVANCE \<and> ad_disbursed a = Some (ad_amount a)"
      "paid_out w (fp_user p) (ad_amount a) via reference a" "set (advances db')"]
    bexI[of "\<lambda>g. pl_id g = i \<and> pl_status g = PLAN_DISBURSED \<and> pl_disbursed g = Some ?amount"
      "plan_paid w (fp_user p) (Some ?amount) via reference f" "set (plans db')"]
    by (simp add: paid_out_def plan_paid_def)
qed

definition plan_demo :: fund_db where
  "plan_demo = fund_demo\<lparr>plans := [blank_plan]\<rparr>"

lemma partial_plan_pays_whole_witness:
  "\<exists>db'. disburse_plan demo_world ''plan1'' [''amount'' \<mapsto> JInt 1500] cashier plan_demo = Inr db'
    \<and> (\<exists>a \<in> set (advances db'). ad_line a = ''line2'' \<and> ad_disbursed a = Some (ad_amount a))
    \<and> (\<exists>g \<in> set (plans db'). pl_id g = ''plan1'' \<and> pl_disbursed g = Some 1500)"
proof -
  let ?data = "[''amount'' \<mapsto> JInt 1500]"
  have "case lock_disbursable_advances [''line1'', ''line2''] plan_demo of Inr _ \<Rightarrow> True | Inl _ \<Rightarrow> False" by code_simp
  then obtain rows where "lock_disbursable_advances [''line1'', ''line2''] plan_demo = Inr rows"
    by (cases "lock_disbursable_advances [''line1'', ''line2''] plan_demo") simp_all
  moreover have f: "get_monthly_plan ''plan1'' [PLAN_SENT_TO_ACCOUNTANT] plan_demo = Inr blank_plan"
    by (simp add: get_monthly_plan_def plan_demo_def blank_plan_def of_option_def)
  moreover have lines: "plan_lines blank_plan = [''line1'', ''line2'']" "pl_total blank_plan = 3000"
    by (simp_all add: blank_plan_def plan_lines_def)
  moreover have amount: "int_or (py_or (payload_get ?data ''amount'') (JInt 3000)) 3000 = 1500"
    by (simp add: int_or_def py_or_def payload_get_def truthy_def py_int_def)
  moreover have "stripped ?data ''method'' = Inr []" "stripped ?data ''reference'' = Inr []" "require_accountant cashier = Inr ()"
    by (simp_all add: stripped_def payload_get_def truthy_def require_accountant_def acts_as_def)
  ultimately obtain db' where run: "disburse_plan demo_world ''plan1'' ?data cashier plan_demo = Inr db'"
    by (simp add: disburse_plan_def Let_def)
  have "sound_rows plan_demo"
    using reachable_fund_inv[OF fund_demo_reachable] by (simp add: fund_inv_def plan_demo_def sound_rows_def fund_tables_def unique_advances_def)
  from partial_plan_pays_whole[OF run this f, of "''line2''"] lines amount run show ?thesis by auto
qed

end
