(* ===== verification/FundPlanning.thy ===== *)
theory FundPlanning
  imports FundPlans FiscalYear "HOL-Library.List_Lexorder" "HOL-Library.Char_ord"
begin

text \<open>
  How planned work becomes requests for money: apps/fund_requests/fundable.py,
  advance_service.py (\<open>sync_for_activities\<close>), weekly_service.py (the generation of a week),
  monthly_service.py, follow.py and \<open>services.submit\<close>.

  A cost line is a priced item of an activity (apps/budget/costing_service.py writes them).
  The database is the one of the fund requests with the cost lines and the activities
  beside it. \<open>pw_day\<close> is the local day of the scheduled instant. The ids of new rows are
  arguments. A query that asks for no order answers in the order of the table. Pricing a
  day that waits for its figures (daily_visit_batches/costs_follow.py) is the caller's first
  step. The caller's transaction is the one an error undoes.
\<close>

record budget_line =
  cl_id :: string
  cl_activity :: string
  cl_type :: "string option"
  cl_amount :: int
  cl_vendor_paid :: bool
  cl_owner :: "string option"
  cl_planned :: "date option"
  cl_week :: "date option"
  cl_month :: "int option"
  cl_fy :: "string option"

record planned_work =
  pw_id :: string
  pw_type :: activity_type
  pw_status :: activity_status
  pw_deleted :: bool
  pw_day :: "date option"
  pw_planned :: "date option"
  pw_end :: "date option"
  pw_school :: bool
  pw_facilitator :: bool
  pw_cost_missing :: bool
  pw_delivery :: string
  pw_mode :: string
  pw_owner :: "string option"
  pw_fy :: string
  pw_quarter :: string
  pw_month :: "int option"
  pw_pair :: "string option"

text \<open>The weeks and months that wait for the save in hand to end, when one collects them.\<close>

type_synonym owner_week = "string \<times> date"
type_synonym owner_month = "string \<times> string \<times> int"

record planning_db =
  ledger :: fund_db
  cost_lines :: "budget_line list"
  works :: "planned_work list"
  waiting :: "(owner_week list \<times> owner_month list) option"

section \<open>What staff money may pay\<close>

definition work_of :: "budget_line \<Rightarrow> planning_db \<Rightarrow> planned_work option" where
  "work_of l db = find (\<lambda>w. pw_id w = cl_activity l) (works db)"

definition one_day :: "planned_work \<Rightarrow> bool" where
  "one_day w \<longleftrightarrow> (case (pw_end w, pw_planned w) of (Some e, Some s) \<Rightarrow> e \<le> s | _ \<Rightarrow> True)"

definition vendor_direct :: "planned_work \<Rightarrow> budget_line \<Rightarrow> bool" where
  "vendor_direct w l \<longleftrightarrow> (cl_type l = Some ''transport'' \<and> pw_school w \<and> one_day w)
     \<or> (cl_type l = Some ''accommodation'' \<and> cl_vendor_paid l)"

definition is_vendor_transport :: "planned_work \<Rightarrow> budget_line \<Rightarrow> bool" where
  "is_vendor_transport w l \<longleftrightarrow>
     (let several_days = (case (pw_end w, pw_planned w) of (Some e, Some s) \<Rightarrow> s < e | _ \<Rightarrow> False) in
      cl_type l = Some ''transport'' \<and> pw_school w \<and> \<not> several_days)"

definition partner_fee :: "planned_work \<Rightarrow> budget_line \<Rightarrow> bool" where
  "partner_fee w l \<longleftrightarrow> cl_type l = Some ''facilitation'' \<and> pw_facilitator w"

definition NON_REQUESTABLE_ADVANCE_STATUSES :: "advance_status list" where
  "NON_REQUESTABLE_ADVANCE_STATUSES = MONEY_MOVED_ADVANCE_STATUSES
     @ [SELF_FUNDED_PENDING, NOT_REQUESTED_ADVANCE, CANCELLED_ADVANCE]"

definition opted_out :: "budget_line \<Rightarrow> planning_db \<Rightarrow> bool" where
  "opted_out l db \<longleftrightarrow> list_ex (\<lambda>a. ad_line a = cl_id l \<and> ad_status a \<in> set NON_REQUESTABLE_ADVANCE_STATUSES) (advances (ledger db))"

definition fundable_line :: "planning_db \<Rightarrow> budget_line \<Rightarrow> bool" where
  "fundable_line db l \<longleftrightarrow> (case work_of l db of None \<Rightarrow> False
     | Some w \<Rightarrow> \<not> pw_deleted w \<and> pw_day w \<noteq> None \<and> \<not> pw_cost_missing w \<and> cl_amount l \<noteq> 0
         \<and> pw_status w \<notin> set NON_FUNDABLE_ACTIVITY_STATUSES \<and> pw_delivery w \<noteq> ''partner''
         \<and> \<not> partner_fee w l \<and> \<not> vendor_direct w l \<and> \<not> opted_out l db)"

section \<open>The advances of an activity\<close>

definition PAST_CANCELLATION :: "advance_status list" where
  "PAST_CANCELLATION = [DISBURSED_ADVANCE, ACCOUNTED_ADVANCE, REIMBURSED_ADVANCE]"

definition drop_advances :: "(advance \<Rightarrow> bool) \<Rightarrow> fund_db \<Rightarrow> fund_db" where
  "drop_advances P db = db\<lparr>advances := filter (\<lambda>a. \<not> (P a \<and> ad_status a \<notin> set PAST_CANCELLATION)) (advances db)\<rparr>"

definition or_else :: "string option \<Rightarrow> string option \<Rightarrow> string option" where
  "or_else a b = (if nonblank a then a else b)"

definition opened :: "string \<Rightarrow> planned_work \<Rightarrow> budget_line \<Rightarrow> string option \<Rightarrow> advance" where
  "opened i w l owner = \<lparr>ad_id = i, ad_activity = pw_id w, ad_line = cl_id l, ad_owner = owner, ad_amount = cl_amount l,
     ad_status = PENDING_CONFIRMATION, ad_type = BY_ADVANCE, ad_disbursed = None, ad_disbursed_at = None,
     ad_disbursed_by = None, ad_method = None, ad_reference = None, ad_accounted = None, ad_returned = None,
     ad_netsuite = None, ad_submitted_at = None, ad_pl_approved_at = None, ad_pl_approved_by = None, ad_reviewed_at = None,
     ad_confirmed_at = None, ad_note = None, ad_reimbursed = None, ad_reimbursed_at = None, ad_reimbursed_by = None,
     ad_reimburse_method = None, ad_reimburse_reference = None, ad_receipt_at = None, ad_receipt_amount = None,
     ad_return_verified_at = None, ad_return_verified_by = None, ad_return_reference = None\<rparr>"

text \<open>One insertion of several rows, under the constraints of the table.\<close>

definition create_advances :: "advance list \<Rightarrow> fund_db \<Rightarrow> fund_db result" where
  "create_advances rows db =
     bindE (ensure (list_all (\<lambda>a. 0 \<le> ad_amount a) rows) (IntegrityError ''advance_request_amount_non_negative'')) (\<lambda>_.
     bindE (ensure (distinct (map ad_line (advances db @ rows))) (IntegrityError ''uniq_advance_per_budget_line'')) (\<lambda>_.
       Inr (db\<lparr>advances := advances db @ rows\<rparr>)))"

definition staff_lines :: "planned_work list \<Rightarrow> planning_db \<Rightarrow> (planned_work \<times> budget_line) list" where
  "staff_lines ws db = concat (map (\<lambda>w. map (Pair w) (filter (\<lambda>l. cl_activity l = pw_id w \<and> cl_amount l \<noteq> 0
     \<and> (case work_of l db of None \<Rightarrow> False | Some row \<Rightarrow> \<not> vendor_direct row l \<and> \<not> partner_fee row l)) (cost_lines db))) ws)"

definition OWNER_HELD_ADVANCES :: "advance_status list" where
  "OWNER_HELD_ADVANCES = [DRAFT_FROM_SCHEDULE, PENDING_CONFIRMATION, RETURNED_ADVANCE]"

definition refreshed :: "planned_work \<Rightarrow> budget_line \<Rightarrow> string option \<Rightarrow> advance \<Rightarrow> advance" where
  "refreshed w l owner a = a\<lparr>ad_amount := cl_amount l, ad_owner := or_else owner (ad_owner a)\<rparr>"

fun refresh_lines :: "string option \<Rightarrow> (planned_work \<times> budget_line) list \<Rightarrow> fund_db \<Rightarrow> fund_db result" where
  "refresh_lines given [] db = Inr db"
| "refresh_lines given ((w, l) # rest) db =
     (case find (\<lambda>a. ad_line a = cl_id l) (advances db) of None \<Rightarrow> refresh_lines given rest db
      | Some a \<Rightarrow> if ad_status a \<in> set OWNER_HELD_ADVANCES
          then bindE (save_advance (refreshed w l (or_else given (pw_owner w)) a) db) (refresh_lines given rest)
          else refresh_lines given rest db)"

definition open_lines :: "(nat \<Rightarrow> string) \<Rightarrow> string option \<Rightarrow> (planned_work \<times> budget_line) list \<Rightarrow> fund_db \<Rightarrow> fund_db result" where
  "open_lines fresh given ps db =
     create_advances (map (\<lambda>(n, (w, l)). opened (fresh n) w l (or_else given (pw_owner w))) (enumerate 0 ps)) db"

text \<open>The activities of a save are distinct.\<close>

definition sync_for_activities :: "(nat \<Rightarrow> string) \<Rightarrow> bool \<Rightarrow> string option \<Rightarrow> planned_work list \<Rightarrow> planning_db \<Rightarrow> planning_db result" where
  "sync_for_activities fresh just_written given ws db =
     (let partner = map pw_id (filter (\<lambda>w. pw_delivery w = ''partner'') ws);
          mine = filter (\<lambda>w. pw_delivery w \<noteq> ''partner'') ws;
          ps = staff_lines mine db;
          db1 = drop_advances (\<lambda>a. ad_activity a \<in> set partner) (ledger db) in
      if mine = [] then Inr (db\<lparr>ledger := db1\<rparr>)
      else if just_written
      then bindE (open_lines fresh given ps db1) (\<lambda>db2. Inr (db\<lparr>ledger := db2\<rparr>))
      else let db2 = drop_advances (\<lambda>a. ad_activity a \<in> set (map pw_id mine) \<and> ad_line a \<notin> set (map (cl_id \<circ> snd) ps)) db1;
             missing = filter (\<lambda>(w, l). \<not> list_ex (\<lambda>a. ad_line a = cl_id l) (advances db2)) ps in
        bindE (refresh_lines given ps db2) (\<lambda>db3.
        bindE (open_lines fresh given missing db3) (\<lambda>db4. Inr (db\<lparr>ledger := db4\<rparr>))))"

definition sync_for_activity :: "(nat \<Rightarrow> string) \<Rightarrow> planned_work \<Rightarrow> string option \<Rightarrow> planning_db \<Rightarrow> planning_db result" where
  "sync_for_activity fresh w given db = sync_for_activities fresh False given [w] db"

section \<open>The request of a week\<close>

definition REBUILDABLE_WEEKLY_STATUSES :: "weekly_status list" where
  "REBUILDABLE_WEEKLY_STATUSES = [WEEK_PENDING, WEEK_RETURNED_BY_PL, WEEK_RETURNED_BY_CD, WEEK_RETURNED_BY_ACCOUNTANT]"

definition lines_of_week :: "string \<Rightarrow> date \<Rightarrow> date \<Rightarrow> planning_db \<Rightarrow> budget_line list" where
  "lines_of_week owner first until db = filter (\<lambda>l. cl_owner l = Some owner
     \<and> (case cl_planned l of None \<Rightarrow> False | Some d \<Rightarrow> first \<le> d \<and> d \<le> until) \<and> fundable_line db l) (cost_lines db)"

definition request_lines :: "budget_line list \<Rightarrow> weekly_line list" where
  "request_lines ls = map (\<lambda>l. \<lparr>wl_line = cl_id l, wl_cost = cl_amount l\<rparr>) ls"

definition new_week :: "string \<Rightarrow> string \<Rightarrow> date \<Rightarrow> date \<Rightarrow> int \<Rightarrow> weekly_line list \<Rightarrow> weekly" where
  "new_week i owner first until amount ls = \<lparr>wk_id = i, wk_owner = owner, wk_role = None, wk_start = first, wk_end = until,
     wk_source = ''advance'', wk_total = amount, wk_status = WEEK_PENDING, wk_disbursed = None, wk_disbursed_at = None,
     wk_disbursed_by = None, wk_method = None, wk_reference = None, wk_receipt_at = None, wk_reason = [],
     wk_returned_at = None, wk_returned_by = None, wk_accounted = None, wk_returned = None, wk_netsuite = None,
     wk_submitted_at = None, wk_reviewed_at = None, wk_confirmed_at = None, wk_lines = ls\<rparr>"

definition with_weeklies :: "weekly list \<Rightarrow> planning_db \<Rightarrow> planning_db" where
  "with_weeklies ws db = db\<lparr>ledger := (ledger db)\<lparr>weeklies := ws\<rparr>\<rparr>"

definition monday_of :: "date \<Rightarrow> date result" where
  "monday_of d = py_add_days d (- weekday d)"

definition of_owner_week :: "string \<Rightarrow> date \<Rightarrow> weekly \<Rightarrow> bool" where
  "of_owner_week owner first r \<longleftrightarrow> wk_owner r = owner \<and> wk_start r = first"

text \<open>Every caller passes the text of a date.\<close>

definition generate_weekly_fund_request :: "string \<Rightarrow> string \<Rightarrow> date \<Rightarrow> planning_db \<Rightarrow> planning_db result" where
  "generate_weekly_fund_request i owner d db =
     bindE (monday_of d) (\<lambda>first.
     bindE (py_add_days first 6) (\<lambda>until.
     let ls = lines_of_week owner first until db; amount = sum_list (map cl_amount ls); rows = weeklies (ledger db) in
     case find (of_owner_week owner first) rows of
       None \<Rightarrow> if ls = [] then Inr db
         else bindE (ensure (big_integer (Some amount)) DataError) (\<lambda>_.
           bindE (ensure (0 \<le> amount) (IntegrityError ''weekly_fund_request_total_amount_non_negative'')) (\<lambda>_.
             Inr (with_weeklies (rows @ [new_week i owner first until amount (request_lines ls)]) db)))
     | Some r \<Rightarrow>
         if wk_status r \<notin> set REBUILDABLE_WEEKLY_STATUSES then Inr db
         else if ls = [] then Inr (with_weeklies (filter (\<lambda>x. wk_id x \<noteq> wk_id r) rows) db)
         else bindE (ensure (big_integer (Some amount)) DataError) (\<lambda>_.
           bindE (ensure (0 \<le> amount) (IntegrityError ''weekly_fund_request_total_amount_non_negative'')) (\<lambda>_.
             Inr (with_weeklies (update_where (\<lambda>x. wk_id x = wk_id r)
               (\<lambda>_. r\<lparr>wk_total := amount, wk_lines := request_lines ls\<rparr>) rows) db)))))"

section \<open>The draft of a month\<close>

definition month_key :: "string \<Rightarrow> int \<Rightarrow> string" where
  "month_key fy m = fy @ ''-M'' @ show_int m"

definition lines_of_month :: "owner_month \<Rightarrow> planning_db \<Rightarrow> budget_line list" where
  "lines_of_month p db = (case p of (owner, fy, m) \<Rightarrow> filter (\<lambda>l. cl_owner l = Some owner \<and> cl_fy l = Some fy
     \<and> cl_month l = Some m \<and> fundable_line db l) (cost_lines db))"

definition of_owner_month :: "owner_month \<Rightarrow> plan \<Rightarrow> bool" where
  "of_owner_month p f \<longleftrightarrow> (case p of (owner, fy, m) \<Rightarrow> pl_owner f = owner \<and> pl_period f = MONTHLY_PERIOD
     \<and> pl_key f = month_key fy m \<and> pl_scope f = ''own'')"

definition plan_items :: "budget_line list \<Rightarrow> plan_item list" where
  "plan_items ls = map (\<lambda>l. \<lparr>pi_activity = cl_activity l, pi_line = cl_id l, pi_amount = cl_amount l\<rparr>) ls"

definition new_plan :: "string \<Rightarrow> fund_period \<Rightarrow> string \<Rightarrow> string \<Rightarrow> string \<Rightarrow> int \<Rightarrow> plan_status \<Rightarrow> plan_item list \<Rightarrow> plan" where
  "new_plan i period key scope owner amount status items = \<lparr>pl_id = i, pl_period = period, pl_key = key, pl_scope = scope,
     pl_owner = owner, pl_total = amount, pl_status = status, pl_reviewed_by = None, pl_reviewed_at = None, pl_note = None,
     pl_disbursed = None, pl_disbursed_at = None, pl_disbursed_by = None, pl_method = None, pl_reference = None,
     pl_held_reason = None, pl_held_at = None, pl_receipt_at = None, pl_accounted = None, pl_returned = None,
     pl_accountability = None, pl_netsuite = None, pl_submitted_at = None, pl_accountability_reviewed_at = None,
     pl_items = items\<rparr>"

definition with_plans :: "plan list \<Rightarrow> planning_db \<Rightarrow> planning_db" where
  "with_plans fs db = db\<lparr>ledger := (ledger db)\<lparr>plans := fs\<rparr>\<rparr>"

definition plan_accepted :: "string \<Rightarrow> int \<Rightarrow> plan_item list \<Rightarrow> unit result" where
  "plan_accepted key amount items =
     bindE (ensure (length key \<le> 32 \<and> big_integer (Some amount)) DataError) (\<lambda>_.
     bindE (ensure (0 \<le> amount) (IntegrityError ''fund_request_total_amount_non_negative'')) (\<lambda>_.
       ensure (list_all (\<lambda>x. 0 \<le> pi_amount x) items) (IntegrityError ''fund_request_item_amount_non_negative'')))"

text \<open>The drafts are emptied first, then each month is filled from its lines.\<close>

definition emptied :: "owner_month list \<Rightarrow> plan list \<Rightarrow> plan list" where
  "emptied ps fs = update_where (\<lambda>f. pl_status f = PLAN_DRAFT \<and> list_ex (\<lambda>p. of_owner_month p f) ps)
     (\<lambda>f. f\<lparr>pl_items := []\<rparr>) fs"

definition sync_month :: "string \<Rightarrow> owner_month \<Rightarrow> planning_db \<Rightarrow> planning_db result" where
  "sync_month i p db =
     (let ls = lines_of_month p db; fs = plans (ledger db); amount = sum_list (map cl_amount ls) in
      case find (of_owner_month p) fs of
        None \<Rightarrow> if ls = [] then Inr db
          else bindE (plan_accepted (month_key (fst (snd p)) (snd (snd p))) amount (plan_items ls)) (\<lambda>_. case p of (owner, fy, m) \<Rightarrow>
            Inr (with_plans (fs @ [new_plan i MONTHLY_PERIOD (month_key fy m) ''own'' owner amount PLAN_DRAFT (plan_items ls)]) db))
      | Some f \<Rightarrow>
          if pl_status f \<noteq> PLAN_DRAFT then Inr db
          else if ls = [] then Inr (with_plans (filter (\<lambda>x. pl_id x \<noteq> pl_id f) fs) db)
          else bindE (plan_accepted (month_key (fst (snd p)) (snd (snd p))) amount (plan_items ls)) (\<lambda>_.
            Inr (with_plans (update_where (\<lambda>x. pl_id x = pl_id f)
              (\<lambda>_. f\<lparr>pl_total := amount, pl_items := pl_items f @ plan_items ls\<rparr>) fs) db)))"

fun sync_months :: "(nat \<Rightarrow> string) \<Rightarrow> owner_month list \<Rightarrow> planning_db \<Rightarrow> planning_db result" where
  "sync_months fresh [] db = Inr db"
| "sync_months fresh (p # ps) db = bindE (sync_month (fresh (length ps)) p db) (sync_months fresh ps)"

text \<open>The months of a call are a set: they are distinct.\<close>

definition sync_monthly_periods :: "(nat \<Rightarrow> string) \<Rightarrow> owner_month list \<Rightarrow> planning_db \<Rightarrow> planning_db result" where
  "sync_monthly_periods fresh ps db = sync_months fresh ps (with_plans (emptied ps (plans (ledger db))) db)"

section \<open>Rebuilding once, when a save ends\<close>

fun generate_weeks :: "(nat \<Rightarrow> string) \<Rightarrow> owner_week list \<Rightarrow> planning_db \<Rightarrow> planning_db result" where
  "generate_weeks fresh [] db = Inr db"
| "generate_weeks fresh ((owner, d) # rest) db =
     bindE (generate_weekly_fund_request (fresh (length rest)) owner d db) (generate_weeks fresh rest)"

text \<open>The keys of a dict stay where they were first put.\<close>

definition add_once :: "'a list \<Rightarrow> 'a list \<Rightarrow> 'a list" where
  "add_once xs ys = fold (\<lambda>y acc. if y \<in> set acc then acc else acc @ [y]) ys xs"

definition weeks_wait :: "owner_week list \<Rightarrow> planning_db \<Rightarrow> planning_db option" where
  "weeks_wait bs db = (case waiting db of None \<Rightarrow> None
     | Some (weeks, months) \<Rightarrow> Some (db\<lparr>waiting := Some (add_once weeks bs, months)\<rparr>))"

definition months_wait :: "owner_month list \<Rightarrow> planning_db \<Rightarrow> planning_db option" where
  "months_wait ps db = (case waiting db of None \<Rightarrow> None
     | Some (weeks, months) \<Rightarrow> Some (db\<lparr>waiting := Some (weeks, add_once months ps)\<rparr>))"

definition refile :: "(nat \<Rightarrow> string) \<Rightarrow> (nat \<Rightarrow> string) \<Rightarrow> owner_week list \<Rightarrow> owner_month list \<Rightarrow> planning_db \<Rightarrow> planning_db result" where
  "refile fresh_week fresh_plan weeks months db =
     bindE (generate_weeks fresh_week weeks db) (sync_monthly_periods fresh_plan months)"

definition fund_requests_follow_once :: "(nat \<Rightarrow> string) \<Rightarrow> (nat \<Rightarrow> string) \<Rightarrow> (planning_db \<Rightarrow> planning_db result)
    \<Rightarrow> planning_db \<Rightarrow> planning_db result" where
  "fund_requests_follow_once fresh_week fresh_plan body db =
     (if waiting db \<noteq> None then body db
      else bindE (body (db\<lparr>waiting := Some ([], [])\<rparr>)) (\<lambda>db1. case waiting db1 of None \<Rightarrow> Inr db1
        | Some (weeks, months) \<Rightarrow> refile fresh_week fresh_plan weeks months (db1\<lparr>waiting := None\<rparr>)))"

text \<open>The block hands over what is waiting; inside another one it hands over nothing.\<close>

definition fund_requests_kept :: "(planning_db \<Rightarrow> planning_db result) \<Rightarrow> planning_db
    \<Rightarrow> (planning_db \<times> (owner_week list \<times> owner_month list) option) result" where
  "fund_requests_kept body db =
     (if waiting db \<noteq> None then bindE (body db) (\<lambda>db1. Inr (db1, None))
      else bindE (body (db\<lparr>waiting := Some ([], [])\<rparr>)) (\<lambda>db1. Inr (db1\<lparr>waiting := None\<rparr>, waiting db1)))"

section \<open>Who asks for a week or a month\<close>

definition week_buckets :: "string option \<Rightarrow> planned_work list \<Rightarrow> owner_week list result" where
  "week_buckets given ws = mapE (\<lambda>(owner, d). bindE (monday_of d) (\<lambda>m. Inr (owner, m)))
     (concat (map (\<lambda>w. case (pw_day w, or_else given (pw_owner w)) of
        (Some d, Some owner) \<Rightarrow> if owner \<noteq> [] \<and> pw_status w \<noteq> CANCELLED then [(owner, d)] else []
      | _ \<Rightarrow> []) ws))"

definition asked_weeks :: "(nat \<Rightarrow> string) \<Rightarrow> owner_week list \<Rightarrow> planning_db \<Rightarrow> planning_db result" where
  "asked_weeks fresh bs db = (case weeks_wait bs db of Some db1 \<Rightarrow> Inr db1 | None \<Rightarrow> generate_weeks fresh (add_once [] bs) db)"

definition trigger_generate_for_activities :: "(nat \<Rightarrow> string) \<Rightarrow> string option \<Rightarrow> planned_work list \<Rightarrow> planning_db \<Rightarrow> planning_db result" where
  "trigger_generate_for_activities fresh given ws db = bindE (week_buckets given ws) (\<lambda>bs. asked_weeks fresh bs db)"

text \<open>A bucket is (owner, fiscal year, month, week) of a cost line, as it was or as it is.\<close>

type_synonym bucket = "string option \<times> string option \<times> int option \<times> date option"

definition buckets_of :: "planned_work list \<Rightarrow> planning_db \<Rightarrow> bucket list" where
  "buckets_of ws db = map (\<lambda>l. (cl_owner l, cl_fy l, cl_month l, cl_week l))
     (filter (\<lambda>l. cl_activity l \<in> set (map pw_id ws)) (cost_lines db))"

definition weeks_of :: "bucket list \<Rightarrow> owner_week list" where
  "weeks_of bs = remdups (concat (map (\<lambda>b. case b of (Some owner, _, _, Some d) \<Rightarrow> if owner = [] then [] else [(owner, d)] | _ \<Rightarrow> []) bs))"

definition months_of :: "bucket list \<Rightarrow> owner_month list" where
  "months_of bs = remdups (concat (map (\<lambda>b. case b of
     (Some owner, Some fy, Some m, _) \<Rightarrow> if owner = [] \<or> fy = [] \<or> m = 0 then [] else [(owner, fy, m)] | _ \<Rightarrow> []) bs))"

definition sync_weekly_requests_for_activities :: "(nat \<Rightarrow> string) \<Rightarrow> bucket list \<Rightarrow> planned_work list \<Rightarrow> planning_db \<Rightarrow> planning_db result" where
  "sync_weekly_requests_for_activities fresh prior ws db = asked_weeks fresh (weeks_of (prior @ buckets_of ws db)) db"

definition sync_monthly_drafts_for_activities :: "(nat \<Rightarrow> string) \<Rightarrow> bucket list \<Rightarrow> planned_work list \<Rightarrow> planning_db \<Rightarrow> planning_db result" where
  "sync_monthly_drafts_for_activities fresh prior ws db = (let ps = months_of (prior @ buckets_of ws db) in
     case months_wait ps db of Some db1 \<Rightarrow> Inr db1 | None \<Rightarrow> sync_monthly_periods fresh ps db)"

section \<open>Submitting a period\<close>

text \<open>
  \<open>in_scope\<close> is what the caller's scope lets them see and \<open>lens\<close> its name (apps/core/scoping.py);
  a period key that is given is a text.
\<close>

definition COMPANION_GONE_STATUSES :: "activity_status list" where
  "COMPANION_GONE_STATUSES = [CANCELLED, REJECTED, DEFERRED]"

definition MOVABLE_STATUSES :: "activity_status list" where
  "MOVABLE_STATUSES = [PLANNED, SCHEDULED, RESCHEDULED, ASSIGNED_TO_PARTNER, PARTNER_SCHEDULED]"

definition REPRICEABLE_PAIR_STATUSES :: "activity_status list" where
  "REPRICEABLE_PAIR_STATUSES = MOVABLE_STATUSES @ [IN_PROGRESS, COMPLETION_STARTED]"

definition uncosted_pair_training :: "planning_db \<Rightarrow> planned_work \<Rightarrow> bool" where
  "uncosted_pair_training db w \<longleftrightarrow> pw_type w = IN_SCHOOL_TRAINING \<and> (case pw_pair w of None \<Rightarrow> False
     | Some v \<Rightarrow> list_ex (\<lambda>x. pw_id x = v \<and> \<not> pw_deleted x \<and> pw_status x \<notin> set COMPANION_GONE_STATUSES) (works db))"

definition delivered_pair_training :: "planned_work \<Rightarrow> bool" where
  "delivered_pair_training w \<longleftrightarrow> pw_type w = IN_SCHOOL_TRAINING \<and> pw_pair w \<noteq> None
     \<and> pw_status w \<notin> set REPRICEABLE_PAIR_STATUSES"

definition online_training :: "planned_work \<Rightarrow> bool" where
  "online_training w \<longleftrightarrow> pw_type w \<in> set TRAINING_TYPES \<and> pw_mode w = ''online''"

text \<open>\<open>f"-{tag}(\d+)$"\<close> and \<open>-(Q[1-4])$\<close>; the end of a text is also before a last newline.\<close>

definition chomped :: "string \<Rightarrow> string" where
  "chomped s = (if s \<noteq> [] \<and> List.last s = CHR 0x0A then butlast s else s)"

definition tagged_number :: "string \<Rightarrow> string \<Rightarrow> int option" where
  "tagged_number tag s = (let r = rev (chomped s); ds = takeWhile is_digit r; rest = dropWhile is_digit r in
     if ds \<noteq> [] \<and> take (length tag) rest = rev tag then Some (int (digits_val (rev ds))) else None)"

definition tagged_quarter :: "string \<Rightarrow> string option" where
  "tagged_quarter s = (case rev (chomped s) of n # q # dash # _ \<Rightarrow>
       if dash = CHR ''-'' \<and> q = CHR ''Q'' \<and> n \<in> set ''1234'' then Some [q, n] else None
     | _ \<Rightarrow> None)"

definition period_key :: "string \<Rightarrow> fund_period \<Rightarrow> payload \<Rightarrow> string result" where
  "period_key fy period data = (let week = payload_get data ''week''; m = payload_get data ''month''; q = payload_get data ''quarter'' in
     case period of
       WEEKLY_PERIOD \<Rightarrow>
         if \<not> truthy week then Inl (BadRequest ''A weekly fund request requires an explicit week.'')
         else if truthy m then bindE (py_int m) (\<lambda>m. bindE (py_int week) (\<lambda>n.
           Inr (fy @ ''-M'' @ show_int m @ ''-W'' @ show_int n)))
         else bindE (py_int week) (\<lambda>n. Inr (fy @ ''-W'' @ show_int n))
     | MONTHLY_PERIOD \<Rightarrow>
         if \<not> truthy m then Inl (BadRequest ''A monthly fund request requires an explicit month.'')
         else bindE (py_int m) (\<lambda>m. Inr (month_key fy m))
     | QUARTERLY_PERIOD \<Rightarrow> if truthy q then Inr (fy @ ''-'' @ py_str q) else Inr fy
     | ANNUAL_PERIOD \<Rightarrow> Inr fy)"

text \<open>The number of the payload, or else of the key; zero is none.\<close>

definition number_given :: "payload \<Rightarrow> string \<Rightarrow> string \<Rightarrow> string \<Rightarrow> err \<Rightarrow> int result" where
  "number_given data field tag key e = (let v = payload_get data field in
     if truthy v then py_int v
     else case tagged_number tag key of None \<Rightarrow> Inl e | Some n \<Rightarrow> if n = 0 then Inl e else Inr n)"

definition in_period :: "fund_period \<Rightarrow> string \<Rightarrow> payload \<Rightarrow> (planned_work \<Rightarrow> bool) result" where
  "in_period period key data = (case period of
       WEEKLY_PERIOD \<Rightarrow>
         bindE (number_given data ''week'' ''-W'' key (BadRequest ''A weekly fund request requires an explicit week.'')) (\<lambda>n.
         bindE (if truthy (payload_get data ''month'') then bindE (py_int (payload_get data ''month'')) (\<lambda>m. Inr (Some m)) else Inr None) (\<lambda>m.
           Inr (\<lambda>w. (case pw_planned w of None \<Rightarrow> False | Some d \<Rightarrow> min 5 ((day d - 1) div 7 + 1) = n)
             \<and> (m = None \<or> pw_month w = m))))
     | MONTHLY_PERIOD \<Rightarrow>
         bindE (number_given data ''month'' ''-M'' key (BadRequest ''A monthly fund request requires an explicit month.'')) (\<lambda>m.
           Inr (\<lambda>w. pw_month w = Some m))
     | QUARTERLY_PERIOD \<Rightarrow> let q = payload_get data ''quarter'';
           wanted = (if truthy q then Some (py_str q) else tagged_quarter key) in
         Inr (\<lambda>w. case wanted of None \<Rightarrow> True | Some t \<Rightarrow> pw_quarter w = t)
     | ANNUAL_PERIOD \<Rightarrow> Inr (\<lambda>_. True))"

definition RESUBMITTABLE_STATUSES :: "plan_status list" where
  "RESUBMITTABLE_STATUSES = [PLAN_DRAFT, PLAN_SUBMITTED, PLAN_RETURNED, PLAN_REJECTED, PLAN_RETURNED_BY_PL,
     PLAN_RETURNED_BY_CD, PLAN_RETURNED_BY_RVP, PLAN_RETURNED_BY_ACCOUNTANT]"

definition of_submitter :: "string \<Rightarrow> fund_period \<Rightarrow> string \<Rightarrow> plan \<Rightarrow> bool" where
  "of_submitter user period key f \<longleftrightarrow> pl_owner f = user \<and> pl_period f = period \<and> pl_key f = key"

text \<open>\<open>first()\<close> of a query without an order takes the least key.\<close>

definition first_plan :: "(plan \<Rightarrow> bool) \<Rightarrow> plan list \<Rightarrow> plan option" where
  "first_plan P fs = find P (sort_key pl_id fs)"

definition period_work :: "(planned_work \<Rightarrow> bool) \<Rightarrow> string \<Rightarrow> (planned_work \<Rightarrow> bool) \<Rightarrow> planning_db \<Rightarrow> planned_work list" where
  "period_work in_scope fy wanted db = filter (\<lambda>w. \<not> pw_deleted w \<and> pw_fy w = fy \<and> in_scope w
     \<and> pw_status w \<notin> set NON_FUNDABLE_ACTIVITY_STATUSES
     \<and> \<not> (uncosted_pair_training db w \<or> delivered_pair_training w \<or> online_training w) \<and> wanted w) (works db)"

definition unpriced :: "planning_db \<Rightarrow> planned_work \<Rightarrow> bool" where
  "unpriced db w \<longleftrightarrow> pw_delivery w \<noteq> ''partner''
     \<and> (pw_cost_missing w \<or> \<not> list_ex (\<lambda>l. cl_activity l = pw_id w) (cost_lines db))"

definition store_submission :: "string \<Rightarrow> string \<Rightarrow> string \<Rightarrow> fund_period \<Rightarrow> string \<Rightarrow> budget_line list \<Rightarrow> planning_db \<Rightarrow> planning_db result" where
  "store_submission i lens user period key ls db =
     (let fs = plans (ledger db); amount = sum_list (map cl_amount ls); existing = first_plan (of_submitter user period key) fs in
      bindE (ensure (case existing of None \<Rightarrow> True | Some f \<Rightarrow> pl_status f \<in> set RESUBMITTABLE_STATUSES)
        (BadRequest (''A '' @ period_text period @ '' request for '' @ key @ '' already exists in status '' @ [CHR 0x27]
          @ (case existing of None \<Rightarrow> [] | Some f \<Rightarrow> plan_status_text (pl_status f)) @ [CHR 0x27]
          @ '' - it can no longer be re-submitted. Ask the approver to return it first if changes are needed.''))) (\<lambda>_.
      bindE (plan_accepted key amount (plan_items ls)) (\<lambda>_.
        case find (\<lambda>f. of_submitter user period key f \<and> pl_scope f = lens) fs of
          None \<Rightarrow> Inr (with_plans (fs @ [new_plan i period key lens user amount PLAN_SUBMITTED (plan_items ls)]) db)
        | Some f \<Rightarrow> Inr (with_plans (update_where (\<lambda>x. pl_id x = pl_id f)
            (\<lambda>_. f\<lparr>pl_total := amount, pl_status := PLAN_SUBMITTED, pl_items := plan_items ls\<rparr>) fs) db))))"

definition submit_request :: "string \<Rightarrow> date \<Rightarrow> (planned_work \<Rightarrow> bool) \<Rightarrow> string \<Rightarrow> bool \<Rightarrow> fund_period \<Rightarrow> payload \<Rightarrow> fund_principal
    \<Rightarrow> planning_db \<Rightarrow> planning_db result" where
  "submit_request i today in_scope lens strict period data p db =
     (let fy = (if truthy (payload_get data ''fy'') then py_str (payload_get data ''fy'') else show_int (get_operational_fy today)) in
      bindE (if truthy (payload_get data ''periodKey'') then Inr (py_str (payload_get data ''periodKey'')) else period_key fy period data) (\<lambda>key.
      bindE (in_period period key data) (\<lambda>wanted.
      let found = period_work in_scope fy wanted db; bad = filter (unpriced db) found in
      bindE (ensure (bad = [] \<or> \<not> strict) (BadRequest (''Cannot submit - '' @ show_nat (length bad)
        @ '' activity(ies) are missing a cost rate or budget lines.''))) (\<lambda>_.
        store_submission i lens (fp_user p) period key
          (filter (\<lambda>l. list_ex (\<lambda>w. pw_id w = cl_activity l \<and> w \<notin> set bad) found \<and> fundable_line db l) (cost_lines db)) db))))"

end
