(* ===== verification/FundSyncing.thy ===== *)
theory FundSyncing
  imports FundPlanning FundShares
begin

text \<open>
  What the planning does to the ledger: an advance is opened for every line staff money may
  pay, refreshed while its owner holds it and dropped with its line, unless it is past
  cancellation. Where it drops nothing but untouched advances it is a planning step of the
  reachable databases.
\<close>

section \<open>Refreshing\<close>

definition refreshes :: "advance \<Rightarrow> advance \<Rightarrow> bool" where
  "refreshes a b \<longleftrightarrow> b = a \<or> (ad_status a \<in> set OWNER_HELD_ADVANCES \<and> 0 \<le> ad_amount b
     \<and> b = a\<lparr>ad_amount := ad_amount b, ad_owner := ad_owner b\<rparr>)"

lemma refreshes_refl [simp]: "refreshes a a"
  by (simp add: refreshes_def)

lemma refreshes_facts:
  assumes "refreshes a b"
  shows "ad_id b = ad_id a" "ad_line b = ad_line a" "ad_status b = ad_status a" "ad_activity b = ad_activity a"
  using assms by (auto simp: refreshes_def elim!: ssubst)

lemma refreshes_trans: "refreshes a b \<Longrightarrow> refreshes b c \<Longrightarrow> refreshes a c"
proof (cases "b = a \<or> c = b")
  case False
  assume ab: "refreshes a b" and bc: "refreshes b c"
  with False have b: "ad_status a \<in> set OWNER_HELD_ADVANCES" "b = a\<lparr>ad_amount := ad_amount b, ad_owner := ad_owner b\<rparr>"
    and c: "0 \<le> ad_amount c" "c = b\<lparr>ad_amount := ad_amount c, ad_owner := ad_owner c\<rparr>" by (auto simp: refreshes_def)
  have "c = a\<lparr>ad_amount := ad_amount c, ad_owner := ad_owner c\<rparr>" by (subst c(2), subst b(2)) simp
  with b(1) c(1) show ?thesis by (simp add: refreshes_def)
qed auto

lemma refreshed_rel:
  assumes "save_advance (refreshed w l owner a) db = Inr db1" "ad_status a \<in> set OWNER_HELD_ADVANCES"
  shows "refreshes a (refreshed w l owner a)"
  using assms by (auto simp: save_advance_def advance_refused_def bindE_eq_Inr refreshes_def refreshed_def)

definition same_tables :: "fund_db \<Rightarrow> fund_db \<Rightarrow> bool" where
  "same_tables db db' \<longleftrightarrow> db' = db\<lparr>advances := advances db'\<rparr>"

lemma same_tables_trans: "same_tables a b \<Longrightarrow> same_tables b c \<Longrightarrow> same_tables a c"
  by (cases a, cases b, cases c) (simp add: same_tables_def)

lemma save_refreshes:
  assumes "save_advance b db = Inr db1" "unique_advances db" "a \<in> set (advances db)" "refreshes a b"
  shows "list_all2 refreshes (advances db) (advances db1)" "same_tables db db1"
proof -
  have db1: "db1 = put_advance b db" using save_advance_Inr[OF assms(1)] by simp
  have "x = a" if "x \<in> set (advances db)" "ad_id x = ad_id b" for x
    using that assms(2,3) refreshes_facts(1)[OF assms(4)] by (auto simp: unique_advances_def distinct_map inj_on_def)
  with assms(4) have "refreshes x (if ad_id x = ad_id b then b else x)" if "x \<in> set (advances db)" for x using that by auto
  then show "list_all2 refreshes (advances db) (advances db1)"
    by (auto simp: db1 put_advance_def update_where_def list_all2_conv_all_nth)
  show "same_tables db db1" by (simp add: db1 same_tables_def put_advance_def)
qed

lemma refreshes_ids: "list_all2 refreshes xs ys \<Longrightarrow> map ad_id ys = map ad_id xs \<and> map ad_line ys = map ad_line xs
    \<and> map ad_status ys = map ad_status xs \<and> map ad_activity ys = map ad_activity xs"
  by (induction rule: list_all2_induct) (auto simp: refreshes_facts)

lemma refresh_lines_rel:
  "refresh_lines given ps db = Inr db' \<Longrightarrow> unique_advances db \<Longrightarrow> list_all2 refreshes (advances db) (advances db') \<and> same_tables db db'"
proof (induction ps arbitrary: db)
  case Nil
  then show ?case by (simp add: list.rel_refl same_tables_def)
next
  case (Cons q ps)
  obtain w l where q: "q = (w, l)" by fastforce
  show ?case
  proof (cases "find (\<lambda>a. ad_line a = cl_id l) (advances db)")
    case None
    with Cons show ?thesis by (simp add: q)
  next
    case (Some a)
    note row = find_Some_set[OF Some]
    show ?thesis
    proof (cases "ad_status a \<in> set OWNER_HELD_ADVANCES")
      case True
      with Cons.prems(1) Some obtain db1 where s: "save_advance (refreshed w l (or_else given (pw_owner w)) a) db = Inr db1"
        and rest: "refresh_lines given ps db1 = Inr db'" by (auto simp: q bindE_eq_Inr)
      note one = save_refreshes[OF s Cons.prems(2) conjunct1[OF row] refreshed_rel[OF s True]]
      have "unique_advances db1" using Cons.prems(2) refreshes_ids[OF one(1)] by (simp add: unique_advances_def)
      from Cons.IH[OF rest this] one show ?thesis
        by (auto intro: list_all2_trans[of refreshes refreshes refreshes, OF refreshes_trans] same_tables_trans)
    next
      case False
      with Cons Some show ?thesis by (simp add: q)
    qed
  qed
qed

text \<open>A refreshed advance has the amount of its line, whoever else was refreshed before or after.\<close>

definition held_amount :: "string \<Rightarrow> fund_db \<Rightarrow> int option" where
  "held_amount l db = (case find (\<lambda>a. ad_line a = l) (advances db) of None \<Rightarrow> None
     | Some a \<Rightarrow> if ad_status a \<in> set OWNER_HELD_ADVANCES then Some (ad_amount a) else None)"

lemma refresh_lines_amounts:
  assumes "refresh_lines given ps db = Inr db'" "unique_advances db" "distinct (map (cl_id \<circ> snd) ps)"
  shows "(\<forall>(w, l) \<in> set ps. held_amount (cl_id l) db \<noteq> None \<longrightarrow> held_amount (cl_id l) db' = Some (cl_amount l))
    \<and> (\<forall>k. k \<notin> set (map (cl_id \<circ> snd) ps) \<longrightarrow> held_amount k db' = held_amount k db)"
  using assms
proof (induction ps arbitrary: db)
  case (Cons q ps)
  obtain w l where q: "q = (w, l)" by fastforce
  show ?case
  proof (cases "\<exists>a. find (\<lambda>a. ad_line a = cl_id l) (advances db) = Some a \<and> ad_status a \<in> set OWNER_HELD_ADVANCES")
    case False
    with Cons.prems(1) have rest: "refresh_lines given ps db = Inr db'" by (auto simp: q split: option.splits)
    have "held_amount (cl_id l) db = None" using False by (auto simp: held_amount_def split: option.splits)
    with Cons.IH[OF rest Cons.prems(2)] Cons.prems(3) show ?thesis by (auto simp: q)
  next
    case True
    then obtain a where a: "find (\<lambda>a. ad_line a = cl_id l) (advances db) = Some a" "ad_status a \<in> set OWNER_HELD_ADVANCES" by blast
    let ?b = "refreshed w l (or_else given (pw_owner w)) a"
    from Cons.prems(1) a obtain db1 where s: "save_advance ?b db = Inr db1" and rest: "refresh_lines given ps db1 = Inr db'"
      by (auto simp: q bindE_eq_Inr)
    note row = find_Some_set[OF a(1)]
    note one = save_refreshes[OF s Cons.prems(2) conjunct1[OF row] refreshed_rel[OF s a(2)]]
    have unique: "unique_advances db1" using Cons.prems(2) refreshes_ids[OF one(1)] by (simp add: unique_advances_def)
    have found: "find (\<lambda>x. ad_line x = k) (advances db1) = map_option (\<lambda>x. if ad_id x = ad_id a then ?b else x) (find (\<lambda>x. ad_line x = k) (advances db))" for k
      using find_saved[OF Cons.prems(2) conjunct1[OF row], of ?b k] save_advance_Inr[OF s] by (simp add: refreshed_def)
    have here: "held_amount (cl_id l) db1 = Some (cl_amount l)" using found[of "cl_id l"] a by (simp add: held_amount_def refreshed_def)
    have other: "held_amount k db1 = held_amount k db" if "k \<noteq> cl_id l" for k
    proof (cases "find (\<lambda>x. ad_line x = k) (advances db)")
      case (Some x)
      with find_Some_set[OF Some] row that Cons.prems(2) have "ad_id x \<noteq> ad_id a"
        by (auto simp: unique_advances_def distinct_map inj_on_def)
      with found[of k] Some show ?thesis by (simp add: held_amount_def)
    qed (use found[of k] in \<open>simp add: held_amount_def\<close>)
    from Cons.prems(3) have d: "cl_id l \<notin> set (map (cl_id \<circ> snd) ps)" "distinct (map (cl_id \<circ> snd) ps)" by (simp_all add: q comp_def)
    note ih = Cons.IH[OF rest unique d(2)]
    have "held_amount (cl_id l) db' = Some (cl_amount l)" using ih here d(1) by simp
    moreover have "held_amount (cl_id l') db' = Some (cl_amount l')" if "(w', l') \<in> set ps" "held_amount (cl_id l') db \<noteq> None" for w' l'
    proof -
      have "cl_id l' \<noteq> cl_id l" using that(1) d(1) by force
      then show ?thesis using that ih other by force
    qed
    moreover have "held_amount k db' = held_amount k db" if "k \<notin> set (map (cl_id \<circ> snd) (q # ps))" for k
      using that ih other by (simp add: q)
    ultimately show ?thesis by (auto simp: q)
  qed
qed simp

section \<open>Opening and dropping\<close>

lemma open_lines_Inr:
  assumes "open_lines fresh given ps db = Inr db'"
  shows "\<exists>rows. advances db' = advances db @ rows \<and> same_tables db db' \<and> map ad_line rows = map (cl_id \<circ> snd) ps
    \<and> map ad_id rows = map fresh [0..<length ps] \<and> distinct (map ad_line (advances db'))
    \<and> list_all (\<lambda>a. unpaid a \<and> advance_ok a \<and> 0 \<le> ad_amount a \<and> ad_status a = PENDING_CONFIRMATION) rows
    \<and> list_all2 (\<lambda>(w, l) a. ad_activity a = pw_id w \<and> ad_amount a = cl_amount l) ps rows"
proof -
  let ?open = "\<lambda>(n, (w, l)). opened (fresh n) w l (or_else given (pw_owner w))"
  let ?rows = "map ?open (enumerate 0 ps)"
  have line: "ad_line (?open x) = cl_id (snd (snd x))" "ad_id (?open x) = fresh (fst x)" for x
    by (auto simp: opened_def split: prod.splits)
  have "map ad_line ?rows = map (cl_id \<circ> snd) (map snd (enumerate 0 ps))" by (simp add: line comp_def del: map_snd_enumerate)
  then have lines: "map ad_line ?rows = map (cl_id \<circ> snd) ps" by simp
  have "map ad_id ?rows = map fresh (map fst (enumerate 0 ps))" by (simp add: line comp_def del: map_fst_enumerate)
  then have ids: "map ad_id ?rows = map fresh [0..<length ps]" by simp
  have two: "list_all2 (\<lambda>(w, l) a. ad_activity a = pw_id w \<and> ad_amount a = cl_amount l) ps ?rows"
    by (auto simp: list_all2_conv_all_nth nth_enumerate_eq opened_def split: prod.splits)
  have new: "unpaid a \<and> advance_ok a \<and> ad_status a = PENDING_CONFIRMATION" if "a \<in> set ?rows" for a
    using that by (auto simp: opened_def unpaid_def advance_ok_def MONEY_MOVED_ADVANCE_STATUSES_def)
  from assms have "advances db' = advances db @ ?rows" "same_tables db db'" "distinct (map ad_line (advances db'))"
    "list_all (\<lambda>a. 0 \<le> ad_amount a) ?rows"
    by (auto simp: open_lines_def create_advances_def bindE_eq_Inr same_tables_def)
  with lines ids two new show ?thesis by (intro exI[of _ ?rows]) (auto simp: list_all_iff)
qed

lemma drop_advances_rows:
  "advances (drop_advances P db) = filter (\<lambda>a. \<not> (P a \<and> ad_status a \<notin> set PAST_CANCELLATION)) (advances db)"
  "same_tables db (drop_advances P db)"
  by (simp_all add: drop_advances_def same_tables_def)

lemma unique_filter: "unique_advances db \<Longrightarrow> advances db' = filter P (advances db) \<Longrightarrow> unique_advances db'"
  by (simp add: unique_advances_def distinct_map_filter)

text \<open>What a sync keeps, and what it leaves: the kept rows refreshed, and the rows it opened.\<close>

abbreviation staff_work :: "planned_work list \<Rightarrow> planned_work list" where
  "staff_work ws \<equiv> filter (\<lambda>w. pw_delivery w \<noteq> ''partner'') ws"

definition sync_kept :: "planned_work list \<Rightarrow> planning_db \<Rightarrow> advance \<Rightarrow> bool" where
  "sync_kept ws db a \<longleftrightarrow> ad_status a \<in> set PAST_CANCELLATION \<or> ad_activity a \<notin> set (map pw_id ws)
     \<or> ad_activity a \<notin> set (map pw_id (filter (\<lambda>w. pw_delivery w = ''partner'') ws))
       \<and> ad_line a \<in> set (map (cl_id \<circ> snd) (staff_lines (staff_work ws) db))"

definition opened_row :: "advance \<Rightarrow> bool" where
  "opened_row a \<longleftrightarrow> unpaid a \<and> advance_ok a \<and> 0 \<le> ad_amount a \<and> ad_status a = PENDING_CONFIRMATION"

lemma ids_of_work: "set (map pw_id ws) = set (map pw_id (staff_work ws)) \<union> set (map pw_id (filter (\<lambda>w. pw_delivery w = ''partner'') ws))"
  by auto

lemma sync_dropped:
  "advances (drop_advances (\<lambda>a. ad_activity a \<in> set (map pw_id (staff_work ws)) \<and> ad_line a \<notin> set (map (cl_id \<circ> snd) (staff_lines (staff_work ws) db)))
     (drop_advances (\<lambda>a. ad_activity a \<in> set (map pw_id (filter (\<lambda>w. pw_delivery w = ''partner'') ws))) (ledger db)))
   = filter (sync_kept ws db) (advances (ledger db))"
  unfolding drop_advances_rows filter_filter
  by (intro filter_cong refl) (unfold sync_kept_def ids_of_work[of ws], blast)

lemma sync_rows:
  assumes "sync_for_activities fresh False given ws db = Inr db'" "unique_advances (ledger db)"
  shows "\<exists>mid rows. db' = db\<lparr>ledger := ledger db'\<rparr> \<and> same_tables (ledger db) (ledger db')
    \<and> list_all2 refreshes (filter (sync_kept ws db) (advances (ledger db))) mid \<and> advances (ledger db') = mid @ rows
    \<and> (rows = [] \<or> distinct (map ad_line (mid @ rows))) \<and> map ad_id rows = map fresh [0..<length rows]
    \<and> set (map ad_line rows) \<subseteq> set (map (cl_id \<circ> snd) (staff_lines (staff_work ws) db)) \<and> list_all opened_row rows"
proof -
  let ?ps = "staff_lines (staff_work ws) db"
  let ?db1 = "drop_advances (\<lambda>a. ad_activity a \<in> set (map pw_id (filter (\<lambda>w. pw_delivery w = ''partner'') ws))) (ledger db)"
  let ?db2 = "drop_advances (\<lambda>a. ad_activity a \<in> set (map pw_id (staff_work ws)) \<and> ad_line a \<notin> set (map (cl_id \<circ> snd) ?ps)) ?db1"
  have rows2: "advances ?db2 = filter (sync_kept ws db) (advances (ledger db))" by (rule sync_dropped)
  have tables2: "same_tables (ledger db) ?db2" using same_tables_trans[OF drop_advances_rows(2) drop_advances_rows(2)] .
  show ?thesis
  proof (cases "staff_work ws = []")
    case True
    have "?db2 = ?db1" unfolding True by (simp add: drop_advances_def)
    with assms(1) True rows2 tables2 show ?thesis
      by (intro exI[of _ "filter (sync_kept ws db) (advances (ledger db))"] exI[of _ "[]"])
        (auto simp: sync_for_activities_def Let_def list.rel_refl)
  next
    case False
    from assms(1) False obtain db3 missing db4 where refresh: "refresh_lines given ?ps ?db2 = Inr db3"
      and missing: "missing = filter (\<lambda>(w, l). \<not> list_ex (\<lambda>a. ad_line a = cl_id l) (advances ?db2)) ?ps"
      and "open": "open_lines fresh given missing db3 = Inr db4" and db': "db' = db\<lparr>ledger := db4\<rparr>"
      by (auto simp: sync_for_activities_def Let_def bindE_eq_Inr)
    have "unique_advances ?db2" using rows2 assms(2) by (rule unique_filter[rotated])
    note mid = refresh_lines_rel[OF refresh this]
    from open_lines_Inr[OF "open"] obtain rows where rows: "advances db4 = advances db3 @ rows" "same_tables db3 db4"
      "map ad_line rows = map (cl_id \<circ> snd) missing" "map ad_id rows = map fresh [0..<length missing]"
      "distinct (map ad_line (advances db4))" "list_all opened_row rows"
      unfolding opened_row_def by blast
    have len: "length rows = length missing" using arg_cong[OF rows(3), of length] by simp
    have sub: "set (map ad_line rows) \<subseteq> set (map (cl_id \<circ> snd) ?ps)" unfolding rows(3) missing by auto
    show ?thesis
    proof (rule exI[of _ "advances db3"], rule exI[of _ rows], intro conjI)
      show "db' = db\<lparr>ledger := ledger db'\<rparr>" by (simp add: db')
      show "same_tables (ledger db) (ledger db')"
        using same_tables_trans[OF tables2 same_tables_trans[OF conjunct2[OF mid] rows(2)]] by (simp add: db')
      show "list_all2 refreshes (filter (sync_kept ws db) (advances (ledger db))) (advances db3)"
        using conjunct1[OF mid] by (simp only: rows2)
      show "advances (ledger db') = advances db3 @ rows" using rows(1) by (simp add: db')
      show "rows = [] \<or> distinct (map ad_line (advances db3 @ rows))" using rows(1,5) by simp
      show "map ad_id rows = map fresh [0..<length rows]" using rows(4) len by simp
      show "set (map ad_line rows) \<subseteq> set (map (cl_id \<circ> snd) ?ps)" by (rule sub)
      show "list_all opened_row rows" by (rule rows(6))
    qed
  qed
qed

text \<open>Every line staff money may pay has an advance, and its amount while the owner holds it.\<close>

lemma find_refreshed:
  "list_all2 refreshes xs ys \<Longrightarrow> case find (\<lambda>a. ad_line a = l) xs of None \<Rightarrow> find (\<lambda>a. ad_line a = l) ys = None
     | Some a \<Rightarrow> \<exists>b. find (\<lambda>a. ad_line a = l) ys = Some b \<and> refreshes a b"
proof (induction rule: list_all2_induct)
  case (Cons x xs y ys)
  then show ?case by (cases "ad_line x = l") (auto simp: refreshes_facts split: option.splits)
qed simp

lemma sync_covers:
  assumes "sync_for_activities fresh False given ws db = Inr db'" "unique_advances (ledger db)"
    "(w, l) \<in> set (staff_lines (staff_work ws) db)" "distinct (map (cl_id \<circ> snd) (staff_lines (staff_work ws) db))"
  shows "\<exists>a. find (\<lambda>a. ad_line a = cl_id l) (advances (ledger db')) = Some a
    \<and> (ad_status a \<in> set OWNER_HELD_ADVANCES \<longrightarrow> ad_amount a = cl_amount l)"
proof -
  let ?ps = "staff_lines (staff_work ws) db"
  let ?db1 = "drop_advances (\<lambda>a. ad_activity a \<in> set (map pw_id (filter (\<lambda>w. pw_delivery w = ''partner'') ws))) (ledger db)"
  let ?db2 = "drop_advances (\<lambda>a. ad_activity a \<in> set (map pw_id (staff_work ws)) \<and> ad_line a \<notin> set (map (cl_id \<circ> snd) ?ps)) ?db1"
  have "staff_work ws \<noteq> []"
  proof
    assume "staff_work ws = []"
    then have "?ps = []" by (simp only: staff_lines_def list.map concat.simps)
    with assms(3) show False by simp
  qed
  with assms(1) obtain db3 missing db4 where refresh: "refresh_lines given ?ps ?db2 = Inr db3"
    and missing: "missing = filter (\<lambda>(w, l). \<not> list_ex (\<lambda>a. ad_line a = cl_id l) (advances ?db2)) ?ps"
    and "open": "open_lines fresh given missing db3 = Inr db4" and db': "db' = db\<lparr>ledger := db4\<rparr>"
    by (auto simp: sync_for_activities_def Let_def bindE_eq_Inr)
  have unique: "unique_advances ?db2" using sync_dropped assms(2) by (rule unique_filter[rotated])
  note mid = refresh_lines_rel[OF refresh unique]
  note amounts = refresh_lines_amounts[OF refresh unique assms(4)]
  from open_lines_Inr[OF "open"] obtain rows where rows: "advances db4 = advances db3 @ rows" "map ad_line rows = map (cl_id \<circ> snd) missing"
    "list_all2 (\<lambda>(w, l) a. ad_activity a = pw_id w \<and> ad_amount a = cl_amount l) missing rows" by blast
  show ?thesis
  proof (cases "find (\<lambda>a. ad_line a = cl_id l) (advances db3)")
    case (Some b)
    then have "find (\<lambda>a. ad_line a = cl_id l) (advances db4) = Some b" by (simp add: rows(1) find_append)
    moreover have "ad_amount b = cl_amount l" if "ad_status b \<in> set OWNER_HELD_ADVANCES"
    proof -
      have "held_amount (cl_id l) db3 \<noteq> None" using Some that by (simp add: held_amount_def)
      then have "held_amount (cl_id l) ?db2 \<noteq> None"
        using find_refreshed[OF conjunct1[OF mid], of "cl_id l"] Some that by (auto simp: held_amount_def refreshes_facts split: option.splits)
      with amounts assms(3) have "held_amount (cl_id l) db3 = Some (cl_amount l)" by blast
      with Some that show ?thesis by (simp add: held_amount_def)
    qed
    ultimately show ?thesis by (simp add: db')
  next
    case None
    then have none: "find (\<lambda>a. ad_line a = cl_id l) (advances ?db2) = None"
      using find_refreshed[OF conjunct1[OF mid], of "cl_id l"] by (auto split: option.splits)
    then have "(w, l) \<in> set missing" using assms(3) by (auto simp: missing find_None_iff list_ex_iff)
    then have "cl_id l \<in> set (map ad_line rows)" unfolding rows(2) by force
    then obtain a where a: "find (\<lambda>a. ad_line a = cl_id l) rows = Some a"
      by (cases "find (\<lambda>a. ad_line a = cl_id l) rows") (auto simp: find_None_iff)
    have "ad_amount a = cl_amount l"
    proof -
      from find_Some_set[OF a] obtain j where j: "j < length rows" "rows ! j = a" "ad_line a = cl_id l" by (auto simp: in_set_conv_nth)
      obtain w' l' where m: "missing ! j = (w', l')" by fastforce
      have len: "length missing = length rows" using list_all2_lengthD[OF rows(3)] .
      have "cl_id l' = cl_id l" using arg_cong[OF rows(2), of "\<lambda>xs. xs ! j"] j m len by simp
      moreover have "(w', l') \<in> set ?ps" using nth_mem[of j missing] j(1) len m by (auto simp: missing)
      ultimately have "(w', l') = (w, l)" using assms(3,4) by (auto simp: distinct_map dest!: inj_onD[of _ _ "(w', l')" "(w, l)"])
      then show ?thesis using list_all2_nthD2[OF rows(3) j(1)] j(2) m by simp
    qed
    moreover have "find (\<lambda>a. ad_line a = cl_id l) (advances db4) = Some a" using None a by (simp add: rows(1) find_append)
    ultimately show ?thesis by (simp add: db')
  qed
qed

end
