(* ===== verification/FundGenerating.thy ===== *)
theory FundGenerating
  imports FundSyncing
begin

text \<open>
  The requests the planning generates: a week and a month are rebuilt from the cost lines as
  they stand while they are in their owner's hands and left alone after. Every operation of
  the planning is a planning step of the reachable fund databases.
\<close>

section \<open>A generated week\<close>

definition sound_lines :: "planning_db \<Rightarrow> bool" where
  "sound_lines db \<longleftrightarrow> distinct (map cl_id (cost_lines db)) \<and> list_all (\<lambda>l. cl_id l \<noteq> [] \<and> 0 \<le> cl_amount l) (cost_lines db)"

definition week_keys :: "planning_db \<Rightarrow> bool" where
  "week_keys db \<longleftrightarrow> distinct (map wk_id (weeklies (ledger db))) \<and> distinct (map (\<lambda>r. (wk_owner r, wk_start r)) (weeklies (ledger db)))"

text \<open>The generation by cases: nothing happens, a request is created, rebuilt or removed.\<close>

lemma generate_cases [consumes 1, case_names unchanged created removed rebuilt]:
  assumes "generate_weekly_fund_request i owner d db = Inr db'"
  obtains first until where "monday_of d = Inr first" "py_add_days first 6 = Inr until" "db' = db"
      "case find (of_owner_week owner first) (weeklies (ledger db)) of None \<Rightarrow> lines_of_week owner first until db = []
       | Some r \<Rightarrow> wk_status r \<notin> set REBUILDABLE_WEEKLY_STATUSES"
  | first until where "monday_of d = Inr first" "py_add_days first 6 = Inr until" "find (of_owner_week owner first) (weeklies (ledger db)) = None"
      "lines_of_week owner first until db \<noteq> []" "0 \<le> sum_list (map cl_amount (lines_of_week owner first until db))"
      "db' = with_weeklies (weeklies (ledger db) @ [new_week i owner first until (sum_list (map cl_amount (lines_of_week owner first until db)))
         (request_lines (lines_of_week owner first until db))]) db"
  | first until r where "monday_of d = Inr first" "py_add_days first 6 = Inr until" "find (of_owner_week owner first) (weeklies (ledger db)) = Some r"
      "wk_status r \<in> set REBUILDABLE_WEEKLY_STATUSES" "lines_of_week owner first until db = []"
      "db' = with_weeklies (filter (\<lambda>x. wk_id x \<noteq> wk_id r) (weeklies (ledger db))) db"
  | first until r where "monday_of d = Inr first" "py_add_days first 6 = Inr until" "find (of_owner_week owner first) (weeklies (ledger db)) = Some r"
      "wk_status r \<in> set REBUILDABLE_WEEKLY_STATUSES" "lines_of_week owner first until db \<noteq> []"
      "0 \<le> sum_list (map cl_amount (lines_of_week owner first until db))"
      "db' = with_weeklies (update_where (\<lambda>x. wk_id x = wk_id r)
         (\<lambda>_. r\<lparr>wk_total := sum_list (map cl_amount (lines_of_week owner first until db)),
           wk_lines := request_lines (lines_of_week owner first until db)\<rparr>) (weeklies (ledger db))) db"
proof -
  from assms obtain first until where days: "monday_of d = Inr first" "py_add_days first 6 = Inr until"
    by (auto simp: generate_weekly_fund_request_def bindE_eq_Inr)
  let ?ls = "lines_of_week owner first until db"
  show thesis
  proof (cases "find (of_owner_week owner first) (weeklies (ledger db))")
    case None
    show thesis
    proof (cases "?ls = []")
      case True
      with assms days None show thesis by (intro that(1)[OF days]) (simp_all add: generate_weekly_fund_request_def Let_def bindE_eq_Inr)
    next
      case False
      with assms days None show thesis
        by (intro that(2)[OF days None False]) (auto simp: generate_weekly_fund_request_def Let_def bindE_eq_Inr)
    qed
  next
    case (Some r)
    show thesis
    proof (cases "wk_status r \<in> set REBUILDABLE_WEEKLY_STATUSES")
      case False
      with assms days Some show thesis by (intro that(1)[OF days]) (simp_all add: generate_weekly_fund_request_def Let_def bindE_eq_Inr)
    next
      case status: True
      show thesis
      proof (cases "?ls = []")
        case True
        with assms days Some status show thesis
          by (intro that(3)[OF days Some status True]) (simp add: generate_weekly_fund_request_def Let_def bindE_eq_Inr)
      next
        case False
        with assms days Some status show thesis
          by (intro that(4)[OF days Some status False]) (auto simp: generate_weekly_fund_request_def Let_def bindE_eq_Inr)
      qed
    qed
  qed
qed

lemma with_weeklies_simps [simp]:
  "ledger (with_weeklies ws db) = (ledger db)\<lparr>weeklies := ws\<rparr>" "cost_lines (with_weeklies ws db) = cost_lines db"
  "works (with_weeklies ws db) = works db" "waiting (with_weeklies ws db) = waiting db"
  by (simp_all add: with_weeklies_def)

lemma with_plans_simps [simp]:
  "ledger (with_plans fs db) = (ledger db)\<lparr>plans := fs\<rparr>" "cost_lines (with_plans fs db) = cost_lines db"
  "works (with_plans fs db) = works db" "waiting (with_plans fs db) = waiting db"
  by (simp_all add: with_plans_def)

text \<open>Neither the lines nor what staff money may pay depend on the requests.\<close>

lemma fundable_cong:
  assumes "works db' = works db" "advances (ledger db') = advances (ledger db)"
  shows "fundable_line db' = fundable_line db"
proof -
  have "work_of l db' = work_of l db" "opted_out l db' = opted_out l db" for l
    using assms by (simp_all add: work_of_def opted_out_def)
  then show ?thesis by (intro ext) (simp add: fundable_line_def split: option.split)
qed

lemma lines_of_week_cong:
  assumes "works db' = works db" "advances (ledger db') = advances (ledger db)" "cost_lines db' = cost_lines db"
  shows "lines_of_week owner first until db' = lines_of_week owner first until db"
  using fundable_cong[OF assms(1,2)] assms(3) by (simp add: lines_of_week_def)

lemma lines_of_week_sound: "sound_lines db \<Longrightarrow> distinct (map wl_line (request_lines (lines_of_week owner first until db)))"
  by (simp add: sound_lines_def lines_of_week_def request_lines_def comp_def distinct_map_filter)

section \<open>Planning steps\<close>

definition fresh_ids :: "(nat \<Rightarrow> string) \<Rightarrow> string list \<Rightarrow> bool" where
  "fresh_ids fresh used \<longleftrightarrow> inj fresh \<and> range fresh \<inter> set used = {}"

lemma refreshes_ok: "refreshes a b \<Longrightarrow> advance_ok a \<Longrightarrow> b = a \<or> unpaid b \<and> advance_ok b \<and> 0 \<le> ad_amount b"
  unfolding refreshes_def OWNER_HELD_ADVANCES_def
  by (elim disjE conjE; (erule ssubst)?) (auto simp: advance_ok_def unpaid_def MONEY_MOVED_ADVANCE_STATUSES_def)

lemma refreshes_paid: "refreshes a b \<Longrightarrow> \<not> unpaid a \<Longrightarrow> b = a"
  by (auto simp: refreshes_def unpaid_def OWNER_HELD_ADVANCES_def MONEY_MOVED_ADVANCE_STATUSES_def)

lemma refreshed_member: "list_all2 refreshes xs ys \<Longrightarrow> b \<in> set ys \<Longrightarrow> \<exists>a \<in> set xs. refreshes a b"
  by (induction rule: list_all2_induct) auto

lemma member_refreshed: "list_all2 refreshes xs ys \<Longrightarrow> a \<in> set xs \<Longrightarrow> \<exists>b \<in> set ys. refreshes a b"
  by (induction rule: list_all2_induct) auto

lemma sync_replanned:
  assumes "sync_for_activities fresh False given ws db = Inr db'" "fund_inv (ledger db)" "sound_lines db"
    "fresh_ids fresh (map ad_id (advances (ledger db)))" "list_all (\<lambda>a. unpaid a \<or> sync_kept ws db a) (advances (ledger db))"
  shows "replanned (ledger db) (ledger db')"
proof -
  have inv: "unique_advances (ledger db)" "distinct (map ad_line (advances (ledger db)))" "list_all advance_ok (advances (ledger db))"
    "list_all (\<lambda>a. 0 \<le> ad_amount a \<and> ad_line a \<noteq> []) (advances (ledger db))"
    "list_all (\<lambda>r. distinct (map wl_line (wk_lines r))) (weeklies (ledger db))"
    using assms(2) by (auto simp: fund_inv_def sound_rows_def fund_tables_def)
  let ?kept = "filter (sync_kept ws db) (advances (ledger db))"
  from sync_rows[OF assms(1) inv(1)] obtain mid rows where tables: "same_tables (ledger db) (ledger db')"
    and mid: "list_all2 refreshes ?kept mid" and new: "advances (ledger db') = mid @ rows"
    and lines: "rows = [] \<or> distinct (map ad_line (mid @ rows))" and ids: "map ad_id rows = map fresh [0..<length rows]"
    and sub: "set (map ad_line rows) \<subseteq> set (map (cl_id \<circ> snd) (staff_lines (staff_work ws) db))" and rows: "list_all opened_row rows"
    by blast
  note same = refreshes_ids[OF mid]
  have midrow: "(b \<in> set (advances (ledger db)) \<or> unpaid b \<and> advance_ok b) \<and> 0 \<le> ad_amount b \<and> ad_line b \<noteq> []" if "b \<in> set mid" for b
  proof -
    from refreshed_member[OF mid that] obtain a where a: "a \<in> set ?kept" "refreshes a b" by blast
    with inv(3,4) have "advance_ok a" "0 \<le> ad_amount a" "ad_line a \<noteq> []" by (auto simp: list_all_iff)
    with refreshes_ok[OF a(2)] refreshes_facts(2)[OF a(2)] a(1) show ?thesis by auto
  qed
  have lines_ne: "ad_line b \<noteq> []" if "b \<in> set rows" for b
  proof -
    have "ad_line b \<in> set (map cl_id (cost_lines db))" using sub that by (auto simp: staff_lines_def)
    with assms(3) show ?thesis by (auto simp: sound_lines_def list_all_iff)
  qed
  have "distinct (map ad_id (mid @ rows))"
  proof -
    have "distinct (map ad_id mid)" using same inv(1) by (simp add: unique_advances_def distinct_map_filter)
    moreover have "distinct (map ad_id rows)" using ids assms(4) by (auto simp: fresh_ids_def distinct_map intro: inj_on_subset)
    moreover have "set (map ad_id mid) \<inter> set (map ad_id rows) = {}"
    proof -
      have "set (map ad_id mid) \<subseteq> set (map ad_id (advances (ledger db)))" using same by auto
      moreover have "set (map ad_id rows) \<subseteq> range fresh" unfolding ids by auto
      ultimately show ?thesis using assms(4) by (auto simp: fresh_ids_def)
    qed
    ultimately show ?thesis by simp
  qed
  moreover have "distinct (map ad_line (mid @ rows))"
    using lines same inv(2) by (auto simp: distinct_map_filter)
  moreover have "weeklies (ledger db') = weeklies (ledger db)" using tables by (metis same_tables_def fund_db.select_convs(2) fund_db.surjective fund_db.update_convs(1))
  ultimately have "sound_rows (ledger db')"
    using inv(5) midrow rows lines_ne by (auto simp: sound_rows_def fund_tables_def unique_advances_def new list_all_iff opened_row_def)
  moreover have "a \<in> set (advances (ledger db'))" if a: "a \<in> set (advances (ledger db))" "\<not> unpaid a" for a
  proof -
    have "a \<in> set ?kept" using assms(5) a by (auto simp: list_all_iff)
    with member_refreshed[OF mid this] refreshes_paid[OF _ a(2)] show ?thesis by (auto simp: new)
  qed
  ultimately show ?thesis using midrow rows by (auto simp: replanned_def list_all_iff new opened_row_def)
qed

lemma replanned_tables:
  assumes "fund_inv fdb" "advances fdb' = advances fdb" "list_all (\<lambda>r. distinct (map wl_line (wk_lines r))) (weeklies fdb')"
  shows "replanned fdb fdb'"
  using assms by (auto simp: replanned_def fund_inv_def sound_rows_def fund_tables_def unique_advances_def list_all_iff)

lemma generate_replanned:
  assumes "generate_weekly_fund_request i owner d db = Inr db'" "fund_inv (ledger db)" "sound_lines db"
  shows "replanned (ledger db) (ledger db')"
proof (rule replanned_tables[OF assms(2)])
  show "advances (ledger db') = advances (ledger db)" using assms(1) by (cases rule: generate_cases) auto
  have old: "list_all (\<lambda>r. distinct (map wl_line (wk_lines r))) (weeklies (ledger db))"
    using assms(2) by (simp add: fund_inv_def sound_rows_def fund_tables_def)
  from assms(1) show "list_all (\<lambda>r. distinct (map wl_line (wk_lines r))) (weeklies (ledger db'))"
    by (cases rule: generate_cases)
      (use old lines_of_week_sound[OF assms(3)] in \<open>auto simp: list_all_iff new_week_def set_update_where split: if_splits\<close>)
qed


section \<open>What a rebuild leaves alone\<close>

definition left_weeks :: "weekly list \<Rightarrow> weekly set" where
  "left_weeks rows = {r \<in> set rows. wk_status r \<notin> set REBUILDABLE_WEEKLY_STATUSES}"

definition left_plans :: "plan list \<Rightarrow> plan set" where
  "left_plans fs = {f \<in> set fs. pl_status f \<noteq> PLAN_DRAFT}"

lemma unique_row: "distinct (map key rows) \<Longrightarrow> r \<in> set rows \<Longrightarrow> x \<in> set rows \<Longrightarrow> key x = key r \<Longrightarrow> x = r"
  by (auto simp: distinct_map inj_on_def)

lemma generate_frame:
  assumes "generate_weekly_fund_request i owner d db = Inr db'"
  shows "db' = with_weeklies (weeklies (ledger db')) db"
  using assms by (cases rule: generate_cases) (simp_all add: with_weeklies_def)

lemma generate_keeps_keys:
  assumes "generate_weekly_fund_request i owner d db = Inr db'" "week_keys db" "i \<notin> set (map wk_id (weeklies (ledger db)))"
  shows "week_keys db' \<and> set (map wk_id (weeklies (ledger db'))) \<subseteq> insert i (set (map wk_id (weeklies (ledger db))))"
  using assms(1)
proof (cases rule: generate_cases)
  case (created first until)
  then have "r \<notin> set (weeklies (ledger db))" if "wk_owner r = owner" "wk_start r = first" for r
    using that by (auto simp: find_None_iff of_owner_week_def)
  then show ?thesis using created(6) assms(2,3) by (auto simp: week_keys_def new_week_def)
next
  case (rebuilt first until r)
  note row = find_Some_set[OF rebuilt(3)]
  let ?r = "r\<lparr>wk_total := sum_list (map cl_amount (lines_of_week owner first until db)), wk_lines := request_lines (lines_of_week owner first until db)\<rparr>"
  have same: "map g (weeklies (ledger db')) = map g (weeklies (ledger db))" if "g ?r = g r" for g :: "weekly \<Rightarrow> 'b"
  proof -
    have "x = r" if "x \<in> set (weeklies (ledger db))" "wk_id x = wk_id r" for x
      using unique_row[of wk_id] assms(2) row that by (auto simp: week_keys_def)
    with that show ?thesis using rebuilt(7) by (auto simp: update_where_def)
  qed
  have "map wk_id (weeklies (ledger db')) = map wk_id (weeklies (ledger db))"
    "map (\<lambda>r. (wk_owner r, wk_start r)) (weeklies (ledger db')) = map (\<lambda>r. (wk_owner r, wk_start r)) (weeklies (ledger db))"
    by (rule same, simp)+
  then show ?thesis using assms(2) by (auto simp: week_keys_def)
qed (use assms(2) in \<open>auto simp: week_keys_def distinct_map_filter\<close>)

lemma rebuilt_row:
  assumes "week_keys db" "r \<in> set (weeklies (ledger db))" "of_owner_week owner first r" "wk_owner r' = wk_owner r" "wk_start r' = wk_start r"
  shows "find (of_owner_week owner first) (update_where (\<lambda>x. wk_id x = wk_id r) (\<lambda>_. r') (weeklies (ledger db))) = Some r'"
    and "filter (\<lambda>x. \<not> of_owner_week owner first x) (update_where (\<lambda>x. wk_id x = wk_id r) (\<lambda>_. r') (weeklies (ledger db)))
      = filter (\<lambda>x. \<not> of_owner_week owner first x) (weeklies (ledger db))"
proof -
  have "wk_id x = wk_id r \<longleftrightarrow> x = r" "of_owner_week owner first x \<longleftrightarrow> x = r" if "x \<in> set (weeklies (ledger db))" for x
    using that assms(1-3) unique_row[of wk_id "weeklies (ledger db)" r x]
      unique_row[of "\<lambda>r. (wk_owner r, wk_start r)" "weeklies (ledger db)" r x] by (auto simp: week_keys_def of_owner_week_def)
  then have rows: "list_all (\<lambda>x. (wk_id x = wk_id r \<longleftrightarrow> x = r) \<and> (of_owner_week owner first x \<longleftrightarrow> x = r)) (weeklies (ledger db))"
    by (simp add: list_all_iff)
  have r': "of_owner_week owner first r'" using assms(3-5) by (simp add: of_owner_week_def)
  have "find (of_owner_week owner first) (update_where (\<lambda>x. wk_id x = wk_id r) (\<lambda>_. r') xs) = Some r'"
    if "list_all (\<lambda>x. (wk_id x = wk_id r \<longleftrightarrow> x = r) \<and> (of_owner_week owner first x \<longleftrightarrow> x = r)) xs" "r \<in> set xs" for xs
    using that by (induction xs) (auto simp: r')
  with rows assms(2) show "find (of_owner_week owner first) (update_where (\<lambda>x. wk_id x = wk_id r) (\<lambda>_. r') (weeklies (ledger db))) = Some r'" by blast
  have "filter (\<lambda>x. \<not> of_owner_week owner first x) (update_where (\<lambda>x. wk_id x = wk_id r) (\<lambda>_. r') xs) = filter (\<lambda>x. \<not> of_owner_week owner first x) xs"
    if "list_all (\<lambda>x. (wk_id x = wk_id r \<longleftrightarrow> x = r) \<and> (of_owner_week owner first x \<longleftrightarrow> x = r)) xs" for xs
    using that by (induction xs) (auto simp: r')
  with rows show "filter (\<lambda>x. \<not> of_owner_week owner first x) (update_where (\<lambda>x. wk_id x = wk_id r) (\<lambda>_. r') (weeklies (ledger db)))
      = filter (\<lambda>x. \<not> of_owner_week owner first x) (weeklies (ledger db))" by blast
qed

lemma generate_leaves:
  assumes "generate_weekly_fund_request i owner d db = Inr db'" "week_keys db"
  shows "left_weeks (weeklies (ledger db)) \<subseteq> left_weeks (weeklies (ledger db'))"
  using assms(1)
proof (cases rule: generate_cases)
  case (removed first until r)
  note row = find_Some_set[OF removed(3)]
  have "x = r" if "x \<in> set (weeklies (ledger db))" "wk_id x = wk_id r" for x
    using unique_row[of wk_id] assms(2) row that by (auto simp: week_keys_def)
  with removed(4,6) show ?thesis by (auto simp: left_weeks_def)
next
  case (rebuilt first until r)
  note row = find_Some_set[OF rebuilt(3)]
  have "x = r" if "x \<in> set (weeklies (ledger db))" "wk_id x = wk_id r" for x
    using unique_row[of wk_id] assms(2) row that by (auto simp: week_keys_def)
  with rebuilt(4,7) show ?thesis by (auto simp: left_weeks_def set_update_where)
qed (auto simp: left_weeks_def)

lemma generate_weeks_keeps:
  assumes "generate_weeks fresh ps db = Inr db'" "week_keys db" "inj fresh"
    "\<forall>n < length ps. fresh n \<notin> set (map wk_id (weeklies (ledger db)))"
  shows "db' = with_weeklies (weeklies (ledger db')) db \<and> week_keys db'
    \<and> left_weeks (weeklies (ledger db)) \<subseteq> left_weeks (weeklies (ledger db'))"
  using assms
proof (induction ps arbitrary: db)
  case (Cons q ps)
  obtain owner d where q: "q = (owner, d)" by fastforce
  from Cons.prems(1) obtain db1 where g: "generate_weekly_fund_request (fresh (length ps)) owner d db = Inr db1"
    and rest: "generate_weeks fresh ps db1 = Inr db'" by (auto simp: q bindE_eq_Inr)
  note keys = generate_keeps_keys[OF g Cons.prems(2)]
  have new: "fresh (length ps) \<notin> set (map wk_id (weeklies (ledger db)))" using Cons.prems(4) by simp
  have "\<forall>n < length ps. fresh n \<notin> set (map wk_id (weeklies (ledger db1)))"
  proof (intro allI impI)
    fix n assume n: "n < length ps"
    then have "fresh n \<noteq> fresh (length ps)" using Cons.prems(3) by (auto dest: injD)
    moreover have "fresh n \<notin> set (map wk_id (weeklies (ledger db)))" using Cons.prems(4) n by simp
    ultimately show "fresh n \<notin> set (map wk_id (weeklies (ledger db1)))" using keys[OF new] by blast
  qed
  with Cons.IH[OF rest _ Cons.prems(3)] keys[OF new] have ih: "db' = with_weeklies (weeklies (ledger db')) db1" "week_keys db'"
    "left_weeks (weeklies (ledger db1)) \<subseteq> left_weeks (weeklies (ledger db'))" by blast+
  moreover obtain rows where "db1 = with_weeklies rows db" using generate_frame[OF g] by blast
  then have "with_weeklies ws db1 = with_weeklies ws db" for ws by (simp add: with_weeklies_def)
  ultimately show ?case using generate_leaves[OF g Cons.prems(2)] by auto
qed (simp add: with_weeklies_def)

end
