(* ===== verification/FundFiling.thy ===== *)
theory FundFiling
  imports FundGenerating
begin

text \<open>
  The drafts of the months and the submissions: what they leave alone, and the planning and
  the paying of the same money side by side.
\<close>

section \<open>Months\<close>

lemma month_cases [consumes 1, case_names unchanged created removed rebuilt]:
  assumes "sync_month i p db = Inr db'"
  obtains "db' = db"
  | owner fy m where "p = (owner, fy, m)" "find (of_owner_month p) (plans (ledger db)) = None" "lines_of_month p db \<noteq> []"
      "db' = with_plans (plans (ledger db) @ [new_plan i MONTHLY_PERIOD (month_key fy m) ''own'' owner
         (sum_list (map cl_amount (lines_of_month p db))) PLAN_DRAFT (plan_items (lines_of_month p db))]) db"
  | f where "find (of_owner_month p) (plans (ledger db)) = Some f" "pl_status f = PLAN_DRAFT" "lines_of_month p db = []"
      "db' = with_plans (filter (\<lambda>x. pl_id x \<noteq> pl_id f) (plans (ledger db))) db"
  | f where "find (of_owner_month p) (plans (ledger db)) = Some f" "pl_status f = PLAN_DRAFT" "lines_of_month p db \<noteq> []"
      "db' = with_plans (update_where (\<lambda>x. pl_id x = pl_id f) (\<lambda>_. f\<lparr>pl_total := sum_list (map cl_amount (lines_of_month p db)),
         pl_items := pl_items f @ plan_items (lines_of_month p db)\<rparr>) (plans (ledger db))) db"
proof -
  obtain owner fy m where p: "p = (owner, fy, m)" by (cases p) auto
  show thesis
  proof (cases "find (of_owner_month p) (plans (ledger db))")
    case None
    show thesis
    proof (cases "lines_of_month p db = []")
      case True
      with assms None show thesis by (intro that(1)) (simp add: sync_month_def Let_def)
    next
      case False
      with assms None show thesis by (intro that(2)[OF p None False]) (auto simp: sync_month_def Let_def bindE_eq_Inr p)
    qed
  next
    case (Some f)
    show thesis
    proof (cases "pl_status f = PLAN_DRAFT")
      case False
      with assms Some show thesis by (intro that(1)) (simp add: sync_month_def Let_def)
    next
      case draft: True
      show thesis
      proof (cases "lines_of_month p db = []")
        case True
        with assms Some draft show thesis by (intro that(3)[OF Some draft True]) (simp add: sync_month_def Let_def)
      next
        case False
        with assms Some draft show thesis by (intro that(4)[OF Some draft False]) (auto simp: sync_month_def Let_def bindE_eq_Inr)
      qed
    qed
  qed
qed

definition plan_ids :: "planning_db \<Rightarrow> string list" where
  "plan_ids db = map pl_id (plans (ledger db))"

lemma updated_ids: "g (h f) = g f \<Longrightarrow> distinct (map pl_id fs) \<Longrightarrow> f \<in> set fs
    \<Longrightarrow> map g (update_where (\<lambda>x. pl_id x = pl_id f) (\<lambda>_. h f) fs) = map g fs"
  by (auto simp: update_where_def dest: unique_row[of pl_id])

lemma with_plans_same [simp]: "with_plans (plans (ledger db)) db = db"
  by (cases db, cases "ledger db") (simp add: with_plans_def)

lemma month_frame:
  assumes "sync_month i p db = Inr db'"
  shows "\<exists>fs. db' = with_plans fs db"
  using assms
proof (cases rule: month_cases)
  case unchanged
  then have "db' = with_plans (plans (ledger db)) db" by simp
  then show ?thesis by blast
qed blast+

lemma month_keeps_ids:
  assumes "sync_month i p db = Inr db'" "distinct (plan_ids db)" "i \<notin> set (plan_ids db)"
  shows "distinct (plan_ids db') \<and> set (plan_ids db') \<subseteq> insert i (set (plan_ids db))"
  using assms(1)
proof (cases rule: month_cases)
  case (rebuilt f)
  note row = find_Some_set[OF rebuilt(1)]
  have "plan_ids db' = plan_ids db"
    using updated_ids[of pl_id "\<lambda>f. f\<lparr>pl_total := sum_list (map cl_amount (lines_of_month p db)),
      pl_items := pl_items f @ plan_items (lines_of_month p db)\<rparr>" f "plans (ledger db)"] row assms(2) rebuilt(4) by (simp add: plan_ids_def)
  with assms(2) show ?thesis by auto
qed (use assms(2,3) in \<open>auto simp: plan_ids_def new_plan_def distinct_map_filter\<close>)

lemma month_leaves:
  assumes "sync_month i p db = Inr db'" "distinct (plan_ids db)"
  shows "left_plans (plans (ledger db)) \<subseteq> left_plans (plans (ledger db'))"
  using assms(1)
proof (cases rule: month_cases)
  case (removed f)
  then show ?thesis using unique_row[of pl_id] find_Some_set[OF removed(1)] assms(2) by (fastforce simp: left_plans_def plan_ids_def)
next
  case (rebuilt f)
  then show ?thesis using unique_row[of pl_id] find_Some_set[OF rebuilt(1)] assms(2)
    by (fastforce simp: left_plans_def plan_ids_def set_update_where)
qed (auto simp: left_plans_def)

lemma months_keep:
  assumes "sync_months fresh ps db = Inr db'" "distinct (plan_ids db)" "inj fresh" "\<forall>n < length ps. fresh n \<notin> set (plan_ids db)"
  shows "(\<exists>fs. db' = with_plans fs db) \<and> distinct (plan_ids db') \<and> left_plans (plans (ledger db)) \<subseteq> left_plans (plans (ledger db'))"
  using assms
proof (induction ps arbitrary: db)
  case Nil
  then have "db' = with_plans (plans (ledger db)) db" by simp
  then have "\<exists>fs. db' = with_plans fs db" by blast
  with Nil show ?case by simp
next
  case (Cons p ps)
  from Cons.prems(1) obtain db1 where g: "sync_month (fresh (length ps)) p db = Inr db1" and rest: "sync_months fresh ps db1 = Inr db'"
    by (auto simp: bindE_eq_Inr)
  have new: "fresh (length ps) \<notin> set (plan_ids db)" using Cons.prems(4) by simp
  note ids = month_keeps_ids[OF g Cons.prems(2) new]
  have "\<forall>n < length ps. fresh n \<notin> set (plan_ids db1)"
  proof (intro allI impI)
    fix n assume n: "n < length ps"
    then have "fresh n \<noteq> fresh (length ps)" using Cons.prems(3) by (auto dest: injD)
    moreover have "fresh n \<notin> set (plan_ids db)" using Cons.prems(4) n by simp
    ultimately show "fresh n \<notin> set (plan_ids db1)" using ids by blast
  qed
  with Cons.IH[OF rest _ Cons.prems(3)] ids obtain fs where ih: "db' = with_plans fs db1" "distinct (plan_ids db')"
    "left_plans (plans (ledger db1)) \<subseteq> left_plans (plans (ledger db'))" by blast
  obtain fs1 where "db1 = with_plans fs1 db" using month_frame[OF g] by blast
  with ih(1) have "db' = with_plans fs db" by (simp add: with_plans_def)
  then have "\<exists>fs. db' = with_plans fs db" by blast
  with ih(2,3) month_leaves[OF g Cons.prems(2)] show ?case by blast
qed

lemma monthly_periods_keep:
  assumes "sync_monthly_periods fresh ps db = Inr db'" "distinct (plan_ids db)" "inj fresh" "\<forall>n < length ps. fresh n \<notin> set (plan_ids db)"
  shows "(\<exists>fs. db' = with_plans fs db) \<and> distinct (plan_ids db') \<and> left_plans (plans (ledger db)) \<subseteq> left_plans (plans (ledger db'))"
proof -
  let ?db = "with_plans (emptied ps (plans (ledger db))) db"
  have ids: "plan_ids ?db = plan_ids db" by (simp add: plan_ids_def emptied_def update_where_def)
  have left: "left_plans (plans (ledger db)) \<subseteq> left_plans (plans (ledger ?db))" by (auto simp: left_plans_def emptied_def set_update_where)
  from months_keep[of fresh ps ?db db'] assms ids obtain fs where "db' = with_plans fs ?db" "distinct (plan_ids db')"
    "left_plans (plans (ledger ?db)) \<subseteq> left_plans (plans (ledger db'))" by (auto simp: sync_monthly_periods_def)
  moreover from this(1) have "db' = with_plans fs db" by (simp add: with_plans_def)
  ultimately show ?thesis using left by blast
qed

section \<open>Both together\<close>

definition fresh_rows :: "(nat \<Rightarrow> string) \<Rightarrow> string list \<Rightarrow> nat \<Rightarrow> bool" where
  "fresh_rows fresh used k \<longleftrightarrow> inj fresh \<and> (\<forall>n < k. fresh n \<notin> set used)"

lemma refile_keeps:
  assumes "refile fresh_week fresh_plan weeks months db = Inr db'" "week_keys db" "distinct (plan_ids db)"
    "fresh_rows fresh_week (map wk_id (weeklies (ledger db))) (length weeks)" "fresh_rows fresh_plan (plan_ids db) (length months)"
  shows "week_keys db' \<and> distinct (plan_ids db') \<and> advances (ledger db') = advances (ledger db)
    \<and> left_weeks (weeklies (ledger db)) \<subseteq> left_weeks (weeklies (ledger db'))
    \<and> left_plans (plans (ledger db)) \<subseteq> left_plans (plans (ledger db'))"
proof -
  from assms(1) obtain db1 where w: "generate_weeks fresh_week weeks db = Inr db1" and m: "sync_monthly_periods fresh_plan months db1 = Inr db'"
    by (auto simp: refile_def bindE_eq_Inr)
  from generate_weeks_keeps[OF w assms(2)] assms(4) obtain rows where one: "db1 = with_weeklies rows db" "week_keys db1"
    "left_weeks (weeklies (ledger db)) \<subseteq> left_weeks (weeklies (ledger db1))" by (auto simp: fresh_rows_def)
  then have ids: "plan_ids db1 = plan_ids db" by (simp add: plan_ids_def)
  from monthly_periods_keep[OF m] assms(3,5) ids obtain fs where two: "db' = with_plans fs db1" "distinct (plan_ids db')"
    "left_plans (plans (ledger db1)) \<subseteq> left_plans (plans (ledger db'))" by (auto simp: fresh_rows_def)
  from one two show ?thesis by (simp add: week_keys_def)
qed

section \<open>Totals\<close>

definition honest_week :: "weekly \<Rightarrow> bool" where
  "honest_week r \<longleftrightarrow> wk_total r = sum_list (map wl_cost (wk_lines r)) \<and> list_all (\<lambda>l. 0 \<le> wl_cost l) (wk_lines r)"

lemma request_lines_honest:
  assumes "sound_lines db"
  shows "sum_list (map wl_cost (request_lines (lines_of_week owner first until db))) = sum_list (map cl_amount (lines_of_week owner first until db))
    \<and> list_all (\<lambda>l. 0 \<le> wl_cost l) (request_lines (lines_of_week owner first until db))"
  using assms by (auto simp: request_lines_def comp_def list_all_iff sound_lines_def lines_of_week_def)

lemma generate_honest:
  assumes "generate_weekly_fund_request i owner d db = Inr db'" "sound_lines db" "list_all honest_week (weeklies (ledger db))"
  shows "list_all honest_week (weeklies (ledger db'))"
  using assms(1)
  by (cases rule: generate_cases)
    (use assms(3) request_lines_honest[OF assms(2)] in \<open>auto simp: list_all_iff honest_week_def new_week_def set_update_where split: if_splits\<close>)

lemma command_honest:
  assumes "run_fund w p c db = Inr db'" "list_all honest_week (weeklies db)"
  shows "list_all honest_week (weeklies db')"
proof -
  have "honest_week r" if "r \<in> set (weeklies db')" for r
  proof -
    from that have "(wk_total r, wk_lines r) \<in> week_lines db'" by (auto simp: week_lines_def)
    with command_keeps_lines[OF assms(1)] obtain r0 where "r0 \<in> set (weeklies db)" "wk_total r = wk_total r0" "wk_lines r = wk_lines r0"
      by (force simp: week_lines_def)
    with assms(2) show ?thesis by (auto simp: list_all_iff honest_week_def)
  qed
  then show ?thesis by (simp add: list_all_iff)
qed

section \<open>A submission\<close>

lemma submission_stored:
  assumes "submit_request i today in_scope lens strict period data p db = Inr db'"
  obtains fy key ls wanted where
    "ls = filter (\<lambda>l. list_ex (\<lambda>w. pw_id w = cl_activity l \<and> w \<notin> set (filter (unpriced db) (period_work in_scope fy wanted db)))
        (period_work in_scope fy wanted db) \<and> fundable_line db l) (cost_lines db)"
    "store_submission i lens (fp_user p) period key ls db = Inr db'"
  using assms by (auto simp: submit_request_def bindE_eq_Inr Let_def split: if_splits)

lemma stored_row:
  assumes "store_submission i lens user period key ls db = Inr db'"
  shows "\<exists>f fs. db' = with_plans fs db \<and> f \<in> set fs \<and> of_submitter user period key f \<and> pl_scope f = lens \<and> pl_status f = PLAN_SUBMITTED
    \<and> pl_items f = plan_items ls \<and> pl_total f = sum_list (map cl_amount ls)"
proof (cases "find (\<lambda>f. of_submitter user period key f \<and> pl_scope f = lens) (plans (ledger db))")
  case None
  with assms show ?thesis
    by (intro exI[of _ "new_plan i period key lens user (sum_list (map cl_amount ls)) PLAN_SUBMITTED (plan_items ls)"])
      (auto simp: store_submission_def bindE_eq_Inr Let_def of_submitter_def new_plan_def)
next
  case (Some f)
  note row = find_Some_set[OF Some]
  from assms Some row show ?thesis
    by (intro exI[of _ "f\<lparr>pl_total := sum_list (map cl_amount ls), pl_status := PLAN_SUBMITTED, pl_items := plan_items ls\<rparr>"])
      (auto simp: store_submission_def bindE_eq_Inr Let_def of_submitter_def set_update_where intro!: exI image_eqI[of _ _ f])
qed

section \<open>Planning and paying the same money\<close>

text \<open>
  A save prices its activities and rebuilds what follows from them; the services move the
  money. Re-pricing deletes the lines it replaces with what hangs on them: here that goes at
  the sync and the rebuilds. What the planning would drop is owner-held or untouched.
\<close>

inductive money_step :: "planning_db \<Rightarrow> planning_db \<Rightarrow> bool" where
  service: "run_fund w p c (ledger db) = Inr l \<Longrightarrow> money_step db (db\<lparr>ledger := l\<rparr>)"
| costing: "sound_lines (db\<lparr>cost_lines := ls, works := ws\<rparr>) \<Longrightarrow> money_step db (db\<lparr>cost_lines := ls, works := ws\<rparr>)"
| collect: "money_step db (db\<lparr>waiting := q\<rparr>)"
| sync: "sync_for_activities fresh False given ws db = Inr db' \<Longrightarrow> fresh_ids fresh (map ad_id (advances (ledger db)))
    \<Longrightarrow> list_all (\<lambda>a. unpaid a \<or> sync_kept ws db a) (advances (ledger db)) \<Longrightarrow> money_step db db'"
| week: "generate_weekly_fund_request i owner d db = Inr db' \<Longrightarrow> money_step db db'"
| months: "sync_monthly_periods fresh ps db = Inr db' \<Longrightarrow> money_step db db'"
| submission: "submit_request i today in_scope lens strict period data p db = Inr db' \<Longrightarrow> money_step db db'"

definition plans_only :: "planning_db \<Rightarrow> planning_db \<Rightarrow> bool" where
  "plans_only db db' \<longleftrightarrow> (\<exists>fs. db' = with_plans fs db)"

lemma months_plans_only: "sync_monthly_periods fresh ps db = Inr db' \<Longrightarrow> plans_only db db'"
proof -
  have step: "plans_only a c" if "plans_only a b" "sync_month i p b = Inr c" for a b c i p
    using that month_frame[of i p b c] by (auto simp: plans_only_def with_plans_def)
  have "sync_months fresh ps db1 = Inr db' \<Longrightarrow> plans_only db db1 \<Longrightarrow> plans_only db db'" for db1
    by (induction ps arbitrary: db1) (auto simp: bindE_eq_Inr intro: step)
  then show "sync_monthly_periods fresh ps db = Inr db' \<Longrightarrow> plans_only db db'"
    by (auto simp: sync_monthly_periods_def plans_only_def)
qed

lemma submission_plans_only:
  assumes "submit_request i today in_scope lens strict period data p db = Inr db'"
  shows "plans_only db db'"
proof -
  from assms obtain fy key ls wanted where "store_submission i lens (fp_user p) period key ls db = Inr db'" by (rule submission_stored)
  from stored_row[OF this] show ?thesis by (auto simp: plans_only_def)
qed

lemma plans_only_replanned: "plans_only db db' \<Longrightarrow> fund_inv (ledger db) \<Longrightarrow> replanned (ledger db) (ledger db')"
  by (auto simp: plans_only_def fund_inv_def sound_rows_def fund_tables_def intro!: replanned_tables)

lemma sync_lines: "sync_for_activities fresh j given ws db = Inr db' \<Longrightarrow> cost_lines db' = cost_lines db"
  by (auto simp: sync_for_activities_def Let_def bindE_eq_Inr split: if_splits)

lemma money_step_sound:
  assumes "money_step db db'" "sound_lines db"
  shows "sound_lines db'"
  using assms
proof (cases rule: money_step.cases)
  case (sync fresh given ws)
  with assms(2) sync_lines[OF sync(1)] show ?thesis by (simp add: sound_lines_def)
next
  case (week i owner d)
  with assms(2) generate_frame[OF week] show ?thesis by (metis sound_lines_def with_weeklies_simps(2))
next
  case (months fresh ps)
  with assms(2) months_plans_only[OF months] show ?thesis by (auto simp: sound_lines_def plans_only_def)
next
  case submission
  with assms(2) submission_plans_only[OF submission] show ?thesis by (auto simp: sound_lines_def plans_only_def)
qed (auto simp: sound_lines_def)

lemma money_step_refines:
  assumes "money_step db db'" "fund_inv (ledger db)" "sound_lines db"
  shows "ledger db' = ledger db \<or> fund_step (ledger db) (ledger db')"
  using assms(1)
proof (cases rule: money_step.cases)
  case (service w p c l)
  then show ?thesis by (auto intro: fund_step.command)
next
  case (sync fresh given ws)
  then show ?thesis using sync_replanned[OF sync(1) assms(2,3)] by (auto intro: fund_step.planning)
next
  case (week i owner d)
  then show ?thesis using generate_replanned[OF week assms(2,3)] by (auto intro: fund_step.planning)
next
  case (months fresh ps)
  then show ?thesis using plans_only_replanned[OF months_plans_only assms(2)] by (auto intro: fund_step.planning)
next
  case submission
  then show ?thesis using plans_only_replanned[OF submission_plans_only[OF submission] assms(2)] by (auto intro: fund_step.planning)
qed auto

lemma money_step_honest:
  assumes "money_step db db'" "fund_inv (ledger db)" "sound_lines db" "list_all honest_week (weeklies (ledger db))"
  shows "list_all honest_week (weeklies (ledger db'))"
  using assms(1)
proof (cases rule: money_step.cases)
  case (service w p c l)
  then show ?thesis using command_honest[OF service(2) assms(4)] by simp
next
  case (sync fresh given ws)
  have "weeklies (ledger db') = weeklies (ledger db)"
    using sync_rows[OF sync(1)] assms(2) by (fastforce simp: same_tables_def fund_inv_def sound_rows_def fund_tables_def dest!: arg_cong[of _ _ weeklies])
  with assms(4) show ?thesis by simp
next
  case (week i owner d)
  then show ?thesis using generate_honest[OF week assms(3,4)] by simp
next
  case (months fresh ps)
  then show ?thesis using months_plans_only[OF months] assms(4) by (auto simp: plans_only_def)
next
  case submission
  then show ?thesis using submission_plans_only[OF submission] assms(4) by (auto simp: plans_only_def)
qed (use assms(4) in auto)

end
