(* ===== verification/FundPlanningProperties.thy ===== *)
theory FundPlanningProperties
  imports FundFiling FundProperties
begin

text \<open>
  What the planning of the money guarantees, and where it does not, with the work of one
  officer planned, requested and paid.
\<close>

section \<open>Work planned\<close>

definition demo_line :: budget_line where
  "demo_line = \<lparr>cl_id = ''line1'', cl_activity = ''act1'', cl_type = Some ''lunch'', cl_amount = 1000, cl_vendor_paid = False,
     cl_owner = Some ''officer'', cl_planned = Some (Date 2026 7 8), cl_week = Some (Date 2026 7 6), cl_month = Some 7,
     cl_fy = Some ''2026''\<rparr>"

definition demo_work :: planned_work where
  "demo_work = \<lparr>pw_id = ''act1'', pw_type = SCHOOL_VISIT, pw_status = PLANNED, pw_deleted = False, pw_day = Some (Date 2026 7 8),
     pw_planned = Some (Date 2026 7 8), pw_end = None, pw_school = True, pw_facilitator = False, pw_cost_missing = False,
     pw_delivery = ''staff'', pw_mode = [], pw_owner = Some ''officer'', pw_fy = ''2026'', pw_quarter = ''Q4'', pw_month = Some 7,
     pw_pair = None\<rparr>"

definition planned_start :: planning_db where
  "planned_start = \<lparr>ledger = fund_start\<lparr>weeklies := []\<rparr>,
     cost_lines = [demo_line, demo_line\<lparr>cl_id := ''line2'', cl_type := Some ''dinner'', cl_amount := 2000\<rparr>,
       demo_line\<lparr>cl_id := ''line3'', cl_type := Some ''transport'', cl_amount := 5000\<rparr>],
     works = [demo_work], waiting = None\<rparr>"

definition numbered :: "string \<Rightarrow> nat \<Rightarrow> string" where
  "numbered prefix n = prefix @ replicate n (CHR ''i'')"

lemma numbered_inj: "inj (numbered prefix)"
  by (auto simp: inj_def numbered_def)

lemma planned_start_facts: "sound_lines planned_start" "week_keys planned_start" "weeklies (ledger planned_start) = []"
  "plans (ledger planned_start) = []" "advances (ledger planned_start) = []"
  by (simp_all add: planned_start_def sound_lines_def week_keys_def demo_line_def fund_start_def)

lemma planned_start_reachable: "fund_reachable (ledger planned_start)"
  by (intro fund_reachable.start) (simp_all add: planned_start_def fund_start_def fund_tables_def unique_advances_def)


lemma demo_weekday: "weekday (Date 2026 7 8) = 2"
  by code_simp

lemma demo_week: "monday_of (Date 2026 7 8) = Inr (Date 2026 7 6)" "py_add_days (Date 2026 7 6) 6 = Inr (Date 2026 7 12)"
  by (simp_all add: monday_of_def demo_weekday py_add_days_def add_days_def prev_day_def next_day_def days_in_month_def numeral_eq_Suc)

lemma demo_week_lines: "lines_of_week ''officer'' (Date 2026 7 6) (Date 2026 7 12) planned_start
    = [demo_line, demo_line\<lparr>cl_id := ''line2'', cl_type := Some ''dinner'', cl_amount := 2000\<rparr>]"
  by code_simp

definition asked_week :: weekly where
  "asked_week = new_week ''week1'' ''officer'' (Date 2026 7 6) (Date 2026 7 12) 3000
     [\<lparr>wl_line = ''line1'', wl_cost = 1000\<rparr>, \<lparr>wl_line = ''line2'', wl_cost = 2000\<rparr>]"

definition week_asked :: planning_db where
  "week_asked = with_weeklies [asked_week] planned_start"

lemma week_asked_run: "generate_weekly_fund_request ''week1'' ''officer'' (Date 2026 7 8) planned_start = Inr week_asked"
  by (simp add: generate_weekly_fund_request_def demo_week demo_week_lines week_asked_def asked_week_def request_lines_def demo_line_def
      planned_start_facts(3) Let_def big_integer_def)

section \<open>Weeks\<close>

text \<open>The promise of a generation: the other requests are kept, and the week's is its lines.\<close>

definition week_follows_lines :: "string \<Rightarrow> date \<Rightarrow> date \<Rightarrow> planning_db \<Rightarrow> planning_db \<Rightarrow> bool" where
  "week_follows_lines owner first until db db' \<longleftrightarrow>
    filter (\<lambda>r. \<not> of_owner_week owner first r) (weeklies (ledger db')) = filter (\<lambda>r. \<not> of_owner_week owner first r) (weeklies (ledger db))
    \<and> (let ls = lines_of_week owner first until db; before = find (of_owner_week owner first) (weeklies (ledger db)) in
       case find (of_owner_week owner first) (weeklies (ledger db')) of None \<Rightarrow> ls = []
       | Some r \<Rightarrow> wk_status r \<notin> set REBUILDABLE_WEEKLY_STATUSES \<and> before = Some r
           \<or> ls \<noteq> [] \<and> wk_lines r = request_lines ls \<and> wk_total r = sum_list (map cl_amount ls)
             \<and> wk_status r = (case before of None \<Rightarrow> WEEK_PENDING | Some r0 \<Rightarrow> wk_status r0))"

lemma generated_new_week:
  assumes "generate_weekly_fund_request i owner d db = Inr db'" "week_keys db" "monday_of d = Inr first" "py_add_days first 6 = Inr until"
    "find (of_owner_week owner first) (weeklies (ledger db)) = None"
  shows "week_follows_lines owner first until db db'"
proof -
  note None = assms(5)
  from None have others: "filter (\<lambda>r. \<not> of_owner_week owner first r) (weeklies (ledger db)) = weeklies (ledger db)"
    by (auto simp: find_None_iff)
  from assms(1) show ?thesis
  proof (cases rule: generate_cases)
    case (unchanged first' until')
    with assms None show ?thesis by (simp add: week_follows_lines_def)
  next
    case (created first' until')
    with assms None show ?thesis by (auto simp: week_follows_lines_def find_append of_owner_week_def new_week_def Let_def)
  next
    case (removed first' until' r)
    with assms None show ?thesis by (simp add: week_follows_lines_def)
  next
    case (rebuilt first' until' r)
    with assms None show ?thesis by (simp add: week_follows_lines_def)
  qed
qed

lemma generated_old_week:
  assumes "generate_weekly_fund_request i owner d db = Inr db'" "week_keys db" "monday_of d = Inr first" "py_add_days first 6 = Inr until"
    "find (of_owner_week owner first) (weeklies (ledger db)) = Some r"
  shows "week_follows_lines owner first until db db'"
proof -
  note Some = assms(5)
  note row = find_Some_set[OF Some]
  have one: "x = r" if "x \<in> set (weeklies (ledger db))" "wk_id x = wk_id r \<or> of_owner_week owner first x" for x
    using that row assms(2) unique_row[of wk_id "weeklies (ledger db)" r x]
      unique_row[of "\<lambda>r. (wk_owner r, wk_start r)" "weeklies (ledger db)" r x] by (auto simp: week_keys_def of_owner_week_def)
  from assms(1) show ?thesis
  proof (cases rule: generate_cases)
    case (unchanged first' until')
    with assms Some show ?thesis by (simp add: week_follows_lines_def)
  next
    case (created first' until')
    with assms Some show ?thesis by (simp add: week_follows_lines_def)
  next
    case (removed first' until' r')
    with assms Some have same: "first' = first" "until' = until" "r' = r" by simp_all
    have "filter (\<lambda>x. wk_id x \<noteq> wk_id r) (weeklies (ledger db)) = filter (\<lambda>x. \<not> of_owner_week owner first x) (weeklies (ledger db))"
      using one row by (intro filter_cong) auto
    moreover have "find (of_owner_week owner first) (filter (\<lambda>x. \<not> of_owner_week owner first x) (weeklies (ledger db))) = None"
      by (simp add: find_None_iff)
    ultimately show ?thesis using removed same by (simp add: week_follows_lines_def Let_def)
  next
    case (rebuilt first' until' r')
    with assms Some have same: "first' = first" "until' = until" "r' = r" by simp_all
    with rebuilt_row[OF assms(2) row[THEN conjunct1] row[THEN conjunct2]] rebuilt Some show ?thesis by (simp add: week_follows_lines_def Let_def)
  qed
qed

text \<open>C33: A generated week is its cost lines. When the generation of an owner's week succeeds, every other
  request is as it was, and the request of the week, while it is in its owner's hands, has
  exactly the lines staff money may pay in that week and their total, and is there only when
  there are such lines; a request that left the owner's hands is untouched, and a returned one
  stays returned.\<close>
theorem generated_week_follows_lines:
  assumes "generate_weekly_fund_request i owner d db = Inr db'" "week_keys db" "monday_of d = Inr first" "py_add_days first 6 = Inr until"
  shows "week_follows_lines owner first until db db'"
  using generated_new_week[OF assms] generated_old_week[OF assms] by (cases "find (of_owner_week owner first) (weeklies (ledger db))") blast+

lemma generated_week_follows_lines_witness:
  "filter (\<lambda>r. \<not> of_owner_week ''officer'' (Date 2026 7 6) r) (weeklies (ledger week_asked)) = []"
  using generated_week_follows_lines[OF week_asked_run planned_start_facts(2) demo_week] planned_start_facts(3) by (simp add: week_follows_lines_def)



lemma update_appended: "update_where P f (xs @ [x]) = update_where P f xs @ [if P x then f x else x]"
  by (simp add: update_where_def)

lemma rebuilt_costs:
  "lines_of_week owner first until (with_weeklies rows db) = lines_of_week owner first until db"
  "with_weeklies a (with_weeklies b db) = with_weeklies a db" "with_weeklies (weeklies (ledger db)) db = db"
proof -
  show "lines_of_week owner first until (with_weeklies rows db) = lines_of_week owner first until db" by (rule lines_of_week_cong) simp_all
  show "with_weeklies a (with_weeklies b db) = with_weeklies a db" by (simp add: with_weeklies_def)
  show "with_weeklies (weeklies (ledger db)) db = db" by (cases db, cases "ledger db") (simp add: with_weeklies_def)
qed

lemma rebuild_after_new:
  assumes "monday_of d = Inr first" "py_add_days first 6 = Inr until" "find (of_owner_week owner first) (weeklies (ledger db)) = None"
    "i \<notin> set (map wk_id (weeklies (ledger db)))"
  shows "generate_weekly_fund_request i owner d (with_weeklies (weeklies (ledger db) @ [new_week i owner first until t ls]) db)
    = generate_weekly_fund_request i owner d db"
proof -
  let ?new = "new_week i owner first until t ls"
  have found: "find (of_owner_week owner first) (weeklies (ledger db) @ [?new]) = Some ?new"
    using assms(3) by (simp add: find_append of_owner_week_def new_week_def)
  have old: "filter (\<lambda>x. wk_id x \<noteq> i) (weeklies (ledger db)) = weeklies (ledger db)"
    "update_where (\<lambda>x. wk_id x = i) f (weeklies (ledger db)) = weeklies (ledger db)" for f
    using assms(4) by (auto simp: update_where_def filter_id_conv intro!: map_idI)
  have new: "wk_id ?new = i" "wk_status ?new \<in> set REBUILDABLE_WEEKLY_STATUSES"
    "?new\<lparr>wk_total := t', wk_lines := k\<rparr> = new_week i owner first until t' k" for t' k
    by (simp_all add: new_week_def REBUILDABLE_WEEKLY_STATUSES_def)
  show ?thesis unfolding generate_weekly_fund_request_def assms(1,2) bindE_Inr Let_def with_weeklies_simps rebuilt_costs
    using assms(3) by (simp add: found new old update_appended rebuilt_costs)
qed

lemma rebuild_after_rebuild:
  assumes "monday_of d = Inr first" "py_add_days first 6 = Inr until" "find (of_owner_week owner first) (weeklies (ledger db)) = Some r"
    "wk_status r \<in> set REBUILDABLE_WEEKLY_STATUSES" "week_keys db"
  shows "generate_weekly_fund_request i owner d
      (with_weeklies (update_where (\<lambda>x. wk_id x = wk_id r) (\<lambda>_. r\<lparr>wk_total := t, wk_lines := ls\<rparr>) (weeklies (ledger db))) db)
    = generate_weekly_fund_request i owner d db"
proof -
  let ?new = "r\<lparr>wk_total := t, wk_lines := ls\<rparr>"
  note row = find_Some_set[OF assms(3)]
  have found: "find (of_owner_week owner first) (update_where (\<lambda>x. wk_id x = wk_id r) (\<lambda>_. ?new) (weeklies (ledger db))) = Some ?new"
    using rebuilt_row(1)[OF assms(5), of r owner first ?new] row by simp
  have gone: "filter (\<lambda>x. wk_id x \<noteq> wk_id r) (update_where (\<lambda>x. wk_id x = wk_id r) (\<lambda>_. ?new) xs) = filter (\<lambda>x. wk_id x \<noteq> wk_id r) xs"
    "update_where (\<lambda>x. wk_id x = wk_id r) f (update_where (\<lambda>x. wk_id x = wk_id r) (\<lambda>_. ?new) xs) = update_where (\<lambda>x. wk_id x = wk_id r) (\<lambda>_. f ?new) xs" for xs f
    by (induction xs) auto
  have again: "update_where (\<lambda>x. wk_id x = wk_id r) (\<lambda>_. f) (update_where (\<lambda>x. wk_id x = wk_id r) (\<lambda>_. ?new) xs) = update_where (\<lambda>x. wk_id x = wk_id r) (\<lambda>_. f) xs" for xs f
    by (simp add: gone)
  show ?thesis unfolding generate_weekly_fund_request_def assms(1,2) bindE_Inr Let_def with_weeklies_simps rebuilt_costs
    using assms(3,4) by (simp add: found gone again rebuilt_costs)
qed

text \<open>C36: Only the last rebuild of a week counts. Rebuilding it from lines staff money may pay, and again
  after the lines and the work have changed, leaves the request one rebuild at the end leaves.\<close>
theorem rebuild_last_wins:
  assumes "generate_weekly_fund_request i owner d db = Inr db1" "week_keys db" "i \<notin> set (map wk_id (weeklies (ledger db)))"
    "monday_of d = Inr first" "py_add_days first 6 = Inr until" "lines_of_week owner first until db \<noteq> []"
  shows "generate_weekly_fund_request i owner d (db1\<lparr>cost_lines := ls, works := ws\<rparr>)
    = generate_weekly_fund_request i owner d (db\<lparr>cost_lines := ls, works := ws\<rparr>)"
proof -
  let ?db = "db\<lparr>cost_lines := ls, works := ws\<rparr>"
  have frame: "db1\<lparr>cost_lines := ls, works := ws\<rparr> = with_weeklies (weeklies (ledger db1)) ?db"
    using generate_frame[OF assms(1)] by (cases db, cases db1) (simp add: with_weeklies_def)
  from assms(1) show ?thesis
  proof (cases rule: generate_cases)
    case (unchanged first' until')
    then show ?thesis by simp
  next
    case (created first' until')
    with assms(4,5) have "first' = first" "until' = until" by simp_all
    with rebuild_after_new[of d first until owner ?db i] assms(3-5) created show ?thesis unfolding frame by simp
  next
    case (removed first' until' r)
    with assms(4-6) show ?thesis by simp
  next
    case (rebuilt first' until' r)
    with assms(4,5) have "first' = first" "until' = until" by simp_all
    moreover have "week_keys ?db" using assms(2) by (simp add: week_keys_def)
    ultimately show ?thesis using rebuild_after_rebuild[of d first until owner ?db r] assms(4,5) rebuilt unfolding frame by simp
  qed
qed

lemma week_asked_again: "week_keys week_asked" "''week1'' \<notin> set (map wk_id (weeklies (ledger planned_start)))"
  by (simp_all add: week_keys_def week_asked_def planned_start_facts)

lemma rebuild_last_wins_witness:
  "generate_weekly_fund_request ''week1'' ''officer'' (Date 2026 7 8) (week_asked\<lparr>cost_lines := [demo_line], works := [demo_work]\<rparr>)
   = generate_weekly_fund_request ''week1'' ''officer'' (Date 2026 7 8) (planned_start\<lparr>cost_lines := [demo_line], works := [demo_work]\<rparr>)"
  by (rule rebuild_last_wins[OF week_asked_run planned_start_facts(2) week_asked_again(2) demo_week]) (simp add: demo_week_lines)

text \<open>But a rebuild in between that finds no line forgets a return. It removes the returned request,
  and the next one opens a new request, pending, without the status, the reason and the person
  of the return, which one rebuild at the end would have kept.\<close>
theorem rebuild_forgets_return:
  assumes "find (of_owner_week owner first) (weeklies (ledger db)) = Some r" "wk_status r \<in> set REBUILDABLE_WEEKLY_STATUSES" "week_keys db"
    "monday_of d = Inr first" "py_add_days first 6 = Inr until" "lines_of_week owner first until db = []"
    "generate_weekly_fund_request i owner d db = Inr db1"
    "lines_of_week owner first until (db\<lparr>cost_lines := ls, works := ws\<rparr>) \<noteq> []"
    "generate_weekly_fund_request j owner d (db1\<lparr>cost_lines := ls, works := ws\<rparr>) = Inr db2"
    "generate_weekly_fund_request j owner d (db\<lparr>cost_lines := ls, works := ws\<rparr>) = Inr db3"
  shows "\<exists>r2 r3. find (of_owner_week owner first) (weeklies (ledger db2)) = Some r2 \<and> find (of_owner_week owner first) (weeklies (ledger db3)) = Some r3
    \<and> wk_status r2 = WEEK_PENDING \<and> wk_reason r2 = [] \<and> wk_returned_by r2 = None
    \<and> wk_status r3 = wk_status r \<and> wk_reason r3 = wk_reason r \<and> wk_returned_by r3 = wk_returned_by r"
proof -
  let ?db = "db\<lparr>cost_lines := ls, works := ws\<rparr>"
  note row = find_Some_set[OF assms(1)]
  have one: "x = r" if "x \<in> set (weeklies (ledger db))" "of_owner_week owner first x" for x
    using that row assms(3) unique_row[of "\<lambda>r. (wk_owner r, wk_start r)" "weeklies (ledger db)" r x] by (auto simp: week_keys_def of_owner_week_def)
  have db1: "db1 = with_weeklies (filter (\<lambda>x. wk_id x \<noteq> wk_id r) (weeklies (ledger db))) db"
    using assms(1,2,4-7) by (simp add: generate_weekly_fund_request_def Let_def)
  then have frame: "db1\<lparr>cost_lines := ls, works := ws\<rparr> = with_weeklies (filter (\<lambda>x. wk_id x \<noteq> wk_id r) (weeklies (ledger db))) ?db"
    by (simp add: with_weeklies_def)
  have none: "find (of_owner_week owner first) (filter (\<lambda>x. wk_id x \<noteq> wk_id r) (weeklies (ledger db))) = None"
    using one by (auto simp: find_None_iff)
  have lines: "lines_of_week owner first until (with_weeklies rows ?db) = lines_of_week owner first until ?db" for rows
    by (rule lines_of_week_cong) simp_all
  from assms(4,5,8,9) none have "\<exists>r2. find (of_owner_week owner first) (weeklies (ledger db2)) = Some r2
      \<and> wk_status r2 = WEEK_PENDING \<and> wk_reason r2 = [] \<and> wk_returned_by r2 = None"
    unfolding frame by (auto simp: generate_weekly_fund_request_def Let_def bindE_eq_Inr lines find_append of_owner_week_def new_week_def)
  moreover have "week_keys ?db" using assms(3) by (simp add: week_keys_def)
  from rebuilt_row(1)[OF this, of r owner first] row have found: "find (of_owner_week owner first)
      (update_where (\<lambda>x. wk_id x = wk_id r) (\<lambda>_. r\<lparr>wk_total := t, wk_lines := k\<rparr>) (weeklies (ledger db))) = Some (r\<lparr>wk_total := t, wk_lines := k\<rparr>)" for t k
    by simp
  from assms(1,2,4,5,8,10) have "\<exists>r3. find (of_owner_week owner first) (weeklies (ledger db3)) = Some r3
      \<and> wk_status r3 = wk_status r \<and> wk_reason r3 = wk_reason r \<and> wk_returned_by r3 = wk_returned_by r"
    by (auto simp: generate_weekly_fund_request_def Let_def bindE_eq_Inr found)
  ultimately show ?thesis by blast
qed

definition returned_week :: planning_db where
  "returned_week = (with_weeklies [asked_week\<lparr>wk_status := WEEK_RETURNED_BY_PL, wk_reason := ''too much'', wk_returned_by := Some ''lead''\<rparr>]
     planned_start)\<lparr>cost_lines := []\<rparr>"

lemma rebuild_forgets_return_witness:
  "\<exists>db1 db2. generate_weekly_fund_request ''week2'' ''officer'' (Date 2026 7 8) returned_week = Inr db1
     \<and> generate_weekly_fund_request ''week2'' ''officer'' (Date 2026 7 8) (db1\<lparr>cost_lines := cost_lines planned_start, works := [demo_work]\<rparr>) = Inr db2
     \<and> (\<exists>r. find (of_owner_week ''officer'' (Date 2026 7 6)) (weeklies (ledger db2)) = Some r \<and> wk_status r = WEEK_PENDING \<and> wk_reason r = [])"
proof -
  let ?costs = "\<lambda>db. db\<lparr>cost_lines := cost_lines planned_start, works := [demo_work]\<rparr>"
  let ?gen = "generate_weekly_fund_request ''week2'' ''officer'' (Date 2026 7 8)"
  let ?r = "asked_week\<lparr>wk_status := WEEK_RETURNED_BY_PL, wk_reason := ''too much'', wk_returned_by := Some ''lead''\<rparr>"
  have none: "lines_of_week ''officer'' (Date 2026 7 6) (Date 2026 7 12) returned_week = []" by (simp add: returned_week_def lines_of_week_def)
  have lines: "lines_of_week ''officer'' (Date 2026 7 6) (Date 2026 7 12) (?costs db)
      = [demo_line, demo_line\<lparr>cl_id := ''line2'', cl_type := Some ''dinner'', cl_amount := 2000\<rparr>]"
    if "advances (ledger db) = advances (ledger planned_start)" for db
    using that lines_of_week_cong[of planned_start "?costs db"] demo_week_lines by (simp add: planned_start_def)
  have same: "advances (ledger returned_week) = advances (ledger planned_start)" "advances (ledger (with_weeklies [] returned_week)) = advances (ledger planned_start)"
    by (simp_all add: returned_week_def)
  note l1 = lines[OF same(1)] and l2 = lines[OF same(2)]
  have rows: "weeklies (ledger returned_week) = [?r]" by (simp add: returned_week_def)
  have week: "of_owner_week ''officer'' (Date 2026 7 6) ?r" "wk_status ?r \<in> set REBUILDABLE_WEEKLY_STATUSES"
    by (simp_all add: of_owner_week_def asked_week_def new_week_def REBUILDABLE_WEEKLY_STATUSES_def)
  have one: "?gen returned_week = Inr (with_weeklies [] returned_week)"
    using week by (simp add: generate_weekly_fund_request_def demo_week none rows Let_def)
  obtain db2 where two: "?gen (?costs (with_weeklies [] returned_week)) = Inr db2"
    by (simp add: generate_weekly_fund_request_def demo_week l2 Let_def demo_line_def big_integer_def)
  obtain db3 where three: "?gen (?costs returned_week) = Inr db3"
    using week by (simp add: generate_weekly_fund_request_def demo_week l1 rows Let_def demo_line_def big_integer_def)
  have "find (of_owner_week ''officer'' (Date 2026 7 6)) (weeklies (ledger returned_week)) = Some ?r" using week by (simp add: rows)
  moreover have "week_keys returned_week" by (simp add: week_keys_def rows)
  moreover have "lines_of_week ''officer'' (Date 2026 7 6) (Date 2026 7 12) (?costs returned_week) \<noteq> []" using l1 by simp
  ultimately show ?thesis using rebuild_forgets_return[OF _ week(2) _ demo_week none one _ two three] one two by blast
qed

text \<open>C35: What has left its owner's hands is safe from every rebuild. When the weeks and months that waited
  for a save are refiled, every request that is not pending or returned and every plan that is
  not a draft is there as it was, no advance has changed, and an owner still has one request a
  week and no two plans share a key.\<close>
theorem refile_leaves_filed_requests:
  assumes "refile fresh_week fresh_plan weeks months db = Inr db'" "week_keys db" "distinct (plan_ids db)"
    "fresh_rows fresh_week (map wk_id (weeklies (ledger db))) (length weeks)" "fresh_rows fresh_plan (plan_ids db) (length months)"
  shows "left_weeks (weeklies (ledger db)) \<subseteq> left_weeks (weeklies (ledger db'))
    \<and> left_plans (plans (ledger db)) \<subseteq> left_plans (plans (ledger db'))
    \<and> advances (ledger db') = advances (ledger db) \<and> week_keys db' \<and> distinct (plan_ids db')"
  using refile_keeps[OF assms] by simp

definition filed :: planning_db where
  "filed = planned_start\<lparr>ledger := (ledger planned_start)\<lparr>weeklies := [asked_week\<lparr>wk_status := WEEK_CONFIRMED\<rparr>], plans := [blank_plan]\<rparr>\<rparr>"

lemma refile_leaves_filed_requests_witness:
  "\<exists>db'. refile (numbered ''w'') (numbered ''p'') [(''officer'', Date 2026 7 8)] [(''officer'', ''2026'', 7)] filed = Inr db'
     \<and> blank_plan \<in> set (plans (ledger db'))"
proof -
  have "of_owner_week ''officer'' (Date 2026 7 6) (asked_week\<lparr>wk_status := WEEK_CONFIRMED\<rparr>)"
    by (simp add: of_owner_week_def asked_week_def new_week_def)
  then have one: "generate_weeks (numbered ''w'') [(''officer'', Date 2026 7 8)] filed = Inr filed"
    by (simp add: generate_weekly_fund_request_def demo_week filed_def REBUILDABLE_WEEKLY_STATUSES_def Let_def)
  have "case sync_monthly_periods (numbered ''p'') [(''officer'', ''2026'', 7)] filed of Inr _ \<Rightarrow> True | Inl _ \<Rightarrow> False" by code_simp
  then obtain db' where run: "refile (numbered ''w'') (numbered ''p'') [(''officer'', Date 2026 7 8)] [(''officer'', ''2026'', 7)] filed = Inr db'"
    using one by (auto simp: refile_def split: sum.splits)
  have "week_keys filed" "distinct (plan_ids filed)" by (simp_all add: week_keys_def plan_ids_def filed_def)
  moreover have "fresh_rows (numbered ''w'') (map wk_id (weeklies (ledger filed))) 1" "fresh_rows (numbered ''p'') (plan_ids filed) 1"
    using numbered_inj by (simp_all add: fresh_rows_def plan_ids_def filed_def numbered_def asked_week_def new_week_def blank_plan_def)
  moreover have "blank_plan \<in> left_plans (plans (ledger filed))" by (simp add: left_plans_def filed_def blank_plan_def)
  ultimately show ?thesis using refile_leaves_filed_requests[OF run] run by (auto simp: left_plans_def)
qed

end
