(* ===== verification/FundMoneyProperties.thy ===== *)
theory FundMoneyProperties
  imports FundPlanningProperties
begin

text \<open>
  The planning and the paying of the same money together: every operation of the planning is
  a step of the fund ledger, a planned week is paid to the shilling, and what a sync and a
  submission do to money that has already moved.
\<close>

section \<open>Planned and paid\<close>

lemma money_steps:
  assumes "money_step\<^sup>*\<^sup>* db db'" "fund_reachable (ledger db)" "sound_lines db" "list_all honest_week (weeklies (ledger db))"
  shows "fund_step\<^sup>*\<^sup>* (ledger db) (ledger db') \<and> fund_reachable (ledger db') \<and> sound_lines db' \<and> list_all honest_week (weeklies (ledger db'))"
  using assms(1)
proof (induction rule: rtranclp_induct)
  case base
  then show ?case using assms(2-4) by simp
next
  case (step a b)
  then have inv: "fund_inv (ledger a)" using reachable_fund_inv by blast
  with money_step_refines[OF step.hyps(2)] step.IH have "ledger b = ledger a \<or> fund_step (ledger a) (ledger b)" by blast
  then have "fund_step\<^sup>*\<^sup>* (ledger db) (ledger b) \<and> fund_reachable (ledger b)"
    using step.IH by (auto intro: fund_reachable.step rtranclp.rtrancl_into_rtrancl)
  then show ?case using step money_step_sound[OF step.hyps(2)] money_step_honest[OF step.hyps(2) inv] by simp
qed



text \<open>C32: A planned week is paid to the shilling. A weekly request of any history of planning and paying that
  is paid out releases an amount within its total, and the advances of its lines are paid
  exactly that amount together, although the shares are computed in floating point.\<close>
theorem planned_week_paid_exactly:
  assumes "money_step\<^sup>*\<^sup>* db db'" "fund_reachable (ledger db)" "sound_lines db" "list_all honest_week (weeklies (ledger db))"
    "disburse_weekly w i data p (ledger db') = Inr l" "get_weekly i (ledger db') = Inr r" "wk_total r < 2 ^ 50"
  shows "\<exists>amount r'. 0 < amount \<and> amount \<le> sum_list (map wl_cost (wk_lines r)) \<and> r' \<in> set (weeklies l) \<and> wk_id r' = i \<and> wk_disbursed r' = Some amount
    \<and> sum_list (map (\<lambda>a. or_zero (ad_disbursed a)) (advances_of_week r l)) = amount"
proof -
  note steps = money_steps[OF assms(1-4)]
  have "sound_rows (ledger db')" using steps reachable_fund_inv by (auto simp: fund_inv_def)
  moreover have "r \<in> set (weeklies (ledger db'))" using assms(6) by (auto simp: get_weekly_def dest!: find_Some_set)
  with steps have "wk_total r = sum_list (map wl_cost (wk_lines r))" "list_all (\<lambda>l. 0 \<le> wl_cost l) (wk_lines r)"
    by (auto simp: list_all_iff honest_week_def)
  ultimately show ?thesis using weekly_split_exact[OF assms(5) _ assms(6) _ _ assms(7)] by simp
qed

definition paying :: planning_db where
  "paying = planned_start\<lparr>ledger := fund_demo\<rparr>"

lemma planned_week_paid_exactly_witness:
  "\<exists>db'. disburse_weekly demo_world ''week1'' [''amount'' \<mapsto> JInt 1000] cashier fund_demo = Inr db'
     \<and> (\<exists>amount. 0 < amount \<and> amount \<le> 3000 \<and> sum_list (map (\<lambda>a. or_zero (ad_disbursed a)) (advances_of_week blank_week db')) = amount)"
proof -
  obtain l where run: "disburse_weekly demo_world ''week1'' [''amount'' \<mapsto> JInt 1000] cashier (ledger paying) = Inr l"
    using demo_week_paid by (auto simp: paying_def)
  have "fund_reachable (ledger paying)" using fund_demo_reachable by (simp add: paying_def)
  moreover have "sound_lines paying" using planned_start_facts(1) by (simp add: paying_def sound_lines_def)
  moreover have "list_all honest_week (weeklies (ledger paying))"
    by (simp add: paying_def fund_demo_def fund_start_def honest_week_def blank_week_def)
  moreover have "get_weekly ''week1'' (ledger paying) = Inr blank_week"
    by (simp add: paying_def fund_demo_def fund_start_def get_weekly_def blank_week_def of_option_def)
  ultimately show ?thesis using planned_week_paid_exactly[OF rtranclp.rtrancl_refl _ _ _ run, of blank_week] run
    by (force simp: paying_def blank_week_def)
qed

section \<open>Advances\<close>






text \<open>C39: But a sync drops money that has moved. An advance whose accountability or reimbursement is under way
  is deleted when its line is gone, costs nothing any more, or its activity became the
  partner's: only advances disbursed, accounted or reimbursed are kept.\<close>
theorem sync_drops_open_accounts:
  assumes "sync_for_activities fresh False given ws db = Inr db'" "unique_advances (ledger db)" "a \<in> set (advances (ledger db))"
    "ad_status a \<in> set MONEY_MOVED_ADVANCE_STATUSES" "ad_status a \<notin> set PAST_CANCELLATION" "ad_activity a \<in> set (map pw_id ws)"
    "ad_line a \<notin> set (map (cl_id \<circ> snd) (staff_lines (staff_work ws) db))" "distinct (map ad_line (advances (ledger db)))"
  shows "ad_line a \<notin> set (map ad_line (advances (ledger db')))"
proof -
  from sync_rows[OF assms(1,2)] obtain mid rows where mid: "list_all2 refreshes (filter (sync_kept ws db) (advances (ledger db))) mid"
    and rows: "advances (ledger db') = mid @ rows" "set (map ad_line rows) \<subseteq> set (map (cl_id \<circ> snd) (staff_lines (staff_work ws) db))" by blast
  have "ad_line b \<noteq> ad_line a" if "b \<in> set mid" for b
  proof
    assume same: "ad_line b = ad_line a"
    from refreshed_member[OF mid that] obtain a' where a': "sync_kept ws db a'" "a' \<in> set (advances (ledger db))" "refreshes a' b" by auto
    with same assms(3,8) have "a' = a" by (auto simp: refreshes_facts distinct_map inj_on_def)
    with a'(1) assms(5-7) show False by (auto simp: sync_kept_def)
  qed
  then have "ad_line a \<notin> set (map ad_line mid)" by (metis imageE list.set_map)
  with rows assms(7) show ?thesis unfolding rows(1) map_append set_append by blast
qed

definition accounting :: planning_db where
  "accounting = planned_start\<lparr>ledger := submitted_week 800 0 ''fuel'', cost_lines := []\<rparr>"

lemma sync_drops_open_accounts_witness:
  "\<exists>db'. sync_for_activities (numbered ''adv'') False None [demo_work] accounting = Inr db' \<and> ''line1'' \<notin> set (map ad_line (advances (ledger db')))"
proof -
  have "case sync_for_activities (numbered ''adv'') False None [demo_work] accounting of Inr _ \<Rightarrow> True | Inl _ \<Rightarrow> False" by code_simp
  then obtain db' where run: "sync_for_activities (numbered ''adv'') False None [demo_work] accounting = Inr db'" by (auto split: sum.splits)
  have "list_ex (\<lambda>a. ad_line a = ''line1'' \<and> ad_activity a = ''act1'' \<and> ad_status a = ACCOUNTABILITY_PENDING) (advances (submitted_week 800 0 ''fuel''))"
    by code_simp
  then obtain a where a: "a \<in> set (advances (ledger accounting))" "ad_line a = ''line1''" "ad_activity a = ''act1''" "ad_status a = ACCOUNTABILITY_PENDING"
    by (auto simp: list_ex_iff accounting_def)
  have "fund_reachable (ledger accounting)" using demo_weeks_reachable(2) by (simp add: accounting_def)
  then have "unique_advances (ledger accounting)" "distinct (map ad_line (advances (ledger accounting)))"
    using reachable_fund_inv by (auto simp: fund_inv_def sound_rows_def fund_tables_def)
  with sync_drops_open_accounts[OF run _ a(1)] a run show ?thesis
    by (auto simp: MONEY_MOVED_ADVANCE_STATUSES_def PAST_CANCELLATION_def demo_work_def staff_lines_def accounting_def)
qed

section \<open>Submissions\<close>

text \<open>C38: A submitted period asks for what staff money may pay. After a submission there is a submitted request
  of the caller for the period and the lens they work in; its total is the sum of its items,
  each item is a fundable line of work the caller sees that is not called off, and neither the
  advances nor the weekly requests have changed.\<close>
theorem submission_asks_for_fundable_lines:
  assumes "submit_request i today in_scope lens strict period data p db = Inr db'"
  shows "\<exists>f \<in> set (plans (ledger db')). pl_owner f = fp_user p \<and> pl_period f = period \<and> pl_scope f = lens \<and> pl_status f = PLAN_SUBMITTED
    \<and> pl_total f = sum_list (map pi_amount (pl_items f))
    \<and> list_all (\<lambda>x. \<exists>c \<in> set (cost_lines db). pi_line x = cl_id c \<and> pi_amount x = cl_amount c \<and> fundable_line db c
        \<and> (\<exists>w \<in> set (works db). pw_id w = cl_activity c \<and> in_scope w \<and> pw_status w \<notin> set NON_FUNDABLE_ACTIVITY_STATUSES)) (pl_items f)
    \<and> advances (ledger db') = advances (ledger db) \<and> weeklies (ledger db') = weeklies (ledger db)"
proof -
  from assms obtain fy key ls wanted where ls: "ls = filter (\<lambda>l. list_ex (\<lambda>w. pw_id w = cl_activity l
      \<and> w \<notin> set (filter (unpriced db) (period_work in_scope fy wanted db))) (period_work in_scope fy wanted db) \<and> fundable_line db l) (cost_lines db)"
    and stored: "store_submission i lens (fp_user p) period key ls db = Inr db'" by (rule submission_stored)
  have "\<exists>c \<in> set (cost_lines db). pi_line x = cl_id c \<and> pi_amount x = cl_amount c \<and> fundable_line db c
      \<and> (\<exists>w \<in> set (works db). pw_id w = cl_activity c \<and> in_scope w \<and> pw_status w \<notin> set NON_FUNDABLE_ACTIVITY_STATUSES)"
    if "x \<in> set (plan_items ls)" for x
  proof -
    from that obtain c where "c \<in> set ls" "pi_line x = cl_id c" "pi_amount x = cl_amount c" by (auto simp: plan_items_def)
    then show ?thesis by (auto simp: ls list_ex_iff period_work_def)
  qed
  then have "list_all (\<lambda>x. \<exists>c \<in> set (cost_lines db). pi_line x = cl_id c \<and> pi_amount x = cl_amount c \<and> fundable_line db c
      \<and> (\<exists>w \<in> set (works db). pw_id w = cl_activity c \<and> in_scope w \<and> pw_status w \<notin> set NON_FUNDABLE_ACTIVITY_STATUSES)) (plan_items ls)"
    by (simp add: list_all_iff)
  moreover have "sum_list (map pi_amount (plan_items ls)) = sum_list (map cl_amount ls)" by (simp add: plan_items_def comp_def)
  moreover from stored_row[OF stored] obtain f fs where f: "db' = with_plans fs db" "f \<in> set fs" "of_submitter (fp_user p) period key f"
    "pl_scope f = lens" "pl_status f = PLAN_SUBMITTED" "pl_items f = plan_items ls" "pl_total f = sum_list (map cl_amount ls)" by blast
  ultimately show ?thesis by (intro bexI[of _ f]) (simp_all add: of_submitter_def)
qed

definition july :: payload where
  "july = [''fy'' \<mapsto> JStr ''2026'', ''month'' \<mapsto> JInt 7]"

lemma submission_asks_for_fundable_lines_witness:
  "\<exists>db'. submit_request ''plan1'' (Date 2026 7 1) (\<lambda>_. True) ''own'' True MONTHLY_PERIOD july officer planned_start = Inr db'
     \<and> (\<exists>f \<in> set (plans (ledger db')). pl_owner f = ''officer'' \<and> pl_status f = PLAN_SUBMITTED \<and> pl_total f = sum_list (map pi_amount (pl_items f)))"
proof -
  have "case submit_request ''plan1'' (Date 2026 7 1) (\<lambda>_. True) ''own'' True MONTHLY_PERIOD july officer planned_start of Inr _ \<Rightarrow> True | Inl _ \<Rightarrow> False"
    by code_simp
  then obtain db' where run: "submit_request ''plan1'' (Date 2026 7 1) (\<lambda>_. True) ''own'' True MONTHLY_PERIOD july officer planned_start = Inr db'"
    by (auto split: sum.splits)
  show ?thesis using submission_asks_for_fundable_lines[OF run] run by (auto simp: acts_as_def)
qed

text \<open>C40: But a submission can take a paid request back to submitted. The guard looks at one request of the
  person and period, whatever its lens, and the write goes to the one of the lens in force: when
  the first may be submitted again and the second is paid, the paid one becomes submitted, its
  items and its total replaced, its payment still on it.\<close>
theorem resubmission_takes_back_payment:
  assumes "first_plan (of_submitter user period key) (plans (ledger db)) = Some f1" "pl_status f1 \<in> set RESUBMITTABLE_STATUSES"
    "find (\<lambda>f. of_submitter user period key f \<and> pl_scope f = lens) (plans (ledger db)) = Some f" "pl_status f = PLAN_DISBURSED"
    "plan_accepted key (sum_list (map cl_amount ls)) (plan_items ls) = Inr ()"
  shows "\<exists>db'. store_submission i lens user period key ls db = Inr db'
    \<and> f\<lparr>pl_total := sum_list (map cl_amount ls), pl_status := PLAN_SUBMITTED, pl_items := plan_items ls\<rparr> \<in> set (plans (ledger db'))"
  using assms find_Some_set[OF assms(3)] by (auto simp: store_submission_def Let_def set_update_where intro: image_eqI[of _ _ f])

definition two_lenses :: planning_db where
  "two_lenses = with_plans [blank_plan\<lparr>pl_id := ''plan0'', pl_owner := ''lead'', pl_status := PLAN_DRAFT\<rparr>,
     blank_plan\<lparr>pl_owner := ''lead'', pl_scope := ''team'', pl_status := PLAN_DISBURSED, pl_disbursed := Some 3000\<rparr>] planned_start"

lemma resubmission_takes_back_payment_witness:
  "\<exists>db'. store_submission ''plan2'' ''team'' ''lead'' MONTHLY_PERIOD ''2026-M7'' [] two_lenses = Inr db'
     \<and> blank_plan\<lparr>pl_owner := ''lead'', pl_scope := ''team'', pl_disbursed := Some 3000, pl_total := 0, pl_status := PLAN_SUBMITTED, pl_items := []\<rparr>
       \<in> set (plans (ledger db'))"
proof -
  let ?f1 = "blank_plan\<lparr>pl_id := ''plan0'', pl_owner := ''lead'', pl_status := PLAN_DRAFT\<rparr>"
  let ?f = "blank_plan\<lparr>pl_owner := ''lead'', pl_scope := ''team'', pl_status := PLAN_DISBURSED, pl_disbursed := Some 3000\<rparr>"
  have "sort_key pl_id (plans (ledger two_lenses)) = [?f1, ?f]" by (simp add: two_lenses_def blank_plan_def)
  then have "first_plan (of_submitter ''lead'' MONTHLY_PERIOD ''2026-M7'') (plans (ledger two_lenses)) = Some ?f1"
    by (simp add: first_plan_def of_submitter_def blank_plan_def)
  moreover have "find (\<lambda>f. of_submitter ''lead'' MONTHLY_PERIOD ''2026-M7'' f \<and> pl_scope f = ''team'') (plans (ledger two_lenses)) = Some ?f"
    by (simp add: two_lenses_def of_submitter_def blank_plan_def)
  moreover have "plan_accepted ''2026-M7'' (sum_list (map cl_amount [])) (plan_items []) = Inr ()"
    by (simp add: plan_accepted_def plan_items_def big_integer_def)
  ultimately show ?thesis using resubmission_takes_back_payment[of "''lead''" MONTHLY_PERIOD "''2026-M7''" two_lenses ?f1 "''team''" ?f "[]" "''plan2''"]
    by (simp add: RESUBMITTABLE_STATUSES_def plan_items_def)
qed

end
