(* ===== verification/Spec2Isabelle.thy ===== *)
theory Spec2Isabelle
  imports PyValues FiscalYear ActivityTypes RateCard VisitPricing Costing LedgerProperties
    LoanReminderProperties AuditProperties OutboxProperties FundProperties FundMoneyProperties
begin

text \<open>
  The Edify planning tool: verification of its planning money and of its lending.

  The program is a Django application (src/apps). Programme staff plan visits, trainings
  and meetings at schools; every planned activity is priced from one rate card, and the
  money is asked for and paid out per fiscal year. Beside it the business transformation
  desk runs a lending programme: schools apply for loans, lending partners are funded
  through facilities, and a ledger records what was received, reserved, lent and repaid.
  People are told of what concerns them through one inbox.

  The parts that are modelled, and how they lean on each other:

    \<^item> Prelude: errors as values (\<open>err + 'a\<close>), \<open>bindE\<close>, tables as lists of rows, sums over
      them, and the contracts \<open>keyed_table\<close> and \<open>exact_split\<close>. PyValues: payload values,
      Python text and decimal numbers. CalendarDates, IsoDates: \<open>datetime.date\<close>, its day
      numbers and its texts. Lifecycles: the contract of a table of permitted next states.
    \<^item> FiscalYear (core/fy.py): the fiscal year, its quarters and months.
    \<^item> ActivityTypes (core/activity_types.py, core/enums.py): activity types, statuses, groups.
    \<^item> RateCard (budget/reference.py, costing_service.py, models.py): the canonical rates, the
      retired keys, the lookup of old names, the seeding of a card and the live card.
    \<^item> VisitPricing (daily_visit_batches/pricing.py, districts.py, return_day.py): the pool of a
      day of visits and its exact split over the schools; it reads the rate card.
    \<^item> Costing (budget/costing.py): the cost of any activity as lines of the rate card; its lone
      visit is the pool of VisitPricing.
    \<^item> LedgerState, LedgerQueries, FacilityOps, LoanOps (business_transformation/lending_ledger.py
      and the tables of models.py): the lending ledger, every command of it.
      LedgerEvents is its abstract specification, LedgerInvariant the invariant,
      LedgerRefinement the commands as runs of abstract events, LedgerScenario a small
      portfolio, LedgerProperties the results.
    \<^item> Notifications (notifications/services.py): the inbox and who holds a role.
      NotificationLifecycle: its commands as a step relation and the promise of one live
      notice per unresolved condition.
    \<^item> LoanApplications, LoanReminders (business_transformation/loan_tracking.py, loan_forms.py):
      the intake of loan applications, their follow-up, the reminders and the monthly report.
      They read the ledger (\<open>loan_position\<close>), write the inbox (\<open>trigger\<close>,
      \<open>resolve_condition\<close>) and address people through the directory. LoanTracking holds the
      commands, the reachable databases and the invariant, LoanTrackingProperties and
      LoanReminderProperties the results.
    \<^item> AuditCanonical (core/audit_hash.py): the text an audit record is hashed as, and that it
      identifies the record. AuditChain (audit/services.py, models.py, the rebuild command):
      the audit table, deferred and direct rows, sealing, both walks, the rebuild.
      AuditChainProofs: the contract \<open>chain_writer\<close> and the invariant, AuditProperties the
      results.
    \<^item> Outbox (outbox/services.py, models.py, health.py): the queue of durable events, claims,
      attempts, retries, dead letters and their notices in the inbox. OutboxSteps: workers
      and callers as step relations and what every step keeps; OutboxProperties: how much
      work is left, the loop of the drain, the results.
    \<^item> FundLedger, FundAdvances, FundChannels, FundPlans (fund_requests/models.py,
      advance_service.py, weekly_service.py, funding_guard.py, services.py,
      disbursement_dashboard_service.py and the accountant's view of finance_views.py): the
      advances of the planned work and the channels that pay them - the advance itself, the
      weekly request, the period request. PyFloats: the floats the shares of a payment are
      computed in. FundMoves: every command as moves of single advances. FundInvariant: the
      reachable databases, their invariant and what was paid. FundShares: the split of a
      paid week. FundSettling: how an accountability is settled. FundProperties: the results.
    \<^item> FundPlanning (fundable.py, follow.py, monthly_service.py, \<open>sync_for_activities\<close> of
      advance_service.py, the generation of weekly_service.py, \<open>services.submit\<close>): how priced
      work becomes advances, weekly requests, monthly drafts and submitted periods. It writes
      the tables of FundLedger and reads the cost lines the costing engine wrote. FundSyncing:
      what a sync keeps, refreshes and opens. FundGenerating, FundFiling: the rebuilds by
      cases, what they leave alone, and the planning as steps of the fund ledger
      (\<open>money_step\<close>). FundPlanningProperties, FundMoneyProperties: the results.

  How the model stands for the code. A table is the list of its rows in insertion order; a
  row is a record with the columns the modelled code reads or writes; a database is the
  record of its tables. A service function inside \<open>transaction.atomic\<close> returns an error
  and no database, or the new database: an error leaves the caller's database as it was.
  Where a job is several transactions (\<open>run_loan_tracking_notifications\<close>) the database
  reached so far is returned beside the error. Constraints of the tables (checks, unique
  keys) are part of the insertion or saving of a row and raise \<open>IntegrityError\<close>. Money is
  an integer of hundredths, rates are whole shillings, as in the code; Python's integers
  do not overflow, and the limits of \<open>decimal\<close> (28 digits) and of the columns are written
  out. Clocks, primary keys, Django's \<open>parse_date\<close>, the success of the audit row and what a
  principal may see (core/scoping.py) are parameters. A database serves one request at a
  time: rows are locked by \<open>select_for_update\<close>, and the interleaving of requests is the
  order of commands in a reachable state.

  What the groups of lemmas show. The rate card: seeding and aliases never change an
  existing rate; what they do to the live card. The day pool and the costing engine:
  exactness of the split, closed forms, monotonicity, agreement of the two. The ledger:
  balances, append-only journals, idempotency, refinement of the abstract events, where
  the balance of original capital can still be lost. The inbox: at most one live notice
  per condition, except after a reader reads an archived one. The intake: consistent
  rows, histories that follow the table of transitions with at most five changes, silence
  after closing, conversion only to the right loan; reminders are idempotent and the
  search for the next payment ends.

  The audit log: honest operation verifies and is sealed in order; what the last hash
  fixes; what the incremental and the full walk miss, and what a rebuild mends. SHA-256
  is a parameter: no collision is assumed beyond the texts the two tables hash.

  The fund requests: what is paid stays paid, balances once settled, and needs somebody
  else's approval; the shares of a week add up in spite of the floats; what reconciles can
  be settled, and which accountabilities never can. The planning side: the advances and the
  generated week follow the lines exactly, ask for nothing twice and leave what was filed
  alone; rebuilding once at the end is as good as rebuilding each time, except after a rebuild
  without lines; the planning makes only steps the ledger's invariant is proved for, so a
  planned week is paid to the shilling. Two ways money that moved is lost sight of.

  The outbox: no event is lost or doubled, the work on the events there are is bounded, a
  drain ends, a key is enqueued once; two ways in which an event that is finished is run
  again.

  Bounds. Loops of the code that are not structural are functions with a termination proof
  (\<open>roll_month\<close>, \<open>advance_due\<close>, \<open>show_nat\<close>). The loop of \<open>drain\<close> has fuel, since handlers may
  enqueue for ever; where they enqueue nothing, one round more than there are events is
  enough, as the property proves. \<open>advance_due\<close> ends because
  every step moves the month forward and the loop stops at the maturity. Text is ASCII (the
  hashed text of an audit record included):
  a middle dot in a title is written as a hyphen.

  What is not modelled, and why. Views, templates, queries for dashboards and exports (they
  compute no state); the links of notices and their delivery to devices and mail (formats
  of external services); the scheduler and the event bus; columns nothing modelled reads.
  Planned, in this order: the session and school visit calculators of the
  budget, the remaining sources of the fund requests (invoices, the vendor channel, the
  approval screens, the cost snapshot of a saved advance), the activity
  workflow with its review, the daily visit batch service, the monthly work plan, leave
  and acting assignments, the resolution of scope.
\<close>

end
